(* ===== verification/Rust_Strings.thy ===== *)
theory Rust_Strings
  imports Rust_Prelude
begin

text \<open>
  Rust's \<open>str\<close> operations that the code calls. A \<open>string\<close> is the UTF-8 byte sequence of a Rust
  string, one \<open>char\<close> per byte; literals are ASCII. \<open>trim\<close> removes the byte sequences of every
  Unicode white-space character, as \<open>str::trim\<close> does; the ASCII case operations leave every
  byte from 128 on as it is. \<open>to_uppercase\<close> is Rust's full Unicode mapping in the source; the
  model is exact on ASCII input, the alphabet of the country codes it is applied to.
\<close>

section \<open>ASCII case\<close>

definition ascii_lower :: "char \<Rightarrow> char" where
  "ascii_lower c =
     (if 65 \<le> (of_char c :: nat) \<and> (of_char c :: nat) \<le> 90 then char_of (of_char c + 32 :: nat) else c)"

definition ascii_upper :: "char \<Rightarrow> char" where
  "ascii_upper c =
     (if 97 \<le> (of_char c :: nat) \<and> (of_char c :: nat) \<le> 122 then char_of (of_char c - 32 :: nat) else c)"

definition to_ascii_lowercase :: "string \<Rightarrow> string" where
  "to_ascii_lowercase s = map ascii_lower s"

definition to_ascii_uppercase :: "string \<Rightarrow> string" where
  "to_ascii_uppercase s = map ascii_upper s"

definition to_uppercase :: "string \<Rightarrow> string" where
  "to_uppercase s = map ascii_upper s"

definition eq_ignore_ascii_case :: "string \<Rightarrow> string \<Rightarrow> bool" where
  "eq_ignore_ascii_case a b \<longleftrightarrow> to_ascii_lowercase a = to_ascii_lowercase b"

lemma of_char_less_256: "(of_char c :: nat) < 256"
  by (cases c) (simp add: of_char_def horner_sum_simps split: if_splits)

lemma of_char_ascii_upper:
  "(of_char (ascii_upper c) :: nat) =
     (if 97 \<le> (of_char c :: nat) \<and> (of_char c :: nat) \<le> 122 then of_char c - 32 else of_char c)"
  by (auto simp: ascii_upper_def intro!: mod_less)

lemma of_char_ascii_lower:
  "(of_char (ascii_lower c) :: nat) =
     (if 65 \<le> (of_char c :: nat) \<and> (of_char c :: nat) \<le> 90 then of_char c + 32 else of_char c)"
  by (auto simp: ascii_lower_def intro!: mod_less)

lemma ascii_upper_idem [simp]: "ascii_upper (ascii_upper c) = ascii_upper c"
  by (auto simp: ascii_upper_def [of "ascii_upper c"] of_char_ascii_upper)

lemma ascii_lower_idem [simp]: "ascii_lower (ascii_lower c) = ascii_lower c"
  by (auto simp: ascii_lower_def [of "ascii_lower c"] of_char_ascii_lower)

lemma ascii_upper_lower [simp]: "ascii_upper (ascii_lower c) = ascii_upper c"
proof (cases "65 \<le> (of_char c :: nat) \<and> (of_char c :: nat) \<le> 90")
  case True
  then have "ascii_upper (ascii_lower c) = char_of (of_char c :: nat)"
    by (simp add: ascii_upper_def [of "ascii_lower c"] of_char_ascii_lower)
  with True show ?thesis by (simp add: ascii_upper_def)
qed (auto simp: ascii_lower_def)

lemma to_ascii_uppercase_lower [simp]:
  "to_ascii_uppercase (to_ascii_lowercase s) = to_ascii_uppercase s"
  by (simp add: to_ascii_uppercase_def to_ascii_lowercase_def)

lemma to_uppercase_idem [simp]: "to_uppercase (to_uppercase s) = to_uppercase s"
  by (simp add: to_uppercase_def)

lemma eq_ignore_ascii_case_refl [simp]: "eq_ignore_ascii_case s s"
  by (simp add: eq_ignore_ascii_case_def)

lemma eq_ignore_ascii_case_sym: "eq_ignore_ascii_case a b \<longleftrightarrow> eq_ignore_ascii_case b a"
  by (auto simp: eq_ignore_ascii_case_def)

lemma eq_ignore_ascii_case_trans:
  "eq_ignore_ascii_case a b \<Longrightarrow> eq_ignore_ascii_case b c \<Longrightarrow> eq_ignore_ascii_case a c"
  by (simp add: eq_ignore_ascii_case_def)

lemma eq_ignore_ascii_case_cong:
  "eq_ignore_ascii_case a b \<Longrightarrow> eq_ignore_ascii_case a c \<longleftrightarrow> eq_ignore_ascii_case b c"
  by (simp add: eq_ignore_ascii_case_def)

section \<open>Prefixes, suffixes and substrings\<close>

definition strip_prefix :: "string \<Rightarrow> string \<Rightarrow> string option" where
  "strip_prefix p s = (if take (length p) s = p then Some (drop (length p) s) else None)"

definition strip_suffix :: "string \<Rightarrow> string \<Rightarrow> string option" where
  "strip_suffix p s = map_option rev (strip_prefix (rev p) (rev s))"

definition starts_with :: "string \<Rightarrow> string \<Rightarrow> bool" where
  "starts_with s p \<longleftrightarrow> take (length p) s = p"

definition ends_with :: "string \<Rightarrow> string \<Rightarrow> bool" where
  "ends_with s p \<longleftrightarrow> starts_with (rev s) (rev p)"

fun contains_str :: "string \<Rightarrow> string \<Rightarrow> bool" where
  "contains_str [] p = (p = [])"
| "contains_str (c # cs) p = (starts_with (c # cs) p \<or> contains_str cs p)"

lemma strip_prefix_append [simp]: "strip_prefix p (p @ s) = Some s"
  by (simp add: strip_prefix_def)

lemma strip_prefix_Some_iff: "strip_prefix p s = Some r \<longleftrightarrow> s = p @ r"
  by (auto simp: strip_prefix_def) (metis append_take_drop_id)

lemma strip_suffix_append [simp]: "strip_suffix p (s @ p) = Some s"
  by (simp add: strip_suffix_def)

lemma strip_suffix_Some_iff: "strip_suffix p s = Some r \<longleftrightarrow> s = r @ p"
  by (auto simp: strip_suffix_def strip_prefix_Some_iff) (metis rev_append rev_rev_ident)

lemma starts_with_append [simp]: "starts_with (p @ s) p"
  by (simp add: starts_with_def)

lemma starts_with_iff: "starts_with s p \<longleftrightarrow> (\<exists>r. s = p @ r)"
  by (auto simp: starts_with_def) (metis append_take_drop_id)

section \<open>Splitting and joining\<close>

text \<open>\<open>s.split(P)\<close>: all pieces between separators, empty ones included.\<close>

fun split_on :: "(char \<Rightarrow> bool) \<Rightarrow> string \<Rightarrow> string list" where
  "split_on P [] = [[]]"
| "split_on P (c # cs) =
     (if P c then [] # split_on P cs
      else (case split_on P cs of [] \<Rightarrow> [[c]] | p # ps \<Rightarrow> (c # p) # ps))"

fun join_with :: "string \<Rightarrow> string list \<Rightarrow> string" where
  "join_with sep [] = []"
| "join_with sep [s] = s"
| "join_with sep (s # t # ts) = s @ sep @ join_with sep (t # ts)"

lemma split_on_not_Nil [simp]: "split_on P s \<noteq> []"
  by (induction s) (auto split: list.splits)

lemma split_on_pieces: "s \<in> set (split_on P t) \<Longrightarrow> c \<in> set s \<Longrightarrow> \<not> P c"
proof (induction t arbitrary: s)
  case (Cons d t)
  obtain p ps where sp: "split_on P t = p # ps" by (cases "split_on P t") auto
  show ?case
  proof (cases "P d")
    case True
    with Cons show ?thesis by auto
  next
    case False
    with Cons.prems sp have "s = d # p \<or> s \<in> set ps" by simp
    with Cons.IH [of p] Cons.IH [of s] Cons.prems(2) sp False show ?thesis by auto
  qed
qed simp

lemma split_on_none: "\<forall>c \<in> set s. \<not> P c \<Longrightarrow> split_on P s = [s]"
  by (induction s) auto

lemma split_on_append_sep:
  "\<forall>c \<in> set s. \<not> P c \<Longrightarrow> P d \<Longrightarrow> split_on P (s @ d # t) = s # split_on P t"
  by (induction s) auto

lemma split_join:
  assumes "ss \<noteq> []" and "\<forall>s \<in> set ss. \<forall>c \<in> set s. \<not> P c" and "P d"
  shows "split_on P (join_with [d] ss) = ss"
  using assms
proof (induction "[d]" ss rule: join_with.induct)
  case (3 s t ts)
  then show ?case by (simp add: split_on_append_sep)
qed (auto simp: split_on_none)

lemma join_with_eq_Nil_iff:
  "join_with sep ss = [] \<longleftrightarrow> ss = [] \<or> ss = [[]] \<or> (sep = [] \<and> (\<forall>s \<in> set ss. s = []))"
  by (induction sep ss rule: join_with.induct) auto

section \<open>Splitting once and replacing\<close>

definition split_once :: "char \<Rightarrow> string \<Rightarrow> (string \<times> string) option" where
  "split_once c s = map_option (\<lambda>i. (take i s, drop (Suc i) s)) (position (\<lambda>d. d = c) s)"

text \<open>\<open>str::replace\<close>, for a pattern that is not empty.\<close>

function str_replace :: "string \<Rightarrow> string \<Rightarrow> string \<Rightarrow> string" where
  "str_replace p r [] = []"
| "str_replace p r (c # cs) =
     (if p \<noteq> [] \<and> starts_with (c # cs) p then r @ str_replace p r (drop (length p) (c # cs))
      else c # str_replace p r cs)"
  by pat_completeness auto

termination
  by (relation "measure (\<lambda>(_, _, s). length s)") (auto simp: neq_Nil_conv)

lemma split_once_Some_iff: "split_once c s = Some (a, b) \<longleftrightarrow> s = a @ c # b \<and> c \<notin> set a"
proof
  assume "split_once c s = Some (a, b)"
  then obtain i where i: "position (\<lambda>d. d = c) s = Some i" and ab: "a = take i s" "b = drop (Suc i) s"
    by (auto simp: split_once_def)
  from position_SomeD [OF i] have "i < length s" "s ! i = c" "\<forall>j < i. s ! j \<noteq> c" by auto
  with ab show "s = a @ c # b \<and> c \<notin> set a"
    by (auto simp: id_take_nth_drop [symmetric] in_set_conv_nth)
next
  assume s: "s = a @ c # b \<and> c \<notin> set a"
  then have "c \<notin> set a" by simp
  then have "position (\<lambda>d. d = c) (a @ c # b) = Some (length a)" by (induction a) auto
  with s show "split_once c s = Some (a, b)" by (simp add: split_once_def)
qed

text \<open>\<open>Path::join\<close> on a Unix path.\<close>

definition path_join :: "string \<Rightarrow> string \<Rightarrow> string" where
  "path_join dir p =
     (if starts_with p ''/'' then p else if dir = [] \<or> ends_with dir ''/'' then dir @ p else dir @ ''/'' @ p)"

section \<open>White space\<close>

text \<open>The UTF-8 encodings of the characters with the Unicode \<open>White_Space\<close> property.\<close>

definition white_space_seqs :: "string list" where
  "white_space_seqs =
     [[CHR 0x09], [CHR 0x0A], [CHR 0x0B], [CHR 0x0C], [CHR 0x0D], [CHR 0x20],
      [CHR 0xC2, CHR 0x85], [CHR 0xC2, CHR 0xA0], [CHR 0xE1, CHR 0x9A, CHR 0x80],
      [CHR 0xE2, CHR 0x80, CHR 0x80], [CHR 0xE2, CHR 0x80, CHR 0x81],
      [CHR 0xE2, CHR 0x80, CHR 0x82], [CHR 0xE2, CHR 0x80, CHR 0x83],
      [CHR 0xE2, CHR 0x80, CHR 0x84], [CHR 0xE2, CHR 0x80, CHR 0x85],
      [CHR 0xE2, CHR 0x80, CHR 0x86], [CHR 0xE2, CHR 0x80, CHR 0x87],
      [CHR 0xE2, CHR 0x80, CHR 0x88], [CHR 0xE2, CHR 0x80, CHR 0x89],
      [CHR 0xE2, CHR 0x80, CHR 0x8A], [CHR 0xE2, CHR 0x80, CHR 0xA8],
      [CHR 0xE2, CHR 0x80, CHR 0xA9], [CHR 0xE2, CHR 0x80, CHR 0xAF],
      [CHR 0xE2, CHR 0x81, CHR 0x9F], [CHR 0xE3, CHR 0x80, CHR 0x80]]"

text \<open>Drop leading occurrences of the given sequences; the first argument bounds the rounds.\<close>

fun strip_leading :: "nat \<Rightarrow> string list \<Rightarrow> string \<Rightarrow> string" where
  "strip_leading 0 ws s = s"
| "strip_leading (Suc n) ws s =
     (case find (\<lambda>w. starts_with s w) ws of
        None \<Rightarrow> s
      | Some w \<Rightarrow> strip_leading n ws (drop (length w) s))"

definition trim_start :: "string \<Rightarrow> string" where
  "trim_start s = strip_leading (length s) white_space_seqs s"

definition trim_end :: "string \<Rightarrow> string" where
  "trim_end s = rev (strip_leading (length s) (map rev white_space_seqs) (rev s))"

definition trim :: "string \<Rightarrow> string" where
  "trim s = trim_end (trim_start s)"

text \<open>\<open>trim_start_matches(c)\<close> and \<open>trim_end_matches(c)\<close> for one ASCII character.\<close>

definition trim_start_matches :: "char \<Rightarrow> string \<Rightarrow> string" where
  "trim_start_matches c s = dropWhile (\<lambda>d. d = c) s"

definition trim_end_matches :: "char \<Rightarrow> string \<Rightarrow> string" where
  "trim_end_matches c s = rev (dropWhile (\<lambda>d. d = c) (rev s))"

text \<open>The first byte of a white-space sequence, and the last: what a trimmed string avoids.\<close>

definition ws_lead :: "char \<Rightarrow> bool" where
  "ws_lead c \<longleftrightarrow> c \<in> set (map hd white_space_seqs)"

definition ws_tail :: "char \<Rightarrow> bool" where
  "ws_tail c \<longleftrightarrow> c \<in> set (map last white_space_seqs)"

lemma strip_leading_id: "\<forall>w \<in> set ws. \<not> starts_with s w \<Longrightarrow> strip_leading n ws s = s"
  by (cases n) (auto simp: find_eq_None_iff split: option.splits dest: find_SomeD)

lemma starts_with_lead: "starts_with s w \<Longrightarrow> w \<noteq> [] \<Longrightarrow> s \<noteq> [] \<and> hd s = hd w"
  by (cases w) (auto simp: starts_with_iff)

lemma white_space_seqs_not_Nil: "w \<in> set white_space_seqs \<Longrightarrow> w \<noteq> []"
  by (auto simp: white_space_seqs_def)

lemma trim_start_id: "s = [] \<or> \<not> ws_lead (hd s) \<Longrightarrow> trim_start s = s"
  unfolding trim_start_def
proof (rule strip_leading_id, rule ballI, rule notI)
  fix w assume a: "s = [] \<or> \<not> ws_lead (hd s)" and w: "w \<in> set white_space_seqs" and "starts_with s w"
  then have "s \<noteq> []" and "hd s = hd w"
    using starts_with_lead white_space_seqs_not_Nil by auto
  with a w show False by (auto simp: ws_lead_def)
qed

lemma trim_end_id: "s = [] \<or> \<not> ws_tail (last s) \<Longrightarrow> trim_end s = s"
proof -
  assume a: "s = [] \<or> \<not> ws_tail (last s)"
  have "strip_leading (length s) (map rev white_space_seqs) (rev s) = rev s"
  proof (rule strip_leading_id, rule ballI, rule notI)
    fix w assume w: "w \<in> set (map rev white_space_seqs)" and sw: "starts_with (rev s) w"
    then obtain v where v: "v \<in> set white_space_seqs" "w = rev v" by auto
    then have "v \<noteq> []" by (simp add: white_space_seqs_not_Nil)
    with v starts_with_lead [OF sw] have "s \<noteq> []" and "last s = last v"
      by (auto simp: hd_rev)
    with a v show False by (auto simp: ws_tail_def)
  qed
  then show ?thesis by (simp add: trim_end_def)
qed

lemma trim_id:
  "s = [] \<or> (\<not> ws_lead (hd s) \<and> \<not> ws_tail (last s)) \<Longrightarrow> trim s = s"
  by (simp add: trim_def) (metis trim_end_id trim_start_id)

lemma trim_Nil [simp]: "trim [] = []"
  by (simp add: trim_id)

section \<open>Lines\<close>

text \<open>\<open>BufRead::lines\<close>: the pieces between newlines, without a final empty piece and without a
  carriage return before the newline.\<close>

definition strip_cr :: "string \<Rightarrow> string" where
  "strip_cr s = (case strip_suffix [CHR 0x0D] s of Some r \<Rightarrow> r | None \<Rightarrow> s)"

definition read_lines :: "string \<Rightarrow> string list" where
  "read_lines s =
     (let ps = split_on (\<lambda>c. c = CHR 0x0A) s in
      map strip_cr (butlast ps) @ (if last ps = [] then [] else [last ps]))"

definition line_text :: "string \<Rightarrow> bool" where
  "line_text s \<longleftrightarrow> CHR 0x0A \<notin> set s \<and> (s = [] \<or> last s \<noteq> CHR 0x0D)"

lemma strip_cr_id: "line_text s \<Longrightarrow> strip_cr s = s"
  by (auto simp: line_text_def strip_cr_def strip_suffix_Some_iff split: option.splits)

lemma read_lines_Nil [simp]: "read_lines [] = []"
  by (simp add: read_lines_def)

lemma split_on_append_line:
  "split_on (\<lambda>c. c = CHR 0x0A) (s @ CHR 0x0A # t) =
     split_on (\<lambda>c. c = CHR 0x0A) s @ split_on (\<lambda>c. c = CHR 0x0A) t"
proof (induction s)
  case (Cons c s)
  obtain p ps where "split_on (\<lambda>c. c = CHR 0x0A) s = p # ps"
    by (cases "split_on (\<lambda>c. c = CHR 0x0A) s") auto
  with Cons show ?case by simp
qed simp

lemma read_lines_concat:
  "\<forall>l \<in> set ls. line_text l \<Longrightarrow> read_lines (concat (map (\<lambda>l. l @ [CHR 0x0A]) ls)) = ls"
proof (induction ls)
  case (Cons l ls)
  let ?rest = "concat (map (\<lambda>l. l @ [CHR 0x0A]) ls)"
  have "split_on (\<lambda>c. c = CHR 0x0A) l = [l]"
    using Cons.prems by (intro split_on_none) (auto simp: line_text_def)
  then have "read_lines (l @ CHR 0x0A # ?rest) = strip_cr l # read_lines ?rest"
    by (simp add: read_lines_def split_on_append_line Let_def)
  with Cons show ?case by (simp add: strip_cr_id)
qed simp

section \<open>\<open>String::from_utf8\<close>\<close>

text \<open>Strings and byte vectors are both lists of bytes, so the conversion is the check of the standard
  library: the width of a sequence is given by its first byte; an ill-formed sequence is reported with
  the number of bytes that cannot start or continue it, an input that ends inside one without.\<close>

definition utf8_continues :: "nat \<Rightarrow> bool" where
  "utf8_continues b \<longleftrightarrow> 0x80 \<le> b \<and> b \<le> 0xBF"

definition utf8_width :: "nat \<Rightarrow> nat" where
  "utf8_width b =
     (if b \<le> 0x7F then 1 else if 0xC2 \<le> b \<and> b \<le> 0xDF then 2 else if 0xE0 \<le> b \<and> b \<le> 0xEF then 3
      else if 0xF0 \<le> b \<and> b \<le> 0xF4 then 4 else 0)"

definition utf8_second :: "nat \<Rightarrow> nat \<Rightarrow> bool" where
  "utf8_second a b \<longleftrightarrow>
     utf8_continues b \<and> (a = 0xE0 \<longrightarrow> 0xA0 \<le> b) \<and> (a = 0xED \<longrightarrow> b \<le> 0x9F) \<and>
     (a = 0xF0 \<longrightarrow> 0x90 \<le> b) \<and> (a = 0xF4 \<longrightarrow> b \<le> 0x8F)"

text \<open>\<open>utf8_tail n k bs\<close>: \<open>n\<close> more continuation bytes, \<open>k\<close> read; an error carries the reported length.\<close>

fun utf8_tail :: "nat \<Rightarrow> nat \<Rightarrow> nat list \<Rightarrow> nat option + unit" where
  "utf8_tail 0 k bs = Ok ()"
| "utf8_tail (Suc n) k [] = Err None"
| "utf8_tail (Suc n) k (b # bs) = (if utf8_continues b then utf8_tail n (k + 1) bs else Err (Some k))"

definition utf8_char :: "nat \<Rightarrow> nat list \<Rightarrow> nat option + unit" where
  "utf8_char a bs =
     (if utf8_width a = 0 then Err (Some 1)
      else if utf8_width a = 1 then Ok ()
      else case bs of
        [] \<Rightarrow> Err None
      | b # bs' \<Rightarrow> if utf8_second a b then utf8_tail (utf8_width a - 2) 2 bs' else Err (Some 1))"

fun utf8_check :: "nat \<Rightarrow> nat list \<Rightarrow> string + unit" where
  "utf8_check i [] = Ok ()"
| "utf8_check i (a # bs) =
     (case utf8_char a bs of
        Inl None \<Rightarrow> Err (''incomplete utf-8 byte sequence from index '' @ show_nat i)
      | Inl (Some n) \<Rightarrow>
          Err (''invalid utf-8 sequence of '' @ show_nat n @ '' bytes from index '' @ show_nat i)
      | Inr _ \<Rightarrow> utf8_check (i + utf8_width a) (drop (utf8_width a - 1) bs))"

definition from_utf8 :: "string \<Rightarrow> string + string" where
  "from_utf8 bs = and_then (utf8_check 0 (map of_char bs)) (\<lambda>_. Ok bs)"

lemma from_utf8_Ok: "from_utf8 bs = Ok s \<Longrightarrow> s = bs"
  by (auto simp: from_utf8_def and_then_Inr_iff)

lemma utf8_check_ascii: "\<forall>b \<in> set bs. b \<le> 0x7F \<Longrightarrow> utf8_check i bs = Ok ()"
  by (induction bs arbitrary: i) (simp_all add: utf8_char_def utf8_width_def)

lemma from_utf8_ascii: "\<forall>c \<in> set bs. of_char c \<le> (0x7F :: nat) \<Longrightarrow> from_utf8 bs = Ok bs"
  by (simp add: from_utf8_def utf8_check_ascii)

end
