(* ===== verification/Mim_Core.thy ===== *)
theory Mim_Core
  imports Rust_Strings
begin

text \<open>
  Crate \<open>mim-core\<close>: the unified error type, nil reasons and nillable values, representation
  terms, semantic identifiers (a UUID by its canonical text) and qualified names with their URIs.
\<close>

section \<open>Errors (\<open>error.rs\<close>)\<close>

datatype mim_error =
    InvalidSemanticId string
  | InvalidUri string
  | InvalidRepresentationTerm string
  | InvalidNilReason string
  | MimParse string
  | MimValidation string
  | MimModel string
  | MimSerialization string
  | MimCompliance string
  | MimNotFound string
  | MimIo string

fun show_mim_error :: "mim_error \<Rightarrow> string" where
  "show_mim_error (InvalidSemanticId s) = ''invalid semantic id: '' @ s"
| "show_mim_error (InvalidUri s) = ''invalid MIM URI: '' @ s"
| "show_mim_error (InvalidRepresentationTerm s) = ''invalid representation term: '' @ s"
| "show_mim_error (InvalidNilReason s) = ''invalid nil reason: '' @ s"
| "show_mim_error (MimParse s) = ''parse error: '' @ s"
| "show_mim_error (MimValidation s) = ''validation error: '' @ s"
| "show_mim_error (MimModel s) = ''model error: '' @ s"
| "show_mim_error (MimSerialization s) = ''serialization error: '' @ s"
| "show_mim_error (MimCompliance s) = ''compliance error: '' @ s"
| "show_mim_error (MimNotFound s) = ''not found: '' @ s"
| "show_mim_error (MimIo s) = ''io error: '' @ s"

section \<open>Nil reasons and nillable values (\<open>nil_reason.rs\<close>)\<close>

datatype nil_reason = Inapplicable | Missing | Unknown | Withheld | UnknownSender | Pending

definition nil_reason_all :: "nil_reason list" where
  "nil_reason_all = [Inapplicable, Missing, Unknown, Withheld, UnknownSender, Pending]"

fun nil_reason_as_str :: "nil_reason \<Rightarrow> string" where
  "nil_reason_as_str Inapplicable = ''inapplicable''"
| "nil_reason_as_str Missing = ''missing''"
| "nil_reason_as_str Unknown = ''unknown''"
| "nil_reason_as_str Withheld = ''withheld''"
| "nil_reason_as_str UnknownSender = ''unknownSender''"
| "nil_reason_as_str Pending = ''pending''"

definition nil_reason_from_str :: "string \<Rightarrow> mim_error + nil_reason" where
  "nil_reason_from_str s =
     (if s = ''inapplicable'' then Ok Inapplicable
      else if s = ''missing'' then Ok Missing
      else if s = ''unknown'' then Ok Unknown
      else if s = ''withheld'' then Ok Withheld
      else if s = ''unknownSender'' \<or> s = ''unknown_sender'' then Ok UnknownSender
      else if s = ''pending'' then Ok Pending
      else Err (InvalidNilReason s))"

datatype 'a nillable = Value 'a | Nil_Because nil_reason | Absent

definition nillable_default :: "'a nillable" where
  "nillable_default = Absent"

fun is_present :: "'a nillable \<Rightarrow> bool" where
  "is_present (Value v) = True"
| "is_present (Nil_Because r) = False"
| "is_present Absent = False"

fun as_option :: "'a nillable \<Rightarrow> 'a option" where
  "as_option (Value v) = Some v"
| "as_option (Nil_Because r) = None"
| "as_option Absent = None"

lemma as_option_Some_iff [simp]: "as_option n = Some v \<longleftrightarrow> n = Value v"
  by (cases n) auto

lemma is_present_iff: "is_present n \<longleftrightarrow> (\<exists>v. n = Value v)"
  by (cases n) auto

lemma nil_reason_all_complete: "r \<in> set nil_reason_all"
  by (cases r) (simp_all add: nil_reason_all_def)

lemma nil_reason_round_trip: "nil_reason_from_str (nil_reason_as_str r) = Ok r"
  by (cases r) (simp_all add: nil_reason_from_str_def)

section \<open>Representation terms (\<open>representation.rs\<close>)\<close>

datatype representation_term =
    RtIdentifier | RtName | RtText | RtIndicator | RtSpeed | RtDimension | RtDuration
  | RtQuantity | RtAmount | RtPercent | RtMeasure | RtDate | RtTime | RtDateTime | RtGraphic
  | RtSound | RtVideo | RtValue | RtCode | RtRatio | RtNumeric

definition representation_term_all :: "representation_term list" where
  "representation_term_all =
     [RtIdentifier, RtName, RtText, RtIndicator, RtSpeed, RtDimension, RtDuration, RtQuantity,
      RtAmount, RtPercent, RtMeasure, RtDate, RtTime, RtDateTime, RtGraphic, RtSound, RtVideo,
      RtValue, RtCode, RtRatio, RtNumeric]"

fun representation_term_as_str :: "representation_term \<Rightarrow> string" where
  "representation_term_as_str RtIdentifier = ''identifier''"
| "representation_term_as_str RtName = ''name''"
| "representation_term_as_str RtText = ''text''"
| "representation_term_as_str RtIndicator = ''indicator''"
| "representation_term_as_str RtSpeed = ''speed''"
| "representation_term_as_str RtDimension = ''dimension''"
| "representation_term_as_str RtDuration = ''duration''"
| "representation_term_as_str RtQuantity = ''quantity''"
| "representation_term_as_str RtAmount = ''amount''"
| "representation_term_as_str RtPercent = ''percent''"
| "representation_term_as_str RtMeasure = ''measure''"
| "representation_term_as_str RtDate = ''date''"
| "representation_term_as_str RtTime = ''time''"
| "representation_term_as_str RtDateTime = ''dateTime''"
| "representation_term_as_str RtGraphic = ''graphic''"
| "representation_term_as_str RtSound = ''sound''"
| "representation_term_as_str RtVideo = ''video''"
| "representation_term_as_str RtValue = ''value''"
| "representation_term_as_str RtCode = ''code''"
| "representation_term_as_str RtRatio = ''ratio''"
| "representation_term_as_str RtNumeric = ''numeric''"

definition representation_term_from_str :: "string \<Rightarrow> mim_error + representation_term" where
  "representation_term_from_str s =
     (if s = ''identifier'' then Ok RtIdentifier
      else if s = ''name'' then Ok RtName
      else if s = ''text'' then Ok RtText
      else if s = ''indicator'' then Ok RtIndicator
      else if s = ''speed'' then Ok RtSpeed
      else if s = ''dimension'' then Ok RtDimension
      else if s = ''duration'' then Ok RtDuration
      else if s = ''quantity'' then Ok RtQuantity
      else if s = ''amount'' then Ok RtAmount
      else if s = ''percent'' then Ok RtPercent
      else if s = ''measure'' then Ok RtMeasure
      else if s = ''date'' then Ok RtDate
      else if s = ''time'' then Ok RtTime
      else if s = ''dateTime'' \<or> s = ''datetime'' then Ok RtDateTime
      else if s = ''graphic'' then Ok RtGraphic
      else if s = ''sound'' then Ok RtSound
      else if s = ''video'' then Ok RtVideo
      else if s = ''value'' then Ok RtValue
      else if s = ''code'' then Ok RtCode
      else if s = ''ratio'' then Ok RtRatio
      else if s = ''numeric'' then Ok RtNumeric
      else Err (InvalidRepresentationTerm s))"

record representation_metadata =
  rm_unit_of_measure :: "string option"
  rm_minimum_value :: "string option"
  rm_maximum_value :: "string option"
  rm_identifier_scheme :: "string option"
  rm_pattern :: "string option"

lemma representation_term_all_complete: "t \<in> set representation_term_all"
  by (cases t) (simp_all add: representation_term_all_def)

lemma representation_term_round_trip:
  "representation_term_from_str (representation_term_as_str t) = Ok t"
  by (cases t) (simp_all add: representation_term_from_str_def)

section \<open>Semantic identifiers (\<open>semantic_id.rs\<close>)\<close>

text \<open>A UUID is its canonical lower-case hyphenated text; reading one is the \<open>uuid\<close> crate's, an
  argument that gives the canonical text of what it accepts.\<close>

datatype semantic_id = SemanticId string

definition semantic_id_parse :: "(string \<Rightarrow> string option) \<Rightarrow> string \<Rightarrow> mim_error + semantic_id" where
  "semantic_id_parse uuid_parse value =
     (let trimmed = trim value in
      and_then (ok_or (InvalidSemanticId trimmed) (uuid_parse trimmed)) (\<lambda>u. Ok (SemanticId u)))"

fun semantic_id_as_str :: "semantic_id \<Rightarrow> string" where
  "semantic_id_as_str (SemanticId u) = u"

definition linked_data_url :: "semantic_id \<Rightarrow> string" where
  "linked_data_url i = ''https://www.mimworld.org/mim/semanticID/'' @ semantic_id_as_str i"

section \<open>Qualified names and URIs (\<open>uri.rs\<close>)\<close>

definition MIM_BASE_URL :: string where
  "MIM_BASE_URL = ''https://www.mimworld.org/mim''"

record mim_qualified_name =
  qn_version :: string
  qn_path :: string

datatype mim_uri = MimUri string

fun mim_uri_as_str :: "mim_uri \<Rightarrow> string" where
  "mim_uri_as_str (MimUri s) = s"

definition normalize_path :: "string \<Rightarrow> string" where
  "normalize_path p = join_with ''/'' (filter (\<lambda>s. s \<noteq> []) (split_on (\<lambda>c. c = CHR ''/'') p))"

definition qualified_name_new :: "string \<Rightarrow> string \<Rightarrow> mim_qualified_name" where
  "qualified_name_new v p = \<lparr>qn_version = v, qn_path = normalize_path p\<rparr>"

text \<open>\<open>splitn(2, '/')\<close>: the text before the first slash, and the rest after it if there is one.\<close>

fun splitn2 :: "string \<Rightarrow> string \<times> string option" where
  "splitn2 [] = ([], None)"
| "splitn2 (c # cs) =
     (if c = CHR ''/'' then ([], Some cs)
      else (case splitn2 cs of (v, r) \<Rightarrow> (c # v, r)))"

definition qualified_name_parse :: "string \<Rightarrow> mim_error + mim_qualified_name" where
  "qualified_name_parse value =
     (let trimmed = trim value in
      and_then (ok_or (InvalidUri trimmed) (strip_prefix (MIM_BASE_URL @ ''/'') trimmed))
        (\<lambda>without_base.
           let (first, second) = splitn2 without_base in
           if first = [] then Err (InvalidUri trimmed)
           else (case second of
               None \<Rightarrow> Err (InvalidUri trimmed)
             | Some path \<Rightarrow>
                 if path = [] then Err (InvalidUri trimmed)
                 else Ok \<lparr>qn_version = first, qn_path = normalize_path path\<rparr>)))"

definition as_uri :: "mim_qualified_name \<Rightarrow> mim_uri" where
  "as_uri q = MimUri (MIM_BASE_URL @ ''/'' @ qn_version q @ ''/'' @ qn_path q)"

definition mim_uri_parse :: "string \<Rightarrow> mim_error + mim_uri" where
  "mim_uri_parse value =
     (let trimmed = trim value in
      if \<not> starts_with trimmed MIM_BASE_URL then Err (InvalidUri trimmed)
      else and_then (qualified_name_parse trimmed) (\<lambda>_. Ok (MimUri trimmed)))"

definition qualified_name :: "mim_uri \<Rightarrow> mim_error + mim_qualified_name" where
  "qualified_name u = qualified_name_parse (mim_uri_as_str u)"

text \<open>A qualified name is well formed when its rendering names the same version and path.\<close>

definition qn_wf :: "mim_qualified_name \<Rightarrow> bool" where
  "qn_wf q \<longleftrightarrow>
     qn_version q \<noteq> [] \<and> CHR ''/'' \<notin> set (qn_version q) \<and>
     qn_path q \<noteq> [] \<and> normalize_path (qn_path q) = qn_path q \<and> \<not> ws_tail (last (qn_path q))"

lemma splitn2_slash:
  "CHR ''/'' \<notin> set v \<Longrightarrow> splitn2 (v @ CHR ''/'' # p) = (v, Some p)"
  by (induction v) auto

lemma splitn2_SomeD: "splitn2 s = (v, Some p) \<Longrightarrow> s = v @ CHR ''/'' # p \<and> CHR ''/'' \<notin> set v"
  by (induction s arbitrary: v) (auto split: if_splits prod.splits)

lemma normalize_path_idem: "normalize_path (normalize_path p) = normalize_path p"
proof -
  let ?ss = "filter (\<lambda>s. s \<noteq> []) (split_on (\<lambda>c. c = CHR ''/'') p)"
  have noslash: "\<forall>s \<in> set (split_on (\<lambda>c. c = CHR ''/'') p). \<forall>c \<in> set s. c \<noteq> CHR ''/''"
    using split_on_pieces by fast
  show ?thesis
  proof (cases "?ss = []")
    case True
    then show ?thesis by (simp add: normalize_path_def)
  next
    case False
    then have "split_on (\<lambda>c. c = CHR ''/'') (join_with ''/'' ?ss) = ?ss"
      using noslash by (intro split_join) auto
    then show ?thesis by (simp add: normalize_path_def)
  qed
qed

lemma base_url_lead: "\<not> ws_lead (CHR ''h'')"
  by (simp add: ws_lead_def white_space_seqs_def)

lemma trim_base_url: "s \<noteq> [] \<Longrightarrow> \<not> ws_tail (last s) \<Longrightarrow> trim (MIM_BASE_URL @ s) = MIM_BASE_URL @ s"
  by (rule trim_id) (simp add: MIM_BASE_URL_def base_url_lead)

lemma qualified_name_parseD:
  assumes "qualified_name_parse s = Ok q"
  obtains p where "trim s = MIM_BASE_URL @ ''/'' @ qn_version q @ ''/'' @ p"
    and "p \<noteq> []" and "qn_path q = normalize_path p"
    and "qn_version q \<noteq> []" and "CHR ''/'' \<notin> set (qn_version q)"
proof -
  define tr where "tr = trim s"
  from assms obtain w where w: "strip_prefix (MIM_BASE_URL @ ''/'') tr = Some w"
    and k: "(case splitn2 w of (first, second) \<Rightarrow>
        if first = [] then Err (InvalidUri tr)
        else (case second of None \<Rightarrow> Err (InvalidUri tr)
            | Some path \<Rightarrow> if path = [] then Err (InvalidUri tr)
                else Ok \<lparr>qn_version = first, qn_path = normalize_path path\<rparr>)) = Ok q"
    unfolding qualified_name_parse_def Let_def tr_def [symmetric] and_then_Inr_iff ok_or_Inr_iff
    by blast
  obtain v r where vr: "splitn2 w = (v, r)" by (cases "splitn2 w")
  with k obtain p where r: "r = Some p" and ne: "v \<noteq> []" "p \<noteq> []"
    and q: "q = \<lparr>qn_version = v, qn_path = normalize_path p\<rparr>"
    by (cases r) (simp_all split: if_splits)
  have sp: "splitn2 w = (v, Some p)" using vr r by simp
  from splitn2_SomeD [OF sp] w ne q show thesis
    by (intro that [of p]) (simp_all add: strip_prefix_Some_iff tr_def)
qed

text \<open>
  Every well-formed qualified name (a version without a slash, a normalised non-empty path that
  does not end in white space) is recovered exactly from the URI it renders to, and that URI is
  accepted unchanged by \<open>MimUri::parse\<close>.
\<close>

theorem qualified_name_uri_round_trip:
  assumes "qn_wf q"
  shows "qualified_name (as_uri q) = Ok q \<and> mim_uri_parse (mim_uri_as_str (as_uri q)) = Ok (as_uri q)"
proof -
  let ?rest = "''/'' @ qn_version q @ ''/'' @ qn_path q"
  have tr: "trim (MIM_BASE_URL @ ?rest) = MIM_BASE_URL @ ?rest"
    using assms by (intro trim_base_url) (auto simp: qn_wf_def)
  have sp: "strip_prefix (MIM_BASE_URL @ ''/'') (MIM_BASE_URL @ ?rest) = Some (qn_version q @ CHR ''/'' # qn_path q)"
    by (simp add: strip_prefix_Some_iff)
  have "qualified_name_parse (MIM_BASE_URL @ ?rest) = Ok q"
    unfolding qualified_name_parse_def tr Let_def sp
    using assms by (simp add: splitn2_slash qn_wf_def)
  moreover have "starts_with (MIM_BASE_URL @ ?rest) MIM_BASE_URL"
    by (rule starts_with_append)
  ultimately show ?thesis
    unfolding qualified_name_def as_uri_def mim_uri_parse_def mim_uri_as_str.simps tr Let_def by simp
qed

theorem qualified_name_uri_round_trip_witness:
  "qualified_name (as_uri \<lparr>qn_version = ''4.0.1'', qn_path = ''Classifiers/Location/Line''\<rparr>)
     = Ok \<lparr>qn_version = ''4.0.1'', qn_path = ''Classifiers/Location/Line''\<rparr>"
proof -
  have "qn_wf \<lparr>qn_version = ''4.0.1'', qn_path = ''Classifiers/Location/Line''\<rparr>"
    by (simp add: qn_wf_def normalize_path_def ws_tail_def white_space_seqs_def)
  from qualified_name_uri_round_trip [OF this] show ?thesis by simp
qed

end
