(* ===== verification/Index_Map.thy ===== *)
theory Index_Map
  imports Rust_Prelude
begin

text \<open>
  The insertion-ordered map that the registries and stores are built on (\<open>IndexMap\<close>): its
  interface is the locale \<open>insertion_map\<close>, whose laws are the documented behaviour (an insert
  under a present key replaces the value at its position, under a new key it appends), and its
  provider is an association list with distinct keys. The components use the facts of the
  interpretation \<open>im\<close> only.
\<close>

section \<open>The interface\<close>

locale insertion_map =
  fixes empty :: "'m"
    and ins :: "'k \<Rightarrow> 'v \<Rightarrow> 'm \<Rightarrow> 'm"
    and look :: "'m \<Rightarrow> 'k \<Rightarrow> 'v option"
    and entries :: "'m \<Rightarrow> ('k \<times> 'v) list"
    and wf :: "'m \<Rightarrow> bool"
  assumes wf_empty: "wf empty"
    and wf_ins: "wf m \<Longrightarrow> wf (ins k v m)"
    and entries_empty: "entries empty = []"
    and distinct_entries: "wf m \<Longrightarrow> distinct (map fst (entries m))"
    and look_entries: "wf m \<Longrightarrow> look m k = map_of (entries m) k"
    and entries_ins_new: "wf m \<Longrightarrow> look m k = None \<Longrightarrow> entries (ins k v m) = entries m @ [(k, v)]"
    and entries_ins_old:
      "wf m \<Longrightarrow> look m k \<noteq> None \<Longrightarrow>
        entries (ins k v m) = map (\<lambda>(k', v'). if k' = k then (k', v) else (k', v')) (entries m)"
begin

lemma look_empty: "look empty k = None"
  by (simp add: look_entries wf_empty entries_empty)

lemma look_ins: "wf m \<Longrightarrow> look (ins k v m) k' = (if k' = k then Some v else look m k')"
proof -
  assume wf: "wf m"
  have repl: "map_of (map (\<lambda>(k', v'). if k' = k then (k', v) else (k', v')) xs) k' =
      (if k' = k \<and> map_of xs k \<noteq> None then Some v else map_of xs k')" for xs
    by (induction xs) auto
  show ?thesis
  proof (cases "look m k = None")
    case True
    then show ?thesis
      using wf by (auto simp: look_entries wf_ins entries_ins_new map_add_def split: option.splits)
  next
    case False
    then show ?thesis
      using wf by (auto simp: look_entries wf_ins entries_ins_old repl)
  qed
qed

lemma keys_ins:
  "wf m \<Longrightarrow> fst ` set (entries (ins k v m)) = insert k (fst ` set (entries m))"
proof -
  assume wf: "wf m"
  have "fst ` set (entries m') = {k. look m' k \<noteq> None}" if "wf m'" for m'
    using that by (auto simp: look_entries map_of_eq_None_iff)
  then show ?thesis
    using wf by (auto simp: look_ins wf_ins)
qed

lemma mem_entries_iff: "wf m \<Longrightarrow> (k, v) \<in> set (entries m) \<longleftrightarrow> look m k = Some v"
  by (simp add: look_entries distinct_entries)

lemma keys_iff: "wf m \<Longrightarrow> k \<in> fst ` set (entries m) \<longleftrightarrow> look m k \<noteq> None"
  by (auto simp: look_entries map_of_eq_None_iff)

lemma key_order_ins_old:
  "wf m \<Longrightarrow> look m k \<noteq> None \<Longrightarrow> map fst (entries (ins k v m)) = map fst (entries m)"
  by (auto simp: entries_ins_old)

lemma length_ins:
  "wf m \<Longrightarrow> length (entries (ins k v m)) = length (entries m) + (if look m k = None then 1 else 0)"
  by (auto simp: entries_ins_old entries_ins_new)

lemma ins_same_entries: "wf m \<Longrightarrow> look m k = Some v \<Longrightarrow> entries (ins k v m) = entries m"
  by (auto simp: entries_ins_old intro!: map_idI) (metis mem_entries_iff option.inject)

text \<open>Collecting pairs into a map: the last pair of a key wins.\<close>

lemma wf_fold_ins: "wf m \<Longrightarrow> wf (fold (\<lambda>(k, v). ins k v) kvs m)"
  by (induction kvs arbitrary: m) (auto simp: wf_ins)

lemma look_fold_ins:
  "wf m \<Longrightarrow> look (fold (\<lambda>(k, v). ins k v) kvs m) k =
     (case map_of (rev kvs) k of Some v \<Rightarrow> Some v | None \<Rightarrow> look m k)"
  by (induction kvs arbitrary: m) (auto simp: wf_ins look_ins map_add_def split: option.splits)

end

section \<open>The provider: association lists\<close>

type_synonym ('k, 'v) index_map = "('k \<times> 'v) list"

fun im_insert :: "'k \<Rightarrow> 'v \<Rightarrow> ('k, 'v) index_map \<Rightarrow> ('k, 'v) index_map" where
  "im_insert k v [] = [(k, v)]"
| "im_insert k v ((k', v') # m) = (if k' = k then (k', v) # m else (k', v') # im_insert k v m)"

definition im_get :: "('k, 'v) index_map \<Rightarrow> 'k \<Rightarrow> 'v option" where
  "im_get m k = map_of m k"

definition im_contains :: "('k, 'v) index_map \<Rightarrow> 'k \<Rightarrow> bool" where
  "im_contains m k \<longleftrightarrow> im_get m k \<noteq> None"

definition im_values :: "('k, 'v) index_map \<Rightarrow> 'v list" where
  "im_values m = map snd m"

definition im_wf :: "('k, 'v) index_map \<Rightarrow> bool" where
  "im_wf m \<longleftrightarrow> distinct (map fst m)"

definition im_collect :: "('k \<times> 'v) list \<Rightarrow> ('k, 'v) index_map" where
  "im_collect kvs = fold (\<lambda>(k, v). im_insert k v) kvs []"

lemma fst_set_im_insert: "fst ` set (im_insert k v m) = insert k (fst ` set m)"
  by (induction k v m rule: im_insert.induct) (simp_all add: insert_commute)

lemma set_im_insert_subset: "set (im_insert k v m) \<subseteq> insert (k, v) (set m)"
  by (induction k v m rule: im_insert.induct) auto

lemma im_insert_new: "map_of m k = None \<Longrightarrow> im_insert k v m = m @ [(k, v)]"
  by (induction m) (auto split: if_splits)

lemma im_insert_old:
  "distinct (map fst m) \<Longrightarrow> map_of m k \<noteq> None \<Longrightarrow>
     im_insert k v m = map (\<lambda>(k', v'). if k' = k then (k', v) else (k', v')) m"
proof (induction m)
  case (Cons p m)
  obtain k' v' where p: "p = (k', v')" by (cases p)
  show ?case
  proof (cases "k' = k")
    case True
    with Cons.prems p have "\<forall>q \<in> set m. fst q \<noteq> k" by force
    then have "map (\<lambda>(k', v'). if k' = k then (k', v) else (k', v')) m = m"
      by (auto intro!: map_idI)
    with True p show ?thesis by simp
  next
    case False
    with Cons p show ?thesis by auto
  qed
qed simp

interpretation im: insertion_map "[]" im_insert im_get "\<lambda>m. m" im_wf
proof
  show "im_wf (im_insert k v m)" if "im_wf m" for k :: 'a and v :: 'b and m
    using that unfolding im_wf_def
    by (induction k v m rule: im_insert.induct) (auto simp: fst_set_im_insert)
next
  show "im_insert k v m = m @ [(k, v)]" if "im_wf m" and "im_get m k = None"
    for k :: 'a and v :: 'b and m
    using that by (simp add: im_get_def im_insert_new)
next
  show "im_insert k v m = map (\<lambda>(k', v'). if k' = k then (k', v) else (k', v')) m"
    if "im_wf m" and "im_get m k \<noteq> None" for k :: 'a and v :: 'b and m
    using that im_insert_old [of m k v] by (simp add: im_get_def im_wf_def)
qed (simp_all add: im_wf_def im_get_def)

lemmas im_wf_intros = im.wf_empty im.wf_ins
lemmas im_look = im.look_ins im.look_empty

declare im_wf_intros [inv_intros]

lemma im_get_Nil [simp]: "im_get [] k = None"
  by (simp add: im_get_def)

lemma im_get_insert [simp]: "im_get (im_insert k v m) k' = (if k' = k then Some v else im_get m k')"
  by (induction m) (auto simp: im_get_def)

lemma im_contains_insert [simp]: "im_contains (im_insert k v m) k' \<longleftrightarrow> k' = k \<or> im_contains m k'"
  by (simp add: im_contains_def)

lemma in_im_values_iff: "im_wf m \<Longrightarrow> v \<in> set (im_values m) \<longleftrightarrow> (\<exists>k. im_get m k = Some v)"
  by (force simp: im_values_def simp flip: im.mem_entries_iff)

lemma im_getD: "im_get m k = Some v \<Longrightarrow> (k, v) \<in> set m"
  by (simp add: im_get_def map_of_SomeD)

lemma im_contains_iff_keys: "im_contains m k \<longleftrightarrow> k \<in> fst ` set m"
  by (auto simp: im_contains_def im_get_def map_of_eq_None_iff)

lemma im_values_insert_subset: "set (im_values (im_insert k v m)) \<subseteq> insert v (set (im_values m))"
  unfolding im_values_def by (induction k v m rule: im_insert.induct) auto

lemma im_collect_snoc: "im_collect (kvs @ [(k, v)]) = im_insert k v (im_collect kvs)"
  by (simp add: im_collect_def)

lemma im_collect_distinct: "distinct (map fst kvs) \<Longrightarrow> im_collect kvs = kvs"
proof (induction kvs rule: rev_induct)
  case (snoc kv kvs)
  obtain k v where kv: "kv = (k, v)" by (cases kv)
  with snoc.prems have "map_of kvs k = None" by (simp add: map_of_eq_None_iff)
  with snoc kv show ?case by (simp add: im_collect_snoc im_insert_new)
qed (simp add: im_collect_def)

section \<open>Maps keyed by a field of their values\<close>

definition keyed_by :: "('v \<Rightarrow> 'k) \<Rightarrow> ('k, 'v) index_map \<Rightarrow> bool" where
  "keyed_by f m \<longleftrightarrow> im_wf m \<and> (\<forall>(k, v) \<in> set m. f v = k)"

lemma keyed_by_Nil [inv_intros]: "keyed_by f []"
  by (simp add: keyed_by_def im_wf_intros)

lemma keyed_by_insert [inv_intros]: "keyed_by f m \<Longrightarrow> f v = k \<Longrightarrow> keyed_by f (im_insert k v m)"
  using set_im_insert_subset [of k v m] by (fastforce simp: keyed_by_def im.wf_ins)

lemma keyed_by_get: "keyed_by f m \<Longrightarrow> im_get m k = Some v \<Longrightarrow> f v = k"
  by (auto simp: keyed_by_def dest!: im_getD)

lemma keyed_by_find: "keyed_by f m \<Longrightarrow> im_get m k = find (\<lambda>v. f v = k) (im_values m)"
  unfolding keyed_by_def im_get_def im_values_def im_wf_def
  by (induction m) auto

lemma keyed_by_names: "keyed_by f m \<Longrightarrow> map f (im_values m) = map fst m"
  by (auto simp: keyed_by_def im_values_def)

end
