(* ===== verification/Mim_Model.thy ===== *)
theory Mim_Model
  imports Mim_Core Index_Map
begin

text \<open>
  Crate \<open>mim-model\<close>: the object and action taxonomy, code lists, the manifest and its structural
  check, the metadata attached to instances, and the model registry with its resolution of
  ancestors and code lists. The ancestor walk of the code is an unbounded \<open>while let\<close> loop, so it is
  a partial function here: \<open>None\<close> is a walk that never returns.
\<close>

section \<open>Taxonomy (\<open>taxonomy.rs\<close>)\<close>

datatype object_kind =
    ObLocation | ObOrganisation | ObFacility | ObFeature | ObMateriel | ObPerson
  | ObInformationResource | ObCapability | ObAddress | ObEvent | ObPlanOrder
  | ObInformationGroup | ObOrganisationStructure | ObCandidateTargetList | ObRuleOfEngagement

definition object_kind_all :: "object_kind list" where
  "object_kind_all =
     [ObLocation, ObOrganisation, ObFacility, ObFeature, ObMateriel, ObPerson,
      ObInformationResource, ObCapability, ObAddress, ObEvent, ObPlanOrder, ObInformationGroup,
      ObOrganisationStructure, ObCandidateTargetList, ObRuleOfEngagement]"

fun object_kind_as_str :: "object_kind \<Rightarrow> string" where
  "object_kind_as_str ObLocation = ''Location''"
| "object_kind_as_str ObOrganisation = ''Organisation''"
| "object_kind_as_str ObFacility = ''Facility''"
| "object_kind_as_str ObFeature = ''Feature''"
| "object_kind_as_str ObMateriel = ''Materiel''"
| "object_kind_as_str ObPerson = ''Person''"
| "object_kind_as_str ObInformationResource = ''InformationResource''"
| "object_kind_as_str ObCapability = ''Capability''"
| "object_kind_as_str ObAddress = ''Address''"
| "object_kind_as_str ObEvent = ''Event''"
| "object_kind_as_str ObPlanOrder = ''PlanOrder''"
| "object_kind_as_str ObInformationGroup = ''InformationGroup''"
| "object_kind_as_str ObOrganisationStructure = ''OrganisationStructure''"
| "object_kind_as_str ObCandidateTargetList = ''CandidateTargetList''"
| "object_kind_as_str ObRuleOfEngagement = ''RuleOfEngagement''"

datatype action_kind = AcTask | AcActionEffect | AcActionResource | AcActionObjective | AcEstablishment

definition action_kind_all :: "action_kind list" where
  "action_kind_all = [AcTask, AcActionEffect, AcActionResource, AcActionObjective, AcEstablishment]"

fun action_kind_as_str :: "action_kind \<Rightarrow> string" where
  "action_kind_as_str AcTask = ''Task''"
| "action_kind_as_str AcActionEffect = ''ActionEffect''"
| "action_kind_as_str AcActionResource = ''ActionResource''"
| "action_kind_as_str AcActionObjective = ''ActionObjective''"
| "action_kind_as_str AcEstablishment = ''Establishment''"

record taxonomy_node =
  tn_name :: string
  tn_semantic_id :: semantic_id
  tn_parent :: "string option"
  tn_object_kind :: "object_kind option"
  tn_action_kind :: "action_kind option"
  tn_definition :: string
  tn_package_path :: string

definition is_object :: "taxonomy_node \<Rightarrow> bool" where
  "is_object n \<longleftrightarrow> tn_object_kind n \<noteq> None"

definition is_action :: "taxonomy_node \<Rightarrow> bool" where
  "is_action n \<longleftrightarrow> tn_action_kind n \<noteq> None"

section \<open>Code lists (\<open>codelist.rs\<close>)\<close>

datatype code_list_kind = ClComplete | ClExtensible | ClManaged | ClOrdered

record code_value =
  cv_name :: string
  cv_semantic_id :: semantic_id
  cv_definition :: "string option"
  cv_order :: "u32 option"
  cv_lower_than :: "string list"

record code_list =
  cl_name :: string
  cl_semantic_id :: semantic_id
  cl_complete :: bool
  cl_managed :: bool
  cl_ordered :: bool
  cl_definition :: "string option"
  cl_values :: "code_value list"

definition code_list_kinds :: "code_list \<Rightarrow> code_list_kind list" where
  "code_list_kinds c =
     [if cl_complete c then ClComplete else ClExtensible] @
     (if cl_managed c then [ClManaged] else []) @
     (if cl_ordered c then [ClOrdered] else [])"

definition contains_value :: "code_list \<Rightarrow> string \<Rightarrow> bool" where
  "contains_value c name \<longleftrightarrow> list_ex (\<lambda>v. cv_name v = name) (cl_values c)"

definition validate_value :: "code_list \<Rightarrow> string \<Rightarrow> string + unit" where
  "validate_value c name =
     (if contains_value c name then Ok ()
      else if cl_complete c then
        Err (''code value '' @ quoted name @ '' is not in complete code list '' @ quoted (cl_name c))
      else Ok ())"

lemma validate_value_Ok_iff:
  "validate_value c name = Ok () \<longleftrightarrow> (cl_complete c \<longrightarrow> contains_value c name)"
  by (simp add: validate_value_def)

section \<open>Manifests (\<open>manifest.rs\<close>)\<close>

datatype model_element_kind = MkClass | MkDataType | MkEnumeration | MkAttribute | MkAssociation | MkPackage

record model_element_spec =
  me_name :: string
  me_kind :: model_element_kind
  me_semantic_id :: semantic_id
  me_uri :: mim_uri
  me_package_path :: string
  me_definition :: string
  me_parent_class :: "string option"
  me_representation_term :: "representation_term option"
  me_representation_metadata :: "representation_metadata option"
  me_multiplicity_lower :: "u32 option"
  me_multiplicity_upper :: "string option"
  me_is_mandatory :: bool
  me_is_nillable :: bool

record mim_manifest =
  mm_version :: string
  mm_release_date :: string
  mm_description :: string
  mm_expected_object_types :: u32
  mm_expected_action_types :: u32
  mm_expected_code_lists :: u32
  mm_taxonomy :: "taxonomy_node list"
  mm_elements :: "model_element_spec list"
  mm_code_lists :: "code_list list"

definition validate_structure :: "mim_manifest \<Rightarrow> mim_error + unit" where
  "validate_structure m =
     (if mm_version m = [] then Err (MimModel ''manifest version must not be empty'')
      else if mm_taxonomy m = [] then Err (MimModel ''manifest taxonomy must not be empty'')
      else if mm_elements m = [] then
        Err (MimModel ''manifest must contain at least one element'')
      else Ok ())"

text \<open>\<open>from_json\<close> and \<open>from_reader\<close>: the JSON decoder is serde's, an argument here.\<close>

definition manifest_from_json :: "(string \<Rightarrow> mim_error + mim_manifest) \<Rightarrow> string \<Rightarrow> mim_error + mim_manifest" where
  "manifest_from_json decode text =
     and_then (decode text) (\<lambda>m. and_then (validate_structure m) (\<lambda>_. Ok m))"

section \<open>Metadata (\<open>metadata.rs\<close>)\<close>

text \<open>A \<open>DateTime<Utc>\<close> is its RFC 3339 text.\<close>

type_synonym date_time = string

record reporter =
  rp_name :: "string nillable"
  rp_role :: "string nillable"
  rp_organisation :: "string nillable"

record observer =
  ob_name :: "string nillable"
  ob_role :: "string nillable"

record operational_appraisal =
  oa_confidence :: "string nillable"
  oa_credibility :: "string nillable"
  oa_reliability :: "string nillable"

record validity_period =
  vp_start :: "date_time nillable"
  vp_end :: "date_time nillable"

record security_classification =
  sc_policy :: "string nillable"
  sc_classification :: "string nillable"
  sc_releasability :: "string nillable"

record metadata =
  md_reporter :: reporter
  md_observer :: observer
  md_appraisal :: operational_appraisal
  md_validity :: validity_period
  md_security :: security_classification

definition security_default :: security_classification where
  "security_default = \<lparr>sc_policy = Absent, sc_classification = Absent, sc_releasability = Absent\<rparr>"

definition metadata_default :: metadata where
  "metadata_default =
     \<lparr>md_reporter = \<lparr>rp_name = Absent, rp_role = Absent, rp_organisation = Absent\<rparr>,
      md_observer = \<lparr>ob_name = Absent, ob_role = Absent\<rparr>,
      md_appraisal = \<lparr>oa_confidence = Absent, oa_credibility = Absent, oa_reliability = Absent\<rparr>,
      md_validity = \<lparr>vp_start = Absent, vp_end = Absent\<rparr>,
      md_security = security_default\<rparr>"

definition with_withheld_classification :: metadata where
  "with_withheld_classification =
     metadata_default\<lparr>md_security := security_default\<lparr>sc_classification := Nil_Because Withheld\<rparr>\<rparr>"

end
