(* ===== verification/Model_Registry.thy ===== *)
theory Model_Registry
  imports Mim_Model
begin

text \<open>
  Crate \<open>mim-model\<close>, \<open>registry.rs\<close>: the in-memory registry built from a manifest. Its four maps
  are insertion-ordered maps; the ancestor walk is compared with the parent relation of the
  registry, which decides when it returns.
\<close>

section \<open>State and operations\<close>

record model_registry =
  mr_version :: string
  mr_elements_by_name :: "(string, model_element_spec) index_map"
  mr_elements_by_semantic_id :: "(semantic_id, model_element_spec) index_map"
  mr_taxonomy_by_name :: "(string, taxonomy_node) index_map"
  mr_code_lists_by_name :: "(string, code_list) index_map"
  mr_object_kinds :: "object_kind list"
  mr_action_kinds :: "action_kind list"

definition element_by_name :: "model_registry \<Rightarrow> string \<Rightarrow> model_element_spec option" where
  "element_by_name r n = im_get (mr_elements_by_name r) n"

definition element_by_semantic_id :: "model_registry \<Rightarrow> semantic_id \<Rightarrow> model_element_spec option" where
  "element_by_semantic_id r i = im_get (mr_elements_by_semantic_id r) i"

definition taxonomy_node_of :: "model_registry \<Rightarrow> string \<Rightarrow> taxonomy_node option" where
  "taxonomy_node_of r n = im_get (mr_taxonomy_by_name r) n"

definition code_list_of :: "model_registry \<Rightarrow> string \<Rightarrow> code_list option" where
  "code_list_of r n = im_get (mr_code_lists_by_name r) n"

definition object_type_count :: "model_registry \<Rightarrow> nat" where
  "object_type_count r = length (filter is_object (im_values (mr_taxonomy_by_name r)))"

definition action_type_count :: "model_registry \<Rightarrow> nat" where
  "action_type_count r = length (filter is_action (im_values (mr_taxonomy_by_name r)))"

definition code_list_count :: "model_registry \<Rightarrow> nat" where
  "code_list_count r = length (mr_code_lists_by_name r)"

definition element_count :: "model_registry \<Rightarrow> nat" where
  "element_count r = length (mr_elements_by_name r)"

definition supports_object_kind :: "model_registry \<Rightarrow> object_kind \<Rightarrow> bool" where
  "supports_object_kind r k \<longleftrightarrow> k \<in> set (mr_object_kinds r)"

definition supports_action_kind :: "model_registry \<Rightarrow> action_kind \<Rightarrow> bool" where
  "supports_action_kind r k \<longleftrightarrow> k \<in> set (mr_action_kinds r)"

definition attributes_for_class :: "model_registry \<Rightarrow> string \<Rightarrow> model_element_spec list" where
  "attributes_for_class r c =
     filter (\<lambda>e. me_kind e = MkAttribute \<and> me_parent_class e = Some c) (im_values (mr_elements_by_name r))"

text \<open>The parent lookup written twice in \<open>ancestors_of\<close>: the element's parent class, or else the
  taxonomy node's parent.\<close>

definition parent_of :: "model_registry \<Rightarrow> string \<Rightarrow> string option" where
  "parent_of r c =
     (case Option.bind (element_by_name r c) me_parent_class of
        Some p \<Rightarrow> Some p
      | None \<Rightarrow> Option.bind (taxonomy_node_of r c) tn_parent)"

partial_function (option) ancestors_loop ::
  "model_registry \<Rightarrow> string option \<Rightarrow> string list \<Rightarrow> string list option" where
  "ancestors_loop r current ancestors =
     (case current of
        None \<Rightarrow> Some ancestors
      | Some p \<Rightarrow> ancestors_loop r (parent_of r p) (ancestors @ [p]))"

definition ancestors_of :: "model_registry \<Rightarrow> string \<Rightarrow> string list option" where
  "ancestors_of r c = ancestors_loop r (parent_of r c) []"

definition property_to_code_list_name :: "string \<Rightarrow> string option" where
  "property_to_code_list_name p =
     (if \<not> ends_with p ''Code'' then None
      else case p of [] \<Rightarrow> None | c # rest \<Rightarrow> Some (ascii_upper c # rest))"

definition code_list_for_attribute :: "model_registry \<Rightarrow> string \<Rightarrow> code_list option" where
  "code_list_for_attribute r a =
     (case element_by_name r a of
        None \<Rightarrow> None
      | Some e \<Rightarrow>
          if me_representation_term e \<noteq> Some RtCode then None
          else Option.bind (property_to_code_list_name a) (code_list_of r))"

definition check_taxonomy_parent :: "model_registry \<Rightarrow> taxonomy_node \<Rightarrow> mim_error + unit" where
  "check_taxonomy_parent r n =
     (case tn_parent n of
        None \<Rightarrow> Ok ()
      | Some p \<Rightarrow>
          if im_contains (mr_taxonomy_by_name r) p then Ok ()
          else Err (MimModel (''taxonomy node '' @ quoted (tn_name n) @
                 '' references unknown parent '' @ quoted p)))"

definition check_element_parent :: "model_registry \<Rightarrow> model_element_spec \<Rightarrow> mim_error + unit" where
  "check_element_parent r e =
     (case me_parent_class e of
        None \<Rightarrow> Ok ()
      | Some p \<Rightarrow>
          if \<not> im_contains (mr_elements_by_name r) p \<and> \<not> im_contains (mr_taxonomy_by_name r) p
          then Err (MimModel (''element '' @ quoted (me_name e) @
                 '' references unknown parent class '' @ quoted p))
          else Ok ())"

definition validate_integrity :: "model_registry \<Rightarrow> mim_error + unit" where
  "validate_integrity r =
     and_then (try_each (check_taxonomy_parent r) (im_values (mr_taxonomy_by_name r)))
       (\<lambda>_. try_each (check_element_parent r) (im_values (mr_elements_by_name r)))"

definition add_taxonomy_node :: "taxonomy_node \<Rightarrow> model_registry \<Rightarrow> model_registry" where
  "add_taxonomy_node n r = r\<lparr>mr_taxonomy_by_name := im_insert (tn_name n) n (mr_taxonomy_by_name r)\<rparr>"

definition add_element :: "model_element_spec \<Rightarrow> model_registry \<Rightarrow> model_registry" where
  "add_element e r =
     r\<lparr>mr_elements_by_semantic_id := im_insert (me_semantic_id e) e (mr_elements_by_semantic_id r),
       mr_elements_by_name := im_insert (me_name e) e (mr_elements_by_name r)\<rparr>"

definition add_code_list :: "code_list \<Rightarrow> model_registry \<Rightarrow> model_registry" where
  "add_code_list c r = r\<lparr>mr_code_lists_by_name := im_insert (cl_name c) c (mr_code_lists_by_name r)\<rparr>"

definition empty_registry :: "string \<Rightarrow> model_registry" where
  "empty_registry v =
     \<lparr>mr_version = v, mr_elements_by_name = [], mr_elements_by_semantic_id = [],
      mr_taxonomy_by_name = [], mr_code_lists_by_name = [],
      mr_object_kinds = object_kind_all, mr_action_kinds = action_kind_all\<rparr>"

definition from_manifest :: "mim_manifest \<Rightarrow> mim_error + model_registry" where
  "from_manifest m =
     (let r = fold add_code_list (mm_code_lists m)
                (fold add_element (mm_elements m)
                  (fold add_taxonomy_node (mm_taxonomy m) (empty_registry (mm_version m))))
      in and_then (validate_integrity r) (\<lambda>_. Ok r))"

section \<open>Invariant: the maps are keyed by the names of what they hold\<close>

definition registry_wf :: "model_registry \<Rightarrow> bool" where
  "registry_wf r \<longleftrightarrow>
     keyed_by me_name (mr_elements_by_name r) \<and>
     keyed_by me_semantic_id (mr_elements_by_semantic_id r) \<and>
     keyed_by tn_name (mr_taxonomy_by_name r) \<and>
     keyed_by cl_name (mr_code_lists_by_name r)"

lemma registry_wf_empty [inv_intros]: "registry_wf (empty_registry v)"
  by (simp add: registry_wf_def empty_registry_def keyed_by_Nil)

lemma registry_wf_adds [inv_intros]:
  "registry_wf r \<Longrightarrow> registry_wf (add_taxonomy_node n r)"
  "registry_wf r \<Longrightarrow> registry_wf (add_element e r)"
  "registry_wf r \<Longrightarrow> registry_wf (add_code_list c r)"
  by (simp_all add: registry_wf_def add_taxonomy_node_def add_element_def add_code_list_def
      keyed_by_insert)

lemma from_manifest_Ok_D:
  assumes "from_manifest m = Ok r"
  shows "registry_wf r" and "validate_integrity r = Ok ()"
proof -
  define r' where "r' = fold add_code_list (mm_code_lists m) (fold add_element (mm_elements m)
              (fold add_taxonomy_node (mm_taxonomy m) (empty_registry (mm_version m))))"
  from assms have r: "r = r'" and "validate_integrity r' = Ok ()"
    unfolding from_manifest_def Let_def r'_def [symmetric] and_then_Inr_iff by auto
  then show "validate_integrity r = Ok ()" by simp
  show "registry_wf r"
    unfolding r r'_def
    by (intro fold_invariant [where P = registry_wf] registry_wf_empty registry_wf_adds)
qed

text \<open>What the integrity check promises: every parent that a walk can step to is registered.\<close>

definition known_class :: "model_registry \<Rightarrow> string \<Rightarrow> bool" where
  "known_class r c \<longleftrightarrow> im_contains (mr_elements_by_name r) c \<or> im_contains (mr_taxonomy_by_name r) c"

lemma im_get_in_values: "im_get m k = Some v \<Longrightarrow> v \<in> set (im_values m)"
  by (force simp: im_values_def dest: im_getD)

lemma validate_integrity_parent_known:
  assumes ok: "validate_integrity r = Ok ()" and p: "parent_of r c = Some p"
  shows "known_class r p"
proof -
  from ok have tx: "\<And>n. n \<in> set (im_values (mr_taxonomy_by_name r)) \<Longrightarrow> check_taxonomy_parent r n = Ok ()"
    and el: "\<And>e. e \<in> set (im_values (mr_elements_by_name r)) \<Longrightarrow> check_element_parent r e = Ok ()"
    by (auto simp: validate_integrity_def and_then_Inr_iff try_each_Inr_iff)
  from p consider
      e where "element_by_name r c = Some e" and "me_parent_class e = Some p"
    | n where "taxonomy_node_of r c = Some n" and "tn_parent n = Some p"
    by (auto simp: parent_of_def bind_eq_Some_conv split: option.splits)
  then show ?thesis
  proof cases
    case 1
    then have "check_element_parent r e = Ok ()"
      by (intro el im_get_in_values) (simp add: element_by_name_def)
    with 1 show ?thesis by (simp add: check_element_parent_def known_class_def split: if_splits)
  next
    case 2
    then have "check_taxonomy_parent r n = Ok ()"
      by (intro tx im_get_in_values) (simp add: taxonomy_node_of_def)
    with 2 show ?thesis by (simp add: check_taxonomy_parent_def known_class_def split: if_splits)
  qed
qed

section \<open>The ancestor walk\<close>

inductive parent_chain :: "model_registry \<Rightarrow> string option \<Rightarrow> string list \<Rightarrow> bool" for r where
  chain_end: "parent_chain r None []"
| chain_step: "parent_chain r (parent_of r p) ps \<Longrightarrow> parent_chain r (Some p) (p # ps)"

inductive_cases parent_chain_NoneE: "parent_chain r None ps"
inductive_cases parent_chain_SomeE: "parent_chain r (Some p) ps"

lemma ancestors_loop_sound:
  assumes "ancestors_loop r current acc = Some res"
  shows "\<exists>ps. parent_chain r current ps \<and> res = acc @ ps"
proof (induction rule: ancestors_loop.raw_induct [OF _ assms])
  case (1 loop r cur acc res)
  show ?case
  proof (cases cur)
    case None
    with 1(2) show ?thesis by (auto intro: chain_end)
  next
    case (Some p)
    with 1(2) have "loop r (parent_of r p) (acc @ [p]) = Some res" by simp
    from 1(1) [OF this] Some show ?thesis by (auto intro: chain_step)
  qed
qed

lemma ancestors_loop_complete:
  "parent_chain r current ps \<Longrightarrow> ancestors_loop r current acc = Some (acc @ ps)"
  by (induction arbitrary: acc rule: parent_chain.induct) (subst ancestors_loop.simps, simp)+

lemma ancestors_of_chain: "ancestors_of r c = Some ps \<longleftrightarrow> parent_chain r (parent_of r c) ps"
  using ancestors_loop_sound [of r "parent_of r c" "[]" ps]
    ancestors_loop_complete [of r "parent_of r c" ps "[]"]
  by (auto simp: ancestors_of_def)

definition parent_rel :: "model_registry \<Rightarrow> (string \<times> string) set" where
  "parent_rel r = {(p, c). parent_of r c = Some p}"

lemma parent_rel_iff [simp]: "(p, c) \<in> parent_rel r \<longleftrightarrow> parent_of r c = Some p"
  by (simp add: parent_rel_def)

lemma parent_of_known: "parent_of r c = Some p \<Longrightarrow> known_class r c"
  by (auto simp: parent_of_def known_class_def im_contains_def element_by_name_def
      taxonomy_node_of_def bind_eq_Some_conv split: option.splits)

lemma finite_parent_rel: "finite (parent_rel r)"
proof -
  let ?C = "fst ` set (mr_elements_by_name r) \<union> fst ` set (mr_taxonomy_by_name r)"
  have "parent_rel r \<subseteq> (\<lambda>c. (the (parent_of r c), c)) ` ?C"
    by (auto simp: image_iff dest!: parent_of_known)
      (auto simp: known_class_def im_contains_iff_keys)
  then show ?thesis by (rule finite_subset) simp
qed

lemma chain_exists:
  assumes "wf (parent_rel r)"
  shows "\<exists>ps. parent_chain r (parent_of r c) ps"
  using assms
proof (induction c rule: wf_induct_rule)
  case (less c)
  show ?case
  proof (cases "parent_of r c")
    case None
    then show ?thesis by (metis chain_end)
  next
    case (Some p)
    then show ?thesis using less [of p] by (auto intro: chain_step)
  qed
qed

lemma chain_trancl: "parent_chain r cur ps \<Longrightarrow> cur = parent_of r c \<Longrightarrow> (p, c) \<in> (parent_rel r)\<^sup>+ \<Longrightarrow> p \<in> set ps"
proof (induction arbitrary: c rule: parent_chain.induct)
  case chain_end
  from chain_end.prems(2) show ?case
    by (cases rule: tranclE) (use chain_end.prems(1) in auto)
next
  case (chain_step q ps)
  from chain_step.prems(2) show ?case
    by (cases rule: tranclE) (use chain_step in auto)
qed

text \<open>A chain is shorter than any chain that leads to its start, so no name is its own ancestor.\<close>

lemma chain_deterministic: "parent_chain r cur ps \<Longrightarrow> parent_chain r cur qs \<Longrightarrow> qs = ps"
proof (induction arbitrary: qs rule: parent_chain.induct)
  case chain_end
  then show ?case by (auto elim: parent_chain_NoneE)
next
  case (chain_step p ps)
  from chain_step.prems chain_step.IH show ?case by (auto elim: parent_chain_SomeE)
qed

lemma chain_suffix:
  "parent_chain r cur ps \<Longrightarrow> p \<in> set ps \<Longrightarrow>
     \<exists>qs. parent_chain r (parent_of r p) qs \<and> length qs < length ps"
  by (induction rule: parent_chain.induct) (auto intro: less_SucI)

lemma chain_irrefl:
  assumes "parent_chain r (parent_of r c) ps"
  shows "(c, c) \<notin> (parent_rel r)\<^sup>+"
proof
  assume "(c, c) \<in> (parent_rel r)\<^sup>+"
  from chain_trancl [OF assms refl this] have "c \<in> set ps" .
  from chain_suffix [OF assms this] obtain qs
    where "parent_chain r (parent_of r c) qs" and "length qs < length ps" by blast
  with chain_deterministic [OF assms] show False by auto
qed

text \<open>
  C34: \<open>ancestors_of\<close>, an unbounded loop, returns for every class name exactly when no class is its
  own ancestor in the parent relation of the registry.
\<close>

theorem ancestors_of_terminates_iff:
  "(\<forall>c. \<exists>ps. ancestors_of r c = Some ps) \<longleftrightarrow> acyclic (parent_rel r)"
proof
  assume "\<forall>c. \<exists>ps. ancestors_of r c = Some ps"
  then show "acyclic (parent_rel r)"
    by (auto simp: ancestors_of_chain acyclic_def dest: chain_irrefl)
next
  assume "acyclic (parent_rel r)"
  then have "wf (parent_rel r)" by (rule finite_acyclic_wf [OF finite_parent_rel])
  from chain_exists [OF this] show "\<forall>c. \<exists>ps. ancestors_of r c = Some ps"
    by (simp add: ancestors_of_chain)
qed

lemma chain_known:
  "parent_chain r cur ps \<Longrightarrow> validate_integrity r = Ok () \<Longrightarrow> cur = parent_of r c \<Longrightarrow>
     p \<in> set ps \<Longrightarrow> known_class r p"
  by (induction arbitrary: c rule: parent_chain.induct) (auto dest: validate_integrity_parent_known [OF _ sym])

lemma chain_sound:
  "parent_chain r cur qs \<Longrightarrow> cur = parent_of r d \<Longrightarrow> \<forall>p \<in> set qs. (p, d) \<in> (parent_rel r)\<^sup>+"
proof (induction arbitrary: d rule: parent_chain.induct)
  case (chain_step q qs)
  then have "(q, d) \<in> parent_rel r" by simp
  with chain_step.IH [OF refl] show ?case by (auto intro: trancl_into_trancl)
qed simp

lemma chain_distinct: "parent_chain r cur qs \<Longrightarrow> distinct qs"
proof (induction rule: parent_chain.induct)
  case (chain_step q qs)
  have "q \<notin> set qs"
    using chain_suffix [OF chain_step.hyps] chain_deterministic [OF chain_step.hyps] by blast
  with chain_step.IH show ?case by simp
qed simp

lemma ancestors_of_set: "ancestors_of r c = Some ps \<Longrightarrow> set ps = {p. (p, c) \<in> (parent_rel r)\<^sup>+}"
  using chain_sound [OF _ refl] chain_trancl [OF _ refl] by (auto simp: ancestors_of_chain)

lemma ancestors_of_returns: "acyclic (parent_rel r) \<Longrightarrow> \<exists>ps. ancestors_of r c = Some ps"
  using chain_exists [OF finite_acyclic_wf [OF finite_parent_rel]] by (simp add: ancestors_of_chain)

text \<open>
  In a registry that \<open>from_manifest\<close> accepts, when the ancestor walk returns, it returns exactly
  the transitive parents of the class, each of them is a registered class or taxonomy node, and
  none is listed twice.
\<close>

theorem ancestors_of_exact:
  assumes "from_manifest m = Ok r" and "ancestors_of r c = Some ps"
  shows "set ps = {p. (p, c) \<in> (parent_rel r)\<^sup>+} \<and> (\<forall>p \<in> set ps. known_class r p) \<and> distinct ps"
  using ancestors_of_set [OF assms(2)] chain_distinct
    chain_known [OF _ from_manifest_Ok_D(2) [OF assms(1)] refl] assms(2)
  by (auto simp: ancestors_of_chain)

section \<open>Concrete registries\<close>

definition sample_node :: "string \<Rightarrow> string option \<Rightarrow> taxonomy_node" where
  "sample_node n p =
     \<lparr>tn_name = n, tn_semantic_id = SemanticId ''node'', tn_parent = p, tn_object_kind = Some ObLocation,
      tn_action_kind = None, tn_definition = [], tn_package_path = ''Classifiers''\<rparr>"

definition sample_class :: "string \<Rightarrow> string option \<Rightarrow> model_element_spec" where
  "sample_class n p =
     \<lparr>me_name = n, me_kind = MkClass, me_semantic_id = SemanticId ''class'',
      me_uri = MimUri ''https://www.mimworld.org/mim/5.1.0/Classifiers/Line'', me_package_path = [],
      me_definition = [], me_parent_class = p, me_representation_term = None,
      me_representation_metadata = None, me_multiplicity_lower = None, me_multiplicity_upper = None,
      me_is_mandatory = False, me_is_nillable = True\<rparr>"

definition sample_manifest :: "taxonomy_node list \<Rightarrow> model_element_spec list \<Rightarrow> mim_manifest" where
  "sample_manifest ns es =
     \<lparr>mm_version = ''5.1.0'', mm_release_date = ''2020-09-28'', mm_description = [],
      mm_expected_object_types = 0, mm_expected_action_types = 0, mm_expected_code_lists = 0,
      mm_taxonomy = ns, mm_elements = es, mm_code_lists = []\<rparr>"

lemmas sample_simps = sample_node_def sample_class_def sample_manifest_def

definition line_registry :: model_registry where
  "line_registry =
     add_element (sample_class ''Line'' (Some ''Location''))
       (add_taxonomy_node (sample_node ''Location'' None) (empty_registry ''5.1.0''))"

definition cyclic_registry :: model_registry where
  "cyclic_registry =
     add_element (sample_class ''Line'' (Some ''Line'')) 
       (add_taxonomy_node (sample_node ''Location'' None) (empty_registry ''5.1.0''))"

lemma line_registry_accepted:
  "from_manifest (sample_manifest [sample_node ''Location'' None] [sample_class ''Line'' (Some ''Location'')])
     = Ok line_registry"
  by (simp add: from_manifest_def line_registry_def sample_simps add_element_def empty_registry_def
      add_taxonomy_node_def validate_integrity_def check_taxonomy_parent_def check_element_parent_def
      im_values_def im_contains_def im_get_def)

lemma line_ancestors: "ancestors_of line_registry ''Line'' = Some [''Location'']"
  unfolding ancestors_of_chain
  by (simp add: line_registry_def sample_simps add_element_def add_taxonomy_node_def
      empty_registry_def parent_of_def element_by_name_def taxonomy_node_of_def im_get_def
      parent_chain.intros)

theorem ancestors_of_exact_witness:
  "set [''Location''] = {p. (p, ''Line'') \<in> (parent_rel line_registry)\<^sup>+} \<and>
     known_class line_registry ''Location''"
  using ancestors_of_exact [OF line_registry_accepted line_ancestors] by simp

text \<open>
  A manifest in which a class names itself as its parent passes the structural and the integrity
  checks, and the registry built from it never returns the ancestors of that class.
\<close>

theorem cyclic_manifest_accepted:
  "from_manifest (sample_manifest [sample_node ''Location'' None] [sample_class ''Line'' (Some ''Line'')])
     = Ok cyclic_registry \<and>
   validate_structure (sample_manifest [sample_node ''Location'' None] [sample_class ''Line'' (Some ''Line'')])
     = Ok () \<and>
   ancestors_of cyclic_registry ''Line'' = None"
proof (intro conjI)
  show "from_manifest (sample_manifest [sample_node ''Location'' None] [sample_class ''Line'' (Some ''Line'')])
     = Ok cyclic_registry"
    by (simp add: from_manifest_def cyclic_registry_def sample_simps add_element_def empty_registry_def
        add_taxonomy_node_def validate_integrity_def check_taxonomy_parent_def check_element_parent_def
        im_values_def im_contains_def im_get_def)
  have "(''Line'', ''Line'') \<in> parent_rel cyclic_registry"
    by (simp add: cyclic_registry_def sample_simps add_element_def add_taxonomy_node_def
      empty_registry_def parent_of_def element_by_name_def im_get_def)
  then show "ancestors_of cyclic_registry ''Line'' = None"
    by (cases "ancestors_of cyclic_registry ''Line''")
      (auto simp: ancestors_of_chain simp del: parent_rel_iff dest: chain_irrefl)
qed (simp add: validate_structure_def sample_simps)

end
