(* ===== verification/Labeling.thy ===== *)
theory Labeling
  imports Mim_Model
begin

text \<open>
  Crate \<open>mim-labeling\<close>: classification levels with their order, label policies, STANAG 4774
  confidentiality labels with their categories, the conversion from and to the MIM security
  metadata, and security domains.
\<close>

section \<open>Errors (\<open>error.rs\<close>)\<close>

datatype label_error =
    LeInvalidClassification string
  | LeInvalidPolicy string
  | LeInvalidDomain string
  | LeValidation string
  | LeParse string
  | LeSerialization string
  | LeBinding string
  | LeCrossDomain string
  | LeCompliance string

fun show_label_error :: "label_error \<Rightarrow> string" where
  "show_label_error (LeInvalidClassification s) = ''invalid classification: '' @ s"
| "show_label_error (LeInvalidPolicy s) = ''invalid policy: '' @ s"
| "show_label_error (LeInvalidDomain s) = ''invalid domain: '' @ s"
| "show_label_error (LeValidation s) = ''label validation error: '' @ s"
| "show_label_error (LeParse s) = ''parse error: '' @ s"
| "show_label_error (LeSerialization s) = ''serialization error: '' @ s"
| "show_label_error (LeBinding s) = ''binding error: '' @ s"
| "show_label_error (LeCrossDomain s) = ''cross-domain policy violation: '' @ s"
| "show_label_error (LeCompliance s) = ''compliance error: '' @ s"

fun mim_error_of_label :: "label_error \<Rightarrow> mim_error" where
  "mim_error_of_label (LeParse m) = MimParse m"
| "mim_error_of_label (LeSerialization m) = MimSerialization m"
| "mim_error_of_label (LeValidation m) = MimValidation m"
| "mim_error_of_label (LeCompliance m) = MimCompliance m"
| "mim_error_of_label other = MimValidation (show_label_error other)"

section \<open>Classification levels (\<open>classification.rs\<close>)\<close>

datatype classification_level =
    Unmarked | Public | Unclassified | Internal | Restricted | Confidential | Secret | CosmicTopSecret

text \<open>The derived order of the enum is the order of its constructors.\<close>

fun level_rank :: "classification_level \<Rightarrow> nat" where
  "level_rank Unmarked = 0"
| "level_rank Public = 1"
| "level_rank Unclassified = 2"
| "level_rank Internal = 3"
| "level_rank Restricted = 4"
| "level_rank Confidential = 5"
| "level_rank Secret = 6"
| "level_rank CosmicTopSecret = 7"

lemma level_rank_inject [simp]: "level_rank a = level_rank b \<longleftrightarrow> a = b"
  by (cases a; cases b) simp_all

instantiation classification_level :: linorder
begin

definition less_eq_classification_level :: "classification_level \<Rightarrow> classification_level \<Rightarrow> bool" where
  "less_eq_classification_level a b \<longleftrightarrow> level_rank a \<le> level_rank b"

definition less_classification_level :: "classification_level \<Rightarrow> classification_level \<Rightarrow> bool" where
  "less_classification_level a b \<longleftrightarrow> level_rank a < level_rank b"

instance
  by standard (auto simp: less_eq_classification_level_def less_classification_level_def
      simp flip: level_rank_inject)

end

lemmas level_le_iff = less_eq_classification_level_def
lemmas level_less_iff = less_classification_level_def

definition classification_level_all :: "classification_level list" where
  "classification_level_all =
     [Unmarked, Public, Unclassified, Internal, Restricted, Confidential, Secret, CosmicTopSecret]"

definition classification_parse :: "string \<Rightarrow> label_error + classification_level" where
  "classification_parse value =
     (let normalized = to_ascii_uppercase (trim value) in
      if normalized = ''UNMARKED'' then Ok Unmarked
      else if normalized = ''PUBLIC'' then Ok Public
      else if normalized \<in> {''UNCLASSIFIED'', ''NATO UNCLASSIFIED''} then Ok Unclassified
      else if normalized = ''INTERNAL'' then Ok Internal
      else if normalized \<in> {''RESTRICTED'', ''NATO RESTRICTED''} then Ok Restricted
      else if normalized \<in> {''CONFIDENTIAL'', ''NATO CONFIDENTIAL'', ''NATO/EAPC CONFIDENTIAL'',
                ''NATO/KFOR CONFIDENTIAL''} then Ok Confidential
      else if normalized \<in> {''SECRET'', ''NATO SECRET''} then Ok Secret
      else if normalized \<in> {''TOP SECRET'', ''COSMIC TOP SECRET'', ''COSMIC_TOP_SECRET''} then Ok CosmicTopSecret
      else Err (LeInvalidClassification normalized))"

fun as_stanag_str :: "classification_level \<Rightarrow> string" where
  "as_stanag_str Unmarked = ''UNMARKED''"
| "as_stanag_str Public = ''PUBLIC''"
| "as_stanag_str Unclassified = ''UNCLASSIFIED''"
| "as_stanag_str Internal = ''INTERNAL''"
| "as_stanag_str Restricted = ''RESTRICTED''"
| "as_stanag_str Confidential = ''CONFIDENTIAL''"
| "as_stanag_str Secret = ''SECRET''"
| "as_stanag_str CosmicTopSecret = ''COSMIC TOP SECRET''"

definition can_release_to :: "classification_level \<Rightarrow> classification_level \<Rightarrow> bool" where
  "can_release_to l target_max \<longleftrightarrow> l \<le> target_max"

section \<open>Label policies (\<open>policy.rs\<close>)\<close>

record label_policy =
  lp_identifier :: string
  lp_oid :: "string option"
  lp_allowed_classifications :: "classification_level list"

definition label_policy_new :: "string \<Rightarrow> label_policy" where
  "label_policy_new i =
     \<lparr>lp_identifier = i, lp_oid = None, lp_allowed_classifications = classification_level_all\<rparr>"

definition with_identifier :: "string \<Rightarrow> label_policy \<Rightarrow> label_policy" where
  "with_identifier i p = p\<lparr>lp_identifier := i\<rparr>"

definition with_oid :: "string \<Rightarrow> label_policy \<Rightarrow> label_policy" where
  "with_oid i p = p\<lparr>lp_oid := Some i\<rparr>"

definition with_allowed_classifications :: "classification_level list \<Rightarrow> label_policy \<Rightarrow> label_policy" where
  "with_allowed_classifications ls p = p\<lparr>lp_allowed_classifications := ls\<rparr>"

definition allows_classification :: "label_policy \<Rightarrow> classification_level \<Rightarrow> bool" where
  "allows_classification p l \<longleftrightarrow> l \<in> set (lp_allowed_classifications p)"

definition nato_policy_oid :: string where
  "nato_policy_oid = ''urn:oid:2.16.840.1.101.2.3.6.1.31778.102.25''"

definition nato_policy :: label_policy where
  "nato_policy =
     with_allowed_classifications [Unclassified, Restricted, Confidential, Secret, CosmicTopSecret]
       (with_oid nato_policy_oid (label_policy_new ''NATO''))"

definition public_policy :: label_policy where
  "public_policy = with_allowed_classifications [Unmarked, Unclassified] (label_policy_new ''PUBLIC'')"

definition capco_us_policy :: label_policy where
  "capco_us_policy =
     with_allowed_classifications [Unclassified, Confidential, Secret, CosmicTopSecret]
       (with_oid ''2.16.840.1.101.2.3.48.2.1'' (label_policy_new ''US''))"

definition uk_demo_policy :: label_policy where
  "uk_demo_policy =
     with_allowed_classifications [Unclassified, Restricted, Confidential, Secret, CosmicTopSecret]
       (with_oid ''1.2.826.0.1.6726289.0.2'' (label_policy_new ''DEMO-UK''))"

lemmas label_policy_simps [model_simps] =
  label_policy_new_def with_identifier_def with_oid_def with_allowed_classifications_def
  allows_classification_def nato_policy_def public_policy_def capco_us_policy_def uk_demo_policy_def

section \<open>Confidentiality labels (\<open>label.rs\<close>)\<close>

datatype category_type = CtRestrictive | CtPermissive | CtInformative

record category_marking =
  cm_tag_name :: string
  cm_category_type :: category_type
  cm_values :: "string list"

definition releasable_to_marking :: "string list \<Rightarrow> category_marking" where
  "releasable_to_marking countries =
     \<lparr>cm_tag_name = ''Releasable to'', cm_category_type = CtPermissive, cm_values = countries\<rparr>"

definition handling_caveat_marking :: "string \<Rightarrow> category_marking" where
  "handling_caveat_marking caveat =
     \<lparr>cm_tag_name = ''Handling'', cm_category_type = CtRestrictive, cm_values = [caveat]\<rparr>"

datatype conf_label = ConfLabel
  (cf_policy: label_policy)
  (cf_classification: classification_level)
  (cf_privacy_mark: "string option")
  (cf_colour: "string option")
  (cf_marking_data: "string option")
  (cf_categories: "category_marking list")
  (cf_alternative_labels: "conf_label list")
  (cf_creation_time: "date_time option")
  (cf_review_date_time: "date_time option")

definition conf_label_new :: "label_policy \<Rightarrow> classification_level \<Rightarrow> conf_label" where
  "conf_label_new p l = ConfLabel p l None None None [] [] None None"

fun with_colour :: "string \<Rightarrow> conf_label \<Rightarrow> conf_label" where
  "with_colour c (ConfLabel p l pm _ md cats alts ct rd) = ConfLabel p l pm (Some c) md cats alts ct rd"

fun with_marking_data :: "string \<Rightarrow> conf_label \<Rightarrow> conf_label" where
  "with_marking_data d (ConfLabel p l pm co _ cats alts ct rd) = ConfLabel p l pm co (Some d) cats alts ct rd"

fun with_alternative_label :: "conf_label \<Rightarrow> conf_label \<Rightarrow> conf_label" where
  "with_alternative_label a (ConfLabel p l pm co md cats alts ct rd) =
     ConfLabel p l pm co md cats (alts @ [a]) ct rd"

fun with_category :: "category_marking \<Rightarrow> conf_label \<Rightarrow> conf_label" where
  "with_category c (ConfLabel p l pm co md cats alts ct rd) =
     ConfLabel p l pm co md (cats @ [c]) alts ct rd"

fun with_creation_time :: "date_time \<Rightarrow> conf_label \<Rightarrow> conf_label" where
  "with_creation_time t (ConfLabel p l pm co md cats alts _ rd) =
     ConfLabel p l pm co md cats alts (Some t) rd"

fun with_review_date_time :: "date_time \<Rightarrow> conf_label \<Rightarrow> conf_label" where
  "with_review_date_time t (ConfLabel p l pm co md cats alts ct _) =
     ConfLabel p l pm co md cats alts ct (Some t)"

text \<open>Assignments to single fields, as the code writes them on a clone.\<close>

fun set_classification :: "classification_level \<Rightarrow> conf_label \<Rightarrow> conf_label" where
  "set_classification l (ConfLabel p _ pm co md cats alts ct rd) = ConfLabel p l pm co md cats alts ct rd"

fun set_categories :: "category_marking list \<Rightarrow> conf_label \<Rightarrow> conf_label" where
  "set_categories cats (ConfLabel p l pm co md _ alts ct rd) = ConfLabel p l pm co md cats alts ct rd"

lemma set_field_simps [simp]:
  "cf_policy (set_classification l c) = cf_policy c"
  "cf_classification (set_classification l c) = l"
  "cf_categories (set_classification l c) = cf_categories c"
  "cf_alternative_labels (set_classification l c) = cf_alternative_labels c"
  "cf_policy (set_categories cs c) = cf_policy c"
  "cf_classification (set_categories cs c) = cf_classification c"
  "cf_categories (set_categories cs c) = cs"
  "cf_alternative_labels (set_categories cs c) = cf_alternative_labels c"
  "cf_policy (with_category m c) = cf_policy c"
  "cf_classification (with_category m c) = cf_classification c"
  "cf_categories (with_category m c) = cf_categories c @ [m]"
  by (cases c; simp)+

definition check_category :: "category_marking \<Rightarrow> label_error + unit" where
  "check_category c =
     (if cm_tag_name c = [] then Err (LeValidation ''category tagName must not be empty'')
      else if cm_values c = [] then
        Err (LeValidation (''category '' @ quoted (cm_tag_name c) @ '' requires at least one value''))
      else Ok ())"

definition validate_conf_label :: "conf_label \<Rightarrow> label_error + unit" where
  "validate_conf_label l =
     (if lp_identifier (cf_policy l) = [] then
        Err (LeValidation ''policy identifier is mandatory'')
      else if \<not> allows_classification (cf_policy l) (cf_classification l) then
        Err (LeValidation (''classification '' @ as_stanag_str (cf_classification l) @
               '' not allowed by policy '' @ lp_identifier (cf_policy l)))
      else try_each check_category (cf_categories l))"

definition tagged_values :: "(category_marking \<Rightarrow> bool) \<Rightarrow> conf_label \<Rightarrow> string list" where
  "tagged_values sel l = concat (map cm_values (filter sel (cf_categories l)))"

definition is_releasable_to :: "category_marking \<Rightarrow> bool" where
  "is_releasable_to c \<longleftrightarrow> eq_ignore_ascii_case (cm_tag_name c) ''Releasable to''"

definition releasable_countries :: "conf_label \<Rightarrow> string list" where
  "releasable_countries l = tagged_values is_releasable_to l"

definition handling_caveats :: "conf_label \<Rightarrow> string list" where
  "handling_caveats l = tagged_values (\<lambda>c. eq_ignore_ascii_case (cm_tag_name c) ''Handling'') l"

definition restrictive_category_values :: "conf_label \<Rightarrow> string list" where
  "restrictive_category_values l = tagged_values (\<lambda>c. cm_category_type c = CtRestrictive) l"

text \<open>The separators of \<open>releasability.split([',', ';', ' '])\<close>.\<close>

definition releasability_sep :: "char \<Rightarrow> bool" where
  "releasability_sep c \<longleftrightarrow> c = CHR '','' \<or> c = CHR '';'' \<or> c = CHR '' ''"

definition parse_countries :: "string \<Rightarrow> string list" where
  "parse_countries s = map to_uppercase (filter (\<lambda>p. p \<noteq> []) (split_on releasability_sep s))"

definition from_mim_security :: "security_classification \<Rightarrow> label_error + conf_label" where
  "from_mim_security s =
     (let policy = with_identifier (case as_option (sc_policy s) of Some i \<Rightarrow> i | None \<Rightarrow> ''NATO'') nato_policy;
          classification_str = (case as_option (sc_classification s) of Some c \<Rightarrow> c | None \<Rightarrow> ''UNCLASSIFIED'')
      in and_then (classification_parse classification_str) (\<lambda>level.
           let label = conf_label_new policy level in
           Ok (case as_option (sc_releasability s) of
                 None \<Rightarrow> label
               | Some r \<Rightarrow>
                   let countries = parse_countries r in
                   if countries \<noteq> [] then with_category (releasable_to_marking countries) label
                   else label)))"

definition to_mim_security :: "conf_label \<Rightarrow> security_classification" where
  "to_mim_security l =
     (let r = join_with '','' (releasable_countries l) in
      \<lparr>sc_policy = Value (lp_identifier (cf_policy l)),
       sc_classification = Value (as_stanag_str (cf_classification l)),
       sc_releasability = (if r = [] then Absent else Value r)\<rparr>)"

section \<open>Security domains (\<open>domain.rs\<close>)\<close>

type_synonym domain_id = string

record security_domain =
  sd_id :: domain_id
  sd_name :: string
  sd_max_classification :: classification_level
  sd_releasable_to :: "string list"
  sd_accepted_nationalities :: "string list"
  sd_mission_compartments :: "string list"

definition security_domain_new :: "string \<Rightarrow> string \<Rightarrow> classification_level \<Rightarrow> security_domain" where
  "security_domain_new i n m =
     \<lparr>sd_id = i, sd_name = n, sd_max_classification = m, sd_releasable_to = [],
      sd_accepted_nationalities = [], sd_mission_compartments = []\<rparr>"

definition with_mission_compartments :: "string list \<Rightarrow> security_domain \<Rightarrow> security_domain" where
  "with_mission_compartments ms d = d\<lparr>sd_mission_compartments := ms\<rparr>"

definition with_accepted_nationalities :: "string list \<Rightarrow> security_domain \<Rightarrow> security_domain" where
  "with_accepted_nationalities ns d = d\<lparr>sd_accepted_nationalities := ns\<rparr>"

definition with_releasable_to :: "string list \<Rightarrow> security_domain \<Rightarrow> security_domain" where
  "with_releasable_to cs d = d\<lparr>sd_releasable_to := cs\<rparr>"

definition any_ignore_case :: "string list \<Rightarrow> string \<Rightarrow> bool" where
  "any_ignore_case xs y \<longleftrightarrow> list_ex (\<lambda>x. eq_ignore_ascii_case x y) xs"

definition accepts_mission :: "security_domain \<Rightarrow> string \<Rightarrow> bool" where
  "accepts_mission d m \<longleftrightarrow>
     sd_mission_compartments d = [] \<or> any_ignore_case (sd_mission_compartments d) m"

definition accepts_country :: "security_domain \<Rightarrow> string \<Rightarrow> bool" where
  "accepts_country d c \<longleftrightarrow>
     (if sd_accepted_nationalities d \<noteq> [] \<and> \<not> any_ignore_case (sd_accepted_nationalities d) c
      then False
      else sd_releasable_to d = [] \<or> any_ignore_case (sd_releasable_to d) c)"

definition validate_domain_id :: "string \<Rightarrow> label_error + unit" where
  "validate_domain_id i =
     (if i = [] then Err (LeInvalidDomain ''domain id must not be empty'') else Ok ())"

lemmas security_domain_simps [model_simps] =
  security_domain_new_def with_mission_compartments_def with_accepted_nationalities_def
  with_releasable_to_def

section \<open>Classification levels: order and text\<close>

lemma classification_level_all_complete: "l \<in> set classification_level_all"
  by (cases l) (simp_all add: classification_level_all_def)

lemma classification_level_all_sorted: "sorted_wrt (<) classification_level_all"
  by (simp add: classification_level_all_def level_less_iff)

lemma can_release_to_bot_top: "can_release_to Unmarked l" "can_release_to l CosmicTopSecret"
  by (cases l; simp add: can_release_to_def level_le_iff)+

lemma trim_stanag [simp]: "trim (as_stanag_str l) = as_stanag_str l"
  by (cases l) (auto intro!: trim_id simp: ws_lead_def ws_tail_def white_space_seqs_def)

lemma ascii_upper_stanag [simp]: "to_ascii_uppercase (as_stanag_str l) = as_stanag_str l"
  by (cases l) (simp_all add: to_ascii_uppercase_def ascii_upper_def)

lemma classification_parse_as_str [simp]: "classification_parse (as_stanag_str l) = Ok l"
  by (simp add: classification_parse_def) (cases l; simp)

lemma classification_parse_case_blind:
  "to_ascii_uppercase (trim a) = to_ascii_uppercase (trim b) \<Longrightarrow> classification_parse a = classification_parse b"
  by (simp add: classification_parse_def)

section \<open>Labels: validation and markings\<close>

definition category_ok :: "category_marking \<Rightarrow> bool" where
  "category_ok c \<longleftrightarrow> cm_tag_name c \<noteq> [] \<and> cm_values c \<noteq> []"

lemma check_category_Ok_iff [simp]: "check_category c = Ok u \<longleftrightarrow> category_ok c"
  by (simp add: check_category_def category_ok_def)

lemma validate_conf_label_Ok_iff:
  "validate_conf_label l = Ok () \<longleftrightarrow>
     lp_identifier (cf_policy l) \<noteq> [] \<and>
     allows_classification (cf_policy l) (cf_classification l) \<and>
     (\<forall>c \<in> set (cf_categories l). category_ok c)"
  by (simp add: validate_conf_label_def try_each_Inr_iff)

lemma in_tagged_values_iff:
  "v \<in> set (tagged_values sel l) \<longleftrightarrow> (\<exists>c \<in> set (cf_categories l). sel c \<and> v \<in> set (cm_values c))"
  by (auto simp: tagged_values_def)

lemma tagged_values_new [simp]: "tagged_values sel (conf_label_new p l) = []"
  by (simp add: tagged_values_def conf_label_new_def)

lemma tagged_values_with_category [simp]:
  "tagged_values sel (with_category c l) = tagged_values sel l @ (if sel c then cm_values c else [])"
  by (simp add: tagged_values_def)

lemma releasable_to_marking_simps [simp]:
  "is_releasable_to (releasable_to_marking cs)"
  "cm_values (releasable_to_marking cs) = cs"
  "cm_category_type (releasable_to_marking cs) = CtPermissive"
  "cm_tag_name (releasable_to_marking cs) = ''Releasable to''"
  by (simp_all add: is_releasable_to_def releasable_to_marking_def)

lemma conf_label_new_simps [simp]:
  "cf_policy (conf_label_new p l) = p"
  "cf_classification (conf_label_new p l) = l"
  "cf_categories (conf_label_new p l) = []"
  by (simp_all add: conf_label_new_def)

section \<open>The MIM security metadata\<close>

definition plain_country :: "string \<Rightarrow> bool" where
  "plain_country c \<longleftrightarrow> c \<noteq> [] \<and> (\<forall>ch \<in> set c. \<not> releasability_sep ch) \<and> to_uppercase c = c"

lemma parse_countries_join:
  assumes "cs \<noteq> []" and "\<forall>c \<in> set cs. plain_country c"
  shows "parse_countries (join_with '','' cs) = cs"
proof -
  have "split_on releasability_sep (join_with '','' cs) = cs"
    using assms by (intro split_join) (auto simp: plain_country_def releasability_sep_def)
  moreover have "filter (\<lambda>p. p \<noteq> []) cs = cs" and "map to_uppercase cs = cs"
    using assms(2) by (auto simp: plain_country_def intro!: filter_True map_idI)
  ultimately show ?thesis by (simp add: parse_countries_def)
qed

lemma parse_countries_upper: "c \<in> set (parse_countries s) \<Longrightarrow> plain_country c"
proof -
  assume "c \<in> set (parse_countries s)"
  then obtain p where c: "c = to_uppercase p" and p: "p \<noteq> []" "p \<in> set (split_on releasability_sep s)"
    by (auto simp: parse_countries_def)
  have "\<not> releasability_sep (ascii_upper ch)" if "ch \<in> set p" for ch
    using split_on_pieces [OF p(2) that]
    by (auto simp: releasability_sep_def ascii_upper_def dest: arg_cong [where f = "of_char :: char \<Rightarrow> nat"])
  with c p(1) show "plain_country c"
    by (auto simp: plain_country_def to_uppercase_def)
qed

text \<open>
  A label written to the MIM security metadata and read back keeps its policy identifier,
  its classification and, when its releasable countries are plain upper-case names, exactly its
  releasability; every other category, the handling caveats included, is not carried over.
\<close>

theorem mim_security_round_trip:
  assumes "\<forall>c \<in> set (releasable_countries l). plain_country c"
  shows "\<exists>l'. from_mim_security (to_mim_security l) = Ok l' \<and>
     lp_identifier (cf_policy l') = lp_identifier (cf_policy l) \<and>
     cf_classification l' = cf_classification l \<and>
     releasable_countries l' = releasable_countries l \<and>
     restrictive_category_values l' = [] \<and> handling_caveats l' = []"
proof -
  let ?rc = "releasable_countries l"
  have nil: "join_with '','' ?rc = [] \<longleftrightarrow> ?rc = []"
    using assms by (cases "?rc = [[]]") (auto simp: join_with_eq_Nil_iff plain_country_def)
  note simps = from_mim_security_def to_mim_security_def Let_def nil [unfolded releasable_countries_def] releasable_countries_def
    restrictive_category_values_def handling_caveats_def label_policy_simps
  show ?thesis
  proof (cases "?rc = []")
    case True
    then show ?thesis by (simp add: simps)
  next
    case False
    with parse_countries_join [OF False assms] show ?thesis
      by (simp add: simps eq_ignore_ascii_case_def to_ascii_lowercase_def ascii_lower_def)
  qed
qed

definition sample_label :: conf_label where
  "sample_label =
     with_category (handling_caveat_marking ''ATOMAL'')
       (with_category (releasable_to_marking [''USA'', ''GBR'']) (conf_label_new nato_policy Secret))"

lemma releasable_countries_sample: "releasable_countries sample_label = [''USA'', ''GBR'']"
  by (simp add: sample_label_def releasable_countries_def is_releasable_to_def handling_caveat_marking_def
      eq_ignore_ascii_case_def to_ascii_lowercase_def)

theorem mim_security_round_trip_witness:
  "\<exists>l'. from_mim_security (to_mim_security sample_label) = Ok l' \<and>
     releasable_countries l' = [''USA'', ''GBR''] \<and> handling_caveats l' = []"
proof -
  have "\<forall>c \<in> set (releasable_countries sample_label). plain_country c"
    by (simp add: releasable_countries_sample plain_country_def releasability_sep_def to_uppercase_def
        ascii_upper_def)
  from mim_security_round_trip [OF this] show ?thesis
    by (auto simp: releasable_countries_sample)
qed

section \<open>Domains\<close>

lemma any_ignore_case_iff: "any_ignore_case xs y \<longleftrightarrow> (\<exists>x \<in> set xs. eq_ignore_ascii_case x y)"
  by (simp add: any_ignore_case_def list_ex_iff)

lemma any_ignore_case_cong:
  "eq_ignore_ascii_case y z \<Longrightarrow> any_ignore_case xs y \<longleftrightarrow> any_ignore_case xs z"
  by (auto simp: any_ignore_case_iff eq_ignore_ascii_case_def)

lemma accepts_country_iff:
  "accepts_country d c \<longleftrightarrow>
     (sd_accepted_nationalities d = [] \<or> any_ignore_case (sd_accepted_nationalities d) c) \<and>
     (sd_releasable_to d = [] \<or> any_ignore_case (sd_releasable_to d) c)"
  by (auto simp: accepts_country_def)

end
