(* ===== verification/Spif.thy ===== *)
theory Spif
  imports Labeling Index_Map
begin

text \<open>
  Crate \<open>mim-spif\<close>: security policy information files, the registry of loaded policies and the
  validation of labels against them. The registry is a \<open>HashMap\<close>, here an association list whose
  order stands for the iteration order of the map; reading XML is a parameter.
\<close>

section \<open>Policies (\<open>policy.rs\<close>)\<close>

datatype spif_category_type = SctRestrictive | SctPermissive | SctInformative

record spif_version_info =
  sv_spif_version :: "string option"
  sv_issuing_authority :: "string option"

record spif_category =
  sk_name :: string
  sk_category_type :: spif_category_type
  sk_allowed_values :: "string list"

record spif_validation =
  sr_classification :: string
  sr_category_name :: string
  sr_required_any_of :: "string list"

record spif_policy =
  sp_policy_id :: string
  sp_policy_oid :: "string option"
  sp_version_info :: "spif_version_info option"
  sp_allowed_classifications :: "string list"
  sp_categories :: "spif_category list"
  sp_validations :: "spif_validation list"

definition spif_acme :: spif_policy where
  "spif_acme =
     \<lparr>sp_policy_id = ''ACME'', sp_policy_oid = None, sp_version_info = None,
      sp_allowed_classifications = [''PUBLIC'', ''INTERNAL'', ''CONFIDENTIAL''],
      sp_categories =
        [\<lparr>sk_name = ''Sensitive'', sk_category_type = SctRestrictive,
           sk_allowed_values = [''RED'', ''AMBER'', ''GREEN'']\<rparr>,
         \<lparr>sk_name = ''Releasable To'', sk_category_type = SctPermissive,
           sk_allowed_values = [''MOCK'', ''PHONY'', ''ACME'']\<rparr>],
      sp_validations =
        [\<lparr>sr_classification = ''CONFIDENTIAL'', sr_category_name = ''Releasable To'',
           sr_required_any_of = [''MOCK'', ''PHONY'']\<rparr>]\<rparr>"

definition spif_nato :: spif_policy where
  "spif_nato =
     \<lparr>sp_policy_id = ''NATO'',
      sp_policy_oid = Some ''urn:oid:2.16.840.1.101.2.3.6.1.31778.102.25'', sp_version_info = None,
      sp_allowed_classifications =
        [''UNCLASSIFIED'', ''NATO UNCLASSIFIED'', ''RESTRICTED'', ''NATO RESTRICTED'',
         ''CONFIDENTIAL'', ''NATO CONFIDENTIAL'', ''NATO/EAPC CONFIDENTIAL'',
         ''NATO/KFOR CONFIDENTIAL'', ''SECRET'', ''NATO SECRET'', ''COSMIC TOP SECRET''],
      sp_categories =
        [\<lparr>sk_name = ''Releasable to'', sk_category_type = SctPermissive,
           sk_allowed_values = [''USA'', ''GBR'', ''DEU'', ''FRA'']\<rparr>],
      sp_validations = []\<rparr>"

definition spif_capco_us :: spif_policy where
  "spif_capco_us =
     \<lparr>sp_policy_id = ''US'', sp_policy_oid = Some ''2.16.840.1.101.2.3.48.2.1'',
      sp_version_info = None,
      sp_allowed_classifications = [''UNCLASSIFIED'', ''CONFIDENTIAL'', ''SECRET'', ''TOP SECRET''],
      sp_categories =
        [\<lparr>sk_name = ''SCI'', sk_category_type = SctRestrictive,
           sk_allowed_values = [''SI'', ''TK'', ''HCS'']\<rparr>,
         \<lparr>sk_name = ''Releasable To'', sk_category_type = SctPermissive,
           sk_allowed_values = [''USA'', ''FVEY'', ''NATO'']\<rparr>],
      sp_validations =
        [\<lparr>sr_classification = ''TOP SECRET'', sr_category_name = ''SCI'',
           sr_required_any_of = [''SI'', ''TK'']\<rparr>]\<rparr>"

definition spif_uk_demo :: spif_policy where
  "spif_uk_demo =
     \<lparr>sp_policy_id = ''DEMO-UK'', sp_policy_oid = Some ''1.2.826.0.1.6726289.0.2'',
      sp_version_info = None,
      sp_allowed_classifications = [''OFFICIAL'', ''OFFICIAL-SENSITIVE'', ''SECRET'', ''TOP SECRET''],
      sp_categories =
        [\<lparr>sk_name = ''Handling'', sk_category_type = SctRestrictive,
           sk_allowed_values = [''LOCSEN'', ''UK EYES ONLY'']\<rparr>,
         \<lparr>sk_name = ''Releasable To'', sk_category_type = SctPermissive,
           sk_allowed_values = [''UK'', ''NATO'', ''EU'']\<rparr>],
      sp_validations =
        [\<lparr>sr_classification = ''SECRET'', sr_category_name = ''Handling'',
           sr_required_any_of = [''LOCSEN'']\<rparr>]\<rparr>"

section \<open>The registry (\<open>registry.rs\<close>)\<close>

record spif_registry =
  sreg_policies :: "(string, spif_policy) index_map"

definition spif_registry_new :: spif_registry where
  "spif_registry_new = \<lparr>sreg_policies = []\<rparr>"

definition spif_register :: "spif_policy \<Rightarrow> spif_registry \<Rightarrow> string + spif_registry" where
  "spif_register p r =
     (if sp_policy_id p = [] then Err ''SPIF policy identifier is empty''
      else Ok (r\<lparr>sreg_policies := im_insert (sp_policy_id p) p (sreg_policies r)\<rparr>))"

text \<open>\<open>with_defaults\<close> unwraps each registration with \<open>expect\<close>: an error is a panic.\<close>

definition spif_registry_with_defaults :: "string + spif_registry" where
  "spif_registry_with_defaults =
     and_then (spif_register spif_nato spif_registry_new) (\<lambda>r.
     and_then (spif_register spif_acme r) (\<lambda>r.
     and_then (spif_register spif_capco_us r) (\<lambda>r.
     spif_register spif_uk_demo r)))"

definition spif_load_xml ::
  "(string \<Rightarrow> string + spif_policy) \<Rightarrow> string \<Rightarrow> spif_registry \<Rightarrow> string + spif_registry" where
  "spif_load_xml parse xml r = and_then (parse xml) (\<lambda>p. spif_register p r)"

definition spif_get :: "spif_registry \<Rightarrow> string \<Rightarrow> spif_policy option" where
  "spif_get r i = im_get (sreg_policies r) i"

definition policy_for_label :: "spif_registry \<Rightarrow> conf_label \<Rightarrow> spif_policy option" where
  "policy_for_label r l = spif_get r (lp_identifier (cf_policy l))"

definition spif_policies :: "spif_registry \<Rightarrow> spif_policy list" where
  "spif_policies r = im_values (sreg_policies r)"

section \<open>Validation (\<open>validator.rs\<close>)\<close>

definition spif_category_for :: "spif_policy \<Rightarrow> category_marking \<Rightarrow> spif_category option" where
  "spif_category_for p c = find (\<lambda>k. eq_ignore_ascii_case (sk_name k) (cm_tag_name c)) (sp_categories p)"

fun expected_spif_type :: "category_type \<Rightarrow> spif_category_type" where
  "expected_spif_type CtRestrictive = SctRestrictive"
| "expected_spif_type CtPermissive = SctPermissive"
| "expected_spif_type CtInformative = SctInformative"

definition check_spif_value :: "category_marking \<Rightarrow> spif_category \<Rightarrow> string \<Rightarrow> label_error + unit" where
  "check_spif_value c k v =
     (if any_ignore_case (sk_allowed_values k) v then Ok ()
      else Err (LeValidation (''category value '' @ quoted v @ '' not permitted for '' @
             quoted (cm_tag_name c))))"

definition check_spif_category :: "spif_policy \<Rightarrow> category_marking \<Rightarrow> label_error + unit" where
  "check_spif_category p c =
     (case spif_category_for p c of
        None \<Rightarrow> Err (LeValidation (''category '' @ quoted (cm_tag_name c) @
                  '' not defined in SPIF policy '' @ sp_policy_id p))
      | Some k \<Rightarrow>
          and_then
            (if sk_allowed_values k \<noteq> [] then try_each (check_spif_value c k) (cm_values c) else Ok ())
            (\<lambda>_. if sk_category_type k \<noteq> expected_spif_type (cm_category_type c)
                 then Err (LeValidation (''category '' @ quoted (cm_tag_name c) @
                        '' type mismatch with SPIF policy''))
                 else Ok ()))"

definition rule_values :: "conf_label \<Rightarrow> spif_validation \<Rightarrow> string list" where
  "rule_values l rule =
     (case find (\<lambda>c. eq_ignore_ascii_case (cm_tag_name c) (sr_category_name rule)) (cf_categories l) of
        Some c \<Rightarrow> cm_values c
      | None \<Rightarrow> [])"

definition check_spif_rule :: "conf_label \<Rightarrow> spif_validation \<Rightarrow> label_error + unit" where
  "check_spif_rule l rule =
     (if \<not> eq_ignore_ascii_case (as_stanag_str (cf_classification l)) (sr_classification rule) then Ok ()
      else if list_ex (\<lambda>req. any_ignore_case (rule_values l rule) req) (sr_required_any_of rule) then Ok ()
      else Err (LeValidation (''SPIF validation failed: classification '' @ sr_classification rule @
             '' requires category '' @ quoted (sr_category_name rule) @ '' with one of '' @
             debug_strings (sr_required_any_of rule))))"

definition validate_against_policy :: "conf_label \<Rightarrow> spif_policy \<Rightarrow> label_error + unit" where
  "validate_against_policy l p =
     (let class = as_stanag_str (cf_classification l) in
      if \<not> any_ignore_case (sp_allowed_classifications p) class then
        Err (LeValidation (''classification '' @ class @ '' not permitted by SPIF policy '' @ sp_policy_id p))
      else and_then (try_each (check_spif_category p) (cf_categories l))
        (\<lambda>_. try_each (check_spif_rule l) (sp_validations p)))"

definition spif_validate_label :: "spif_registry \<Rightarrow> conf_label \<Rightarrow> label_error + unit" where
  "spif_validate_label r l =
     and_then (validate_conf_label l) (\<lambda>_.
     and_then (ok_or (LeInvalidPolicy (''unknown SPIF policy identifier: '' @ lp_identifier (cf_policy l)))
                 (policy_for_label r l))
       (\<lambda>p. validate_against_policy l p))"

section \<open>What acceptance means\<close>

definition category_conforms :: "spif_policy \<Rightarrow> category_marking \<Rightarrow> bool" where
  "category_conforms p c \<longleftrightarrow>
     (\<exists>k. spif_category_for p c = Some k \<and>
        (sk_allowed_values k \<noteq> [] \<longrightarrow> (\<forall>v \<in> set (cm_values c). any_ignore_case (sk_allowed_values k) v)) \<and>
        sk_category_type k = expected_spif_type (cm_category_type c))"

definition rule_holds :: "conf_label \<Rightarrow> spif_validation \<Rightarrow> bool" where
  "rule_holds l rule \<longleftrightarrow>
     (eq_ignore_ascii_case (as_stanag_str (cf_classification l)) (sr_classification rule) \<longrightarrow>
        (\<exists>req \<in> set (sr_required_any_of rule). any_ignore_case (rule_values l rule) req))"

definition conforms_to :: "conf_label \<Rightarrow> spif_policy \<Rightarrow> bool" where
  "conforms_to l p \<longleftrightarrow>
     any_ignore_case (sp_allowed_classifications p) (as_stanag_str (cf_classification l)) \<and>
     (\<forall>c \<in> set (cf_categories l). category_conforms p c) \<and>
     (\<forall>rule \<in> set (sp_validations p). rule_holds l rule)"

lemma check_spif_value_Ok_iff [simp]:
  "check_spif_value c k v = Ok u \<longleftrightarrow> any_ignore_case (sk_allowed_values k) v"
  by (simp add: check_spif_value_def)

lemma check_spif_category_Ok_iff [simp]: "check_spif_category p c = Ok u \<longleftrightarrow> category_conforms p c"
  by (cases "spif_category_for p c")
    (auto simp: check_spif_category_def category_conforms_def and_then_Inr_iff try_each_Inr_iff)

lemma check_spif_rule_Ok_iff [simp]: "check_spif_rule l rule = Ok u \<longleftrightarrow> rule_holds l rule"
  by (simp add: check_spif_rule_def rule_holds_def list_ex_iff)

lemma validate_against_policy_Ok_iff: "validate_against_policy l p = Ok () \<longleftrightarrow> conforms_to l p"
  by (simp add: validate_against_policy_def conforms_to_def Let_def and_then_Inr_iff try_each_Inr_iff)

text \<open>
  The SPIF validator accepts a label exactly when the label is well formed under its own
  policy, the registry holds a policy of that identifier, and the label conforms to it: its
  classification is listed, each of its categories is defined there with the same type and only
  allowed values, and every validation rule for its classification finds a required value.
\<close>

theorem spif_validate_label_Ok_iff:
  "spif_validate_label r l = Ok () \<longleftrightarrow>
     validate_conf_label l = Ok () \<and>
     (\<exists>p. spif_get r (lp_identifier (cf_policy l)) = Some p \<and> conforms_to l p)"
  by (auto simp: spif_validate_label_def and_then_Inr_iff policy_for_label_def
      validate_against_policy_Ok_iff)

section \<open>The registry\<close>

definition spif_registry_wf :: "spif_registry \<Rightarrow> bool" where
  "spif_registry_wf r \<longleftrightarrow>
     keyed_by sp_policy_id (sreg_policies r) \<and> (\<forall>p \<in> set (spif_policies r). sp_policy_id p \<noteq> [])"

lemma spif_registry_wf_new [inv_intros]: "spif_registry_wf spif_registry_new"
  by (simp add: spif_registry_wf_def spif_registry_new_def keyed_by_Nil spif_policies_def im_values_def)

lemma spif_register_Ok_iff:
  "spif_register p r = Ok r' \<longleftrightarrow>
     sp_policy_id p \<noteq> [] \<and> r' = r\<lparr>sreg_policies := im_insert (sp_policy_id p) p (sreg_policies r)\<rparr>"
  by (auto simp: spif_register_def)

lemma spif_registry_wf_register [inv_intros]:
  "spif_registry_wf r \<Longrightarrow> spif_register p r = Ok r' \<Longrightarrow> spif_registry_wf r'"
  using im_values_insert_subset [of "sp_policy_id p" p "sreg_policies r"]
  by (auto simp: spif_register_Ok_iff spif_registry_wf_def spif_policies_def keyed_by_insert)

lemma spif_get_register:
  "spif_register p r = Ok r' \<Longrightarrow> spif_get r' i = (if i = sp_policy_id p then Some p else spif_get r i)"
  by (auto simp: spif_register_Ok_iff spif_get_def)

lemma spif_defaults_get:
  assumes "spif_registry_with_defaults = Ok r"
  shows "spif_get r i =
     (if i = ''DEMO-UK'' then Some spif_uk_demo
      else if i = ''US'' then Some spif_capco_us
      else if i = ''ACME'' then Some spif_acme
      else if i = ''NATO'' then Some spif_nato
      else None)"
proof -
  from assms obtain r1 r2 r3 where reg: "spif_register spif_nato spif_registry_new = Ok r1"
    "spif_register spif_acme r1 = Ok r2" "spif_register spif_capco_us r2 = Ok r3"
    "spif_register spif_uk_demo r3 = Ok r"
    unfolding spif_registry_with_defaults_def and_then_Inr_iff by blast
  have ids: "sp_policy_id spif_uk_demo = ''DEMO-UK''" "sp_policy_id spif_capco_us = ''US''"
    "sp_policy_id spif_acme = ''ACME''" "sp_policy_id spif_nato = ''NATO''"
    by (simp_all add: spif_uk_demo_def spif_capco_us_def spif_acme_def spif_nato_def)
  have "spif_get spif_registry_new i = None"
    by (simp add: spif_get_def spif_registry_new_def)
  then show ?thesis
    by (simp add: spif_get_register [OF reg(1)] spif_get_register [OF reg(2)]
        spif_get_register [OF reg(3)] spif_get_register [OF reg(4)] ids)
qed

lemma spif_defaults_exist: "\<exists>r. spif_registry_with_defaults = Ok r \<and> spif_registry_wf r"
  by (simp add: spif_registry_with_defaults_def spif_register_def spif_nato_def spif_acme_def
      spif_capco_us_def spif_uk_demo_def spif_registry_wf_def spif_registry_new_def spif_policies_def
      im_values_def keyed_by_def im_wf_def)

lemmas spif_eval = any_ignore_case_def eq_ignore_ascii_case_def to_ascii_lowercase_def ascii_lower_def

text \<open>
  With the built-in policies, every accepted label names one of the four policies, and a label
  under the US policy is never accepted at its highest level: the policy lists TOP SECRET while a
  label renders as COSMIC TOP SECRET. Under the DEMO-UK policy only SECRET labels are accepted, and
  each carries the caveat LOCSEN.
\<close>

theorem spif_defaults_acceptance:
  assumes "spif_registry_with_defaults = Ok r" and "spif_validate_label r l = Ok ()"
  shows "lp_identifier (cf_policy l) \<in> {''NATO'', ''ACME'', ''US'', ''DEMO-UK''} \<and>
     (lp_identifier (cf_policy l) = ''US'' \<longrightarrow> cf_classification l \<in> {Unclassified, Confidential, Secret}) \<and>
     (lp_identifier (cf_policy l) = ''DEMO-UK'' \<longrightarrow>
        cf_classification l = Secret \<and>
        any_ignore_case (handling_caveats l) ''LOCSEN'')"
proof -
  from assms obtain p where get: "spif_get r (lp_identifier (cf_policy l)) = Some p" and c: "conforms_to l p"
    by (auto simp: spif_validate_label_Ok_iff)
  have us: "cf_classification l \<in> {Unclassified, Confidential, Secret}" if "p = spif_capco_us"
    using c that by (cases "cf_classification l") (simp_all add: conforms_to_def spif_capco_us_def spif_eval)
  have uk: "cf_classification l = Secret" if "p = spif_uk_demo"
    using c that by (cases "cf_classification l") (simp_all add: conforms_to_def spif_uk_demo_def spif_eval)
  have locsen: "any_ignore_case (handling_caveats l) ''LOCSEN''" if p: "p = spif_uk_demo"
  proof -
    let ?rule = "\<lparr>sr_classification = ''SECRET'', sr_category_name = ''Handling'',
           sr_required_any_of = [''LOCSEN'']\<rparr>"
    have "rule_holds l ?rule" using c p by (simp add: conforms_to_def spif_uk_demo_def)
    then have "any_ignore_case (rule_values l ?rule) ''LOCSEN''"
      using uk [OF p] by (simp add: rule_holds_def)
    moreover have "set (rule_values l ?rule) \<subseteq> set (handling_caveats l)"
      by (auto simp: rule_values_def handling_caveats_def in_tagged_values_iff
          split: option.splits dest!: find_SomeD [OF sym] find_SomeD)
    ultimately show ?thesis by (auto simp: any_ignore_case_iff)
  qed
  show ?thesis
    using get us uk locsen by (auto simp: spif_defaults_get [OF assms(1)] split: if_splits)
qed

definition uk_locsen_label :: conf_label where
  "uk_locsen_label = with_category (handling_caveat_marking ''LOCSEN'') (conf_label_new uk_demo_policy Secret)"

theorem spif_defaults_acceptance_witness:
  "\<exists>r. spif_registry_with_defaults = Ok r \<and> spif_validate_label r uk_locsen_label = Ok () \<and>
     any_ignore_case (handling_caveats uk_locsen_label) ''LOCSEN''"
proof -
  obtain r where r: "spif_registry_with_defaults = Ok r" using spif_defaults_exist by blast
  have pol: "lp_identifier (cf_policy uk_locsen_label) = ''DEMO-UK''"
    by (simp add: uk_locsen_label_def model_simps)
  have v: "validate_conf_label uk_locsen_label = Ok ()"
    by (simp add: uk_locsen_label_def validate_conf_label_Ok_iff model_simps category_ok_def
        handling_caveat_marking_def)
  have c: "conforms_to uk_locsen_label spif_uk_demo"
    by (simp add: conforms_to_def spif_uk_demo_def uk_locsen_label_def category_conforms_def
        spif_category_for_def handling_caveat_marking_def rule_holds_def rule_values_def spif_eval)
  have ok: "spif_validate_label r uk_locsen_label = Ok ()"
    using v c pol by (simp add: spif_validate_label_Ok_iff spif_defaults_get [OF r])
  from spif_defaults_acceptance [OF r ok] pol ok r show ?thesis by auto
qed

end
