(* ===== verification/Xml_Events.thy ===== *)
theory Xml_Events
  imports Rust_Strings
begin

text \<open>
  The events of the XML library (\<open>quick-xml\<close>) as the readers of security policies and of ontologies see
  them. The library is an argument of the readers, a function from a text to its events; texts are trimmed
  by its configuration and not unescaped, attributes are raw.
\<close>

text \<open>An attribute is its qualified name and its raw bytes.\<close>

type_synonym px_attributes = "(string \<times> string) list"

datatype px_event =
    PxStart string px_attributes
  | PxEmpty string px_attributes
  | PxText string
  | PxEnd string
  | PxOther

text \<open>The library's local name: what follows the first colon.\<close>

definition qname_local :: "string \<Rightarrow> string" where
  "qname_local q = (case split_once (CHR '':'') q of Some (_, n) \<Rightarrow> n | None \<Rightarrow> q)"

definition attr_value :: "px_attributes \<Rightarrow> string \<Rightarrow> string option" where
  "attr_value attrs key =
     Option.bind (find (\<lambda>(k, _). k = key \<or> qname_local k = key) attrs) (\<lambda>(_, v). result_ok (from_utf8 v))"

lemma qname_local_plain: "CHR '':'' \<notin> set q \<Longrightarrow> qname_local q = q"
  by (cases "split_once (CHR '':'') q") (auto simp: qname_local_def split_once_Some_iff)

lemma qname_local_prefixed: "CHR '':'' \<notin> set p \<Longrightarrow> qname_local (p @ CHR '':'' # n) = n"
  using split_once_Some_iff [of "CHR '':''" "p @ CHR '':'' # n" p n] by (simp add: qname_local_def)

text \<open>\<open>rsplit_once\<close>: at the last occurrence.\<close>

definition rsplit_once :: "char \<Rightarrow> string \<Rightarrow> (string \<times> string) option" where
  "rsplit_once c s = map_option (\<lambda>(a, b). (rev b, rev a)) (split_once c (rev s))"

lemma rsplit_once_Some_iff: "rsplit_once c s = Some (a, b) \<longleftrightarrow> s = a @ c # b \<and> c \<notin> set b"
proof -
  have "rsplit_once c s = Some (a, b) \<longleftrightarrow> split_once c (rev s) = Some (rev b, rev a)"
    by (auto simp: rsplit_once_def)
  also have "\<dots> \<longleftrightarrow> rev s = rev b @ c # rev a \<and> c \<notin> set b" by (simp add: split_once_Some_iff)
  also have "rev s = rev b @ c # rev a \<longleftrightarrow> s = a @ c # b"
    using rev_is_rev_conv [of s "a @ c # b"] by simp
  finally show ?thesis .
qed

end
