(* ===== verification/Spif_Xml.thy ===== *)
theory Spif_Xml
  imports Spif Xml_Events
begin

text \<open>
  Crate \<open>mim-spif\<close>: the reader of XML-SPIF policies (\<open>parser.rs\<close>) and the schema check before it
  (\<open>xsd.rs\<close>). The XML library and xmllint are arguments. The reader is a state machine: its
  variables are a record, one step per event.
\<close>

section \<open>Environment\<close>

record spif_env =
  px_read :: "string \<Rightarrow> (string + px_event) list"
  px_xmllint_available :: bool
  px_write :: "string \<Rightarrow> string + unit"
  px_xmllint :: "string \<Rightarrow> string \<Rightarrow> string + bool \<times> string"
  px_schema_iso :: string
  px_schema_xmlspif :: string

section \<open>Schema check (\<open>xsd.rs\<close>)\<close>

datatype spif_schema_profile = Iso29008_2011 | XmlSpif2

fun schema_bytes :: "spif_env \<Rightarrow> spif_schema_profile \<Rightarrow> string" where
  "schema_bytes env Iso29008_2011 = px_schema_iso env"
| "schema_bytes env XmlSpif2 = px_schema_xmlspif env"

definition detect_profile :: "string \<Rightarrow> spif_schema_profile" where
  "detect_profile xml =
     (if contains_str xml ''urn:iso:std:iso:29008:2011:confidentialitymetadatalabel'' then Iso29008_2011
      else if contains_str xml ''http://www.xmlspif.org/spif'' then XmlSpif2
      else Iso29008_2011)"

definition spif_validate_structural :: "string \<Rightarrow> string + unit" where
  "spif_validate_structural xml =
     (if \<not> contains_str xml ''<spif'' then Err ''missing root <spif> element''
      else if \<not> (contains_str xml ''securityPolicyId'' \<or> contains_str xml ''policyIdentifier'') then
        Err ''missing securityPolicyId''
      else if \<not> (contains_str xml ''securityClassification'' \<or> contains_str xml ''<classification>'') then
        Err ''missing securityClassification elements''
      else if \<not> (contains_str xml ''<identifier>'' \<or> contains_str xml ''policyIdentifier'') then
        Err ''missing policy identifier''
      else Ok ())"

text \<open>Writing a text to a temporary file may fail; xmllint answers whether it succeeded, and its error output.\<close>

definition spif_validate_with_xmllint :: "spif_env \<Rightarrow> string \<Rightarrow> string \<Rightarrow> string + unit" where
  "spif_validate_with_xmllint env xml schema =
     (if \<not> px_xmllint_available env then Err ''xmllint not available''
      else
        and_then (px_write env xml) (\<lambda>_.
        and_then (px_write env schema) (\<lambda>_.
        and_then (map_err (\<lambda>e. ''xmllint execution failed: '' @ e) (px_xmllint env xml schema)) (\<lambda>(success, stderr).
        if success then Ok () else Err (''xmllint schema validation failed: '' @ trim stderr)))))"

definition validate_spif_xsd_with_profile :: "spif_env \<Rightarrow> string \<Rightarrow> spif_schema_profile \<Rightarrow> string + unit" where
  "validate_spif_xsd_with_profile env xml profile =
     (case spif_validate_with_xmllint env xml (schema_bytes env profile) of
        Inr u \<Rightarrow> Ok u
      | Inl xmllint_err \<Rightarrow>
          map_err (\<lambda>structural.
              ''XSD validation failed ('' @ xmllint_err @ ''); structural check: '' @ structural)
            (spif_validate_structural xml))"

definition validate_spif_xsd :: "spif_env \<Rightarrow> string \<Rightarrow> string + unit" where
  "validate_spif_xsd env xml = validate_spif_xsd_with_profile env xml (detect_profile xml)"

section \<open>The reader (\<open>parser.rs\<close>)\<close>

record spif_reader =
  pr_policy_id :: string
  pr_policy_oid :: "string option"
  pr_version_info :: "spif_version_info option"
  pr_spif_version :: "string option"
  pr_issuing_authority :: "string option"
  pr_in_versioninfo :: bool
  pr_allowed :: "string list"
  pr_categories :: "spif_category list"
  pr_validations :: "spif_validation list"
  pr_text :: string
  pr_in_classification :: bool
  pr_in_category :: bool
  pr_in_validation :: bool
  pr_class_name :: string
  pr_cat_name :: string
  pr_cat_type :: spif_category_type
  pr_cat_values :: "string list"
  pr_val_class :: string
  pr_val_category :: string
  pr_val_required :: "string list"

definition spif_reader_init :: spif_reader where
  "spif_reader_init =
     \<lparr>pr_policy_id = [], pr_policy_oid = None, pr_version_info = None, pr_spif_version = None,
      pr_issuing_authority = None, pr_in_versioninfo = False, pr_allowed = [], pr_categories = [],
      pr_validations = [], pr_text = [], pr_in_classification = False, pr_in_category = False,
      pr_in_validation = False, pr_class_name = [], pr_cat_name = [], pr_cat_type = SctRestrictive,
      pr_cat_values = [], pr_val_class = [], pr_val_category = [], pr_val_required = []\<rparr>"

definition url_attribute :: "px_attributes \<Rightarrow> string option" where
  "url_attribute attrs = (case attr_value attrs ''URL'' of Some v \<Rightarrow> Some v | None \<Rightarrow> attr_value attrs ''url'')"

definition spif_parse_category_type :: "string \<Rightarrow> spif_category_type" where
  "spif_parse_category_type v =
     (let l = to_ascii_lowercase v in
      if l = ''permissive'' then SctPermissive else if l = ''informative'' then SctInformative else SctRestrictive)"

definition open_element :: "string \<Rightarrow> px_attributes \<Rightarrow> spif_reader \<Rightarrow> spif_reader" where
  "open_element el attrs s =
     (if el = ''securityClassification'' \<or> el = ''classification'' then
        s\<lparr>pr_in_classification := True, pr_class_name := []\<rparr>
      else if el = ''securityCategory'' \<or> el = ''category'' then
        s\<lparr>pr_in_category := True, pr_cat_name := [], pr_cat_values := [],
          pr_cat_type :=
            (case (case attr_value attrs ''type'' of Some t \<Rightarrow> Some t | None \<Rightarrow> attr_value attrs ''tagtype'') of
               Some t \<Rightarrow> spif_parse_category_type t
             | None \<Rightarrow> SctRestrictive)\<rparr>
      else if el = ''validation'' then
        s\<lparr>pr_in_validation := True, pr_val_class := [], pr_val_category := [], pr_val_required := []\<rparr>
      else if el = ''versioninfo'' then
        s\<lparr>pr_in_versioninfo := True, pr_spif_version := None, pr_issuing_authority := None\<rparr>
      else s)"

definition read_url :: "px_attributes \<Rightarrow> spif_reader \<Rightarrow> spif_reader" where
  "read_url attrs s = (case url_attribute attrs of Some i \<Rightarrow> s\<lparr>pr_policy_oid := Some i\<rparr> | None \<Rightarrow> s)"

definition push_text :: "string \<Rightarrow> string list \<Rightarrow> string list" where
  "push_text t vs = (if t \<noteq> [] then vs @ [t] else vs)"

text \<open>The arms of the match on the closing tag, in their order.\<close>

definition close_element :: "string \<Rightarrow> spif_reader \<Rightarrow> spif_reader" where
  "close_element n s =
     (let t = pr_text s in
      if n = ''identifier'' \<and> pr_policy_id s = [] then s\<lparr>pr_policy_id := t\<rparr>
      else if n = ''spifversion'' \<and> pr_in_versioninfo s then s\<lparr>pr_spif_version := Some t\<rparr>
      else if n = ''issuingauthority'' \<and> pr_in_versioninfo s then s\<lparr>pr_issuing_authority := Some t\<rparr>
      else if n = ''name'' \<and> pr_in_classification s then s\<lparr>pr_class_name := t\<rparr>
      else if n = ''name'' \<and> pr_in_category s then s\<lparr>pr_cat_name := t\<rparr>
      else if (n = ''type'' \<or> n = ''tagtype'') \<and> pr_in_category s then s\<lparr>pr_cat_type := spif_parse_category_type t\<rparr>
      else if (n = ''genericValue'' \<or> n = ''categoryName'' \<or> n = ''value'') \<and> pr_in_category s then
        s\<lparr>pr_cat_values := push_text t (pr_cat_values s)\<rparr>
      else if n = ''classification'' \<and> pr_in_validation s then s\<lparr>pr_val_class := t\<rparr>
      else if n = ''categoryName'' \<and> pr_in_validation s then s\<lparr>pr_val_category := t\<rparr>
      else if (n = ''requiredValue'' \<or> n = ''genericValue'') \<and> pr_in_validation s then
        s\<lparr>pr_val_required := push_text t (pr_val_required s)\<rparr>
      else if (n = ''securityClassification'' \<or> n = ''classification'') \<and> pr_in_classification s then
        s\<lparr>pr_allowed := push_text (pr_class_name s) (pr_allowed s), pr_in_classification := False\<rparr>
      else if (n = ''securityCategory'' \<or> n = ''category'') \<and> pr_in_category s then
        s\<lparr>pr_categories :=
            (if pr_cat_name s \<noteq> [] then
               pr_categories s @
                 [\<lparr>sk_name = pr_cat_name s, sk_category_type = pr_cat_type s, sk_allowed_values = pr_cat_values s\<rparr>]
             else pr_categories s),
          pr_in_category := False\<rparr>
      else if n = ''validation'' \<and> pr_in_validation s then
        s\<lparr>pr_validations :=
            (if pr_val_class s \<noteq> [] \<and> pr_val_category s \<noteq> [] then
               pr_validations s @
                 [\<lparr>sr_classification = pr_val_class s, sr_category_name = pr_val_category s,
                   sr_required_any_of = pr_val_required s\<rparr>]
             else pr_validations s),
          pr_in_validation := False\<rparr>
      else if n = ''versioninfo'' \<and> pr_in_versioninfo s then
        s\<lparr>pr_version_info :=
            Some \<lparr>sv_spif_version = pr_spif_version s, sv_issuing_authority = pr_issuing_authority s\<rparr>,
          pr_in_versioninfo := False\<rparr>
      else s)"

fun spif_step :: "px_event \<Rightarrow> spif_reader \<Rightarrow> spif_reader" where
  "spif_step (PxStart q attrs) s =
     (let el = qname_local q; s1 = open_element el attrs (s\<lparr>pr_text := []\<rparr>) in
      if el = ''identifier'' \<or> el = ''name'' then read_url attrs s1 else s1)"
| "spif_step (PxEmpty q attrs) s = read_url attrs s"
| "spif_step (PxText t) s = s\<lparr>pr_text := trim t\<rparr>"
| "spif_step (PxEnd q) s = (close_element (qname_local q) s)\<lparr>pr_text := []\<rparr>"
| "spif_step PxOther s = s"

fun read_spif :: "(string + px_event) list \<Rightarrow> spif_reader \<Rightarrow> string + spif_reader" where
  "read_spif [] s = Ok s"
| "read_spif (Inl e # es) s = Err e"
| "read_spif (Inr ev # es) s = read_spif es (spif_step ev s)"

definition policy_of_reader :: "spif_reader \<Rightarrow> string + spif_policy" where
  "policy_of_reader s =
     (if pr_policy_id s = [] then Err ''SPIF policy missing securityPolicyId/identifier''
      else Ok \<lparr>sp_policy_id = pr_policy_id s, sp_policy_oid = pr_policy_oid s,
               sp_version_info = pr_version_info s, sp_allowed_classifications = pr_allowed s,
               sp_categories = pr_categories s, sp_validations = pr_validations s\<rparr>)"

definition parse_spif_xml_with_options :: "spif_env \<Rightarrow> string \<Rightarrow> bool \<Rightarrow> string + spif_policy" where
  "parse_spif_xml_with_options env content validate_xsd =
     and_then (if validate_xsd then validate_spif_xsd env content else Ok ()) (\<lambda>_.
     and_then (read_spif (px_read env content) spif_reader_init) policy_of_reader)"

definition parse_spif_xml :: "spif_env \<Rightarrow> string \<Rightarrow> string + spif_policy" where
  "parse_spif_xml env content = parse_spif_xml_with_options env content True"

section \<open>A policy document\<close>

text \<open>The order of the documents shipped with the crate: version, identifier, classifications, categories,
  validations.\<close>

definition text_element :: "string \<Rightarrow> px_attributes \<Rightarrow> string \<Rightarrow> px_event list" where
  "text_element n attrs t = [PxStart n attrs, PxText t, PxEnd n]"

definition optional_element :: "string \<Rightarrow> string option \<Rightarrow> px_event list" where
  "optional_element n v = (case v of Some t \<Rightarrow> text_element n [] t | None \<Rightarrow> [])"

definition version_events :: "spif_version_info option \<Rightarrow> px_event list" where
  "version_events v =
     (case v of
        None \<Rightarrow> []
      | Some i \<Rightarrow>
          PxStart ''versioninfo'' [] # optional_element ''spifversion'' (sv_spif_version i) @
          optional_element ''issuingauthority'' (sv_issuing_authority i) @ [PxEnd ''versioninfo''])"

definition classification_events :: "string \<Rightarrow> px_event list" where
  "classification_events c =
     PxStart ''securityClassification'' [] # text_element ''name'' [] c @ [PxEnd ''securityClassification'']"

fun category_type_name :: "spif_category_type \<Rightarrow> string" where
  "category_type_name SctRestrictive = ''restrictive''"
| "category_type_name SctPermissive = ''permissive''"
| "category_type_name SctInformative = ''informative''"

definition category_events :: "spif_category \<Rightarrow> px_event list" where
  "category_events k =
     PxStart ''securityCategory'' [(''type'', category_type_name (sk_category_type k))] #
     text_element ''name'' [] (sk_name k) @
     concat (map (text_element ''categoryName'' []) (sk_allowed_values k)) @ [PxEnd ''securityCategory'']"

definition validation_events :: "spif_validation \<Rightarrow> px_event list" where
  "validation_events v =
     PxStart ''validation'' [] # text_element ''classification'' [] (sr_classification v) @
     text_element ''categoryName'' [] (sr_category_name v) @
     concat (map (text_element ''requiredValue'' []) (sr_required_any_of v)) @ [PxEnd ''validation'']"

definition grouped :: "string \<Rightarrow> px_event list \<Rightarrow> px_event list" where
  "grouped n evs = PxStart n [] # evs @ [PxEnd n]"

text \<open>The root may have attributes (the shipped documents declare a namespace), and a policy without validations may be
  written with or without their group.\<close>

definition policy_events :: "px_attributes \<Rightarrow> bool \<Rightarrow> spif_policy \<Rightarrow> px_event list" where
  "policy_events attrs empty_group p =
     PxOther # PxStart ''spif'' attrs # version_events (sp_version_info p) @
     PxStart ''securityPolicyId'' [] #
     text_element ''identifier'' (case sp_policy_oid p of Some i \<Rightarrow> [(''URL'', i)] | None \<Rightarrow> []) (sp_policy_id p) @
     PxEnd ''securityPolicyId'' #
     grouped ''securityClassifications'' (concat (map classification_events (sp_allowed_classifications p))) @
     grouped ''securityCategories'' (concat (map category_events (sp_categories p))) @
     (if sp_validations p = [] \<and> \<not> empty_group then []
      else grouped ''validations'' (concat (map validation_events (sp_validations p)))) @ [PxEnd ''spif'']"

definition spif_plain_text :: "string \<Rightarrow> bool" where
  "spif_plain_text t \<longleftrightarrow> t \<noteq> [] \<and> trim t = t"

definition plain_policy :: "spif_policy \<Rightarrow> bool" where
  "plain_policy p \<longleftrightarrow>
     spif_plain_text (sp_policy_id p) \<and>
     (case sp_policy_oid p of Some i \<Rightarrow> from_utf8 i = Ok i | None \<Rightarrow> True) \<and>
     (case sp_version_info p of
        None \<Rightarrow> True
      | Some i \<Rightarrow> pred_option spif_plain_text (sv_spif_version i) \<and> pred_option spif_plain_text (sv_issuing_authority i)) \<and>
     list_all spif_plain_text (sp_allowed_classifications p) \<and>
     list_all (\<lambda>k. spif_plain_text (sk_name k) \<and> list_all spif_plain_text (sk_allowed_values k)) (sp_categories p) \<and>
     list_all (\<lambda>v. spif_plain_text (sr_classification v) \<and> spif_plain_text (sr_category_name v) \<and>
       list_all spif_plain_text (sr_required_any_of v)) (sp_validations p)"

section \<open>Reading a document back\<close>

abbreviation read_events_of :: "px_event list \<Rightarrow> spif_reader \<Rightarrow> spif_reader" where
  "read_events_of evs s \<equiv> fold spif_step evs s"

lemma read_spif_fold: "read_spif (map Ok evs) s = Ok (read_events_of evs s)"
  by (induction evs arbitrary: s) simp_all

lemmas reader_simps = Let_def qname_local_plain open_element_def close_element_def read_url_def url_attribute_def
  attr_value_def push_text_def text_element_def

lemma read_category_value:
  assumes "pr_in_category s" "spif_plain_text t"
  shows "read_events_of (text_element ''categoryName'' [] t) s = s\<lparr>pr_cat_values := pr_cat_values s @ [t], pr_text := []\<rparr>"
  using assms by (simp add: reader_simps spif_plain_text_def)

lemma read_required_value:
  assumes "pr_in_validation s" "\<not> pr_in_category s" "spif_plain_text t"
  shows "read_events_of (text_element ''requiredValue'' [] t) s =
    s\<lparr>pr_val_required := pr_val_required s @ [t], pr_text := []\<rparr>"
  using assms by (simp add: reader_simps spif_plain_text_def)

lemma read_category_values:
  assumes "pr_in_category s" "list_all spif_plain_text ts" "pr_text s = []"
  shows "read_events_of (concat (map (text_element ''categoryName'' []) ts)) s = s\<lparr>pr_cat_values := pr_cat_values s @ ts\<rparr>"
  using assms by (induction ts arbitrary: s) (simp_all add: read_category_value)

lemma read_required_values:
  assumes "pr_in_validation s" "\<not> pr_in_category s" "list_all spif_plain_text ts" "pr_text s = []"
  shows "read_events_of (concat (map (text_element ''requiredValue'' []) ts)) s = s\<lparr>pr_val_required := pr_val_required s @ ts\<rparr>"
  using assms by (induction ts arbitrary: s) (simp_all add: read_required_value)

lemma category_type_name_read [simp]:
  "from_utf8 (category_type_name ty) = Ok (category_type_name ty)"
  "spif_parse_category_type (category_type_name ty) = ty"
  by (cases ty; simp add: from_utf8_ascii)
    (cases ty; simp add: spif_parse_category_type_def to_ascii_lowercase_def Let_def ascii_lower_def)

text \<open>Each block of a document adds its entry; a validation also leaves the reader in a classification.\<close>

lemma read_spif_classification:
  assumes "spif_plain_text c"
  shows "read_events_of (classification_events c) s =
    s\<lparr>pr_allowed := pr_allowed s @ [c], pr_in_classification := False, pr_class_name := c, pr_text := []\<rparr>"
  using assms by (simp add: classification_events_def reader_simps spif_plain_text_def)

lemma read_spif_category:
  assumes "\<not> pr_in_classification s" "spif_plain_text (sk_name k)" "list_all spif_plain_text (sk_allowed_values k)"
  shows "read_events_of (category_events k) s =
    s\<lparr>pr_categories := pr_categories s @ [k], pr_in_category := False, pr_cat_name := sk_name k,
      pr_cat_type := sk_category_type k, pr_cat_values := sk_allowed_values k, pr_text := []\<rparr>"
  using assms by (cases k) (simp add: category_events_def reader_simps spif_plain_text_def read_category_values)

lemma read_spif_validation:
  assumes "\<not> pr_in_category s" "spif_plain_text (sr_classification v)" "spif_plain_text (sr_category_name v)"
    "list_all spif_plain_text (sr_required_any_of v)"
  shows "read_events_of (validation_events v) s =
    s\<lparr>pr_validations := pr_validations s @ [v], pr_in_validation := False, pr_val_class := sr_classification v,
      pr_val_category := sr_category_name v, pr_val_required := sr_required_any_of v,
      pr_in_classification := True, pr_class_name := [], pr_text := []\<rparr>"
  using assms by (cases v) (simp add: validation_events_def reader_simps spif_plain_text_def read_required_values)

text \<open>What has been read so far, and how the blocks of a document extend it.\<close>

definition read_so_far ::
  "spif_reader \<Rightarrow> string \<times> string option \<times> spif_version_info option \<times> string list \<times> spif_category list \<times> spif_validation list" where
  "read_so_far s =
     (pr_policy_id s, pr_policy_oid s, pr_version_info s, pr_allowed s, pr_categories s, pr_validations s)"

definition outside_blocks :: "spif_reader \<Rightarrow> bool" where
  "outside_blocks s \<longleftrightarrow> \<not> pr_in_classification s \<and> \<not> pr_in_category s"

lemma read_spif_classifications:
  assumes "outside_blocks s" "list_all spif_plain_text cs"
  shows "read_so_far (read_events_of (concat (map classification_events cs)) s) =
      read_so_far (s\<lparr>pr_allowed := pr_allowed s @ cs\<rparr>) \<and>
    outside_blocks (read_events_of (concat (map classification_events cs)) s)"
  using assms
  by (induction cs arbitrary: s) (simp_all add: read_spif_classification read_so_far_def outside_blocks_def)

lemma read_spif_categories:
  assumes "outside_blocks s"
    "list_all (\<lambda>k. spif_plain_text (sk_name k) \<and> list_all spif_plain_text (sk_allowed_values k)) ks"
  shows "read_so_far (read_events_of (concat (map category_events ks)) s) =
      read_so_far (s\<lparr>pr_categories := pr_categories s @ ks\<rparr>) \<and>
    outside_blocks (read_events_of (concat (map category_events ks)) s)"
  using assms
  by (induction ks arbitrary: s) (simp_all add: read_spif_category read_so_far_def outside_blocks_def)

lemma read_spif_validations:
  assumes "\<not> pr_in_category s"
    "list_all (\<lambda>v. spif_plain_text (sr_classification v) \<and> spif_plain_text (sr_category_name v) \<and>
       list_all spif_plain_text (sr_required_any_of v)) vs"
  shows "read_so_far (read_events_of (concat (map validation_events vs)) s) =
    read_so_far (s\<lparr>pr_validations := pr_validations s @ vs\<rparr>)"
  using assms by (induction vs arbitrary: s) (simp_all add: read_spif_validation read_so_far_def)

text \<open>The container elements around the blocks leave no trace.\<close>

lemma container_steps:
  assumes "n = ''securityClassifications'' \<or> n = ''securityCategories'' \<or> n = ''validations''"
  shows "spif_step (PxStart n []) s = s\<lparr>pr_text := []\<rparr>" "spif_step (PxEnd n) s = s\<lparr>pr_text := []\<rparr>"
  using assms by (elim disjE; simp add: reader_simps)+

lemma read_spif_container:
  assumes "n = ''securityClassifications'' \<or> n = ''securityCategories'' \<or> n = ''validations''"
  shows "read_so_far (read_events_of (grouped n evs) s) = read_so_far (read_events_of evs (s\<lparr>pr_text := []\<rparr>)) \<and>
    (outside_blocks (read_events_of (grouped n evs) s) \<longleftrightarrow> outside_blocks (read_events_of evs (s\<lparr>pr_text := []\<rparr>)))"
  by (simp add: grouped_def container_steps [OF assms] read_so_far_def outside_blocks_def del: spif_step.simps)

lemma read_spif_version:
  assumes "outside_blocks s" "pr_version_info s = None"
    "case v of None \<Rightarrow> True
     | Some i \<Rightarrow> pred_option spif_plain_text (sv_spif_version i) \<and> pred_option spif_plain_text (sv_issuing_authority i)"
  shows "read_so_far (read_events_of (version_events v) s) = read_so_far (s\<lparr>pr_version_info := v\<rparr>) \<and>
    outside_blocks (read_events_of (version_events v) s)"
proof (cases v)
  case (Some i)
  with assms show ?thesis
    by (cases i; cases "sv_spif_version i"; cases "sv_issuing_authority i")
      (simp_all add: version_events_def optional_element_def reader_simps spif_plain_text_def read_so_far_def outside_blocks_def)
qed (use assms in \<open>simp add: version_events_def read_so_far_def\<close>)

lemma read_spif_identifier:
  assumes "outside_blocks s" "pr_policy_id s = []" "pr_policy_oid s = None" "spif_plain_text i"
    "case u of Some j \<Rightarrow> from_utf8 j = Ok j | None \<Rightarrow> True"
  shows "read_events_of (PxStart ''securityPolicyId'' [] #
      text_element ''identifier'' (case u of Some j \<Rightarrow> [(''URL'', j)] | None \<Rightarrow> []) i @ [PxEnd ''securityPolicyId'']) s =
    s\<lparr>pr_policy_id := i, pr_policy_oid := u, pr_text := []\<rparr>"
  using assms by (cases u) (simp_all add: reader_simps spif_plain_text_def)

lemma read_spif_policy:
  assumes p: "plain_policy p"
  shows "read_so_far (read_events_of (policy_events attrs empty_group p) spif_reader_init) =
    (sp_policy_id p, sp_policy_oid p, sp_version_info p, sp_allowed_classifications p, sp_categories p, sp_validations p)"
proof -
  note plain = p [unfolded plain_policy_def]
  define s1 where "s1 = read_events_of (version_events (sp_version_info p)) (spif_step (PxStart ''spif'' attrs) spif_reader_init)"
  have s1: "read_so_far s1 = ([], None, sp_version_info p, [], [], [])" "outside_blocks s1"
    using read_spif_version [of "spif_step (PxStart ''spif'' attrs) spif_reader_init" "sp_version_info p"] plain
    by (auto simp: s1_def spif_reader_init_def outside_blocks_def read_so_far_def reader_simps)
  define s2 where "s2 = s1\<lparr>pr_policy_id := sp_policy_id p, pr_policy_oid := sp_policy_oid p, pr_text := []\<rparr>"
  have s2: "read_so_far s2 = (sp_policy_id p, sp_policy_oid p, sp_version_info p, [], [], [])" "outside_blocks s2"
    using s1 by (simp_all add: s2_def read_so_far_def outside_blocks_def)
  have id: "read_events_of (PxStart ''securityPolicyId'' [] #
      text_element ''identifier'' (case sp_policy_oid p of Some j \<Rightarrow> [(''URL'', j)] | None \<Rightarrow> []) (sp_policy_id p) @
      [PxEnd ''securityPolicyId'']) s1 = s2"
    unfolding s2_def using s1 plain by (intro read_spif_identifier) (simp_all add: read_so_far_def)
  define s3 where "s3 = read_events_of (grouped ''securityClassifications''
    (concat (map classification_events (sp_allowed_classifications p)))) s2"
  have s3: "read_so_far s3 = (sp_policy_id p, sp_policy_oid p, sp_version_info p, sp_allowed_classifications p, [], [])"
      "outside_blocks s3"
    using read_spif_classifications [of "s2\<lparr>pr_text := []\<rparr>" "sp_allowed_classifications p"] s2 plain
      read_spif_container [of "''securityClassifications''" "concat (map classification_events (sp_allowed_classifications p))" s2]
    by (simp_all add: s3_def read_so_far_def outside_blocks_def)
  define s4 where "s4 = read_events_of (grouped ''securityCategories'' (concat (map category_events (sp_categories p)))) s3"
  have s4: "read_so_far s4 =
      (sp_policy_id p, sp_policy_oid p, sp_version_info p, sp_allowed_classifications p, sp_categories p, [])"
      "outside_blocks s4"
    using read_spif_categories [of "s3\<lparr>pr_text := []\<rparr>" "sp_categories p"] s3 plain
      read_spif_container [of "''securityCategories''" "concat (map category_events (sp_categories p))" s3]
    by (simp_all add: s4_def read_so_far_def outside_blocks_def)
  define evs where "evs = (if sp_validations p = [] \<and> \<not> empty_group then []
    else grouped ''validations'' (concat (map validation_events (sp_validations p))))"
  have "read_so_far (read_events_of evs s4) =
      (sp_policy_id p, sp_policy_oid p, sp_version_info p, sp_allowed_classifications p, sp_categories p, sp_validations p)"
    using read_spif_validations [of "s4\<lparr>pr_text := []\<rparr>" "sp_validations p"] s4 plain
      read_spif_container [of "''validations''" "concat (map validation_events (sp_validations p))" s4]
    by (simp add: evs_def read_so_far_def outside_blocks_def)
  moreover have "read_events_of (policy_events attrs empty_group p) spif_reader_init =
      spif_step (PxEnd ''spif'') (read_events_of evs s4)"
    using id by (simp add: policy_events_def evs_def s1_def s3_def s4_def)
  ultimately show ?thesis by (simp add: reader_simps read_so_far_def)
qed

text \<open>
  C30: A plain policy document in the form of the shipped ones, with any attributes at its root, reads back as the policy it describes,
  with the schema check (when the document passes it) and without.
\<close>

theorem spif_document_round_trip:
  assumes "plain_policy p" "px_read env content = map Ok (policy_events attrs empty_group p)"
    and "validate \<longrightarrow> validate_spif_xsd env content = Ok ()"
  shows "parse_spif_xml_with_options env content validate = Ok p"
  using assms read_spif_policy [OF assms(1)]
  by (auto simp: parse_spif_xml_with_options_def read_spif_fold policy_of_reader_def
      read_so_far_def plain_policy_def spif_plain_text_def)

text \<open>The document \<open>fixtures/acme-policy.xml\<close>.\<close>

definition acme_document :: spif_policy where
  "acme_document =
     \<lparr>sp_policy_id = ''ACME'', sp_policy_oid = None,
      sp_version_info = Some \<lparr>sv_spif_version = Some ''XML-SPIF'', sv_issuing_authority = Some ''ACME Corporation''\<rparr>,
      sp_allowed_classifications = [''PUBLIC'', ''INTERNAL'', ''CONFIDENTIAL''],
      sp_categories =
        [\<lparr>sk_name = ''Sensitive'', sk_category_type = SctRestrictive, sk_allowed_values = [''RED'', ''AMBER'', ''GREEN'']\<rparr>,
         \<lparr>sk_name = ''Releasable To'', sk_category_type = SctPermissive, sk_allowed_values = [''MOCK'', ''PHONY'', ''ACME'']\<rparr>],
      sp_validations =
        [\<lparr>sr_classification = ''CONFIDENTIAL'', sr_category_name = ''Releasable To'',
          sr_required_any_of = [''MOCK'', ''PHONY'']\<rparr>]\<rparr>"

definition SPIF_NAMESPACE :: string where
  "SPIF_NAMESPACE = ''urn:iso:std:iso:29008:2011:confidentialitymetadatalabel''"

lemma spif_document_round_trip_witness:
  "let env = \<lparr>px_read = \<lambda>_. map Ok (policy_events [(''xmlns'', SPIF_NAMESPACE)] False acme_document), px_xmllint_available = True,
              px_write = \<lambda>_. Ok (), px_xmllint = \<lambda>_ _. Ok (True, []), px_schema_iso = [], px_schema_xmlspif = []\<rparr>
   in parse_spif_xml_with_options env ''<spif/>'' True = Ok acme_document"
proof -
  have "plain_policy acme_document"
    by (simp add: plain_policy_def acme_document_def spif_plain_text_def trim_id ws_lead_def ws_tail_def
        white_space_seqs_def from_utf8_ascii)
  then show ?thesis unfolding Let_def 
    by (rule spif_document_round_trip)
      (simp_all add: validate_spif_xsd_def validate_spif_xsd_with_profile_def spif_validate_with_xmllint_def)
qed

text \<open>The order matters: a category that follows a validation is dropped, for its name is read as the name of a
  classification.\<close>

lemma category_after_validation_lost:
  assumes "\<not> pr_in_category s" "spif_plain_text (sr_classification v)" "spif_plain_text (sr_category_name v)"
    "list_all spif_plain_text (sr_required_any_of v)" "spif_plain_text (sk_name k)" "list_all spif_plain_text (sk_allowed_values k)"
  shows "pr_categories (read_events_of (validation_events v @ category_events k) s) = pr_categories s"
  using assms by (simp add: read_spif_validation category_events_def reader_simps read_category_values spif_plain_text_def)

text \<open>Any empty element with a \<open>URL\<close> attribute replaces the object identifier of the policy.\<close>

lemma empty_element_sets_oid:
  "url_attribute attrs = Some i \<Longrightarrow> pr_policy_oid (spif_step (PxEmpty q attrs) s) = Some i"
  by (simp add: read_url_def)

text \<open>What xmllint rejects is accepted nevertheless when four words occur in it, whatever its structure.\<close>

lemma schema_rejection_overridden:
  assumes "spif_validate_structural xml = Ok ()"
  shows "validate_spif_xsd_with_profile env xml profile = Ok ()"
  using assms by (auto simp: validate_spif_xsd_with_profile_def split: sum.splits)

lemma schemaless_text_accepted:
  "validate_spif_xsd env ''<spif <securityPolicyId <identifier> securityClassification'' = Ok ()"
  unfolding validate_spif_xsd_def by (rule schema_rejection_overridden) code_simp

text \<open>A policy that was read can be registered, and is then found under its identifier.\<close>

lemma parsed_policy_registers:
  assumes "parse_spif_xml env content = Ok p"
  shows "\<exists>r'. spif_load_xml (parse_spif_xml env) content r = Ok r' \<and> spif_get r' (sp_policy_id p) = Some p"
proof -
  have "sp_policy_id p \<noteq> []"
    using assms by (auto simp: parse_spif_xml_def parse_spif_xml_with_options_def and_then_Inr_iff policy_of_reader_def
        split: if_splits)
  with assms show ?thesis by (simp add: spif_load_xml_def spif_register_def spif_get_def im_get_insert)
qed

end
