(* ===== verification/Policy_Store.thy ===== *)
theory Policy_Store
  imports Spif
begin

text \<open>
  Crate \<open>mim-policy\<close>, the policy retrieval point: its errors, the attributes and contexts that a
  decision reads, the downgrade rules, the store of domains and cross-domain policies with its
  administration point, and the alignment of the store with SPIF policies. The invariant
  \<open>store_wf\<close> is referential integrity: every cross-domain policy names registered domains.
\<close>

section \<open>Errors (\<open>error.rs\<close>)\<close>

datatype policy_error =
    PeDenied string
  | PeNotFound string
  | PeInvalid string
  | PeValidation string
  | PeSerialization string

fun show_policy_error :: "policy_error \<Rightarrow> string" where
  "show_policy_error (PeDenied s) = ''access denied: '' @ s"
| "show_policy_error (PeNotFound s) = ''policy not found: '' @ s"
| "show_policy_error (PeInvalid s) = ''invalid policy: '' @ s"
| "show_policy_error (PeValidation s) = ''validation error: '' @ s"
| "show_policy_error (PeSerialization s) = ''serialization error: '' @ s"

fun policy_error_of_label :: "label_error \<Rightarrow> policy_error" where
  "policy_error_of_label (LeValidation m) = PeValidation m"
| "policy_error_of_label (LeInvalidDomain m) = PeInvalid m"
| "policy_error_of_label (LeCrossDomain m) = PeDenied m"
| "policy_error_of_label other = PeValidation (show_label_error other)"

fun label_error_of_policy :: "policy_error \<Rightarrow> label_error" where
  "label_error_of_policy (PeDenied m) = LeCrossDomain m"
| "label_error_of_policy (PeValidation m) = LeValidation m"
| "label_error_of_policy (PeInvalid m) = LeInvalidPolicy m"
| "label_error_of_policy other = LeValidation (show_policy_error other)"

section \<open>Attributes and contexts (\<open>context.rs\<close>)\<close>

datatype access_operation = OpRead | OpWrite | OpDelete | OpCrossDomainTransfer

record subject_attributes =
  su_subject_id :: string
  su_clearance :: classification_level
  su_nationality :: "string option"
  su_handling_caveats :: "string list"
  su_mission_id :: "string option"

definition subject_new :: "string \<Rightarrow> classification_level \<Rightarrow> subject_attributes" where
  "subject_new i c =
     \<lparr>su_subject_id = i, su_clearance = c, su_nationality = None, su_handling_caveats = [],
      su_mission_id = None\<rparr>"

definition with_nationality :: "string \<Rightarrow> subject_attributes \<Rightarrow> subject_attributes" where
  "with_nationality n s = s\<lparr>su_nationality := Some n\<rparr>"

definition with_handling_caveats :: "string list \<Rightarrow> subject_attributes \<Rightarrow> subject_attributes" where
  "with_handling_caveats cs s = s\<lparr>su_handling_caveats := cs\<rparr>"

definition with_handling_caveat :: "string \<Rightarrow> subject_attributes \<Rightarrow> subject_attributes" where
  "with_handling_caveat c s = s\<lparr>su_handling_caveats := su_handling_caveats s @ [c]\<rparr>"

definition with_mission_id :: "string \<Rightarrow> subject_attributes \<Rightarrow> subject_attributes" where
  "with_mission_id m s = s\<lparr>su_mission_id := Some m\<rparr>"

definition holds_caveat :: "subject_attributes \<Rightarrow> string \<Rightarrow> bool" where
  "holds_caveat s c \<longleftrightarrow> any_ignore_case (su_handling_caveats s) c"

record resource_attributes =
  ra_classification :: classification_level
  ra_releasable_countries :: "string list"
  ra_policy_id :: string
  ra_handling_caveats :: "string list"

definition resource_from_label :: "conf_label \<Rightarrow> resource_attributes" where
  "resource_from_label l =
     \<lparr>ra_classification = cf_classification l,
      ra_releasable_countries = releasable_countries l,
      ra_policy_id = lp_identifier (cf_policy l),
      ra_handling_caveats = restrictive_category_values l\<rparr>"

record environment_attributes =
  ev_operation :: access_operation
  ev_source_domain :: domain_id
  ev_target_domain :: "domain_id option"
  ev_mission_id :: "string option"

definition env_local :: "access_operation \<Rightarrow> domain_id \<Rightarrow> environment_attributes" where
  "env_local op d =
     \<lparr>ev_operation = op, ev_source_domain = d, ev_target_domain = None, ev_mission_id = None\<rparr>"

definition env_cross_domain :: "domain_id \<Rightarrow> domain_id \<Rightarrow> string option \<Rightarrow> environment_attributes" where
  "env_cross_domain src tgt mission =
     \<lparr>ev_operation = OpCrossDomainTransfer, ev_source_domain = src, ev_target_domain = Some tgt,
      ev_mission_id = mission\<rparr>"

record policy_context =
  pc_subject :: subject_attributes
  pc_resource :: resource_attributes
  pc_environment :: environment_attributes
  pc_label :: conf_label

lemmas context_simps [model_simps] =
  subject_new_def with_nationality_def with_handling_caveats_def with_handling_caveat_def
  with_mission_id_def resource_from_label_def env_local_def env_cross_domain_def

section \<open>Downgrade rules (\<open>downgrade.rs\<close>)\<close>

record downgrade_config =
  dg_intersect_releasability :: bool
  dg_strip_non_target_categories :: bool

definition downgrade_default :: downgrade_config where
  "downgrade_default = \<lparr>dg_intersect_releasability = True, dg_strip_non_target_categories = True\<rparr>"

definition retain_accepted :: "security_domain \<Rightarrow> category_marking \<Rightarrow> category_marking" where
  "retain_accepted target c =
     (if is_releasable_to c then c\<lparr>cm_values := filter (accepts_country target) (cm_values c)\<rparr> else c)"

definition keep_category :: "category_marking \<Rightarrow> bool" where
  "keep_category c \<longleftrightarrow> (if is_releasable_to c then cm_values c \<noteq> [] else True)"

definition downgrade_categories ::
  "security_domain \<Rightarrow> downgrade_config \<Rightarrow> category_marking list \<Rightarrow> category_marking list" where
  "downgrade_categories target cfg cats =
     (if dg_intersect_releasability cfg then
        (let cut = map (retain_accepted target) cats in
         if dg_strip_non_target_categories cfg then filter keep_category cut else cut)
      else cats)"

definition downgraded_label_for_target ::
  "conf_label \<Rightarrow> security_domain \<Rightarrow> downgrade_config \<Rightarrow> label_error + conf_label" where
  "downgraded_label_for_target l target cfg =
     (let e1 = (if sd_max_classification target < cf_classification l
                then set_classification (sd_max_classification target) l else l);
          e2 = set_categories (downgrade_categories target cfg (cf_categories e1)) e1
      in and_then (validate_conf_label e2) (\<lambda>_. Ok e2))"

definition requires_downgrade :: "conf_label \<Rightarrow> security_domain \<Rightarrow> bool" where
  "requires_downgrade l target \<longleftrightarrow>
     sd_max_classification target < cf_classification l \<and> Unclassified \<le> sd_max_classification target"

section \<open>The store (\<open>store.rs\<close>)\<close>

record cross_domain_policy =
  xp_id :: string
  xp_description :: string
  xp_source_domain :: domain_id
  xp_target_domain :: domain_id
  xp_allow_downgrade :: bool

definition cross_domain_policy_new :: "string \<Rightarrow> domain_id \<Rightarrow> domain_id \<Rightarrow> cross_domain_policy" where
  "cross_domain_policy_new i src tgt =
     \<lparr>xp_id = i, xp_description = [], xp_source_domain = src, xp_target_domain = tgt,
      xp_allow_downgrade = True\<rparr>"

definition with_description :: "string \<Rightarrow> cross_domain_policy \<Rightarrow> cross_domain_policy" where
  "with_description d p = p\<lparr>xp_description := d\<rparr>"

record policy_store =
  ps_domains :: "(string, security_domain) index_map"
  ps_cross_domain_policies :: "cross_domain_policy list"
  ps_spif_policies :: "spif_policy list"
  ps_downgrade :: downgrade_config

definition policy_store_new :: policy_store where
  "policy_store_new =
     \<lparr>ps_domains = [], ps_cross_domain_policies = [], ps_spif_policies = [],
      ps_downgrade = downgrade_default\<rparr>"

definition store_domain :: "policy_store \<Rightarrow> domain_id \<Rightarrow> security_domain option" where
  "store_domain s i = im_get (ps_domains s) i"

definition with_downgrade_config :: "downgrade_config \<Rightarrow> policy_store \<Rightarrow> policy_store" where
  "with_downgrade_config c s = s\<lparr>ps_downgrade := c\<rparr>"

definition store_domains :: "policy_store \<Rightarrow> security_domain list" where
  "store_domains s = im_values (ps_domains s)"

definition policy_for_pair :: "policy_store \<Rightarrow> domain_id \<Rightarrow> domain_id \<Rightarrow> cross_domain_policy option" where
  "policy_for_pair s src tgt =
     find (\<lambda>p. xp_source_domain p = src \<and> xp_target_domain p = tgt) (ps_cross_domain_policies s)"

definition insert_domain :: "security_domain \<Rightarrow> policy_store \<Rightarrow> policy_error + policy_store" where
  "insert_domain d s =
     and_then (map_err policy_error_of_label (validate_domain_id (sd_id d)))
       (\<lambda>_. Ok (s\<lparr>ps_domains := im_insert (sd_id d) d (ps_domains s)\<rparr>))"

definition insert_cross_domain_policy ::
  "cross_domain_policy \<Rightarrow> policy_store \<Rightarrow> policy_error + policy_store" where
  "insert_cross_domain_policy p s =
     (if xp_id p = [] then Err (PeInvalid ''policy id must not be empty'')
      else if store_domain s (xp_source_domain p) = None then
        Err (PeNotFound (''source domain '' @ quoted (xp_source_domain p) @ '' not registered''))
      else if store_domain s (xp_target_domain p) = None then
        Err (PeNotFound (''target domain '' @ quoted (xp_target_domain p) @ '' not registered''))
      else if list_ex (\<lambda>q. xp_id q = xp_id p) (ps_cross_domain_policies s) then
        Err (PeInvalid (''policy '' @ quoted (xp_id p) @ '' already exists''))
      else Ok (s\<lparr>ps_cross_domain_policies := ps_cross_domain_policies s @ [p]\<rparr>))"

definition remove_cross_domain_policy ::
  "string \<Rightarrow> policy_store \<Rightarrow> policy_error + cross_domain_policy \<times> policy_store" where
  "remove_cross_domain_policy i s =
     (case position (\<lambda>p. xp_id p = i) (ps_cross_domain_policies s) of
        None \<Rightarrow> Err (PeNotFound (''policy '' @ quoted i @ '' not found''))
      | Some k \<Rightarrow>
          Ok (ps_cross_domain_policies s ! k,
              s\<lparr>ps_cross_domain_policies := remove_at k (ps_cross_domain_policies s)\<rparr>))"

definition register_spif_policy :: "spif_policy \<Rightarrow> policy_store \<Rightarrow> policy_error + policy_store" where
  "register_spif_policy p s =
     (if list_ex (\<lambda>q. sp_policy_id q = sp_policy_id p) (ps_spif_policies s) then
        Err (PeInvalid (''SPIF policy '' @ quoted (sp_policy_id p) @ '' already registered''))
      else Ok (s\<lparr>ps_spif_policies := ps_spif_policies s @ [p]\<rparr>))"

definition cross_domain_policy_for_spif :: "policy_store \<Rightarrow> string \<Rightarrow> cross_domain_policy option" where
  "cross_domain_policy_for_spif s spif =
     find (\<lambda>p. contains_str (xp_description p) spif) (ps_cross_domain_policies s)"

text \<open>\<open>let _ = store.insert(..)\<close> of the presets: an error leaves the store as it is.\<close>

definition ignore_err :: "('s \<Rightarrow> 'e + 's) \<Rightarrow> 's \<Rightarrow> 's" where
  "ignore_err f s = (case f s of Inl _ \<Rightarrow> s | Inr s' \<Rightarrow> s')"

definition preset_high_to_low :: policy_store where
  "preset_high_to_low =
     ignore_err (insert_cross_domain_policy
         (with_description ''High-side to low-side cross-domain guard''
           (cross_domain_policy_new ''high-to-low'' ''DOMAIN-HIGH'' ''DOMAIN-LOW'')))
       (ignore_err (insert_domain
           (with_releasable_to [''USA'', ''GBR''] (security_domain_new ''DOMAIN-LOW'' ''Low Side'' Restricted)))
         (ignore_err (insert_domain
             (with_releasable_to [''USA'', ''GBR'', ''DEU'']
               (security_domain_new ''DOMAIN-HIGH'' ''High Side'' Secret)))
           policy_store_new))"

definition preset_coalition :: policy_store where
  "preset_coalition =
     ignore_err (insert_cross_domain_policy
         (cross_domain_policy_new ''nato-to-partner'' ''DOMAIN-NATO'' ''DOMAIN-PARTNER''))
       (ignore_err (insert_domain
           (with_releasable_to [''USA'', ''GBR'']
             (security_domain_new ''DOMAIN-PARTNER'' ''Partner Nation'' Secret)))
         (ignore_err (insert_domain
             (with_releasable_to [''USA'', ''GBR'', ''DEU'', ''FRA'']
               (security_domain_new ''DOMAIN-NATO'' ''NATO Core'' Secret)))
           policy_store_new))"

section \<open>The administration point (\<open>pap.rs\<close>)\<close>

record policy_administration_point =
  pap_store :: policy_store

definition pap_register_domain ::
  "security_domain \<Rightarrow> policy_administration_point \<Rightarrow> policy_error + policy_administration_point" where
  "pap_register_domain d pap =
     and_then (insert_domain d (pap_store pap)) (\<lambda>s. Ok (pap\<lparr>pap_store := s\<rparr>))"

definition pap_add_cross_domain_policy ::
  "cross_domain_policy \<Rightarrow> policy_administration_point \<Rightarrow> policy_error + policy_administration_point" where
  "pap_add_cross_domain_policy p pap =
     and_then (insert_cross_domain_policy p (pap_store pap)) (\<lambda>s. Ok (pap\<lparr>pap_store := s\<rparr>))"

definition pap_remove_cross_domain_policy ::
  "string \<Rightarrow> policy_administration_point \<Rightarrow>
     policy_error + cross_domain_policy \<times> policy_administration_point" where
  "pap_remove_cross_domain_policy i pap =
     and_then (remove_cross_domain_policy i (pap_store pap)) (\<lambda>(p, s). Ok (p, pap\<lparr>pap_store := s\<rparr>))"

section \<open>Referential integrity\<close>

definition policy_wf :: "policy_store \<Rightarrow> cross_domain_policy \<Rightarrow> bool" where
  "policy_wf s p \<longleftrightarrow>
     xp_id p \<noteq> [] \<and> store_domain s (xp_source_domain p) \<noteq> None \<and> store_domain s (xp_target_domain p) \<noteq> None"

definition store_wf :: "policy_store \<Rightarrow> bool" where
  "store_wf s \<longleftrightarrow>
     keyed_by sd_id (ps_domains s) \<and> store_domain s [] = None \<and>
     (\<forall>p \<in> set (ps_cross_domain_policies s). policy_wf s p) \<and>
     distinct (map xp_id (ps_cross_domain_policies s)) \<and>
     distinct (map sp_policy_id (ps_spif_policies s))"

lemma insert_domain_Ok_iff:
  "insert_domain d s = Ok s' \<longleftrightarrow>
     sd_id d \<noteq> [] \<and> s' = s\<lparr>ps_domains := im_insert (sd_id d) d (ps_domains s)\<rparr>"
  by (auto simp: insert_domain_def and_then_Inr_iff validate_domain_id_def)

lemma insert_cross_domain_policy_Ok_iff:
  "insert_cross_domain_policy p s = Ok s' \<longleftrightarrow>
     policy_wf s p \<and> (\<forall>q \<in> set (ps_cross_domain_policies s). xp_id q \<noteq> xp_id p) \<and>
     s' = s\<lparr>ps_cross_domain_policies := ps_cross_domain_policies s @ [p]\<rparr>"
  by (auto simp: insert_cross_domain_policy_def policy_wf_def list_ex_iff)

lemma remove_cross_domain_policy_Ok_iff:
  "remove_cross_domain_policy i s = Ok (p, s') \<longleftrightarrow>
     (\<exists>k. position (\<lambda>p. xp_id p = i) (ps_cross_domain_policies s) = Some k \<and>
        p = ps_cross_domain_policies s ! k \<and>
        s' = s\<lparr>ps_cross_domain_policies := remove_at k (ps_cross_domain_policies s)\<rparr>)"
  by (cases "position (\<lambda>p. xp_id p = i) (ps_cross_domain_policies s)")
    (auto simp del: position_None_iff simp: remove_cross_domain_policy_def)

lemma register_spif_policy_Ok_iff:
  "register_spif_policy p s = Ok s' \<longleftrightarrow>
     (\<forall>q \<in> set (ps_spif_policies s). sp_policy_id q \<noteq> sp_policy_id p) \<and>
     s' = s\<lparr>ps_spif_policies := ps_spif_policies s @ [p]\<rparr>"
  by (auto simp: register_spif_policy_def list_ex_iff)

lemmas store_op_iffs =
  insert_domain_Ok_iff insert_cross_domain_policy_Ok_iff remove_cross_domain_policy_Ok_iff
  register_spif_policy_Ok_iff

lemma store_domain_insert:
  "insert_domain d s = Ok s' \<Longrightarrow> store_domain s' i = (if i = sd_id d then Some d else store_domain s i)"
  by (auto simp: insert_domain_Ok_iff store_domain_def)

lemma store_wf_new [inv_intros]: "store_wf policy_store_new"
  by (simp add: store_wf_def policy_store_new_def store_domain_def keyed_by_Nil)

lemma store_wf_insert_domain [inv_intros]:
  "store_wf s \<Longrightarrow> insert_domain d s = Ok s' \<Longrightarrow> store_wf s'"
  by (auto simp: insert_domain_Ok_iff store_wf_def keyed_by_insert store_domain_def policy_wf_def)

lemma store_wf_insert_policy [inv_intros]:
  "store_wf s \<Longrightarrow> insert_cross_domain_policy p s = Ok s' \<Longrightarrow> store_wf s'"
  by (auto simp: insert_cross_domain_policy_Ok_iff store_wf_def store_domain_def policy_wf_def)

lemma store_wf_remove_policy [inv_intros]:
  "store_wf s \<Longrightarrow> remove_cross_domain_policy i s = Ok (p, s') \<Longrightarrow> store_wf s'"
  using set_remove_at_subset
  by (fastforce simp: remove_cross_domain_policy_Ok_iff store_wf_def store_domain_def policy_wf_def
      map_remove_at distinct_remove_at)

lemma store_wf_register_spif [inv_intros]:
  "store_wf s \<Longrightarrow> register_spif_policy p s = Ok s' \<Longrightarrow> store_wf s'"
  by (auto simp: register_spif_policy_Ok_iff store_wf_def store_domain_def policy_wf_def)

lemma store_wf_ignore_insert_domain: "store_wf s \<Longrightarrow> store_wf (ignore_err (insert_domain d) s)"
  by (auto simp: ignore_err_def split: sum.splits intro: store_wf_insert_domain)

lemma store_wf_ignore_insert_policy:
  "store_wf s \<Longrightarrow> store_wf (ignore_err (insert_cross_domain_policy p) s)"
  by (auto simp: ignore_err_def split: sum.splits intro: store_wf_insert_policy)

lemma store_wf_ignore_register: "store_wf s \<Longrightarrow> store_wf (ignore_err (register_spif_policy p) s)"
  by (auto simp: ignore_err_def split: sum.splits intro: store_wf_register_spif)

lemmas store_wf_ignores =
  store_wf_ignore_insert_domain store_wf_ignore_insert_policy store_wf_ignore_register

lemma store_wf_presets: "store_wf preset_high_to_low" "store_wf preset_coalition"
  unfolding preset_high_to_low_def preset_coalition_def
  by (intro store_wf_ignores store_wf_new)+

lemma store_wf_policy_domains:
  assumes "store_wf s" and "policy_for_pair s src tgt = Some p"
  shows "\<exists>ds dt. store_domain s src = Some ds \<and> store_domain s tgt = Some dt \<and> sd_id ds = src \<and> sd_id dt = tgt"
proof -
  from assms(2) have p: "p \<in> set (ps_cross_domain_policies s)" "xp_source_domain p = src" "xp_target_domain p = tgt"
    by (auto simp: policy_for_pair_def dest: find_SomeD)
  with assms(1) obtain ds dt where "store_domain s src = Some ds" and "store_domain s tgt = Some dt"
    by (auto simp: store_wf_def policy_wf_def)
  moreover have "sd_id d = i" if "store_domain s i = Some d" for d i
    using assms(1) that keyed_by_get [of sd_id "ps_domains s" i d] by (simp add: store_wf_def store_domain_def)
  ultimately show ?thesis by auto
qed

section \<open>Runs of administrative operations\<close>

datatype admin_op =
    RegisterDomain security_domain
  | AddPolicy cross_domain_policy
  | RemovePolicy string
  | RegisterSpif spif_policy

text \<open>A rejected operation leaves the store as it is, as every early return of the code does.\<close>

fun admin_step :: "admin_op \<Rightarrow> policy_store \<Rightarrow> policy_store" where
  "admin_step (RegisterDomain d) s = ignore_err (insert_domain d) s"
| "admin_step (AddPolicy p) s = ignore_err (insert_cross_domain_policy p) s"
| "admin_step (RemovePolicy i) s =
     (case remove_cross_domain_policy i s of Inl _ \<Rightarrow> s | Inr (_, s') \<Rightarrow> s')"
| "admin_step (RegisterSpif p) s = ignore_err (register_spif_policy p) s"

lemma store_wf_admin_step: "store_wf s \<Longrightarrow> store_wf (admin_step op s)"
  by (cases op) (auto intro: store_wf_ignores store_wf_remove_policy split: sum.splits)

text \<open>
  C22: after any sequence of administrative operations on a new store, accepted or rejected, every
  cross-domain policy still names two registered domains, policy and SPIF identifiers are unique,
  no domain has an empty identifier, and a policy found for a pair therefore resolves both domains.
\<close>

theorem admin_run_keeps_integrity:
  fixes ops :: "admin_op list"
  shows "store_wf (fold admin_step ops policy_store_new) \<and>
     (case policy_for_pair (fold admin_step ops policy_store_new) src tgt of
        None \<Rightarrow> True
      | Some p \<Rightarrow> store_domain (fold admin_step ops policy_store_new) src \<noteq> None \<and>
                 store_domain (fold admin_step ops policy_store_new) tgt \<noteq> None)"
proof -
  have wf: "store_wf (fold admin_step ops policy_store_new)"
    by (intro fold_invariant [where P = store_wf] store_wf_new store_wf_admin_step)
  moreover have "store_domain (fold admin_step ops policy_store_new) src \<noteq> None \<and>
      store_domain (fold admin_step ops policy_store_new) tgt \<noteq> None"
    if "policy_for_pair (fold admin_step ops policy_store_new) src tgt = Some p" for p
    using store_wf_policy_domains [OF wf that] by auto
  ultimately show ?thesis by (simp split: option.splits)
qed

text \<open>
  Adding a cross-domain policy and removing it by its identifier gives back the policy and the
  store as it was; the policy is refused when its identifier is taken.
\<close>

theorem add_remove_policy_round_trip:
  assumes "insert_cross_domain_policy p s = Ok s'"
  shows "remove_cross_domain_policy (xp_id p) s' = Ok (p, s) \<and>
     insert_cross_domain_policy p s' = Err (PeInvalid (''policy '' @ quoted (xp_id p) @ '' already exists''))"
proof -
  let ?ps = "ps_cross_domain_policies s"
  from assms have wf: "policy_wf s p" and new: "\<forall>q \<in> set ?ps. xp_id q \<noteq> xp_id p"
    and s': "s' = s\<lparr>ps_cross_domain_policies := ?ps @ [p]\<rparr>"
    by (auto simp: insert_cross_domain_policy_Ok_iff)
  have pos: "position (\<lambda>q. xp_id q = xp_id p) (qs @ [p]) = Some (length qs)"
    if "\<forall>q \<in> set qs. xp_id q \<noteq> xp_id p" for qs
    using that by (induction qs) auto
  have "remove_cross_domain_policy (xp_id p) s' = Ok (p, s)"
    using pos [OF new] by (simp add: remove_cross_domain_policy_def s' remove_at_def)
  moreover have "insert_cross_domain_policy p s' = Err (PeInvalid (''policy '' @ quoted (xp_id p) @ '' already exists''))"
    using wf by (simp add: insert_cross_domain_policy_def s' policy_wf_def store_domain_def)
  ultimately show ?thesis ..
qed

theorem add_remove_policy_round_trip_witness:
  "\<exists>s'. insert_cross_domain_policy (cross_domain_policy_new ''back'' ''DOMAIN-LOW'' ''DOMAIN-HIGH'')
       preset_high_to_low = Ok s' \<and>
     remove_cross_domain_policy ''back'' s' =
       Ok (cross_domain_policy_new ''back'' ''DOMAIN-LOW'' ''DOMAIN-HIGH'', preset_high_to_low)"
proof -
  let ?p = "cross_domain_policy_new ''back'' ''DOMAIN-LOW'' ''DOMAIN-HIGH''"
  obtain s' where s': "insert_cross_domain_policy ?p preset_high_to_low = Ok s'"
    by (simp add: preset_high_to_low_def ignore_err_def insert_domain_def insert_cross_domain_policy_def
        validate_domain_id_def policy_store_new_def store_domain_def cross_domain_policy_new_def
        with_description_def model_simps im_get_def)
  have "xp_id ?p = ''back''" by (simp add: cross_domain_policy_new_def)
  with add_remove_policy_round_trip [OF s'] s' show ?thesis by auto
qed

section \<open>What a downgrade does\<close>

lemma accepted_countries_downgrade:
  "concat (map cm_values (filter is_releasable_to (map (retain_accepted target) cats))) =
     filter (accepts_country target) (concat (map cm_values (filter is_releasable_to cats)))"
  by (induction cats) (auto simp: retain_accepted_def is_releasable_to_def)

lemma keep_category_values:
  "concat (map cm_values (filter is_releasable_to (filter keep_category cats))) =
     concat (map cm_values (filter is_releasable_to cats))"
  by (induction cats) (auto simp: keep_category_def)

lemma releasable_countries_downgrade:
  "dg_intersect_releasability cfg \<Longrightarrow>
     releasable_countries (set_categories (downgrade_categories target cfg (cf_categories l)) l) =
       filter (accepts_country target) (releasable_countries l)"
  by (simp add: releasable_countries_def tagged_values_def downgrade_categories_def Let_def
      accepted_countries_downgrade keep_category_values del: filter_filter)

lemma is_releasable_to_retain [simp]: "is_releasable_to (retain_accepted t c) = is_releasable_to c"
  by (simp add: retain_accepted_def is_releasable_to_def)

lemma retain_accepted_idem [simp]: "retain_accepted t (retain_accepted t c) = retain_accepted t c"
  by (simp add: retain_accepted_def is_releasable_to_def)

lemma downgrade_categories_idem:
  "downgrade_categories t cfg (downgrade_categories t cfg cats) = downgrade_categories t cfg cats"
proof -
  have "map (retain_accepted t) (filter keep_category (map (retain_accepted t) cats)) =
      filter keep_category (map (retain_accepted t) cats)"
    by (rule map_idI) auto
  then show ?thesis by (simp add: downgrade_categories_def Let_def comp_def)
qed

lemma downgraded_label_Ok_iff:
  "downgraded_label_for_target l t cfg = Ok e \<longleftrightarrow>
     e = set_categories (downgrade_categories t cfg (cf_categories l))
           (set_classification (min (cf_classification l) (sd_max_classification t)) l) \<and>
     validate_conf_label e = Ok ()"
proof -
  have c: "(if sd_max_classification t < cf_classification l
      then set_classification (sd_max_classification t) l else l) =
      set_classification (min (cf_classification l) (sd_max_classification t)) l"
    by (cases l) (auto simp: min_def)
  show ?thesis
    unfolding downgraded_label_for_target_def Let_def c
    by (simp only: and_then_Inr_iff) auto
qed

lemma set_fields_absorb:
  "set_categories cs (set_classification k (set_categories ds (set_classification m l))) =
     set_categories cs (set_classification k l)"
  by (cases l) simp

text \<open>
  C17: a successful downgrade into a domain lowers the classification to the minimum of the label's
  and the domain's, keeps exactly the releasable countries that the domain accepts when the
  configuration intersects releasability, keeps the policy, gives a valid label, and changes
  nothing when it is applied again.
\<close>

theorem downgrade_is_meet:
  assumes "downgraded_label_for_target l t cfg = Ok e"
  shows "cf_classification e = min (cf_classification l) (sd_max_classification t) \<and>
     cf_policy e = cf_policy l \<and> validate_conf_label e = Ok () \<and>
     releasable_countries e =
       (if dg_intersect_releasability cfg then filter (accepts_country t) (releasable_countries l)
        else releasable_countries l) \<and>
     downgraded_label_for_target e t cfg = Ok e"
proof -
  let ?m = "min (cf_classification l) (sd_max_classification t)"
  from assms have e: "e = set_categories (downgrade_categories t cfg (cf_categories l)) (set_classification ?m l)"
    and v: "validate_conf_label e = Ok ()"
    unfolding downgraded_label_Ok_iff by blast+
  have rel: "releasable_countries (set_classification k x) = releasable_countries x" for k x
    by (simp add: releasable_countries_def tagged_values_def)
  have "releasable_countries e =
       (if dg_intersect_releasability cfg then filter (accepts_country t) (releasable_countries l)
        else releasable_countries l)"
    using releasable_countries_downgrade [of cfg t "set_classification ?m l"]
    by (auto simp: e rel) (simp add: downgrade_categories_def releasable_countries_def tagged_values_def)
  moreover have "downgraded_label_for_target e t cfg = Ok e"
    unfolding downgraded_label_Ok_iff using v
    by (simp add: e set_fields_absorb downgrade_categories_idem)
  ultimately show ?thesis using v by (simp add: e)
qed

definition low_side :: security_domain where
  "low_side = with_releasable_to [''USA'', ''GBR''] (security_domain_new ''DOMAIN-LOW'' ''Low Side'' Restricted)"

definition secret_usa_deu :: conf_label where
  "secret_usa_deu = with_category (releasable_to_marking [''USA'', ''DEU'']) (conf_label_new nato_policy Secret)"

lemma accepts_low_side: "accepts_country low_side ''USA''" "\<not> accepts_country low_side ''DEU''"
  by (simp_all add: low_side_def accepts_country_def model_simps spif_eval)

lemma downgrade_secret_usa_deu:
  "downgraded_label_for_target secret_usa_deu low_side downgrade_default =
     Ok (with_category (releasable_to_marking [''USA'']) (conf_label_new nato_policy Restricted))"
  unfolding downgraded_label_Ok_iff
  by (simp add: validate_conf_label_Ok_iff category_ok_def model_simps secret_usa_deu_def conf_label_new_def
      downgrade_categories_def downgrade_default_def retain_accepted_def keep_category_def accepts_low_side)
    (simp add: low_side_def model_simps min_def level_le_iff releasable_to_marking_def)

theorem downgrade_is_meet_witness:
  "downgraded_label_for_target
     (with_category (releasable_to_marking [''USA'']) (conf_label_new nato_policy Restricted)) low_side downgrade_default =
   Ok (with_category (releasable_to_marking [''USA'']) (conf_label_new nato_policy Restricted))"
  using downgrade_is_meet [OF downgrade_secret_usa_deu] by blast

end
