(* ===== verification/Spif_Admin.thy ===== *)
theory Spif_Admin
  imports Policy_Store
begin

text \<open>
  Crate \<open>mim-policy\<close>, \<open>spif_admin.rs\<close>: administration of the policy store from loaded SPIF
  policies. The registry's iteration order is the order of its association list; the \<open>expect\<close> on the
  NATO policy is a panic branch that the earlier lookup rules out.
\<close>

definition spif_releasable :: "spif_policy \<Rightarrow> string list" where
  "spif_releasable p =
     (case find (\<lambda>c. eq_ignore_ascii_case (sk_name c) ''Releasable To'') (sp_categories p) of
        Some c \<Rightarrow> sk_allowed_values c
      | None \<Rightarrow> [])"

fun insert_domains :: "security_domain list \<Rightarrow> policy_store \<Rightarrow> policy_error + policy_store" where
  "insert_domains [] s = Ok s"
| "insert_domains (d # ds) s = and_then (insert_domain d s) (insert_domains ds)"

definition sync_domain_releasability :: "spif_policy \<Rightarrow> policy_store \<Rightarrow> policy_error + policy_store" where
  "sync_domain_releasability p s =
     (if sp_policy_id p \<noteq> ''NATO'' then Ok s
      else let releasable = spif_releasable p in
        if releasable = [] then Ok s
        else insert_domains (map (with_releasable_to releasable) (store_domains s)) s)"

fun sync_all :: "spif_policy list \<Rightarrow> policy_store \<Rightarrow> policy_error + policy_store" where
  "sync_all [] s = Ok s"
| "sync_all (p # ps) s = and_then (sync_domain_releasability p s) (sync_all ps)"

definition apply_spif_to_store :: "spif_registry \<Rightarrow> policy_store \<Rightarrow> policy_error + policy_store" where
  "apply_spif_to_store reg s = sync_all (spif_policies reg) s"

definition guard_domains_from_spif ::
  "spif_registry \<Rightarrow> string \<Rightarrow> string \<Rightarrow> policy_error + security_domain \<times> security_domain" where
  "guard_domains_from_spif reg source_id target_id =
     and_then (ok_or (PeNotFound ''NATO SPIF policy required for cross-domain guard'') (spif_get reg ''NATO''))
       (\<lambda>nato.
          let releasable = (if spif_releasable nato \<noteq> [] then spif_releasable nato else [''USA'', ''GBR'']);
              high = with_releasable_to releasable
                       (security_domain_new source_id ''High Side (SPIF-administered)'' Secret);
              low = with_releasable_to releasable
                       (security_domain_new target_id ''Low Side (SPIF-administered)'' Restricted)
          in Ok (high, low))"

definition cross_domain_policy_from_spif :: "domain_id \<Rightarrow> domain_id \<Rightarrow> spif_policy \<Rightarrow> cross_domain_policy" where
  "cross_domain_policy_from_spif src tgt p =
     with_description (''SPIF policy '' @ sp_policy_id p @ '' cross-domain release rule'')
       (cross_domain_policy_new (''spif-'' @ sp_policy_id p @ ''-'' @ src @ ''-to-'' @ tgt) src tgt)"

fun register_spifs :: "spif_policy list \<Rightarrow> policy_store \<Rightarrow> policy_error + policy_store" where
  "register_spifs [] s = Ok s"
| "register_spifs (p # ps) s = and_then (register_spif_policy p s) (register_spifs ps)"

definition with_spif_registry :: "spif_registry \<Rightarrow> policy_error + policy_store" where
  "with_spif_registry reg =
     and_then (guard_domains_from_spif reg ''DOMAIN-HIGH'' ''DOMAIN-LOW'') (\<lambda>(source, target).
     and_then (insert_domain source policy_store_new) (\<lambda>s.
     and_then (insert_domain target s) (\<lambda>s.
     and_then (ok_or (PeInvalid ''panic: NATO SPIF'') (spif_get reg ''NATO'')) (\<lambda>nato.
     and_then (insert_cross_domain_policy
                 (cross_domain_policy_from_spif (sd_id source) (sd_id target) nato) s) (\<lambda>s.
     and_then (register_spifs (spif_policies reg) s) (\<lambda>s.
     apply_spif_to_store reg s))))))"

definition pap_load_spif_xml ::
  "(string \<Rightarrow> string + spif_policy) \<Rightarrow> string \<Rightarrow> policy_store \<Rightarrow> policy_error + policy_store" where
  "pap_load_spif_xml parse xml s =
     and_then (map_err PeInvalid (spif_load_xml parse xml spif_registry_new)) (\<lambda>reg.
     and_then (register_spifs (spif_policies reg) s) (\<lambda>s.
     apply_spif_to_store reg s))"

section \<open>Preservation of the store invariant\<close>

lemma store_wf_insert_domains: "store_wf s \<Longrightarrow> insert_domains ds s = Ok s' \<Longrightarrow> store_wf s'"
  by (induction ds arbitrary: s) (auto simp: and_then_Inr_iff intro: store_wf_insert_domain)

lemma store_wf_sync: "store_wf s \<Longrightarrow> sync_domain_releasability p s = Ok s' \<Longrightarrow> store_wf s'"
  by (auto simp: sync_domain_releasability_def Let_def split: if_splits intro: store_wf_insert_domains)

lemma store_wf_sync_all: "store_wf s \<Longrightarrow> sync_all ps s = Ok s' \<Longrightarrow> store_wf s'"
  by (induction ps arbitrary: s) (auto simp: and_then_Inr_iff intro: store_wf_sync)

lemma store_wf_register_spifs: "store_wf s \<Longrightarrow> register_spifs ps s = Ok s' \<Longrightarrow> store_wf s'"
  by (induction ps arbitrary: s) (auto simp: and_then_Inr_iff intro: store_wf_register_spif)

lemma with_spif_registry_wf:
  assumes "with_spif_registry reg = Ok s"
  shows "store_wf s"
proof -
  from assms obtain src tgt nato s1 s2 s3 s4 where
    "insert_domain src policy_store_new = Ok s1" "insert_domain tgt s1 = Ok s2"
    "insert_cross_domain_policy (cross_domain_policy_from_spif (sd_id src) (sd_id tgt) nato) s2 = Ok s3"
    "register_spifs (spif_policies reg) s3 = Ok s4" "sync_all (spif_policies reg) s4 = Ok s"
    unfolding with_spif_registry_def and_then_Inr_iff apply_spif_to_store_def case_prod_beta by blast
  then show ?thesis
    by (meson store_wf_new store_wf_insert_domain store_wf_insert_policy store_wf_register_spifs
        store_wf_sync_all)
qed

text \<open>What a synchronisation does to the domains: the releasability list, and nothing else.\<close>

definition same_but_releasable :: "security_domain \<Rightarrow> security_domain \<Rightarrow> bool" where
  "same_but_releasable d d' \<longleftrightarrow> d' = d\<lparr>sd_releasable_to := sd_releasable_to d'\<rparr>"

lemma insert_domains_keeps:
  "insert_domains ds s = Ok s' \<Longrightarrow>
     ps_cross_domain_policies s' = ps_cross_domain_policies s \<and> ps_spif_policies s' = ps_spif_policies s"
  by (induction ds arbitrary: s) (auto simp: and_then_Inr_iff insert_domain_Ok_iff)

lemma insert_domains_get:
  assumes "insert_domains ds s = Ok s'" and "distinct (map sd_id ds)"
  shows "store_domain s' i = (case find (\<lambda>d. sd_id d = i) ds of Some d \<Rightarrow> Some d | None \<Rightarrow> store_domain s i)"
  using assms
proof (induction ds arbitrary: s)
  case (Cons d ds)
  then obtain s1 where s1: "insert_domain d s = Ok s1" and rest: "insert_domains ds s1 = Ok s'"
    by (auto simp: and_then_Inr_iff)
  have fresh: "find (\<lambda>e. sd_id e = sd_id d) ds = None"
    using Cons.prems(2) by (auto simp: find_eq_None_iff image_iff)
  show ?case
    using Cons.IH [OF rest] Cons.prems(2) fresh store_domain_insert [OF s1, of i]
    by (auto split: option.splits)
qed simp

lemma insert_domains_ok:
  "\<forall>d \<in> set ds. sd_id d \<noteq> [] \<Longrightarrow> \<exists>s'. insert_domains ds s = Ok s'"
proof (induction ds arbitrary: s)
  case (Cons d ds)
  then have "insert_domain d s = Ok (s\<lparr>ps_domains := im_insert (sd_id d) d (ps_domains s)\<rparr>)"
    by (simp add: insert_domain_Ok_iff)
  with Cons show ?case by simp
qed simp

text \<open>
  A synchronisation with the NATO policy never fails on a well-formed store, rewrites the
  releasability of every registered domain to the policy's list and leaves every other field of
  every domain, the set of domains and the cross-domain policies as they are.
\<close>

theorem sync_nato_releasability:
  assumes wf: "store_wf s" and "sp_policy_id p = ''NATO''" and ne: "spif_releasable p \<noteq> []"
  shows "\<exists>s'. sync_domain_releasability p s = Ok s' \<and> store_wf s' \<and>
     (\<forall>i. store_domain s' i = map_option (with_releasable_to (spif_releasable p)) (store_domain s i)) \<and>
     ps_cross_domain_policies s' = ps_cross_domain_policies s"
proof -
  let ?f = "with_releasable_to (spif_releasable p)"
  let ?ds = "map ?f (store_domains s)"
  have id: "sd_id (?f d) = sd_id d" for d by (simp add: with_releasable_to_def)
  have keyed: "keyed_by sd_id (ps_domains s)" and none: "store_domain s [] = None"
    using wf by (simp_all add: store_wf_def)
  have names: "map sd_id (store_domains s) = map fst (ps_domains s)"
    using keyed_by_names [OF keyed] by (simp add: store_domains_def)
  have dist: "distinct (map sd_id ?ds)"
    using keyed names by (simp add: keyed_by_def im_wf_def comp_def id)
  have look: "store_domain s i = find (\<lambda>d. sd_id d = i) (store_domains s)" for i
    using keyed_by_find [OF keyed] by (simp add: store_domain_def store_domains_def)
  have ids: "\<forall>d \<in> set ?ds. sd_id d \<noteq> []"
    using none by (auto simp: id look find_eq_None_iff)
  then obtain s' where s': "insert_domains ?ds s = Ok s'" using insert_domains_ok by blast
  have "store_domain s' i = map_option ?f (store_domain s i)" for i
  proof -
    have "find (\<lambda>d. sd_id d = i) (map ?f xs) = map_option ?f (find (\<lambda>d. sd_id d = i) xs)" for xs
      by (induction xs) (auto simp: id)
    then show ?thesis
      using insert_domains_get [OF s' dist, of i] by (simp add: look split: option.splits)
  qed
  then show ?thesis
    using s' assms insert_domains_keeps [OF s'] store_wf_insert_domains [OF wf s']
    by (auto simp: sync_domain_releasability_def Let_def)
qed

theorem sync_nato_releasability_witness:
  "\<exists>s'. sync_domain_releasability spif_nato preset_high_to_low = Ok s' \<and>
     map_option sd_releasable_to (store_domain s' ''DOMAIN-LOW'') = Some [''USA'', ''GBR'', ''DEU'', ''FRA'']"
proof -
  have id: "sp_policy_id spif_nato = ''NATO''" by (simp add: spif_nato_def)
  have rel: "spif_releasable spif_nato = [''USA'', ''GBR'', ''DEU'', ''FRA'']"
    by code_simp
  have dom: "\<exists>d. store_domain preset_high_to_low ''DOMAIN-LOW'' = Some d"
    by (simp add: preset_high_to_low_def ignore_err_def insert_domain_def insert_cross_domain_policy_def
        validate_domain_id_def policy_store_new_def store_domain_def cross_domain_policy_new_def
        with_description_def model_simps im_get_def)
  from sync_nato_releasability [OF store_wf_presets(1) id] rel dom show ?thesis
    by (auto simp: with_releasable_to_def)
qed

end
