(* ===== verification/Policy_Decision.thy ===== *)
theory Policy_Decision
  imports Policy_Store
begin

text \<open>
  Crate \<open>mim-policy\<close>: the information point that assembles a context (\<open>pip.rs\<close>) and the decision
  point (\<open>pdp.rs\<close>) with its local and cross-domain evaluation. The permit conditions are stated as
  predicates of their own and every branch of the evaluation is compared with them.
\<close>

section \<open>The information point (\<open>pip.rs\<close>)\<close>

definition access_context ::
  "subject_attributes \<Rightarrow> conf_label \<Rightarrow> access_operation \<Rightarrow> security_domain \<Rightarrow> policy_error + policy_context" where
  "access_context subject l op d =
     and_then (map_err policy_error_of_label (validate_conf_label l)) (\<lambda>_.
       Ok \<lparr>pc_subject = subject, pc_resource = resource_from_label l,
           pc_environment = env_local op (sd_id d), pc_label = l\<rparr>)"

definition cross_domain_context ::
  "subject_attributes \<Rightarrow> conf_label \<Rightarrow> security_domain \<Rightarrow> security_domain \<Rightarrow> string option \<Rightarrow>
     policy_error + policy_context" where
  "cross_domain_context subject l source target mission =
     and_then (map_err policy_error_of_label (validate_conf_label l)) (\<lambda>_.
       if sd_id source = sd_id target then
         Err (PeInvalid ''source and target domains must differ for cross-domain transfer'')
       else
         let effective_mission = (case mission of Some m \<Rightarrow> Some m | None \<Rightarrow> su_mission_id subject) in
         Ok \<lparr>pc_subject = subject, pc_resource = resource_from_label l,
             pc_environment = env_cross_domain (sd_id source) (sd_id target) effective_mission,
             pc_label = l\<rparr>)"

definition label_from_security :: "security_classification \<Rightarrow> policy_error + conf_label" where
  "label_from_security s =
     (if is_present (sc_classification s) then map_err policy_error_of_label (from_mim_security s)
      else Ok (conf_label_new nato_policy Unclassified))"

definition resolve_domain :: "security_domain list \<Rightarrow> domain_id \<Rightarrow> policy_error + security_domain" where
  "resolve_domain ds i =
     ok_or (PeNotFound (''domain '' @ quoted i @ '' not registered'')) (find (\<lambda>d. sd_id d = i) ds)"

section \<open>The decision point (\<open>pdp.rs\<close>)\<close>

datatype policy_effect = Permit | Deny | Downgrade

record policy_decision =
  pd_effect :: policy_effect
  pd_reason :: string
  pd_effective_label :: "conf_label option"

definition permit :: "string \<Rightarrow> conf_label \<Rightarrow> policy_decision" where
  "permit r l = \<lparr>pd_effect = Permit, pd_reason = r, pd_effective_label = Some l\<rparr>"

definition deny :: "string \<Rightarrow> policy_decision" where
  "deny r = \<lparr>pd_effect = Deny, pd_reason = r, pd_effective_label = None\<rparr>"

definition downgrade :: "string \<Rightarrow> conf_label \<Rightarrow> policy_decision" where
  "downgrade r l = \<lparr>pd_effect = Downgrade, pd_reason = r, pd_effective_label = Some l\<rparr>"

lemma decision_simps [simp]:
  "pd_effect (permit r l) = Permit" "pd_effective_label (permit r l) = Some l"
  "pd_effect (deny r) = Deny" "pd_effective_label (deny r) = None"
  "pd_effect (downgrade r l) = Downgrade" "pd_effective_label (downgrade r l) = Some l"
  by (simp_all add: permit_def deny_def downgrade_def)

definition require_domain :: "policy_store \<Rightarrow> domain_id \<Rightarrow> policy_error + security_domain" where
  "require_domain s i =
     ok_or (PeNotFound (''domain '' @ quoted i @ '' not registered'')) (store_domain s i)"

definition check_handling_caveats ::
  "subject_attributes \<Rightarrow> resource_attributes \<Rightarrow> policy_decision option" where
  "check_handling_caveats subject resource =
     find_map (\<lambda>c. if holds_caveat subject c then None
                   else Some (deny (''subject '' @ su_subject_id subject @
                          '' lacks required handling caveat '' @ c)))
       (ra_handling_caveats resource)"

definition check_mission_compartment ::
  "string option \<Rightarrow> security_domain \<Rightarrow> security_domain option \<Rightarrow> policy_decision option" where
  "check_mission_compartment mission source target =
     (let requires_mission = (sd_mission_compartments source \<noteq> [] \<or>
            (case target of Some d \<Rightarrow> sd_mission_compartments d \<noteq> [] | None \<Rightarrow> False))
      in if \<not> requires_mission then None
         else (case mission of
             None \<Rightarrow> Some (deny ''mission compartment required for compartmented domain transfer'')
           | Some m \<Rightarrow>
               if \<not> accepts_mission source m then
                 Some (deny (''mission '' @ m @ '' not authorized in source domain '' @ sd_id source))
               else (case target of
                   None \<Rightarrow> None
                 | Some t \<Rightarrow>
                     if \<not> accepts_mission t m then
                       Some (deny (''mission '' @ m @ '' not authorized in target domain '' @ sd_id t))
                     else None)))"

definition resolve_mission_id :: "subject_attributes \<Rightarrow> environment_attributes \<Rightarrow> string option" where
  "resolve_mission_id subject env =
     (case ev_mission_id env of Some m \<Rightarrow> Some m | None \<Rightarrow> su_mission_id subject)"

fun operation_name :: "access_operation \<Rightarrow> string" where
  "operation_name OpRead = ''read''"
| "operation_name OpWrite = ''write''"
| "operation_name OpDelete = ''delete''"
| "operation_name OpCrossDomainTransfer = ''cross-domain transfer''"

text \<open>The nationality block of \<open>evaluate_access\<close>.\<close>

definition check_nationality ::
  "subject_attributes \<Rightarrow> resource_attributes \<Rightarrow> security_domain \<Rightarrow> policy_decision option" where
  "check_nationality subject resource d =
     (case su_nationality subject of
        None \<Rightarrow> None
      | Some n \<Rightarrow>
          if ra_releasable_countries resource \<noteq> [] \<and> \<not> list_ex (\<lambda>c. c = n) (ra_releasable_countries resource)
          then Some (deny (''subject nationality '' @ n @ '' not in resource releasability''))
          else if \<not> accepts_country d n then
            Some (deny (''subject nationality '' @ n @ '' not accepted in domain '' @ sd_id d))
          else None)"

definition check_releasability :: "string \<Rightarrow> security_domain \<Rightarrow> string list \<Rightarrow> policy_decision option" where
  "check_releasability place d countries =
     find_map (\<lambda>c. if accepts_country d c then None
                   else Some (deny (''releasability to '' @ c @ '' not permitted in '' @ place @ sd_id d)))
       countries"

definition evaluate_access :: "policy_store \<Rightarrow> policy_context \<Rightarrow> policy_error + policy_decision" where
  "evaluate_access s ctx =
     (let subject = pc_subject ctx; resource = pc_resource ctx; env = pc_environment ctx in
      and_then (require_domain s (ev_source_domain env)) (\<lambda>d.
        case check_handling_caveats subject resource of Some dn \<Rightarrow> Ok dn | None \<Rightarrow>
        case check_mission_compartment (resolve_mission_id subject env) d None of Some dn \<Rightarrow> Ok dn | None \<Rightarrow>
        if su_clearance subject < ra_classification resource then
          Ok (deny (''subject clearance '' @ as_stanag_str (su_clearance subject) @
                '' insufficient for resource classification '' @ as_stanag_str (ra_classification resource)))
        else if sd_max_classification d < ra_classification resource then
          Ok (deny (''resource classification '' @ as_stanag_str (ra_classification resource) @
                '' exceeds domain max '' @ as_stanag_str (sd_max_classification d)))
        else
        case check_nationality subject resource d of Some dn \<Rightarrow> Ok dn | None \<Rightarrow>
        case check_releasability ''domain '' d (ra_releasable_countries resource) of Some dn \<Rightarrow> Ok dn | None \<Rightarrow>
          Ok (permit (operation_name (ev_operation env) @ '' permitted for subject '' @
                su_subject_id subject @ '' in domain '' @ sd_id d) (pc_label ctx))))"

definition evaluate_cross_domain :: "policy_store \<Rightarrow> policy_context \<Rightarrow> policy_error + policy_decision" where
  "evaluate_cross_domain s ctx =
     (let subject = pc_subject ctx; resource = pc_resource ctx; env = pc_environment ctx; l = pc_label ctx in
      and_then (ok_or (PeInvalid ''cross-domain evaluation requires target domain'') (ev_target_domain env)) (\<lambda>tid.
      and_then (ok_or (PeNotFound (''no cross-domain policy for '' @ ev_source_domain env @ '' -> '' @ tid))
                 (policy_for_pair s (ev_source_domain env) tid)) (\<lambda>_.
      and_then (require_domain s (ev_source_domain env)) (\<lambda>source.
      and_then (require_domain s tid) (\<lambda>target.
        case check_handling_caveats subject resource of Some dn \<Rightarrow> Ok dn | None \<Rightarrow>
        case check_mission_compartment (resolve_mission_id subject env) source (Some target) of
          Some dn \<Rightarrow> Ok dn | None \<Rightarrow>
        case check_releasability ''target domain '' target (ra_releasable_countries resource) of
          Some dn \<Rightarrow> Ok dn | None \<Rightarrow>
        if sd_max_classification target < cf_classification l then
          (if Unclassified \<le> sd_max_classification target then
             and_then (map_err policy_error_of_label (downgraded_label_for_target l target (ps_downgrade s)))
               (\<lambda>e. Ok (downgrade (''classification '' @ as_stanag_str (cf_classification l) @
                   '' exceeds target domain max '' @ as_stanag_str (sd_max_classification target) @
                   ''; downgrading to '' @ as_stanag_str (cf_classification e) @
                   '' with category intersection'') e))
           else Ok (deny (''classification '' @ as_stanag_str (cf_classification l) @
                   '' exceeds target domain max '' @ as_stanag_str (sd_max_classification target))))
        else Ok (permit (''cross-domain transfer permitted from '' @ ev_source_domain env @
                   '' to '' @ sd_id target) l))))))"

definition evaluate :: "policy_store \<Rightarrow> policy_context \<Rightarrow> policy_error + policy_decision" where
  "evaluate s ctx =
     (case ev_operation (pc_environment ctx) of
        OpCrossDomainTransfer \<Rightarrow> evaluate_cross_domain s ctx
      | OpRead \<Rightarrow> evaluate_access s ctx
      | OpWrite \<Rightarrow> evaluate_access s ctx
      | OpDelete \<Rightarrow> evaluate_access s ctx)"

section \<open>The permit conditions\<close>

definition caveats_held :: "subject_attributes \<Rightarrow> resource_attributes \<Rightarrow> bool" where
  "caveats_held subject resource \<longleftrightarrow> (\<forall>c \<in> set (ra_handling_caveats resource). holds_caveat subject c)"

definition mission_ok :: "string option \<Rightarrow> security_domain \<Rightarrow> security_domain option \<Rightarrow> bool" where
  "mission_ok mission source target \<longleftrightarrow>
     sd_mission_compartments source = [] \<and> (\<forall>t. target = Some t \<longrightarrow> sd_mission_compartments t = []) \<or>
     (\<exists>m. mission = Some m \<and> accepts_mission source m \<and> (\<forall>t. target = Some t \<longrightarrow> accepts_mission t m))"

definition nationality_ok :: "subject_attributes \<Rightarrow> resource_attributes \<Rightarrow> security_domain \<Rightarrow> bool" where
  "nationality_ok subject resource d \<longleftrightarrow>
     (\<forall>n. su_nationality subject = Some n \<longrightarrow>
        (ra_releasable_countries resource = [] \<or> n \<in> set (ra_releasable_countries resource)) \<and>
        accepts_country d n)"

definition releasability_ok :: "resource_attributes \<Rightarrow> security_domain \<Rightarrow> bool" where
  "releasability_ok resource d \<longleftrightarrow> (\<forall>c \<in> set (ra_releasable_countries resource). accepts_country d c)"

lemma check_handling_caveats_None_iff:
  "check_handling_caveats su ra = None \<longleftrightarrow> caveats_held su ra"
  by (simp add: check_handling_caveats_def caveats_held_def)

lemma check_handling_caveats_deny: "check_handling_caveats su ra = Some dn \<Longrightarrow> pd_effect dn = Deny"
  by (auto simp: check_handling_caveats_def split: if_splits dest!: find_map_SomeD)

lemma check_mission_None_iff:
  "check_mission_compartment m src tgt = None \<longleftrightarrow> mission_ok m src tgt"
  by (cases m; cases tgt)
    (auto simp: check_mission_compartment_def mission_ok_def Let_def accepts_mission_def)

lemma check_mission_deny: "check_mission_compartment m src tgt = Some dn \<Longrightarrow> pd_effect dn = Deny"
  by (auto simp: check_mission_compartment_def Let_def split: if_splits option.splits)

lemma check_nationality_None_iff: "check_nationality su ra d = None \<longleftrightarrow> nationality_ok su ra d"
  by (auto simp: check_nationality_def nationality_ok_def list_ex_iff split: option.splits)

lemma check_nationality_deny: "check_nationality su ra d = Some dn \<Longrightarrow> pd_effect dn = Deny"
  by (auto simp: check_nationality_def split: if_splits option.splits)

lemma check_releasability_None_iff:
  "check_releasability w d cs = None \<longleftrightarrow> (\<forall>c \<in> set cs. accepts_country d c)"
  by (simp add: check_releasability_def)

lemma check_releasability_deny: "check_releasability w d cs = Some dn \<Longrightarrow> pd_effect dn = Deny"
  by (auto simp: check_releasability_def split: if_splits dest!: find_map_SomeD)

lemmas check_denies =
  check_handling_caveats_deny check_mission_deny check_nationality_deny check_releasability_deny

lemmas check_None_iffs =
  check_handling_caveats_None_iff check_mission_None_iff check_nationality_None_iff
  check_releasability_None_iff

section \<open>Local access\<close>

definition access_allowed ::
  "subject_attributes \<Rightarrow> resource_attributes \<Rightarrow> environment_attributes \<Rightarrow> security_domain \<Rightarrow> bool" where
  "access_allowed su ra env d \<longleftrightarrow>
     caveats_held su ra \<and> mission_ok (resolve_mission_id su env) d None \<and>
     ra_classification ra \<le> su_clearance su \<and> ra_classification ra \<le> sd_max_classification d \<and>
     nationality_ok su ra d \<and> releasability_ok ra d"

lemma evaluate_access_unknown_domain:
  "store_domain s (ev_source_domain (pc_environment ctx)) = None \<Longrightarrow>
     evaluate_access s ctx =
       Err (PeNotFound (''domain '' @ quoted (ev_source_domain (pc_environment ctx)) @ '' not registered''))"
  by (simp add: evaluate_access_def require_domain_def)

lemma evaluate_access_cases:
  assumes d: "store_domain s (ev_source_domain (pc_environment ctx)) = Some d"
  shows "\<exists>dn. evaluate_access s ctx = Ok dn \<and>
     (if access_allowed (pc_subject ctx) (pc_resource ctx) (pc_environment ctx) d
      then pd_effect dn = Permit \<and> pd_effective_label dn = Some (pc_label ctx)
      else pd_effect dn = Deny)"
proof -
  let ?su = "pc_subject ctx" and ?ra = "pc_resource ctx" and ?env = "pc_environment ctx"
  let ?m = "resolve_mission_id ?su ?env"
  note step = evaluate_access_def require_domain_def d Let_def access_allowed_def
  consider (cav) dn where "check_handling_caveats ?su ?ra = Some dn"
    | (mis) dn where "check_handling_caveats ?su ?ra = None" "check_mission_compartment ?m d None = Some dn"
    | (low) "check_handling_caveats ?su ?ra = None" "check_mission_compartment ?m d None = None"
        "su_clearance ?su < ra_classification ?ra \<or> sd_max_classification d < ra_classification ?ra"
    | (nat) dn where "check_handling_caveats ?su ?ra = None" "check_mission_compartment ?m d None = None"
        "\<not> su_clearance ?su < ra_classification ?ra" "\<not> sd_max_classification d < ra_classification ?ra"
        "check_nationality ?su ?ra d = Some dn"
    | (rest) "check_handling_caveats ?su ?ra = None" "check_mission_compartment ?m d None = None"
        "\<not> su_clearance ?su < ra_classification ?ra" "\<not> sd_max_classification d < ra_classification ?ra"
        "check_nationality ?su ?ra d = None"
    by fastforce
  then show ?thesis
  proof cases
    case cav
    then have "\<not> caveats_held ?su ?ra"
      using check_handling_caveats_None_iff [of ?su ?ra] by auto
    with cav show ?thesis by (simp add: step check_denies)
  next
    case mis
    then have "\<not> mission_ok ?m d None"
      using check_mission_None_iff [of ?m d None] by auto
    with mis show ?thesis by (simp add: step check_denies)
  next
    case low
    then show ?thesis by (auto simp: step)
  next
    case nat
    then have "\<not> nationality_ok ?su ?ra d"
      using check_nationality_None_iff [of ?su ?ra d] by auto
    with nat show ?thesis by (simp add: step check_denies)
  next
    case rest
    then have pre: "caveats_held ?su ?ra" "mission_ok ?m d None" "nationality_ok ?su ?ra d"
      by (simp_all add: check_None_iffs)
    let ?rel = "check_releasability ''domain '' d (ra_releasable_countries ?ra)"
    have rel: "?rel = None \<longleftrightarrow> releasability_ok ?ra d"
      by (simp add: check_None_iffs releasability_ok_def)
    show ?thesis
    proof (cases ?rel)
      case None
      with rest pre rel show ?thesis by (auto simp: step not_less leD)
    next
      case (Some dn)
      with rest rel show ?thesis by (simp add: step check_releasability_deny)
    qed
  qed
qed

text \<open>
  C16: local evaluation is complete: it fails only for an unregistered domain, never asks for a
  downgrade, and permits, with the label unchanged, exactly when the subject holds every
  restrictive caveat and an authorised mission, the classification is within both the clearance and
  the domain's maximum, the nationality is released to and accepted, and every releasable country is
  accepted by the domain.
\<close>

theorem evaluate_access_decision:
  "(case store_domain s (ev_source_domain (pc_environment ctx)) of
      None \<Rightarrow> evaluate_access s ctx =
        Err (PeNotFound (''domain '' @ quoted (ev_source_domain (pc_environment ctx)) @ '' not registered''))
    | Some d \<Rightarrow> \<exists>dn. evaluate_access s ctx = Ok dn \<and>
        (if access_allowed (pc_subject ctx) (pc_resource ctx) (pc_environment ctx) d
         then pd_effect dn = Permit \<and> pd_effective_label dn = Some (pc_label ctx)
         else pd_effect dn = Deny))"
proof (cases "store_domain s (ev_source_domain (pc_environment ctx))")
  case None
  then show ?thesis by (simp add: evaluate_access_unknown_domain)
next
  case (Some d)
  with evaluate_access_cases [OF Some] show ?thesis by simp
qed

lemma evaluate_access_permitD:
  assumes "evaluate_access s ctx = Ok dn" and "pd_effect dn \<noteq> Deny"
  obtains d where "store_domain s (ev_source_domain (pc_environment ctx)) = Some d"
    and "access_allowed (pc_subject ctx) (pc_resource ctx) (pc_environment ctx) d"
    and "pd_effect dn = Permit" and "pd_effective_label dn = Some (pc_label ctx)"
proof (cases "store_domain s (ev_source_domain (pc_environment ctx))")
  case None
  with assms show thesis by (simp add: evaluate_access_unknown_domain)
next
  case (Some d)
  with evaluate_access_cases [OF Some] assms that show thesis by (auto split: if_splits)
qed

section \<open>Cross-domain transfer\<close>

definition transfer_checks ::
  "subject_attributes \<Rightarrow> resource_attributes \<Rightarrow> environment_attributes \<Rightarrow> security_domain \<Rightarrow> security_domain \<Rightarrow> bool" where
  "transfer_checks su ra env source target \<longleftrightarrow>
     caveats_held su ra \<and> mission_ok (resolve_mission_id su env) source (Some target) \<and>
     releasability_ok ra target"

lemma evaluate_cross_domain_resolved:
  assumes "ev_target_domain (pc_environment ctx) = Some tid"
    and "policy_for_pair s (ev_source_domain (pc_environment ctx)) tid = Some p"
    and "store_domain s (ev_source_domain (pc_environment ctx)) = Some source"
    and "store_domain s tid = Some target"
  shows "evaluate_cross_domain s ctx = Ok dn \<Longrightarrow>
     (case pd_effect dn of
        Permit \<Rightarrow> transfer_checks (pc_subject ctx) (pc_resource ctx) (pc_environment ctx) source target \<and>
          cf_classification (pc_label ctx) \<le> sd_max_classification target \<and>
          pd_effective_label dn = Some (pc_label ctx)
      | Downgrade \<Rightarrow> transfer_checks (pc_subject ctx) (pc_resource ctx) (pc_environment ctx) source target \<and>
          requires_downgrade (pc_label ctx) target \<and>
          (\<exists>e. downgraded_label_for_target (pc_label ctx) target (ps_downgrade s) = Ok e \<and>
             pd_effective_label dn = Some e)
      | Deny \<Rightarrow> pd_effective_label dn = None \<and>
          (\<not> transfer_checks (pc_subject ctx) (pc_resource ctx) (pc_environment ctx) source target \<or>
           sd_max_classification target < cf_classification (pc_label ctx) \<and>
           sd_max_classification target < Unclassified))"
proof -
  let ?su = "pc_subject ctx" and ?ra = "pc_resource ctx" and ?env = "pc_environment ctx"
  let ?m = "resolve_mission_id ?su ?env" and ?rel = "ra_releasable_countries ?ra"
  assume ev: "evaluate_cross_domain s ctx = Ok dn"
  have deny_none: "pd_effective_label x = None"
    if "check_handling_caveats ?su ?ra = Some x \<or> check_mission_compartment ?m source (Some target) = Some x \<or>
        check_releasability ''target domain '' target ?rel = Some x" for x
    using that
    by (auto simp: check_handling_caveats_def check_mission_compartment_def check_releasability_def Let_def
        split: if_splits option.splits dest!: find_map_SomeD)
  note step = evaluate_cross_domain_def require_domain_def assms Let_def transfer_checks_def
  consider (cav) x where "check_handling_caveats ?su ?ra = Some x"
    | (mis) x where "check_handling_caveats ?su ?ra = None"
        "check_mission_compartment ?m source (Some target) = Some x"
    | (rel) x where "check_handling_caveats ?su ?ra = None"
        "check_mission_compartment ?m source (Some target) = None"
        "check_releasability ''target domain '' target ?rel = Some x"
    | (ok) "check_handling_caveats ?su ?ra = None" "check_mission_compartment ?m source (Some target) = None"
        "check_releasability ''target domain '' target ?rel = None"
    by fastforce
  then show ?thesis
  proof cases
    case cav
    then have "\<not> caveats_held ?su ?ra" using check_handling_caveats_None_iff [of ?su ?ra] by auto
    moreover have "dn = x" using ev cav by (simp add: step)
    ultimately show ?thesis using cav deny_none [of x] by (simp add: check_denies transfer_checks_def)
  next
    case mis
    then have "\<not> mission_ok ?m source (Some target)"
      using check_mission_None_iff [of ?m source "Some target"] by auto
    moreover have "dn = x" using ev mis by (simp add: step)
    ultimately show ?thesis using mis deny_none [of x] by (simp add: check_denies transfer_checks_def)
  next
    case rel
    then have "\<not> releasability_ok ?ra target"
      using check_releasability_None_iff [of "''target domain ''" target ?rel] by (auto simp: releasability_ok_def)
    moreover have "dn = x" using ev rel by (simp add: step)
    ultimately show ?thesis using rel deny_none [of x] by (simp add: check_denies transfer_checks_def)
  next
    case ok
    then have tc: "transfer_checks ?su ?ra ?env source target"
      by (simp add: transfer_checks_def releasability_ok_def check_None_iffs)
    show ?thesis
    proof (cases "sd_max_classification target < cf_classification (pc_label ctx)")
      case True
      show ?thesis
      proof (cases "Unclassified \<le> sd_max_classification target")
        case low: True
        from ev ok True low obtain e where
          "downgraded_label_for_target (pc_label ctx) target (ps_downgrade s) = Ok e"
          and "pd_effect dn = Downgrade" and "pd_effective_label dn = Some e"
          by (auto simp: step and_then_Inr_iff)
        with True low tc show ?thesis by (auto simp: requires_downgrade_def)
      next
        case False
        with ev ok True show ?thesis
          by (auto simp: step not_le)
      qed
    next
      case False
      with ev ok tc show ?thesis
        by (auto simp: step not_less)
    qed
  qed
qed

section \<open>Contexts built by the information point\<close>

lemma access_context_Ok_iff:
  "access_context su l op d = Ok ctx \<longleftrightarrow>
     validate_conf_label l = Ok () \<and>
     ctx = \<lparr>pc_subject = su, pc_resource = resource_from_label l, pc_environment = env_local op (sd_id d), pc_label = l\<rparr>"
  by (auto simp: access_context_def and_then_Inr_iff)

lemma cross_domain_context_Ok_iff:
  "cross_domain_context su l src tgt m = Ok ctx \<longleftrightarrow>
     validate_conf_label l = Ok () \<and> sd_id src \<noteq> sd_id tgt \<and>
     ctx = \<lparr>pc_subject = su, pc_resource = resource_from_label l,
            pc_environment = env_cross_domain (sd_id src) (sd_id tgt)
              (case m of Some x \<Rightarrow> Some x | None \<Rightarrow> su_mission_id su), pc_label = l\<rparr>"
  by (auto simp: cross_domain_context_def and_then_Inr_iff Let_def)

lemma permitted_dominated:
  assumes "access_context su l op d = Ok ctx" and "evaluate s ctx = Ok dn"
    and "op \<noteq> OpCrossDomainTransfer" and "pd_effect dn \<noteq> Deny"
  shows "validate_conf_label l = Ok () \<and> cf_classification l \<le> su_clearance su \<and>
     (\<exists>d'. store_domain s (sd_id d) = Some d' \<and> cf_classification l \<le> sd_max_classification d' \<and>
        (\<forall>c \<in> set (releasable_countries l). accepts_country d' c)) \<and>
     (\<forall>c \<in> set (restrictive_category_values l). holds_caveat su c) \<and>
     (\<forall>n. su_nationality su = Some n \<longrightarrow> releasable_countries l = [] \<or> n \<in> set (releasable_countries l)) \<and>
     pd_effective_label dn = Some l"
proof -
  from assms(1) have v: "validate_conf_label l = Ok ()"
    and ctx: "ctx = \<lparr>pc_subject = su, pc_resource = resource_from_label l,
                pc_environment = env_local op (sd_id d), pc_label = l\<rparr>"
    by (simp_all add: access_context_Ok_iff)
  have "evaluate_access s ctx = Ok dn"
    using assms(2,3) ctx by (cases op) (simp_all add: evaluate_def env_local_def)
  from evaluate_access_permitD [OF this assms(4)] obtain d' where
    "store_domain s (ev_source_domain (pc_environment ctx)) = Some d'"
    and "access_allowed (pc_subject ctx) (pc_resource ctx) (pc_environment ctx) d'"
    and "pd_effective_label dn = Some (pc_label ctx)" .
  then show ?thesis
    using v
    by (auto simp: ctx access_allowed_def caveats_held_def nationality_ok_def releasability_ok_def
        resource_from_label_def env_local_def)
qed

text \<open>
  C1: no read up, and no read outside the markings: when a local operation on a label is permitted,
  the label is valid and within the subject's clearance and the registered domain's maximum, the
  subject holds every restrictive category value of the label, and a subject with a nationality is
  one of the releasable countries if the label names any.
\<close>

theorem permit_is_dominated:
  assumes "access_context su l op d = Ok ctx" and "evaluate s ctx = Ok dn"
    and "op \<noteq> OpCrossDomainTransfer" and "pd_effect dn \<noteq> Deny"
  shows "validate_conf_label l = Ok () \<and> cf_classification l \<le> su_clearance su \<and>
     (\<exists>d'. store_domain s (sd_id d) = Some d' \<and> cf_classification l \<le> sd_max_classification d' \<and>
        (\<forall>c \<in> set (releasable_countries l). accepts_country d' c)) \<and>
     (\<forall>c \<in> set (restrictive_category_values l). holds_caveat su c) \<and>
     (\<forall>n. su_nationality su = Some n \<longrightarrow> releasable_countries l = [] \<or> n \<in> set (releasable_countries l)) \<and>
     pd_effective_label dn = Some l"
  using permitted_dominated [OF assms] .

definition nato_operator :: subject_attributes where
  "nato_operator = with_handling_caveat ''ATOMAL'' (with_nationality ''USA'' (subject_new ''operator-1'' Secret))"

definition high_side :: security_domain where
  "high_side = with_releasable_to [''USA'', ''GBR'', ''DEU''] (security_domain_new ''DOMAIN-HIGH'' ''High Side'' Secret)"

lemma preset_domains:
  "store_domain preset_high_to_low i =
     (if i = ''DOMAIN-LOW'' then Some low_side else if i = ''DOMAIN-HIGH'' then Some high_side else None)"
  "ps_cross_domain_policies preset_high_to_low =
     [with_description ''High-side to low-side cross-domain guard''
        (cross_domain_policy_new ''high-to-low'' ''DOMAIN-HIGH'' ''DOMAIN-LOW'')]"
  "ps_downgrade preset_high_to_low = downgrade_default"
  by (simp_all add: preset_high_to_low_def ignore_err_def insert_domain_def insert_cross_domain_policy_def
        validate_domain_id_def policy_store_new_def store_domain_def cross_domain_policy_new_def
        with_description_def model_simps im_get_def low_side_def high_side_def)

lemma sample_label_valid: "validate_conf_label sample_label = Ok ()"
  by (simp add: sample_label_def validate_conf_label_Ok_iff model_simps category_ok_def
      handling_caveat_marking_def releasable_to_marking_def)

lemma sample_label_markings:
  "cf_classification sample_label = Secret"
  "releasable_countries sample_label = [''USA'', ''GBR'']"
  "restrictive_category_values sample_label = [''ATOMAL'']"
  using releasable_countries_sample
  by (simp_all add: sample_label_def restrictive_category_values_def handling_caveat_marking_def)

lemma sample_access_permitted:
  "\<exists>ctx dn. access_context nato_operator sample_label OpRead high_side = Ok ctx \<and>
     evaluate preset_high_to_low ctx = Ok dn \<and> pd_effect dn = Permit"
proof -
  let ?ctx = "\<lparr>pc_subject = nato_operator, pc_resource = resource_from_label sample_label,
                pc_environment = env_local OpRead (sd_id high_side), pc_label = sample_label\<rparr>"
  have id: "sd_id high_side = ''DOMAIN-HIGH''" by (simp add: high_side_def model_simps)
  have dom: "store_domain preset_high_to_low (ev_source_domain (pc_environment ?ctx)) = Some high_side"
    by (simp add: preset_domains id env_local_def)
  have "access_allowed (pc_subject ?ctx) (pc_resource ?ctx) (pc_environment ?ctx) high_side"
    by (simp add: access_allowed_def resource_from_label_def sample_label_markings caveats_held_def
        nato_operator_def model_simps holds_caveat_def mission_ok_def high_side_def nationality_ok_def
        releasability_ok_def accepts_country_def spif_eval)
  with evaluate_access_cases [OF dom] obtain dn where
    "evaluate_access preset_high_to_low ?ctx = Ok dn" and "pd_effect dn = Permit" by auto
  then show ?thesis
    using sample_label_valid by (auto simp: access_context_Ok_iff evaluate_def env_local_def)
qed

theorem permit_is_dominated_witness:
  "\<exists>ctx dn. access_context nato_operator sample_label OpRead high_side = Ok ctx \<and>
     evaluate preset_high_to_low ctx = Ok dn \<and> pd_effective_label dn = Some sample_label \<and>
     cf_classification sample_label \<le> su_clearance nato_operator"
proof -
  obtain ctx dn where c: "access_context nato_operator sample_label OpRead high_side = Ok ctx"
    and e: "evaluate preset_high_to_low ctx = Ok dn" and p: "pd_effect dn = Permit"
    using sample_access_permitted by blast
  from permit_is_dominated [OF c e] p c e show ?thesis by auto
qed

lemma released_label_fits:
  assumes "cross_domain_context su l src tgt m = Ok ctx" and "evaluate s ctx = Ok dn"
    and "pd_effect dn \<noteq> Deny"
  shows "\<exists>t e. store_domain s (sd_id tgt) = Some t \<and> pd_effective_label dn = Some e \<and>
     policy_for_pair s (sd_id src) (sd_id tgt) \<noteq> None \<and>
     validate_conf_label e = Ok () \<and>
     cf_classification e = min (cf_classification l) (sd_max_classification t) \<and>
     cf_categories e = cf_categories l \<and>
     (\<forall>c \<in> set (releasable_countries e). accepts_country t c) \<and>
     (\<forall>c \<in> set (restrictive_category_values l). holds_caveat su c)"
proof -
  from assms(1) have v: "validate_conf_label l = Ok ()"
    and ctx: "ctx = \<lparr>pc_subject = su, pc_resource = resource_from_label l,
            pc_environment = env_cross_domain (sd_id src) (sd_id tgt)
              (case m of Some x \<Rightarrow> Some x | None \<Rightarrow> su_mission_id su), pc_label = l\<rparr>"
    by (simp_all add: cross_domain_context_Ok_iff)
  have ev: "evaluate_cross_domain s ctx = Ok dn"
    using assms(2) ctx by (simp add: evaluate_def env_cross_domain_def)
  have env: "ev_target_domain (pc_environment ctx) = Some (sd_id tgt)"
    "ev_source_domain (pc_environment ctx) = sd_id src" "pc_label ctx = l" "pc_subject ctx = su"
    "pc_resource ctx = resource_from_label l"
    by (simp_all add: ctx env_cross_domain_def)
  from ev obtain p source t where pol: "policy_for_pair s (sd_id src) (sd_id tgt) = Some p"
    and src: "store_domain s (sd_id src) = Some source" and tgt: "store_domain s (sd_id tgt) = Some t"
    unfolding evaluate_cross_domain_def Let_def env and_then_Inr_iff ok_or_Inr_iff require_domain_def by blast
  note res = evaluate_cross_domain_resolved [of ctx "sd_id tgt" s p source t dn, unfolded env,
      OF refl pol src tgt ev]
  from res assms(3) have checks: "transfer_checks su (resource_from_label l) (pc_environment ctx) source t"
    by (cases "pd_effect dn") auto
  then have held: "\<forall>c \<in> set (restrictive_category_values l). holds_caveat su c"
    and acc: "\<forall>c \<in> set (releasable_countries l). accepts_country t c"
    by (auto simp: transfer_checks_def caveats_held_def releasability_ok_def resource_from_label_def)
  have keep: "downgrade_categories t cfg (cf_categories l) = cf_categories l" for cfg
  proof -
    have "retain_accepted t c = c \<and> keep_category c" if c: "c \<in> set (cf_categories l)" for c
    proof -
      have "filter (accepts_country t) (cm_values c) = cm_values c" if "is_releasable_to c"
        using that c acc by (intro filter_True) (auto simp: releasable_countries_def in_tagged_values_iff)
      then show ?thesis
        using c v by (simp add: retain_accepted_def keep_category_def validate_conf_label_Ok_iff category_ok_def)
    qed
    then show ?thesis
      by (auto simp: downgrade_categories_def Let_def map_idI filter_True)
  qed
  show ?thesis
  proof (cases "pd_effect dn")
    case Permit
    with res v tgt pol held acc show ?thesis by (auto simp: min_absorb1)
  next
    case Downgrade
    with res obtain e where e: "downgraded_label_for_target l t (ps_downgrade s) = Ok e"
      and eff: "pd_effective_label dn = Some e" by auto
    from e have cats: "cf_categories e = cf_categories l"
      unfolding downgraded_label_Ok_iff keep by (simp add: keep)
    then have rel: "releasable_countries e = releasable_countries l"
      by (simp add: releasable_countries_def tagged_values_def)
    from e have "validate_conf_label e = Ok ()"
        and "cf_classification e = min (cf_classification l) (sd_max_classification t)"
      unfolding downgraded_label_Ok_iff by auto
    with eff cats rel tgt pol held acc show ?thesis by auto
  qed (use assms(3) in simp)
qed

text \<open>
  C2: whatever leaves a domain is fit for the target: when a cross-domain transfer is not denied, a
  policy for the pair exists, the released label is valid, within the target's maximum, the minimum
  of the original classification and that maximum, and carries exactly the original categories, all
  of whose releasable countries the target accepts; the subject holds every restrictive value.
\<close>

theorem transfer_release_is_fit:
  assumes "cross_domain_context su l src tgt m = Ok ctx" and "evaluate s ctx = Ok dn"
    and "pd_effect dn \<noteq> Deny"
  shows "\<exists>t e. store_domain s (sd_id tgt) = Some t \<and> pd_effective_label dn = Some e \<and>
     policy_for_pair s (sd_id src) (sd_id tgt) \<noteq> None \<and>
     validate_conf_label e = Ok () \<and>
     cf_classification e = min (cf_classification l) (sd_max_classification t) \<and>
     cf_categories e = cf_categories l \<and>
     (\<forall>c \<in> set (releasable_countries e). accepts_country t c) \<and>
     (\<forall>c \<in> set (restrictive_category_values l). holds_caveat su c)"
  using released_label_fits [OF assms] .

definition secret_usa :: conf_label where
  "secret_usa = with_category (releasable_to_marking [''USA'']) (conf_label_new nato_policy Secret)"

lemma secret_usa_transfer:
  "\<exists>ctx dn. cross_domain_context nato_operator secret_usa high_side low_side None = Ok ctx \<and>
     evaluate preset_high_to_low ctx = Ok dn \<and> pd_effect dn = Downgrade"
proof -
  have ids: "sd_id high_side = ''DOMAIN-HIGH''" "sd_id low_side = ''DOMAIN-LOW''"
    "sd_max_classification low_side = Restricted"
    "sd_mission_compartments high_side = []" "sd_mission_compartments low_side = []"
    by (simp_all add: high_side_def low_side_def model_simps)
  have v: "validate_conf_label secret_usa = Ok ()"
    by (simp add: secret_usa_def validate_conf_label_Ok_iff model_simps category_ok_def releasable_to_marking_def)
  have rel: "releasable_countries secret_usa = [''USA'']" "restrictive_category_values secret_usa = []"
    "cf_classification secret_usa = Secret"
    by (simp_all add: secret_usa_def releasable_countries_def restrictive_category_values_def)
  have down: "downgraded_label_for_target secret_usa low_side downgrade_default =
      Ok (with_category (releasable_to_marking [''USA'']) (conf_label_new nato_policy Restricted))"
    unfolding downgraded_label_Ok_iff
    by (simp add: validate_conf_label_Ok_iff category_ok_def model_simps secret_usa_def conf_label_new_def
        downgrade_categories_def downgrade_default_def retain_accepted_def keep_category_def accepts_low_side)
      (simp add: low_side_def model_simps min_def level_le_iff releasable_to_marking_def)
  show ?thesis
    using v down
    by (simp add: cross_domain_context_Ok_iff ids evaluate_def env_cross_domain_def evaluate_cross_domain_def
        policy_for_pair_def preset_domains cross_domain_policy_new_def with_description_def
        require_domain_def resource_from_label_def rel check_handling_caveats_def
        check_mission_compartment_def check_releasability_def accepts_low_side level_less_iff level_le_iff)
qed

theorem transfer_release_is_fit_witness:
  "\<exists>ctx dn e. cross_domain_context nato_operator secret_usa high_side low_side None = Ok ctx \<and>
     evaluate preset_high_to_low ctx = Ok dn \<and> pd_effective_label dn = Some e \<and>
     cf_categories e = cf_categories secret_usa"
proof -
  obtain ctx dn where c: "cross_domain_context nato_operator secret_usa high_side low_side None = Ok ctx"
    and e: "evaluate preset_high_to_low ctx = Ok dn" and p: "pd_effect dn = Downgrade"
    using secret_usa_transfer by blast
  from transfer_release_is_fit [OF c e] p c e show ?thesis by auto
qed

section \<open>What the decision does not depend on\<close>

definition set_allow_downgrade :: "bool \<Rightarrow> policy_store \<Rightarrow> policy_store" where
  "set_allow_downgrade b s =
     s\<lparr>ps_cross_domain_policies :=
         map (\<lambda>p. p\<lparr>xp_allow_downgrade := b\<rparr>) (ps_cross_domain_policies s)\<rparr>"

lemma find_map_Some:
  "find P (map f xs) = map_option f (find (P \<circ> f) xs)"
  by (induction xs) auto

lemma policy_for_pair_allow_downgrade:
  "policy_for_pair (set_allow_downgrade b s) src tgt =
     map_option (\<lambda>p. p\<lparr>xp_allow_downgrade := b\<rparr>) (policy_for_pair s src tgt)"
  by (simp add: policy_for_pair_def set_allow_downgrade_def find_map_Some comp_def)

lemma store_domain_allow_downgrade [simp]:
  "store_domain (set_allow_downgrade b s) i = store_domain s i"
  "ps_downgrade (set_allow_downgrade b s) = ps_downgrade s"
  by (simp_all add: store_domain_def set_allow_downgrade_def)

text \<open>
  A cross-domain decision is the same for every clearance and nationality of the subject, and
  for every setting of the policies' \<open>allow_downgrade\<close> flag: the evaluation reads neither. A policy
  that forbids downgrading therefore still downgrades.
\<close>

theorem cross_domain_ignores_clearance_and_flag:
  assumes "ev_operation (pc_environment ctx) = OpCrossDomainTransfer"
  shows "evaluate (set_allow_downgrade b s)
       (ctx\<lparr>pc_subject := (pc_subject ctx)\<lparr>su_clearance := c, su_nationality := n\<rparr>\<rparr>) = evaluate s ctx"
proof -
  let ?su = "(pc_subject ctx)\<lparr>su_clearance := c, su_nationality := n\<rparr>"
  have held: "holds_caveat ?su = holds_caveat (pc_subject ctx)"
    by (simp add: holds_caveat_def fun_eq_iff)
  have cav: "check_handling_caveats ?su ra = check_handling_caveats (pc_subject ctx) ra" for ra
    unfolding check_handling_caveats_def held by (simp cong: if_cong)
  have mis: "resolve_mission_id ?su env = resolve_mission_id (pc_subject ctx) env" for env
    by (simp add: resolve_mission_id_def split: option.split)
  note step = evaluate_def evaluate_cross_domain_def Let_def require_domain_def cav mis
    policy_for_pair_allow_downgrade assms
  show ?thesis
  proof (cases "ev_target_domain (pc_environment ctx)")
    case None
    then show ?thesis by (simp add: step)
  next
    case (Some tid)
    then show ?thesis
      by (cases "policy_for_pair s (ev_source_domain (pc_environment ctx)) tid") (simp_all add: step cong: option.case_cong if_cong)
  qed
qed

theorem cross_domain_ignores_clearance_and_flag_witness:
  "\<exists>ctx dn. cross_domain_context nato_operator secret_usa high_side low_side None = Ok ctx \<and>
     evaluate (set_allow_downgrade False preset_high_to_low)
       (ctx\<lparr>pc_subject := (pc_subject ctx)\<lparr>su_clearance := Unmarked, su_nationality := None\<rparr>\<rparr>) = Ok dn \<and>
     pd_effect dn = Downgrade"
proof -
  obtain ctx dn where c: "cross_domain_context nato_operator secret_usa high_side low_side None = Ok ctx"
    and e: "evaluate preset_high_to_low ctx = Ok dn" and p: "pd_effect dn = Downgrade"
    using secret_usa_transfer by blast
  have "ev_operation (pc_environment ctx) = OpCrossDomainTransfer"
    using c by (auto simp: cross_domain_context_Ok_iff env_cross_domain_def)
  from cross_domain_ignores_clearance_and_flag [OF this, where b = False and s = preset_high_to_low and c = Unmarked and n = None] c e p
  show ?thesis by auto
qed

end
