(* ===== verification/Crypto.thy ===== *)
theory Crypto
  imports Rust_Strings
begin

text \<open>
  Crate \<open>mim-crypto\<close>: keys, the trust store, the NMBS binding signature over a label and a payload
  digest, and the framing of AES-GCM ciphertexts. The \<open>CryptoProvider\<close> trait (RSA, SHA-256, random
  numbers) and the base64 crate are the functions of the record \<open>crypto_provider\<close>, an argument of
  every operation; \<open>crypto_laws\<close> is their documented behaviour. Bytes are character lists.
\<close>

section \<open>Errors, keys and the provider\<close>

datatype crypto_error =
    CeOperation string
  | CeInvalidKey string
  | CeVerificationFailed
  | CeUnsupportedAlgorithm string

fun show_crypto_error :: "crypto_error \<Rightarrow> string" where
  "show_crypto_error (CeOperation s) = ''cryptographic operation failed: '' @ s"
| "show_crypto_error (CeInvalidKey s) = ''invalid key material: '' @ s"
| "show_crypto_error CeVerificationFailed = ''signature verification failed''"
| "show_crypto_error (CeUnsupportedAlgorithm s) = ''unsupported algorithm: '' @ s"

type_synonym bytes = string

record signing_key =
  sk_key_id :: string
  sk_der :: bytes

record verifying_key =
  vk_key_id :: string
  vk_der :: bytes

record key_pair =
  kp_signing :: signing_key
  kp_verifying :: verifying_key

record crypto_provider =
  cp_hash_sha256 :: "bytes \<Rightarrow> bytes"
  cp_validate_signing_key :: "bytes \<Rightarrow> crypto_error + unit"
  cp_validate_verifying_key :: "bytes \<Rightarrow> crypto_error + unit"
  cp_public_key_from_private :: "bytes \<Rightarrow> crypto_error + bytes"
  cp_sign_rsa_pss_sha256 :: "signing_key \<Rightarrow> bytes \<Rightarrow> crypto_error + bytes"
  cp_verify_rsa_pss_sha256 :: "verifying_key \<Rightarrow> bytes \<Rightarrow> bytes \<Rightarrow> crypto_error + unit"
  cp_b64_encode :: "bytes \<Rightarrow> string"
  cp_b64_decode :: "string \<Rightarrow> string + bytes"

definition NMBS_ALGORITHM :: string where
  "NMBS_ALGORITHM = ''RSA-PSS-SHA256''"

definition NMBS_ALGORITHM_URI :: string where
  "NMBS_ALGORITHM_URI = ''urn:nato:stanag:4778:binding:rsa-pss-sha256''"

definition signing_key_from_pkcs8 :: "crypto_provider \<Rightarrow> string \<Rightarrow> bytes \<Rightarrow> crypto_error + signing_key" where
  "signing_key_from_pkcs8 cp i der =
     and_then (cp_validate_signing_key cp der) (\<lambda>_. Ok \<lparr>sk_key_id = i, sk_der = der\<rparr>)"

definition verifying_key_from_spki :: "crypto_provider \<Rightarrow> string \<Rightarrow> bytes \<Rightarrow> crypto_error + verifying_key" where
  "verifying_key_from_spki cp i der =
     and_then (cp_validate_verifying_key cp der) (\<lambda>_. Ok \<lparr>vk_key_id = i, vk_der = der\<rparr>)"

definition key_pair_from_pkcs8 :: "crypto_provider \<Rightarrow> string \<Rightarrow> bytes \<Rightarrow> crypto_error + key_pair" where
  "key_pair_from_pkcs8 cp i private_der =
     and_then (signing_key_from_pkcs8 cp i private_der) (\<lambda>sk.
     and_then (cp_public_key_from_private cp private_der) (\<lambda>public_der.
     and_then (verifying_key_from_spki cp i public_der) (\<lambda>vk.
     Ok \<lparr>kp_signing = sk, kp_verifying = vk\<rparr>)))"

definition sha256_base64 :: "crypto_provider \<Rightarrow> bytes \<Rightarrow> string" where
  "sha256_base64 cp data = cp_b64_encode cp (cp_hash_sha256 cp data)"

section \<open>The NMBS binding (\<open>provider.rs\<close>)\<close>

definition nmb_message :: "bytes \<Rightarrow> string \<Rightarrow> bytes" where
  "nmb_message label_bytes digest = label_bytes @ ''|'' @ digest"

definition sign_nmb_binding ::
  "crypto_provider \<Rightarrow> signing_key \<Rightarrow> bytes \<Rightarrow> string \<Rightarrow> crypto_error + string" where
  "sign_nmb_binding cp k label_bytes digest =
     and_then (cp_sign_rsa_pss_sha256 cp k (nmb_message label_bytes digest)) (\<lambda>sig. Ok (cp_b64_encode cp sig))"

definition verify_nmb_binding ::
  "crypto_provider \<Rightarrow> verifying_key \<Rightarrow> bytes \<Rightarrow> string \<Rightarrow> string \<Rightarrow> crypto_error + unit" where
  "verify_nmb_binding cp k label_bytes digest signature_b64 =
     and_then (map_err CeOperation (cp_b64_decode cp signature_b64)) (\<lambda>sig.
       cp_verify_rsa_pss_sha256 cp k (nmb_message label_bytes digest) sig)"

text \<open>The behaviour of the provider that the code relies on, for one key pair.\<close>

definition crypto_laws :: "crypto_provider \<Rightarrow> key_pair \<Rightarrow> bool" where
  "crypto_laws cp kp \<longleftrightarrow>
     (\<forall>x. cp_b64_decode cp (cp_b64_encode cp x) = Ok x) \<and>
     (\<forall>m s. cp_sign_rsa_pss_sha256 cp (kp_signing kp) m = Ok s \<longrightarrow>
        cp_verify_rsa_pss_sha256 cp (kp_verifying kp) m s = Ok ())"

lemma verify_signed_binding:
  "crypto_laws cp kp \<Longrightarrow> sign_nmb_binding cp (kp_signing kp) l d = Ok sig \<Longrightarrow>
     verify_nmb_binding cp (kp_verifying kp) l d sig = Ok ()"
  by (auto simp: sign_nmb_binding_def verify_nmb_binding_def and_then_Inr_iff crypto_laws_def)

lemma verify_nmb_binding_Ok_iff:
  "verify_nmb_binding cp k l d s = Ok () \<longleftrightarrow>
     (\<exists>sig. cp_b64_decode cp s = Ok sig \<and> cp_verify_rsa_pss_sha256 cp k (nmb_message l d) sig = Ok ())"
  by (auto simp: verify_nmb_binding_def and_then_Inr_iff)

text \<open>The message determines the label bytes and the digest when the digest has no bar, as a base64
  text has none.\<close>

lemma nmb_message_inject:
  assumes "nmb_message l d = nmb_message l' d'" and "CHR ''|'' \<notin> set d" and "CHR ''|'' \<notin> set d'"
  shows "l = l' \<and> d = d'"
proof -
  from assms(1) have "rev d @ CHR ''|'' # rev l = rev d' @ CHR ''|'' # rev l'"
    unfolding nmb_message_def by (metis append.assoc append_Cons append_Nil rev_append rev_singleton_conv)
  moreover have "takeWhile (\<lambda>c. c \<noteq> CHR ''|'') (rev x @ CHR ''|'' # y) = rev x"
    and "dropWhile (\<lambda>c. c \<noteq> CHR ''|'') (rev x @ CHR ''|'' # y) = CHR ''|'' # y"
    if "CHR ''|'' \<notin> set x" for x y
    using that by (auto simp: takeWhile_append dropWhile_append)
  ultimately show ?thesis
    using assms(2,3) by (metis list.inject rev_is_rev_conv)
qed

section \<open>Trust store and key ring (\<open>pki.rs\<close>)\<close>

record nmb_key_ring =
  kr_nmb :: key_pair
  kr_kas :: key_pair

record nmb_trust_store =
  ts_keys :: "verifying_key list"

definition trust_store_new :: nmb_trust_store where
  "trust_store_new = \<lparr>ts_keys = []\<rparr>"

definition add_verifying_key :: "verifying_key \<Rightarrow> nmb_trust_store \<Rightarrow> nmb_trust_store" where
  "add_verifying_key k t = t\<lparr>ts_keys := ts_keys t @ [k]\<rparr>"

definition from_spki_ders_with_prefix ::
  "crypto_provider \<Rightarrow> bytes list \<Rightarrow> string \<Rightarrow> crypto_error + nmb_trust_store" where
  "from_spki_ders_with_prefix cp ders prefix =
     (if ders = [] then Err (CeInvalidKey ''no verifying keys loaded'')
      else and_then
        (try_map (\<lambda>(idx, der). verifying_key_from_spki cp (prefix @ ''-'' @ show_nat idx) der)
           (enumerate 0 ders))
        (\<lambda>keys. Ok \<lparr>ts_keys = keys\<rparr>))"

definition verify_key_for :: "nmb_trust_store \<Rightarrow> string \<Rightarrow> crypto_error + verifying_key" where
  "verify_key_for t i =
     ok_or (CeInvalidKey (''unknown NMBS verifying key id: '' @ i)) (find (\<lambda>k. vk_key_id k = i) (ts_keys t))"

definition trust_primary :: "nmb_trust_store \<Rightarrow> crypto_error + verifying_key" where
  "trust_primary t = (case ts_keys t of [] \<Rightarrow> Err (CeInvalidKey ''trust store is empty'') | k # _ \<Rightarrow> Ok k)"

lemma verify_key_for_Ok: "verify_key_for t i = Ok k \<Longrightarrow> k \<in> set (ts_keys t) \<and> vk_key_id k = i"
  by (auto simp: verify_key_for_def dest: find_SomeD)

section \<open>AES-GCM framing (\<open>symmetric.rs\<close>)\<close>

text \<open>The initialisation vector and the tag are fixed-size arrays in the code.\<close>

record aes_gcm_ciphertext =
  ag_iv :: bytes
  ag_ciphertext :: bytes
  ag_tag :: bytes

definition aes_wf :: "aes_gcm_ciphertext \<Rightarrow> bool" where
  "aes_wf c \<longleftrightarrow> length (ag_iv c) = 12 \<and> length (ag_tag c) = 16"

definition aes_to_bytes :: "aes_gcm_ciphertext \<Rightarrow> bytes" where
  "aes_to_bytes c = ag_iv c @ ag_ciphertext c @ ag_tag c"

definition aes_from_bytes :: "bytes \<Rightarrow> crypto_error + aes_gcm_ciphertext" where
  "aes_from_bytes data =
     (if length data < 28 then Err (CeOperation ''ciphertext too short for AES-256-GCM'')
      else let tag_start = length data - 16 in
        Ok \<lparr>ag_iv = take 12 data, ag_ciphertext = drop 12 (take tag_start data), ag_tag = drop tag_start data\<rparr>)"

text \<open>
  The framing of a ciphertext is a bijection between well-formed ciphertexts and byte strings of
  at least 28 bytes; shorter input is refused.
\<close>

theorem aes_framing_round_trip:
  "(\<forall>c. aes_wf c \<longrightarrow> aes_from_bytes (aes_to_bytes c) = Ok c) \<and>
   (\<forall>data. case aes_from_bytes data of
      Inl e \<Rightarrow> length data < 28
    | Inr c \<Rightarrow> aes_wf c \<and> aes_to_bytes c = data)"
proof (intro conjI allI impI)
  show "aes_from_bytes (aes_to_bytes c) = Ok c" if "aes_wf c" for c
    using that by (simp add: aes_wf_def aes_from_bytes_def aes_to_bytes_def Let_def)
  fix data
  show "case aes_from_bytes data of Inl e \<Rightarrow> length data < 28 | Inr c \<Rightarrow> aes_wf c \<and> aes_to_bytes c = data"
  proof (cases "length data < 28")
    case False
    let ?n = "length data - 16"
    have "take 12 data @ drop 12 (take ?n data) = take ?n data"
    proof -
      have "(12 :: nat) \<le> ?n" using False by linarith
      then have "take 12 data = take 12 (take ?n data)" by (simp add: min_absorb1)
      then show ?thesis by (metis append_take_drop_id)
    qed
    with False show ?thesis
      by (simp add: aes_from_bytes_def aes_wf_def aes_to_bytes_def Let_def flip: append_assoc)
  qed (simp add: aes_from_bytes_def)
qed

theorem aes_framing_round_trip_witness:
  "aes_from_bytes (replicate 30 CHR ''x'') =
     Ok \<lparr>ag_iv = replicate 12 CHR ''x'', ag_ciphertext = ''xx'', ag_tag = replicate 16 CHR ''x''\<rparr>"
proof -
  let ?c = "\<lparr>ag_iv = replicate 12 CHR ''x'', ag_ciphertext = ''xx'', ag_tag = replicate 16 CHR ''x''\<rparr>"
  have "aes_wf ?c" by (simp add: aes_wf_def)
  then have "aes_from_bytes (aes_to_bytes ?c) = Ok ?c" using aes_framing_round_trip by blast
  moreover have "aes_to_bytes ?c = replicate 30 CHR ''x''"
    by (simp add: aes_to_bytes_def numeral_eq_Suc)
  ultimately show ?thesis by simp
qed

section \<open>A concrete provider\<close>

text \<open>A toy provider that satisfies the laws: hashing and encoding are the identity and a signature
  is the message with the key. It serves the witnesses only.\<close>

definition toy_provider :: crypto_provider where
  "toy_provider =
     \<lparr>cp_hash_sha256 = (\<lambda>x. x), cp_validate_signing_key = (\<lambda>_. Ok ()), cp_validate_verifying_key = (\<lambda>_. Ok ()),
      cp_public_key_from_private = (\<lambda>d. Ok d),
      cp_sign_rsa_pss_sha256 = (\<lambda>k m. Ok (sk_der k @ m)),
      cp_verify_rsa_pss_sha256 = (\<lambda>k m s. if s = vk_der k @ m then Ok () else Err CeVerificationFailed),
      cp_b64_encode = (\<lambda>x. x), cp_b64_decode = Ok\<rparr>"

definition toy_keys :: key_pair where
  "toy_keys = \<lparr>kp_signing = \<lparr>sk_key_id = ''k1'', sk_der = ''d''\<rparr>, kp_verifying = \<lparr>vk_key_id = ''k1'', vk_der = ''d''\<rparr>\<rparr>"

lemma toy_laws: "crypto_laws toy_provider toy_keys"
  by (auto simp: crypto_laws_def toy_provider_def toy_keys_def)

end
