(* ===== verification/Audit_Log.thy ===== *)
theory Audit_Log
  imports Labeling Crypto
begin

text \<open>
  Crate \<open>mim-audit\<close>: audit records, hash-chained envelopes with an optional NMBS signature, the
  \<open>AuditSink\<close> trait (locale \<open>audit_sink\<close>) with its three implementations, the audit log, and the
  write-once file. The JSON texts of serde are the functions of \<open>audit_codec\<close>; identifiers and
  time stamps of new records are arguments. A file is its byte content; failures of the operating
  system on an existing file are not modelled.
\<close>

section \<open>Records (\<open>record.rs\<close>)\<close>

datatype audit_event_kind =
    EvCrossDomainEvaluate | EvCrossDomainTransfer | EvTransportAccess | EvBindingVerify | EvBindingReject

record audit_record =
  ar_id :: string
  ar_timestamp :: date_time
  ar_event_kind :: audit_event_kind
  ar_subject_id :: string
  ar_source_domain :: "domain_id option"
  ar_target_domain :: "domain_id option"
  ar_original_label :: conf_label
  ar_effective_label :: "conf_label option"
  ar_policy_rule_id :: string
  ar_decision :: string
  ar_reason :: string
  ar_payload_digest :: "string option"

type_synonym stamp = "string \<times> date_time"

definition audit_record_new ::
  "stamp \<Rightarrow> audit_event_kind \<Rightarrow> string \<Rightarrow> conf_label \<Rightarrow> string \<Rightarrow> string \<Rightarrow> string \<Rightarrow> audit_record" where
  "audit_record_new st kind subject l rule decision reason =
     \<lparr>ar_id = fst st, ar_timestamp = snd st, ar_event_kind = kind, ar_subject_id = subject,
      ar_source_domain = None, ar_target_domain = None, ar_original_label = l,
      ar_effective_label = None, ar_policy_rule_id = rule, ar_decision = decision,
      ar_reason = reason, ar_payload_digest = None\<rparr>"

definition with_domains :: "domain_id \<Rightarrow> domain_id \<Rightarrow> audit_record \<Rightarrow> audit_record" where
  "with_domains src tgt r = r\<lparr>ar_source_domain := Some src, ar_target_domain := Some tgt\<rparr>"

definition with_effective_label :: "conf_label \<Rightarrow> audit_record \<Rightarrow> audit_record" where
  "with_effective_label l r = r\<lparr>ar_effective_label := Some l\<rparr>"

definition with_payload_digest :: "string \<Rightarrow> audit_record \<Rightarrow> audit_record" where
  "with_payload_digest d r = r\<lparr>ar_payload_digest := Some d\<rparr>"

section \<open>Envelopes (\<open>chain.rs\<close>)\<close>

record audit_signature =
  as_algorithm :: string
  as_key_id :: string
  as_signature :: string

record audit_envelope =
  ae_record :: audit_record
  ae_previous_hash :: string
  ae_record_hash :: string
  ae_signature :: "audit_signature option"

record audit_codec =
  ac_record_json :: "audit_record \<Rightarrow> string option"
  ac_envelope_json :: "audit_envelope \<Rightarrow> string + string"
  ac_envelope_parse :: "string \<Rightarrow> string + audit_envelope"

definition hash_input :: "audit_codec \<Rightarrow> audit_record \<Rightarrow> string \<Rightarrow> string" where
  "hash_input ac r previous_hash =
     previous_hash @ ''|'' @ (case ac_record_json ac r of Some j \<Rightarrow> j | None \<Rightarrow> [])"

definition hash_record :: "crypto_provider \<Rightarrow> audit_codec \<Rightarrow> audit_record \<Rightarrow> string \<Rightarrow> string" where
  "hash_record cp ac r previous_hash = sha256_base64 cp (hash_input ac r previous_hash)"

definition seal :: "crypto_provider \<Rightarrow> audit_codec \<Rightarrow> audit_record \<Rightarrow> string \<Rightarrow> audit_envelope" where
  "seal cp ac r previous_hash =
     \<lparr>ae_record = r, ae_previous_hash = previous_hash,
      ae_record_hash = hash_record cp ac r previous_hash, ae_signature = None\<rparr>"

definition sign_envelope :: "crypto_provider \<Rightarrow> signing_key \<Rightarrow> audit_envelope \<Rightarrow> string + audit_envelope" where
  "sign_envelope cp k e =
     and_then (map_err show_crypto_error (sign_nmb_binding cp k ''audit-record'' (ae_record_hash e)))
       (\<lambda>sig. Ok (e\<lparr>ae_signature :=
          Some \<lparr>as_algorithm = NMBS_ALGORITHM, as_key_id = sk_key_id k, as_signature = sig\<rparr>\<rparr>))"

definition envelope_verify_chain :: "crypto_provider \<Rightarrow> audit_codec \<Rightarrow> string \<Rightarrow> audit_envelope \<Rightarrow> string + unit" where
  "envelope_verify_chain cp ac expected_previous e =
     (if ae_previous_hash e \<noteq> expected_previous then Err ''audit chain previous hash mismatch''
      else if hash_record cp ac (ae_record e) (ae_previous_hash e) \<noteq> ae_record_hash e then
        Err ''audit record hash mismatch''
      else Ok ())"

definition verify_signature :: "crypto_provider \<Rightarrow> verifying_key \<Rightarrow> audit_envelope \<Rightarrow> string + unit" where
  "verify_signature cp k e =
     and_then (ok_or ''audit envelope is not signed'' (ae_signature e)) (\<lambda>s.
       if as_key_id s \<noteq> vk_key_id k then
         Err (''audit signature key id mismatch: expected '' @ vk_key_id k @ '', got '' @ as_key_id s)
       else map_err show_crypto_error
         (verify_nmb_binding cp k ''audit-record'' (ae_record_hash e) (as_signature s)))"

section \<open>Sinks (\<open>log.rs\<close>)\<close>

datatype audit_error = AeIo string | AeSealed | AeTampered string

fun show_audit_error :: "audit_error \<Rightarrow> string" where
  "show_audit_error (AeIo s) = ''audit I/O error: '' @ s"
| "show_audit_error AeSealed = ''audit record is sealed and cannot be modified''"
| "show_audit_error (AeTampered s) = ''WORM audit integrity violation: '' @ s"

text \<open>The trait as a table of functions over the sink's state; every call returns the new state.\<close>

record 's audit_sink_ops =
  snk_append_record :: "audit_record \<Rightarrow> 's \<Rightarrow> (audit_error + unit) \<times> 's"
  snk_append_envelope :: "audit_envelope \<Rightarrow> 's \<Rightarrow> (audit_error + unit) \<times> 's"
  snk_len :: "'s \<Rightarrow> nat"

text \<open>The default methods of the trait.\<close>

definition default_append_record :: "audit_record \<Rightarrow> 's \<Rightarrow> (audit_error + unit) \<times> 's" where
  "default_append_record r s = (Ok (), s)"

definition default_append_envelope :: "audit_envelope \<Rightarrow> 's \<Rightarrow> (audit_error + unit) \<times> 's" where
  "default_append_envelope e s = (Ok (), s)"

type_synonym memory_sink = "audit_record list"

definition memory_append_record :: "audit_record \<Rightarrow> memory_sink \<Rightarrow> (audit_error + unit) \<times> memory_sink" where
  "memory_append_record r s = (Ok (), s @ [r])"

definition memory_sink_ops :: "memory_sink audit_sink_ops" where
  "memory_sink_ops =
     \<lparr>snk_append_record = memory_append_record, snk_append_envelope = default_append_envelope,
      snk_len = length\<rparr>"

record file_sink =
  fsk_file :: string
  fsk_count :: nat

definition file_sink_open :: "string option \<Rightarrow> file_sink" where
  "file_sink_open file = \<lparr>fsk_file = (case file of Some c \<Rightarrow> c | None \<Rightarrow> []), fsk_count = 0\<rparr>"

definition file_append_envelope :: "audit_codec \<Rightarrow> audit_envelope \<Rightarrow> file_sink \<Rightarrow> (audit_error + unit) \<times> file_sink" where
  "file_append_envelope ac e s =
     (case ac_envelope_json ac e of
        Inl err \<Rightarrow> (Err (AeIo err), s)
      | Inr line \<Rightarrow> (Ok (), s\<lparr>fsk_file := fsk_file s @ line @ [CHR 0x0A], fsk_count := fsk_count s + 1\<rparr>))"

definition file_sink_ops :: "audit_codec \<Rightarrow> file_sink audit_sink_ops" where
  "file_sink_ops ac =
     \<lparr>snk_append_record = default_append_record, snk_append_envelope = file_append_envelope ac,
      snk_len = fsk_count\<rparr>"

section \<open>The log (\<open>log.rs\<close>)\<close>

record 's audit_log =
  al_sink :: 's
  al_previous_hash :: string
  al_envelopes :: "audit_envelope list"
  al_signing_key :: "signing_key option"
  al_verifying_key :: "verifying_key option"

definition audit_log_new :: "'s \<Rightarrow> 's audit_log" where
  "audit_log_new sink =
     \<lparr>al_sink = sink, al_previous_hash = ''GENESIS'', al_envelopes = [], al_signing_key = None,
      al_verifying_key = None\<rparr>"

text \<open>The envelopes on the non-blank lines of a file.\<close>

definition parse_envelopes :: "audit_codec \<Rightarrow> string \<Rightarrow> audit_error + audit_envelope list" where
  "parse_envelopes ac content =
     try_map (\<lambda>l. map_err AeIo (ac_envelope_parse ac l)) (filter (\<lambda>l. trim l \<noteq> []) (read_lines content))"

definition last_hash :: "audit_envelope list \<Rightarrow> string" where
  "last_hash es = (if es = [] then ''GENESIS'' else ae_record_hash (last es))"

definition load_from_file :: "audit_codec \<Rightarrow> string option \<Rightarrow> audit_error + file_sink audit_log" where
  "load_from_file ac file =
     (let sink = file_sink_open file in
      and_then (parse_envelopes ac (fsk_file sink)) (\<lambda>es.
        Ok \<lparr>al_sink = sink, al_previous_hash = last_hash es, al_envelopes = es, al_signing_key = None,
            al_verifying_key = None\<rparr>))"

definition with_signing_key :: "crypto_provider \<Rightarrow> signing_key \<Rightarrow> 's audit_log \<Rightarrow> 's audit_log" where
  "with_signing_key cp k log =
     (let log1 = log\<lparr>al_signing_key := Some k\<rparr> in
      case and_then (cp_public_key_from_private cp (sk_der k)) (verifying_key_from_spki cp (sk_key_id k)) of
        Inl _ \<Rightarrow> log1
      | Inr vk \<Rightarrow> log1\<lparr>al_verifying_key := Some vk\<rparr>)"

definition make_envelope ::
  "crypto_provider \<Rightarrow> audit_codec \<Rightarrow> signing_key option \<Rightarrow> audit_record \<Rightarrow> string \<Rightarrow> audit_error + audit_envelope" where
  "make_envelope cp ac key r previous_hash =
     (let e = seal cp ac r previous_hash in
      case key of None \<Rightarrow> Ok e | Some k \<Rightarrow> map_err AeIo (sign_envelope cp k e))"

definition log_record ::
  "crypto_provider \<Rightarrow> audit_codec \<Rightarrow> 's audit_sink_ops \<Rightarrow> audit_record \<Rightarrow> 's audit_log \<Rightarrow>
     (audit_error + unit) \<times> 's audit_log" where
  "log_record cp ac ops r log =
     (case snk_append_record ops r (al_sink log) of
        (Inl e, s) \<Rightarrow> (Err e, log\<lparr>al_sink := s\<rparr>)
      | (Inr _, s) \<Rightarrow>
          (case make_envelope cp ac (al_signing_key log) r (al_previous_hash log) of
             Inl e \<Rightarrow> (Err e, log\<lparr>al_sink := s\<rparr>)
           | Inr env \<Rightarrow>
               (case snk_append_envelope ops env s of
                  (Inl e, s') \<Rightarrow> (Err e, log\<lparr>al_sink := s'\<rparr>)
                | (Inr _, s') \<Rightarrow>
                    (Ok (), log\<lparr>al_sink := s', al_previous_hash := ae_record_hash env,
                               al_envelopes := al_envelopes log @ [env]\<rparr>))))"

definition log_len :: "'s audit_log \<Rightarrow> nat" where
  "log_len log = length (al_envelopes log)"

definition verify_step ::
  "crypto_provider \<Rightarrow> audit_codec \<Rightarrow> verifying_key option \<Rightarrow> string \<Rightarrow> audit_envelope \<Rightarrow> string + unit" where
  "verify_step cp ac vk previous e =
     and_then (envelope_verify_chain cp ac previous e) (\<lambda>_.
       case vk of Some k \<Rightarrow> verify_signature cp k e | None \<Rightarrow> Ok ())"

fun verify_envelopes ::
  "crypto_provider \<Rightarrow> audit_codec \<Rightarrow> verifying_key option \<Rightarrow> string \<Rightarrow> audit_envelope list \<Rightarrow> string + unit" where
  "verify_envelopes cp ac vk previous [] = Ok ()"
| "verify_envelopes cp ac vk previous (e # es) =
     and_then (verify_step cp ac vk previous e) (\<lambda>_. verify_envelopes cp ac vk (ae_record_hash e) es)"

definition log_verify_chain :: "crypto_provider \<Rightarrow> audit_codec \<Rightarrow> 's audit_log \<Rightarrow> string + unit" where
  "log_verify_chain cp ac log = verify_envelopes cp ac (al_verifying_key log) ''GENESIS'' (al_envelopes log)"

section \<open>The sink contract\<close>

text \<open>What every implementation of the trait promises to the log: a record and its envelope, both
  appended, count as one entry.\<close>

locale audit_sink =
  fixes append_record :: "audit_record \<Rightarrow> 's \<Rightarrow> (audit_error + unit) \<times> 's"
    and append_envelope :: "audit_envelope \<Rightarrow> 's \<Rightarrow> (audit_error + unit) \<times> 's"
    and len :: "'s \<Rightarrow> nat"
  assumes entry_counts:
    "append_record r s = (Ok (), s1) \<Longrightarrow> append_envelope e s1 = (Ok (), s2) \<Longrightarrow> len s2 = Suc (len s)"
begin

definition ops :: "'s audit_sink_ops" where
  "ops = \<lparr>snk_append_record = append_record, snk_append_envelope = append_envelope, snk_len = len\<rparr>"

lemma record_counts:
  assumes "log_record cp ac ops r log = (Ok (), log')"
  shows "len (al_sink log') = Suc (len (al_sink log)) \<and> log_len log' = Suc (log_len log)"
proof -
  obtain s1 u1 where 1: "append_record r (al_sink log) = (u1, s1)" by (cases "append_record r (al_sink log)")
  with assms obtain env where u1: "u1 = Ok ()"
    and env: "make_envelope cp ac (al_signing_key log) r (al_previous_hash log) = Ok env"
    by (cases u1; cases "make_envelope cp ac (al_signing_key log) r (al_previous_hash log)")
      (auto simp: log_record_def ops_def)
  obtain s2 u2 where 2: "append_envelope env s1 = (u2, s2)" by (cases "append_envelope env s1")
  with assms 1 u1 env have "u2 = Ok ()" and "al_sink log' = s2"
    and "al_envelopes log' = al_envelopes log @ [env]"
    by (cases u2; auto simp: log_record_def ops_def)+
  with entry_counts 1 2 u1 show ?thesis by (simp add: log_len_def)
qed

text \<open>A run in which every call returns \<open>Ok\<close>.\<close>

inductive run :: "crypto_provider \<Rightarrow> audit_codec \<Rightarrow> 's audit_log \<Rightarrow> audit_record list \<Rightarrow> 's audit_log \<Rightarrow> bool" for cp ac where
  run_Nil: "run cp ac log [] log"
| run_Cons: "log_record cp ac ops r log = (Ok (), log1) \<Longrightarrow> run cp ac log1 rs log2 \<Longrightarrow> run cp ac log (r # rs) log2"

lemma run_counts:
  "run cp ac log rs log' \<Longrightarrow>
     len (al_sink log') = len (al_sink log) + length rs \<and> log_len log' = log_len log + length rs"
  by (induction rule: run.induct) (auto dest: record_counts)

end

interpretation memory_sink: audit_sink memory_append_record default_append_envelope length
  by unfold_locales (auto simp: memory_append_record_def default_append_envelope_def)

interpretation file_sink: audit_sink default_append_record "file_append_envelope ac" fsk_count
  for ac
  by unfold_locales (auto simp: default_append_record_def file_append_envelope_def split: sum.splits)

lemma sink_ops_eq: "memory_sink.ops = memory_sink_ops" "file_sink.ops ac = file_sink_ops ac"
  by (simp_all add: memory_sink.ops_def memory_sink_ops_def file_sink.ops_def file_sink_ops_def)

section \<open>The chain invariant\<close>

lemma verify_envelopes_append:
  "verify_envelopes cp ac vk p (xs @ ys) = Ok () \<longleftrightarrow>
     verify_envelopes cp ac vk p xs = Ok () \<and>
     verify_envelopes cp ac vk (if xs = [] then p else ae_record_hash (last xs)) ys = Ok ()"
  by (induction xs arbitrary: p) (auto simp: and_then_Inr_iff)

lemma last_hash_snoc [simp]: "last_hash (es @ [e]) = ae_record_hash e"
  by (simp add: last_hash_def)

definition keys_agree :: "crypto_provider \<Rightarrow> 's audit_log \<Rightarrow> bool" where
  "keys_agree cp log \<longleftrightarrow>
     (\<forall>vk. al_verifying_key log = Some vk \<longrightarrow>
        (\<exists>k. al_signing_key log = Some k \<and> vk_key_id vk = sk_key_id k \<and>
             crypto_laws cp \<lparr>kp_signing = k, kp_verifying = vk\<rparr>))"

definition log_wf :: "crypto_provider \<Rightarrow> audit_codec \<Rightarrow> 's audit_log \<Rightarrow> bool" where
  "log_wf cp ac log \<longleftrightarrow>
     log_verify_chain cp ac log = Ok () \<and> al_previous_hash log = last_hash (al_envelopes log) \<and>
     keys_agree cp log"

lemma log_wf_new: "log_wf cp ac (audit_log_new s)"
  by (simp add: log_wf_def audit_log_new_def log_verify_chain_def last_hash_def keys_agree_def)

lemma make_envelope_fields:
  assumes "make_envelope cp ac key r p = Ok e"
  shows "ae_record e = r" and "ae_previous_hash e = p" and "ae_record_hash e = hash_record cp ac r p"
  using assms
  by (auto simp: make_envelope_def sign_envelope_def seal_def Let_def and_then_Inr_iff split: option.splits)

lemma make_envelope_verifies:
  assumes "make_envelope cp ac (al_signing_key log) r p = Ok e" and "keys_agree cp log"
  shows "verify_step cp ac (al_verifying_key log) p e = Ok ()"
proof -
  note f = make_envelope_fields [OF assms(1)]
  have "verify_signature cp vk e = Ok ()" if "al_verifying_key log = Some vk" for vk
  proof -
    from that assms(2) obtain k where k: "al_signing_key log = Some k" "vk_key_id vk = sk_key_id k"
      and laws: "crypto_laws cp \<lparr>kp_signing = k, kp_verifying = vk\<rparr>"
      by (auto simp: keys_agree_def)
    from assms(1) k obtain sig where
      "sign_nmb_binding cp k ''audit-record'' (ae_record_hash e) = Ok sig"
      and "ae_signature e = Some \<lparr>as_algorithm = NMBS_ALGORITHM, as_key_id = sk_key_id k, as_signature = sig\<rparr>"
      by (auto simp: make_envelope_def sign_envelope_def Let_def and_then_Inr_iff)
    with verify_signed_binding [OF laws] k show ?thesis by (simp add: verify_signature_def)
  qed
  then show ?thesis
    by (simp add: verify_step_def envelope_verify_chain_def f split: option.split)
qed

lemma log_record_cases:
  assumes "log_record cp ac ops r log = (res, log')"
  obtains (err) e s where "res = Err e" and "log' = log\<lparr>al_sink := s\<rparr>"
  | (ok) env s where "res = Ok ()"
      and "make_envelope cp ac (al_signing_key log) r (al_previous_hash log) = Ok env"
      and "log' = log\<lparr>al_sink := s, al_previous_hash := ae_record_hash env,
                       al_envelopes := al_envelopes log @ [env]\<rparr>"
  using assms by (auto simp: log_record_def split: prod.splits sum.splits)

lemma log_record_keys:
  "al_verifying_key (snd (log_record cp ac ops r log)) = al_verifying_key log"
  "al_signing_key (snd (log_record cp ac ops r log)) = al_signing_key log"
  by (auto simp: log_record_def split: prod.splits sum.splits)

lemma log_wf_record:
  assumes "log_wf cp ac log" and "log_record cp ac ops r log = (res, log')"
  shows "log_wf cp ac log'"
  using assms(2)
proof (cases rule: log_record_cases)
  case (err e s)
  with assms(1) show ?thesis by (simp add: log_wf_def log_verify_chain_def keys_agree_def)
next
  case (ok env s)
  have "verify_step cp ac (al_verifying_key log) (last_hash (al_envelopes log)) env = Ok ()"
    using make_envelope_verifies ok(2) assms(1) by (auto simp: log_wf_def)
  with assms(1) ok(3) show ?thesis
    by (simp add: log_wf_def log_verify_chain_def keys_agree_def verify_envelopes_append last_hash_def)
qed

definition record_all ::
  "crypto_provider \<Rightarrow> audit_codec \<Rightarrow> 's audit_sink_ops \<Rightarrow> audit_record list \<Rightarrow> 's audit_log \<Rightarrow> 's audit_log" where
  "record_all cp ac ops rs log = fold (\<lambda>r l. snd (log_record cp ac ops r l)) rs log"

lemma log_wf_record_all: "log_wf cp ac log \<Longrightarrow> log_wf cp ac (record_all cp ac ops rs log)"
  unfolding record_all_def
  by (erule fold_invariant) (metis log_wf_record prod.collapse)

lemma record_all_appends: "\<exists>es. al_envelopes (record_all cp ac ops rs log) = al_envelopes log @ es"
  unfolding record_all_def
proof (induction rs arbitrary: log)
  case (Cons r rs)
  obtain res log1 where 1: "log_record cp ac ops r log = (res, log1)"
    by (cases "log_record cp ac ops r log")
  then have "\<exists>es. al_envelopes log1 = al_envelopes log @ es"
    by (cases rule: log_record_cases) auto
  with Cons [of log1] 1 show ?case by auto
qed simp

lemma log_wf_with_signing_key:
  assumes "\<And>vk. and_then (cp_public_key_from_private cp (sk_der k)) (verifying_key_from_spki cp (sk_key_id k)) = Ok vk
      \<Longrightarrow> crypto_laws cp \<lparr>kp_signing = k, kp_verifying = vk\<rparr>"
  shows "log_wf cp ac (with_signing_key cp k (audit_log_new s))"
proof -
  have id: "vk_key_id vk = sk_key_id k"
    if "and_then (cp_public_key_from_private cp (sk_der k)) (verifying_key_from_spki cp (sk_key_id k)) = Ok vk" for vk
    using that by (auto simp: and_then_Inr_iff verifying_key_from_spki_def)
  show ?thesis
    using assms id
    by (auto simp: with_signing_key_def Let_def log_wf_def audit_log_new_def log_verify_chain_def
        last_hash_def keys_agree_def split: sum.split)
qed

definition start_log :: "crypto_provider \<Rightarrow> signing_key option \<Rightarrow> 's \<Rightarrow> 's audit_log" where
  "start_log cp key s =
     (case key of None \<Rightarrow> audit_log_new s | Some k \<Rightarrow> with_signing_key cp k (audit_log_new s))"

text \<open>
  C13: whatever sequence of records is offered to a new log, over any sink and with or without a
  signing key, and whichever of the calls fail, the log's chain verifies afterwards, its previous
  hash is that of its last envelope, and envelopes already there are never changed or removed.
\<close>

theorem log_chain_always_verifies:
  assumes "\<And>k vk. key = Some k \<Longrightarrow>
      and_then (cp_public_key_from_private cp (sk_der k)) (verifying_key_from_spki cp (sk_key_id k)) = Ok vk
      \<Longrightarrow> crypto_laws cp \<lparr>kp_signing = k, kp_verifying = vk\<rparr>"
  shows "log_verify_chain cp ac (record_all cp ac ops (rs @ later) (start_log cp key s)) = Ok () \<and>
     al_previous_hash (record_all cp ac ops rs (start_log cp key s)) = last_hash (al_envelopes (record_all cp ac ops rs (start_log cp key s))) \<and>
     (\<exists>es. al_envelopes (record_all cp ac ops (rs @ later) (start_log cp key s)) =
        al_envelopes (record_all cp ac ops rs (start_log cp key s)) @ es)"
proof -
  have wf: "log_wf cp ac (start_log cp key s)"
    using assms(1) by (auto simp: start_log_def log_wf_new log_wf_with_signing_key split: option.split)
  have split: "record_all cp ac ops (rs @ later) (start_log cp key s) = record_all cp ac ops later (record_all cp ac ops rs (start_log cp key s))"
    by (simp add: record_all_def)
  show ?thesis
    using log_wf_record_all [OF wf, of ops "rs @ later"] log_wf_record_all [OF wf, of ops rs]
      record_all_appends [of cp ac ops later "record_all cp ac ops rs (start_log cp key s)"]
    by (simp add: log_wf_def split)
qed

definition toy_codec :: audit_codec where
  "toy_codec =
     \<lparr>ac_record_json = (\<lambda>r. Some (ar_id r)),
      ac_envelope_json = (\<lambda>e. Ok (ar_id (ae_record e))),
      ac_envelope_parse = (\<lambda>l. Err l)\<rparr>"

definition sample_record :: audit_record where
  "sample_record =
     audit_record_new (''r1'', ''2024-01-01T00:00:00Z'') EvTransportAccess ''operator-1'' sample_label
       ''pep-access'' ''allow'' ''ok''"

theorem log_chain_always_verifies_witness:
  "log_verify_chain toy_provider toy_codec
     (record_all toy_provider toy_codec memory_sink_ops [sample_record, sample_record]
        (start_log toy_provider (Some (kp_signing toy_keys)) [])) = Ok ()"
proof -
  have laws: "crypto_laws toy_provider \<lparr>kp_signing = k, kp_verifying = vk\<rparr>"
    if "Some (kp_signing toy_keys) = Some k"
      and "and_then (cp_public_key_from_private toy_provider (sk_der k))
        (verifying_key_from_spki toy_provider (sk_key_id k)) = Ok vk" for k vk
    using that toy_laws
    by (auto simp: toy_keys_def toy_provider_def verifying_key_from_spki_def)
  show ?thesis
    using log_chain_always_verifies [OF laws, of "Some (kp_signing toy_keys)" toy_codec memory_sink_ops
        "[sample_record]" "[sample_record]" "[]"] by simp
qed

end
