(* ===== verification/Policy_Enforcement.thy ===== *)
theory Policy_Enforcement
  imports Policy_Decision Audit_Log
begin

text \<open>
  Crate \<open>mim-policy\<close>, \<open>pep.rs\<close>: the enforcement point that consults the information and decision
  points and appends its decisions to an optional audit log. The log's surroundings (crypto
  provider, codec, sink) are the record \<open>audit_env\<close>; each operation takes the stamp of the record it
  may write and returns the new state with its result.
\<close>

record 's audit_env =
  au_crypto :: crypto_provider
  au_codec :: audit_codec
  au_sink :: "'s audit_sink_ops"

record 's enforcement_point =
  ep_store :: policy_store
  ep_audit :: "'s audit_log option"

definition pep_new :: "policy_store \<Rightarrow> 's enforcement_point" where
  "pep_new s = \<lparr>ep_store = s, ep_audit = None\<rparr>"

definition with_audit :: "'s audit_log \<Rightarrow> 's enforcement_point \<Rightarrow> 's enforcement_point" where
  "with_audit log p = p\<lparr>ep_audit := Some log\<rparr>"

fun effect_to_decision :: "policy_effect \<Rightarrow> string" where
  "effect_to_decision Permit = ''allow''"
| "effect_to_decision Deny = ''deny''"
| "effect_to_decision Downgrade = ''downgrade''"

definition decision_record ::
  "stamp \<Rightarrow> audit_event_kind \<Rightarrow> string \<Rightarrow> subject_attributes \<Rightarrow> conf_label \<Rightarrow> domain_id \<Rightarrow> domain_id \<Rightarrow>
     policy_decision \<Rightarrow> audit_record" where
  "decision_record st kind rule subject l src tgt dn =
     (let r = with_domains src tgt
                (audit_record_new st kind (su_subject_id subject) l rule
                   (effect_to_decision (pd_effect dn)) (pd_reason dn))
      in case pd_effective_label dn of Some e \<Rightarrow> with_effective_label e r | None \<Rightarrow> r)"

text \<open>\<open>let _ = audit.record(record)\<close>: the result is dropped.\<close>

definition append_audit :: "'s audit_env \<Rightarrow> audit_record \<Rightarrow> 's enforcement_point \<Rightarrow> 's enforcement_point" where
  "append_audit env r p =
     (case ep_audit p of
        None \<Rightarrow> p
      | Some log \<Rightarrow>
          p\<lparr>ep_audit := Some (snd (log_record (au_crypto env) (au_codec env) (au_sink env) r log))\<rparr>)"

definition record_access_audit ::
  "'s audit_env \<Rightarrow> stamp \<Rightarrow> subject_attributes \<Rightarrow> conf_label \<Rightarrow> security_domain \<Rightarrow> policy_decision \<Rightarrow>
     's enforcement_point \<Rightarrow> 's enforcement_point" where
  "record_access_audit env st subject l d dn p =
     append_audit env (decision_record st EvTransportAccess ''pep-access'' subject l (sd_id d) (sd_id d) dn) p"

definition record_cross_domain_audit ::
  "'s audit_env \<Rightarrow> stamp \<Rightarrow> subject_attributes \<Rightarrow> conf_label \<Rightarrow> security_domain \<Rightarrow> security_domain \<Rightarrow> policy_decision \<Rightarrow>
     's enforcement_point \<Rightarrow> 's enforcement_point" where
  "record_cross_domain_audit env st subject l src tgt dn p =
     append_audit env
       (decision_record st EvCrossDomainEvaluate ''pep-cross-domain'' subject l (sd_id src) (sd_id tgt) dn) p"

definition pep_evaluate_access ::
  "'s audit_env \<Rightarrow> stamp \<Rightarrow> subject_attributes \<Rightarrow> conf_label \<Rightarrow> access_operation \<Rightarrow> security_domain \<Rightarrow>
     's enforcement_point \<Rightarrow> (policy_error + policy_decision) \<times> 's enforcement_point" where
  "pep_evaluate_access env st subject l op d p =
     (case and_then (access_context subject l op d) (evaluate (ep_store p)) of
        Inl e \<Rightarrow> (Err e, p)
      | Inr dn \<Rightarrow> (Ok dn, record_access_audit env st subject l d dn p))"

definition pep_enforce_access ::
  "'s audit_env \<Rightarrow> stamp \<Rightarrow> subject_attributes \<Rightarrow> conf_label \<Rightarrow> access_operation \<Rightarrow> security_domain \<Rightarrow>
     's enforcement_point \<Rightarrow> (policy_error + policy_decision) \<times> 's enforcement_point" where
  "pep_enforce_access env st subject l op d p =
     (case pep_evaluate_access env st subject l op d p of
        (Inl e, p') \<Rightarrow> (Err e, p')
      | (Inr dn, p') \<Rightarrow> (if pd_effect dn = Deny then (Err (PeDenied (pd_reason dn)), p') else (Ok dn, p')))"

definition pep_evaluate_transfer ::
  "'s audit_env \<Rightarrow> stamp \<Rightarrow> subject_attributes \<Rightarrow> conf_label \<Rightarrow> security_domain \<Rightarrow> security_domain \<Rightarrow> string option \<Rightarrow>
     's enforcement_point \<Rightarrow> (policy_error + policy_decision) \<times> 's enforcement_point" where
  "pep_evaluate_transfer env st subject l src tgt mission p =
     (case and_then (cross_domain_context subject l src tgt mission) (evaluate (ep_store p)) of
        Inl e \<Rightarrow> (Err e, p)
      | Inr dn \<Rightarrow> (Ok dn, record_cross_domain_audit env st subject l src tgt dn p))"

text \<open>\<open>evaluate_cross_domain\<close> passes no mission; \<open>enforce_cross_domain\<close> turns a denial into an error.\<close>

definition pep_evaluate_cross_domain ::
  "'s audit_env \<Rightarrow> stamp \<Rightarrow> subject_attributes \<Rightarrow> conf_label \<Rightarrow> security_domain \<Rightarrow> security_domain \<Rightarrow>
     's enforcement_point \<Rightarrow> (policy_error + policy_decision) \<times> 's enforcement_point" where
  "pep_evaluate_cross_domain env st subject l src tgt p = pep_evaluate_transfer env st subject l src tgt None p"

definition pep_enforce_cross_domain ::
  "'s audit_env \<Rightarrow> stamp \<Rightarrow> subject_attributes \<Rightarrow> conf_label \<Rightarrow> security_domain \<Rightarrow> security_domain \<Rightarrow> string option \<Rightarrow>
     's enforcement_point \<Rightarrow> (policy_error + policy_decision) \<times> 's enforcement_point" where
  "pep_enforce_cross_domain env st subject l src tgt mission p =
     (case pep_evaluate_transfer env st subject l src tgt mission p of
        (Inl e, p') \<Rightarrow> (Err e, p')
      | (Inr dn, p') \<Rightarrow> (if pd_effect dn = Deny then (Err (PeDenied (pd_reason dn)), p') else (Ok dn, p')))"

section \<open>What enforcement adds to the decision\<close>

lemma append_audit_store [simp]: "ep_store (append_audit env r p) = ep_store p"
  by (simp add: append_audit_def split: option.split)

lemma append_audit_log:
  "ep_audit p = Some log \<Longrightarrow>
     ep_audit (append_audit env r p) = Some (snd (log_record (au_crypto env) (au_codec env) (au_sink env) r log))"
  by (simp add: append_audit_def)

lemma decision_record_fields:
  "ar_decision (decision_record st k rule su l src tgt dn) = effect_to_decision (pd_effect dn)"
  "ar_reason (decision_record st k rule su l src tgt dn) = pd_reason dn"
  "ar_subject_id (decision_record st k rule su l src tgt dn) = su_subject_id su"
  "ar_effective_label (decision_record st k rule su l src tgt dn) = pd_effective_label dn"
  by (simp_all add: decision_record_def audit_record_new_def with_domains_def with_effective_label_def Let_def
      split: option.split)

lemma effect_to_decision_inject: "effect_to_decision a = effect_to_decision b \<longleftrightarrow> a = b"
  by (cases a; cases b) simp_all

lemma pep_enforce_access_Ok:
  assumes "pep_enforce_access env st su l op d p = (Ok dn, p')"
  obtains ctx where "access_context su l op d = Ok ctx" and "evaluate (ep_store p) ctx = Ok dn"
    and "pd_effect dn \<noteq> Deny" and "p' = record_access_audit env st su l d dn p"
  using assms
  by (auto simp: pep_enforce_access_def pep_evaluate_access_def and_then_Inr_iff
      split: sum.splits prod.splits if_splits)

text \<open>
  Enforcement is the decision and nothing more: its result and the policy store do not depend on
  the audit log or its sink, a denial is returned as an error carrying the decision's reason, and when
  a log is configured every decision, permitting or denying, is offered to it exactly once with its
  subject, reason and effective label, while an evaluation that fails writes nothing.
\<close>

theorem enforcement_is_decision_plus_audit:
  "(let (res, p') = pep_enforce_access env st su l op d p in
      ep_store p' = ep_store p \<and>
      (case and_then (access_context su l op d) (evaluate (ep_store p)) of
         Inl e \<Rightarrow> res = Err e \<and> p' = p
       | Inr dn \<Rightarrow>
           res = (if pd_effect dn = Deny then Err (PeDenied (pd_reason dn)) else Ok dn) \<and>
           (case ep_audit p of
              None \<Rightarrow> ep_audit p' = None
            | Some log \<Rightarrow> \<exists>r. ar_subject_id r = su_subject_id su \<and> ar_reason r = pd_reason dn \<and>
                ar_decision r = effect_to_decision (pd_effect dn) \<and> ar_effective_label r = pd_effective_label dn \<and>
                ep_audit p' = Some (snd (log_record (au_crypto env) (au_codec env) (au_sink env) r log)))))"
proof (cases "and_then (access_context su l op d) (evaluate (ep_store p))")
  case (Inl e)
  then show ?thesis by (simp add: pep_enforce_access_def pep_evaluate_access_def)
next
  case (Inr dn)
  let ?r = "decision_record st EvTransportAccess ''pep-access'' su l (sd_id d) (sd_id d) dn"
  have "(case ep_audit p of None \<Rightarrow> ep_audit (append_audit env ?r p) = None
      | Some log \<Rightarrow> \<exists>r. ar_subject_id r = su_subject_id su \<and> ar_reason r = pd_reason dn \<and>
          ar_decision r = effect_to_decision (pd_effect dn) \<and> ar_effective_label r = pd_effective_label dn \<and>
          ep_audit (append_audit env ?r p) = Some (snd (log_record (au_crypto env) (au_codec env) (au_sink env) r log)))"
    by (auto simp: append_audit_def decision_record_fields split: option.split intro!: exI [of _ ?r])
  with Inr show ?thesis
    by (simp add: pep_enforce_access_def pep_evaluate_access_def record_access_audit_def)
qed

lemma pep_keeps_chain:
  assumes "\<forall>log. ep_audit p = Some log \<longrightarrow> log_wf (au_crypto env) (au_codec env) log"
  shows "\<forall>log. ep_audit (append_audit env r p) = Some log \<longrightarrow> log_wf (au_crypto env) (au_codec env) log"
  using assms
  by (auto simp: append_audit_def split: option.splits intro: log_wf_record [OF _ surjective_pairing])

end
