(* ===== verification/Audit_Worm.thy ===== *)
theory Audit_Worm
  imports Audit_Log
begin

text \<open>
  Crate \<open>mim-audit\<close>: what the hash chain detects, what a reload of a log file recovers, and the
  write-once file of \<open>worm.rs\<close> with its sidecar manifest. A path is the content of its file, absent
  or present; the manifest file holds the manifest itself, its JSON text being serde's.
\<close>

section \<open>Tamper evidence\<close>

definition record_inputs :: "audit_codec \<Rightarrow> audit_envelope list \<Rightarrow> string set" where
  "record_inputs ac es = (\<lambda>e. hash_input ac (ae_record e) (ae_previous_hash e)) ` set es"

lemma verify_envelopes_rev_induct:
  "verify_envelopes cp ac None p (xs @ [e]) = Ok () \<longleftrightarrow>
     verify_envelopes cp ac None p xs = Ok () \<and>
     ae_previous_hash e = (if xs = [] then p else ae_record_hash (last xs)) \<and>
     ae_record_hash e = hash_record cp ac (ae_record e) (ae_previous_hash e)"
  by (auto simp: verify_envelopes_append and_then_Inr_iff verify_step_def envelope_verify_chain_def)

lemma hash_input_inject:
  assumes "hash_input ac r p = hash_input ac r' p'" and "CHR ''|'' \<notin> set p" and "CHR ''|'' \<notin> set p'"
  shows "p = p' \<and> (case ac_record_json ac r of Some j \<Rightarrow> j | None \<Rightarrow> []) = (case ac_record_json ac r' of Some j \<Rightarrow> j | None \<Rightarrow> [])"
proof -
  have tw: "takeWhile (\<lambda>c. c \<noteq> CHR ''|'') (x @ CHR ''|'' # y) = x"
    and dw: "dropWhile (\<lambda>c. c \<noteq> CHR ''|'') (x @ CHR ''|'' # y) = CHR ''|'' # y"
    if "CHR ''|'' \<notin> set x" for x y
    using that by (auto simp: takeWhile_append dropWhile_append)
  from assms(1) have "p @ CHR ''|'' # (case ac_record_json ac r of Some j \<Rightarrow> j | None \<Rightarrow> []) =
      p' @ CHR ''|'' # (case ac_record_json ac r' of Some j \<Rightarrow> j | None \<Rightarrow> [])"
    by (simp add: hash_input_def)
  with tw dw assms(2,3) show ?thesis by (metis list.inject)
qed

text \<open>
  C24: two chains that both verify from the genesis value and end in the same record hash hold the
  same records in the same order, unless two different hash inputs of theirs collide: reordering,
  dropping, inserting or editing a record anywhere changes the last hash.
\<close>

theorem chain_head_commits_to_records:
  assumes "verify_envelopes cp ac None ''GENESIS'' xs = Ok ()"
    and "verify_envelopes cp ac None ''GENESIS'' ys = Ok ()"
    and "last_hash xs = last_hash ys"
    and no_collision: "inj_on (sha256_base64 cp) (record_inputs ac xs \<union> record_inputs ac ys)"
    and no_bar: "\<And>x. CHR ''|'' \<notin> set (sha256_base64 cp x)" and not_genesis: "\<And>x. sha256_base64 cp x \<noteq> ''GENESIS''"
    and json: "inj_on (ac_record_json ac) (ae_record ` (set xs \<union> set ys))"
      "\<forall>e \<in> set xs \<union> set ys. ac_record_json ac (ae_record e) \<noteq> None"
  shows "map ae_record xs = map ae_record ys"
  using assms(1-4) json
proof (induction xs arbitrary: ys rule: rev_induct)
  case Nil
  have "ys = []"
  proof (rule ccontr)
    assume "ys \<noteq> []"
    then obtain zs e where "ys = zs @ [e]" by (meson rev_exhaust)
    with Nil.prems(2,3) not_genesis not_genesis [symmetric] show False
      by (simp add: verify_envelopes_rev_induct last_hash_def hash_record_def)
  qed
  then show ?case by simp
next
  case (snoc e xs)
  have he: "ae_record_hash e = hash_record cp ac (ae_record e) (ae_previous_hash e)"
    and pe: "ae_previous_hash e = last_hash xs" and vx: "verify_envelopes cp ac None ''GENESIS'' xs = Ok ()"
    using snoc.prems(1) by (auto simp: verify_envelopes_rev_induct last_hash_def)
  have "ys \<noteq> []"
    using snoc.prems(3) he not_genesis by (auto simp: last_hash_def hash_record_def)
  then obtain zs f where ys: "ys = zs @ [f]" by (meson rev_exhaust)
  have hf: "ae_record_hash f = hash_record cp ac (ae_record f) (ae_previous_hash f)"
    and pf: "ae_previous_hash f = last_hash zs" and vz: "verify_envelopes cp ac None ''GENESIS'' zs = Ok ()"
    using snoc.prems(2) by (auto simp: ys verify_envelopes_rev_induct last_hash_def)
  have bar: "CHR ''|'' \<notin> set (last_hash us)" if "verify_envelopes cp ac None ''GENESIS'' us = Ok ()" for us
    using that no_bar by (cases us rule: rev_cases)
      (auto simp: last_hash_def verify_envelopes_rev_induct hash_record_def)
  have "sha256_base64 cp (hash_input ac (ae_record e) (ae_previous_hash e)) =
      sha256_base64 cp (hash_input ac (ae_record f) (ae_previous_hash f))"
    using snoc.prems(3) he hf by (simp add: ys hash_record_def)
  then have "hash_input ac (ae_record e) (ae_previous_hash e) = hash_input ac (ae_record f) (ae_previous_hash f)"
    by (rule inj_onD [OF snoc.prems(4)]) (auto simp: ys record_inputs_def)
  from hash_input_inject [OF this] bar [OF vx] bar [OF vz] pe pf
  have prev: "last_hash xs = last_hash zs"
    and js: "(case ac_record_json ac (ae_record e) of Some j \<Rightarrow> j | None \<Rightarrow> []) =
             (case ac_record_json ac (ae_record f) of Some j \<Rightarrow> j | None \<Rightarrow> [])"
    by auto
  have "ae_record e = ae_record f"
  proof (rule inj_onD [OF snoc.prems(5)])
    show "ac_record_json ac (ae_record e) = ac_record_json ac (ae_record f)"
      using js snoc.prems(6) by (auto simp: ys)
  qed (auto simp: ys)
  moreover have "map ae_record xs = map ae_record zs"
    using snoc.prems(4-6) prev vx vz
    by (intro snoc.IH) (auto simp: ys record_inputs_def intro: inj_on_subset)
  ultimately show ?case by (simp add: ys)
qed

section \<open>Files of envelopes\<close>

definition codec_laws :: "audit_codec \<Rightarrow> bool" where
  "codec_laws ac \<longleftrightarrow>
     (\<forall>e l. ac_envelope_json ac e = Ok l \<longrightarrow>
        ac_envelope_parse ac l = Ok e \<and> line_text l \<and> trim l \<noteq> [])"

definition file_holds :: "audit_codec \<Rightarrow> string \<Rightarrow> audit_envelope list \<Rightarrow> bool" where
  "file_holds ac content es \<longleftrightarrow>
     (\<exists>ls. content = concat (map (\<lambda>l. l @ [CHR 0x0A]) ls) \<and>
        list_all2 (\<lambda>l e. ac_envelope_json ac e = Ok l) ls es)"

lemma file_holds_Nil: "file_holds ac [] []"
  unfolding file_holds_def by (rule exI [of _ "[]"]) simp

lemma file_holds_append:
  "file_holds ac c es \<Longrightarrow> ac_envelope_json ac e = Ok l \<Longrightarrow> file_holds ac (c @ l @ [CHR 0x0A]) (es @ [e])"
  unfolding file_holds_def
proof (elim exE conjE)
  fix ls assume "c = concat (map (\<lambda>l. l @ [CHR 0x0A]) ls)" and "list_all2 (\<lambda>l e. ac_envelope_json ac e = Ok l) ls es"
    and "ac_envelope_json ac e = Ok l"
  then show "\<exists>ls. c @ l @ [CHR 0x0A] = concat (map (\<lambda>l. l @ [CHR 0x0A]) ls) \<and>
      list_all2 (\<lambda>l e. ac_envelope_json ac e = Ok l) ls (es @ [e])"
    by (intro exI [of _ "ls @ [l]"]) (simp add: list_all2_appendI)
qed

lemma parse_file_holds:
  assumes "codec_laws ac" and "file_holds ac c es"
  shows "parse_envelopes ac c = Ok es"
proof -
  from assms(2) obtain ls where c: "c = concat (map (\<lambda>l. l @ [CHR 0x0A]) ls)"
    and l2: "list_all2 (\<lambda>l e. ac_envelope_json ac e = Ok l) ls es"
    unfolding file_holds_def by blast
  have good: "\<forall>l \<in> set ls. line_text l \<and> trim l \<noteq> []"
    using l2 assms(1) by (fastforce simp: codec_laws_def list_all2_conv_all_nth in_set_conv_nth)
  then have "filter (\<lambda>l. trim l \<noteq> []) (read_lines c) = ls"
    by (simp add: c read_lines_concat filter_True)
  moreover have "list_all2 (\<lambda>l e. map_err AeIo (ac_envelope_parse ac l) = Ok e) ls es"
    using l2 assms(1) by (auto simp: codec_laws_def elim!: list_all2_mono)
  ultimately show ?thesis by (simp add: parse_envelopes_def try_map_Inr_iff)
qed

lemma file_log_record_holds:
  assumes "log_record cp ac (file_sink_ops ac) r log = (res, log')"
    and "file_holds ac (fsk_file (al_sink log)) (pre @ al_envelopes log)"
  shows "file_holds ac (fsk_file (al_sink log')) (pre @ al_envelopes log')"
proof (cases "make_envelope cp ac (al_signing_key log) r (al_previous_hash log)")
  case (Inl e)
  with assms show ?thesis by (auto simp: log_record_def file_sink_ops_def default_append_record_def)
next
  case (Inr env)
  show ?thesis
  proof (cases "ac_envelope_json ac env")
    case (Inl e)
    with Inr assms show ?thesis
      by (auto simp: log_record_def file_sink_ops_def default_append_record_def file_append_envelope_def)
  next
    case json: (Inr l)
    from file_holds_append [OF assms(2) json] Inr json assms(1) show ?thesis
      by (auto simp: log_record_def file_sink_ops_def default_append_record_def file_append_envelope_def)
  qed
qed

lemma file_record_all_holds:
  "file_holds ac (fsk_file (al_sink log)) (pre @ al_envelopes log) \<Longrightarrow>
     file_holds ac (fsk_file (al_sink (record_all cp ac (file_sink_ops ac) rs log)))
       (pre @ al_envelopes (record_all cp ac (file_sink_ops ac) rs log))"
  unfolding record_all_def
  by (rule fold_invariant [where P = "\<lambda>log. file_holds ac (fsk_file (al_sink log)) (pre @ al_envelopes log)"])
    (auto intro: file_log_record_holds [OF surjective_pairing])

text \<open>
  A log kept in a new file, after any records, is recovered by \<open>load_from_file\<close> with the same
  envelopes and the same previous hash, and its chain verifies.
\<close>

theorem file_log_reload:
  assumes laws: "codec_laws ac"
    and log_def: "log = record_all cp ac (file_sink_ops ac) rs (audit_log_new (file_sink_open None))"
  shows "\<exists>log'. load_from_file ac (Some (fsk_file (al_sink log))) = Ok log' \<and>
     al_envelopes log' = al_envelopes log \<and> al_previous_hash log' = al_previous_hash log \<and>
     log_verify_chain cp ac log' = Ok ()"
proof -
  let ?start = "audit_log_new (file_sink_open None)"
  have "file_holds ac (fsk_file (al_sink log)) ([] @ al_envelopes log)"
    unfolding log_def
    by (rule file_record_all_holds) (simp add: audit_log_new_def file_sink_open_def file_holds_Nil)
  then have parse: "parse_envelopes ac (fsk_file (al_sink log)) = Ok (al_envelopes log)"
    using parse_file_holds [OF laws] by simp
  have wf: "log_wf cp ac log"
    unfolding log_def by (intro log_wf_record_all log_wf_new)
  have none: "al_verifying_key log = None"
  proof -
    have "al_verifying_key (record_all cp ac (file_sink_ops ac) rs ?start) = al_verifying_key ?start"
      unfolding record_all_def
      by (rule fold_invariant [where P = "\<lambda>l. al_verifying_key l = al_verifying_key ?start"])
        (auto simp: log_record_keys)
    then show ?thesis by (simp add: log_def audit_log_new_def)
  qed
  from parse wf none show ?thesis
    by (simp add: load_from_file_def file_sink_open_def Let_def log_wf_def log_verify_chain_def)
qed

text \<open>
  \<open>AuditLog::file\<close> on a file that already holds envelopes starts a second chain at the genesis
  value: after the next successful record, the whole file no longer verifies when it is reloaded.
\<close>

theorem reopened_file_breaks_chain:
  assumes laws: "codec_laws ac" and held: "file_holds ac content pre" and "pre \<noteq> []"
    and hash: "last_hash pre \<noteq> ''GENESIS''"
    and rec: "log_record cp ac (file_sink_ops ac) r (audit_log_new (file_sink_open (Some content))) = (Ok (), log)"
    and "load_from_file ac (Some (fsk_file (al_sink log))) = Ok log'"
  shows "log_verify_chain cp ac log' \<noteq> Ok ()"
proof -
  have "file_holds ac (fsk_file (al_sink log)) (pre @ al_envelopes log)"
    using file_log_record_holds [OF rec] held
    by (simp add: audit_log_new_def file_sink_open_def)
  then have parse: "parse_envelopes ac (fsk_file (al_sink log)) = Ok (pre @ al_envelopes log)"
    by (rule parse_file_holds [OF laws])
  from rec obtain env where env: "al_envelopes log = [env]" and p: "ae_previous_hash env = ''GENESIS''"
    by (cases rule: log_record_cases) (auto simp: audit_log_new_def dest: make_envelope_fields(2))
  have "log' = \<lparr>al_sink = file_sink_open (Some (fsk_file (al_sink log))), al_previous_hash = last_hash (pre @ [env]),
      al_envelopes = pre @ [env], al_signing_key = None, al_verifying_key = None\<rparr>"
    using assms(6) parse env by (simp add: load_from_file_def file_sink_open_def Let_def)
  then show ?thesis
    using p hash \<open>pre \<noteq> []\<close>
    by (auto simp: log_verify_chain_def verify_envelopes_rev_induct last_hash_def)
qed

section \<open>Concrete logs\<close>

definition plain_provider :: crypto_provider where
  "plain_provider =
     toy_provider\<lparr>cp_hash_sha256 := (\<lambda>x. CHR ''h'' # map (\<lambda>c. if c = CHR ''|'' then CHR ''/'' else c) x)\<rparr>"

definition sample_envelope :: audit_envelope where
  "sample_envelope = seal plain_provider toy_codec sample_record ''GENESIS''"

definition line_codec :: audit_codec where
  "line_codec =
     toy_codec\<lparr>ac_envelope_json := (\<lambda>e. if e = sample_envelope then Ok ''{}'' else Err ''unsupported''),
       ac_envelope_parse := (\<lambda>l. if l = ''{}'' then Ok sample_envelope else Err ''syntax'')\<rparr>"

lemma line_codec_simps:
  "ac_envelope_json line_codec e = (if e = sample_envelope then Ok ''{}'' else Err ''unsupported'')"
  "ac_envelope_parse line_codec l = (if l = ''{}'' then Ok sample_envelope else Err ''syntax'')"
  "ac_record_json line_codec = ac_record_json toy_codec"
  by (simp_all add: line_codec_def)

lemma line_codec_laws: "codec_laws line_codec"
proof -
  have "trim ''{}'' = ''{}''"
    by (rule trim_id) (simp add: ws_lead_def ws_tail_def white_space_seqs_def)
  then show ?thesis by (simp add: codec_laws_def line_codec_simps line_text_def)
qed

lemma sample_envelope_line: "seal plain_provider line_codec sample_record ''GENESIS'' = sample_envelope"
  by (simp add: sample_envelope_def seal_def hash_record_def hash_input_def line_codec_simps)

lemma sample_file_record:
  "log_record plain_provider line_codec (file_sink_ops line_codec) sample_record
       (audit_log_new (file_sink_open (Some content))) =
     (Ok (), \<lparr>al_sink = \<lparr>fsk_file = content @ ''{}'' @ [CHR 0x0A], fsk_count = 1\<rparr>,
        al_previous_hash = ae_record_hash sample_envelope, al_envelopes = [sample_envelope],
        al_signing_key = None, al_verifying_key = None\<rparr>)"
  by (simp add: log_record_def file_sink_ops_def default_append_record_def make_envelope_def
      audit_log_new_def sample_envelope_line file_append_envelope_def file_sink_open_def line_codec_simps)

lemma sample_envelope_hash: "ae_record_hash sample_envelope \<noteq> ''GENESIS''"
  by (simp add: sample_envelope_def seal_def hash_record_def sha256_base64_def plain_provider_def toy_provider_def)

theorem chain_head_commits_to_records_witness:
  "verify_envelopes plain_provider toy_codec None ''GENESIS'' [sample_envelope] = Ok () \<and>
     map ae_record [sample_envelope] = [sample_record]"
proof -
  have v: "verify_envelopes plain_provider toy_codec None ''GENESIS'' [sample_envelope] = Ok ()"
    by (simp add: verify_step_def envelope_verify_chain_def sample_envelope_def seal_def)
  have "CHR ''|'' \<notin> set (sha256_base64 plain_provider x)" and "sha256_base64 plain_provider x \<noteq> ''GENESIS''" for x
    by (auto simp: sha256_base64_def plain_provider_def toy_provider_def)
  from chain_head_commits_to_records [OF v v refl _ this, of] v show ?thesis
    by (simp add: record_inputs_def toy_codec_def sample_envelope_def seal_def)
qed

theorem file_log_reload_witness:
  "\<exists>log'. load_from_file line_codec (Some (''{}'' @ [CHR 0x0A])) = Ok log' \<and>
     al_envelopes log' = [sample_envelope]"
proof -
  let ?log = "record_all plain_provider line_codec (file_sink_ops line_codec) [sample_record]
      (audit_log_new (file_sink_open None))"
  have open_eq: "file_sink_open None = file_sink_open (Some [])" by (simp add: file_sink_open_def)
  have "fsk_file (al_sink ?log) = ''{}'' @ [CHR 0x0A]" and "al_envelopes ?log = [sample_envelope]"
    unfolding open_eq record_all_def by (simp_all add: sample_file_record)
  with file_log_reload [OF line_codec_laws refl, of plain_provider "[sample_record]"] show ?thesis by auto
qed

theorem reopened_file_breaks_chain_witness:
  "\<exists>log log'. log_record plain_provider line_codec (file_sink_ops line_codec) sample_record
       (audit_log_new (file_sink_open (Some (''{}'' @ [CHR 0x0A])))) = (Ok (), log) \<and>
     load_from_file line_codec (Some (fsk_file (al_sink log))) = Ok log' \<and>
     log_verify_chain plain_provider line_codec log' \<noteq> Ok ()"
proof -
  let ?c = "''{}'' @ [CHR 0x0A]"
  have held: "file_holds line_codec ?c [sample_envelope]"
    using file_holds_append [OF file_holds_Nil, of line_codec sample_envelope "''{}''"]
    by (simp add: line_codec_simps)
  obtain log where rec: "log_record plain_provider line_codec (file_sink_ops line_codec) sample_record
       (audit_log_new (file_sink_open (Some ?c))) = (Ok (), log)"
    and disk: "fsk_file (al_sink log) = ?c @ ?c" by (simp add: sample_file_record)
  have "file_holds line_codec (?c @ ?c) [sample_envelope, sample_envelope]"
    using file_holds_append [OF held, of sample_envelope "''{}''"] by (simp add: line_codec_simps)
  from parse_file_holds [OF line_codec_laws this] disk obtain log' where
    load: "load_from_file line_codec (Some (fsk_file (al_sink log))) = Ok log'"
    by (simp add: load_from_file_def file_sink_open_def Let_def)
  have "last_hash [sample_envelope] \<noteq> ''GENESIS''"
    using sample_envelope_hash by (simp add: last_hash_def)
  from reopened_file_breaks_chain [OF line_codec_laws held _ this rec load] rec load show ?thesis by auto
qed

section \<open>The write-once file (\<open>worm.rs\<close>)\<close>

record worm_manifest =
  wm_byte_length :: nat
  wm_envelope_count :: nat
  wm_last_record_hash :: string

record worm_sink =
  ws_file :: "string option"
  ws_manifest_file :: "worm_manifest option"
  ws_state :: worm_manifest

definition verify_file_length :: "string option \<Rightarrow> nat \<Rightarrow> audit_error + unit" where
  "verify_file_length file expected =
     (case file of
        None \<Rightarrow>
          if expected = 0 then Ok ()
          else Err (AeTampered (''WORM audit file missing; expected '' @ show_nat expected @ '' bytes''))
      | Some content \<Rightarrow>
          if length content \<noteq> expected then
            Err (AeTampered (''WORM audit file length mismatch: expected '' @ show_nat expected @
                   '', got '' @ show_nat (length content)))
          else Ok ())"

definition scan_envelopes :: "audit_codec \<Rightarrow> string \<Rightarrow> audit_error + nat \<times> string" where
  "scan_envelopes ac content = and_then (parse_envelopes ac content) (\<lambda>es. Ok (length es, last_hash es))"

definition worm_open ::
  "audit_codec \<Rightarrow> string option \<Rightarrow> worm_manifest option \<Rightarrow> audit_error + worm_sink" where
  "worm_open ac file manifest =
     and_then
       (case manifest of
          Some m \<Rightarrow> Ok (file, m)
        | None \<Rightarrow>
            (case file of
               Some content \<Rightarrow>
                 and_then (scan_envelopes ac content) (\<lambda>(count, hash).
                   Ok (file, \<lparr>wm_byte_length = length content, wm_envelope_count = count,
                              wm_last_record_hash = hash\<rparr>))
             | None \<Rightarrow>
                 Ok (Some [], \<lparr>wm_byte_length = 0, wm_envelope_count = 0, wm_last_record_hash = ''GENESIS''\<rparr>)))
       (\<lambda>(file', state).
          and_then (verify_file_length file' (wm_byte_length state)) (\<lambda>_.
            Ok \<lparr>ws_file = file', ws_manifest_file = Some state, ws_state = state\<rparr>))"

definition worm_verify_immutable :: "worm_sink \<Rightarrow> audit_error + unit" where
  "worm_verify_immutable s = verify_file_length (ws_file s) (wm_byte_length (ws_state s))"

text \<open>Opening a missing file for append without \<open>create\<close> fails.\<close>

definition no_such_file :: string where
  "no_such_file = ''No such file or directory (os error 2)''"

definition worm_append_envelope ::
  "audit_codec \<Rightarrow> audit_envelope \<Rightarrow> worm_sink \<Rightarrow> (audit_error + unit) \<times> worm_sink" where
  "worm_append_envelope ac e s =
     (case verify_file_length (ws_file s) (wm_byte_length (ws_state s)) of
        Inl err \<Rightarrow> (Err err, s)
      | Inr _ \<Rightarrow>
          (case ws_file s of
             None \<Rightarrow> (Err (AeIo no_such_file), s)
           | Some content \<Rightarrow>
               (case ac_envelope_json ac e of
                  Inl err \<Rightarrow> (Err (AeIo err), s)
                | Inr line \<Rightarrow>
                    let content' = content @ line @ [CHR 0x0A];
                        s1 = s\<lparr>ws_file := Some content'\<rparr>
                    in if length content' \<le> wm_byte_length (ws_state s) then
                         (Err (AeTampered ''WORM audit file did not grow after append''), s1)
                       else
                         let state = \<lparr>wm_byte_length = length content',
                               wm_envelope_count = wm_envelope_count (ws_state s) + 1,
                               wm_last_record_hash = ae_record_hash e\<rparr>
                         in (Ok (), s1\<lparr>ws_state := state, ws_manifest_file := Some state\<rparr>))))"

definition worm_len :: "worm_sink \<Rightarrow> nat" where
  "worm_len s = wm_envelope_count (ws_state s)"

definition worm_sink_ops :: "audit_codec \<Rightarrow> worm_sink audit_sink_ops" where
  "worm_sink_ops ac =
     \<lparr>snk_append_record = default_append_record, snk_append_envelope = worm_append_envelope ac,
      snk_len = worm_len\<rparr>"

definition worm_wf :: "audit_codec \<Rightarrow> worm_sink \<Rightarrow> bool" where
  "worm_wf ac s \<longleftrightarrow>
     ws_manifest_file s = Some (ws_state s) \<and>
     (\<exists>content es. ws_file s = Some content \<and> length content = wm_byte_length (ws_state s) \<and>
        file_holds ac content es \<and> length es = wm_envelope_count (ws_state s) \<and>
        last_hash es = wm_last_record_hash (ws_state s))"

lemma worm_append_Ok:
  assumes "worm_append_envelope ac e s = (Ok (), s')"
  obtains content line where "ws_file s = Some content" and "ac_envelope_json ac e = Ok line"
    and "length content = wm_byte_length (ws_state s)"
    and "ws_file s' = Some (content @ line @ [CHR 0x0A])"
    and "ws_state s' = \<lparr>wm_byte_length = length (content @ line @ [CHR 0x0A]),
           wm_envelope_count = wm_envelope_count (ws_state s) + 1, wm_last_record_hash = ae_record_hash e\<rparr>"
    and "ws_manifest_file s' = Some (ws_state s')"
  using assms
  by (auto simp: worm_append_envelope_def verify_file_length_def Let_def
      split: sum.splits option.splits if_splits)

interpretation worm_file: audit_sink default_append_record "worm_append_envelope ac" worm_len
  for ac
  by unfold_locales (auto simp: default_append_record_def worm_len_def elim!: worm_append_Ok)

lemma worm_ops_eq: "worm_file.ops ac = worm_sink_ops ac"
  by (simp add: worm_file.ops_def worm_sink_ops_def)

lemma worm_wf_open_new: "\<exists>s. worm_open ac None None = Ok s \<and> worm_wf ac s"
  by (simp add: worm_open_def verify_file_length_def worm_wf_def)
    (simp add: file_holds_Nil last_hash_def)

lemma worm_wf_append:
  assumes "worm_wf ac s" and "worm_append_envelope ac e s = (res, s')"
  shows "worm_wf ac s'"
proof (cases res)
  case (Inl err)
  with assms show ?thesis
    by (auto simp: worm_append_envelope_def verify_file_length_def Let_def worm_wf_def
        split: sum.splits option.splits if_splits)
next
  case (Inr u)
  with assms(2) have "worm_append_envelope ac e s = (Ok (), s')" by simp
  then obtain content line where a: "ws_file s = Some content" "ac_envelope_json ac e = Ok line"
    and b: "ws_file s' = Some (content @ line @ [CHR 0x0A])"
      "ws_state s' = \<lparr>wm_byte_length = length (content @ line @ [CHR 0x0A]),
           wm_envelope_count = wm_envelope_count (ws_state s) + 1, wm_last_record_hash = ae_record_hash e\<rparr>"
      "ws_manifest_file s' = Some (ws_state s')"
    by (rule worm_append_Ok)
  from assms(1) a obtain es where "file_holds ac content es" and "length es = wm_envelope_count (ws_state s)"
    by (auto simp: worm_wf_def)
  with file_holds_append [OF this(1) a(2)] show ?thesis
    unfolding worm_wf_def b by (intro conjI exI [of _ "content @ line @ [CHR 0x0A]"] exI [of _ "es @ [e]"]) auto
qed

text \<open>
  The write-once check sees exactly the length of the file: after any edit by a third party, the
  verification, the next append and a reopening with the sidecar all accept the file if its length
  is the recorded one, whatever its content, and all report tampering if the length differs.
\<close>

theorem worm_sees_only_the_length:
  assumes "worm_wf ac s"
  shows "(worm_verify_immutable (s\<lparr>ws_file := Some edited\<rparr>) = Ok () \<longleftrightarrow>
       length edited = wm_byte_length (ws_state s)) \<and>
     (is_ok (worm_open ac (Some edited) (ws_manifest_file s)) \<longleftrightarrow>
       length edited = wm_byte_length (ws_state s)) \<and>
     (length edited \<noteq> wm_byte_length (ws_state s) \<longrightarrow>
       (\<exists>msg. fst (worm_append_envelope ac e (s\<lparr>ws_file := Some edited\<rparr>)) = Err (AeTampered msg) \<and>
         snd (worm_append_envelope ac e (s\<lparr>ws_file := Some edited\<rparr>)) = s\<lparr>ws_file := Some edited\<rparr>))"
  using assms
  by (auto simp: worm_verify_immutable_def verify_file_length_def worm_open_def worm_wf_def
      worm_append_envelope_def)

theorem worm_sees_only_the_length_witness:
  "\<exists>s. worm_open toy_codec None None = Ok s \<and>
     worm_verify_immutable (s\<lparr>ws_file := Some ''tampered''\<rparr>) \<noteq> Ok ()"
proof -
  obtain s where s: "worm_open toy_codec None None = Ok s" and wf: "worm_wf toy_codec s"
    using worm_wf_open_new by blast
  have "wm_byte_length (ws_state s) = 0"
    using s by (auto simp: worm_open_def verify_file_length_def)
  with worm_sees_only_the_length [OF wf, of "''tampered''"] s show ?thesis by auto
qed

text \<open>
  For each of the three sinks, when every record of a sequence is accepted, the sink's length and
  the log's length both grow by exactly the number of records.
\<close>

theorem sinks_count_records:
  "(memory_sink.run cp ac mlog rs mlog' \<longrightarrow>
      length (al_sink mlog') = length (al_sink mlog) + length rs \<and> log_len mlog' = log_len mlog + length rs) \<and>
   (file_sink.run ac cp ac flog rs flog' \<longrightarrow>
      fsk_count (al_sink flog') = fsk_count (al_sink flog) + length rs \<and> log_len flog' = log_len flog + length rs) \<and>
   (worm_file.run ac cp ac wlog rs wlog' \<longrightarrow>
      worm_len (al_sink wlog') = worm_len (al_sink wlog) + length rs \<and> log_len wlog' = log_len wlog + length rs)"
  using memory_sink.run_counts file_sink.run_counts worm_file.run_counts by blast

theorem sinks_count_records_witness:
  "length (al_sink (snd (log_record plain_provider toy_codec memory_sink.ops sample_record (audit_log_new [])))) = 1"
proof -
  obtain log where rec: "log_record plain_provider toy_codec memory_sink.ops sample_record (audit_log_new []) = (Ok (), log)"
    by (simp add: log_record_def sink_ops_eq memory_sink_ops_def memory_append_record_def make_envelope_def
        audit_log_new_def default_append_envelope_def)
  have "memory_sink.run plain_provider toy_codec (audit_log_new []) [sample_record] log"
    by (rule memory_sink.run.intros(2) [OF rec memory_sink.run.intros(1)])
  with sinks_count_records [of plain_provider toy_codec "audit_log_new []" "[sample_record]" log] rec
  show ?thesis by (simp add: audit_log_new_def)
qed

end
