(* ===== verification/Runtime.thy ===== *)
theory Runtime
  imports Model_Registry
begin

text \<open>
  Crate \<open>mim-runtime\<close>: object identifiers, instances with their properties and associations, the
  instance store, the structural check of the JSON form of an instance and the validator against a
  model registry. The validator walks the ancestors of the class, so it returns an option: \<open>None\<close> is
  a validation that never ends. Numbers of a JSON value are kept as their text.
\<close>

section \<open>JSON values\<close>

datatype json =
    JNull
  | JBool bool
  | JNumber string
  | JString string
  | JArray "json list"
  | JObject "(string \<times> json) list"

fun json_as_str :: "json \<Rightarrow> string option" where
  "json_as_str (JString s) = Some s"
| "json_as_str _ = None"

section \<open>Object identifiers (\<open>oid.rs\<close>)\<close>

datatype object_identifier = ObjectIdentifier string

fun oid_as_str :: "object_identifier \<Rightarrow> string" where
  "oid_as_str (ObjectIdentifier s) = s"

definition object_identifier_new :: "string \<Rightarrow> mim_error + object_identifier" where
  "object_identifier_new value =
     (if trim value = [] then Err (MimValidation ''object identifier must not be empty'')
      else Ok (ObjectIdentifier value))"

definition generate_urn :: "string \<Rightarrow> object_identifier" where
  "generate_urn uuid = ObjectIdentifier (''urn:uuid:'' @ uuid)"

section \<open>Instances (\<open>instance.rs\<close>)\<close>

record property_value =
  pv_name :: string
  pv_semantic_id :: "semantic_id option"
  pv_value :: "json nillable"

definition property_string :: "string \<Rightarrow> string \<Rightarrow> property_value" where
  "property_string n v = \<lparr>pv_name = n, pv_semantic_id = None, pv_value = Value (JString v)\<rparr>"

definition property_json :: "string \<Rightarrow> json \<Rightarrow> property_value" where
  "property_json n v = \<lparr>pv_name = n, pv_semantic_id = None, pv_value = Value v\<rparr>"

definition property_nil :: "string \<Rightarrow> nil_reason \<Rightarrow> property_value" where
  "property_nil n r = \<lparr>pv_name = n, pv_semantic_id = None, pv_value = Nil_Because r\<rparr>"

record mim_instance =
  mi_oid :: object_identifier
  mi_class_name :: string
  mi_class_semantic_id :: semantic_id
  mi_metadata :: metadata
  mi_properties :: "property_value list"
  mi_associations :: "(string, object_identifier list) index_map"

text \<open>The fresh UUID is an argument.\<close>

definition mim_instance_new :: "string \<Rightarrow> string \<Rightarrow> semantic_id \<Rightarrow> mim_instance" where
  "mim_instance_new uuid class_name class_id =
     \<lparr>mi_oid = generate_urn uuid, mi_class_name = class_name, mi_class_semantic_id = class_id,
      mi_metadata = metadata_default, mi_properties = [], mi_associations = []\<rparr>"

definition with_property :: "property_value \<Rightarrow> mim_instance \<Rightarrow> mim_instance" where
  "with_property p i = i\<lparr>mi_properties := mi_properties i @ [p]\<rparr>"

definition instance_property :: "mim_instance \<Rightarrow> string \<Rightarrow> property_value option" where
  "instance_property i n = find (\<lambda>p. pv_name p = n) (mi_properties i)"

definition set_association :: "string \<Rightarrow> object_identifier \<Rightarrow> mim_instance \<Rightarrow> mim_instance" where
  "set_association role target i =
     i\<lparr>mi_associations :=
         im_insert role ((case im_get (mi_associations i) role of Some ts \<Rightarrow> ts | None \<Rightarrow> []) @ [target])
           (mi_associations i)\<rparr>"

record instance_store =
  is_instances :: "(object_identifier, mim_instance) index_map"

definition instance_store_default :: instance_store where
  "instance_store_default = \<lparr>is_instances = []\<rparr>"

definition store_insert :: "mim_instance \<Rightarrow> instance_store \<Rightarrow> object_identifier \<times> instance_store" where
  "store_insert i s = (mi_oid i, s\<lparr>is_instances := im_insert (mi_oid i) i (is_instances s)\<rparr>)"

definition store_get :: "instance_store \<Rightarrow> object_identifier \<Rightarrow> mim_instance option" where
  "store_get s oid = im_get (is_instances s) oid"

definition store_len :: "instance_store \<Rightarrow> nat" where
  "store_len s = length (is_instances s)"

definition store_is_empty :: "instance_store \<Rightarrow> bool" where
  "store_is_empty s \<longleftrightarrow> is_instances s = []"

definition store_instances :: "instance_store \<Rightarrow> mim_instance list" where
  "store_instances s = im_values (is_instances s)"

section \<open>The structural schema (\<open>instance_schema.rs\<close>)\<close>

definition require_string_field :: "(string \<times> json) list \<Rightarrow> string \<Rightarrow> string + unit" where
  "require_string_field obj key =
     (case map_of obj key of
        Some (JString v) \<Rightarrow>
          if v \<noteq> [] then Ok () else Err (''field '' @ quoted key @ '' must be a non-empty string'')
      | Some _ \<Rightarrow> Err (''field '' @ quoted key @ '' must be a non-empty string'')
      | None \<Rightarrow> Err (''missing required field '' @ quoted key))"

fun validate_property_object :: "json \<Rightarrow> string + unit" where
  "validate_property_object (JObject obj) =
     and_then (require_string_field obj ''name'') (\<lambda>_.
       if map_of obj ''value'' = None then Err ''property missing value field'' else Ok ())"
| "validate_property_object _ = Err ''property entry must be an object''"

fun validate_instance_json_schema :: "json \<Rightarrow> string + unit" where
  "validate_instance_json_schema (JObject obj) =
     and_then (require_string_field obj ''oid'') (\<lambda>_.
     and_then (require_string_field obj ''className'') (\<lambda>_.
     and_then (require_string_field obj ''classSemanticId'') (\<lambda>_.
       case map_of obj ''properties'' of
         None \<Rightarrow> Err ''missing properties array''
       | Some (JArray ps) \<Rightarrow> try_each validate_property_object ps
       | Some _ \<Rightarrow> Err ''properties must be an array'')))"
| "validate_instance_json_schema _ = Err ''instance root must be a JSON object''"

text \<open>The JSON form that the derived serialisation gives an instance; that of the metadata is never
  looked at and is an argument.\<close>

fun nillable_json :: "json nillable \<Rightarrow> json" where
  "nillable_json (Value v) = JObject [(''kind'', JString ''value''), (''value'', v)]"
| "nillable_json (Nil_Because r) = JObject [(''kind'', JString ''nil''), (''reason'', JString (nil_reason_as_str r))]"
| "nillable_json Absent = JObject [(''kind'', JString ''absent'')]"

definition property_to_json :: "property_value \<Rightarrow> json" where
  "property_to_json p =
     JObject [(''name'', JString (pv_name p)),
       (''semanticId'', case pv_semantic_id p of Some i \<Rightarrow> JString (semantic_id_as_str i) | None \<Rightarrow> JNull),
       (''value'', nillable_json (pv_value p))]"

definition instance_to_json :: "(metadata \<Rightarrow> json) \<Rightarrow> mim_instance \<Rightarrow> json" where
  "instance_to_json metadata_json i =
     JObject [(''oid'', JString (oid_as_str (mi_oid i))),
       (''className'', JString (mi_class_name i)),
       (''classSemanticId'', JString (semantic_id_as_str (mi_class_semantic_id i))),
       (''metadata'', metadata_json (mi_metadata i)),
       (''properties'', JArray (map property_to_json (mi_properties i))),
       (''associations'', JObject (map (\<lambda>(r, ts). (r, JArray (map (JString \<circ> oid_as_str) ts))) (mi_associations i)))]"

definition validate_serialized_instance :: "mim_instance \<Rightarrow> string + unit" where
  "validate_serialized_instance i = validate_instance_json_schema (instance_to_json (\<lambda>_. JNull) i)"

definition schema_ok :: "mim_instance \<Rightarrow> bool" where
  "schema_ok i \<longleftrightarrow>
     oid_as_str (mi_oid i) \<noteq> [] \<and> mi_class_name i \<noteq> [] \<and> semantic_id_as_str (mi_class_semantic_id i) \<noteq> [] \<and>
     (\<forall>p \<in> set (mi_properties i). pv_name p \<noteq> [])"

lemma validate_serialized_instance_Ok_iff: "validate_serialized_instance i = Ok u \<longleftrightarrow> schema_ok i"
  by (auto simp: validate_serialized_instance_def instance_to_json_def require_string_field_def schema_ok_def
      and_then_Inr_iff try_each_Inr_iff property_to_json_def)

lemma schema_ignores_metadata:
  "validate_instance_json_schema (instance_to_json f i) = validate_serialized_instance i"
  by (simp add: validate_serialized_instance_def instance_to_json_def require_string_field_def)

section \<open>Validation (\<open>validate.rs\<close>)\<close>

datatype validation_severity = SevError | SevWarning

record validation_issue =
  vi_severity :: validation_severity
  vi_instance_oid :: "string option"
  vi_property :: "string option"
  vi_message :: string

type_synonym validation_report = "validation_issue list"

definition is_error :: "validation_issue \<Rightarrow> bool" where
  "is_error i \<longleftrightarrow> vi_severity i = SevError"

definition is_valid :: "validation_report \<Rightarrow> bool" where
  "is_valid r \<longleftrightarrow> \<not> list_ex is_error r"

definition error_count :: "validation_report \<Rightarrow> nat" where
  "error_count r = length (filter is_error r)"

definition push_error :: "string option \<Rightarrow> string option \<Rightarrow> string \<Rightarrow> validation_report \<Rightarrow> validation_report" where
  "push_error oid property message r =
     r @ [\<lparr>vi_severity = SevError, vi_instance_oid = oid, vi_property = property, vi_message = message\<rparr>]"

fun value_as_string :: "json \<Rightarrow> string option" where
  "value_as_string (JString s) = Some s"
| "value_as_string (JObject m) =
     Option.bind (case map_of m ''codeValue'' of Some v \<Rightarrow> Some v | None \<Rightarrow> map_of m ''value'') json_as_str"
| "value_as_string _ = None"

definition validate_property ::
  "model_registry \<Rightarrow> string option \<Rightarrow> property_value \<Rightarrow> validation_report \<Rightarrow> validation_report" where
  "validate_property reg oid p r =
     (case pv_value p of
        Value v \<Rightarrow>
          (case code_list_for_attribute reg (pv_name p) of
             None \<Rightarrow> r
           | Some cl \<Rightarrow>
               (case value_as_string v of
                  None \<Rightarrow> r
                | Some code \<Rightarrow>
                    (case validate_value cl code of
                       Inl message \<Rightarrow> push_error oid (Some (pv_name p)) message r
                     | Inr _ \<Rightarrow> r)))
      | Nil_Because _ \<Rightarrow> r
      | Absent \<Rightarrow> r)"

definition attribute_present :: "mim_instance \<Rightarrow> string \<Rightarrow> bool" where
  "attribute_present i n = (case instance_property i n of Some p \<Rightarrow> pv_value p \<noteq> Absent | None \<Rightarrow> False)"

definition check_attribute ::
  "string option \<Rightarrow> mim_instance \<Rightarrow> string \<Rightarrow> model_element_spec \<Rightarrow> validation_report \<Rightarrow> validation_report" where
  "check_attribute oid i class_name a r =
     (if \<not> me_is_mandatory a then r
      else if \<not> attribute_present i (me_name a) then
        push_error oid (Some (me_name a))
          (''mandatory attribute '' @ quoted (me_name a) @ '' on class '' @ quoted class_name @ '' is absent'') r
      else r)"

definition validate_required_attributes ::
  "model_registry \<Rightarrow> string option \<Rightarrow> mim_instance \<Rightarrow> validation_report \<Rightarrow> validation_report option" where
  "validate_required_attributes reg oid i r =
     map_option (\<lambda>ancestors.
         fold (\<lambda>c. fold (check_attribute oid i c) (attributes_for_class reg c))
           (mi_class_name i # ancestors) r)
       (ancestors_of reg (mi_class_name i))"

definition validate_instance :: "model_registry \<Rightarrow> mim_instance \<Rightarrow> validation_report option" where
  "validate_instance reg i =
     (let oid = Some (oid_as_str (mi_oid i)) in
      if element_by_name reg (mi_class_name i) = None \<and> taxonomy_node_of reg (mi_class_name i) = None then
        Some (push_error oid None (''unknown class '' @ quoted (mi_class_name i)) [])
      else validate_required_attributes reg oid i (fold (validate_property reg oid) (mi_properties i) []))"

text \<open>\<open>validate_store\<close>: the reports of the instances in store order.\<close>

fun validate_all :: "model_registry \<Rightarrow> mim_instance list \<Rightarrow> validation_report option" where
  "validate_all reg [] = Some []"
| "validate_all reg (i # is) =
     Option.bind (validate_instance reg i) (\<lambda>r. map_option (\<lambda>rs. r @ rs) (validate_all reg is))"

definition validate_store :: "model_registry \<Rightarrow> instance_store \<Rightarrow> validation_report option" where
  "validate_store reg s = validate_all reg (store_instances s)"

definition validate_json_instance ::
  "(string \<Rightarrow> string + mim_instance) \<Rightarrow> model_registry \<Rightarrow> string \<Rightarrow> (mim_error + validation_report) option" where
  "validate_json_instance decode reg text =
     (case decode text of
        Inl e \<Rightarrow> Some (Err (MimParse e))
      | Inr i \<Rightarrow> map_option Inr (validate_instance reg i))"

section \<open>What a valid report means\<close>

definition property_ok :: "model_registry \<Rightarrow> property_value \<Rightarrow> bool" where
  "property_ok reg p \<longleftrightarrow>
     (\<forall>v cl code. pv_value p = Value v \<longrightarrow> code_list_for_attribute reg (pv_name p) = Some cl \<longrightarrow>
        value_as_string v = Some code \<longrightarrow> cl_complete cl \<longrightarrow> contains_value cl code)"

definition attribute_ok :: "mim_instance \<Rightarrow> model_element_spec \<Rightarrow> bool" where
  "attribute_ok i a \<longleftrightarrow> (me_is_mandatory a \<longrightarrow> attribute_present i (me_name a))"

definition conforms_instance :: "model_registry \<Rightarrow> mim_instance \<Rightarrow> bool" where
  "conforms_instance reg i \<longleftrightarrow>
     known_class reg (mi_class_name i) \<and>
     (\<forall>p \<in> set (mi_properties i). property_ok reg p) \<and>
     (\<forall>c a. (c = mi_class_name i \<or> (c, mi_class_name i) \<in> (parent_rel reg)\<^sup>+) \<longrightarrow>
        a \<in> set (attributes_for_class reg c) \<longrightarrow> attribute_ok i a)"

lemma is_valid_Nil [simp]: "is_valid []"
  by (simp add: is_valid_def)

lemma is_valid_push_error [simp]: "\<not> is_valid (push_error oid p m r)"
  by (simp add: is_valid_def push_error_def is_error_def)

lemma is_valid_iff_error_count: "is_valid r \<longleftrightarrow> error_count r = 0"
  by (auto simp: is_valid_def error_count_def filter_empty_conv list_ex_iff)

lemma is_valid_validate_property:
  "is_valid (validate_property reg oid p r) \<longleftrightarrow> is_valid r \<and> property_ok reg p"
  by (auto simp: validate_property_def property_ok_def validate_value_def
      split: nillable.splits option.splits)

lemma is_valid_check_attribute:
  "is_valid (check_attribute oid i c a r) \<longleftrightarrow> is_valid r \<and> attribute_ok i a"
  by (auto simp: check_attribute_def attribute_ok_def)

lemma is_valid_fold:
  assumes "\<And>x r. is_valid (f x r) \<longleftrightarrow> is_valid r \<and> P x"
  shows "is_valid (fold f xs r) \<longleftrightarrow> is_valid r \<and> (\<forall>x \<in> set xs. P x)"
  by (induction xs arbitrary: r) (auto simp: assms)

lemma known_class_iff:
  "known_class reg c \<longleftrightarrow> element_by_name reg c \<noteq> None \<or> taxonomy_node_of reg c \<noteq> None"
  by (simp add: known_class_def im_contains_def element_by_name_def taxonomy_node_of_def)

lemma validate_instance_valid:
  assumes "validate_instance reg i = Some r"
  shows "is_valid r \<longleftrightarrow> conforms_instance reg i"
proof (cases "known_class reg (mi_class_name i)")
  case False
  with assms have "r = push_error (Some (oid_as_str (mi_oid i))) None (''unknown class '' @ quoted (mi_class_name i)) []"
    by (simp add: validate_instance_def known_class_iff Let_def)
  with False show ?thesis by (simp add: conforms_instance_def)
next
  case True
  let ?oid = "Some (oid_as_str (mi_oid i))"
  let ?r0 = "fold (validate_property reg ?oid) (mi_properties i) []"
  from True assms obtain ps where ps: "ancestors_of reg (mi_class_name i) = Some ps"
    and r: "r = fold (\<lambda>c. fold (check_attribute ?oid i c) (attributes_for_class reg c)) (mi_class_name i # ps) ?r0"
    by (auto simp: validate_instance_def known_class_iff validate_required_attributes_def Let_def)
  have "is_valid r \<longleftrightarrow> is_valid ?r0 \<and>
      (\<forall>c \<in> set (mi_class_name i # ps). \<forall>a \<in> set (attributes_for_class reg c). attribute_ok i a)"
    unfolding r
    by (rule is_valid_fold) (rule is_valid_fold, rule is_valid_check_attribute)
  also have "is_valid ?r0 \<longleftrightarrow> (\<forall>p \<in> set (mi_properties i). property_ok reg p)"
    using is_valid_fold [of "validate_property reg ?oid" "property_ok reg" "mi_properties i" "[]"]
    by (simp add: is_valid_validate_property)
  finally show ?thesis
    using True ancestors_of_set [OF ps] by (auto simp: conforms_instance_def)
qed

lemma validate_instance_returns:
  "acyclic (parent_rel reg) \<Longrightarrow> \<exists>r. validate_instance reg i = Some r"
  using ancestors_of_returns [of reg "mi_class_name i"]
  by (auto simp: validate_instance_def validate_required_attributes_def Let_def)

text \<open>
  C28: when validation returns, its report has no error exactly when the class is registered, every
  present property with a complete code list carries one of its codes, and every mandatory
  attribute of the class and of each of its transitive parents is present; and on an acyclic
  registry validation always returns.
\<close>

theorem validate_instance_exact:
  "(\<forall>r. validate_instance reg i = Some r \<longrightarrow> (error_count r = 0 \<longleftrightarrow> conforms_instance reg i)) \<and>
   (acyclic (parent_rel reg) \<longrightarrow> validate_instance reg i \<noteq> None)"
  using validate_instance_valid [of reg i] validate_instance_returns [of reg i]
  by (auto simp: is_valid_iff_error_count)

definition sample_instance :: mim_instance where
  "sample_instance = mim_instance_new ''5f0c'' ''Line'' (SemanticId ''class'')"

lemma line_parent_rel: "parent_rel line_registry = {(''Location'', ''Line'')}"
  by (auto simp: parent_rel_def line_registry_def sample_simps add_element_def add_taxonomy_node_def
      empty_registry_def parent_of_def element_by_name_def taxonomy_node_of_def im_get_def
      split: if_splits)

lemma line_acyclic: "acyclic (parent_rel line_registry)"
proof (rule acyclicI_order [where f = "\<lambda>s. length s"])
  fix a b assume "(a, b) \<in> parent_rel line_registry"
  then show "length b < length a" by (simp add: line_parent_rel)
qed

lemma line_attributes: "attributes_for_class line_registry c = []"
  by (simp add: attributes_for_class_def line_registry_def sample_simps add_element_def add_taxonomy_node_def
      empty_registry_def im_values_def)

lemma sample_conforms: "conforms_instance line_registry sample_instance"
  by (simp add: conforms_instance_def sample_instance_def mim_instance_new_def line_attributes known_class_iff)
    (simp add: line_registry_def sample_simps add_element_def add_taxonomy_node_def empty_registry_def
      element_by_name_def im_get_def)

theorem validate_instance_exact_witness:
  "\<exists>r. validate_instance line_registry sample_instance = Some r \<and> error_count r = 0"
  using validate_instance_exact [of line_registry sample_instance] line_acyclic sample_conforms by blast

end
