(* ===== verification/Transport_Filter.thy ===== *)
theory Transport_Filter
  imports Runtime
begin

text \<open>
  Crate \<open>mim-transport\<close>: the errors (\<open>error.rs\<close>) and the filter expressions of GetByFilter
  (\<open>filter.rs\<close>), an XPath subset parsed by slicing the text. \<open>serde_json\<close>'s rendering of a value is an
  argument.
\<close>

section \<open>Errors (\<open>error.rs\<close>)\<close>

datatype transport_error =
    TeInvalidRequest string
  | TeNotFound string
  | TeInactive string
  | TeSerialization string
  | TeValidation string
  | TeForbidden string
  | TeUnsupported string

fun show_transport_error :: "transport_error \<Rightarrow> string" where
  "show_transport_error (TeInvalidRequest s) = ''invalid request: '' @ s"
| "show_transport_error (TeNotFound s) = ''object not found: '' @ s"
| "show_transport_error (TeInactive s) = ''object inactive: '' @ s"
| "show_transport_error (TeSerialization s) = ''serialization error: '' @ s"
| "show_transport_error (TeValidation s) = ''validation error: '' @ s"
| "show_transport_error (TeForbidden s) = ''forbidden: '' @ s"
| "show_transport_error (TeUnsupported s) = ''unsupported operation: '' @ s"

fun mim_error_of_transport :: "transport_error \<Rightarrow> mim_error" where
  "mim_error_of_transport (TeNotFound m) = MimNotFound m"
| "mim_error_of_transport (TeSerialization m) = MimSerialization m"
| "mim_error_of_transport (TeValidation m) = MimValidation m"
| "mim_error_of_transport other = MimValidation (show_transport_error other)"

fun transport_error_of_mim :: "mim_error \<Rightarrow> transport_error" where
  "transport_error_of_mim (MimNotFound m) = TeNotFound m"
| "transport_error_of_mim (MimSerialization m) = TeSerialization m"
| "transport_error_of_mim (MimValidation m) = TeValidation m"
| "transport_error_of_mim other = TeValidation (show_mim_error other)"

section \<open>Filter expressions (\<open>filter.rs\<close>)\<close>

record filter_predicate =
  fp_property_name :: string
  fp_value :: string

record filter_expression =
  fe_class_name :: string
  fe_predicates :: "filter_predicate list"

definition parse_quoted_value :: "string \<Rightarrow> transport_error + string" where
  "parse_quoted_value raw =
     (if raw = [] then Err (TeInvalidRequest ''predicate value must be quoted'')
      else let quote = hd raw in
        if quote \<noteq> CHR 0x27 \<and> quote \<noteq> CHR 0x22 then
          Err (TeInvalidRequest (''predicate value must be quoted: '' @ raw))
        else if length raw < 2 \<or> last raw \<noteq> quote then
          Err (TeInvalidRequest (''unterminated predicate value: '' @ raw))
        else Ok (butlast (tl raw)))"

definition parse_predicate :: "string \<Rightarrow> transport_error + filter_predicate" where
  "parse_predicate text =
     and_then (ok_or (TeInvalidRequest (''malformed filter predicate: '' @ text))
                 (Option.bind (strip_prefix ''['' text) (strip_suffix '']''))) (\<lambda>inner0.
       let inner = trim (trim_start_matches (CHR ''@'') (trim inner0)) in
       and_then (ok_or (TeInvalidRequest (''predicate missing =: '' @ text)) (position (\<lambda>c. c = CHR ''='') inner))
         (\<lambda>eq.
            let name = trim (take eq inner); raw_value = drop eq inner in
            if name = [] then
              Err (TeInvalidRequest (''predicate missing property name: '' @ text))
            else and_then (parse_quoted_value (trim (trim_start_matches (CHR ''='') raw_value)))
              (\<lambda>value. Ok \<lparr>fp_property_name = name, fp_value = value\<rparr>)))"

lemma position_less: "position P xs = Some i \<Longrightarrow> i < length xs"
  using position_SomeD by blast

function parse_predicates ::
  "string \<Rightarrow> string \<Rightarrow> transport_error + filter_predicate list \<times> string" where
  "parse_predicates expression cursor =
     (if starts_with cursor ''['' then
        (case position (\<lambda>c. c = CHR '']'') cursor of
           None \<Rightarrow> Err (TeInvalidRequest (''unclosed predicate in '' @ expression))
         | Some close \<Rightarrow>
             and_then (parse_predicate (take (Suc close) cursor)) (\<lambda>p.
             and_then (parse_predicates expression (drop (Suc close) cursor)) (\<lambda>(ps, rest).
               Ok (p # ps, rest))))
      else Ok ([], cursor))"
  by pat_completeness auto

termination
  by (relation "measure (\<lambda>(_, cursor). length cursor)") (auto dest: position_less)

declare parse_predicates.simps [simp del]

definition parse_filter :: "string \<Rightarrow> transport_error + filter_expression" where
  "parse_filter expression =
     (let trimmed = trim expression in
      if \<not> starts_with trimmed ''//'' then
        Err (TeInvalidRequest (''filter must start with //, got '' @ quoted expression))
      else
        let body = drop 2 trimmed;
            first_bracket = position (\<lambda>c. c = CHR ''['') body;
            class_name = (case first_bracket of Some idx \<Rightarrow> trim (take idx body) | None \<Rightarrow> trim body)
        in if class_name = [] then
             Err (TeInvalidRequest ''filter missing class name after //'')
           else
             let cursor = (case first_bracket of Some idx \<Rightarrow> drop idx body | None \<Rightarrow> [])
             in and_then (parse_predicates expression cursor) (\<lambda>(ps, rest).
                  if trim rest \<noteq> [] then
                    Err (TeInvalidRequest (''unexpected trailing filter text: '' @ quoted rest))
                  else Ok \<lparr>fe_class_name = class_name, fe_predicates = ps\<rparr>))"

definition trim_matches :: "char \<Rightarrow> string \<Rightarrow> string" where
  "trim_matches c s = trim_end_matches c (trim_start_matches c s)"

fun property_value_matches :: "(json \<Rightarrow> string) \<Rightarrow> json \<Rightarrow> string \<Rightarrow> bool" where
  "property_value_matches render (JString text) expected = (text = expected)"
| "property_value_matches render (JNumber number) expected = (number = expected)"
| "property_value_matches render (JBool flag) expected = ((if flag then ''true'' else ''false'') = expected)"
| "property_value_matches render other expected = (trim_matches (CHR 0x22) (render other) = expected)"

definition instance_matches :: "(json \<Rightarrow> string) \<Rightarrow> mim_instance \<Rightarrow> filter_expression \<Rightarrow> bool" where
  "instance_matches render i f \<longleftrightarrow>
     mi_class_name i = fe_class_name f \<and>
     list_all (\<lambda>p.
         case Option.bind (instance_property i (fp_property_name p)) (\<lambda>q. as_option (pv_value q)) of
           Some v \<Rightarrow> property_value_matches render v (fp_value p)
         | None \<Rightarrow> False)
       (fe_predicates f)"

section \<open>Rendering and reading back\<close>

definition show_predicate :: "filter_predicate \<Rightarrow> string" where
  "show_predicate p = ''[@'' @ fp_property_name p @ ''='' @ quoted (fp_value p) @ '']''"

definition show_filter :: "filter_expression \<Rightarrow> string" where
  "show_filter f = ''//'' @ fe_class_name f @ concat (map show_predicate (fe_predicates f))"

definition plain_name :: "string \<Rightarrow> bool" where
  "plain_name n \<longleftrightarrow>
     n \<noteq> [] \<and> \<not> ws_lead (hd n) \<and> \<not> ws_tail (last n) \<and>
     set n \<inter> {CHR ''@'', CHR ''='', CHR ''['', CHR '']''} = {}"

definition plain_predicate :: "filter_predicate \<Rightarrow> bool" where
  "plain_predicate p \<longleftrightarrow> plain_name (fp_property_name p) \<and> CHR '']'' \<notin> set (fp_value p)"

definition plain_filter :: "filter_expression \<Rightarrow> bool" where
  "plain_filter f \<longleftrightarrow> plain_name (fe_class_name f) \<and> (\<forall>p \<in> set (fe_predicates f). plain_predicate p)"

lemma position_at: "(\<forall>c \<in> set xs. c \<noteq> d) \<Longrightarrow> position (\<lambda>c. c = d) (xs @ d # ys) = Some (length xs)"
  by (induction xs) auto

lemma trim_plain_name: "plain_name n \<Longrightarrow> trim n = n"
  by (rule trim_id) (simp add: plain_name_def)

lemma ws_ends [simp]:
  "\<not> ws_tail (CHR 0x27)" "\<not> ws_lead (CHR 0x27)" "\<not> ws_lead (CHR ''@'')" "\<not> ws_tail (CHR '']'')"
  "\<not> ws_lead (CHR ''/'')" "\<not> ws_lead (CHR ''['')"
  by (simp_all add: ws_tail_def ws_lead_def white_space_seqs_def)

lemma parse_quoted: "parse_quoted_value (quoted v) = Ok v"
  by (simp add: parse_quoted_value_def quoted_def Let_def)

lemma trim_quoted: "trim (quoted v) = quoted v"
  by (rule trim_id) (simp add: quoted_def)

lemma parse_show_predicate:
  assumes "plain_predicate p"
  shows "parse_predicate (show_predicate p) = Ok p"
proof -
  let ?n = "fp_property_name p" and ?v = "fp_value p"
  from assms have n: "plain_name ?n" by (simp add: plain_predicate_def)
  then obtain c cs where cs: "?n = c # cs" by (cases ?n) (auto simp: plain_name_def)
  have lead: "c \<noteq> CHR ''@''" "\<not> ws_lead c" using n cs by (auto simp: plain_name_def)
  let ?rest = "?n @ ''='' @ quoted ?v"
  have "Option.bind (strip_prefix ''['' (show_predicate p)) (strip_suffix '']'') = Some (''@'' @ ?rest)"
    using strip_suffix_append [of "'']''" "''@'' @ ?rest"]
    by (simp add: show_predicate_def strip_prefix_def)
  moreover have "trim (''@'' @ ?rest) = ''@'' @ ?rest"
    by (rule trim_id) (simp add: quoted_def)
  moreover have "trim_start_matches (CHR ''@'') (''@'' @ ?rest) = ?rest"
    using lead by (simp add: trim_start_matches_def cs)
  moreover have "trim ?rest = ?rest"
    using lead by (intro trim_id) (simp add: cs quoted_def)
  moreover have "position (\<lambda>c. c = CHR ''='') ?rest = Some (length ?n)"
    using position_at [of ?n "CHR ''=''" "quoted ?v"] n by (auto simp: plain_name_def)
  moreover have "trim_start_matches (CHR ''='') (''='' @ quoted ?v) = quoted ?v"
    by (simp add: trim_start_matches_def quoted_def)
  moreover have "?n \<noteq> []" using cs by simp
  ultimately show ?thesis
    using trim_plain_name [OF n]
    by (simp add: parse_predicate_def Let_def trim_quoted parse_quoted)
qed

lemma parse_show_predicates:
  "\<forall>p \<in> set ps. plain_predicate p \<Longrightarrow> parse_predicates e (concat (map show_predicate ps)) = Ok (ps, [])"
proof (induction ps)
  case Nil
  show ?case by (subst parse_predicates.simps) (simp add: starts_with_def)
next
  case (Cons p ps)
  let ?body = "''[@'' @ fp_property_name p @ ''='' @ quoted (fp_value p)"
  let ?rest = "concat (map show_predicate ps)"
  have nb: "\<forall>c \<in> set ?body. c \<noteq> CHR '']''"
    using Cons.prems by (auto simp: plain_predicate_def plain_name_def quoted_def)
  have cur: "concat (map show_predicate (p # ps)) = ?body @ CHR '']'' # ?rest"
    by (simp add: show_predicate_def)
  have "position (\<lambda>c. c = CHR '']'') (?body @ CHR '']'' # ?rest) = Some (length ?body)"
    by (rule position_at [OF nb])
  moreover have "take (Suc (length ?body)) (?body @ CHR '']'' # ?rest) = show_predicate p"
    by (simp add: show_predicate_def)
  moreover have "drop (Suc (length ?body)) (?body @ CHR '']'' # ?rest) = ?rest" by simp
  moreover have "starts_with (?body @ CHR '']'' # ?rest) ''[''" by (simp add: starts_with_def)
  moreover have "parse_predicate (show_predicate p) = Ok p"
    using Cons.prems by (simp add: parse_show_predicate)
  ultimately show ?case
    unfolding cur using Cons by (subst parse_predicates.simps) simp
qed

text \<open>
  C33: every filter with plain names and with values free of closing brackets is read back exactly
  from its textual form, quotes, blanks and equality signs in a value included; text that does not
  start with two slashes is refused.
\<close>

theorem filter_round_trip:
  "(\<forall>f. plain_filter f \<longrightarrow> parse_filter (show_filter f) = Ok f) \<and>
   (\<forall>s. \<not> starts_with (trim s) ''//'' \<longrightarrow>
      parse_filter s = Err (TeInvalidRequest (''filter must start with //, got '' @ quoted s)))"
proof (intro conjI allI impI)
  fix f assume pf: "plain_filter f"
  let ?c = "fe_class_name f" and ?ps = "concat (map show_predicate (fe_predicates f))"
  have c: "plain_name ?c" using pf by (simp add: plain_filter_def)
  have last_ps: "last ?ps = CHR '']''" if "?ps \<noteq> []"
  proof (cases "fe_predicates f" rule: rev_cases)
    case (snoc qs q)
    then show ?thesis by (simp add: show_predicate_def)
  qed (use that in simp)
  have tr: "trim (show_filter f) = show_filter f"
    using c last_ps
    by (intro trim_id) (auto simp: show_filter_def plain_name_def last_append)
  have nb: "\<forall>d \<in> set ?c. d \<noteq> CHR ''[''" using c by (auto simp: plain_name_def)
  have preds: "parse_predicates e ?ps = Ok (fe_predicates f, [])" for e
    using pf by (intro parse_show_predicates) (simp add: plain_filter_def)
  have sw: "starts_with (show_filter f) ''//''" by (simp add: show_filter_def starts_with_def)
  have body: "drop 2 (show_filter f) = ?c @ ?ps" by (simp add: show_filter_def)
  show "parse_filter (show_filter f) = Ok f"
  proof (cases "fe_predicates f")
    case Nil
    then have "position (\<lambda>d. d = CHR ''['') (?c @ ?ps) = None" using nb by simp
    moreover have "?c \<noteq> []" using c by (simp add: plain_name_def)
    ultimately show ?thesis
      using Nil tr sw body preds trim_plain_name [OF c]
      by (simp add: parse_filter_def Let_def del: position_None_iff)
  next
    case (Cons p ps)
    then obtain rest where rest: "?ps = CHR ''['' # rest" by (simp add: show_predicate_def)
    have "position (\<lambda>d. d = CHR ''['') (?c @ ?ps) = Some (length ?c)"
      unfolding rest by (rule position_at [OF nb])
    moreover have "?c \<noteq> []" using c by (simp add: plain_name_def)
    ultimately show ?thesis
      using tr sw body preds trim_plain_name [OF c] by (simp add: parse_filter_def Let_def)
  qed
next
  fix s assume "\<not> starts_with (trim s) ''//''"
  then show "parse_filter s = Err (TeInvalidRequest (''filter must start with //, got '' @ quoted s))"
    by (simp add: parse_filter_def Let_def)
qed

theorem filter_round_trip_witness:
  "parse_filter (show_filter \<lparr>fe_class_name = ''Target'',
      fe_predicates = [\<lparr>fp_property_name = ''nameText'', fp_value = ''HOSTILE = 1''\<rparr>]\<rparr>) =
    Ok \<lparr>fe_class_name = ''Target'',
      fe_predicates = [\<lparr>fp_property_name = ''nameText'', fp_value = ''HOSTILE = 1''\<rparr>]\<rparr>"
proof -
  have "plain_filter \<lparr>fe_class_name = ''Target'',
      fe_predicates = [\<lparr>fp_property_name = ''nameText'', fp_value = ''HOSTILE = 1''\<rparr>]\<rparr>"
    by (simp add: plain_filter_def plain_predicate_def plain_name_def ws_lead_def ws_tail_def white_space_seqs_def)
  with filter_round_trip show ?thesis by blast
qed

end
