(* ===== verification/Broker.thy ===== *)
theory Broker
  imports Transport_Filter
begin

text \<open>
  Crate \<open>mim-transport\<close>: the messages (\<open>message.rs\<close>) and the in-memory exchange broker (\<open>broker.rs\<close>).
  Requests and responses with a single field are that field. PutObject validates the instance, which
  may not return, so it gives an option; every early return leaves the broker as it is.
\<close>

section \<open>Messages (\<open>message.rs\<close>)\<close>

datatype ies_operation = IesPutObject | IesGetByOid | IesGetByFilter | IesDeleteObject | IesSync

fun show_ies_operation :: "ies_operation \<Rightarrow> string" where
  "show_ies_operation IesPutObject = ''PutObject''"
| "show_ies_operation IesGetByOid = ''GetByOid''"
| "show_ies_operation IesGetByFilter = ''GetByFilter''"
| "show_ies_operation IesDeleteObject = ''DeleteObject''"
| "show_ies_operation IesSync = ''Sync''"

record put_object_response =
  por_oid :: object_identifier
  por_created :: bool

record get_by_filter_request =
  gf_filter :: "string option"
  gf_class_name :: string
  gf_property_name :: "string option"
  gf_property_value :: "string option"
  gf_limit :: "nat option"
  gf_offset :: "nat option"

record get_by_filter_response =
  gr_instances :: "mim_instance list"
  gr_count :: nat
  gr_total :: nat

record delete_object_response =
  dor_oid :: object_identifier
  dor_deleted :: bool

record journal_entry =
  je_sequence :: u64
  je_operation :: ies_operation
  je_oid :: object_identifier

record sync_response =
  sy_latest_sequence :: u64
  sy_entries :: "journal_entry list"

record exchange_envelope =
  ee_operation :: ies_operation
  ee_model_version :: string
  ee_content_type :: string
  ee_payload :: string

definition exchange_envelope_new :: "ies_operation \<Rightarrow> string \<Rightarrow> string \<Rightarrow> exchange_envelope" where
  "exchange_envelope_new op version payload =
     \<lparr>ee_operation = op, ee_model_version = version, ee_content_type = ''application/mim+json'',
      ee_payload = payload\<rparr>"

section \<open>State (\<open>broker.rs\<close>)\<close>

record exchange_broker =
  br_registry :: model_registry
  br_store :: "(object_identifier, mim_instance) index_map"
  br_inactive :: "object_identifier set"
  br_journal :: "journal_entry list"
  br_sequence :: u64
  br_applied_sequence :: u64

definition broker_new :: "model_registry \<Rightarrow> exchange_broker" where
  "broker_new reg =
     \<lparr>br_registry = reg, br_store = [], br_inactive = {}, br_journal = [], br_sequence = 0,
      br_applied_sequence = 0\<rparr>"

definition from_snapshot ::
  "model_registry \<Rightarrow> mim_instance list \<Rightarrow> object_identifier list \<Rightarrow> journal_entry list \<Rightarrow> u64 \<Rightarrow> u64 \<Rightarrow> exchange_broker" where
  "from_snapshot reg instances inactive journal sequence applied =
     \<lparr>br_registry = reg, br_store = im_collect (map (\<lambda>i. (mi_oid i, i)) instances),
      br_inactive = set inactive, br_journal = journal, br_sequence = sequence,
      br_applied_sequence = applied\<rparr>"

definition broker_get :: "exchange_broker \<Rightarrow> object_identifier \<Rightarrow> mim_instance option" where
  "broker_get b oid = im_get (br_store b) oid"

definition broker_contains :: "exchange_broker \<Rightarrow> object_identifier \<Rightarrow> bool" where
  "broker_contains b oid \<longleftrightarrow> im_contains (br_store b) oid"

definition broker_instances :: "exchange_broker \<Rightarrow> mim_instance list" where
  "broker_instances b = im_values (br_store b)"

definition sync_since :: "exchange_broker \<Rightarrow> u64 \<Rightarrow> sync_response" where
  "sync_since b since =
     \<lparr>sy_latest_sequence = br_sequence b,
      sy_entries = filter (\<lambda>e. since < je_sequence e) (br_journal b)\<rparr>"

definition broker_len :: "exchange_broker \<Rightarrow> nat" where
  "broker_len b = length (br_store b)"

definition active_count :: "exchange_broker \<Rightarrow> nat" where
  "active_count b = length (filter (\<lambda>oid. oid \<notin> br_inactive b) (map fst (br_store b)))"

section \<open>Operations\<close>

definition record_journal :: "ies_operation \<Rightarrow> object_identifier \<Rightarrow> exchange_broker \<Rightarrow> exchange_broker" where
  "record_journal op oid b =
     (let s = saturating_inc (br_sequence b) in
      b\<lparr>br_sequence := s,
        br_journal := br_journal b @ [\<lparr>je_sequence = s, je_operation = op, je_oid = oid\<rparr>]\<rparr>)"

definition put_object ::
  "mim_instance \<Rightarrow> exchange_broker \<Rightarrow> (transport_error + put_object_response \<times> exchange_broker) option" where
  "put_object i b =
     (case validate_serialized_instance i of
        Inl e \<Rightarrow> Some (Err (TeValidation e))
      | Inr _ \<Rightarrow>
          map_option (\<lambda>report.
              if \<not> is_valid report then
                Err (TeValidation (show_nat (error_count report) @ '' validation issue(s) on PutObject''))
              else
                let oid = mi_oid i;
                    created = (\<not> im_contains (br_store b) oid);
                    b1 = b\<lparr>br_store := im_insert oid i (br_store b), br_inactive := br_inactive b - {oid}\<rparr>
                in Ok (\<lparr>por_oid = oid, por_created = created\<rparr>, record_journal IesPutObject oid b1))
            (validate_instance (br_registry b) i))"

definition get_by_oid :: "object_identifier \<Rightarrow> exchange_broker \<Rightarrow> transport_error + mim_instance" where
  "get_by_oid oid b =
     (if oid \<in> br_inactive b then Err (TeInactive (oid_as_str oid))
      else ok_or (TeNotFound (oid_as_str oid)) (im_get (br_store b) oid))"

definition paginate_instances :: "mim_instance list \<Rightarrow> nat option \<Rightarrow> nat option \<Rightarrow> mim_instance list" where
  "paginate_instances is offset limit =
     (let sliced = drop (case offset of Some n \<Rightarrow> n | None \<Rightarrow> 0) is in
      case limit of Some n \<Rightarrow> take n sliced | None \<Rightarrow> sliced)"

definition property_criterion :: "get_by_filter_request \<Rightarrow> mim_instance \<Rightarrow> bool" where
  "property_criterion req i =
     (case (gf_property_name req, gf_property_value req) of
        (Some n, Some expected) \<Rightarrow>
          (case Option.bind (Option.bind (instance_property i n) (\<lambda>p. as_option (pv_value p))) json_as_str of
             Some actual \<Rightarrow> actual = expected
           | None \<Rightarrow> False)
      | (Some n, None) \<Rightarrow> instance_property i n \<noteq> None
      | (None, Some _) \<Rightarrow> False
      | (None, None) \<Rightarrow> True)"

definition is_active :: "exchange_broker \<Rightarrow> mim_instance \<Rightarrow> bool" where
  "is_active b i \<longleftrightarrow> mi_oid i \<notin> br_inactive b"

definition filter_response :: "mim_instance list \<Rightarrow> get_by_filter_request \<Rightarrow> get_by_filter_response" where
  "filter_response matches req =
     (let page = paginate_instances matches (gf_offset req) (gf_limit req) in
      \<lparr>gr_instances = page, gr_count = length page, gr_total = length matches\<rparr>)"

definition get_by_filter ::
  "(json \<Rightarrow> string) \<Rightarrow> get_by_filter_request \<Rightarrow> exchange_broker \<Rightarrow> transport_error + get_by_filter_response" where
  "get_by_filter render req b =
     (case gf_filter req of
        Some expression \<Rightarrow>
          and_then (parse_filter expression) (\<lambda>f.
            Ok (filter_response
              (filter (\<lambda>i. instance_matches render i f) (filter (is_active b) (im_values (br_store b)))) req))
      | None \<Rightarrow>
          if trim (gf_class_name req) = [] then
            Err (TeInvalidRequest ''className or filter query parameter is required'')
          else
            Ok (filter_response
              (filter (property_criterion req)
                (filter (is_active b)
                  (filter (\<lambda>i. mi_class_name i = gf_class_name req) (im_values (br_store b))))) req))"

definition delete_object ::
  "object_identifier \<Rightarrow> exchange_broker \<Rightarrow> transport_error + delete_object_response \<times> exchange_broker" where
  "delete_object oid b =
     (if \<not> im_contains (br_store b) oid then Err (TeNotFound (oid_as_str oid))
      else
        let deleted = (oid \<notin> br_inactive b);
            b1 = b\<lparr>br_inactive := insert oid (br_inactive b)\<rparr>
        in Ok (\<lparr>dor_oid = oid, dor_deleted = deleted\<rparr>, record_journal IesDeleteObject oid b1))"

text \<open>Bulk load: the first error stops it, the instances before it stay published.\<close>

fun publish_store ::
  "mim_instance list \<Rightarrow> exchange_broker \<Rightarrow> ((transport_error + put_object_response list) \<times> exchange_broker) option" where
  "publish_store [] b = Some (Ok [], b)"
| "publish_store (i # is) b =
     Option.bind (put_object i b) (\<lambda>res. case res of
         Inl e \<Rightarrow> Some (Err e, b)
       | Inr (r, b1) \<Rightarrow>
           map_option (\<lambda>(rest, b2). (and_then rest (\<lambda>rs. Ok (r # rs)), b2)) (publish_store is b1))"

definition serialize_active_store ::
  "(model_registry \<Rightarrow> instance_store \<Rightarrow> mim_error + string) \<Rightarrow> exchange_broker \<Rightarrow> transport_error + string" where
  "serialize_active_store serialize b =
     map_err transport_error_of_mim
       (serialize (br_registry b)
         (fold (\<lambda>i s. if mi_oid i \<notin> br_inactive b then snd (store_insert i s) else s)
            (im_values (br_store b)) instance_store_default))"

section \<open>Applying journal entries\<close>

definition not_replicable :: "journal_entry \<Rightarrow> transport_error" where
  "not_replicable e =
     TeUnsupported (''journal operation '' @ show_ies_operation (je_operation e) @ '' is not replicable'')"

definition apply_put_entry ::
  "journal_entry \<Rightarrow> mim_instance \<Rightarrow> exchange_broker \<Rightarrow> (transport_error + exchange_broker) option" where
  "apply_put_entry e i b =
     map_option (\<lambda>res. and_then res (\<lambda>(_, b1). Ok (b1\<lparr>br_applied_sequence := je_sequence e\<rparr>))) (put_object i b)"

definition apply_delete_entry ::
  "journal_entry \<Rightarrow> exchange_broker \<Rightarrow> transport_error + exchange_broker" where
  "apply_delete_entry e b =
     and_then (if broker_contains b (je_oid e) then and_then (delete_object (je_oid e) b) (\<lambda>(_, b1). Ok b1)
               else Ok b)
       (\<lambda>b1. Ok (b1\<lparr>br_applied_sequence := je_sequence e\<rparr>))"

definition apply_entry_from ::
  "exchange_broker \<Rightarrow> journal_entry \<Rightarrow> exchange_broker \<Rightarrow> (transport_error + exchange_broker) option" where
  "apply_entry_from publisher e b =
     (case je_operation e of
        IesPutObject \<Rightarrow>
          (case broker_get publisher (je_oid e) of
             None \<Rightarrow> Some (Err (TeNotFound (oid_as_str (je_oid e))))
           | Some i \<Rightarrow> apply_put_entry e i b)
      | IesDeleteObject \<Rightarrow> Some (apply_delete_entry e b)
      | _ \<Rightarrow> Some (Err (not_replicable e)))"

definition apply_remote_entry ::
  "journal_entry \<Rightarrow> mim_instance option \<Rightarrow> exchange_broker \<Rightarrow> (transport_error + exchange_broker) option" where
  "apply_remote_entry e instance_opt b =
     (case je_operation e of
        IesPutObject \<Rightarrow>
          (case instance_opt of
             None \<Rightarrow> Some (Err (TeValidation (''missing instance payload for replicated PutObject '' @
                       oid_as_str (je_oid e))))
           | Some i \<Rightarrow> apply_put_entry e i b)
      | IesDeleteObject \<Rightarrow> Some (apply_delete_entry e b)
      | _ \<Rightarrow> Some (Err (not_replicable e)))"

section \<open>What the operations do\<close>

definition accepts_instance :: "model_registry \<Rightarrow> mim_instance \<Rightarrow> bool" where
  "accepts_instance reg i \<longleftrightarrow> schema_ok i \<and> (\<exists>r. validate_instance reg i = Some r \<and> is_valid r)"

definition put_state :: "mim_instance \<Rightarrow> exchange_broker \<Rightarrow> exchange_broker" where
  "put_state i b =
     record_journal IesPutObject (mi_oid i)
       (b\<lparr>br_store := im_insert (mi_oid i) i (br_store b), br_inactive := br_inactive b - {mi_oid i}\<rparr>)"

definition delete_state :: "object_identifier \<Rightarrow> exchange_broker \<Rightarrow> exchange_broker" where
  "delete_state oid b = record_journal IesDeleteObject oid (b\<lparr>br_inactive := insert oid (br_inactive b)\<rparr>)"

lemma put_object_Ok_iff:
  "put_object i b = Some (Ok (r, b')) \<longleftrightarrow>
     accepts_instance (br_registry b) i \<and>
     r = \<lparr>por_oid = mi_oid i, por_created = (\<not> broker_contains b (mi_oid i))\<rparr> \<and> b' = put_state i b"
  using validate_serialized_instance_Ok_iff [of i]
  by (auto simp: put_object_def accepts_instance_def put_state_def broker_contains_def Let_def
      split: sum.splits if_splits)

lemma delete_object_Ok_iff:
  "delete_object oid b = Ok (r, b') \<longleftrightarrow>
     broker_contains b oid \<and> r = \<lparr>dor_oid = oid, dor_deleted = (oid \<notin> br_inactive b)\<rparr> \<and> b' = delete_state oid b"
  by (auto simp: delete_object_def delete_state_def broker_contains_def Let_def)

lemma put_object_returns: "acyclic (parent_rel (br_registry b)) \<Longrightarrow> put_object i b \<noteq> None"
  using validate_instance_returns [of "br_registry b" i]
  by (auto simp: put_object_def split: sum.splits)

lemma record_journal_simps [simp]:
  "br_registry (record_journal op oid b) = br_registry b"
  "br_store (record_journal op oid b) = br_store b"
  "br_inactive (record_journal op oid b) = br_inactive b"
  "br_applied_sequence (record_journal op oid b) = br_applied_sequence b"
  "br_sequence (record_journal op oid b) = saturating_inc (br_sequence b)"
  "br_journal (record_journal op oid b) = br_journal b @
     [\<lparr>je_sequence = saturating_inc (br_sequence b), je_operation = op, je_oid = oid\<rparr>]"
  by (simp_all add: record_journal_def Let_def)

lemma put_state_simps [simp]:
  "br_registry (put_state i b) = br_registry b"
  "br_store (put_state i b) = im_insert (mi_oid i) i (br_store b)"
  "br_inactive (put_state i b) = br_inactive b - {mi_oid i}"
  "br_applied_sequence (put_state i b) = br_applied_sequence b"
  "br_sequence (put_state i b) = saturating_inc (br_sequence b)"
  "br_journal (put_state i b) = br_journal b @
     [\<lparr>je_sequence = saturating_inc (br_sequence b), je_operation = IesPutObject, je_oid = mi_oid i\<rparr>]"
  by (simp_all add: put_state_def)

lemma delete_state_simps [simp]:
  "br_registry (delete_state oid b) = br_registry b"
  "br_store (delete_state oid b) = br_store b"
  "br_inactive (delete_state oid b) = insert oid (br_inactive b)"
  "br_applied_sequence (delete_state oid b) = br_applied_sequence b"
  "br_sequence (delete_state oid b) = saturating_inc (br_sequence b)"
  "br_journal (delete_state oid b) = br_journal b @
     [\<lparr>je_sequence = saturating_inc (br_sequence b), je_operation = IesDeleteObject, je_oid = oid\<rparr>]"
  by (simp_all add: delete_state_def)

lemma broker_get_put [simp]:
  "broker_get (put_state i b) oid = (if oid = mi_oid i then Some i else broker_get b oid)"
  "broker_contains (put_state i b) oid \<longleftrightarrow> oid = mi_oid i \<or> broker_contains b oid"
  "broker_get (delete_state oid' b) oid = broker_get b oid"
  "broker_contains (delete_state oid' b) oid \<longleftrightarrow> broker_contains b oid"
  by (auto simp: broker_get_def broker_contains_def)

section \<open>The journal explains the state\<close>

definition last_op :: "journal_entry list \<Rightarrow> object_identifier \<Rightarrow> ies_operation option" where
  "last_op j oid = map_option je_operation (find (\<lambda>e. je_oid e = oid) (rev j))"

definition max_seq :: nat where
  "max_seq = 2 ^ 64 - 1"

definition numbered :: "journal_entry list \<Rightarrow> u64 \<Rightarrow> bool" where
  "numbered j n \<longleftrightarrow>
     unat n = min (length j) max_seq \<and>
     (\<forall>k < length j. unat (je_sequence (j ! k)) = min (Suc k) max_seq)"

definition deletes_known :: "journal_entry list \<Rightarrow> bool" where
  "deletes_known j \<longleftrightarrow>
     (\<forall>k < length j. je_operation (j ! k) = IesDeleteObject \<longrightarrow> (\<exists>m < k. je_oid (j ! m) = je_oid (j ! k)))"

definition broker_wf :: "exchange_broker \<Rightarrow> bool" where
  "broker_wf b \<longleftrightarrow>
     keyed_by mi_oid (br_store b) \<and> numbered (br_journal b) (br_sequence b) \<and>
     deletes_known (br_journal b) \<and>
     (\<forall>e \<in> set (br_journal b). je_operation e \<in> {IesPutObject, IesDeleteObject}) \<and>
     (\<forall>oid. broker_contains b oid \<longleftrightarrow> last_op (br_journal b) oid \<noteq> None) \<and>
     (\<forall>oid. oid \<in> br_inactive b \<longleftrightarrow> last_op (br_journal b) oid = Some IesDeleteObject) \<and>
     (\<forall>i \<in> set (im_values (br_store b)). accepts_instance (br_registry b) i)"

lemma last_op_Nil [simp]: "last_op [] oid = None"
  by (simp add: last_op_def)

lemma last_op_snoc [simp]:
  "last_op (j @ [e]) oid = (if je_oid e = oid then Some (je_operation e) else last_op j oid)"
  by (simp add: last_op_def)

lemma last_op_None_iff: "last_op j oid = None \<longleftrightarrow> oid \<notin> je_oid ` set j"
  by (auto simp: last_op_def find_eq_None_iff)

lemma numbered_snoc:
  assumes "numbered j n"
  shows "numbered (j @ [\<lparr>je_sequence = saturating_inc n, je_operation = op, je_oid = oid\<rparr>]) (saturating_inc n)"
  using assms
  by (auto simp: numbered_def unat_saturating_inc max_seq_def nth_append less_Suc_eq)

lemma deletes_known_snoc:
  assumes "deletes_known j" and "je_operation e = IesDeleteObject \<longrightarrow> je_oid e \<in> je_oid ` set j"
  shows "deletes_known (j @ [e])"
  unfolding deletes_known_def
proof (intro allI impI)
  fix k assume k: "k < length (j @ [e])" and del: "je_operation ((j @ [e]) ! k) = IesDeleteObject"
  show "\<exists>m < k. je_oid ((j @ [e]) ! m) = je_oid ((j @ [e]) ! k)"
  proof (cases "k < length j")
    case True
    with del have "je_operation (j ! k) = IesDeleteObject" by (simp add: nth_append)
    with assms(1) True obtain m where m: "m < k" "je_oid (j ! m) = je_oid (j ! k)"
      unfolding deletes_known_def by blast
    with True show ?thesis by (intro exI [of _ m]) (simp add: nth_append)
  next
    case False
    with k have k: "k = length j" by simp
    with del assms(2) obtain f where "f \<in> set j" and "je_oid f = je_oid e" by auto
    then obtain m where "m < length j" and "je_oid (j ! m) = je_oid e" by (metis in_set_conv_nth)
    with k show ?thesis by (intro exI [of _ m]) (simp add: nth_append)
  qed
qed

lemma broker_wf_new: "broker_wf (broker_new reg)"
  by (simp add: broker_wf_def broker_new_def keyed_by_Nil numbered_def deletes_known_def broker_contains_def
      im_contains_def im_values_def)

lemma broker_wf_put:
  assumes "broker_wf b" and "accepts_instance (br_registry b) i"
  shows "broker_wf (put_state i b)"
  using assms im_values_insert_subset [of "mi_oid i" i "br_store b"]
  by (auto simp: broker_wf_def keyed_by_insert numbered_snoc intro!: deletes_known_snoc)

lemma broker_wf_delete:
  assumes "broker_wf b" and "broker_contains b oid"
  shows "broker_wf (delete_state oid b)"
proof -
  have "oid \<in> je_oid ` set (br_journal b)"
    using assms last_op_None_iff [of "br_journal b" oid] by (auto simp: broker_wf_def)
  then have "deletes_known (br_journal b @ [\<lparr>je_sequence = saturating_inc (br_sequence b),
      je_operation = IesDeleteObject, je_oid = oid\<rparr>])"
    using assms(1) by (intro deletes_known_snoc) (simp_all add: broker_wf_def)
  with assms show ?thesis by (auto simp: broker_wf_def numbered_snoc)
qed

lemma broker_wf_applied: "broker_wf (b\<lparr>br_applied_sequence := n\<rparr>) \<longleftrightarrow> broker_wf b"
  by (simp add: broker_wf_def broker_contains_def)

lemma broker_wf_put_object: "broker_wf b \<Longrightarrow> put_object i b = Some (Ok (r, b')) \<Longrightarrow> broker_wf b'"
  by (auto simp: put_object_Ok_iff broker_wf_put)

lemma broker_wf_delete_object: "broker_wf b \<Longrightarrow> delete_object oid b = Ok (r, b') \<Longrightarrow> broker_wf b'"
  by (auto simp: delete_object_Ok_iff broker_wf_delete)

lemma apply_put_entry_Ok_iff:
  "apply_put_entry e i b = Some (Ok b') \<longleftrightarrow>
     accepts_instance (br_registry b) i \<and> b' = (put_state i b)\<lparr>br_applied_sequence := je_sequence e\<rparr>"
proof -
  have "apply_put_entry e i b = Some (Ok b') \<longleftrightarrow>
      (\<exists>r b1. put_object i b = Some (Ok (r, b1)) \<and> b' = b1\<lparr>br_applied_sequence := je_sequence e\<rparr>)"
    by (auto simp: apply_put_entry_def and_then_Inr_iff)
  then show ?thesis by (auto simp: put_object_Ok_iff)
qed

lemma apply_delete_entry_eq:
  "apply_delete_entry e b =
     Ok ((if broker_contains b (je_oid e) then delete_state (je_oid e) b else b)\<lparr>br_applied_sequence := je_sequence e\<rparr>)"
proof (cases "broker_contains b (je_oid e)")
  case True
  then have "delete_object (je_oid e) b =
      Ok (\<lparr>dor_oid = je_oid e, dor_deleted = (je_oid e \<notin> br_inactive b)\<rparr>, delete_state (je_oid e) b)"
    by (simp add: delete_object_Ok_iff)
  with True show ?thesis by (simp add: apply_delete_entry_def)
qed (simp add: apply_delete_entry_def)

lemma broker_wf_apply_entry:
  assumes "broker_wf b" and "apply_entry_from p e b = Some (Ok b')"
  shows "broker_wf b'"
  using assms
  by (auto simp: apply_entry_from_def apply_put_entry_Ok_iff apply_delete_entry_eq broker_wf_applied
      broker_wf_put broker_wf_delete split: ies_operation.splits option.splits)

lemma broker_wf_apply_remote:
  assumes "broker_wf b" and "apply_remote_entry e io b = Some (Ok b')"
  shows "broker_wf b'"
  using assms
  by (auto simp: apply_remote_entry_def apply_put_entry_Ok_iff apply_delete_entry_eq broker_wf_applied
      broker_wf_put broker_wf_delete split: ies_operation.splits option.splits)

section \<open>Reachable brokers\<close>

inductive reachable :: "model_registry \<Rightarrow> exchange_broker \<Rightarrow> bool" for reg where
  reach_new: "reachable reg (broker_new reg)"
| reach_put: "reachable reg b \<Longrightarrow> put_object i b = Some (Ok (r, b')) \<Longrightarrow> reachable reg b'"
| reach_delete: "reachable reg b \<Longrightarrow> delete_object oid b = Ok (dr, b') \<Longrightarrow> reachable reg b'"
| reach_apply: "reachable reg b \<Longrightarrow> apply_entry_from publisher e b = Some (Ok b') \<Longrightarrow> reachable reg b'"
| reach_remote: "reachable reg b \<Longrightarrow> apply_remote_entry e io b = Some (Ok b') \<Longrightarrow> reachable reg b'"

lemma reachable_wf: "reachable reg b \<Longrightarrow> broker_wf b"
  by (induction rule: reachable.induct)
    (auto intro: broker_wf_new broker_wf_put_object broker_wf_delete_object broker_wf_apply_entry
      broker_wf_apply_remote)

lemma get_by_oid_Ok_iff:
  "get_by_oid oid b = Ok i \<longleftrightarrow> oid \<notin> br_inactive b \<and> broker_get b oid = Some i"
  by (simp add: get_by_oid_def broker_get_def)

lemma numbered_sequences:
  assumes "numbered j n" and "length j < 2 ^ 64"
  shows "map (unat \<circ> je_sequence) j = [1..<Suc (length j)]" and "unat n = length j"
proof -
  show "unat n = length j" using assms by (simp add: numbered_def max_seq_def)
  show "map (unat \<circ> je_sequence) j = [1..<Suc (length j)]"
    using assms by (intro nth_equalityI) (auto simp: numbered_def max_seq_def simp del: upt_Suc)
qed

lemma broker_wf_readable:
  assumes "broker_wf b"
  shows "is_ok (get_by_oid oid b) \<longleftrightarrow> last_op (br_journal b) oid = Some IesPutObject"
proof -
  have "op = IesPutObject \<or> op = IesDeleteObject" if "last_op (br_journal b) oid = Some op" for op
    using that assms by (auto simp: last_op_def broker_wf_def dest!: find_SomeD)
  with assms show ?thesis
    by (auto simp: broker_wf_def is_ok_iff get_by_oid_Ok_iff broker_get_def broker_contains_def im_contains_def)
qed

text \<open>
  C12: in every reachable broker the journal explains the state: an object is stored exactly when the
  journal mentions it and inactive exactly when its last entry is a delete; it can be read exactly
  when its last entry is a put; and while fewer than 2^64 operations were recorded the entries are
  numbered 1, 2, 3, and so on up to the broker's sequence.
\<close>

theorem journal_explains_broker:
  assumes "reachable reg b"
  shows "(broker_contains b oid \<longleftrightarrow> oid \<in> je_oid ` set (br_journal b)) \<and>
     (oid \<in> br_inactive b \<longleftrightarrow> last_op (br_journal b) oid = Some IesDeleteObject) \<and>
     (is_ok (get_by_oid oid b) \<longleftrightarrow> last_op (br_journal b) oid = Some IesPutObject) \<and>
     (length (br_journal b) < 2 ^ 64 \<longrightarrow>
        map (unat \<circ> je_sequence) (br_journal b) = [1..<Suc (length (br_journal b))] \<and>
        unat (br_sequence b) = length (br_journal b))"
proof -
  have wf: "broker_wf b" by (rule reachable_wf [OF assms])
  then have cont: "broker_contains b oid \<longleftrightarrow> last_op (br_journal b) oid \<noteq> None"
    and inact: "oid \<in> br_inactive b \<longleftrightarrow> last_op (br_journal b) oid = Some IesDeleteObject"
    and num: "numbered (br_journal b) (br_sequence b)"
    by (simp_all add: broker_wf_def)
  with cont inact last_op_None_iff [of "br_journal b" oid] numbered_sequences [OF num] broker_wf_readable [OF wf]
  show ?thesis by auto
qed

lemma sample_accepted: "accepts_instance line_registry sample_instance"
proof -
  obtain r where r: "validate_instance line_registry sample_instance = Some r"
    using validate_instance_returns [OF line_acyclic] by blast
  moreover have "is_valid r" using validate_instance_valid [OF r] sample_conforms by simp
  moreover have "schema_ok sample_instance"
    by (simp add: schema_ok_def sample_instance_def mim_instance_new_def generate_urn_def)
  ultimately show ?thesis by (auto simp: accepts_instance_def)
qed

lemma sample_put: "\<exists>r. put_object sample_instance (broker_new line_registry) =
    Some (Ok (r, put_state sample_instance (broker_new line_registry)))"
  using sample_accepted by (simp add: put_object_Ok_iff) (simp add: broker_new_def)

theorem journal_explains_broker_witness:
  "is_ok (get_by_oid (mi_oid sample_instance) (put_state sample_instance (broker_new line_registry)))"
proof -
  obtain r where "put_object sample_instance (broker_new line_registry) =
      Some (Ok (r, put_state sample_instance (broker_new line_registry)))"
    using sample_put by blast
  from journal_explains_broker [OF reach_put [OF reach_new this], of "mi_oid sample_instance"]
  show ?thesis by (simp add: broker_new_def last_op_def)
qed

text \<open>
  The life of an object: after an accepted PutObject it is read back as it was put and every
  other object is as before; a delete then hides it without removing it, a second delete reports
  that nothing was deleted, and putting it again makes it readable again as an update.
\<close>

theorem put_delete_put_lifecycle:
  assumes "put_object i b = Some (Ok (r, b1))"
  shows "get_by_oid (mi_oid i) b1 = Ok i \<and>
     (\<forall>oid. oid \<noteq> mi_oid i \<longrightarrow> get_by_oid oid b1 = get_by_oid oid b) \<and>
     (\<exists>b2 b3 b4. delete_object (mi_oid i) b1 = Ok (\<lparr>dor_oid = mi_oid i, dor_deleted = True\<rparr>, b2) \<and>
        get_by_oid (mi_oid i) b2 = Err (TeInactive (oid_as_str (mi_oid i))) \<and> broker_get b2 (mi_oid i) = Some i \<and>
        delete_object (mi_oid i) b2 = Ok (\<lparr>dor_oid = mi_oid i, dor_deleted = False\<rparr>, b3) \<and>
        put_object i b3 = Some (Ok (\<lparr>por_oid = mi_oid i, por_created = False\<rparr>, b4)) \<and>
        get_by_oid (mi_oid i) b4 = Ok i)"
proof -
  from assms have ok: "accepts_instance (br_registry b) i" and b1: "b1 = put_state i b"
    by (simp_all add: put_object_Ok_iff)
  let ?b2 = "delete_state (mi_oid i) b1"
  let ?b3 = "delete_state (mi_oid i) ?b2"
  have "get_by_oid oid b1 = get_by_oid oid b" if "oid \<noteq> mi_oid i" for oid
    using that by (simp add: get_by_oid_def b1)
  moreover have "delete_object (mi_oid i) b1 = Ok (\<lparr>dor_oid = mi_oid i, dor_deleted = True\<rparr>, ?b2)"
    by (simp add: delete_object_Ok_iff b1)
  moreover have "delete_object (mi_oid i) ?b2 = Ok (\<lparr>dor_oid = mi_oid i, dor_deleted = False\<rparr>, ?b3)"
    by (simp add: delete_object_Ok_iff b1)
  moreover have "put_object i ?b3 = Some (Ok (\<lparr>por_oid = mi_oid i, por_created = False\<rparr>, put_state i ?b3))"
    using ok by (simp add: put_object_Ok_iff b1)
  moreover have "get_by_oid (mi_oid i) ?b2 = Err (TeInactive (oid_as_str (mi_oid i)))"
    by (simp add: get_by_oid_def)
  moreover have "get_by_oid (mi_oid i) b1 = Ok i" "get_by_oid (mi_oid i) (put_state i ?b3) = Ok i"
    "broker_get ?b2 (mi_oid i) = Some i"
    by (simp_all add: get_by_oid_Ok_iff b1)
  ultimately show ?thesis by blast
qed

theorem put_delete_put_lifecycle_witness:
  "get_by_oid (mi_oid sample_instance) (put_state sample_instance (broker_new line_registry)) = Ok sample_instance"
proof -
  obtain r where "put_object sample_instance (broker_new line_registry) =
      Some (Ok (r, put_state sample_instance (broker_new line_registry)))"
    using sample_put by blast
  from put_delete_put_lifecycle [OF this] show ?thesis by blast
qed

section \<open>Queries\<close>

lemma paginate_eq:
  "paginate_instances is off lim =
     (case lim of Some n \<Rightarrow> take n (drop (case off of Some k \<Rightarrow> k | None \<Rightarrow> 0) is)
      | None \<Rightarrow> drop (case off of Some k \<Rightarrow> k | None \<Rightarrow> 0) is)"
  by (simp add: paginate_instances_def Let_def split: option.split)

lemma pages_concat:
  "concat (map (\<lambda>k. paginate_instances is (Some (k * n)) (Some n)) [0..<m]) = take (m * n) is"
proof (induction m)
  case (Suc m)
  have "take (m * n) is @ take n (drop (m * n) is) = take (m * n + n) is" by (rule take_add [symmetric])
  with Suc show ?case by (simp add: paginate_eq add.commute)
qed simp

definition query_matches :: "(json \<Rightarrow> string) \<Rightarrow> get_by_filter_request \<Rightarrow> mim_instance \<Rightarrow> bool" where
  "query_matches render req i \<longleftrightarrow>
     (case gf_filter req of
        Some expression \<Rightarrow> (case parse_filter expression of Inr f \<Rightarrow> instance_matches render i f | Inl _ \<Rightarrow> False)
      | None \<Rightarrow> mi_class_name i = gf_class_name req \<and> property_criterion req i)"

definition query_result :: "(json \<Rightarrow> string) \<Rightarrow> get_by_filter_request \<Rightarrow> exchange_broker \<Rightarrow> mim_instance list" where
  "query_result render req b = filter (\<lambda>i. is_active b i \<and> query_matches render req i) (broker_instances b)"

lemma query_matches_page:
  "query_matches render (req\<lparr>gf_offset := off, gf_limit := lim\<rparr>) = query_matches render req"
  by (rule ext) (simp add: query_matches_def property_criterion_def split: option.split)

lemma get_by_filter_Ok:
  "get_by_filter render req b = Ok resp \<Longrightarrow> resp = filter_response (query_result render req b) req"
  by (auto simp: get_by_filter_def query_result_def query_matches_def broker_instances_def and_then_Inr_iff
      conj_commute conj_left_commute split: option.splits if_splits)

lemma get_by_filter_page:
  "is_ok (get_by_filter render (req\<lparr>gf_offset := off, gf_limit := lim\<rparr>) b) \<longleftrightarrow> is_ok (get_by_filter render req b)"
  by (auto simp: get_by_filter_def is_ok_iff and_then_Inr_iff split: option.split)

text \<open>
  GetByFilter answers with the active instances that match, in store order: the total is their
  number whatever the page, a page of size n at offset k n holds the k-th n of them, and the pages
  of a broker that does not change cover the matching instances without gap or overlap.
\<close>

theorem get_by_filter_pages:
  assumes "is_ok (get_by_filter render req b)"
  shows "\<exists>page. (\<forall>k. get_by_filter render (req\<lparr>gf_offset := Some (k * n), gf_limit := Some n\<rparr>) b = Ok (page k) \<and>
        gr_total (page k) = length (query_result render req b) \<and>
        gr_count (page k) = length (gr_instances (page k)) \<and> gr_count (page k) \<le> n) \<and>
     (\<forall>m. concat (map (\<lambda>k. gr_instances (page k)) [0..<m]) = take (m * n) (query_result render req b))"
proof -
  let ?req = "\<lambda>k. req\<lparr>gf_offset := Some (k * n), gf_limit := Some n\<rparr>"
  let ?all = "query_result render req b"
  let ?page = "\<lambda>k. filter_response ?all (?req k)"
  have same: "query_result render (?req k) b = ?all" for k
    by (simp add: query_result_def query_matches_page)
  have ok: "get_by_filter render (?req k) b = Ok (?page k)" for k
  proof -
    obtain resp where resp: "get_by_filter render (?req k) b = Ok resp"
      using iffD2 [OF get_by_filter_page assms, of "Some n" "Some (k * n)"] unfolding is_ok_iff by blast
    from get_by_filter_Ok [OF this] resp same show ?thesis by simp
  qed
  have page: "gr_instances (?page k) = paginate_instances ?all (Some (k * n)) (Some n)" for k
    by (simp add: filter_response_def Let_def)
  have size: "gr_count (?page k) = length (gr_instances (?page k)) \<and> length (gr_instances (?page k)) \<le> n" for k
    by (simp add: filter_response_def Let_def paginate_eq)
  have total: "gr_total (?page k) = length ?all" for k
    by (simp add: filter_response_def Let_def)
  show ?thesis
  proof (intro exI [of _ ?page] conjI allI)
    show "concat (map (\<lambda>k. gr_instances (?page k)) [0..<m]) = take (m * n) ?all" for m
      unfolding page by (rule pages_concat)
    show "gr_count (?page k) \<le> n" for k using size [of k] by linarith
  qed (use ok total size in blast)+
qed

definition line_query :: get_by_filter_request where
  "line_query = \<lparr>gf_filter = None, gf_class_name = ''Line'', gf_property_name = None, gf_property_value = None,
     gf_limit = None, gf_offset = None\<rparr>"

theorem get_by_filter_pages_witness:
  "\<exists>resp. get_by_filter (\<lambda>_. []) (line_query\<lparr>gf_offset := Some 0, gf_limit := Some 5\<rparr>)
       (put_state sample_instance (broker_new line_registry)) = Ok resp \<and> gr_total resp = 1"
proof -
  let ?b = "put_state sample_instance (broker_new line_registry)"
  have "trim ''Line'' = ''Line''"
    by (rule trim_id) (simp add: ws_lead_def ws_tail_def white_space_seqs_def)
  then have ok: "is_ok (get_by_filter (\<lambda>_. []) line_query ?b)"
    by (simp add: get_by_filter_def line_query_def)
  have "query_result (\<lambda>_. []) line_query ?b = [sample_instance]"
    by (simp add: query_result_def broker_instances_def broker_new_def im_values_def query_matches_def
        line_query_def property_criterion_def is_active_def)
      (simp add: sample_instance_def mim_instance_new_def)
  with get_by_filter_pages [OF ok, of 5] show ?thesis
    by (metis length_Cons list.size(3) mult_is_0 One_nat_def)
qed

end
