(* ===== verification/Secured_Broker.thy ===== *)
theory Secured_Broker
  imports Policy_Enforcement Broker
begin

text \<open>
  Crate \<open>mim-transport\<close>, \<open>secured.rs\<close>: the broker behind the policy enforcement point. Every
  operation may append to the audit log of the enforcement point, so every operation, reads
  included, returns the new state with its result. \<open>stamps k\<close> is the stamp of the \<open>k\<close>-th record an
  operation writes.
\<close>

record 's secured_broker =
  sb_inner :: exchange_broker
  sb_pep :: "'s enforcement_point"
  sb_subject :: subject_attributes
  sb_domain :: security_domain

definition secured_new ::
  "exchange_broker \<Rightarrow> 's enforcement_point \<Rightarrow> subject_attributes \<Rightarrow> security_domain \<Rightarrow> 's secured_broker" where
  "secured_new inner pep subject d = \<lparr>sb_inner = inner, sb_pep = pep, sb_subject = subject, sb_domain = d\<rparr>"

definition secured_from_preset ::
  "exchange_broker \<Rightarrow> subject_attributes \<Rightarrow> domain_id \<Rightarrow> transport_error + 's secured_broker" where
  "secured_from_preset inner subject i =
     (let pep = pep_new preset_high_to_low in
      and_then (ok_or (TeValidation (''unknown security domain '' @ quoted i)) (store_domain (ep_store pep) i))
        (\<lambda>d. Ok (secured_new inner pep subject d)))"

definition with_subject :: "subject_attributes \<Rightarrow> 's secured_broker \<Rightarrow> 's secured_broker" where
  "with_subject subject s = s\<lparr>sb_subject := subject\<rparr>"

definition secured_with_audit :: "'s audit_log \<Rightarrow> 's secured_broker \<Rightarrow> 's secured_broker" where
  "secured_with_audit log s = s\<lparr>sb_pep := with_audit log (sb_pep s)\<rparr>"

fun map_policy_error :: "policy_error \<Rightarrow> transport_error" where
  "map_policy_error (PeDenied m) = TeForbidden m"
| "map_policy_error (PeValidation m) = TeValidation m"
| "map_policy_error (PeNotFound m) = TeNotFound m"
| "map_policy_error (PeInvalid m) = TeInvalidRequest m"
| "map_policy_error (PeSerialization m) = TeSerialization m"

definition instance_label :: "mim_instance \<Rightarrow> transport_error + conf_label" where
  "instance_label i = map_err map_policy_error (label_from_security (md_security (mi_metadata i)))"

text \<open>\<open>instance_label(i)?\<close> followed by \<open>pep.enforce_access(..).map_err(map_policy_error)\<close>.\<close>

definition authorize ::
  "'s audit_env \<Rightarrow> stamp \<Rightarrow> subject_attributes \<Rightarrow> access_operation \<Rightarrow> mim_instance \<Rightarrow> 's secured_broker \<Rightarrow>
     (transport_error + policy_decision) \<times> 's secured_broker" where
  "authorize env st subject op i s =
     (case instance_label i of
        Inl e \<Rightarrow> (Err e, s)
      | Inr l \<Rightarrow>
          (let (res, pep) = pep_enforce_access env st subject l op (sb_domain s) (sb_pep s)
           in (map_err map_policy_error res, s\<lparr>sb_pep := pep\<rparr>)))"

definition put_object_as ::
  "'s audit_env \<Rightarrow> stamp \<Rightarrow> subject_attributes \<Rightarrow> mim_instance \<Rightarrow> 's secured_broker \<Rightarrow>
     ((transport_error + put_object_response) \<times> 's secured_broker) option" where
  "put_object_as env st subject i s =
     (case authorize env st subject OpWrite i s of
        (Inl e, s1) \<Rightarrow> Some (Err e, s1)
      | (Inr _, s1) \<Rightarrow>
          map_option (\<lambda>res. case res of
              Inl e \<Rightarrow> (Err e, s1)
            | Inr (r, b) \<Rightarrow> (Ok r, s1\<lparr>sb_inner := b\<rparr>)) (put_object i (sb_inner s1)))"

definition secured_put_object ::
  "'s audit_env \<Rightarrow> stamp \<Rightarrow> mim_instance \<Rightarrow> 's secured_broker \<Rightarrow>
     ((transport_error + put_object_response) \<times> 's secured_broker) option" where
  "secured_put_object env st i s = put_object_as env st (sb_subject s) i s"

definition get_by_oid_as ::
  "'s audit_env \<Rightarrow> stamp \<Rightarrow> subject_attributes \<Rightarrow> object_identifier \<Rightarrow> 's secured_broker \<Rightarrow>
     (transport_error + mim_instance) \<times> 's secured_broker" where
  "get_by_oid_as env st subject oid s =
     (case get_by_oid oid (sb_inner s) of
        Inl e \<Rightarrow> (Err e, s)
      | Inr i \<Rightarrow>
          (case authorize env st subject OpRead i s of
             (Inl e, s1) \<Rightarrow> (Err e, s1)
           | (Inr _, s1) \<Rightarrow> (Ok i, s1)))"

text \<open>The loop of \<open>get_by_filter_as\<close>: an instance without a label stops it with an error, an instance
  the enforcement point refuses for any reason is left out.\<close>

fun permitted_instances ::
  "'s audit_env \<Rightarrow> (nat \<Rightarrow> stamp) \<Rightarrow> subject_attributes \<Rightarrow> mim_instance list \<Rightarrow> 's secured_broker \<Rightarrow>
     (transport_error + mim_instance list) \<times> 's secured_broker" where
  "permitted_instances env stamps subject [] s = (Ok [], s)"
| "permitted_instances env stamps subject (i # is) s =
     (case instance_label i of
        Inl e \<Rightarrow> (Err e, s)
      | Inr _ \<Rightarrow>
          (let (res, s1) = authorize env (stamps 0) subject OpRead i s;
               (rest, s2) = permitted_instances env (\<lambda>k. stamps (Suc k)) subject is s1
           in (and_then rest (\<lambda>js. Ok (if is_ok res then i # js else js)), s2)))"

definition get_by_filter_as ::
  "'s audit_env \<Rightarrow> (nat \<Rightarrow> stamp) \<Rightarrow> subject_attributes \<Rightarrow> (json \<Rightarrow> string) \<Rightarrow> get_by_filter_request \<Rightarrow>
     's secured_broker \<Rightarrow> (transport_error + get_by_filter_response) \<times> 's secured_broker" where
  "get_by_filter_as env stamps subject render req s =
     (case get_by_filter render req (sb_inner s) of
        Inl e \<Rightarrow> (Err e, s)
      | Inr resp \<Rightarrow>
          (let (res, s1) = permitted_instances env stamps subject (gr_instances resp) s in
           (and_then res (\<lambda>permitted.
              Ok \<lparr>gr_instances = permitted, gr_count = length permitted, gr_total = gr_total resp\<rparr>), s1)))"

definition delete_object_as ::
  "'s audit_env \<Rightarrow> stamp \<Rightarrow> subject_attributes \<Rightarrow> object_identifier \<Rightarrow> 's secured_broker \<Rightarrow>
     (transport_error + delete_object_response) \<times> 's secured_broker" where
  "delete_object_as env st subject oid s =
     (case get_by_oid oid (sb_inner s) of
        Inl e \<Rightarrow> (Err e, s)
      | Inr i \<Rightarrow>
          (case authorize env st subject OpDelete i s of
             (Inl e, s1) \<Rightarrow> (Err e, s1)
           | (Inr _, s1) \<Rightarrow>
               (case delete_object oid (sb_inner s1) of
                  Inl e \<Rightarrow> (Err e, s1)
                | Inr (r, b) \<Rightarrow> (Ok r, s1\<lparr>sb_inner := b\<rparr>))))"

fun visible_entries ::
  "'s audit_env \<Rightarrow> (nat \<Rightarrow> stamp) \<Rightarrow> subject_attributes \<Rightarrow> journal_entry list \<Rightarrow> 's secured_broker \<Rightarrow>
     journal_entry list \<times> 's secured_broker" where
  "visible_entries env stamps subject [] s = ([], s)"
| "visible_entries env stamps subject (e # es) s =
     (if je_operation e = IesDeleteObject then
        (let (rest, s2) = visible_entries env (\<lambda>k. stamps (Suc k)) subject es s in (e # rest, s2))
      else
        (let (res, s1) = get_by_oid_as env (stamps 0) subject (je_oid e) s;
             (rest, s2) = visible_entries env (\<lambda>k. stamps (Suc k)) subject es s1
         in (if is_ok res then e # rest else rest, s2)))"

definition sync_since_as ::
  "'s audit_env \<Rightarrow> (nat \<Rightarrow> stamp) \<Rightarrow> subject_attributes \<Rightarrow> u64 \<Rightarrow> 's secured_broker \<Rightarrow>
     sync_response \<times> 's secured_broker" where
  "sync_since_as env stamps subject since s =
     (let raw = sync_since (sb_inner s) since;
          (entries, s1) = visible_entries env stamps subject (sy_entries raw) s
      in (\<lparr>sy_latest_sequence = sy_latest_sequence raw, sy_entries = entries\<rparr>, s1))"

fun secured_publish_store ::
  "'s audit_env \<Rightarrow> (nat \<Rightarrow> stamp) \<Rightarrow> mim_instance list \<Rightarrow> 's secured_broker \<Rightarrow>
     ((transport_error + put_object_response list) \<times> 's secured_broker) option" where
  "secured_publish_store env stamps [] s = Some (Ok [], s)"
| "secured_publish_store env stamps (i # is) s =
     Option.bind (secured_put_object env (stamps 0) i s) (\<lambda>(res, s1). case res of
         Inl e \<Rightarrow> Some (Err e, s1)
       | Inr r \<Rightarrow>
           map_option (\<lambda>(rest, s2). (and_then rest (\<lambda>rs. Ok (r # rs)), s2))
             (secured_publish_store env (\<lambda>k. stamps (Suc k)) is s1))"

section \<open>The decision behind every operation\<close>

definition may_access :: "'s secured_broker \<Rightarrow> subject_attributes \<Rightarrow> access_operation \<Rightarrow> mim_instance \<Rightarrow> bool" where
  "may_access s subject op i \<longleftrightarrow>
     (case instance_label i of
        Inl _ \<Rightarrow> False
      | Inr l \<Rightarrow>
          (case and_then (access_context subject l op (sb_domain s)) (evaluate (ep_store (sb_pep s))) of
             Inl _ \<Rightarrow> False
           | Inr dn \<Rightarrow> pd_effect dn \<noteq> Deny))"

text \<open>Two states that differ in their audit log only.\<close>

definition same_view :: "'s secured_broker \<Rightarrow> 's secured_broker \<Rightarrow> bool" where
  "same_view s s' \<longleftrightarrow>
     sb_inner s' = sb_inner s \<and> sb_subject s' = sb_subject s \<and> sb_domain s' = sb_domain s \<and>
     ep_store (sb_pep s') = ep_store (sb_pep s)"

lemma same_view_refl [simp]: "same_view s s"
  by (simp add: same_view_def)

lemma same_view_trans: "same_view s s1 \<Longrightarrow> same_view s1 s2 \<Longrightarrow> same_view s s2"
  by (simp add: same_view_def)

lemma may_access_view: "same_view s s' \<Longrightarrow> may_access s' = may_access s"
  by (intro ext) (simp add: may_access_def same_view_def cong: sum.case_cong)

lemma pep_enforce_access_store:
  "pep_enforce_access env st su l op d p = (res, p') \<Longrightarrow> ep_store p' = ep_store p"
  by (auto simp: pep_enforce_access_def pep_evaluate_access_def record_access_audit_def
      split: sum.splits prod.splits if_splits)

lemma pep_enforce_access_is_ok:
  "is_ok (fst (pep_enforce_access env st su l op d p)) \<longleftrightarrow>
     (\<exists>dn. and_then (access_context su l op d) (evaluate (ep_store p)) = Ok dn \<and> pd_effect dn \<noteq> Deny)"
  by (auto simp: pep_enforce_access_def pep_evaluate_access_def split: sum.splits)

lemma is_ok_map_err [simp]: "is_ok (map_err f r) = is_ok r"
  by (cases r) simp_all

lemma authorize_is_ok: "is_ok (fst (authorize env st su op i s)) \<longleftrightarrow> may_access s su op i"
proof -
  have "is_ok (fst (authorize env st su op i s)) \<longleftrightarrow>
      (\<exists>l. instance_label i = Ok l \<and> is_ok (fst (pep_enforce_access env st su l op (sb_domain s) (sb_pep s))))"
    by (simp add: authorize_def case_prod_beta Let_def split: sum.split)
  then show ?thesis
    by (auto simp: pep_enforce_access_is_ok may_access_def split: sum.splits)
qed

lemma authorize_view: "same_view s (snd (authorize env st su op i s))"
  by (auto simp: authorize_def same_view_def case_prod_beta Let_def
      intro: pep_enforce_access_store [OF surjective_pairing] split: sum.split)

lemma get_by_oid_as_view: "same_view s (snd (get_by_oid_as env st su oid s))"
  using authorize_view [of s env st su OpRead]
  by (auto simp: get_by_oid_as_def split: sum.split prod.split) (metis snd_conv)+

lemma get_by_oid_as_Ok_iff:
  "fst (get_by_oid_as env st su oid s) = Ok i \<longleftrightarrow> get_by_oid oid (sb_inner s) = Ok i \<and> may_access s su OpRead i"
  using authorize_is_ok [of env st su OpRead i s]
  by (auto simp: get_by_oid_as_def is_ok_iff split: sum.splits prod.splits)


lemma may_access_labelled: "may_access s su op i \<Longrightarrow> is_ok (instance_label i)"
  by (auto simp: may_access_def split: sum.splits)

lemma permitted_instances_view: "same_view s (snd (permitted_instances env stamps su is s))"
proof (induction "is" arbitrary: stamps s)
  case (Cons i "is")
  have "same_view s (snd (authorize env (stamps 0) su OpRead i s))" by (rule authorize_view)
  with Cons.IH show ?case
    by (auto simp: case_prod_beta Let_def intro: same_view_trans split: sum.split)
qed simp

lemma permitted_instances_Ok_iff:
  "fst (permitted_instances env stamps su is s) = Ok js \<longleftrightarrow>
     (\<forall>i \<in> set is. is_ok (instance_label i)) \<and> js = filter (may_access s su OpRead) is"
proof (induction "is" arbitrary: stamps s js)
  case (Cons i "is")
  have "may_access (snd (authorize env (stamps 0) su OpRead i s)) = may_access s"
    by (rule may_access_view) (rule authorize_view)
  with Cons.IH show ?case
    by (auto simp: case_prod_beta Let_def and_then_Inr_iff authorize_is_ok split: sum.split)
qed auto

definition readable_by :: "'s secured_broker \<Rightarrow> subject_attributes \<Rightarrow> object_identifier \<Rightarrow> bool" where
  "readable_by s su oid \<longleftrightarrow> (\<exists>i. get_by_oid oid (sb_inner s) = Ok i \<and> may_access s su OpRead i)"

lemma get_by_oid_as_is_ok: "is_ok (fst (get_by_oid_as env st su oid s)) \<longleftrightarrow> readable_by s su oid"
  by (simp add: is_ok_iff get_by_oid_as_Ok_iff readable_by_def)

lemma readable_by_view:
  assumes "same_view s s'"
  shows "readable_by s' = readable_by s"
  using assms may_access_view [OF assms]
  by (simp add: fun_eq_iff readable_by_def same_view_def)

lemma visible_entries_eq:
  "fst (visible_entries env stamps su es s) =
     filter (\<lambda>e. je_operation e = IesDeleteObject \<or> readable_by s su (je_oid e)) es"
proof (induction es arbitrary: stamps s)
  case (Cons e es)
  have "readable_by (snd (get_by_oid_as env (stamps 0) su (je_oid e) s)) = readable_by s"
    by (rule readable_by_view) (rule get_by_oid_as_view)
  with Cons.IH show ?case
    by (simp add: case_prod_beta Let_def get_by_oid_as_is_ok)
qed simp

lemma visible_entries_view: "same_view s (snd (visible_entries env stamps su es s))"
proof (induction es arbitrary: stamps s)
  case (Cons e es)
  show ?case
    using Cons.IH [of s] Cons.IH [of "snd (get_by_oid_as env (stamps 0) su (je_oid e) s)"]
      get_by_oid_as_view [of s env "stamps 0" su "je_oid e"]
    by (auto simp: case_prod_beta Let_def intro: same_view_trans)
qed simp

lemma sync_since_as_eq:
  "fst (sync_since_as env stamps su since s) =
     \<lparr>sy_latest_sequence = br_sequence (sb_inner s),
      sy_entries = filter (\<lambda>e. since < je_sequence e \<and>
         (je_operation e = IesDeleteObject \<or> readable_by s su (je_oid e))) (br_journal (sb_inner s))\<rparr>"
  by (simp add: sync_since_as_def case_prod_beta Let_def visible_entries_eq sync_since_def conj_commute)

lemma sync_since_as_view: "same_view s (snd (sync_since_as env stamps su since s))"
  by (simp add: sync_since_as_def case_prod_beta Let_def visible_entries_view)

section \<open>A sample view\<close>

definition marked_instance :: "string \<Rightarrow> mim_instance" where
  "marked_instance level =
     sample_instance\<lparr>mi_metadata := metadata_default\<lparr>md_security :=
       \<lparr>sc_policy = Value ''NATO'', sc_classification = Value level, sc_releasability = Absent\<rparr>\<rparr>\<rparr>"

definition analyst :: subject_attributes where
  "analyst = subject_new ''analyst'' Restricted"

text \<open>A broker that holds an object marked with a level, behind the preset enforcement point.\<close>

definition marked_view :: "string \<Rightarrow> unit secured_broker" where
  "marked_view level =
     secured_new (put_state (marked_instance level) (broker_new line_registry)) (pep_new preset_high_to_low)
       analyst high_side"

definition marked_label :: "classification_level \<Rightarrow> conf_label" where
  "marked_label level = conf_label_new (with_identifier ''NATO'' nato_policy) level"

lemma instance_label_marked: "instance_label (marked_instance (as_stanag_str level)) = Ok (marked_label level)"
  by (simp add: instance_label_def marked_instance_def label_from_security_def from_mim_security_def
      marked_label_def Let_def)

lemma marked_label_facts:
  "level \<in> {Unclassified, Restricted, Secret} \<Longrightarrow> validate_conf_label (marked_label level) = Ok ()"
  "cf_classification (marked_label level) = level"
  "releasable_countries (marked_label level) = []" "restrictive_category_values (marked_label level) = []"
proof -
  show "cf_classification (marked_label level) = level" "releasable_countries (marked_label level) = []"
    "restrictive_category_values (marked_label level) = []"
    by (simp_all add: marked_label_def conf_label_new_def releasable_countries_def tagged_values_def
        restrictive_category_values_def)
  show "level \<in> {Unclassified, Restricted, Secret} \<Longrightarrow> validate_conf_label (marked_label level) = Ok ()"
    by (cases level) (simp_all add: marked_label_def validate_conf_label_Ok_iff conf_label_new_def model_simps)
qed

lemma may_access_marked:
  assumes "op \<noteq> OpCrossDomainTransfer" and "level \<in> {Unclassified, Restricted, Secret}"
  shows "may_access (marked_view x) analyst op (marked_instance (as_stanag_str level)) \<longleftrightarrow> level \<le> Restricted"
proof -
  let ?ctx = "\<lparr>pc_subject = analyst, pc_resource = resource_from_label (marked_label level),
                pc_environment = env_local op (sd_id high_side), pc_label = marked_label level\<rparr>"
  have ctx: "access_context analyst (marked_label level) op high_side = Ok ?ctx"
    using assms(2) by (simp add: access_context_Ok_iff marked_label_facts)
  have dom: "store_domain preset_high_to_low (ev_source_domain (pc_environment ?ctx)) = Some high_side"
    by (simp add: preset_domains high_side_def model_simps env_local_def)
  have allowed: "access_allowed (pc_subject ?ctx) (pc_resource ?ctx) (pc_environment ?ctx) high_side \<longleftrightarrow>
      level \<le> Restricted"
    by (cases level) (simp_all add: access_allowed_def resource_from_label_def marked_label_facts caveats_held_def
        analyst_def model_simps mission_ok_def high_side_def nationality_ok_def releasability_ok_def
        level_le_iff resolve_mission_id_def env_local_def)
  have "evaluate preset_high_to_low ?ctx = evaluate_access preset_high_to_low ?ctx"
    using assms(1) by (cases op) (simp_all add: evaluate_def env_local_def)
  with evaluate_access_cases [OF dom] allowed ctx show ?thesis
    by (auto simp: may_access_def instance_label_marked marked_view_def secured_new_def pep_new_def split: if_splits)
qed

lemma marked_accepted: "accepts_instance line_registry (marked_instance level)"
proof -
  obtain r where r: "validate_instance line_registry (marked_instance level) = Some r"
    using validate_instance_returns [OF line_acyclic] by blast
  moreover have "conforms_instance line_registry (marked_instance level)"
    using sample_conforms
    by (simp add: marked_instance_def conforms_instance_def attribute_ok_def attribute_present_def
        instance_property_def)
  with validate_instance_valid [OF r] have "is_valid r" by simp
  moreover have "schema_ok (marked_instance level)"
    by (simp add: schema_ok_def marked_instance_def sample_instance_def mim_instance_new_def generate_urn_def)
  ultimately show ?thesis by (auto simp: accepts_instance_def)
qed

lemma marked_view_simps [simp]:
  "sb_inner (marked_view level) = put_state (marked_instance level) (broker_new line_registry)"
  "mi_oid (marked_instance level) = mi_oid sample_instance"
  "mi_class_name (marked_instance level) = ''Line''"
  by (simp_all add: marked_view_def secured_new_def marked_instance_def)
    (simp add: sample_instance_def mim_instance_new_def)

lemma get_by_oid_marked [simp]:
  "get_by_oid (mi_oid sample_instance) (put_state (marked_instance level) (broker_new line_registry)) =
     Ok (marked_instance level)"
  by (simp add: get_by_oid_Ok_iff)

section \<open>Reads\<close>



text \<open>
  A filtered query answers with exactly the permitted instances of the page the broker computed,
  in its order, when every instance of that page has a readable label; the total it reports is that
  of the broker, so it counts instances the subject may not read, and the page is cut before the
  filtering.
\<close>

theorem secured_query_exact:
  "fst (get_by_filter_as env stamps su render req s) = Ok resp \<longleftrightarrow>
     (\<exists>page. get_by_filter render req (sb_inner s) = Ok page \<and>
        (\<forall>i \<in> set (gr_instances page). is_ok (instance_label i)) \<and>
        gr_instances resp = filter (may_access s su OpRead) (gr_instances page) \<and>
        gr_count resp = length (gr_instances resp) \<and>
        gr_total resp = gr_total page \<and> gr_total page = length (query_result render req (sb_inner s)))"
proof -
  have total: "gr_total page = length (query_result render req (sb_inner s))"
    if "get_by_filter render req (sb_inner s) = Ok page" for page
    using get_by_filter_Ok [OF that] by (simp add: filter_response_def Let_def)
  show ?thesis
    using total
    by (auto simp: get_by_filter_as_def case_prod_beta Let_def and_then_Inr_iff permitted_instances_Ok_iff
        split: sum.splits intro: get_by_filter_response.equality)
qed

lemma marked_query:
  "get_by_filter (\<lambda>_. []) line_query (put_state (marked_instance level) (broker_new line_registry)) =
     Ok \<lparr>gr_instances = [marked_instance level], gr_count = 1, gr_total = 1\<rparr>"
proof -
  have "trim ''Line'' = ''Line''"
    by (rule trim_id) (simp add: ws_lead_def ws_tail_def white_space_seqs_def)
  then show ?thesis
    by (simp add: get_by_filter_def line_query_def broker_new_def im_values_def property_criterion_def is_active_def
        filter_response_def paginate_instances_def Let_def)
qed

theorem secured_query_exact_witness:
  "\<forall>env stamps. fst (get_by_filter_as env stamps analyst (\<lambda>_. []) line_query (marked_view ''SECRET'')) =
     Ok \<lparr>gr_instances = [], gr_count = 0, gr_total = 1\<rparr>"
proof (intro allI)
  fix env :: "unit audit_env" and stamps
  have "\<not> may_access (marked_view ''SECRET'') analyst OpRead (marked_instance ''SECRET'')"
    using may_access_marked [of OpRead Secret "''SECRET''"] by (simp add: level_le_iff)
  moreover have "is_ok (instance_label (marked_instance ''SECRET''))"
    using instance_label_marked [of Secret] by simp
  moreover have "length (query_result (\<lambda>_. []) line_query (sb_inner (marked_view ''SECRET''))) = 1"
    using get_by_filter_Ok [OF marked_query [of "''SECRET''"]] by (simp add: filter_response_def Let_def)
  ultimately show "fst (get_by_filter_as env stamps analyst (\<lambda>_. []) line_query (marked_view ''SECRET'')) =
     Ok \<lparr>gr_instances = [], gr_count = 0, gr_total = 1\<rparr>"
    using marked_query [of "''SECRET''"] by (simp add: secured_query_exact)
qed

section \<open>Writes\<close>

lemma authorize_cases:
  obtains (permitted) dn s1 where "authorize env st su op i s = (Ok dn, s1)" and "may_access s su op i" and "same_view s s1"
  | (refused) e s1 where "authorize env st su op i s = (Err e, s1)" and "\<not> may_access s su op i" and "same_view s s1"
proof (cases "authorize env st su op i s")
  case (Pair res s1)
  moreover have "is_ok res \<longleftrightarrow> may_access s su op i" and "same_view s s1"
    using authorize_is_ok [of env st su op i s] authorize_view [of s env st su op i] Pair by simp_all
  ultimately show thesis using that by (cases res) simp_all
qed

lemma put_object_as_Ok_iff:
  "(\<exists>s'. put_object_as env st su i s = Some (Ok r, s') \<and> sb_inner s' = b) \<longleftrightarrow>
     may_access s su OpWrite i \<and> put_object i (sb_inner s) = Some (Ok (r, b))"
proof (cases rule: authorize_cases [of env st su OpWrite i s])
  case (permitted dn s1)
  then have "put_object i (sb_inner s1) = put_object i (sb_inner s)" by (simp add: same_view_def)
  with permitted show ?thesis
    by (cases "put_object i (sb_inner s)") (auto simp: put_object_as_def split: sum.splits)
qed (simp add: put_object_as_def)

lemma put_object_as_Err_keeps:
  assumes "put_object_as env st su i s = Some (Err e, s')"
  shows "same_view s s'"
proof (cases rule: authorize_cases [of env st su OpWrite i s])
  case (permitted dn s1)
  with assms show ?thesis
    by (cases "put_object i (sb_inner s1)") (auto simp: put_object_as_def split: sum.splits)
qed (use assms in \<open>simp add: put_object_as_def\<close>)

lemma delete_object_as_Ok_iff:
  "(\<exists>s'. delete_object_as env st su oid s = (Ok r, s') \<and> sb_inner s' = b) \<longleftrightarrow>
     (\<exists>i. get_by_oid oid (sb_inner s) = Ok i \<and> may_access s su OpDelete i) \<and>
     delete_object oid (sb_inner s) = Ok (r, b)"
proof (cases "get_by_oid oid (sb_inner s)")
  case (Inr i)
  show ?thesis
  proof (cases rule: authorize_cases [of env st su OpDelete i s])
    case (permitted dn s1)
    then have "delete_object oid (sb_inner s1) = delete_object oid (sb_inner s)" by (simp add: same_view_def)
    with permitted Inr show ?thesis
      by (cases "delete_object oid (sb_inner s)") (auto simp: delete_object_as_def)
  qed (simp add: delete_object_as_def Inr)
qed (simp add: delete_object_as_def)

lemma delete_object_as_Err_keeps:
  assumes "delete_object_as env st su oid s = (Err e, s')"
  shows "same_view s s'"
proof (cases "get_by_oid oid (sb_inner s)")
  case (Inr i)
  with assms show ?thesis
    by (cases rule: authorize_cases [of env st su OpDelete i s])
      (auto simp: delete_object_as_def split: sum.splits prod.splits)
qed (use assms in \<open>simp add: delete_object_as_def\<close>)

text \<open>
  C23: a write succeeds exactly when the subject may write the new instance and the broker accepts it,
  a delete exactly when the object is readable, the subject may delete it and the broker deletes it,
  both with the broker's own effect; a refused write or delete changes nothing but the audit log.
\<close>

theorem secured_writes_exact:
  "((\<exists>s'. put_object_as env st su i s = Some (Ok r, s') \<and> sb_inner s' = b) \<longleftrightarrow>
      may_access s su OpWrite i \<and> put_object i (sb_inner s) = Some (Ok (r, b))) \<and>
   ((\<exists>s'. delete_object_as env st su oid s = (Ok dr, s') \<and> sb_inner s' = b) \<longleftrightarrow>
      (\<exists>old. get_by_oid oid (sb_inner s) = Ok old \<and> may_access s su OpDelete old) \<and>
      delete_object oid (sb_inner s) = Ok (dr, b)) \<and>
   (\<forall>e s'. put_object_as env st su i s = Some (Err e, s') \<longrightarrow> sb_inner s' = sb_inner s) \<and>
   (\<forall>e s'. delete_object_as env st su oid s = (Err e, s') \<longrightarrow> sb_inner s' = sb_inner s)"
  by (intro conjI put_object_as_Ok_iff delete_object_as_Ok_iff allI impI)
    (simp_all only: put_object_as_Err_keeps [unfolded same_view_def] delete_object_as_Err_keeps [unfolded same_view_def])

theorem secured_writes_exact_witness:
  "\<forall>env st. \<exists>s'. put_object_as env st analyst (marked_instance ''RESTRICTED'') (marked_view ''SECRET'') =
       Some (Ok \<lparr>por_oid = mi_oid sample_instance, por_created = False\<rparr>, s') \<and>
     sb_inner s' = put_state (marked_instance ''RESTRICTED'') (sb_inner (marked_view ''SECRET''))"
proof (intro allI)
  fix env :: "unit audit_env" and st
  let ?s = "marked_view ''SECRET''" and ?i = "marked_instance ''RESTRICTED''"
  have "may_access ?s analyst OpWrite ?i"
    using may_access_marked [of OpWrite Restricted "''SECRET''"] by simp
  moreover have "put_object ?i (sb_inner ?s) =
      Some (Ok (\<lparr>por_oid = mi_oid sample_instance, por_created = False\<rparr>, put_state ?i (sb_inner ?s)))"
    using marked_accepted by (simp add: put_object_Ok_iff) (simp add: broker_new_def)
  ultimately show "\<exists>s'. put_object_as env st analyst ?i ?s =
       Some (Ok \<lparr>por_oid = mi_oid sample_instance, por_created = False\<rparr>, s') \<and>
     sb_inner s' = put_state ?i (sb_inner ?s)"
    using secured_writes_exact [of env st analyst ?i ?s] by blast
qed

text \<open>
  PutObject is authorised against the label of the new instance only: a subject who may neither
  read nor delete the stored object still replaces it, as an update, by any instance with the same
  identifier that it may write; the stored content is lost.
\<close>

theorem put_ignores_stored_label:
  assumes "get_by_oid (mi_oid i) (sb_inner s) = Ok old"
    and "\<not> may_access s su OpRead old" and "\<not> may_access s su OpDelete old"
    and "may_access s su OpWrite i" and "accepts_instance (br_registry (sb_inner s)) i"
  shows "\<not> is_ok (fst (get_by_oid_as env st su (mi_oid i) s)) \<and>
     \<not> is_ok (fst (delete_object_as env st su (mi_oid i) s)) \<and>
     (\<exists>s'. put_object_as env st su i s = Some (Ok \<lparr>por_oid = mi_oid i, por_created = False\<rparr>, s') \<and>
        get_by_oid (mi_oid i) (sb_inner s') = Ok i)"
proof (intro conjI)
  show "\<not> is_ok (fst (get_by_oid_as env st su (mi_oid i) s))"
    using assms(1,2) by (simp add: get_by_oid_as_is_ok readable_by_def)
  show "\<not> is_ok (fst (delete_object_as env st su (mi_oid i) s))"
  proof
    assume "is_ok (fst (delete_object_as env st su (mi_oid i) s))"
    then obtain r s' where "delete_object_as env st su (mi_oid i) s = (Ok r, s')"
      unfolding is_ok_iff by (metis prod.collapse)
    with delete_object_as_Ok_iff [of env st su "mi_oid i" s r "sb_inner s'"] assms(1,3) show False by auto
  qed
  have "broker_contains (sb_inner s) (mi_oid i)"
    using assms(1) by (auto simp: get_by_oid_Ok_iff broker_get_def broker_contains_def im_contains_def)
  then have "put_object i (sb_inner s) =
      Some (Ok (\<lparr>por_oid = mi_oid i, por_created = False\<rparr>, put_state i (sb_inner s)))"
    using assms(5) by (simp add: put_object_Ok_iff)
  then obtain s' where "put_object_as env st su i s = Some (Ok \<lparr>por_oid = mi_oid i, por_created = False\<rparr>, s')"
    and "sb_inner s' = put_state i (sb_inner s)"
    using assms(4) put_object_as_Ok_iff [of env st su i s] by blast
  then show "\<exists>s'. put_object_as env st su i s = Some (Ok \<lparr>por_oid = mi_oid i, por_created = False\<rparr>, s') \<and>
      get_by_oid (mi_oid i) (sb_inner s') = Ok i"
    by (auto simp: get_by_oid_Ok_iff)
qed

theorem put_ignores_stored_label_witness:
  "\<forall>env st. \<exists>s'. put_object_as env st analyst (marked_instance ''RESTRICTED'') (marked_view ''SECRET'') =
       Some (Ok \<lparr>por_oid = mi_oid sample_instance, por_created = False\<rparr>, s') \<and>
     get_by_oid (mi_oid sample_instance) (sb_inner s') = Ok (marked_instance ''RESTRICTED'')"
proof (intro allI)
  fix env :: "unit audit_env" and st
  let ?s = "marked_view ''SECRET''"
  have "\<not> may_access ?s analyst op (marked_instance ''SECRET'')" if "op \<noteq> OpCrossDomainTransfer" for op
    using may_access_marked [OF that, of Secret "''SECRET''"] by (simp add: level_le_iff)
  moreover have "may_access ?s analyst OpWrite (marked_instance ''RESTRICTED'')"
    using may_access_marked [of OpWrite Restricted "''SECRET''"] by simp
  moreover have "accepts_instance (br_registry (sb_inner ?s)) (marked_instance ''RESTRICTED'')"
    using marked_accepted by (simp add: broker_new_def)
  ultimately show "\<exists>s'. put_object_as env st analyst (marked_instance ''RESTRICTED'') ?s =
       Some (Ok \<lparr>por_oid = mi_oid sample_instance, por_created = False\<rparr>, s') \<and>
     get_by_oid (mi_oid sample_instance) (sb_inner s') = Ok (marked_instance ''RESTRICTED'')"
    using put_ignores_stored_label [of "marked_instance ''RESTRICTED''" ?s "marked_instance ''SECRET''" analyst env st]
    by simp
qed

end
