(* ===== verification/Replication.thy ===== *)
theory Replication
  imports Secured_Broker
begin

text \<open>
  Crate \<open>mim-transport\<close>: \<open>replication.rs\<close> and the publisher trait of \<open>remote.rs\<close>. A consumer pulls the
  journal of a publisher and applies the entries it has not applied yet; an error stops the pull and
  leaves what was applied before. The two loops of the agent differ only in how an entry is applied,
  so they share \<open>replay\<close>.
\<close>

section \<open>The agent\<close>

record replication_apply_report =
  ra_applied :: nat
  ra_skipped :: nat
  ra_latest_sequence :: u64

type_synonym apply_step = "journal_entry \<Rightarrow> exchange_broker \<Rightarrow> (transport_error + exchange_broker) option"

fun replay ::
  "apply_step \<Rightarrow> journal_entry list \<Rightarrow> nat \<Rightarrow> nat \<Rightarrow> exchange_broker \<Rightarrow>
     ((transport_error + nat \<times> nat) \<times> exchange_broker) option" where
  "replay step [] applied skipped c = Some (Ok (applied, skipped), c)"
| "replay step (e # es) applied skipped c =
     (if je_sequence e \<le> br_applied_sequence c then replay step es applied (Suc skipped) c
      else Option.bind (step e c) (\<lambda>res. case res of
          Inl err \<Rightarrow> Some (Err err, c)
        | Inr c1 \<Rightarrow> replay step es (Suc applied) skipped c1))"

definition replay_report ::
  "u64 \<Rightarrow> ((transport_error + nat \<times> nat) \<times> exchange_broker) option \<Rightarrow>
     ((transport_error + replication_apply_report) \<times> exchange_broker) option" where
  "replay_report latest = map_option (\<lambda>(res, c).
     (and_then res (\<lambda>(applied, skipped).
        Ok \<lparr>ra_applied = applied, ra_skipped = skipped, ra_latest_sequence = latest\<rparr>), c))"

definition apply_sync_response ::
  "exchange_broker \<Rightarrow> sync_response \<Rightarrow> exchange_broker \<Rightarrow>
     ((transport_error + replication_apply_report) \<times> exchange_broker) option" where
  "apply_sync_response publisher sync c =
     replay_report (sy_latest_sequence sync) (replay (apply_entry_from publisher) (sy_entries sync) 0 0 c)"

definition pull_and_apply ::
  "exchange_broker \<Rightarrow> u64 \<Rightarrow> exchange_broker \<Rightarrow>
     ((transport_error + replication_apply_report) \<times> exchange_broker) option" where
  "pull_and_apply publisher since c = apply_sync_response publisher (sync_since publisher since) c"

text \<open>The secured variants filter the journal for a subject, which writes the publisher's audit log.\<close>

definition pull_and_apply_for_subject ::
  "'s audit_env \<Rightarrow> (nat \<Rightarrow> stamp) \<Rightarrow> 's secured_broker \<Rightarrow> subject_attributes \<Rightarrow> u64 \<Rightarrow> exchange_broker \<Rightarrow>
     ((transport_error + replication_apply_report) \<times> exchange_broker) option \<times> 's secured_broker" where
  "pull_and_apply_for_subject env stamps publisher subject since c =
     (let (sync, publisher1) = sync_since_as env stamps subject since publisher
      in (apply_sync_response (sb_inner publisher1) sync c, publisher1))"

definition pull_and_apply_secured ::
  "'s audit_env \<Rightarrow> (nat \<Rightarrow> stamp) \<Rightarrow> 's secured_broker \<Rightarrow> u64 \<Rightarrow> exchange_broker \<Rightarrow>
     ((transport_error + replication_apply_report) \<times> exchange_broker) option \<times> 's secured_broker" where
  "pull_and_apply_secured env stamps publisher since c =
     pull_and_apply_for_subject env stamps publisher (sb_subject publisher) since c"

text \<open>A remote publisher is its two operations, as they answer during one pull.\<close>

record federation_publisher =
  fetch_sync :: "u64 \<Rightarrow> transport_error + sync_response"
  fetch_instance :: "object_identifier \<Rightarrow> transport_error + mim_instance"

definition remote_step :: "(object_identifier \<Rightarrow> transport_error + mim_instance) \<Rightarrow> apply_step" where
  "remote_step fetch e c =
     (if je_operation e = IesPutObject then
        (case fetch (je_oid e) of
           Inl err \<Rightarrow> Some (Err err)
         | Inr i \<Rightarrow> apply_remote_entry e (Some i) c)
      else apply_remote_entry e None c)"

definition pull_and_apply_remote ::
  "federation_publisher \<Rightarrow> u64 \<Rightarrow> exchange_broker \<Rightarrow>
     ((transport_error + replication_apply_report) \<times> exchange_broker) option" where
  "pull_and_apply_remote publisher since c =
     (case fetch_sync publisher since of
        Inl err \<Rightarrow> Some (Err err, c)
      | Inr sync \<Rightarrow>
          replay_report (sy_latest_sequence sync)
            (replay (remote_step (fetch_instance publisher)) (sy_entries sync) 0 0 c))"

section \<open>Publishers of this code base\<close>

definition local_fetch :: "exchange_broker \<Rightarrow> object_identifier \<Rightarrow> transport_error + mim_instance" where
  "local_fetch p oid = ok_or (TeNotFound (oid_as_str oid)) (broker_get p oid)"

definition local_publisher :: "exchange_broker \<Rightarrow> federation_publisher" where
  "local_publisher p = \<lparr>fetch_sync = (\<lambda>since. Ok (sync_since p since)), fetch_instance = local_fetch p\<rparr>"

definition subject_publisher ::
  "'s audit_env \<Rightarrow> (nat \<Rightarrow> stamp) \<Rightarrow> 's secured_broker \<Rightarrow> subject_attributes \<Rightarrow> federation_publisher" where
  "subject_publisher env stamps s su =
     \<lparr>fetch_sync = (\<lambda>since. Ok (fst (sync_since_as env stamps su since s))),
      fetch_instance = (\<lambda>oid. fst (get_by_oid_as env (stamps 0) su oid s))\<rparr>"

lemma remote_step_local: "remote_step (local_fetch p) = apply_entry_from p"
  by (intro ext)
    (auto simp: remote_step_def local_fetch_def apply_remote_entry_def apply_entry_from_def
      split: option.split ies_operation.split)

lemma pull_local: "pull_and_apply_remote (local_publisher p) since = pull_and_apply p since"
  by (rule ext)
    (simp add: pull_and_apply_remote_def local_publisher_def pull_and_apply_def apply_sync_response_def
      remote_step_local)

section \<open>What a pull does\<close>

definition entry_effect ::
  "(object_identifier \<Rightarrow> transport_error + mim_instance) \<Rightarrow> journal_entry \<Rightarrow> exchange_broker \<Rightarrow> exchange_broker" where
  "entry_effect fetch e c =
     (if je_operation e = IesPutObject then
        (case fetch (je_oid e) of Inr i \<Rightarrow> put_state i c | Inl _ \<Rightarrow> c)
      else if broker_contains c (je_oid e) then delete_state (je_oid e) c else c)
     \<lparr>br_applied_sequence := je_sequence e\<rparr>"

definition applicable ::
  "model_registry \<Rightarrow> (object_identifier \<Rightarrow> transport_error + mim_instance) \<Rightarrow> journal_entry \<Rightarrow> bool" where
  "applicable reg fetch e \<longleftrightarrow>
     (case je_operation e of
        IesPutObject \<Rightarrow> (\<exists>i. fetch (je_oid e) = Ok i \<and> mi_oid i = je_oid e \<and> accepts_instance reg i)
      | IesDeleteObject \<Rightarrow> True
      | _ \<Rightarrow> False)"

definition ascending :: "journal_entry list \<Rightarrow> bool" where
  "ascending es \<longleftrightarrow> sorted_wrt (\<lambda>a b. je_sequence a < je_sequence b) es"

lemma remote_step_applicable:
  assumes "applicable (br_registry c) fetch e"
  shows "remote_step fetch e c = Some (Ok (entry_effect fetch e c))"
proof (cases "je_operation e")
  case IesPutObject
  with assms obtain i where "fetch (je_oid e) = Ok i" and "accepts_instance (br_registry c) i"
    by (auto simp: applicable_def)
  with IesPutObject show ?thesis
    by (simp add: remote_step_def apply_remote_entry_def entry_effect_def apply_put_entry_Ok_iff)
qed (use assms in \<open>simp_all add: remote_step_def apply_remote_entry_def entry_effect_def apply_delete_entry_eq
       applicable_def\<close>)

lemma entry_effect_put:
  "je_operation e = IesPutObject \<Longrightarrow> fetch (je_oid e) = Ok i \<Longrightarrow>
     entry_effect fetch e c = (put_state i c)\<lparr>br_applied_sequence := je_sequence e\<rparr>"
  by (simp add: entry_effect_def)

lemma entry_effect_delete:
  "je_operation e = IesDeleteObject \<Longrightarrow>
     entry_effect fetch e c =
       (if broker_contains c (je_oid e) then delete_state (je_oid e) c else c)\<lparr>br_applied_sequence := je_sequence e\<rparr>"
  by (simp add: entry_effect_def)

lemma entry_effect_simps [simp]:
  "br_registry (entry_effect fetch e c) = br_registry c"
  "br_applied_sequence (entry_effect fetch e c) = je_sequence e"
  by (simp_all add: entry_effect_def split: sum.split)

lemma fold_effect_registry [simp]: "br_registry (fold (entry_effect fetch) es c) = br_registry c"
  by (induction es arbitrary: c) simp_all

lemma fold_effect_applied:
  "br_applied_sequence (fold (entry_effect fetch) es c) =
     (if es = [] then br_applied_sequence c else je_sequence (last es))"
  by (induction es arbitrary: c) auto

lemma replay_applicable:
  assumes "ascending es" and "\<forall>e \<in> set es. applicable (br_registry c) fetch e"
  shows "replay (remote_step fetch) es a k c =
     (let todo = filter (\<lambda>e. br_applied_sequence c < je_sequence e) es in
      Some (Ok (a + length todo, k + (length es - length todo)), fold (entry_effect fetch) todo c))"
  using assms
proof (induction es arbitrary: a k c)
  case (Cons e es)
  show ?case
  proof (cases "je_sequence e \<le> br_applied_sequence c")
    case True
    moreover have "length (filter (\<lambda>e. br_applied_sequence c < je_sequence e) es) \<le> length es"
      by (rule length_filter_le)
    ultimately show ?thesis using Cons True by (simp add: ascending_def Let_def not_less [symmetric])
  next
    case False
    let ?c = "entry_effect fetch e c"
    have "filter (\<lambda>e. br_applied_sequence ?c < je_sequence e) es = es"
      and "filter (\<lambda>e. br_applied_sequence c < je_sequence e) es = es"
      using Cons.prems(1) False by (auto simp: ascending_def intro!: filter_True)
    moreover have "replay (remote_step fetch) es (Suc a) k ?c =
        (let todo = filter (\<lambda>e. br_applied_sequence ?c < je_sequence e) es in
         Some (Ok (Suc a + length todo, k + (length es - length todo)), fold (entry_effect fetch) todo ?c))"
      by (rule Cons.IH) (use Cons.prems in \<open>simp_all add: ascending_def\<close>)
    ultimately show ?thesis
      using False Cons.prems(2) by (simp add: remote_step_applicable Let_def)
  qed
qed (simp add: Let_def)

text \<open>What can be read after a replay: the last entry of an object decides.\<close>

definition read_after ::
  "(object_identifier \<Rightarrow> transport_error + mim_instance) \<Rightarrow> journal_entry list \<Rightarrow> exchange_broker \<Rightarrow>
     object_identifier \<Rightarrow> mim_instance \<Rightarrow> bool" where
  "read_after fetch es c oid i \<longleftrightarrow>
     (case last_op es oid of
        None \<Rightarrow> get_by_oid oid c = Ok i
      | Some op \<Rightarrow> op = IesPutObject \<and> fetch oid = Ok i)"

lemma get_by_oid_put_state:
  "get_by_oid oid (put_state i c) = Ok j \<longleftrightarrow> (if oid = mi_oid i then j = i else get_by_oid oid c = Ok j)"
  by (auto simp: get_by_oid_Ok_iff)

lemma get_by_oid_applied [simp]: "get_by_oid oid (c\<lparr>br_applied_sequence := n\<rparr>) = get_by_oid oid c"
  by (simp add: get_by_oid_def)

lemma broker_get_applied [simp]: "broker_get (c\<lparr>br_applied_sequence := n\<rparr>) oid = broker_get c oid"
  by (simp add: broker_get_def)

lemma get_by_oid_after_delete:
  "get_by_oid oid (if broker_contains c d then delete_state d c else c) = Ok j \<longleftrightarrow>
     oid \<noteq> d \<and> get_by_oid oid c = Ok j"
  by (auto simp: get_by_oid_Ok_iff broker_get_def broker_contains_def im_contains_def)

lemma fold_effect_reads:
  assumes "\<forall>e \<in> set es. applicable reg fetch e"
  shows "get_by_oid oid (fold (entry_effect fetch) es c) = Ok i \<longleftrightarrow> read_after fetch es c oid i"
  using assms
proof (induction es rule: rev_induct)
  case (snoc e es)
  let ?c = "fold (entry_effect fetch) es c"
  have IH: "get_by_oid oid ?c = Ok i \<longleftrightarrow> read_after fetch es c oid i" using snoc by simp
  show ?case
  proof (cases "je_operation e")
    case IesPutObject
    with snoc.prems obtain j where j: "fetch (je_oid e) = Ok j" "mi_oid j = je_oid e"
      by (auto simp: applicable_def)
    with IesPutObject IH show ?thesis
      by (auto simp: entry_effect_put get_by_oid_put_state read_after_def)
  qed (use snoc.prems IH in \<open>auto simp: entry_effect_delete get_by_oid_after_delete read_after_def applicable_def\<close>)
qed (simp add: read_after_def)

lemma fold_effect_stored:
  assumes "\<forall>e \<in> set es. applicable reg fetch e"
    and "broker_get (fold (entry_effect fetch) es c) oid = Some i"
  shows "broker_get c oid = Some i \<or>
     (\<exists>e \<in> set es. je_operation e = IesPutObject \<and> je_oid e = oid \<and> fetch oid = Ok i)"
  using assms
proof (induction es rule: rev_induct)
  case (snoc e es)
  show ?case
  proof (cases "je_operation e")
    case IesPutObject
    with snoc.prems obtain j where j: "fetch (je_oid e) = Ok j" "mi_oid j = je_oid e"
      by (auto simp: applicable_def)
    with IesPutObject snoc show ?thesis by (auto simp: entry_effect_put split: if_splits)
  qed (use snoc in \<open>auto simp: entry_effect_delete applicable_def split: if_splits\<close>)
qed simp

section \<open>The publisher contract\<close>

text \<open>What the agent relies on: the journal comes in ascending order above \<open>since\<close>, and every put in it
  can be fetched, under its identifier, as an instance the consumer's registry accepts.\<close>

locale journal_publisher =
  fixes pub :: "'p \<Rightarrow> federation_publisher"
    and good :: "model_registry \<Rightarrow> 'p \<Rightarrow> bool"
  assumes sync_answers: "good reg p \<Longrightarrow> \<exists>sync. fetch_sync (pub p) since = Ok sync"
    and sync_ascending: "good reg p \<Longrightarrow> fetch_sync (pub p) since = Ok sync \<Longrightarrow> ascending (sy_entries sync)"
    and sync_applicable: "good reg p \<Longrightarrow> fetch_sync (pub p) since = Ok sync \<Longrightarrow> e \<in> set (sy_entries sync) \<Longrightarrow>
      applicable reg (fetch_instance (pub p)) e"
begin

lemma pull_applies:
  assumes "good (br_registry c) p"
  shows "\<exists>sync. fetch_sync (pub p) since = Ok sync \<and>
     (let todo = filter (\<lambda>e. br_applied_sequence c < je_sequence e) (sy_entries sync) in
      pull_and_apply_remote (pub p) since c =
        Some (Ok \<lparr>ra_applied = length todo, ra_skipped = length (sy_entries sync) - length todo,
                  ra_latest_sequence = sy_latest_sequence sync\<rparr>,
              fold (entry_effect (fetch_instance (pub p))) todo c))"
proof -
  from sync_answers [OF assms] obtain sync where sync: "fetch_sync (pub p) since = Ok sync" by blast
  have "ascending (sy_entries sync)" by (rule sync_ascending [OF assms sync])
  moreover have "\<forall>e \<in> set (sy_entries sync). applicable (br_registry c) (fetch_instance (pub p)) e"
    using sync_applicable [OF assms sync] by blast
  ultimately show ?thesis
    using sync replay_applicable [of "sy_entries sync" c "fetch_instance (pub p)" 0 0]
    by (simp add: pull_and_apply_remote_def replay_report_def Let_def)
qed

lemma pull_reads:
  assumes "good (br_registry c) p" and "fetch_sync (pub p) since = Ok sync"
    and "todo = filter (\<lambda>e. br_applied_sequence c < je_sequence e) (sy_entries sync)"
  shows "get_by_oid oid (fold (entry_effect (fetch_instance (pub p))) todo c) = Ok i \<longleftrightarrow>
     read_after (fetch_instance (pub p)) todo c oid i"
  using sync_applicable [OF assms(1,2)] assms(3) by (intro fold_effect_reads) auto

end

section \<open>The publishers keep the contract\<close>

definition good_publisher :: "model_registry \<Rightarrow> exchange_broker \<Rightarrow> bool" where
  "good_publisher reg p \<longleftrightarrow> broker_wf p \<and> br_registry p = reg \<and> length (br_journal p) < 2 ^ 64"

lemma good_sequence:
  assumes "good_publisher reg p" and "k < length (br_journal p)"
  shows "unat (je_sequence (br_journal p ! k)) = Suc k"
  using assms by (auto simp: good_publisher_def broker_wf_def numbered_def max_seq_def)

lemma ascending_filter: "ascending es \<Longrightarrow> ascending (filter P es)"
  unfolding ascending_def by (rule sorted_wrt_filter)

lemma ascending_journal: "good_publisher reg p \<Longrightarrow> ascending (br_journal p)"
  by (auto simp: ascending_def sorted_wrt_iff_nth_less word_less_nat_alt good_sequence)

lemma stored_is_good:
  assumes "broker_wf p" and "broker_get p oid = Some i"
  shows "mi_oid i = oid \<and> accepts_instance (br_registry p) i"
proof -
  from assms have "keyed_by mi_oid (br_store p)" and get: "im_get (br_store p) oid = Some i"
    by (simp_all add: broker_wf_def broker_get_def)
  moreover from this have "i \<in> set (im_values (br_store p))"
    by (auto simp: keyed_by_def in_im_values_iff)
  ultimately show ?thesis using assms(1) keyed_by_get by (auto simp: broker_wf_def)
qed

lemma local_applicable:
  assumes "good_publisher reg p" and "e \<in> set (br_journal p)"
  shows "applicable reg (local_fetch p) e"
proof -
  have wf: "broker_wf p" and reg: "br_registry p = reg" using assms(1) by (simp_all add: good_publisher_def)
  have "broker_contains p (je_oid e)"
    using wf assms(2) last_op_None_iff [of "br_journal p" "je_oid e"] by (auto simp: broker_wf_def)
  then obtain i where i: "broker_get p (je_oid e) = Some i"
    by (auto simp: broker_contains_def im_contains_def broker_get_def)
  then have "local_fetch p (je_oid e) = Ok i" by (simp add: local_fetch_def)
  moreover have "je_operation e \<in> {IesPutObject, IesDeleteObject}"
    using wf assms(2) by (auto simp: broker_wf_def)
  ultimately show ?thesis
    using stored_is_good [OF wf i] reg by (auto simp: applicable_def)
qed

text \<open>A subject's view of a publisher, pulled locally: the filtered journal with the inner store.\<close>

definition subject_local_publisher ::
  "'s audit_env \<Rightarrow> (nat \<Rightarrow> stamp) \<Rightarrow> 's secured_broker \<Rightarrow> subject_attributes \<Rightarrow> federation_publisher" where
  "subject_local_publisher env stamps s su =
     \<lparr>fetch_sync = (\<lambda>since. Ok (fst (sync_since_as env stamps su since s))), fetch_instance = local_fetch (sb_inner s)\<rparr>"

lemma pull_for_subject:
  "fst (pull_and_apply_for_subject env stamps s su since c) =
     pull_and_apply_remote (subject_local_publisher env stamps s su) since c"
  using sync_since_as_view [of s env stamps su since]
  by (simp add: pull_and_apply_for_subject_def pull_and_apply_remote_def subject_local_publisher_def
      apply_sync_response_def case_prod_beta Let_def remote_step_local same_view_def)

interpretation lp: journal_publisher local_publisher good_publisher
proof unfold_locales
  fix reg p since sync e
  assume good: "good_publisher reg p" and "fetch_sync (local_publisher p) since = Ok sync"
  then have sync: "sy_entries sync = filter (\<lambda>e. since < je_sequence e) (br_journal p)"
    by (auto simp: local_publisher_def sync_since_def)
  with good show "ascending (sy_entries sync)" by (simp add: ascending_filter ascending_journal)
  assume "e \<in> set (sy_entries sync)"
  with good sync show "applicable reg (fetch_instance (local_publisher p)) e"
    by (simp add: local_publisher_def local_applicable)
qed (simp add: local_publisher_def)

interpretation slp: journal_publisher
  "\<lambda>(env, stamps, s, su). subject_local_publisher env stamps s su"
  "\<lambda>reg (env, stamps, s, su). good_publisher reg (sb_inner s)"
proof unfold_locales
  fix reg and q :: "'s audit_env \<times> (nat \<Rightarrow> stamp) \<times> 's secured_broker \<times> subject_attributes" and since sync e
  obtain env stamps s su where q: "q = (env, stamps, s, su)" by (cases q)
  let ?good = "case q of (env, stamps, s, su) \<Rightarrow> good_publisher reg (sb_inner s)"
  let ?pub = "case q of (env, stamps, s, su) \<Rightarrow> subject_local_publisher env stamps s su"
  show "?good \<Longrightarrow> \<exists>sync. fetch_sync ?pub since = Ok sync" by (simp add: q subject_local_publisher_def)
  assume good: ?good and "fetch_sync ?pub since = Ok sync"
  then have sync: "sy_entries sync = filter (\<lambda>e. since < je_sequence e \<and>
      (je_operation e = IesDeleteObject \<or> readable_by s su (je_oid e))) (br_journal (sb_inner s))"
    by (auto simp: q subject_local_publisher_def sync_since_as_eq)
  from good have good': "good_publisher reg (sb_inner s)" by (simp add: q)
  with sync show "ascending (sy_entries sync)" by (simp add: ascending_filter ascending_journal)
  assume "e \<in> set (sy_entries sync)"
  with good' sync show "applicable reg (fetch_instance ?pub) e"
    by (simp add: q subject_local_publisher_def local_applicable)
qed

interpretation sp: journal_publisher
  "\<lambda>(env, stamps, s, su). subject_publisher env stamps s su"
  "\<lambda>reg (env, stamps, s, su). good_publisher reg (sb_inner s)"
proof unfold_locales
  fix reg and q :: "'s audit_env \<times> (nat \<Rightarrow> stamp) \<times> 's secured_broker \<times> subject_attributes" and since sync e
  obtain env stamps s su where q: "q = (env, stamps, s, su)" by (cases q)
  let ?good = "case q of (env, stamps, s, su) \<Rightarrow> good_publisher reg (sb_inner s)"
  let ?pub = "case q of (env, stamps, s, su) \<Rightarrow> subject_publisher env stamps s su"
  show "?good \<Longrightarrow> \<exists>sync. fetch_sync ?pub since = Ok sync" by (simp add: q subject_publisher_def)
  assume good: ?good and "fetch_sync ?pub since = Ok sync"
  then have sync: "sy_entries sync = filter (\<lambda>e. since < je_sequence e \<and>
      (je_operation e = IesDeleteObject \<or> readable_by s su (je_oid e))) (br_journal (sb_inner s))"
    by (auto simp: q subject_publisher_def sync_since_as_eq)
  from good have good': "good_publisher reg (sb_inner s)" by (simp add: q)
  with sync show "ascending (sy_entries sync)" by (simp add: ascending_filter ascending_journal)
  assume e: "e \<in> set (sy_entries sync)"
  with good' sync have app: "applicable reg (local_fetch (sb_inner s)) e" by (simp add: local_applicable)
  show "applicable reg (fetch_instance ?pub) e"
  proof (cases "je_operation e")
    case IesPutObject
    with e sync obtain i where i: "get_by_oid (je_oid e) (sb_inner s) = Ok i" "may_access s su OpRead i"
      by (auto simp: readable_by_def)
    then have "local_fetch (sb_inner s) (je_oid e) = Ok i" by (simp add: local_fetch_def get_by_oid_Ok_iff)
    moreover have "fst (get_by_oid_as env (stamps 0) su (je_oid e) s) = Ok i"
      using i by (simp add: get_by_oid_as_Ok_iff)
    ultimately show ?thesis using app IesPutObject by (simp add: q subject_publisher_def applicable_def)
  qed (use app in \<open>simp_all add: applicable_def\<close>)
qed

section \<open>A consumer of a subject's view\<close>

lemma reachable_registry: "reachable reg b \<Longrightarrow> br_registry b = reg"
  by (induction rule: reachable.induct)
    (auto simp: broker_new_def put_object_Ok_iff delete_object_Ok_iff apply_entry_from_def apply_remote_entry_def
      apply_put_entry_Ok_iff apply_delete_entry_eq split: ies_operation.splits option.splits)

lemma reachable_good: "reachable reg p \<Longrightarrow> length (br_journal p) < 2 ^ 64 \<Longrightarrow> good_publisher reg p"
  by (simp add: good_publisher_def reachable_wf reachable_registry)

lemma last_op_filter:
  "last_op (filter P es) oid = map_option je_operation (find (\<lambda>e. je_oid e = oid \<and> P e) (rev es))"
  unfolding last_op_def by (induction es rule: rev_induct) auto

lemma last_op_journal_put:
  assumes "broker_wf p"
  shows "last_op (br_journal p) oid = Some IesPutObject \<longleftrightarrow> is_ok (get_by_oid oid p)"
proof -
  have "op = IesPutObject \<or> op = IesDeleteObject" if "last_op (br_journal p) oid = Some op" for op
    using that assms by (auto simp: last_op_def broker_wf_def dest!: find_SomeD)
  then show ?thesis
    using assms
    by (cases "last_op (br_journal p) oid")
      (auto simp: is_ok_iff get_by_oid_Ok_iff broker_wf_def broker_contains_def im_contains_def broker_get_def)
qed

definition visible_to :: "'s secured_broker \<Rightarrow> subject_attributes \<Rightarrow> journal_entry \<Rightarrow> bool" where
  "visible_to s su e \<longleftrightarrow> je_operation e = IesDeleteObject \<or> readable_by s su (je_oid e)"

lemma last_op_visible:
  assumes "broker_wf (sb_inner s)"
  shows "last_op (filter (visible_to s su) (br_journal (sb_inner s))) oid = Some op \<longrightarrow>
     op = IesDeleteObject \<or> op = IesPutObject"
    and "last_op (filter (visible_to s su) (br_journal (sb_inner s))) oid = Some IesPutObject \<longleftrightarrow> readable_by s su oid"
proof -
  let ?j = "br_journal (sb_inner s)"
  show "last_op (filter (visible_to s su) ?j) oid = Some op \<longrightarrow> op = IesDeleteObject \<or> op = IesPutObject"
    using assms by (auto simp: last_op_filter broker_wf_def dest!: find_SomeD)
  show "last_op (filter (visible_to s su) ?j) oid = Some IesPutObject \<longleftrightarrow> readable_by s su oid"
  proof (cases "readable_by s su oid")
    case True
    then have "(\<lambda>e. je_oid e = oid \<and> visible_to s su e) = (\<lambda>e. je_oid e = oid)"
      by (auto simp: visible_to_def)
    moreover have "last_op ?j oid = Some IesPutObject"
      using True last_op_journal_put [OF assms] by (auto simp: readable_by_def is_ok_iff)
    ultimately show ?thesis using True by (simp add: last_op_filter) (simp add: last_op_def)
  next
    case False
    then show ?thesis by (auto simp: last_op_filter visible_to_def dest!: find_SomeD)
  qed
qed

lemma fresh_reads_nothing [simp]: "get_by_oid oid (broker_new reg) \<noteq> Ok i" "broker_get (broker_new reg) oid = None"
  by (simp_all add: get_by_oid_def broker_new_def broker_get_def)

text \<open>Pulling a subject's view locally or through its two remote operations comes to the same.\<close>

lemma remote_pull_is_local_pull:
  assumes "good_publisher (br_registry c) (sb_inner s)"
  shows "pull_and_apply_remote (subject_publisher env stamps s su) since c =
     fst (pull_and_apply_for_subject env stamps s su since c)"
proof -
  let ?sync = "fst (sync_since_as env stamps su since s)"
  let ?todo = "filter (\<lambda>e. br_applied_sequence c < je_sequence e) (sy_entries ?sync)"
  let ?remote = "\<lambda>oid. fst (get_by_oid_as env (stamps 0) su oid s)"
  have same: "entry_effect ?remote e = entry_effect (local_fetch (sb_inner s)) e" if "e \<in> set ?todo" for e
  proof (cases "je_operation e = IesPutObject")
    case True
    with that obtain i where "get_by_oid (je_oid e) (sb_inner s) = Ok i" "may_access s su OpRead i"
      by (auto simp: sync_since_as_eq readable_by_def)
    then have "?remote (je_oid e) = Ok i" and "local_fetch (sb_inner s) (je_oid e) = Ok i"
      by (simp_all add: get_by_oid_as_Ok_iff) (simp add: local_fetch_def get_by_oid_Ok_iff)
    then show ?thesis by (intro ext) (simp add: entry_effect_def)
  qed (intro ext, simp add: entry_effect_def)
  have "fold (entry_effect ?remote) ?todo c = fold (entry_effect (local_fetch (sb_inner s))) ?todo c"
    by (rule fold_cong) (use same in auto)
  moreover note sp.pull_applies [of c "(env, stamps, s, su)" since]
    slp.pull_applies [of c "(env, stamps, s, su)" since]
  ultimately show ?thesis
    using assms by (simp add: subject_publisher_def subject_local_publisher_def pull_for_subject Let_def)
qed

text \<open>
  C10: a new consumer that pulls the journal of a publisher as a subject ends up with exactly that
  subject's view: the pull succeeds and skips nothing, the consumer then reads an object exactly when
  the subject may read it at the publisher, with the same content, and it stores no object, hidden or
  not, that the subject may not read; pulling through the remote operations gives the same consumer.
\<close>

theorem replica_is_the_subjects_view:
  assumes "reachable reg (sb_inner s)" and "length (br_journal (sb_inner s)) < 2 ^ 64"
  shows "\<exists>report c. fst (pull_and_apply_for_subject env stamps s su 0 (broker_new reg)) = Some (Ok report, c) \<and>
     pull_and_apply_remote (subject_publisher env stamps s su) 0 (broker_new reg) = Some (Ok report, c) \<and>
     ra_skipped report = 0 \<and>
     (\<forall>oid i. get_by_oid oid c = Ok i \<longleftrightarrow> fst (get_by_oid_as env st su oid s) = Ok i) \<and>
     (\<forall>oid i. broker_get c oid = Some i \<longrightarrow> may_access s su OpRead i)"
proof -
  let ?p = "sb_inner s" and ?new = "broker_new reg"
  let ?es = "filter (visible_to s su) (br_journal ?p)"
  let ?c = "fold (entry_effect (local_fetch ?p)) ?es ?new"
  have good: "good_publisher reg ?p" by (rule reachable_good [OF assms])
  then have good_c0: "good_publisher (br_registry ?new) ?p" by (simp add: broker_new_def)
  have wf: "broker_wf ?p" using good by (simp add: good_publisher_def)
  have pos: "0 < je_sequence e" if "e \<in> set (br_journal ?p)" for e
    using that good_sequence [OF good] by (auto simp: in_set_conv_nth word_less_nat_alt)
  have entries: "sy_entries (fst (sync_since_as env stamps su 0 s)) = ?es"
    using pos by (auto simp: sync_since_as_eq visible_to_def intro!: filter_cong)
  moreover have "filter (\<lambda>e. br_applied_sequence ?new < je_sequence e) ?es = ?es"
    using pos by (intro filter_True) (simp add: broker_new_def)
  ultimately have pull: "fst (pull_and_apply_for_subject env stamps s su 0 ?new) =
      Some (Ok \<lparr>ra_applied = length ?es, ra_skipped = 0,
                ra_latest_sequence = sy_latest_sequence (fst (sync_since_as env stamps su 0 s))\<rparr>, ?c)"
    using slp.pull_applies [of ?new "(env, stamps, s, su)" 0] good_c0
    by (simp add: pull_for_subject subject_local_publisher_def Let_def)
  have app: "\<forall>e \<in> set ?es. applicable reg (local_fetch ?p) e" using local_applicable [OF good] by auto
  have "get_by_oid oid ?c = Ok i \<longleftrightarrow> fst (get_by_oid_as env st su oid s) = Ok i" for oid i
  proof -
    have "get_by_oid oid ?c = Ok i \<longleftrightarrow> readable_by s su oid \<and> local_fetch ?p oid = Ok i"
      using last_op_visible [OF wf, of su oid]
      by (auto simp: fold_effect_reads [OF app] read_after_def split: option.splits)
    then show ?thesis
      by (auto simp: get_by_oid_as_Ok_iff readable_by_def local_fetch_def get_by_oid_Ok_iff)
  qed
  moreover have "may_access s su OpRead i" if "broker_get ?c oid = Some i" for oid i
    using fold_effect_stored [OF app that]
    by (auto simp: visible_to_def readable_by_def local_fetch_def get_by_oid_Ok_iff)
  ultimately show ?thesis
    using pull remote_pull_is_local_pull [OF good_c0] by auto
qed

theorem replica_is_the_subjects_view_witness:
  "\<forall>env stamps. \<exists>report c. fst (pull_and_apply_for_subject env stamps (marked_view ''RESTRICTED'') analyst 0
       (broker_new line_registry)) = Some (Ok report, c) \<and>
     get_by_oid (mi_oid sample_instance) c = Ok (marked_instance ''RESTRICTED'')"
proof (intro allI)
  fix env :: "unit audit_env" and stamps :: "nat \<Rightarrow> stamp"
  let ?s = "marked_view ''RESTRICTED''" and ?i = "marked_instance ''RESTRICTED''"
  obtain r where "put_object ?i (broker_new line_registry) = Some (Ok (r, sb_inner ?s))"
    using marked_accepted [of "''RESTRICTED''"] by (simp add: put_object_Ok_iff) (simp add: broker_new_def)
  then have "reachable line_registry (sb_inner ?s)" by (rule reach_put [OF reach_new])
  moreover have "length (br_journal (sb_inner ?s)) < 2 ^ 64" by (simp add: broker_new_def)
  moreover have "fst (get_by_oid_as env (stamps 0) analyst (mi_oid sample_instance) ?s) = Ok ?i"
    using may_access_marked [of OpRead Restricted "''RESTRICTED''"] by (simp add: get_by_oid_as_Ok_iff)
  ultimately show "\<exists>report c. fst (pull_and_apply_for_subject env stamps ?s analyst 0 (broker_new line_registry)) =
       Some (Ok report, c) \<and> get_by_oid (mi_oid sample_instance) c = Ok ?i"
    using replica_is_the_subjects_view [of line_registry ?s env stamps analyst] by blast
qed

section \<open>A replica that follows its publisher\<close>

text \<open>Any interleaving of operations at the publisher with pulls that resume at or before the last
  applied entry.\<close>

inductive session :: "model_registry \<Rightarrow> exchange_broker \<Rightarrow> exchange_broker \<Rightarrow> bool" for reg where
  session_new: "session reg (broker_new reg) (broker_new reg)"
| session_put: "session reg p c \<Longrightarrow> put_object i p = Some (Ok (r, p')) \<Longrightarrow> session reg p' c"
| session_delete: "session reg p c \<Longrightarrow> delete_object oid p = Ok (dr, p') \<Longrightarrow> session reg p' c"
| session_pull: "session reg p c \<Longrightarrow> since \<le> br_applied_sequence c \<Longrightarrow>
    pull_and_apply p since c = Some (res, c') \<Longrightarrow> session reg p c'"

definition pending :: "exchange_broker \<Rightarrow> exchange_broker \<Rightarrow> journal_entry list" where
  "pending p c = filter (\<lambda>e. br_applied_sequence c < je_sequence e) (br_journal p)"

definition follows :: "exchange_broker \<Rightarrow> exchange_broker \<Rightarrow> bool" where
  "follows p c \<longleftrightarrow>
     br_applied_sequence c \<le> br_sequence p \<and>
     (\<forall>oid. oid \<notin> je_oid ` set (pending p c) \<longrightarrow>
        (\<forall>i. get_by_oid oid c = Ok i \<longleftrightarrow> get_by_oid oid p = Ok i))"

lemma pull_pending:
  assumes "good_publisher (br_registry c) p" and "since \<le> br_applied_sequence c"
  shows "\<exists>skipped. pull_and_apply p since c =
     Some (Ok \<lparr>ra_applied = length (pending p c), ra_skipped = skipped, ra_latest_sequence = br_sequence p\<rparr>,
           fold (entry_effect (local_fetch p)) (pending p c) c)"
proof -
  have "filter (\<lambda>e. br_applied_sequence c < je_sequence e) (sy_entries (sync_since p since)) = pending p c"
    using assms(2) by (auto simp: sync_since_def pending_def intro!: filter_cong)
  with lp.pull_applies [OF assms(1), of since] show ?thesis
    by (simp add: pull_local) (simp add: local_publisher_def sync_since_def Let_def)
qed

lemma last_sequence:
  assumes "good_publisher reg p"
  shows "br_journal p = [] \<Longrightarrow> br_sequence p = 0"
    and "br_journal p \<noteq> [] \<Longrightarrow> je_sequence (last (br_journal p)) = br_sequence p"
proof -
  have n: "unat (br_sequence p) = length (br_journal p)"
    using assms by (simp add: good_publisher_def broker_wf_def numbered_def max_seq_def)
  show "br_journal p = [] \<Longrightarrow> br_sequence p = 0" using n by (simp add: unat_eq_zero)
  assume ne: "br_journal p \<noteq> []"
  then have "unat (je_sequence (last (br_journal p))) = unat (br_sequence p)"
    using good_sequence [OF assms, of "length (br_journal p) - 1"] n by (simp add: last_conv_nth)
  then show "je_sequence (last (br_journal p)) = br_sequence p" by (simp add: word_unat_eq_iff)
qed

lemma ascending_split:
  assumes "ascending es"
  shows "\<exists>ys. es = ys @ filter (\<lambda>e. n < je_sequence e) es"
  using assms
proof (induction es)
  case (Cons e es)
  show ?case
  proof (cases "n < je_sequence e")
    case True
    with Cons.prems have "filter (\<lambda>e. n < je_sequence e) (e # es) = e # es"
      by (intro filter_True) (auto simp: ascending_def)
    then show ?thesis by (intro exI [of _ "[]"]) simp
  next
    case False
    with Cons.IH Cons.prems obtain ys where "es = ys @ filter (\<lambda>e. n < je_sequence e) es"
      by (auto simp: ascending_def)
    with False show ?thesis by (intro exI [of _ "e # ys"]) simp
  qed
qed simp

lemma last_op_append:
  "last_op (ys @ zs) oid = (case last_op zs oid of None \<Rightarrow> last_op ys oid | Some op \<Rightarrow> Some op)"
  by (simp add: last_op_def find_append split: option.split)

lemma pending_split: "good_publisher reg p \<Longrightarrow> \<exists>ys. br_journal p = ys @ pending p c"
  unfolding pending_def by (rule ascending_split) (rule ascending_journal)

lemma pull_reaches:
  assumes "good_publisher reg p" and "br_applied_sequence c \<le> br_sequence p"
  shows "br_applied_sequence (fold (entry_effect fetch) (pending p c) c) = br_sequence p"
proof (cases "pending p c = []")
  case True
  have "br_sequence p \<le> br_applied_sequence c"
  proof (cases "br_journal p = []")
    case False
    then have "last (br_journal p) \<in> set (br_journal p)" by simp
    with True have "\<not> br_applied_sequence c < je_sequence (last (br_journal p))"
      unfolding pending_def filter_empty_conv by blast
    then show ?thesis using last_sequence(2) [OF assms(1) False] by simp
  qed (use last_sequence(1) [OF assms(1)] in simp)
  with assms(2) True show ?thesis by simp
next
  case False
  from pending_split [OF assms(1)] obtain ys where ys: "br_journal p = ys @ pending p c" by blast
  with False have "last (pending p c) = last (br_journal p)" and "br_journal p \<noteq> []"
    by (metis last_appendR) (use ys False in auto)
  with False show ?thesis
    using last_sequence(2) [OF assms(1)] by (simp add: fold_effect_applied)
qed

lemma nothing_pending:
  assumes "good_publisher reg p" and "br_applied_sequence c = br_sequence p"
  shows "pending p c = []"
proof -
  have "je_sequence e \<le> br_sequence p" if e: "e \<in> set (br_journal p)" for e
  proof -
    from e obtain k where k: "k < length (br_journal p)" "e = br_journal p ! k" by (auto simp: in_set_conv_nth)
    moreover have "unat (br_sequence p) = length (br_journal p)"
      using assms(1) by (simp add: good_publisher_def broker_wf_def numbered_def max_seq_def)
    ultimately show ?thesis using good_sequence [OF assms(1) k(1)] by (simp add: word_le_nat_alt)
  qed
  then show ?thesis using assms(2) by (auto simp: pending_def filter_empty_conv not_less)
qed

lemma pull_agrees:
  assumes good: "good_publisher reg p" and "follows p c"
  shows "get_by_oid oid (fold (entry_effect (local_fetch p)) (pending p c) c) = Ok i \<longleftrightarrow> get_by_oid oid p = Ok i"
proof -
  have app: "\<forall>e \<in> set (pending p c). applicable reg (local_fetch p) e"
    using local_applicable [OF good] by (auto simp: pending_def)
  from pending_split [OF good] obtain ys where ys: "br_journal p = ys @ pending p c" by blast
  have wf: "broker_wf p" using good by (simp add: good_publisher_def)
  have "read_after (local_fetch p) (pending p c) c oid i \<longleftrightarrow> get_by_oid oid p = Ok i"
  proof (cases "last_op (pending p c) oid")
    case None
    then have "oid \<notin> je_oid ` set (pending p c)" by (simp only: last_op_None_iff not_False_eq_True)
    with assms(2) have "get_by_oid oid c = Ok i \<longleftrightarrow> get_by_oid oid p = Ok i" unfolding follows_def by blast
    then show ?thesis by (simp add: read_after_def None)
  next
    case (Some op)
    then have "last_op (br_journal p) oid = Some op" by (subst ys) (simp add: last_op_append)
    then have "op = IesPutObject \<longleftrightarrow> is_ok (get_by_oid oid p)"
      using last_op_journal_put [OF wf, of oid] by auto
    with Some show ?thesis
      by (auto simp: read_after_def local_fetch_def is_ok_iff get_by_oid_Ok_iff)
  qed
  then show ?thesis by (simp add: fold_effect_reads [OF app])
qed

lemma follows_operation:
  assumes "good_publisher reg p'" and "follows p c"
    and "br_journal p' = br_journal p @ [e]"
    and "br_sequence p \<le> br_sequence p'" and "br_applied_sequence c < je_sequence e"
    and "\<And>oid i. oid \<noteq> je_oid e \<Longrightarrow> get_by_oid oid p' = Ok i \<longleftrightarrow> get_by_oid oid p = Ok i"
  shows "follows p' c"
  using assms unfolding follows_def pending_def by auto

lemma saturating_inc_less:
  fixes n :: u64
  assumes "unat n < 2 ^ 64 - 1"
  shows "n < saturating_inc n"
  using assms by (simp add: word_less_nat_alt unat_saturating_inc)

definition session_inv :: "model_registry \<Rightarrow> exchange_broker \<Rightarrow> exchange_broker \<Rightarrow> bool" where
  "session_inv reg p c \<longleftrightarrow>
     reachable reg p \<and> (length (br_journal p) < 2 ^ 64 \<longrightarrow> br_registry c = reg \<and> follows p c)"

lemma follows_snoc:
  assumes inv: "session_inv reg p c" and reach: "reachable reg p'"
    and jrn: "br_journal p' = br_journal p @ [\<lparr>je_sequence = saturating_inc (br_sequence p), je_operation = op, je_oid = d\<rparr>]"
    and seq: "br_sequence p' = saturating_inc (br_sequence p)"
    and other: "\<And>oid i. oid \<noteq> d \<Longrightarrow> get_by_oid oid p' = Ok i \<longleftrightarrow> get_by_oid oid p = Ok i"
  shows "session_inv reg p' c"
proof -
  have "follows p' c" if len: "length (br_journal p') < 2 ^ 64"
  proof (rule follows_operation [OF reachable_good [OF reach len] _ jrn])
    have len_p: "length (br_journal p) < 2 ^ 64 - 1" using len jrn by simp
    then have good: "good_publisher reg p" using inv by (intro reachable_good) (simp_all add: session_inv_def)
    then have "unat (br_sequence p) = length (br_journal p)"
      by (simp add: good_publisher_def broker_wf_def numbered_def max_seq_def)
    then have less: "br_sequence p < saturating_inc (br_sequence p)"
      using len_p by (intro saturating_inc_less) simp
    then show "br_sequence p \<le> br_sequence p'" by (simp add: seq)
    show f: "follows p c" using inv len_p by (simp add: session_inv_def)
    then show "br_applied_sequence c < je_sequence \<lparr>je_sequence = saturating_inc (br_sequence p), je_operation = op, je_oid = d\<rparr>"
      using less by (auto simp: follows_def)
  qed (use other in simp)
  then show ?thesis using inv reach jrn by (simp add: session_inv_def)
qed

lemma follows_pull:
  assumes "good_publisher reg p" and "br_registry c = reg" and "follows p c"
  shows "follows p (fold (entry_effect (local_fetch p)) (pending p c) c)"
proof -
  let ?c = "fold (entry_effect (local_fetch p)) (pending p c) c"
  have "br_applied_sequence ?c = br_sequence p"
    using assms by (intro pull_reaches) (simp_all add: follows_def)
  then show ?thesis
    using pull_agrees [OF assms(1,3)] by (simp add: follows_def)
qed

lemma session_inv: "session reg p c \<Longrightarrow> session_inv reg p c"
proof (induction rule: session.induct)
  case session_new
  then show ?case by (simp add: session_inv_def reach_new follows_def) (simp add: broker_new_def)
next
  case (session_put p c i r p')
  then have "reachable reg p'" by (auto simp: session_inv_def intro: reach_put)
  with session_put show ?case
    by (intro follows_snoc [of reg p c p' IesPutObject "mi_oid i"])
      (auto simp: put_object_Ok_iff get_by_oid_put_state)
next
  case (session_delete p c oid dr p')
  then have "reachable reg p'" by (auto simp: session_inv_def intro: reach_delete)
  with session_delete show ?case
    by (intro follows_snoc [of reg p c p' IesDeleteObject oid])
      (auto simp: delete_object_Ok_iff get_by_oid_Ok_iff)
next
  case (session_pull p c since res c')
  show ?case
  proof (cases "length (br_journal p) < 2 ^ 64")
    case True
    with session_pull.IH have good: "good_publisher reg p" and "follows p c" and reg: "br_registry c = reg"
      by (auto simp: session_inv_def intro: reachable_good)
    moreover from this obtain skipped where "pull_and_apply p since c =
        Some (Ok \<lparr>ra_applied = length (pending p c), ra_skipped = skipped, ra_latest_sequence = br_sequence p\<rparr>,
              fold (entry_effect (local_fetch p)) (pending p c) c)"
      using pull_pending [of c p since] session_pull.hyps by auto
    ultimately show ?thesis
      using session_pull.IH session_pull.hyps follows_pull [OF good reg] by (simp add: session_inv_def)
  next
    case False
    with session_pull.IH show ?thesis by (simp add: session_inv_def)
  qed
qed

text \<open>
  C9: a replica that follows its publisher converges: after any interleaving of puts, deletes and
  pulls from the start, as long as the sequence numbers have not run out, a pull that resumes at or
  before the consumer's last applied entry succeeds and makes the consumer read exactly what the
  publisher reads, object by object; pulling again, from anywhere, applies nothing and changes nothing.
\<close>

theorem replica_converges:
  assumes "session reg p c" and "since \<le> br_applied_sequence c" and "length (br_journal p) < 2 ^ 64"
  shows "\<exists>report c'. pull_and_apply p since c = Some (Ok report, c') \<and>
     (\<forall>oid i. get_by_oid oid c' = Ok i \<longleftrightarrow> get_by_oid oid p = Ok i) \<and>
     br_applied_sequence c' = br_sequence p \<and> ra_latest_sequence report = br_sequence p \<and>
     (\<forall>since'. \<exists>again. pull_and_apply p since' c' = Some (Ok again, c') \<and> ra_applied again = 0)"
proof -
  let ?c = "fold (entry_effect (local_fetch p)) (pending p c) c"
  have inv: "session_inv reg p c" by (rule session_inv [OF assms(1)])
  with assms(3) have good: "good_publisher reg p" and reg: "br_registry c = reg" and follows: "follows p c"
    by (auto simp: session_inv_def intro: reachable_good)
  have applied: "br_applied_sequence ?c = br_sequence p"
    using good follows by (intro pull_reaches) (simp_all add: follows_def)
  have again: "\<exists>report. pull_and_apply p since' ?c = Some (Ok report, ?c) \<and> ra_applied report = 0" for since'
  proof -
    have "filter (\<lambda>e. br_applied_sequence ?c < je_sequence e) (sy_entries (sync_since p since')) = []"
      using nothing_pending [OF good applied] by (auto simp: sync_since_def pending_def filter_empty_conv)
    with lp.pull_applies [of ?c p since'] good reg show ?thesis
      by (simp add: pull_local) (simp add: local_publisher_def Let_def)
  qed
  show ?thesis
    using pull_pending [of c p since] assms(2) good reg pull_agrees [OF good follows] applied again by auto
qed

theorem replica_converges_witness:
  "\<exists>report c. pull_and_apply (put_state sample_instance (broker_new line_registry)) 0 (broker_new line_registry) =
       Some (Ok report, c) \<and> get_by_oid (mi_oid sample_instance) c = Ok sample_instance"
proof -
  let ?p = "put_state sample_instance (broker_new line_registry)"
  obtain r where "put_object sample_instance (broker_new line_registry) = Some (Ok (r, ?p))"
    using sample_put by blast
  then have "session line_registry ?p (broker_new line_registry)" by (rule session_put [OF session_new])
  from replica_converges [OF this, of 0] show ?thesis
    by (auto simp: get_by_oid_put_state) (auto simp: broker_new_def)
qed

end
