(* ===== verification/Persistence.thy ===== *)
theory Persistence
  imports Replication
begin

text \<open>
  Crate \<open>mim-transport\<close>, \<open>persistence.rs\<close>: the snapshot file of a broker and the journal file beside
  it. A file is its content if it exists, the JSON encodings are a codec, and the members of the
  inactive set in the order the hash set iterates over them are a parameter. File-system errors are not modelled.
\<close>

record exchange_snapshot =
  sn_model_version :: string
  sn_instances :: "mim_instance list"
  sn_inactive :: "object_identifier list"
  sn_journal :: "journal_entry list"
  sn_sequence :: u64
  sn_applied_sequence :: u64

record store_codec =
  sc_snapshot_json :: "exchange_snapshot \<Rightarrow> string + string"
  sc_snapshot_parse :: "string \<Rightarrow> string + exchange_snapshot"
  sc_entry_json :: "journal_entry \<Rightarrow> string + string"
  sc_entry_parse :: "string \<Rightarrow> string + journal_entry"

definition snapshot_of :: "object_identifier list \<Rightarrow> exchange_broker \<Rightarrow> exchange_snapshot" where
  "snapshot_of inactive b =
     \<lparr>sn_model_version = mr_version (br_registry b), sn_instances = broker_instances b,
      sn_inactive = inactive, sn_journal = br_journal b, sn_sequence = br_sequence b,
      sn_applied_sequence = br_applied_sequence b\<rparr>"

definition exchange_save ::
  "store_codec \<Rightarrow> object_identifier list \<Rightarrow> exchange_broker \<Rightarrow> transport_error + string" where
  "exchange_save sc inactive b = map_err TeSerialization (sc_snapshot_json sc (snapshot_of inactive b))"

definition exchange_load ::
  "store_codec \<Rightarrow> model_registry \<Rightarrow> string option \<Rightarrow> transport_error + exchange_broker" where
  "exchange_load sc reg file =
     (case file of
        None \<Rightarrow> Ok (broker_new reg)
      | Some content \<Rightarrow>
          and_then (map_err TeSerialization (sc_snapshot_parse sc content)) (\<lambda>sn.
            if sn_model_version sn \<noteq> mr_version reg then
              Err (TeValidation (''snapshot model version '' @ sn_model_version sn @
                     '' does not match registry '' @ mr_version reg))
            else
              Ok (from_snapshot reg (sn_instances sn) (sn_inactive sn) (sn_journal sn) (sn_sequence sn)
                    (if sn_applied_sequence sn = 0 then sn_sequence sn else sn_applied_sequence sn))))"

definition append_journal_entry :: "store_codec \<Rightarrow> journal_entry \<Rightarrow> string option \<Rightarrow> transport_error + string" where
  "append_journal_entry sc e file =
     and_then (map_err TeSerialization (sc_entry_json sc e)) (\<lambda>line.
       Ok ((case file of None \<Rightarrow> [] | Some content \<Rightarrow> content) @ line @ [CHR 0x0A]))"

definition read_journal_since :: "store_codec \<Rightarrow> u64 \<Rightarrow> string option \<Rightarrow> transport_error + journal_entry list" where
  "read_journal_since sc since file =
     (case file of
        None \<Rightarrow> Ok []
      | Some content \<Rightarrow>
          and_then (try_map (\<lambda>line. map_err TeSerialization (sc_entry_parse sc line))
                      (filter (\<lambda>line. trim line \<noteq> []) (read_lines content)))
            (\<lambda>es. Ok (filter (\<lambda>e. since < je_sequence e) es)))"

fun append_entries :: "store_codec \<Rightarrow> journal_entry list \<Rightarrow> string option \<Rightarrow> transport_error + string option" where
  "append_entries sc [] file = Ok file"
| "append_entries sc (e # es) file =
     and_then (append_journal_entry sc e file) (\<lambda>content. append_entries sc es (Some content))"

section \<open>The codec contract\<close>

definition store_codec_laws :: "store_codec \<Rightarrow> bool" where
  "store_codec_laws sc \<longleftrightarrow>
     (\<forall>sn t. sc_snapshot_json sc sn = Ok t \<longrightarrow> sc_snapshot_parse sc t = Ok sn) \<and>
     (\<forall>e l. sc_entry_json sc e = Ok l \<longrightarrow> sc_entry_parse sc l = Ok e \<and> line_text l \<and> trim l \<noteq> [])"

lemma store_recollects:
  assumes "broker_wf b"
  shows "im_collect (map (\<lambda>i. (mi_oid i, i)) (broker_instances b)) = br_store b"
proof -
  have keyed: "keyed_by mi_oid (br_store b)" using assms by (simp add: broker_wf_def)
  have "map (\<lambda>i. (mi_oid i, i)) (broker_instances b) = br_store b"
    using keyed by (auto simp: broker_instances_def im_values_def keyed_by_def intro!: map_idI)
  then show ?thesis using keyed by (simp add: im_collect_distinct keyed_by_def im_wf_def)
qed

definition reloaded :: "exchange_broker \<Rightarrow> exchange_broker" where
  "reloaded b =
     b\<lparr>br_applied_sequence := (if br_applied_sequence b = 0 then br_sequence b else br_applied_sequence b)\<rparr>"

lemma save_load:
  assumes "store_codec_laws sc" and "set inactive = br_inactive b" and "broker_wf b"
    and "exchange_save sc inactive b = Ok content"
  shows "exchange_load sc (br_registry b) (Some content) = Ok (reloaded b)"
proof -
  have "sc_snapshot_parse sc content = Ok (snapshot_of inactive b)"
    using assms(1,4) by (auto simp: exchange_save_def store_codec_laws_def)
  then show ?thesis
    using store_recollects [OF assms(3)] assms(2)
    by (simp add: exchange_load_def snapshot_of_def from_snapshot_def reloaded_def)
qed

text \<open>
  C32: a broker saved to its file and loaded again with the same registry comes back exactly, in its
  stored order, whatever the order its hash set was listed in, except for the applied sequence of a
  broker that has applied nothing: that becomes its own sequence. A registry of another version is
  refused, and a missing file gives an empty broker.
\<close>

theorem save_load_round_trip:
  assumes "store_codec_laws sc" and "set inactive = br_inactive b" and "reachable reg b"
    and "exchange_save sc inactive b = Ok content"
  shows "(\<exists>b'. exchange_load sc reg (Some content) = Ok b' \<and>
        b'\<lparr>br_applied_sequence := br_applied_sequence b\<rparr> = b \<and>
        (b' = b \<longleftrightarrow> br_applied_sequence b \<noteq> 0 \<or> br_sequence b = 0)) \<and>
     (\<forall>reg' :: model_registry. mr_version reg' \<noteq> mr_version reg \<longrightarrow> \<not> is_ok (exchange_load sc reg' (Some content))) \<and>
     exchange_load sc reg None = Ok (broker_new reg)"
proof (intro conjI allI impI)
  have reg: "br_registry b = reg" by (rule reachable_registry [OF assms(3)])
  have "exchange_load sc reg (Some content) = Ok (reloaded b)"
    using save_load [OF assms(1,2) reachable_wf [OF assms(3)] assms(4)] reg by simp
  moreover have "reloaded b = b \<longleftrightarrow> br_applied_sequence b \<noteq> 0 \<or> br_sequence b = 0"
    by (cases b) (auto simp: reloaded_def)
  ultimately show "\<exists>b'. exchange_load sc reg (Some content) = Ok b' \<and>
      b'\<lparr>br_applied_sequence := br_applied_sequence b\<rparr> = b \<and>
      (b' = b \<longleftrightarrow> br_applied_sequence b \<noteq> 0 \<or> br_sequence b = 0)"
    by (intro exI [of _ "reloaded b"]) (simp add: reloaded_def)
  fix reg' :: model_registry assume "mr_version reg' \<noteq> mr_version reg"
  moreover have "sc_snapshot_parse sc content = Ok (snapshot_of inactive b)"
    using assms(1,4) by (auto simp: exchange_save_def store_codec_laws_def)
  ultimately show "\<not> is_ok (exchange_load sc reg' (Some content))"
    using reg by (simp add: exchange_load_def snapshot_of_def)
qed (simp add: exchange_load_def)

definition sample_snapshot :: exchange_snapshot where
  "sample_snapshot = snapshot_of [] (put_state sample_instance (broker_new line_registry))"

definition sample_store_codec :: store_codec where
  "sample_store_codec =
     \<lparr>sc_snapshot_json = (\<lambda>sn. if sn = sample_snapshot then Ok ''{}'' else Err ''unsupported''),
      sc_snapshot_parse = (\<lambda>t. if t = ''{}'' then Ok sample_snapshot else Err ''syntax''),
      sc_entry_json = (\<lambda>e. if e = \<lparr>je_sequence = 1, je_operation = IesSync, je_oid = ObjectIdentifier ''a''\<rparr>
         then Ok ''[1]'' else if e = \<lparr>je_sequence = 2, je_operation = IesSync, je_oid = ObjectIdentifier ''a''\<rparr>
         then Ok ''[2]'' else Err ''unsupported''),
      sc_entry_parse = (\<lambda>l. if l = ''[1]'' then Ok \<lparr>je_sequence = 1, je_operation = IesSync, je_oid = ObjectIdentifier ''a''\<rparr>
         else if l = ''[2]'' then Ok \<lparr>je_sequence = 2, je_operation = IesSync, je_oid = ObjectIdentifier ''a''\<rparr>
         else Err ''syntax'')\<rparr>"

lemma sample_store_laws: "store_codec_laws sample_store_codec"
proof -
  have "trim ''[1]'' = ''[1]''" and "trim ''[2]'' = ''[2]''"
    by (rule trim_id; simp add: ws_lead_def ws_tail_def white_space_seqs_def)+
  then show ?thesis by (auto simp: store_codec_laws_def sample_store_codec_def line_text_def)
qed

lemma sample_inactive: "set [] = br_inactive (put_state sample_instance (broker_new line_registry))"
  by (simp add: broker_new_def)

lemma sample_saved:
  "exchange_save sample_store_codec []
     (put_state sample_instance (broker_new line_registry)) = Ok ''{}''"
  by (simp add: exchange_save_def sample_store_codec_def sample_snapshot_def snapshot_of_def broker_new_def)

lemma sample_reachable: "reachable line_registry (put_state sample_instance (broker_new line_registry))"
  using sample_put by (auto intro: reach_put [OF reach_new])

theorem save_load_round_trip_witness:
  "\<exists>b. exchange_load sample_store_codec line_registry (Some ''{}'') = Ok b \<and>
     b\<lparr>br_applied_sequence := 0\<rparr> = put_state sample_instance (broker_new line_registry)"
  using save_load_round_trip [OF sample_store_laws sample_inactive sample_reachable sample_saved]
  by (auto simp: broker_new_def)

text \<open>
  A reload makes a broker that never replicated skip the beginning of a publisher's journal: with
  as many operations of its own as the publisher has, a pull from the start applies nothing after the
  reload and leaves the publisher's objects unread, while the same pull before the reload applies the
  whole journal.
\<close>

theorem reload_skips_publisher:
  assumes "store_codec_laws sc" and "set inactive = br_inactive b" and "reachable reg b"
    and "exchange_save sc inactive b = Ok content" and "br_applied_sequence b = 0"
    and "reachable reg p" and "length (br_journal p) < 2 ^ 64" and "br_sequence p \<le> br_sequence b"
  shows "\<exists>b' r r' c. exchange_load sc reg (Some content) = Ok b' \<and>
     pull_and_apply p 0 b' = Some (Ok r', b') \<and> ra_applied r' = 0 \<and>
     pull_and_apply p 0 b = Some (Ok r, c) \<and> ra_applied r = length (br_journal p)"
proof -
  have good: "good_publisher reg p" by (rule reachable_good [OF assms(6,7)])
  have reg: "br_registry b = reg" by (rule reachable_registry [OF assms(3)])
  have load: "exchange_load sc reg (Some content) = Ok (reloaded b)"
    using save_load [OF assms(1,2) reachable_wf [OF assms(3)] assms(4)] reg by simp
  have bound: "0 < je_sequence e \<and> je_sequence e \<le> br_sequence p" if "e \<in> set (br_journal p)" for e
  proof -
    from that obtain k where k: "k < length (br_journal p)" "e = br_journal p ! k" by (auto simp: in_set_conv_nth)
    moreover have "unat (br_sequence p) = length (br_journal p)"
      using good by (simp add: good_publisher_def broker_wf_def numbered_def max_seq_def)
    ultimately show ?thesis
      using good_sequence [OF good k(1)] by (simp add: word_le_nat_alt word_less_nat_alt)
  qed
  have "pending p (reloaded b) = []"
    using bound assms(5,8) by (fastforce simp: pending_def filter_empty_conv reloaded_def)
  moreover have "pending p b = br_journal p"
    using bound assms(5) by (simp add: pending_def filter_id_conv)
  moreover note pull_pending [of "reloaded b" p 0] pull_pending [of b p 0]
  ultimately show ?thesis using good reg load by (auto simp: reloaded_def)
qed

theorem reload_skips_publisher_witness:
  "\<exists>b r c. exchange_load sample_store_codec line_registry (Some ''{}'') = Ok b \<and>
     pull_and_apply (put_state sample_instance (broker_new line_registry)) 0 b = Some (Ok r, c) \<and> ra_applied r = 0"
  using reload_skips_publisher [OF sample_store_laws sample_inactive sample_reachable sample_saved _ sample_reachable]
  by (auto simp: broker_new_def)

section \<open>The journal file\<close>

definition journal_file :: "store_codec \<Rightarrow> string option \<Rightarrow> journal_entry list \<Rightarrow> bool" where
  "journal_file sc file es \<longleftrightarrow>
     (\<exists>ls. (case file of None \<Rightarrow> [] | Some c \<Rightarrow> c) = concat (map (\<lambda>l. l @ [CHR 0x0A]) ls) \<and>
        list_all2 (\<lambda>l e. sc_entry_json sc e = Ok l) ls es)"

lemma journal_file_append:
  assumes "journal_file sc fl es" and "append_journal_entry sc e fl = Ok content"
  shows "journal_file sc (Some content) (es @ [e])"
proof -
  from assms(1) obtain ls where "(case fl of None \<Rightarrow> [] | Some c \<Rightarrow> c) = concat (map (\<lambda>l. l @ [CHR 0x0A]) ls)"
    and "list_all2 (\<lambda>l e. sc_entry_json sc e = Ok l) ls es"
    unfolding journal_file_def by blast
  moreover from assms(2) obtain l where "sc_entry_json sc e = Ok l"
    and "content = (case fl of None \<Rightarrow> [] | Some c \<Rightarrow> c) @ l @ [CHR 0x0A]"
    by (auto simp: append_journal_entry_def and_then_Inr_iff)
  ultimately show ?thesis
    unfolding journal_file_def by (intro exI [of _ "ls @ [l]"]) (simp add: list_all2_appendI)
qed

lemma journal_file_entries:
  "journal_file sc fl es \<Longrightarrow> append_entries sc new fl = Ok fl' \<Longrightarrow> journal_file sc fl' (es @ new)"
proof (induction new arbitrary: fl es)
  case (Cons e new)
  then obtain content where "append_journal_entry sc e fl = Ok content"
    and "append_entries sc new (Some content) = Ok fl'"
    by (auto simp: and_then_Inr_iff)
  with Cons journal_file_append show ?case by (metis append.assoc append_Cons append_Nil)
qed simp

lemma read_journal_file:
  assumes "store_codec_laws sc" and "journal_file sc fl es"
  shows "read_journal_since sc since fl = Ok (filter (\<lambda>e. since < je_sequence e) es)"
proof (cases fl)
  case None
  with assms(2) show ?thesis by (auto simp: journal_file_def read_journal_since_def)
next
  case (Some c)
  with assms(2) obtain ls where c: "c = concat (map (\<lambda>l. l @ [CHR 0x0A]) ls)"
    and l2: "list_all2 (\<lambda>l e. sc_entry_json sc e = Ok l) ls es"
    unfolding journal_file_def by auto
  have good: "\<forall>l \<in> set ls. line_text l \<and> trim l \<noteq> []"
    using l2 assms(1) by (fastforce simp: store_codec_laws_def list_all2_conv_all_nth in_set_conv_nth)
  then have "filter (\<lambda>l. trim l \<noteq> []) (read_lines c) = ls"
    by (simp add: c read_lines_concat filter_True)
  moreover have "try_map (\<lambda>line. map_err TeSerialization (sc_entry_parse sc line)) ls = Ok es"
    unfolding try_map_Inr_iff
    using l2 assms(1) by (auto simp: store_codec_laws_def elim!: list_all2_mono)
  ultimately show ?thesis using Some by (simp add: read_journal_since_def)
qed

text \<open>
  Whatever entries were appended to the journal file, in any number of goes, reading it back from
  a sequence number gives exactly the entries above that number, in the order they were appended.
\<close>

theorem journal_file_round_trip:
  assumes "store_codec_laws sc" and "append_entries sc es None = Ok fl"
    and "append_entries sc es' fl = Ok fl'"
  shows "read_journal_since sc since fl' = Ok (filter (\<lambda>e. since < je_sequence e) (es @ es'))"
proof (rule read_journal_file [OF assms(1)])
  have "journal_file sc None []" by (simp add: journal_file_def)
  from journal_file_entries [OF this assms(2)] have "journal_file sc fl es" by simp
  from journal_file_entries [OF this assms(3)] show "journal_file sc fl' (es @ es')" .
qed

theorem journal_file_round_trip_witness:
  "read_journal_since sample_store_codec 1 (Some (''[1]'' @ [CHR 0x0A] @ ''[2]'' @ [CHR 0x0A])) =
     Ok [\<lparr>je_sequence = 2, je_operation = IesSync, je_oid = ObjectIdentifier ''a''\<rparr>]"
proof -
  let ?e = "\<lambda>n. \<lparr>je_sequence = n, je_operation = IesSync, je_oid = ObjectIdentifier ''a''\<rparr>"
  have "append_entries sample_store_codec [?e 1] None = Ok (Some (''[1]'' @ [CHR 0x0A]))"
    by (simp add: append_journal_entry_def sample_store_codec_def)
  moreover have "append_entries sample_store_codec [?e 2] (Some (''[1]'' @ [CHR 0x0A])) =
      Ok (Some (''[1]'' @ [CHR 0x0A] @ ''[2]'' @ [CHR 0x0A]))"
    by (simp add: append_journal_entry_def sample_store_codec_def)
  ultimately show ?thesis
    using journal_file_round_trip [OF sample_store_laws, of "[?e 1]" _ "[?e 2]" _ 1] by simp
qed

end
