(* ===== verification/Stanag4774.thy ===== *)
theory Stanag4774
  imports Labeling Runtime
begin

text \<open>
  Crate \<open>mim-stanag4774\<close>: the XML and JSON encodings of a confidentiality label (\<open>xml.rs\<close>, \<open>json.rs\<close>,
  \<open>xsd.rs\<close>, \<open>codec.rs\<close>). The code drives the XML library by events: it writes a list of events and
  folds over the events the reader yields. These lists are modelled exactly; the library that turns
  events into text and back, the JSON library, the RFC 3339 parser and the external validator are the
  record \<open>label_codec\<close>. A \<open>date_time\<close> is its RFC 3339 text.
\<close>

section \<open>The libraries\<close>

text \<open>A text event carries the result of \<open>unescape\<close>; the values of attributes come unescaped from the
  writer's side and raw from the reader's.\<close>

datatype xml_event =
    XDecl
  | XStart string "(string \<times> string) list"
  | XText "string + string"
  | XEnd string

record label_codec =
  lx_write :: "xml_event list \<Rightarrow> string + string"
  lx_read :: "string \<Rightarrow> (string + xml_event) list"
  lx_xmllint :: "string \<Rightarrow> string + unit"
  lx_datetime :: "string \<Rightarrow> string + date_time"
  lx_json_write :: "json \<Rightarrow> string + string"
  lx_json_read :: "string \<Rightarrow> string + json"

definition NAMESPACE :: string where
  "NAMESPACE = ''urn:nato:stanag:4774:confidentialitymetadatalabel:1:0''"

section \<open>Writing XML (\<open>xml.rs\<close>)\<close>

fun category_type_to_str :: "category_type \<Rightarrow> string" where
  "category_type_to_str CtRestrictive = ''RESTRICTIVE''"
| "category_type_to_str CtPermissive = ''PERMISSIVE''"
| "category_type_to_str CtInformative = ''INFORMATIVE''"

definition parse_category_type :: "string \<Rightarrow> category_type" where
  "parse_category_type v =
     (if eq_ignore_ascii_case v ''RESTRICTIVE'' then CtRestrictive
      else if eq_ignore_ascii_case v ''INFORMATIVE'' then CtInformative
      else CtPermissive)"

definition write_text_element :: "string \<Rightarrow> string \<Rightarrow> xml_event list" where
  "write_text_element name v = [XStart name [], XText (Ok v), XEnd name]"

definition write_optional :: "string \<Rightarrow> string option \<Rightarrow> xml_event list" where
  "write_optional name v = (case v of None \<Rightarrow> [] | Some s \<Rightarrow> write_text_element name s)"

definition write_policy :: "label_policy \<Rightarrow> xml_event list" where
  "write_policy p =
     (case lp_oid p of
        Some oid \<Rightarrow> [XStart ''PolicyIdentifier'' [(''URL'', oid)], XText (Ok (lp_identifier p)), XEnd ''PolicyIdentifier'']
      | None \<Rightarrow> write_text_element ''PolicyIdentifier'' (lp_identifier p))"

definition write_category :: "category_marking \<Rightarrow> xml_event list" where
  "write_category c =
     XStart ''Category'' [(''TagName'', cm_tag_name c), (''Type'', category_type_to_str (cm_category_type c))]
     # concat (map (write_text_element ''GenericValue'') (cm_values c)) @ [XEnd ''Category'']"

definition write_confidentiality_information :: "conf_label \<Rightarrow> xml_event list" where
  "write_confidentiality_information l =
     [XStart ''ConfidentialityInformation'' []]
     @ write_policy (cf_policy l)
     @ write_text_element ''Classification'' (as_stanag_str (cf_classification l))
     @ write_optional ''PrivacyMark'' (cf_privacy_mark l)
     @ write_optional ''Colour'' (cf_colour l)
     @ write_optional ''MarkingData'' (cf_marking_data l)
     @ concat (map write_category (cf_categories l))
     @ [XEnd ''ConfidentialityInformation'']"

definition write_alternative :: "conf_label \<Rightarrow> xml_event list" where
  "write_alternative a =
     [XStart ''alternativeConfidentialityLabel'' []] @ write_confidentiality_information a
     @ [XEnd ''alternativeConfidentialityLabel'']"

definition root_attributes :: "conf_label \<Rightarrow> (string \<times> string) list" where
  "root_attributes l =
     [(''xmlns'', NAMESPACE)]
     @ (case cf_creation_time l of None \<Rightarrow> [] | Some t \<Rightarrow> [(''CreationTime'', t)])
     @ (case cf_review_date_time l of None \<Rightarrow> [] | Some t \<Rightarrow> [(''ReviewDateTime'', t)])"

definition label_events :: "conf_label \<Rightarrow> xml_event list" where
  "label_events l =
     [XDecl, XStart ''ConfidentialityLabel'' (root_attributes l)]
     @ write_confidentiality_information l
     @ concat (map write_alternative (cf_alternative_labels l))
     @ [XEnd ''ConfidentialityLabel'']"

definition xml_serialize :: "label_codec \<Rightarrow> conf_label \<Rightarrow> label_error + string" where
  "xml_serialize lx l = map_err LeSerialization (lx_write lx (label_events l))"

section \<open>Reading XML\<close>

record reader_state =
  xr_policy :: string
  xr_policy_oid :: "string option"
  xr_classification :: string
  xr_privacy_mark :: "string option"
  xr_colour :: "string option"
  xr_marking_data :: "string option"
  xr_categories :: "category_marking list"
  xr_alternative_labels :: "conf_label list"
  xr_creation_time :: "date_time option"
  xr_review_date_time :: "date_time option"
  xr_current_category_tag :: string
  xr_current_category_type :: category_type
  xr_current_category_values :: "string list"
  xr_in_category :: bool
  xr_in_alternative :: bool
  xr_alt_policy :: string
  xr_alt_policy_oid :: "string option"
  xr_alt_classification :: string
  xr_alt_privacy :: "string option"
  xr_alt_colour :: "string option"
  xr_alt_marking :: "string option"
  xr_alt_categories :: "category_marking list"
  xr_current_element :: string

definition reader_init :: reader_state where
  "reader_init =
     \<lparr>xr_policy = [], xr_policy_oid = None, xr_classification = [], xr_privacy_mark = None, xr_colour = None,
      xr_marking_data = None, xr_categories = [], xr_alternative_labels = [], xr_creation_time = None,
      xr_review_date_time = None, xr_current_category_tag = [], xr_current_category_type = CtPermissive,
      xr_current_category_values = [], xr_in_category = False, xr_in_alternative = False, xr_alt_policy = [],
      xr_alt_policy_oid = None, xr_alt_classification = [], xr_alt_privacy = None, xr_alt_colour = None,
      xr_alt_marking = None, xr_alt_categories = [], xr_current_element = []\<rparr>"

lemma reader_init_fields [simp]:
  "xr_policy_oid reader_init = None" "xr_privacy_mark reader_init = None" "xr_colour reader_init = None"
  "xr_marking_data reader_init = None" "xr_categories reader_init = []" "xr_alternative_labels reader_init = []"
  "xr_creation_time reader_init = None" "xr_review_date_time reader_init = None" "\<not> xr_in_alternative reader_init"
  by (simp_all add: reader_init_def)

definition LABEL_WRAPPERS :: "string list" where
  "LABEL_WRAPPERS =
     [''ConfidentialityLabel'', ''originatorConfidentialityLabel'', ''metadataConfidentialityLabel'',
      ''alternativeConfidentialityLabel'']"

definition parse_datetime :: "label_codec \<Rightarrow> string \<Rightarrow> label_error + date_time" where
  "parse_datetime lx v = map_err LeParse (lx_datetime lx v)"

fun read_wrapper_attributes ::
  "label_codec \<Rightarrow> (string \<times> string) list \<Rightarrow> reader_state \<Rightarrow> label_error + reader_state" where
  "read_wrapper_attributes lx [] s = Ok s"
| "read_wrapper_attributes lx ((key, v) # attrs) s =
     and_then
       (if key = ''CreationTime'' then
          and_then (parse_datetime lx v) (\<lambda>t. Ok (s\<lparr>xr_creation_time := Some t\<rparr>))
        else if key = ''ReviewDateTime'' then
          and_then (parse_datetime lx v) (\<lambda>t. Ok (s\<lparr>xr_review_date_time := Some t\<rparr>))
        else Ok s)
       (read_wrapper_attributes lx attrs)"

definition read_policy_attribute :: "string \<times> string \<Rightarrow> reader_state \<Rightarrow> reader_state" where
  "read_policy_attribute kv s =
     (if fst kv = ''URL'' \<or> fst kv = ''URI'' then s\<lparr>xr_policy_oid := Some (snd kv)\<rparr> else s)"

definition read_category_attribute :: "string \<times> string \<Rightarrow> reader_state \<Rightarrow> reader_state" where
  "read_category_attribute kv s =
     (if fst kv = ''TagName'' then s\<lparr>xr_current_category_tag := snd kv\<rparr>
      else if fst kv = ''Type'' then s\<lparr>xr_current_category_type := parse_category_type (snd kv)\<rparr>
      else s)"

definition read_start ::
  "label_codec \<Rightarrow> string \<Rightarrow> (string \<times> string) list \<Rightarrow> reader_state \<Rightarrow> label_error + reader_state" where
  "read_start lx name attrs s =
     and_then
       (if name \<in> set LABEL_WRAPPERS then
          read_wrapper_attributes lx attrs
            (if name = ''alternativeConfidentialityLabel'' then
               s\<lparr>xr_in_alternative := True, xr_alt_policy := [], xr_alt_policy_oid := None,
                 xr_alt_classification := [], xr_alt_privacy := None, xr_alt_colour := None,
                 xr_alt_marking := None, xr_alt_categories := []\<rparr>
             else s)
        else if name = ''PolicyIdentifier'' then Ok (fold read_policy_attribute attrs s)
        else if name = ''Category'' then
          Ok (fold read_category_attribute attrs
                (s\<lparr>xr_in_category := True, xr_current_category_values := []\<rparr>))
        else Ok s)
       (\<lambda>s1. Ok (s1\<lparr>xr_current_element := name\<rparr>))"

definition read_text :: "label_codec \<Rightarrow> string \<Rightarrow> reader_state \<Rightarrow> label_error + reader_state" where
  "read_text lx text s =
     (let el = xr_current_element s; alt = xr_in_alternative s in
      if el = ''PolicyIdentifier'' then Ok (s\<lparr>xr_policy := text\<rparr>)
      else if el = ''Classification'' then
        Ok (if alt then s\<lparr>xr_alt_classification := text\<rparr> else s\<lparr>xr_classification := text\<rparr>)
      else if el = ''PrivacyMark'' then
        Ok (if alt then s\<lparr>xr_alt_privacy := Some text\<rparr> else s\<lparr>xr_privacy_mark := Some text\<rparr>)
      else if el = ''Colour'' then
        Ok (if alt then s\<lparr>xr_alt_colour := Some text\<rparr> else s\<lparr>xr_colour := Some text\<rparr>)
      else if el = ''MarkingData'' then
        Ok (if alt then s\<lparr>xr_alt_marking := Some text\<rparr> else s\<lparr>xr_marking_data := Some text\<rparr>)
      else if (el = ''GenericValues'' \<or> el = ''GenericValue'') \<and> xr_in_category s then
        Ok (s\<lparr>xr_current_category_values := xr_current_category_values s @ [text]\<rparr>)
      else if el = ''CreationDateTime'' \<or> el = ''CreationTime'' then
        and_then (parse_datetime lx text) (\<lambda>t. Ok (s\<lparr>xr_creation_time := Some t\<rparr>))
      else Ok s)"

definition current_category :: "reader_state \<Rightarrow> category_marking" where
  "current_category s =
     \<lparr>cm_tag_name = xr_current_category_tag s, cm_category_type = xr_current_category_type s,
      cm_values = xr_current_category_values s\<rparr>"

definition alternative_policy :: "reader_state \<Rightarrow> label_policy" where
  "alternative_policy s =
     (let p = label_policy_new (if xr_alt_policy s = [] then ''NATO'' else xr_alt_policy s) in
      case xr_alt_policy_oid s of Some oid \<Rightarrow> with_oid oid p | None \<Rightarrow> p)"

definition read_end :: "string \<Rightarrow> reader_state \<Rightarrow> label_error + reader_state" where
  "read_end name s =
     and_then
       (if name = ''Category'' \<and> xr_in_category s then
          Ok (s\<lparr>xr_categories := xr_categories s @ [current_category s], xr_in_category := False\<rparr>)
        else if name = ''Category'' \<and> xr_in_alternative s then
          Ok (s\<lparr>xr_alt_categories := xr_alt_categories s @ [current_category s], xr_in_category := False\<rparr>)
        else if name = ''alternativeConfidentialityLabel'' \<and> xr_in_alternative s then
          and_then
            (if xr_alt_classification s = [] then Ok s
             else and_then (classification_parse (xr_alt_classification s)) (\<lambda>level.
               Ok (s\<lparr>xr_alternative_labels := xr_alternative_labels s @
                 [ConfLabel (alternative_policy s) level (xr_alt_privacy s) (xr_alt_colour s) (xr_alt_marking s)
                    (xr_alt_categories s) [] None None]\<rparr>)))
            (\<lambda>s1. Ok (s1\<lparr>xr_in_alternative := False\<rparr>))
        else Ok s)
       (\<lambda>s1. Ok (s1\<lparr>xr_current_element := []\<rparr>))"

fun read_event :: "label_codec \<Rightarrow> xml_event \<Rightarrow> reader_state \<Rightarrow> label_error + reader_state" where
  "read_event lx XDecl s = Ok s"
| "read_event lx (XStart name attrs) s = read_start lx name attrs s"
| "read_event lx (XText t) s = and_then (map_err LeParse t) (\<lambda>text. read_text lx text s)"
| "read_event lx (XEnd name) s = read_end name s"

fun read_events :: "label_codec \<Rightarrow> (string + xml_event) list \<Rightarrow> reader_state \<Rightarrow> label_error + reader_state" where
  "read_events lx [] s = Ok s"
| "read_events lx (Inl e # es) s = Err (LeParse e)"
| "read_events lx (Inr ev # es) s = and_then (read_event lx ev s) (read_events lx es)"

definition label_of_reader :: "reader_state \<Rightarrow> label_error + conf_label" where
  "label_of_reader s =
     (let policy = label_policy_new (if xr_policy s = [] then ''NATO'' else xr_policy s);
          policy1 = (case xr_policy_oid s of Some oid \<Rightarrow> with_oid oid policy | None \<Rightarrow> policy)
      in if xr_classification s = [] then Err (LeValidation ''Classification element is mandatory'')
         else and_then (classification_parse (xr_classification s)) (\<lambda>level.
           Ok (ConfLabel policy1 level (xr_privacy_mark s) (xr_colour s) (xr_marking_data s) (xr_categories s)
                 (xr_alternative_labels s) (xr_creation_time s) (xr_review_date_time s))))"

definition xml_deserialize :: "label_codec \<Rightarrow> string \<Rightarrow> label_error + conf_label" where
  "xml_deserialize lx text = and_then (read_events lx (lx_read lx text) reader_init) label_of_reader"

section \<open>JSON (\<open>xml.rs\<close>, \<open>json.rs\<close>)\<close>

definition category_json :: "category_marking \<Rightarrow> json" where
  "category_json c =
     JObject [(''TagName'', JString (cm_tag_name c)),
       (''Type'', JString (category_type_to_str (cm_category_type c))),
       (''GenericValues'', JArray (map JString (cm_values c)))]"

definition to_json_value :: "conf_label \<Rightarrow> json" where
  "to_json_value l =
     JObject
       ([(''Xmlns'', JString NAMESPACE),
         (''ConfidentialityInformation'',
           JObject
             ([(''PolicyIdentifier'', JString (lp_identifier (cf_policy l))),
               (''Classification'', JString (as_stanag_str (cf_classification l)))]
              @ (case cf_privacy_mark l of None \<Rightarrow> [] | Some p \<Rightarrow> [(''PrivacyMark'', JString p)])
              @ (if cf_categories l = [] then []
                 else [(''Category'', JArray (map category_json (cf_categories l)))])))]
        @ (case cf_creation_time l of None \<Rightarrow> [] | Some c \<Rightarrow> [(''CreationTime'', JString c)])
        @ (case cf_review_date_time l of None \<Rightarrow> [] | Some r \<Rightarrow> [(''ReviewDateTime'', JString r)]))"

definition json_serialize :: "label_codec \<Rightarrow> conf_label \<Rightarrow> label_error + string" where
  "json_serialize lx l = map_err LeSerialization (lx_json_write lx (to_json_value l))"

fun json_get :: "json \<Rightarrow> string \<Rightarrow> json option" where
  "json_get (JObject kvs) k = map_of kvs k"
| "json_get _ k = None"

definition json_get_str :: "json \<Rightarrow> string \<Rightarrow> string option" where
  "json_get_str v k = Option.bind (json_get v k) json_as_str"

fun generic_values :: "json \<Rightarrow> string list option" where
  "generic_values (JArray vs) = Some (List.map_filter json_as_str vs)"
| "generic_values v = map_option (\<lambda>s. [s]) (json_as_str v)"

definition parse_category :: "json \<Rightarrow> label_error + category_marking" where
  "parse_category v =
     and_then (ok_or (LeParse ''category missing TagName'') (json_get_str v ''TagName'')) (\<lambda>tag.
       Ok \<lparr>cm_tag_name = tag,
           cm_category_type = (case json_get_str v ''Type'' of Some s \<Rightarrow> parse_category_type s | None \<Rightarrow> CtPermissive),
           cm_values = (case Option.bind (json_get v ''GenericValues'') generic_values of
                          Some vs \<Rightarrow> vs | None \<Rightarrow> [])\<rparr>)"

definition parse_categories :: "json \<Rightarrow> label_error + category_marking list" where
  "parse_categories info =
     (case json_get info ''Category'' of
        None \<Rightarrow> Ok []
      | Some (JArray items) \<Rightarrow> try_map parse_category items
      | Some category \<Rightarrow> and_then (parse_category category) (\<lambda>c. Ok [c]))"

definition parse_json_datetime :: "label_codec \<Rightarrow> json \<Rightarrow> string \<Rightarrow> label_error + date_time option" where
  "parse_json_datetime lx v k =
     (case json_get_str v k of
        None \<Rightarrow> Ok None
      | Some s \<Rightarrow> and_then (parse_datetime lx s) (\<lambda>t. Ok (Some t)))"

definition parse_json_value :: "label_codec \<Rightarrow> json \<Rightarrow> label_error + conf_label" where
  "parse_json_value lx v =
     and_then (ok_or (LeParse ''missing ConfidentialityInformation'') (json_get v ''ConfidentialityInformation'')) (\<lambda>info.
     and_then (ok_or (LeValidation ''missing Classification'') (json_get_str info ''Classification'')) (\<lambda>c.
     and_then (classification_parse c) (\<lambda>level.
     and_then (parse_categories info) (\<lambda>categories.
     and_then (parse_json_datetime lx v ''CreationTime'') (\<lambda>creation.
     and_then (parse_json_datetime lx v ''ReviewDateTime'') (\<lambda>review.
       Ok (ConfLabel
             (label_policy_new (case json_get_str info ''PolicyIdentifier'' of Some p \<Rightarrow> p | None \<Rightarrow> ''NATO''))
             level (json_get_str info ''PrivacyMark'') None None categories [] creation review)))))))"

definition json_deserialize :: "label_codec \<Rightarrow> string \<Rightarrow> label_error + conf_label" where
  "json_deserialize lx text = and_then (map_err LeParse (lx_json_read lx text)) (parse_json_value lx)"

section \<open>Schema check (\<open>xsd.rs\<close>) and codec (\<open>codec.rs\<close>)\<close>

definition LABEL_ROOTS :: "string list" where
  "LABEL_ROOTS = [''ConfidentialityLabel'', ''originatorConfidentialityLabel'', ''metadataConfidentialityLabel'']"

definition validate_structural :: "string \<Rightarrow> string + unit" where
  "validate_structural xml =
     (if \<not> contains_str xml NAMESPACE then Err (''missing namespace '' @ NAMESPACE)
      else if \<not> (\<exists>root \<in> set LABEL_ROOTS. contains_str xml root) then
        Err ''missing confidentiality label root element''
      else if \<not> contains_str xml ''ConfidentialityInformation'' then Err ''missing ConfidentialityInformation''
      else if \<not> contains_str xml ''PolicyIdentifier'' then Err ''missing PolicyIdentifier''
      else if \<not> contains_str xml ''Classification'' then Err ''missing Classification''
      else Ok ())"

definition validate_stanag4774_xsd :: "label_codec \<Rightarrow> string \<Rightarrow> string + unit" where
  "validate_stanag4774_xsd lx xml =
     (case lx_xmllint lx xml of
        Inr _ \<Rightarrow> Ok ()
      | Inl xmllint_err \<Rightarrow>
          map_err (\<lambda>structural. ''XSD validation failed ('' @ xmllint_err @ ''); structural check: '' @ structural)
            (validate_structural xml))"

datatype stanag4774_format = Xml | JsonStructured

definition codec_serialize :: "label_codec \<Rightarrow> conf_label \<Rightarrow> stanag4774_format \<Rightarrow> label_error + string" where
  "codec_serialize lx l f =
     and_then (validate_conf_label l) (\<lambda>_.
       case f of Xml \<Rightarrow> xml_serialize lx l | JsonStructured \<Rightarrow> json_serialize lx l)"

definition deserialize_with_options ::
  "label_codec \<Rightarrow> string \<Rightarrow> stanag4774_format \<Rightarrow> bool \<Rightarrow> label_error + conf_label" where
  "deserialize_with_options lx text f validate_xsd =
     and_then
       (if validate_xsd \<and> f = Xml then
          map_err (\<lambda>err. LeValidation (''STANAG 4774 XSD validation failed: '' @ err))
            (validate_stanag4774_xsd lx text)
        else Ok ()) (\<lambda>_.
     and_then (case f of Xml \<Rightarrow> xml_deserialize lx text | JsonStructured \<Rightarrow> json_deserialize lx text) (\<lambda>l.
     and_then (validate_conf_label l) (\<lambda>_. Ok l)))"

definition codec_deserialize :: "label_codec \<Rightarrow> string \<Rightarrow> stanag4774_format \<Rightarrow> label_error + conf_label" where
  "codec_deserialize lx text f = deserialize_with_options lx text f True"

definition codec_round_trip :: "label_codec \<Rightarrow> conf_label \<Rightarrow> stanag4774_format \<Rightarrow> label_error + conf_label" where
  "codec_round_trip lx l f = and_then (codec_serialize lx l f) (\<lambda>text. codec_deserialize lx text f)"

section \<open>What the reader makes of what the writer wrote\<close>

lemma read_events_append:
  "read_events lx (xs @ ys) s = and_then (read_events lx xs s) (read_events lx ys)"
proof (induction xs arbitrary: s)
  case (Cons x xs)
  show ?case
  proof (cases x)
    case (Inr ev)
    then show ?thesis by (cases "read_event lx ev s") (simp_all add: Cons.IH)
  qed simp
qed simp

lemma parse_category_type_str [simp]: "parse_category_type (category_type_to_str c) = c"
  by (cases c) (simp_all add: parse_category_type_def eq_ignore_ascii_case_def to_ascii_lowercase_def ascii_lower_def)

definition clear_element :: "reader_state \<Rightarrow> reader_state" where
  "clear_element s = s\<lparr>xr_current_element := []\<rparr>"

text \<open>Elements whose start and end only move the cursor.\<close>

definition text_only :: "string \<Rightarrow> bool" where
  "text_only name \<longleftrightarrow> name \<notin> set LABEL_WRAPPERS \<and> name \<noteq> ''PolicyIdentifier'' \<and> name \<noteq> ''Category''"

lemma read_text_element:
  assumes "text_only name"
  shows "read_events lx (map Ok (write_text_element name v)) s =
     and_then (read_text lx v (s\<lparr>xr_current_element := name\<rparr>)) (\<lambda>s1. Ok (clear_element s1))"
  using assms
  by (cases "read_text lx v (s\<lparr>xr_current_element := name\<rparr>)")
    (auto simp: write_text_element_def read_start_def read_end_def text_only_def LABEL_WRAPPERS_def clear_element_def)

definition generic_effect :: "string list \<Rightarrow> reader_state \<Rightarrow> reader_state" where
  "generic_effect vs s = fold (\<lambda>v s. clear_element (s\<lparr>xr_current_category_values := xr_current_category_values s @ [v]\<rparr>)) vs s"

lemma generic_effect_fields [simp]:
  "xr_in_category (generic_effect vs s) = xr_in_category s"
  "xr_in_alternative (generic_effect vs s) = xr_in_alternative s"
  "xr_current_category_values (generic_effect vs s) = xr_current_category_values s @ vs"
  by (induction vs arbitrary: s) (simp_all add: generic_effect_def clear_element_def)

lemma read_generic_values:
  "xr_in_category s \<Longrightarrow>
     read_events lx (map Ok (concat (map (write_text_element ''GenericValue'') vs))) s = Ok (generic_effect vs s)"
proof (induction vs arbitrary: s)
  case (Cons v vs)
  have "text_only ''GenericValue''" by (simp add: text_only_def LABEL_WRAPPERS_def)
  with Cons show ?case
    by (simp add: read_events_append read_text_element read_text_def Let_def)
      (simp add: generic_effect_def clear_element_def)
qed (simp add: generic_effect_def)

definition category_effect :: "category_marking \<Rightarrow> reader_state \<Rightarrow> reader_state" where
  "category_effect c s =
     clear_element ((generic_effect (cm_values c)
       (s\<lparr>xr_in_category := True, xr_current_category_values := [], xr_current_category_tag := cm_tag_name c,
          xr_current_category_type := cm_category_type c, xr_current_element := ''Category''\<rparr>))
       \<lparr>xr_categories := xr_categories s @ [c], xr_in_category := False\<rparr>)"

lemma generic_effect_core:
  "generic_effect vs s = s\<lparr>xr_current_category_values := xr_current_category_values s @ vs,
     xr_current_element := (if vs = [] then xr_current_element s else [])\<rparr>"
proof (induction vs arbitrary: s)
  case (Cons v vs)
  have "generic_effect (v # vs) s =
      generic_effect vs (clear_element (s\<lparr>xr_current_category_values := xr_current_category_values s @ [v]\<rparr>))"
    by (simp add: generic_effect_def)
  then show ?case by (simp add: Cons.IH clear_element_def)
qed (simp add: generic_effect_def)

lemma read_category: "read_events lx (map Ok (write_category c)) s = Ok (category_effect c s)"
  by (simp add: write_category_def read_events_append read_start_def LABEL_WRAPPERS_def read_category_attribute_def
      read_generic_values read_end_def current_category_def)
    (simp add: category_effect_def clear_element_def generic_effect_core)

lemma read_categories:
  "read_events lx (map Ok (concat (map write_category cs))) s = Ok (fold category_effect cs s)"
  by (induction cs arbitrary: s) (simp_all add: read_events_append read_category)

lemma category_effect_eq:
  "category_effect c s =
     s\<lparr>xr_categories := xr_categories s @ [c], xr_in_category := False, xr_current_category_values := cm_values c,
       xr_current_category_tag := cm_tag_name c, xr_current_category_type := cm_category_type c,
       xr_current_element := []\<rparr>"
  by (simp add: category_effect_def generic_effect_core clear_element_def)

definition opt_over :: "'a option \<Rightarrow> 'a option \<Rightarrow> 'a option" where
  "opt_over new old = (case new of Some x \<Rightarrow> Some x | None \<Rightarrow> old)"

lemma opt_over_simps [simp]: "opt_over None old = old" "opt_over (Some x) old = Some x" "opt_over v None = v"
  by (simp_all add: opt_over_def split: option.split)

definition policy_effect :: "label_policy \<Rightarrow> reader_state \<Rightarrow> reader_state" where
  "policy_effect p s =
     clear_element (s\<lparr>xr_policy := lp_identifier p, xr_policy_oid := opt_over (lp_oid p) (xr_policy_oid s)\<rparr>)"

definition text_effect :: "conf_label \<Rightarrow> reader_state \<Rightarrow> reader_state" where
  "text_effect l s =
     (if xr_in_alternative s then
        s\<lparr>xr_alt_classification := as_stanag_str (cf_classification l),
          xr_alt_privacy := opt_over (cf_privacy_mark l) (xr_alt_privacy s),
          xr_alt_colour := opt_over (cf_colour l) (xr_alt_colour s),
          xr_alt_marking := opt_over (cf_marking_data l) (xr_alt_marking s), xr_current_element := []\<rparr>
      else
        s\<lparr>xr_classification := as_stanag_str (cf_classification l),
          xr_privacy_mark := opt_over (cf_privacy_mark l) (xr_privacy_mark s),
          xr_colour := opt_over (cf_colour l) (xr_colour s),
          xr_marking_data := opt_over (cf_marking_data l) (xr_marking_data s), xr_current_element := []\<rparr>)"

definition info_effect :: "conf_label \<Rightarrow> reader_state \<Rightarrow> reader_state" where
  "info_effect l s =
     clear_element (fold category_effect (cf_categories l) (text_effect l (policy_effect (cf_policy l) s)))"

lemma read_policy: "read_events lx (map Ok (write_policy p)) s = Ok (policy_effect p s)"
  by (simp add: write_policy_def write_text_element_def read_start_def LABEL_WRAPPERS_def read_policy_attribute_def
      read_text_def read_end_def policy_effect_def clear_element_def split: option.split)

lemma text_only_names:
  "text_only ''Classification''" "text_only ''PrivacyMark''" "text_only ''Colour''" "text_only ''MarkingData''"
  by (simp_all add: text_only_def LABEL_WRAPPERS_def)

lemma read_optional:
  assumes "text_only name"
    and "\<And>v. read_text lx v (s\<lparr>xr_current_element := name\<rparr>) = Ok (f v)"
  shows "read_events lx (map Ok (write_optional name v)) s = Ok (case v of None \<Rightarrow> s | Some x \<Rightarrow> clear_element (f x))"
  using assms by (simp add: write_optional_def read_text_element split: option.split)

lemma read_texts:
  "read_events lx (map Ok (write_text_element ''Classification'' (as_stanag_str (cf_classification l))
     @ write_optional ''PrivacyMark'' (cf_privacy_mark l) @ write_optional ''Colour'' (cf_colour l)
     @ write_optional ''MarkingData'' (cf_marking_data l))) s = Ok (text_effect l s)"
  by (cases "xr_in_alternative s"; cases "cf_privacy_mark l"; cases "cf_colour l"; cases "cf_marking_data l")
    (simp_all add: read_events_append read_text_element text_only_names write_optional_def read_text_def Let_def
      text_effect_def clear_element_def)

lemma read_start_info: "read_start lx ''ConfidentialityInformation'' [] s = Ok (s\<lparr>xr_current_element := ''ConfidentialityInformation''\<rparr>)"
  by (simp add: read_start_def LABEL_WRAPPERS_def)

lemma policy_effect_element [simp]: "policy_effect p (s\<lparr>xr_current_element := e\<rparr>) = policy_effect p s"
  by (simp add: policy_effect_def clear_element_def)

lemma read_information: "read_events lx (map Ok (write_confidentiality_information l)) s = Ok (info_effect l s)"
proof -
  let ?texts = "write_text_element ''Classification'' (as_stanag_str (cf_classification l))
     @ write_optional ''PrivacyMark'' (cf_privacy_mark l) @ write_optional ''Colour'' (cf_colour l)
     @ write_optional ''MarkingData'' (cf_marking_data l)"
  have "read_events lx (map Ok (write_confidentiality_information l)) s =
      read_events lx (Ok (XStart ''ConfidentialityInformation'' []) # map Ok (write_policy (cf_policy l)) @ map Ok ?texts
      @ map Ok (concat (map write_category (cf_categories l))) @ [Ok (XEnd ''ConfidentialityInformation'')]) s"
    by (simp add: write_confidentiality_information_def)
  then show ?thesis
    by (simp only: read_events_append read_events.simps read_event.simps read_start_info read_policy read_texts
        read_categories and_then.simps)
      (simp add: read_end_def info_effect_def clear_element_def)
qed

lemma fold_category_fields [simp]:
  "xr_policy (fold category_effect cs s) = xr_policy s" "xr_policy_oid (fold category_effect cs s) = xr_policy_oid s"
  "xr_classification (fold category_effect cs s) = xr_classification s"
  "xr_privacy_mark (fold category_effect cs s) = xr_privacy_mark s" "xr_colour (fold category_effect cs s) = xr_colour s"
  "xr_marking_data (fold category_effect cs s) = xr_marking_data s"
  "xr_categories (fold category_effect cs s) = xr_categories s @ cs"
  "xr_alternative_labels (fold category_effect cs s) = xr_alternative_labels s"
  "xr_creation_time (fold category_effect cs s) = xr_creation_time s"
  "xr_review_date_time (fold category_effect cs s) = xr_review_date_time s"
  "xr_in_alternative (fold category_effect cs s) = xr_in_alternative s"
  "xr_alt_policy (fold category_effect cs s) = xr_alt_policy s"
  "xr_alt_policy_oid (fold category_effect cs s) = xr_alt_policy_oid s"
  "xr_alt_classification (fold category_effect cs s) = xr_alt_classification s"
  "xr_alt_privacy (fold category_effect cs s) = xr_alt_privacy s" "xr_alt_colour (fold category_effect cs s) = xr_alt_colour s"
  "xr_alt_marking (fold category_effect cs s) = xr_alt_marking s"
  "xr_alt_categories (fold category_effect cs s) = xr_alt_categories s"
  by (induction cs arbitrary: s) (simp_all add: category_effect_eq)

definition alternative_image :: "conf_label \<Rightarrow> conf_label" where
  "alternative_image a =
     ConfLabel (label_policy_new ''NATO'') (cf_classification a) (cf_privacy_mark a) (cf_colour a)
       (cf_marking_data a) [] [] None None"

definition open_alternative :: "reader_state \<Rightarrow> reader_state" where
  "open_alternative s =
     s\<lparr>xr_in_alternative := True, xr_alt_policy := [], xr_alt_policy_oid := None, xr_alt_classification := [],
       xr_alt_privacy := None, xr_alt_colour := None, xr_alt_marking := None, xr_alt_categories := []\<rparr>"

definition alternative_effect :: "conf_label \<Rightarrow> reader_state \<Rightarrow> reader_state" where
  "alternative_effect a s =
     (let s1 = info_effect a (open_alternative s) in
      clear_element (s1\<lparr>xr_alternative_labels := xr_alternative_labels s1 @ [alternative_image a],
                        xr_in_alternative := False\<rparr>))"

lemma info_effect_fields:
  "xr_policy (info_effect l s) = lp_identifier (cf_policy l)"
  "xr_policy_oid (info_effect l s) = opt_over (lp_oid (cf_policy l)) (xr_policy_oid s)"
  "xr_categories (info_effect l s) = xr_categories s @ cf_categories l"
  "xr_alternative_labels (info_effect l s) = xr_alternative_labels s"
  "xr_creation_time (info_effect l s) = xr_creation_time s"
  "xr_review_date_time (info_effect l s) = xr_review_date_time s"
  "xr_in_alternative (info_effect l s) = xr_in_alternative s"
  "xr_alt_policy (info_effect l s) = xr_alt_policy s" "xr_alt_policy_oid (info_effect l s) = xr_alt_policy_oid s"
  "xr_alt_categories (info_effect l s) = xr_alt_categories s"
  by (simp_all add: info_effect_def clear_element_def text_effect_def policy_effect_def)

lemma info_effect_main:
  assumes "\<not> xr_in_alternative s"
  shows "xr_classification (info_effect l s) = as_stanag_str (cf_classification l)"
    and "xr_privacy_mark (info_effect l s) = opt_over (cf_privacy_mark l) (xr_privacy_mark s)"
    and "xr_colour (info_effect l s) = opt_over (cf_colour l) (xr_colour s)"
    and "xr_marking_data (info_effect l s) = opt_over (cf_marking_data l) (xr_marking_data s)"
  using assms by (simp_all add: info_effect_def clear_element_def text_effect_def policy_effect_def)

lemma info_effect_alternative:
  assumes "xr_in_alternative s"
  shows "xr_alt_classification (info_effect l s) = as_stanag_str (cf_classification l)"
    and "xr_alt_privacy (info_effect l s) = opt_over (cf_privacy_mark l) (xr_alt_privacy s)"
    and "xr_alt_colour (info_effect l s) = opt_over (cf_colour l) (xr_alt_colour s)"
    and "xr_alt_marking (info_effect l s) = opt_over (cf_marking_data l) (xr_alt_marking s)"
    and "xr_classification (info_effect l s) = xr_classification s"
    and "xr_privacy_mark (info_effect l s) = xr_privacy_mark s"
    and "xr_colour (info_effect l s) = xr_colour s" and "xr_marking_data (info_effect l s) = xr_marking_data s"
  using assms by (simp_all add: info_effect_def clear_element_def text_effect_def policy_effect_def)

lemma info_effect_element [simp]: "info_effect l (s\<lparr>xr_current_element := e\<rparr>) = info_effect l s"
  by (simp add: info_effect_def)

lemma as_stanag_str_not_Nil [simp]: "as_stanag_str l \<noteq> []"
  by (cases l) simp_all

lemma read_alternative: "read_events lx (map Ok (write_alternative a)) s = Ok (alternative_effect a s)"
proof -
  have opened: "xr_in_alternative (open_alternative s)" by (simp add: open_alternative_def)
  have start: "read_start lx ''alternativeConfidentialityLabel'' [] s =
      Ok ((open_alternative s)\<lparr>xr_current_element := ''alternativeConfidentialityLabel''\<rparr>)"
    by (simp add: read_start_def LABEL_WRAPPERS_def open_alternative_def)
  have "alternative_policy (info_effect a (open_alternative s)) = label_policy_new ''NATO''"
    by (simp add: alternative_policy_def info_effect_fields) (simp add: open_alternative_def)
  then have "read_end ''alternativeConfidentialityLabel'' (info_effect a (open_alternative s)) = Ok (alternative_effect a s)"
    using opened
    by (simp add: read_end_def info_effect_fields info_effect_alternative alternative_effect_def Let_def clear_element_def
        alternative_image_def) (simp add: open_alternative_def)
  then show ?thesis
    by (simp add: write_alternative_def read_events_append start read_information)
qed

lemma read_alternatives:
  "read_events lx (map Ok (concat (map write_alternative as))) s = Ok (fold alternative_effect as s)"
  by (induction as arbitrary: s) (simp_all add: read_events_append read_alternative)

lemma alternative_effect_fields [simp]:
  "xr_policy (alternative_effect a s) = lp_identifier (cf_policy a)"
  "xr_policy_oid (alternative_effect a s) = opt_over (lp_oid (cf_policy a)) (xr_policy_oid s)"
  "xr_categories (alternative_effect a s) = xr_categories s @ cf_categories a"
  "xr_alternative_labels (alternative_effect a s) = xr_alternative_labels s @ [alternative_image a]"
  "xr_creation_time (alternative_effect a s) = xr_creation_time s"
  "xr_review_date_time (alternative_effect a s) = xr_review_date_time s"
  "xr_classification (alternative_effect a s) = xr_classification s"
  "xr_privacy_mark (alternative_effect a s) = xr_privacy_mark s"
  "xr_colour (alternative_effect a s) = xr_colour s" "xr_marking_data (alternative_effect a s) = xr_marking_data s"
  by (simp_all add: alternative_effect_def Let_def clear_element_def info_effect_fields info_effect_alternative
      open_alternative_def)

lemma fold_alternative_fields:
  "xr_policy (fold alternative_effect as s) = (if as = [] then xr_policy s else lp_identifier (cf_policy (last as)))"
  "xr_policy_oid (fold alternative_effect as s) = fold (\<lambda>a. opt_over (lp_oid (cf_policy a))) as (xr_policy_oid s)"
  "xr_categories (fold alternative_effect as s) = xr_categories s @ concat (map cf_categories as)"
  "xr_alternative_labels (fold alternative_effect as s) = xr_alternative_labels s @ map alternative_image as"
  "xr_creation_time (fold alternative_effect as s) = xr_creation_time s"
  "xr_review_date_time (fold alternative_effect as s) = xr_review_date_time s"
  "xr_classification (fold alternative_effect as s) = xr_classification s"
  "xr_privacy_mark (fold alternative_effect as s) = xr_privacy_mark s"
  "xr_colour (fold alternative_effect as s) = xr_colour s"
  "xr_marking_data (fold alternative_effect as s) = xr_marking_data s"
  by (induction as arbitrary: s) auto

text \<open>The label that comes back.\<close>

definition xml_image :: "conf_label \<Rightarrow> conf_label" where
  "xml_image l =
     ConfLabel
       \<lparr>lp_identifier = lp_identifier (cf_policy (last (l # cf_alternative_labels l))),
        lp_oid = fold (\<lambda>a. opt_over (lp_oid (cf_policy a))) (cf_alternative_labels l) (lp_oid (cf_policy l)),
        lp_allowed_classifications = classification_level_all\<rparr>
       (cf_classification l) (cf_privacy_mark l) (cf_colour l) (cf_marking_data l)
       (cf_categories l @ concat (map cf_categories (cf_alternative_labels l)))
       (map alternative_image (cf_alternative_labels l)) (cf_creation_time l) (cf_review_date_time l)"

definition times_parse :: "label_codec \<Rightarrow> conf_label \<Rightarrow> bool" where
  "times_parse lx l \<longleftrightarrow>
     (\<forall>t. cf_creation_time l = Some t \<or> cf_review_date_time l = Some t \<longrightarrow> lx_datetime lx t = Ok t)"

lemma read_root:
  assumes "times_parse lx l"
  shows "read_start lx ''ConfidentialityLabel'' (root_attributes l) reader_init =
     Ok (reader_init\<lparr>xr_creation_time := cf_creation_time l, xr_review_date_time := cf_review_date_time l,
          xr_current_element := ''ConfidentialityLabel''\<rparr>)"
  using assms
  by (cases "cf_creation_time l"; cases "cf_review_date_time l")
    (simp_all add: read_start_def LABEL_WRAPPERS_def root_attributes_def times_parse_def parse_datetime_def reader_init_def)

lemma read_label:
  assumes "times_parse lx l" and "lp_identifier (cf_policy (last (l # cf_alternative_labels l))) \<noteq> []"
  shows "and_then (read_events lx (map Ok (label_events l)) reader_init) label_of_reader = Ok (xml_image l)"
proof -
  let ?s0 = "reader_init\<lparr>xr_creation_time := cf_creation_time l, xr_review_date_time := cf_review_date_time l\<rparr>"
  let ?s1 = "fold alternative_effect (cf_alternative_labels l) (info_effect l ?s0)"
  have "read_events lx (map Ok (label_events l)) reader_init = Ok (clear_element ?s1)"
    using read_root [OF assms(1)]
    by (simp add: label_events_def read_events_append read_information read_alternatives read_end_def clear_element_def)
  moreover have "label_of_reader (clear_element ?s1) = Ok (xml_image l)"
    using assms(2)
    by (simp add: label_of_reader_def clear_element_def fold_alternative_fields info_effect_fields info_effect_main
        Let_def xml_image_def label_policy_new_def with_oid_def split: option.split if_splits)
  ultimately show ?thesis by simp
qed

section \<open>Round trip through XML\<close>

text \<open>What the code relies on of the XML library: the document of a label whose texts are not empty and have no
  blank at either end, and whose attribute values need no escaping, is read back event by event. In such a document
  every tag is closed and no text follows another.\<close>

definition xml_blank :: "char \<Rightarrow> bool" where
  "xml_blank c \<longleftrightarrow> c = CHR '' '' \<or> c = CHR 0x09 \<or> c = CHR 0x0A \<or> c = CHR 0x0D"

definition plain_text :: "string \<Rightarrow> bool" where
  "plain_text s \<longleftrightarrow> s \<noteq> [] \<and> \<not> xml_blank (hd s) \<and> \<not> xml_blank (last s)"

definition plain_attribute :: "string \<Rightarrow> bool" where
  "plain_attribute s \<longleftrightarrow> (\<forall>c \<in> set s. c \<noteq> CHR ''<'' \<and> c \<noteq> CHR ''>'' \<and> c \<noteq> CHR ''&'' \<and> c \<noteq> CHR 0x27 \<and> c \<noteq> CHR 0x22)"

fun plain_event :: "xml_event \<Rightarrow> bool" where
  "plain_event (XText (Inr s)) = plain_text s"
| "plain_event (XStart name attrs) = list_all (\<lambda>kv. plain_attribute (snd kv)) attrs"
| "plain_event _ = True"

definition xml_laws :: "label_codec \<Rightarrow> bool" where
  "xml_laws lx \<longleftrightarrow>
     (\<forall>l text. list_all plain_event (label_events l) \<and> lx_write lx (label_events l) = Ok text \<longrightarrow>
        lx_read lx text = map Ok (label_events l))"

text \<open>A label that can be written plainly: its markings and those of its alternatives.\<close>

definition plain_label :: "label_codec \<Rightarrow> conf_label \<Rightarrow> bool" where
  "plain_label lx l \<longleftrightarrow>
     list_all plain_event (label_events l) \<and> times_parse lx l \<and>
     (\<forall>a \<in> set (l # cf_alternative_labels l). lp_identifier (cf_policy a) \<noteq> [])"

definition schema_accepts :: "label_codec \<Rightarrow> string \<Rightarrow> bool" where
  "schema_accepts lx text \<longleftrightarrow> is_ok (validate_stanag4774_xsd lx text)"

lemma xml_round_trip:
  assumes "xml_laws lx" and "plain_label lx l" and "codec_serialize lx l Xml = Ok text"
    and "schema_accepts lx text"
  shows "codec_deserialize lx text Xml = and_then (validate_conf_label (xml_image l)) (\<lambda>_. Ok (xml_image l))"
proof -
  have "lp_identifier (cf_policy (last (l # cf_alternative_labels l))) \<noteq> []"
    using assms(2) last_in_set [of "l # cf_alternative_labels l"] by (fastforce simp: plain_label_def)
  moreover have "lx_read lx text = map Ok (label_events l)"
    using assms(1,2,3) by (auto simp: xml_laws_def plain_label_def codec_serialize_def xml_serialize_def and_then_Inr_iff)
  ultimately have "xml_deserialize lx text = Ok (xml_image l)"
    using read_label [of lx l] assms(2) by (simp add: xml_deserialize_def plain_label_def)
  then show ?thesis
    using assms(4)
    by (cases "validate_conf_label (xml_image l)")
      (auto simp: codec_deserialize_def deserialize_with_options_def schema_accepts_def is_ok_iff)
qed

lemma validate_xml_image:
  "validate_conf_label (xml_image l) = Ok () \<longleftrightarrow>
     lp_identifier (cf_policy (last (l # cf_alternative_labels l))) \<noteq> [] \<and>
     (\<forall>a \<in> set (l # cf_alternative_labels l). \<forall>c \<in> set (cf_categories a). category_ok c)"
  by (cases "cf_classification l")
    (auto simp: validate_conf_label_Ok_iff xml_image_def allows_classification_def classification_level_all_def)

text \<open>
  C29: a label without alternatives, with plain markings, comes back from its XML encoding with every field as it was
  but one: the list of classifications that its policy allows, which the encoding does not carry, is replaced by all
  eight levels. So the five levels of the NATO policy and the two of PUBLIC become eight.
\<close>

theorem xml_label_round_trip:
  assumes "xml_laws lx" and "plain_label lx l" and "schema_accepts lx text"
    and "codec_serialize lx l Xml = Ok text" and "cf_alternative_labels l = []"
  shows "\<exists>l'. codec_deserialize lx text Xml = Ok l' \<and>
     cf_policy l' = with_allowed_classifications classification_level_all (cf_policy l) \<and>
     cf_classification l' = cf_classification l \<and> cf_privacy_mark l' = cf_privacy_mark l \<and>
     cf_colour l' = cf_colour l \<and> cf_marking_data l' = cf_marking_data l \<and> cf_categories l' = cf_categories l \<and>
     cf_alternative_labels l' = [] \<and> cf_creation_time l' = cf_creation_time l \<and>
     cf_review_date_time l' = cf_review_date_time l"
proof -
  have "validate_conf_label l = Ok ()" using assms(4) by (auto simp: codec_serialize_def and_then_Inr_iff)
  then have "validate_conf_label (xml_image l) = Ok ()"
    using assms(5) unfolding validate_xml_image by (auto simp: validate_conf_label_Ok_iff)
  with xml_round_trip [OF assms(1,2,4,3)] assms(5) show ?thesis
    by (simp add: xml_image_def with_allowed_classifications_def)
qed

text \<open>
  An alternative label leaks into the label that carries it: after a round trip through XML the
  label has the policy identifier of its alternative, and the categories of both, so that the
  countries the alternative may be released to are added to its own, while the alternative comes back
  under the NATO policy with no category at all.
\<close>

theorem alternative_label_leaks:
  assumes "xml_laws lx" and "plain_label lx l" and "schema_accepts lx text"
    and "codec_serialize lx l Xml = Ok text" and "cf_alternative_labels l = [a]"
    and "list_all category_ok (cf_categories a)"
  shows "\<exists>l' a'. codec_deserialize lx text Xml = Ok l' \<and> cf_alternative_labels l' = [a'] \<and>
     lp_identifier (cf_policy l') = lp_identifier (cf_policy a) \<and>
     releasable_countries l' = releasable_countries l @ releasable_countries a \<and>
     restrictive_category_values l' = restrictive_category_values l @ restrictive_category_values a \<and>
     lp_identifier (cf_policy a') = ''NATO'' \<and> cf_categories a' = []"
proof -
  have "validate_conf_label l = Ok ()" using assms(4) by (auto simp: codec_serialize_def and_then_Inr_iff)
  then have "validate_conf_label (xml_image l) = Ok ()"
    using assms(2,5,6) unfolding validate_xml_image
    by (auto simp: validate_conf_label_Ok_iff list_all_iff plain_label_def)
  with xml_round_trip [OF assms(1,2,4,3)] assms(5) show ?thesis
    by (simp add: xml_image_def alternative_image_def label_policy_new_def releasable_countries_def
        restrictive_category_values_def tagged_values_def)
qed

subsection \<open>A codec for one label\<close>

definition one_label_codec :: "conf_label \<Rightarrow> label_codec" where
  "one_label_codec l =
     \<lparr>lx_write = (\<lambda>es. if es = label_events l then Ok ''<xml>'' else Err ''unsupported''),
      lx_read = (\<lambda>_. map Ok (label_events l)), lx_xmllint = (\<lambda>_. Ok ()), lx_datetime = Ok,
      lx_json_write = (\<lambda>v. if v = to_json_value l then Ok ''{}'' else Err ''unsupported''),
      lx_json_read = (\<lambda>_. Ok (to_json_value l))\<rparr>"

lemma one_label_xml:
  assumes "validate_conf_label l = Ok ()"
  shows "xml_laws (one_label_codec l)" and "schema_accepts (one_label_codec l) text"
    and "codec_serialize (one_label_codec l) l Xml = Ok ''<xml>''"
  using assms
  by (auto simp: xml_laws_def one_label_codec_def schema_accepts_def validate_stanag4774_xsd_def codec_serialize_def
      xml_serialize_def)

definition nato_usa :: conf_label where
  "nato_usa = with_category (releasable_to_marking [''USA'']) (conf_label_new nato_policy Secret)"

definition partner_deu :: conf_label where
  "partner_deu = with_category (releasable_to_marking [''DEU'']) (conf_label_new (label_policy_new ''PARTNER'') Secret)"

lemma sample_labels_valid:
  "validate_conf_label nato_usa = Ok ()" "validate_conf_label (with_alternative_label partner_deu nato_usa) = Ok ()"
  by (simp_all add: nato_usa_def validate_conf_label_Ok_iff conf_label_new_def model_simps releasable_to_marking_def
      category_ok_def)

lemma sample_labels_plain:
  "plain_label (one_label_codec l') nato_usa"
  "plain_label (one_label_codec l') (with_alternative_label partner_deu nato_usa)"
  by (simp_all add: plain_label_def nato_usa_def partner_deu_def conf_label_new_def model_simps releasable_to_marking_def
      label_events_def write_confidentiality_information_def write_alternative_def write_policy_def write_text_element_def
      write_optional_def write_category_def root_attributes_def plain_text_def plain_attribute_def xml_blank_def
      NAMESPACE_def nato_policy_oid_def times_parse_def)

theorem xml_label_round_trip_witness:
  "\<exists>l. codec_deserialize (one_label_codec nato_usa) ''<xml>'' Xml = Ok l \<and> cf_categories l = cf_categories nato_usa \<and>
     length (lp_allowed_classifications (cf_policy nato_usa)) = 5 \<and> length (lp_allowed_classifications (cf_policy l)) = 8"
proof -
  have "cf_alternative_labels nato_usa = []" "length (lp_allowed_classifications (cf_policy nato_usa)) = 5"
    "length (lp_allowed_classifications (with_allowed_classifications classification_level_all p)) = 8" for p
    by (simp_all add: nato_usa_def conf_label_new_def model_simps classification_level_all_def)
  with xml_label_round_trip [OF one_label_xml(1) sample_labels_plain(1) one_label_xml(2,3)] sample_labels_valid(1)
  show ?thesis by metis
qed

theorem alternative_label_leaks_witness:
  "\<exists>l. codec_deserialize (one_label_codec (with_alternative_label partner_deu nato_usa)) ''<xml>'' Xml = Ok l \<and>
     lp_identifier (cf_policy l) = ''PARTNER'' \<and> releasable_countries l = [''USA'', ''DEU'']"
proof -
  let ?l = "with_alternative_label partner_deu nato_usa"
  have alts: "cf_alternative_labels ?l = [partner_deu]" by (simp add: nato_usa_def conf_label_new_def)
  have ok: "list_all category_ok (cf_categories partner_deu)"
    by (simp add: partner_deu_def conf_label_new_def releasable_to_marking_def category_ok_def)
  have "lp_identifier (cf_policy partner_deu) = ''PARTNER''" "releasable_countries ?l = [''USA'']"
    "releasable_countries partner_deu = [''DEU'']"
    by (simp_all add: partner_deu_def nato_usa_def conf_label_new_def label_policy_new_def releasable_countries_def
        tagged_values_def releasable_to_marking_def is_releasable_to_def)
  with alternative_label_leaks [OF one_label_xml(1) sample_labels_plain(2) one_label_xml(2,3) alts ok]
    sample_labels_valid(2)
  show ?thesis by fastforce
qed

section \<open>Round trip through JSON\<close>

text \<open>JSON objects come back with their keys in another order, so values are compared by lookup.\<close>

inductive json_equiv :: "json \<Rightarrow> json \<Rightarrow> bool" where
  equiv_refl: "json_equiv v v"
| equiv_array: "list_all2 json_equiv xs ys \<Longrightarrow> json_equiv (JArray xs) (JArray ys)"
| equiv_object: "(\<And>k. rel_option json_equiv (map_of a k) (map_of b k)) \<Longrightarrow> json_equiv (JObject a) (JObject b)"

lemma json_get_equiv:
  assumes "json_equiv a b"
  shows "rel_option json_equiv (json_get a k) (json_get b k)"
  using assms by (cases rule: json_equiv.cases) (auto intro: option.rel_refl equiv_refl)

lemma json_as_str_equiv: "json_equiv a b \<Longrightarrow> json_as_str a = json_as_str b"
  by (auto elim: json_equiv.cases)

lemma json_get_str_equiv: "json_equiv a b \<Longrightarrow> json_get_str a k = json_get_str b k"
  using json_get_equiv [of a b k]
  by (auto simp: json_get_str_def json_as_str_equiv elim!: option.rel_cases)

lemma generic_values_equiv:
  assumes "json_equiv a b"
  shows "generic_values a = generic_values b"
proof -
  have "List.map_filter json_as_str xs = List.map_filter json_as_str ys" if "list_all2 json_equiv xs ys" for xs ys
    using that by (induction rule: list_all2_induct) (auto simp: List.map_filter_simps json_as_str_equiv split: option.split)
  with assms show ?thesis by (cases rule: json_equiv.cases) auto
qed

lemma parse_category_equiv:
  assumes "json_equiv a b"
  shows "parse_category a = parse_category b"
proof -
  have "Option.bind (json_get a ''GenericValues'') generic_values = Option.bind (json_get b ''GenericValues'') generic_values"
    using json_get_equiv [OF assms, of "''GenericValues''"]
    by (auto simp: generic_values_equiv elim!: option.rel_cases)
  then show ?thesis by (simp add: parse_category_def json_get_str_equiv [OF assms])
qed

lemma try_map_equiv:
  "list_all2 json_equiv xs ys \<Longrightarrow> try_map parse_category xs = try_map parse_category ys"
  by (induction rule: list_all2_induct) (auto simp: parse_category_equiv)

lemma parse_categories_equiv:
  assumes "json_equiv a b"
  shows "parse_categories a = parse_categories b"
  using json_get_equiv [OF assms, of "''Category''"]
proof (cases rule: option.rel_cases)
  case (Some x y)
  then have "parse_category x = parse_category y" by (simp add: parse_category_equiv)
  moreover from \<open>json_equiv x y\<close> have "(\<exists>xs ys. x = JArray xs \<and> y = JArray ys \<and> try_map parse_category xs = try_map parse_category ys) \<or>
      ((\<nexists>xs. x = JArray xs) \<and> (\<nexists>ys. y = JArray ys))"
    by (cases rule: json_equiv.cases) (auto simp: try_map_equiv)
  ultimately show ?thesis
    using Some by (cases x; cases y) (auto simp: parse_categories_def)
qed (simp add: parse_categories_def)

lemma parse_json_value_equiv:
  assumes "json_equiv a b"
  shows "parse_json_value lx a = parse_json_value lx b"
  using json_get_equiv [OF assms, of "''ConfidentialityInformation''"]
proof (cases rule: option.rel_cases)
  case (Some x y)
  then show ?thesis
    using json_get_str_equiv [OF assms] json_get_str_equiv [of x y] parse_categories_equiv [of x y]
    by (simp add: parse_json_value_def parse_json_datetime_def)
qed (simp add: parse_json_value_def)

definition json_laws :: "label_codec \<Rightarrow> bool" where
  "json_laws lx \<longleftrightarrow>
     (\<forall>l text. lx_json_write lx (to_json_value l) = Ok text \<longrightarrow>
        (\<exists>v. lx_json_read lx text = Ok v \<and> json_equiv (to_json_value l) v))"

definition json_image :: "conf_label \<Rightarrow> conf_label" where
  "json_image l =
     ConfLabel (label_policy_new (lp_identifier (cf_policy l))) (cf_classification l) (cf_privacy_mark l) None None
       (cf_categories l) [] (cf_creation_time l) (cf_review_date_time l)"

lemma map_filter_strings: "List.map_filter json_as_str (map JString vs) = vs"
  by (induction vs) (simp_all add: List.map_filter_simps)

lemma parse_category_json: "parse_category (category_json c) = Ok c"
  by (simp add: parse_category_def category_json_def json_get_str_def map_filter_strings)

lemma parse_categories_json: "try_map parse_category (map category_json cs) = Ok cs"
  by (induction cs) (simp_all add: parse_category_json)

lemma parse_json_label:
  assumes "times_parse lx l"
  shows "parse_json_value lx (to_json_value l) = Ok (json_image l)"
  using assms
  by (cases "cf_privacy_mark l"; cases "cf_creation_time l"; cases "cf_review_date_time l"; cases "cf_categories l = []")
    (simp_all add: parse_json_value_def to_json_value_def json_get_str_def parse_categories_def parse_categories_json
      parse_json_datetime_def parse_datetime_def times_parse_def json_image_def)

lemma json_read_back:
  assumes "json_laws lx" and "times_parse lx l" and "codec_serialize lx l JsonStructured = Ok text"
  shows "\<exists>v. lx_json_read lx text = Ok v \<and> parse_json_value lx v = Ok (json_image l)"
proof -
  have "lx_json_write lx (to_json_value l) = Ok text"
    using assms(3) by (auto simp: codec_serialize_def json_serialize_def and_then_Inr_iff)
  with assms(1) obtain v where "lx_json_read lx text = Ok v" and "json_equiv (to_json_value l) v"
    unfolding json_laws_def by blast
  then show ?thesis
    using parse_json_label [OF assms(2)] parse_json_value_equiv by metis
qed

lemma json_image_valid:
  assumes "validate_conf_label l = Ok ()"
  shows "validate_conf_label (json_image l) = Ok ()"
  using assms
  by (cases "cf_classification l")
    (auto simp: validate_conf_label_Ok_iff json_image_def allows_classification_def classification_level_all_def
      label_policy_new_def)

lemma codec_serialize_valid: "codec_serialize lx l f = Ok text \<Longrightarrow> validate_conf_label l = Ok ()"
  by (auto simp: codec_serialize_def and_then_Inr_iff)

lemma deserialize_json_Ok_iff:
  "codec_deserialize lx text JsonStructured = Ok l \<longleftrightarrow>
     (\<exists>v. lx_json_read lx text = Ok v \<and> parse_json_value lx v = Ok l \<and> validate_conf_label l = Ok ())"
  by (auto simp: codec_deserialize_def deserialize_with_options_def json_deserialize_def and_then_Inr_iff)

text \<open>
  The JSON encoding of a label keeps its policy identifier, classification, privacy mark,
  categories and times, and nothing else: the object identifier of the policy, colour, marking data
  and alternative labels are lost, and the policy comes back allowing every level.
\<close>

theorem json_label_round_trip:
  assumes "json_laws lx" and "times_parse lx l" and "codec_serialize lx l JsonStructured = Ok text"
  shows "codec_deserialize lx text JsonStructured =
     Ok (ConfLabel
           \<lparr>lp_identifier = lp_identifier (cf_policy l), lp_oid = None,
            lp_allowed_classifications = classification_level_all\<rparr>
           (cf_classification l) (cf_privacy_mark l) None None (cf_categories l) []
           (cf_creation_time l) (cf_review_date_time l))"
  using json_read_back [OF assms] json_image_valid [OF codec_serialize_valid [OF assms(3)]]
  by (auto simp: deserialize_json_Ok_iff json_image_def label_policy_new_def)

theorem json_label_round_trip_witness:
  "\<exists>l. codec_deserialize (one_label_codec nato_usa) ''{}'' JsonStructured = Ok l \<and> lp_oid (cf_policy l) = None \<and>
     cf_categories l = cf_categories nato_usa"
proof -
  have laws: "json_laws (one_label_codec nato_usa)"
    by (auto simp: json_laws_def one_label_codec_def equiv_refl)
  have times: "times_parse (one_label_codec nato_usa) nato_usa"
    by (simp add: times_parse_def one_label_codec_def)
  have "codec_serialize (one_label_codec nato_usa) nato_usa JsonStructured = Ok ''{}''"
    using sample_labels_valid(1) by (simp add: codec_serialize_def json_serialize_def one_label_codec_def)
  from json_label_round_trip [OF laws times this] show ?thesis by simp
qed

end
