(* ===== verification/Binding.thy ===== *)
theory Binding
  imports Stanag4774 Spif Crypto
begin

text \<open>
  Crate \<open>mim-stanag4778\<close>: metadata bindings, the NMBS assertion binding (signature over the label's XML
  and the payload digest), binding data objects for the profiles of ADatP-4778.2 with their verification,
  the detached label check, the REST envelope and the SMTP header binding. The label codec and the
  cryptographic provider are arguments; a resolver of detached labels is a function.
\<close>

section \<open>Metadata bindings (\<open>binding.rs\<close>)\<close>

datatype binding_method = Embedded | Encapsulated | Detached | Assertion

datatype binding_profile = JsonSidecar | XmlEmbedded | RestEnvelope | SmtpHeader | ZtdfAssertion

record metadata_binding =
  mb_method :: binding_method
  mb_profile :: binding_profile
  mb_label_location :: string
  mb_data_digest :: "string option"

definition embedded_json :: metadata_binding where
  "embedded_json =
     \<lparr>mb_method = Embedded, mb_profile = JsonSidecar, mb_label_location = ''metadata.security'', mb_data_digest = None\<rparr>"

definition assertion_ztdf :: metadata_binding where
  "assertion_ztdf =
     \<lparr>mb_method = Assertion, mb_profile = ZtdfAssertion, mb_label_location = ''assertions[nato-label]'',
      mb_data_digest = None\<rparr>"

definition encapsulated_xml :: metadata_binding where
  "encapsulated_xml =
     \<lparr>mb_method = Encapsulated, mb_profile = XmlEmbedded, mb_label_location = ''originatorConfidentialityLabel'',
      mb_data_digest = None\<rparr>"

section \<open>Assertion bindings (\<open>assertion.rs\<close>)\<close>

record binding_signature =
  bs_algorithm :: string
  bs_algorithm_uri :: string
  bs_key_id :: string
  bs_signature :: string

record assertion_binding =
  ab_label :: conf_label
  ab_payload_digest :: string
  ab_signature :: binding_signature
  ab_signed_label_xml :: "string option"

text \<open>\<open>SpifValidator::with_defaults()\<close>: a registration that fails is a panic; none does.\<close>

definition spif_defaults :: spif_registry where
  "spif_defaults = (case spif_registry_with_defaults of Inr r \<Rightarrow> r | Inl _ \<Rightarrow> spif_registry_new)"

definition sign_binding ::
  "crypto_provider \<Rightarrow> conf_label \<Rightarrow> string \<Rightarrow> string \<Rightarrow> signing_key \<Rightarrow> label_error + binding_signature" where
  "sign_binding cp l label_xml payload_digest k =
     and_then (map_err (\<lambda>e. LeBinding (show_crypto_error e)) (sign_nmb_binding cp k label_xml payload_digest)) (\<lambda>sig.
       Ok \<lparr>bs_algorithm = NMBS_ALGORITHM, bs_algorithm_uri = NMBS_ALGORITHM_URI, bs_key_id = sk_key_id k,
           bs_signature = sig\<rparr>)"

definition assertion_create ::
  "label_codec \<Rightarrow> crypto_provider \<Rightarrow> conf_label \<Rightarrow> bytes \<Rightarrow> signing_key \<Rightarrow> label_error + assertion_binding" where
  "assertion_create lx cp l payload k =
     and_then (validate_conf_label l) (\<lambda>_.
     and_then (spif_validate_label spif_defaults l) (\<lambda>_.
     let payload_digest = sha256_base64 cp payload in
     and_then (codec_serialize lx l Xml) (\<lambda>label_xml.
     and_then (sign_binding cp l label_xml payload_digest k) (\<lambda>signature.
       Ok \<lparr>ab_label = l, ab_payload_digest = payload_digest, ab_signature = signature,
           ab_signed_label_xml = Some label_xml\<rparr>))))"

definition assertion_verify ::
  "label_codec \<Rightarrow> crypto_provider \<Rightarrow> assertion_binding \<Rightarrow> bytes \<Rightarrow> verifying_key \<Rightarrow> label_error + unit" where
  "assertion_verify lx cp a payload k =
     and_then (validate_conf_label (ab_label a)) (\<lambda>_.
     and_then (spif_validate_label spif_defaults (ab_label a)) (\<lambda>_.
     if ab_payload_digest a \<noteq> sha256_base64 cp payload then
       Err (LeBinding (''payload digest mismatch '' @ [CHR 0xE2, CHR 0x80, CHR 0x94] @ '' binding integrity failed''))
     else if bs_key_id (ab_signature a) \<noteq> vk_key_id k then
       Err (LeBinding (''NMBS key id mismatch: expected '' @ vk_key_id k @ '', got '' @ bs_key_id (ab_signature a)))
     else and_then (case ab_signed_label_xml a of Some xml \<Rightarrow> Ok xml | None \<Rightarrow> codec_serialize lx (ab_label a) Xml)
       (\<lambda>label_bytes. map_err (\<lambda>e. LeBinding (show_crypto_error e))
          (verify_nmb_binding cp k label_bytes (ab_payload_digest a) (bs_signature (ab_signature a))))))"

section \<open>Detached labels (\<open>detached.rs\<close>)\<close>

type_synonym label_resolver = "string \<Rightarrow> label_error + string"

text \<open>The reader of files is an argument.\<close>

definition file_resolve :: "(string \<Rightarrow> string + string) \<Rightarrow> label_resolver" where
  "file_resolve read_file uri =
     (let path = (case strip_prefix ''file://'' uri of Some p \<Rightarrow> p | None \<Rightarrow> uri) in
      map_err (\<lambda>e. LeParse (''failed to resolve detached label at '' @ uri @ '': '' @ e)) (read_file path))"

definition verify_detached_label :: "label_codec \<Rightarrow> conf_label \<Rightarrow> string \<Rightarrow> label_resolver \<Rightarrow> label_error + unit" where
  "verify_detached_label lx binding_label label_uri resolve =
     and_then (resolve label_uri) (\<lambda>xml.
     and_then (codec_deserialize lx xml Xml) (\<lambda>external.
       if lp_identifier (cf_policy external) \<noteq> lp_identifier (cf_policy binding_label) \<or>
          cf_classification external \<noteq> cf_classification binding_label
       then Err (LeBinding ''detached label content does not match binding label'')
       else Ok ()))"

section \<open>Binding data objects (\<open>bdo.rs\<close>)\<close>

record binding_data_object =
  bd_binding :: metadata_binding
  bd_label :: conf_label
  bd_label_encoding :: string
  bd_payload_digest :: string
  bd_assertion :: "assertion_binding option"

text \<open>\<open>signing_key.map(|key| AssertionBinding::create(..)).transpose()\<close>.\<close>

definition optional_assertion ::
  "label_codec \<Rightarrow> crypto_provider \<Rightarrow> conf_label \<Rightarrow> bytes \<Rightarrow> signing_key option \<Rightarrow> label_error + assertion_binding option" where
  "optional_assertion lx cp l payload key =
     (case key of None \<Rightarrow> Ok None | Some k \<Rightarrow> and_then (assertion_create lx cp l payload k) (\<lambda>a. Ok (Some a)))"

definition embedded_with_nmb ::
  "label_codec \<Rightarrow> crypto_provider \<Rightarrow> conf_label \<Rightarrow> bytes \<Rightarrow> signing_key option \<Rightarrow> label_error + binding_data_object" where
  "embedded_with_nmb lx cp l payload key =
     and_then (validate_conf_label l) (\<lambda>_.
     and_then (spif_validate_label spif_defaults l) (\<lambda>_.
     and_then (codec_serialize lx l JsonStructured) (\<lambda>encoded.
     and_then (optional_assertion lx cp l payload key) (\<lambda>assertion.
       Ok \<lparr>bd_binding = embedded_json, bd_label = l, bd_label_encoding = encoded,
           bd_payload_digest = sha256_base64 cp payload, bd_assertion = assertion\<rparr>))))"

definition embedded :: "label_codec \<Rightarrow> crypto_provider \<Rightarrow> conf_label \<Rightarrow> bytes \<Rightarrow> label_error + binding_data_object" where
  "embedded lx cp l payload = embedded_with_nmb lx cp l payload None"

definition xml_embedded_with_nmb ::
  "label_codec \<Rightarrow> crypto_provider \<Rightarrow> conf_label \<Rightarrow> bytes \<Rightarrow> signing_key option \<Rightarrow> label_error + binding_data_object" where
  "xml_embedded_with_nmb lx cp l payload key =
     and_then (validate_conf_label l) (\<lambda>_.
     and_then (spif_validate_label spif_defaults l) (\<lambda>_.
     and_then (codec_serialize lx l Xml) (\<lambda>encoded.
     and_then (optional_assertion lx cp l payload key) (\<lambda>assertion.
       Ok \<lparr>bd_binding = encapsulated_xml, bd_label = l, bd_label_encoding = encoded,
           bd_payload_digest = sha256_base64 cp payload, bd_assertion = assertion\<rparr>))))"

definition xml_embedded :: "label_codec \<Rightarrow> crypto_provider \<Rightarrow> conf_label \<Rightarrow> bytes \<Rightarrow> label_error + binding_data_object" where
  "xml_embedded lx cp l payload = xml_embedded_with_nmb lx cp l payload None"

definition encapsulated_with_nmb ::
  "label_codec \<Rightarrow> crypto_provider \<Rightarrow> conf_label \<Rightarrow> bytes \<Rightarrow> signing_key option \<Rightarrow> label_error + binding_data_object" where
  "encapsulated_with_nmb lx cp l payload key =
     and_then (validate_conf_label l) (\<lambda>_.
     and_then (spif_validate_label spif_defaults l) (\<lambda>_.
     and_then (codec_serialize lx l Xml) (\<lambda>encoded.
     and_then (optional_assertion lx cp l payload key) (\<lambda>assertion.
       Ok \<lparr>bd_binding =
             \<lparr>mb_method = Encapsulated, mb_profile = XmlEmbedded, mb_label_location = ''ConfidentialityLabel'',
              mb_data_digest = Some (sha256_base64 cp payload)\<rparr>,
           bd_label = l, bd_label_encoding = encoded,
           bd_payload_digest = sha256_base64 cp payload, bd_assertion = assertion\<rparr>))))"

definition encapsulated :: "label_codec \<Rightarrow> crypto_provider \<Rightarrow> conf_label \<Rightarrow> bytes \<Rightarrow> label_error + binding_data_object" where
  "encapsulated lx cp l payload = encapsulated_with_nmb lx cp l payload None"

definition detached_with_nmb ::
  "label_codec \<Rightarrow> crypto_provider \<Rightarrow> conf_label \<Rightarrow> bytes \<Rightarrow> string \<Rightarrow> signing_key option \<Rightarrow>
     label_error + binding_data_object" where
  "detached_with_nmb lx cp l payload label_uri key =
     and_then (validate_conf_label l) (\<lambda>_.
     and_then (spif_validate_label spif_defaults l) (\<lambda>_.
     and_then (codec_serialize lx l Xml) (\<lambda>encoded.
     and_then (optional_assertion lx cp l payload key) (\<lambda>assertion.
       Ok \<lparr>bd_binding =
             \<lparr>mb_method = Detached, mb_profile = JsonSidecar, mb_label_location = label_uri,
              mb_data_digest = Some (sha256_base64 cp payload)\<rparr>,
           bd_label = l, bd_label_encoding = encoded,
           bd_payload_digest = sha256_base64 cp payload, bd_assertion = assertion\<rparr>))))"

definition detached ::
  "label_codec \<Rightarrow> crypto_provider \<Rightarrow> conf_label \<Rightarrow> bytes \<Rightarrow> string \<Rightarrow> label_error + binding_data_object" where
  "detached lx cp l payload label_uri = detached_with_nmb lx cp l payload label_uri None"

definition assertion_bound ::
  "label_codec \<Rightarrow> crypto_provider \<Rightarrow> conf_label \<Rightarrow> bytes \<Rightarrow> signing_key \<Rightarrow> label_error + binding_data_object" where
  "assertion_bound lx cp l payload k =
     and_then (validate_conf_label l) (\<lambda>_.
     and_then (codec_serialize lx l Xml) (\<lambda>encoded.
     and_then (assertion_create lx cp l payload k) (\<lambda>assertion.
       Ok \<lparr>bd_binding = assertion_ztdf, bd_label = l, bd_label_encoding = encoded,
           bd_payload_digest = ab_payload_digest assertion, bd_assertion = Some assertion\<rparr>)))"

definition verify_with_resolver ::
  "label_codec \<Rightarrow> crypto_provider \<Rightarrow> binding_data_object \<Rightarrow> bytes \<Rightarrow> verifying_key option \<Rightarrow> label_resolver \<Rightarrow>
     label_error + unit" where
  "verify_with_resolver lx cp b payload key resolve =
     and_then (validate_conf_label (bd_label b)) (\<lambda>_.
     let digest = sha256_base64 cp payload in
     if bd_payload_digest b \<noteq> digest then Err (LeBinding ''payload digest mismatch for binding profile'')
     else if \<exists>expected. mb_data_digest (bd_binding b) = Some expected \<and> expected \<noteq> digest then
       Err (LeBinding ''metadata binding data digest mismatch'')
     else
     and_then (case bd_assertion b of
         None \<Rightarrow> Ok ()
       | Some a \<Rightarrow>
           and_then (ok_or (LeBinding ''NMBS assertion present but no verifying key supplied'') key) (\<lambda>k.
             assertion_verify lx cp a payload k)) (\<lambda>_.
     case mb_method (bd_binding b) of
       Assertion \<Rightarrow>
         and_then (ok_or (LeBinding ''assertion binding missing assertion block'') (bd_assertion b)) (\<lambda>a.
         and_then (ok_or (LeBinding ''assertion binding requires NMBS verifying key'') key) (\<lambda>k.
           assertion_verify lx cp a payload k))
     | Detached \<Rightarrow>
         and_then (verify_detached_label lx (bd_label b) (mb_label_location (bd_binding b)) resolve) (\<lambda>_.
           spif_validate_label spif_defaults (bd_label b))
     | Embedded \<Rightarrow> spif_validate_label spif_defaults (bd_label b)
     | Encapsulated \<Rightarrow> spif_validate_label spif_defaults (bd_label b)))"

definition bdo_verify ::
  "label_codec \<Rightarrow> crypto_provider \<Rightarrow> (string \<Rightarrow> string + string) \<Rightarrow> binding_data_object \<Rightarrow> bytes \<Rightarrow>
     verifying_key option \<Rightarrow> label_error + unit" where
  "bdo_verify lx cp read_file b payload key = verify_with_resolver lx cp b payload key (file_resolve read_file)"

definition profile_name :: "binding_data_object \<Rightarrow> string" where
  "profile_name b =
     (case mb_profile (bd_binding b) of
        JsonSidecar \<Rightarrow> ''JSON Sidecar (ADatP-4778.2)''
      | XmlEmbedded \<Rightarrow> ''XML Embedded''
      | RestEnvelope \<Rightarrow> ''REST Envelope (ADatP-4778.2)''
      | SmtpHeader \<Rightarrow> ''SMTP Header (ADatP-4778.2)''
      | ZtdfAssertion \<Rightarrow> ''ZTDF Assertion (ADatP-4778.2)'')"

definition requires_assertion_binding :: "binding_data_object \<Rightarrow> bool" where
  "requires_assertion_binding b \<longleftrightarrow> mb_method (bd_binding b) = Assertion"

definition has_nmb_signature :: "binding_data_object \<Rightarrow> bool" where
  "has_nmb_signature b \<longleftrightarrow> bd_assertion b \<noteq> None"

section \<open>The REST envelope (\<open>rest_envelope.rs\<close>)\<close>

record rest_envelope =
  re_metadata_binding :: metadata_binding
  re_originator_label :: string
  re_payload_digest :: string
  re_payload :: string
  re_assertion :: "assertion_binding option"

definition LABEL_HEADER :: string where
  "LABEL_HEADER = ''X-NATO-Confidentiality-Label''"

definition rest_wrap ::
  "label_codec \<Rightarrow> crypto_provider \<Rightarrow> conf_label \<Rightarrow> bytes \<Rightarrow> signing_key \<Rightarrow> label_error + rest_envelope" where
  "rest_wrap lx cp l payload k =
     and_then (validate_conf_label l) (\<lambda>_.
     and_then (codec_serialize lx l Xml) (\<lambda>label_xml.
     and_then (assertion_create lx cp l payload k) (\<lambda>assertion.
     and_then (map_err LeSerialization (from_utf8 payload)) (\<lambda>text.
       Ok \<lparr>re_metadata_binding =
             \<lparr>mb_method = Assertion, mb_profile = RestEnvelope, mb_label_location = LABEL_HEADER,
              mb_data_digest = Some (ab_payload_digest assertion)\<rparr>,
           re_originator_label = label_xml, re_payload_digest = ab_payload_digest assertion,
           re_payload = text, re_assertion = Some assertion\<rparr>))))"

definition rest_from_bdo :: "binding_data_object \<Rightarrow> bytes \<Rightarrow> label_error + rest_envelope" where
  "rest_from_bdo b payload =
     and_then (map_err LeSerialization (from_utf8 payload)) (\<lambda>text.
       Ok \<lparr>re_metadata_binding =
             \<lparr>mb_method = mb_method (bd_binding b), mb_profile = RestEnvelope, mb_label_location = LABEL_HEADER,
              mb_data_digest = Some (bd_payload_digest b)\<rparr>,
           re_originator_label = bd_label_encoding b, re_payload_digest = bd_payload_digest b,
           re_payload = text, re_assertion = bd_assertion b\<rparr>)"

definition rest_verify ::
  "label_codec \<Rightarrow> crypto_provider \<Rightarrow> rest_envelope \<Rightarrow> verifying_key \<Rightarrow> label_error + unit" where
  "rest_verify lx cp e k =
     (if re_payload_digest e \<noteq> sha256_base64 cp (re_payload e) then
        Err (LeBinding ''REST envelope payload digest mismatch'')
      else and_then (ok_or (LeBinding ''REST envelope requires NMBS assertion binding'') (re_assertion e)) (\<lambda>a.
        assertion_verify lx cp a (re_payload e) k))"

section \<open>The SMTP header binding (\<open>smtp_header.rs\<close>)\<close>

record smtp_header_binding =
  sm_header_name :: string
  sm_label_encoding :: string
  sm_payload_digest :: string
  sm_assertion :: assertion_binding

definition smtp_create ::
  "label_codec \<Rightarrow> crypto_provider \<Rightarrow> conf_label \<Rightarrow> bytes \<Rightarrow> signing_key \<Rightarrow> label_error + smtp_header_binding" where
  "smtp_create lx cp l payload k =
     and_then (codec_serialize lx l Xml) (\<lambda>encoded.
     and_then (assertion_create lx cp l payload k) (\<lambda>assertion.
       Ok \<lparr>sm_header_name = LABEL_HEADER, sm_label_encoding = encoded,
           sm_payload_digest = sha256_base64 cp payload, sm_assertion = assertion\<rparr>))"

definition smtp_verify ::
  "label_codec \<Rightarrow> crypto_provider \<Rightarrow> smtp_header_binding \<Rightarrow> bytes \<Rightarrow> verifying_key \<Rightarrow> label_error + unit" where
  "smtp_verify lx cp m payload k =
     (if sm_payload_digest m \<noteq> sha256_base64 cp payload then
        Err (LeBinding ''SMTP header binding payload digest mismatch'')
      else assertion_verify lx cp (sm_assertion m) payload k)"

section \<open>What verification establishes\<close>

abbreviation label_accepted :: "conf_label \<Rightarrow> bool" where
  "label_accepted l \<equiv> spif_validate_label spif_defaults l = Ok ()"

lemma label_accepted_valid: "label_accepted l \<Longrightarrow> validate_conf_label l = Ok ()"
  by (simp add: spif_validate_label_Ok_iff)

lemma sign_binding_Ok_iff:
  "sign_binding cp l xml d k = Ok s \<longleftrightarrow>
     (\<exists>sig. sign_nmb_binding cp k xml d = Ok sig \<and>
        s = \<lparr>bs_algorithm = NMBS_ALGORITHM, bs_algorithm_uri = NMBS_ALGORITHM_URI, bs_key_id = sk_key_id k,
             bs_signature = sig\<rparr>)"
  by (auto simp: sign_binding_def and_then_Inr_iff)

lemma assertion_create_Ok_iff:
  "assertion_create lx cp l p k = Ok a \<longleftrightarrow>
     label_accepted l \<and>
     (\<exists>xml s. codec_serialize lx l Xml = Ok xml \<and> sign_binding cp l xml (sha256_base64 cp p) k = Ok s \<and>
        a = \<lparr>ab_label = l, ab_payload_digest = sha256_base64 cp p, ab_signature = s, ab_signed_label_xml = Some xml\<rparr>)"
  by (auto simp: assertion_create_def and_then_Inr_iff Let_def dest: label_accepted_valid)

text \<open>The bytes whose signature is checked.\<close>

definition signed_bytes :: "label_codec \<Rightarrow> assertion_binding \<Rightarrow> label_error + string" where
  "signed_bytes lx a =
     (case ab_signed_label_xml a of Some xml \<Rightarrow> Ok xml | None \<Rightarrow> codec_serialize lx (ab_label a) Xml)"

lemma assertion_verify_Ok_iff:
  "assertion_verify lx cp a p k = Ok () \<longleftrightarrow>
     label_accepted (ab_label a) \<and> ab_payload_digest a = sha256_base64 cp p \<and>
     bs_key_id (ab_signature a) = vk_key_id k \<and>
     (\<exists>xml. signed_bytes lx a = Ok xml \<and>
        verify_nmb_binding cp k xml (sha256_base64 cp p) (bs_signature (ab_signature a)) = Ok ())"
  by (auto simp: assertion_verify_def and_then_Inr_iff signed_bytes_def dest: label_accepted_valid)

lemma verify_created_assertion:
  assumes "crypto_laws cp kp" and "vk_key_id (kp_verifying kp) = sk_key_id (kp_signing kp)"
    and "assertion_create lx cp l p (kp_signing kp) = Ok a"
  shows "assertion_verify lx cp a p (kp_verifying kp) = Ok ()"
  using assms verify_signed_binding [OF assms(1)]
  by (auto simp: assertion_create_Ok_iff assertion_verify_Ok_iff sign_binding_Ok_iff signed_bytes_def)

lemma optional_assertion_Ok_iff:
  "optional_assertion lx cp l p key = Ok r \<longleftrightarrow>
     (case key of None \<Rightarrow> r = None
      | Some k \<Rightarrow> \<exists>a. assertion_create lx cp l p k = Ok a \<and> r = Some a)"
  by (auto simp: optional_assertion_def and_then_Inr_iff split: option.splits)

text \<open>What the verification of a binding data object asks of each method.\<close>

lemma verify_with_resolver_Ok_iff:
  "verify_with_resolver lx cp b p key resolve = Ok () \<longleftrightarrow>
     validate_conf_label (bd_label b) = Ok () \<and> bd_payload_digest b = sha256_base64 cp p \<and>
     (\<forall>d. mb_data_digest (bd_binding b) = Some d \<longrightarrow> d = sha256_base64 cp p) \<and>
     (\<forall>a. bd_assertion b = Some a \<longrightarrow> (\<exists>k. key = Some k \<and> assertion_verify lx cp a p k = Ok ())) \<and>
     (case mb_method (bd_binding b) of
        Assertion \<Rightarrow> bd_assertion b \<noteq> None
      | Detached \<Rightarrow>
          verify_detached_label lx (bd_label b) (mb_label_location (bd_binding b)) resolve = Ok () \<and>
          label_accepted (bd_label b)
      | _ \<Rightarrow> label_accepted (bd_label b))"
  by (cases "mb_method (bd_binding b)"; cases "bd_assertion b"; cases key)
    (auto simp: verify_with_resolver_def and_then_Inr_iff Let_def)

lemma verify_detached_label_Ok_iff:
  "verify_detached_label lx l uri resolve = Ok () \<longleftrightarrow>
     (\<exists>xml external. resolve uri = Ok xml \<and> codec_deserialize lx xml Xml = Ok external \<and>
        lp_identifier (cf_policy external) = lp_identifier (cf_policy l) \<and>
        cf_classification external = cf_classification l)"
  by (auto simp: verify_detached_label_def and_then_Inr_iff)

lemmas bdo_defs = embedded_with_nmb_def xml_embedded_with_nmb_def encapsulated_with_nmb_def detached_with_nmb_def
  embedded_json_def encapsulated_xml_def assertion_ztdf_def

text \<open>A data object of a local profile verifies if its assertion, when it has one, does.\<close>

lemma verify_local_profile:
  assumes "label_accepted (bd_label b)" and "bd_payload_digest b = sha256_base64 cp p"
    and "mb_data_digest (bd_binding b) \<in> {None, Some (sha256_base64 cp p)}"
    and "optional_assertion lx cp (bd_label b) p (Some (kp_signing kp)) = Ok (bd_assertion b)"
    and "mb_method (bd_binding b) \<in> {Embedded, Encapsulated, Assertion}"
    and "crypto_laws cp kp" and "vk_key_id (kp_verifying kp) = sk_key_id (kp_signing kp)"
  shows "verify_with_resolver lx cp b p (Some (kp_verifying kp)) resolve = Ok ()"
  using assms label_accepted_valid [OF assms(1)] verify_created_assertion [OF assms(6,7)]
  by (auto simp: verify_with_resolver_Ok_iff optional_assertion_Ok_iff)

lemma created_assertion_bound_verifies:
  assumes "crypto_laws cp kp" and "vk_key_id (kp_verifying kp) = sk_key_id (kp_signing kp)"
    and "assertion_bound lx cp l p (kp_signing kp) = Ok b"
  shows "verify_with_resolver lx cp b p (Some (kp_verifying kp)) resolve = Ok ()"
  using assms(3)
  by (intro verify_local_profile [OF _ _ _ _ _ assms(1,2)])
    (auto simp: assertion_bound_def assertion_ztdf_def and_then_Inr_iff optional_assertion_Ok_iff assertion_create_Ok_iff)

text \<open>
  C25: whatever profile binds a label to a payload with one key of a pair, the other key verifies: the
  assertion, the embedded, XML, encapsulated and assertion data objects, the REST envelope, which gives
  the payload back, and the SMTP header. The resolver of detached labels is not consulted.
\<close>

theorem created_bindings_verify:
  assumes "crypto_laws cp kp" and "vk_key_id (kp_verifying kp) = sk_key_id (kp_signing kp)"
  shows "(\<forall>a. assertion_create lx cp l p (kp_signing kp) = Ok a \<longrightarrow>
            assertion_verify lx cp a p (kp_verifying kp) = Ok ()) \<and>
     (\<forall>b. Ok b \<in> {embedded_with_nmb lx cp l p (Some (kp_signing kp)), xml_embedded_with_nmb lx cp l p (Some (kp_signing kp)),
            encapsulated_with_nmb lx cp l p (Some (kp_signing kp)), assertion_bound lx cp l p (kp_signing kp)} \<longrightarrow>
          bd_label b = l \<and> (\<forall>resolve. verify_with_resolver lx cp b p (Some (kp_verifying kp)) resolve = Ok ())) \<and>
     (\<forall>e. rest_wrap lx cp l p (kp_signing kp) = Ok e \<longrightarrow>
          re_payload e = p \<and> rest_verify lx cp e (kp_verifying kp) = Ok ()) \<and>
     (\<forall>m. smtp_create lx cp l p (kp_signing kp) = Ok m \<longrightarrow> smtp_verify lx cp m p (kp_verifying kp) = Ok ())"
proof (intro conjI allI impI)
  note created = verify_created_assertion [OF assms]
  show "assertion_verify lx cp a p (kp_verifying kp) = Ok ()"
    if "assertion_create lx cp l p (kp_signing kp) = Ok a" for a
    using created that .
  show "bd_label b = l"
    if "Ok b \<in> {embedded_with_nmb lx cp l p (Some (kp_signing kp)), xml_embedded_with_nmb lx cp l p (Some (kp_signing kp)),
            encapsulated_with_nmb lx cp l p (Some (kp_signing kp)), assertion_bound lx cp l p (kp_signing kp)}" for b
    using that by (auto simp: bdo_defs assertion_bound_def and_then_Inr_iff dest!: sym [of "Ok b"])
  show "verify_with_resolver lx cp b p (Some (kp_verifying kp)) resolve = Ok ()"
    if "Ok b \<in> {embedded_with_nmb lx cp l p (Some (kp_signing kp)), xml_embedded_with_nmb lx cp l p (Some (kp_signing kp)),
            encapsulated_with_nmb lx cp l p (Some (kp_signing kp)), assertion_bound lx cp l p (kp_signing kp)}" for b resolve
    using that
    by (intro verify_local_profile [OF _ _ _ _ _ assms])
      (auto simp: bdo_defs assertion_bound_def and_then_Inr_iff optional_assertion_Ok_iff assertion_create_Ok_iff
        dest!: sym [of "Ok b"])
  show "re_payload e = p" if "rest_wrap lx cp l p (kp_signing kp) = Ok e" for e
    using that by (auto simp: rest_wrap_def and_then_Inr_iff dest: from_utf8_Ok)
  show "rest_verify lx cp e (kp_verifying kp) = Ok ()" if "rest_wrap lx cp l p (kp_signing kp) = Ok e" for e
    using that created by (auto simp: rest_wrap_def rest_verify_def and_then_Inr_iff assertion_create_Ok_iff dest: from_utf8_Ok)
  show "smtp_verify lx cp m p (kp_verifying kp) = Ok ()" if "smtp_create lx cp l p (kp_signing kp) = Ok m" for m
    using that created by (auto simp: smtp_create_def smtp_verify_def and_then_Inr_iff)
qed

text \<open>
  What a successful verification of an assertion means: the label it carries is accepted by the
  built-in policies, the payload has the bound digest, the signing key has the identifier of the
  verifying key, and the signature covers the bound label text and that digest. So the same assertion
  verifies for no payload with another digest, whatever the key.
\<close>

theorem assertion_verify_exact:
  "(assertion_verify lx cp a p k = Ok () \<longleftrightarrow>
      label_accepted (ab_label a) \<and> ab_payload_digest a = sha256_base64 cp p \<and>
      bs_key_id (ab_signature a) = vk_key_id k \<and>
      (\<exists>xml sig. (case ab_signed_label_xml a of Some x \<Rightarrow> xml = x | None \<Rightarrow> codec_serialize lx (ab_label a) Xml = Ok xml) \<and>
         cp_b64_decode cp (bs_signature (ab_signature a)) = Ok sig \<and>
         cp_verify_rsa_pss_sha256 cp k (xml @ ''|'' @ sha256_base64 cp p) sig = Ok ())) \<and>
   (\<forall>p' k'. assertion_verify lx cp a p k = Ok () \<and> sha256_base64 cp p' \<noteq> sha256_base64 cp p \<longrightarrow>
      assertion_verify lx cp a p' k' \<noteq> Ok ())"
  by (auto simp: assertion_verify_Ok_iff signed_bytes_def verify_nmb_binding_Ok_iff nmb_message_def split: option.splits)

text \<open>
  C18: the label that a verified binding carries is not the label that was signed: an assertion with its
  signed text, a REST envelope and an assertion data object verify just as well after their labels are
  replaced by any label that the built-in policies accept, and the envelope whatever label its header
  shows. Only the stored text is covered by the signature and nothing compares the two.
\<close>

theorem verified_label_can_be_replaced:
  assumes "assertion_verify lx cp a p k = Ok ()" and "ab_signed_label_xml a \<noteq> None" and "label_accepted l'"
  shows "assertion_verify lx cp (a\<lparr>ab_label := l'\<rparr>) p k = Ok () \<and>
     (\<forall>e. rest_verify lx cp e k = Ok () \<and> re_assertion e = Some a \<and> re_payload e = p \<longrightarrow>
        (\<forall>shown. rest_verify lx cp (e\<lparr>re_assertion := Some (a\<lparr>ab_label := l'\<rparr>), re_originator_label := shown\<rparr>) k = Ok ())) \<and>
     (\<forall>b resolve. verify_with_resolver lx cp b p (Some k) resolve = Ok () \<and> requires_assertion_binding b \<and>
          bd_assertion b = Some a \<longrightarrow>
        verify_with_resolver lx cp (b\<lparr>bd_label := l', bd_assertion := Some (a\<lparr>ab_label := l'\<rparr>)\<rparr>) p (Some k) resolve = Ok ())"
proof -
  have replaced: "assertion_verify lx cp (a\<lparr>ab_label := l'\<rparr>) p k = Ok ()"
    using assms by (auto simp: assertion_verify_Ok_iff signed_bytes_def)
  then show ?thesis
    using label_accepted_valid [OF assms(3)]
    by (auto simp: rest_verify_def verify_with_resolver_Ok_iff requires_assertion_binding_def)
qed

text \<open>
  A detached label is compared by policy identifier and classification only: two labels that agree
  on these are interchangeable for the detached check, whatever countries, caveats or privacy mark
  either of them carries.
\<close>

lemma detached_check_ignores_categories:
  assumes "lp_identifier (cf_policy l) = lp_identifier (cf_policy l')" and "cf_classification l = cf_classification l'"
  shows "verify_detached_label lx l uri resolve = Ok () \<longleftrightarrow> verify_detached_label lx l' uri resolve = Ok ()"
  using assms by (simp add: verify_detached_label_Ok_iff)

section \<open>A bound payload\<close>

lemma spif_get_defaults:
  "spif_get spif_defaults i =
     (if i = ''DEMO-UK'' then Some spif_uk_demo
      else if i = ''US'' then Some spif_capco_us
      else if i = ''ACME'' then Some spif_acme
      else if i = ''NATO'' then Some spif_nato
      else None)"
proof -
  obtain r where r: "spif_registry_with_defaults = (Ok r :: string + spif_registry)" using spif_defaults_exist by blast
  have "spif_defaults = r" unfolding spif_defaults_def r sum.case ..
  then show ?thesis using spif_defaults_get [OF r, of i] by simp
qed

definition nato_open :: conf_label where
  "nato_open = conf_label_new nato_policy Unclassified"

lemma sample_labels_accepted: "label_accepted nato_usa" "label_accepted nato_open"
proof -
  have ids: "lp_identifier (cf_policy nato_usa) = ''NATO''" "lp_identifier (cf_policy nato_open) = ''NATO''"
    by (simp_all add: nato_usa_def nato_open_def model_simps)
  have "conforms_to nato_usa spif_nato"
    by (simp add: conforms_to_def spif_nato_def nato_usa_def category_conforms_def
        spif_category_for_def releasable_to_marking_def spif_eval conf_label_new_def)
  with ids(1) sample_labels_valid(1) show "label_accepted nato_usa"
    by (simp add: spif_validate_label_Ok_iff spif_get_defaults)
  have "validate_conf_label nato_open = Ok ()"
    by (simp add: nato_open_def validate_conf_label_Ok_iff model_simps)
  moreover have "conforms_to nato_open spif_nato"
    by (simp add: conforms_to_def spif_nato_def nato_open_def spif_eval conf_label_new_def)
  ultimately show "label_accepted nato_open"
    using ids(2) by (simp add: spif_validate_label_Ok_iff spif_get_defaults)
qed

definition toy_assertion :: assertion_binding where
  "toy_assertion =
     \<lparr>ab_label = nato_usa, ab_payload_digest = ''x'',
      ab_signature = \<lparr>bs_algorithm = NMBS_ALGORITHM, bs_algorithm_uri = NMBS_ALGORITHM_URI, bs_key_id = ''k1'',
        bs_signature = ''d<xml>|x''\<rparr>,
      ab_signed_label_xml = Some ''<xml>''\<rparr>"

lemma toy_assertion_created:
  "assertion_create (one_label_codec nato_usa) toy_provider nato_usa ''x'' (kp_signing toy_keys) = Ok toy_assertion"
  using one_label_xml(3) [OF sample_labels_valid(1)] sample_labels_accepted(1)
  by (simp add: assertion_create_Ok_iff sign_binding_Ok_iff sign_nmb_binding_def nmb_message_def toy_provider_def
      toy_keys_def sha256_base64_def toy_assertion_def)

lemma toy_key_ids: "vk_key_id (kp_verifying toy_keys) = sk_key_id (kp_signing toy_keys)"
  by (simp add: toy_keys_def)

lemma toy_assertion_verifies:
  "assertion_verify (one_label_codec nato_usa) toy_provider toy_assertion ''x'' (kp_verifying toy_keys) = Ok ()"
  using verify_created_assertion [OF toy_laws toy_key_ids toy_assertion_created] .

theorem created_bindings_verify_witness:
  "\<exists>e. rest_wrap (one_label_codec nato_usa) toy_provider nato_usa ''x'' (kp_signing toy_keys) = Ok e \<and>
     re_payload e = ''x'' \<and> rest_verify (one_label_codec nato_usa) toy_provider e (kp_verifying toy_keys) = Ok ()"
proof -
  have "from_utf8 ''x'' = Ok ''x''" by (simp add: from_utf8_ascii)
  then obtain e where
    "rest_wrap (one_label_codec nato_usa) toy_provider nato_usa ''x'' (kp_signing toy_keys) = Ok e"
    using one_label_xml(3) [OF sample_labels_valid(1)] sample_labels_valid(1) toy_assertion_created
    by (simp add: rest_wrap_def)
  with created_bindings_verify [OF toy_laws toy_key_ids] show ?thesis by blast
qed

theorem assertion_verify_exact_witness:
  "assertion_verify (one_label_codec nato_usa) toy_provider toy_assertion ''y'' (kp_verifying toy_keys) \<noteq> Ok ()"
proof -
  have "sha256_base64 toy_provider ''y'' \<noteq> sha256_base64 toy_provider ''x''"
    by (simp add: sha256_base64_def toy_provider_def)
  with toy_assertion_verifies show ?thesis using assertion_verify_exact by blast
qed

theorem verified_label_can_be_replaced_witness:
  "assertion_verify (one_label_codec nato_usa) toy_provider (toy_assertion\<lparr>ab_label := nato_open\<rparr>) ''x''
      (kp_verifying toy_keys) = Ok () \<and>
   cf_classification (ab_label toy_assertion) = Secret \<and> cf_classification nato_open = Unclassified"
proof -
  have "ab_signed_label_xml toy_assertion \<noteq> None" by (simp add: toy_assertion_def)
  from verified_label_can_be_replaced [OF toy_assertion_verifies this sample_labels_accepted(2)]
  show ?thesis by (simp add: toy_assertion_def nato_usa_def nato_open_def conf_label_new_def)
qed

end
