(* ===== verification/Ztdf.thy ===== *)
theory Ztdf
  imports Binding Policy_Enforcement
begin

text \<open>
  Crate \<open>mim-ztdf\<close>: the assertion with its statement, the manifest, the clients of a key access server and
  the package with its creation, sealing, decryption behind the enforcement point and verification.
  Key wrapping, AES-GCM and random numbers (the rest of the \<open>CryptoProvider\<close> trait) are the record
  \<open>content_crypto\<close>, the zip crate and the serialisation of the manifest the record \<open>ztdf_codec\<close>; both are
  parts of the environment of every operation. Content keys are byte lists.
\<close>

record content_crypto =
  cc_fill_random :: "bytes \<Rightarrow> nat \<Rightarrow> crypto_error + bytes"
  cc_wrap_key :: "bytes \<Rightarrow> verifying_key \<Rightarrow> bytes \<Rightarrow> crypto_error + bytes"
  cc_unwrap_key :: "signing_key \<Rightarrow> bytes \<Rightarrow> crypto_error + bytes"
  cc_encrypt :: "bytes \<Rightarrow> bytes \<Rightarrow> bytes \<Rightarrow> bytes \<Rightarrow> crypto_error + aes_gcm_ciphertext"
  cc_decrypt :: "bytes \<Rightarrow> aes_gcm_ciphertext \<Rightarrow> bytes \<Rightarrow> crypto_error + bytes"

text \<open>The entropy that one package creation draws: for the key, the initialisation vector and the padding.\<close>

record ztdf_entropy =
  zr_key :: bytes
  zr_iv :: bytes
  zr_wrap :: bytes

definition generate_content_key :: "content_crypto \<Rightarrow> bytes \<Rightarrow> crypto_error + bytes" where
  "generate_content_key cc seed = and_then (cc_fill_random cc seed 32) (\<lambda>b. Ok b)"

section \<open>Assertions (\<open>assertion.rs\<close>)\<close>

record ztdf_statement =
  zs_format :: string
  zs_schema :: string
  zs_value :: json

record ztdf_assertion_binding =
  zb_method :: string
  zb_algorithm :: string
  zb_key_id :: string
  zb_signature :: string

record ztdf_assertion =
  za_id :: string
  za_assertion_type :: string
  za_scope :: string
  za_applies_to_state :: string
  za_statement :: ztdf_statement
  za_binding :: ztdf_assertion_binding
  za_signed_label_xml :: string

definition from_label ::
  "label_codec \<Rightarrow> crypto_provider \<Rightarrow> conf_label \<Rightarrow> bytes \<Rightarrow> signing_key \<Rightarrow> label_error + ztdf_assertion" where
  "from_label lx cp l payload k =
     and_then (validate_conf_label l) (\<lambda>_.
     and_then (codec_serialize lx l Xml) (\<lambda>label_xml.
     and_then (codec_serialize lx l JsonStructured) (\<lambda>label_json.
     and_then (map_err LeSerialization (lx_json_read lx label_json)) (\<lambda>json_value.
     and_then (assertion_create lx cp l payload k) (\<lambda>assertion.
       Ok \<lparr>za_id = ''nato-label-1'', za_assertion_type = ''handling'', za_scope = ''payload'',
           za_applies_to_state = ''encrypted'',
           za_statement = \<lparr>zs_format = ''json-structured'', zs_schema = NAMESPACE, zs_value = json_value\<rparr>,
           za_binding =
             \<lparr>zb_method = ''nmb'', zb_algorithm = bs_algorithm (ab_signature assertion),
              zb_key_id = bs_key_id (ab_signature assertion), zb_signature = bs_signature (ab_signature assertion)\<rparr>,
           za_signed_label_xml = label_xml\<rparr>)))))"

section \<open>Manifests (\<open>manifest.rs\<close>)\<close>

definition SPEC_VERSION :: string where
  "SPEC_VERSION = ''1.0.0''"

record ztdf_payload_ref =
  zp_payload_type :: string
  zp_url :: string
  zp_protocol :: string
  zp_is_encrypted :: bool
  zp_mime_type :: string

record ztdf_encryption_method =
  zm_algorithm :: string
  zm_is_streamable :: bool
  zm_iv :: string
  zm_auth_tag :: string

record ztdf_key_wrap =
  zw_algorithm :: string
  zw_key_id :: string
  zw_wrapped_key :: string

record ztdf_encryption_information =
  zi_encryption_type :: string
  zi_method :: ztdf_encryption_method
  zi_key_wrap :: ztdf_key_wrap
  zi_policy :: string

record ztdf_manifest =
  zf_tdf_spec_version :: string
  zf_payload :: ztdf_payload_ref
  zf_encryption_information :: ztdf_encryption_information
  zf_assertions :: "ztdf_assertion list"

record ztdf_codec =
  zc_json_compact :: "json \<Rightarrow> string"
  zc_manifest_json :: "ztdf_manifest \<Rightarrow> string + string"
  zc_manifest_parse :: "string \<Rightarrow> string + ztdf_manifest"
  zc_zip_write :: "(string \<times> bytes) list \<Rightarrow> string + bytes"
  zc_zip_open :: "bytes \<Rightarrow> string + (string \<Rightarrow> string + bytes)"

record ztdf_env =
  ze_codec :: label_codec
  ze_crypto :: crypto_provider
  ze_content :: content_crypto
  ze_format :: ztdf_codec
  ze_files :: "string \<Rightarrow> string + string"

definition for_mim_payload ::
  "ztdf_env \<Rightarrow> bytes \<Rightarrow> conf_label \<Rightarrow> bytes \<Rightarrow> aes_gcm_ciphertext \<Rightarrow> bytes \<Rightarrow> signing_key \<Rightarrow> verifying_key \<Rightarrow> string \<Rightarrow>
     label_error + ztdf_manifest" where
  "for_mim_payload env seed l plaintext encrypted cek k kas_public policy_b64 =
     and_then (map_err (\<lambda>e. LeBinding (show_crypto_error e)) (cc_wrap_key (ze_content env) seed kas_public cek)) (\<lambda>wrapped.
     and_then (from_label (ze_codec env) (ze_crypto env) l plaintext k) (\<lambda>assertion.
       Ok \<lparr>zf_tdf_spec_version = SPEC_VERSION,
           zf_payload =
             \<lparr>zp_payload_type = ''reference'', zp_url = ''0.payload'', zp_protocol = ''zip'', zp_is_encrypted = True,
              zp_mime_type = ''application/octet-stream''\<rparr>,
           zf_encryption_information =
             \<lparr>zi_encryption_type = ''split'',
              zi_method =
                \<lparr>zm_algorithm = ''AES-256-GCM'', zm_is_streamable = True,
                 zm_iv = cp_b64_encode (ze_crypto env) (ag_iv encrypted),
                 zm_auth_tag = cp_b64_encode (ze_crypto env) (ag_tag encrypted)\<rparr>,
              zi_key_wrap =
                \<lparr>zw_algorithm = ''RSA-OAEP-SHA256'', zw_key_id = vk_key_id kas_public,
                 zw_wrapped_key = cp_b64_encode (ze_crypto env) wrapped\<rparr>,
              zi_policy = policy_b64\<rparr>,
           zf_assertions = [assertion]\<rparr>))"

definition ztdf_manifest_to_json :: "ztdf_env \<Rightarrow> ztdf_manifest \<Rightarrow> label_error + string" where
  "ztdf_manifest_to_json env m = map_err LeSerialization (zc_manifest_json (ze_format env) m)"

definition ztdf_manifest_from_json :: "ztdf_env \<Rightarrow> string \<Rightarrow> label_error + ztdf_manifest" where
  "ztdf_manifest_from_json env text = map_err LeParse (zc_manifest_parse (ze_format env) text)"

definition nato_label_assertion :: "ztdf_manifest \<Rightarrow> ztdf_assertion option" where
  "nato_label_assertion m = find (\<lambda>a. za_id a = ''nato-label-1'') (zf_assertions m)"

definition manifest_validate :: "ztdf_manifest \<Rightarrow> label_error + unit" where
  "manifest_validate m =
     (if zf_tdf_spec_version m \<noteq> SPEC_VERSION then
        Err (LeValidation (''unsupported tdf_spec_version: '' @ zf_tdf_spec_version m))
      else if \<not> zp_is_encrypted (zf_payload m) then Err (LeValidation ''ZTDF payload must be encrypted'')
      else if zm_algorithm (zi_method (zf_encryption_information m)) \<noteq> ''AES-256-GCM'' then
        Err (LeValidation ''ZTDF requires AES-256-GCM payload encryption'')
      else if zf_assertions m = [] then Err (LeValidation ''ZTDF manifest requires at least one assertion'')
      else and_then (ok_or (LeValidation ''ZTDF manifest requires nato-label-1 assertion'') (nato_label_assertion m)) (\<lambda>nato.
        if zs_schema (za_statement nato) \<noteq> NAMESPACE then
          Err (LeValidation ''assertion schema must be STANAG 4774 namespace'')
        else if zb_method (za_binding nato) \<noteq> ''nmb'' then
          Err (LeValidation ''ZTDF assertion must use NMBS binding method'')
        else Ok ()))"

text \<open>Objects print with their keys in alphabetical order.\<close>

definition default_policy_b64 :: "ztdf_env \<Rightarrow> string" where
  "default_policy_b64 env =
     cp_b64_encode (ze_crypto env) (zc_json_compact (ze_format env)
       (JObject
          [(''body'', JObject
              [(''attributes'', JArray [JString ''classification'', JString ''releasableTo'']),
               (''dissem'', JArray [JString ''coalition''])]),
           (''uuid'', JString ''61333466-4f0a-4a12-95fb-b6d8bd0b8b26'')]))"

section \<open>Key access servers (\<open>kas.rs\<close>)\<close>

type_synonym kas_client = "ztdf_manifest \<Rightarrow> label_error + bytes"

definition local_kas :: "ztdf_env \<Rightarrow> signing_key \<Rightarrow> kas_client" where
  "local_kas env k m =
     and_then (map_err LeParse
         (cp_b64_decode (ze_crypto env) (zw_wrapped_key (zi_key_wrap (zf_encryption_information m))))) (\<lambda>wrapped.
       map_err (\<lambda>e. LeBinding (show_crypto_error e)) (cc_unwrap_key (ze_content env) k wrapped))"

record http_kas_client =
  hk_endpoint :: string
  hk_client_cn :: "string option"

definition http_kas_new :: "string \<Rightarrow> http_kas_client" where
  "http_kas_new endpoint = \<lparr>hk_endpoint = endpoint, hk_client_cn = None\<rparr>"

definition with_client_cn :: "string \<Rightarrow> http_kas_client \<Rightarrow> http_kas_client" where
  "with_client_cn cn c = c\<lparr>hk_client_cn := Some cn\<rparr>"

definition http_kas_from_env :: "string option \<Rightarrow> label_error + http_kas_client" where
  "http_kas_from_env var = and_then (ok_or (LeValidation ''MIM_KAS_ENDPOINT not set'') var) (\<lambda>e. Ok (http_kas_new e))"

text \<open>The POST takes the endpoint, the headers and the body, and gives the status and the text of the
  answer, itself a result.\<close>

definition http_kas ::
  "ztdf_env \<Rightarrow> (string \<Rightarrow> (string \<times> string) list \<Rightarrow> json \<Rightarrow> string + nat \<times> (string + string)) \<Rightarrow> http_kas_client \<Rightarrow> kas_client" where
  "http_kas env post c m =
     (let info = zf_encryption_information m;
          body = JObject [(''keyId'', JString (zw_key_id (zi_key_wrap info))), (''policy'', JString (zi_policy info)),
                          (''wrappedKey'', JString (zw_wrapped_key (zi_key_wrap info)))];
          headers = (''Content-Type'', ''application/json'') #
                    (case hk_client_cn c of Some cn \<Rightarrow> [(''X-MIM-Client-CN'', cn)] | None \<Rightarrow> [])
      in and_then (map_err (\<lambda>e. LeBinding (''KAS POST: '' @ e)) (post (hk_endpoint c) headers body)) (\<lambda>(status, answer).
        if status \<noteq> 200 then Err (LeBinding (''KAS returned HTTP '' @ show_nat status))
        else and_then (map_err LeBinding answer) (\<lambda>cek_b64.
        and_then (map_err LeParse (cp_b64_decode (ze_crypto env) (trim cek_b64))) (\<lambda>key_bytes.
          if length key_bytes = 32 then Ok key_bytes else Err (LeBinding ''KAS CEK must be 32 bytes'')))))"

section \<open>Packages (\<open>package.rs\<close>)\<close>

definition PAYLOAD_ENTRY :: string where
  "PAYLOAD_ENTRY = ''0.payload''"

definition MANIFEST_ENTRY :: string where
  "MANIFEST_ENTRY = ''manifest.json''"

definition PAYLOAD_AAD :: bytes where
  "PAYLOAD_AAD = ''ztdf/0.payload''"

record ztdf_package =
  zk_manifest :: ztdf_manifest
  zk_encrypted_payload :: bytes
  zk_content_key :: bytes
  zk_binding :: binding_data_object

definition package_create ::
  "ztdf_env \<Rightarrow> ztdf_entropy \<Rightarrow> conf_label \<Rightarrow> bytes \<Rightarrow> signing_key \<Rightarrow> verifying_key \<Rightarrow> verifying_key \<Rightarrow>
     label_error + ztdf_package" where
  "package_create env rnd l plaintext sk vk kas_public =
     and_then (validate_conf_label l) (\<lambda>_.
     let policy = default_policy_b64 env in
     and_then (map_err (\<lambda>e. LeBinding (show_crypto_error e)) (generate_content_key (ze_content env) (zr_key rnd))) (\<lambda>cek.
     and_then (map_err (\<lambda>e. LeBinding (show_crypto_error e))
         (cc_encrypt (ze_content env) (zr_iv rnd) cek plaintext PAYLOAD_AAD)) (\<lambda>encrypted.
     let encrypted_bytes = aes_to_bytes encrypted in
     and_then (for_mim_payload env (zr_wrap rnd) l plaintext encrypted cek sk kas_public policy) (\<lambda>manifest.
     and_then (manifest_validate manifest) (\<lambda>_.
     and_then (assertion_bound (ze_codec env) (ze_crypto env) l plaintext sk) (\<lambda>binding.
     and_then (bdo_verify (ze_codec env) (ze_crypto env) (ze_files env) binding plaintext (Some vk)) (\<lambda>_.
       Ok \<lparr>zk_manifest = manifest, zk_encrypted_payload = encrypted_bytes, zk_content_key = cek,
           zk_binding = binding\<rparr>)))))))"

text \<open>\<open>label_from_manifest\<close> and \<open>manifest_label\<close> are the same function of the manifest.\<close>

definition manifest_label :: "ztdf_env \<Rightarrow> ztdf_manifest \<Rightarrow> label_error + conf_label" where
  "manifest_label env m =
     ok_or (LeValidation ''missing label assertion'')
       (Option.bind (nato_label_assertion m) (\<lambda>a.
          case codec_deserialize (ze_codec env) (zc_json_compact (ze_format env) (zs_value (za_statement a)))
                 JsonStructured of
            Inr l \<Rightarrow> Some l
          | Inl _ \<Rightarrow> None))"

definition package_label :: "ztdf_env \<Rightarrow> ztdf_package \<Rightarrow> label_error + conf_label" where
  "package_label env p = manifest_label env (zk_manifest p)"

definition signature_of_assertion :: "ztdf_assertion \<Rightarrow> binding_signature" where
  "signature_of_assertion a =
     \<lparr>bs_algorithm = zb_algorithm (za_binding a), bs_algorithm_uri = NMBS_ALGORITHM_URI,
      bs_key_id = zb_key_id (za_binding a), bs_signature = zb_signature (za_binding a)\<rparr>"

definition verify_from_manifest ::
  "ztdf_env \<Rightarrow> ztdf_manifest \<Rightarrow> bytes \<Rightarrow> verifying_key \<Rightarrow> label_error + unit" where
  "verify_from_manifest env m plaintext k =
     and_then (manifest_label env m) (\<lambda>l.
     and_then (ok_or (LeValidation ''missing nato-label-1'') (nato_label_assertion m)) (\<lambda>za.
       assertion_verify (ze_codec env) (ze_crypto env)
         \<lparr>ab_label = l, ab_payload_digest = sha256_base64 (ze_crypto env) plaintext,
          ab_signature = signature_of_assertion za, ab_signed_label_xml = Some (za_signed_label_xml za)\<rparr>
         plaintext k))"

definition verify_binding_plaintext ::
  "ztdf_env \<Rightarrow> ztdf_package \<Rightarrow> bytes \<Rightarrow> verifying_key \<Rightarrow> label_error + unit" where
  "verify_binding_plaintext env p plaintext k =
     (case bd_assertion (zk_binding p) of
        Some a \<Rightarrow>
          if ab_payload_digest a \<noteq> [] then assertion_verify (ze_codec env) (ze_crypto env) a plaintext k
          else verify_from_manifest env (zk_manifest p) plaintext k
      | None \<Rightarrow> verify_from_manifest env (zk_manifest p) plaintext k)"

definition verify_release :: "ztdf_env \<Rightarrow> ztdf_package \<Rightarrow> verifying_key \<Rightarrow> bytes \<Rightarrow> label_error + unit" where
  "verify_release env p k plaintext =
     and_then (manifest_validate (zk_manifest p)) (\<lambda>_. verify_binding_plaintext env p plaintext k)"

definition decrypt_with_kas :: "ztdf_env \<Rightarrow> ztdf_package \<Rightarrow> kas_client \<Rightarrow> label_error + bytes" where
  "decrypt_with_kas env p kas =
     and_then (kas (zk_manifest p)) (\<lambda>cek.
     and_then (map_err (\<lambda>e. LeBinding (show_crypto_error e)) (aes_from_bytes (zk_encrypted_payload p))) (\<lambda>ciphertext.
       map_err (\<lambda>e. LeBinding (show_crypto_error e)) (cc_decrypt (ze_content env) cek ciphertext PAYLOAD_AAD)))"

definition package_decrypt :: "ztdf_env \<Rightarrow> ztdf_package \<Rightarrow> signing_key \<Rightarrow> label_error + bytes" where
  "package_decrypt env p kas_private = decrypt_with_kas env p (local_kas env kas_private)"

definition decrypt_with_policy ::
  "ztdf_env \<Rightarrow> 's audit_env \<Rightarrow> stamp \<Rightarrow> ztdf_package \<Rightarrow> subject_attributes \<Rightarrow> security_domain \<Rightarrow> kas_client \<Rightarrow>
     's enforcement_point \<Rightarrow> (label_error + bytes) \<times> 's enforcement_point" where
  "decrypt_with_policy env aenv st p subject domain kas pep =
     (case package_label env p of
        Inl e \<Rightarrow> (Err e, pep)
      | Inr l \<Rightarrow>
          (case pep_enforce_access aenv st subject l OpRead domain pep of
             (Inl e, pep') \<Rightarrow> (Err (LeValidation (show_policy_error e)), pep')
           | (Inr _, pep') \<Rightarrow> (decrypt_with_kas env p kas, pep')))"

definition package_verify :: "ztdf_env \<Rightarrow> ztdf_package \<Rightarrow> verifying_key \<Rightarrow> signing_key \<Rightarrow> label_error + unit" where
  "package_verify env p k kas_private =
     and_then (manifest_validate (zk_manifest p)) (\<lambda>_.
     and_then (decrypt_with_kas env p (local_kas env kas_private)) (\<lambda>plaintext.
       verify_binding_plaintext env p plaintext k))"

definition binding_from_manifest :: "ztdf_env \<Rightarrow> ztdf_manifest \<Rightarrow> conf_label \<Rightarrow> label_error + binding_data_object" where
  "binding_from_manifest env m l =
     and_then (ok_or (LeValidation ''missing nato-label-1'') (nato_label_assertion m)) (\<lambda>za.
     and_then (codec_serialize (ze_codec env) l Xml) (\<lambda>label_encoding.
       Ok \<lparr>bd_binding = assertion_ztdf, bd_label = l, bd_label_encoding = label_encoding, bd_payload_digest = [],
           bd_assertion = Some
             \<lparr>ab_label = l, ab_payload_digest = [], ab_signature = signature_of_assertion za,
              ab_signed_label_xml = Some (za_signed_label_xml za)\<rparr>\<rparr>))"

text \<open>The manifest entry is read as text, the payload as bytes.\<close>

definition read_zip_entries :: "ztdf_env \<Rightarrow> bytes \<Rightarrow> label_error + ztdf_manifest \<times> bytes" where
  "read_zip_entries env data =
     and_then (map_err LeParse (zc_zip_open (ze_format env) data)) (\<lambda>archive.
     and_then (map_err LeParse (archive MANIFEST_ENTRY)) (\<lambda>manifest_bytes.
     and_then (map_err (\<lambda>_. LeParse ''stream did not contain valid UTF-8'') (from_utf8 manifest_bytes)) (\<lambda>manifest_data.
     and_then (ztdf_manifest_from_json env manifest_data) (\<lambda>manifest.
     and_then (map_err LeParse (archive PAYLOAD_ENTRY)) (\<lambda>encrypted_payload.
       Ok (manifest, encrypted_payload))))))"

definition from_zip_sealed :: "ztdf_env \<Rightarrow> bytes \<Rightarrow> label_error + ztdf_package" where
  "from_zip_sealed env data =
     and_then (read_zip_entries env data) (\<lambda>(manifest, encrypted_payload).
     and_then (manifest_validate manifest) (\<lambda>_.
     and_then (manifest_label env manifest) (\<lambda>l.
     and_then (binding_from_manifest env manifest l) (\<lambda>binding.
       Ok \<lparr>zk_manifest = manifest, zk_encrypted_payload = encrypted_payload,
           zk_content_key = replicate 32 CHR 0x00, zk_binding = binding\<rparr>))))"

definition to_zip_bytes :: "ztdf_env \<Rightarrow> ztdf_package \<Rightarrow> label_error + bytes" where
  "to_zip_bytes env p =
     and_then (ztdf_manifest_to_json env (zk_manifest p)) (\<lambda>manifest_json.
       map_err LeSerialization
         (zc_zip_write (ze_format env) [(MANIFEST_ENTRY, manifest_json), (PAYLOAD_ENTRY, zk_encrypted_payload p)]))"

definition from_zip_bytes :: "ztdf_env \<Rightarrow> bytes \<Rightarrow> verifying_key \<Rightarrow> signing_key \<Rightarrow> label_error + ztdf_package" where
  "from_zip_bytes env data k kas_private =
     and_then (from_zip_sealed env data) (\<lambda>package.
     and_then (decrypt_with_kas env package (local_kas env kas_private)) (\<lambda>plaintext.
     and_then (verify_binding_plaintext env package plaintext k) (\<lambda>_.
       Ok package)))"

definition package_manifest_json :: "ztdf_env \<Rightarrow> ztdf_package \<Rightarrow> label_error + string" where
  "package_manifest_json env p = ztdf_manifest_to_json env (zk_manifest p)"

section \<open>What the code relies on\<close>

definition content_laws :: "content_crypto \<Rightarrow> key_pair \<Rightarrow> bool" where
  "content_laws cc kas \<longleftrightarrow>
     (\<forall>seed cek w. cc_wrap_key cc seed (kp_verifying kas) cek = Ok w \<longrightarrow> cc_unwrap_key cc (kp_signing kas) w = Ok cek) \<and>
     (\<forall>seed cek p aad c. cc_encrypt cc seed cek p aad = Ok c \<longrightarrow> aes_wf c \<and> cc_decrypt cc cek c aad = Ok p)"

text \<open>Values that the parser produces print and parse back; so do manifests whose statements hold such
  values; an archive gives back the entries it was written with.\<close>

definition parsed_value :: "ztdf_env \<Rightarrow> json \<Rightarrow> bool" where
  "parsed_value env v \<longleftrightarrow> (\<exists>text. lx_json_read (ze_codec env) text = Ok v)"

definition format_laws :: "ztdf_env \<Rightarrow> bool" where
  "format_laws env \<longleftrightarrow>
     (\<forall>v. parsed_value env v \<longrightarrow> lx_json_read (ze_codec env) (zc_json_compact (ze_format env) v) = Ok v) \<and>
     (\<forall>m text. (\<forall>a \<in> set (zf_assertions m). parsed_value env (zs_value (za_statement a))) \<and>
        zc_manifest_json (ze_format env) m = Ok text \<longrightarrow>
          from_utf8 text = Ok text \<and> zc_manifest_parse (ze_format env) text = Ok m) \<and>
     (\<forall>m p z. zc_zip_write (ze_format env) [(MANIFEST_ENTRY, m), (PAYLOAD_ENTRY, p)] = Ok z \<longrightarrow>
        (\<exists>archive. zc_zip_open (ze_format env) z = Ok archive \<and>
           archive MANIFEST_ENTRY = Ok m \<and> archive PAYLOAD_ENTRY = Ok p))"

section \<open>Created packages\<close>

lemma label_accepted_json_image: "label_accepted l \<Longrightarrow> label_accepted (json_image l)"
  using json_image_valid [of l]
  by (auto simp: spif_validate_label_Ok_iff conforms_to_def json_image_def label_policy_new_def rule_holds_def
      rule_values_def split: option.splits)

text \<open>The assertion that is written into a manifest.\<close>

definition bound_assertion :: "ztdf_env \<Rightarrow> key_pair \<Rightarrow> conf_label \<Rightarrow> bytes \<Rightarrow> ztdf_assertion \<Rightarrow> bool" where
  "bound_assertion env nmb l p za \<longleftrightarrow>
     za_id za = ''nato-label-1'' \<and> zs_schema (za_statement za) = NAMESPACE \<and> zb_method (za_binding za) = ''nmb'' \<and>
     (\<exists>text. codec_serialize (ze_codec env) l JsonStructured = Ok text \<and>
        lx_json_read (ze_codec env) text = Ok (zs_value (za_statement za))) \<and>
     (\<exists>a. assertion_create (ze_codec env) (ze_crypto env) l p (kp_signing nmb) = Ok a \<and>
        signature_of_assertion za = ab_signature a \<and> ab_signed_label_xml a = Some (za_signed_label_xml za))"

lemma from_label_bound:
  assumes "from_label (ze_codec env) (ze_crypto env) l p (kp_signing nmb) = Ok za"
  shows "bound_assertion env nmb l p za"
  using assms
  by (auto simp: from_label_def and_then_Inr_iff bound_assertion_def signature_of_assertion_def assertion_create_Ok_iff
      sign_binding_Ok_iff)

lemma package_create_Ok:
  assumes "package_create env rnd l p (kp_signing nmb) (kp_verifying nmb) kas_public = Ok pkg"
  obtains za cek encrypted wrapped where "bound_assertion env nmb l p za"
    and "zf_assertions (zk_manifest pkg) = [za]" and "manifest_validate (zk_manifest pkg) = Ok ()"
    and "cc_wrap_key (ze_content env) (zr_wrap rnd) kas_public cek = Ok wrapped"
    and "zw_wrapped_key (zi_key_wrap (zf_encryption_information (zk_manifest pkg))) = cp_b64_encode (ze_crypto env) wrapped"
    and "cc_encrypt (ze_content env) (zr_iv rnd) cek p PAYLOAD_AAD = Ok encrypted"
    and "zk_encrypted_payload pkg = aes_to_bytes encrypted"
proof -
  from assms obtain cek encrypted manifest where
    "cc_encrypt (ze_content env) (zr_iv rnd) cek p PAYLOAD_AAD = Ok encrypted"
    and m: "for_mim_payload env (zr_wrap rnd) l p encrypted cek (kp_signing nmb) kas_public (default_policy_b64 env) = Ok manifest"
    and "manifest_validate manifest = Ok ()" and "zk_manifest pkg = manifest"
    and "zk_encrypted_payload pkg = aes_to_bytes encrypted"
    by (auto simp: package_create_def and_then_Inr_iff Let_def)
  moreover from m obtain wrapped za where
    "cc_wrap_key (ze_content env) (zr_wrap rnd) kas_public cek = Ok wrapped"
    and "from_label (ze_codec env) (ze_crypto env) l p (kp_signing nmb) = Ok za"
    and "zf_assertions manifest = [za]"
    and "zw_wrapped_key (zi_key_wrap (zf_encryption_information manifest)) = cp_b64_encode (ze_crypto env) wrapped"
    by (auto simp: for_mim_payload_def and_then_Inr_iff)
  ultimately show thesis using that from_label_bound by metis
qed

lemma aes_round_trip: "aes_wf c \<Longrightarrow> aes_from_bytes (aes_to_bytes c) = Ok c"
  by (simp add: aes_wf_def aes_from_bytes_def aes_to_bytes_def Let_def)

lemma created_decrypts:
  assumes "package_create env rnd l p (kp_signing nmb) (kp_verifying nmb) (kp_verifying kas) = Ok pkg"
    and "crypto_laws (ze_crypto env) nmb" and "content_laws (ze_content env) kas"
    and "zk_manifest pkg' = zk_manifest pkg" and "zk_encrypted_payload pkg' = zk_encrypted_payload pkg"
  shows "package_decrypt env pkg' (kp_signing kas) = Ok p"
proof (rule package_create_Ok [OF assms(1)])
  fix za cek encrypted wrapped
  assume wrap: "cc_wrap_key (ze_content env) (zr_wrap rnd) (kp_verifying kas) cek = Ok wrapped"
    and key: "zw_wrapped_key (zi_key_wrap (zf_encryption_information (zk_manifest pkg))) = cp_b64_encode (ze_crypto env) wrapped"
    and enc: "cc_encrypt (ze_content env) (zr_iv rnd) cek p PAYLOAD_AAD = Ok encrypted"
    and bytes: "zk_encrypted_payload pkg = aes_to_bytes encrypted"
  have "local_kas env (kp_signing kas) (zk_manifest pkg') = Ok cek"
    using wrap key assms(2-4) by (auto simp: local_kas_def content_laws_def crypto_laws_def)
  moreover have "aes_wf encrypted" and "cc_decrypt (ze_content env) cek encrypted PAYLOAD_AAD = Ok p"
    using enc assms(3) by (auto simp: content_laws_def)
  ultimately show ?thesis
    using bytes assms(5) by (simp add: package_decrypt_def decrypt_with_kas_def aes_round_trip)
qed

lemma bound_label:
  assumes "bound_assertion env nmb l p za" and "zf_assertions m = [za]"
    and "format_laws env" and "json_laws (ze_codec env)" and "times_parse (ze_codec env) l"
  shows "manifest_label env m = Ok (json_image l)"
proof -
  from assms(1) obtain js where js: "codec_serialize (ze_codec env) l JsonStructured = Ok js"
    "lx_json_read (ze_codec env) js = Ok (zs_value (za_statement za))"
    and id: "za_id za = ''nato-label-1''"
    unfolding bound_assertion_def by blast
  from json_read_back [OF assms(4,5) js(1)] js(2)
  have "parse_json_value (ze_codec env) (zs_value (za_statement za)) = Ok (json_image l)" by simp
  moreover have "lx_json_read (ze_codec env) (zc_json_compact (ze_format env) (zs_value (za_statement za))) =
      Ok (zs_value (za_statement za))"
    using assms(3) js(2) unfolding format_laws_def parsed_value_def by blast
  ultimately have "codec_deserialize (ze_codec env) (zc_json_compact (ze_format env) (zs_value (za_statement za)))
      JsonStructured = Ok (json_image l)"
    using json_image_valid [OF codec_serialize_valid [OF js(1)]] by (auto simp: deserialize_json_Ok_iff)
  then show ?thesis using assms(2) id by (simp add: manifest_label_def nato_label_assertion_def)
qed

lemma bound_verifies:
  assumes "bound_assertion env nmb l p za" and "zf_assertions m = [za]"
    and "manifest_label env m = Ok l'" and "label_accepted l'"
    and "crypto_laws (ze_crypto env) nmb" and "vk_key_id (kp_verifying nmb) = sk_key_id (kp_signing nmb)"
  shows "verify_from_manifest env m p (kp_verifying nmb) = Ok ()"
proof -
  from assms(1) obtain a where created: "assertion_create (ze_codec env) (ze_crypto env) l p (kp_signing nmb) = Ok a"
    and sig: "signature_of_assertion za = ab_signature a" "ab_signed_label_xml a = Some (za_signed_label_xml za)"
    and id: "za_id za = ''nato-label-1''"
    unfolding bound_assertion_def by blast
  from verify_created_assertion [OF assms(5,6) created] sig assms(4)
  show ?thesis
    using assms(2,3) id
    by (auto simp: verify_from_manifest_def nato_label_assertion_def assertion_verify_Ok_iff signed_bytes_def)
qed

text \<open>What sealing an archive yields.\<close>

lemma from_zip_sealed_Ok_iff:
  "from_zip_sealed env z = Ok pkg \<longleftrightarrow>
     (\<exists>m enc l za text. read_zip_entries env z = Ok (m, enc) \<and> manifest_validate m = Ok () \<and>
        manifest_label env m = Ok l \<and> nato_label_assertion m = Some za \<and> codec_serialize (ze_codec env) l Xml = Ok text \<and>
        pkg = \<lparr>zk_manifest = m, zk_encrypted_payload = enc, zk_content_key = replicate 32 CHR 0x00,
          zk_binding =
            \<lparr>bd_binding = assertion_ztdf, bd_label = l, bd_label_encoding = text, bd_payload_digest = [],
             bd_assertion = Some
               \<lparr>ab_label = l, ab_payload_digest = [], ab_signature = signature_of_assertion za,
                ab_signed_label_xml = Some (za_signed_label_xml za)\<rparr>\<rparr>\<rparr>)"
  by (auto simp: from_zip_sealed_def and_then_Inr_iff binding_from_manifest_def split: prod.splits)

lemma sealed_verifies_from_manifest:
  "from_zip_sealed env z = Ok pkg \<Longrightarrow>
     verify_binding_plaintext env pkg p k = verify_from_manifest env (zk_manifest pkg) p k"
  by (auto simp: from_zip_sealed_Ok_iff verify_binding_plaintext_def)

lemma zip_entries_read_back:
  assumes "format_laws env" and "\<forall>a \<in> set (zf_assertions (zk_manifest pkg)). parsed_value env (zs_value (za_statement a))"
    and "to_zip_bytes env pkg = Ok z"
  shows "read_zip_entries env z = Ok (zk_manifest pkg, zk_encrypted_payload pkg)"
proof -
  let ?es = "\<lambda>j. [(MANIFEST_ENTRY, j), (PAYLOAD_ENTRY, zk_encrypted_payload pkg)]"
  from assms(3) obtain j where j: "zc_manifest_json (ze_format env) (zk_manifest pkg) = Ok j"
    and w: "zc_zip_write (ze_format env) (?es j) = Ok z"
    by (auto simp: to_zip_bytes_def ztdf_manifest_to_json_def and_then_Inr_iff)
  from assms(1,2) j have m: "from_utf8 j = Ok j" "zc_manifest_parse (ze_format env) j = Ok (zk_manifest pkg)"
    unfolding format_laws_def by blast+
  from assms(1) w obtain archive where a: "zc_zip_open (ze_format env) z = Ok archive"
    "archive MANIFEST_ENTRY = Ok j" "archive PAYLOAD_ENTRY = Ok (zk_encrypted_payload pkg)"
    unfolding format_laws_def by blast
  with m show ?thesis by (simp add: read_zip_entries_def ztdf_manifest_from_json_def)
qed

text \<open>
  C26: a package created for a label and a payload survives its archive: the archive opens under the
  verifying key and the private key of the key access server, decrypts to the payload, and its manifest
  states the label's policy, classification and categories.
\<close>

theorem ztdf_round_trip:
  assumes "crypto_laws (ze_crypto env) nmb" and "vk_key_id (kp_verifying nmb) = sk_key_id (kp_signing nmb)"
    and "content_laws (ze_content env) kas" and "format_laws env" and "json_laws (ze_codec env)"
    and "times_parse (ze_codec env) l" and "codec_serialize (ze_codec env) (json_image l) Xml = Ok shown"
    and created: "package_create env rnd l p (kp_signing nmb) (kp_verifying nmb) (kp_verifying kas) = Ok pkg"
    and zip: "to_zip_bytes env pkg = Ok z"
  shows "\<exists>pkg' l'. from_zip_bytes env z (kp_verifying nmb) (kp_signing kas) = Ok pkg' \<and>
     zk_manifest pkg' = zk_manifest pkg \<and> package_decrypt env pkg' (kp_signing kas) = Ok p \<and>
     package_label env pkg' = Ok l' \<and> lp_identifier (cf_policy l') = lp_identifier (cf_policy l) \<and>
     cf_classification l' = cf_classification l \<and> cf_categories l' = cf_categories l"
proof -
  from created obtain za where za: "bound_assertion env nmb l p za" "zf_assertions (zk_manifest pkg) = [za]"
    and valid: "manifest_validate (zk_manifest pkg) = Ok ()"
    by (elim package_create_Ok)
  have lbl: "manifest_label env (zk_manifest pkg) = Ok (json_image l)"
    using bound_label [OF za assms(4-6)] .
  have accepted: "label_accepted (json_image l)"
    using za(1) by (auto simp: bound_assertion_def assertion_create_Ok_iff intro: label_accepted_json_image)
  have entries: "read_zip_entries env z = Ok (zk_manifest pkg, zk_encrypted_payload pkg)"
    using zip_entries_read_back [OF assms(4) _ zip] za by (auto simp: bound_assertion_def parsed_value_def)
  have "nato_label_assertion (zk_manifest pkg) = Some za"
    using za by (simp add: nato_label_assertion_def bound_assertion_def)
  then obtain pkg' where sealed: "from_zip_sealed env z = Ok pkg'"
    and same: "zk_manifest pkg' = zk_manifest pkg" "zk_encrypted_payload pkg' = zk_encrypted_payload pkg"
    using entries valid lbl assms(7) by (auto simp: from_zip_sealed_Ok_iff)
  have dec: "package_decrypt env pkg' (kp_signing kas) = Ok p"
    using created_decrypts [OF created assms(1,3) same] .
  moreover have "verify_binding_plaintext env pkg' p (kp_verifying nmb) = Ok ()"
    using bound_verifies [OF za lbl accepted assms(1,2)] sealed_verifies_from_manifest [OF sealed] same by simp
  ultimately have "from_zip_bytes env z (kp_verifying nmb) (kp_signing kas) = Ok pkg'"
    using sealed by (simp add: from_zip_bytes_def package_decrypt_def)
  with dec same lbl show ?thesis
    by (auto simp: package_label_def json_image_def label_policy_new_def)
qed

section \<open>The statement is not signed\<close>

text \<open>A manifest with another label in the statement of its assertion.\<close>

definition restate :: "json \<Rightarrow> ztdf_manifest \<Rightarrow> ztdf_manifest" where
  "restate v m = m\<lparr>zf_assertions := map (\<lambda>a. a\<lparr>za_statement := (za_statement a)\<lparr>zs_value := v\<rparr>\<rparr>) (zf_assertions m)\<rparr>"

lemma find_restate:
  "nato_label_assertion (restate v m) =
     map_option (\<lambda>a. a\<lparr>za_statement := (za_statement a)\<lparr>zs_value := v\<rparr>\<rparr>) (nato_label_assertion m)"
proof -
  have "find (\<lambda>a. za_id a = i) (map (\<lambda>a. a\<lparr>za_statement := (za_statement a)\<lparr>zs_value := v\<rparr>\<rparr>) as) =
      map_option (\<lambda>a. a\<lparr>za_statement := (za_statement a)\<lparr>zs_value := v\<rparr>\<rparr>) (find (\<lambda>a. za_id a = i) as)" for i as
    by (induction as) simp_all
  then show ?thesis by (simp add: nato_label_assertion_def restate_def)
qed

lemma manifest_validate_restate: "manifest_validate (restate v m) = manifest_validate m"
  by (cases "nato_label_assertion m") (simp_all add: manifest_validate_def find_restate, simp_all add: restate_def)

lemma verify_restated:
  assumes "verify_from_manifest env m p k = Ok ()" and "manifest_label env (restate v m) = Ok l'" and "label_accepted l'"
  shows "verify_from_manifest env (restate v m) p k = Ok ()"
  using assms
  by (auto simp: verify_from_manifest_def and_then_Inr_iff find_restate assertion_verify_Ok_iff signed_bytes_def
      signature_of_assertion_def)

text \<open>
  C8: the label that a package shows is not protected by its signature: whoever rewrites the statement
  of the manifest with any label that the built-in policies accept has an archive that opens under the
  same keys to the same payload, and it is the rewritten label that the policy decision to decrypt is
  taken on.
\<close>

theorem restated_package_opens:
  assumes "from_zip_bytes env z k kas = Ok pkg"
    and "read_zip_entries env z' = Ok (restate v (zk_manifest pkg), zk_encrypted_payload pkg)"
    and "manifest_label env (restate v (zk_manifest pkg)) = Ok l'" and "label_accepted l'"
    and "codec_serialize (ze_codec env) l' Xml = Ok shown"
  shows "\<exists>pkg'. from_zip_bytes env z' k kas = Ok pkg' \<and> package_label env pkg' = Ok l' \<and>
     package_decrypt env pkg' kas = package_decrypt env pkg kas \<and>
     (\<forall>aenv st subject domain pep. fst (decrypt_with_policy env aenv st pkg' subject domain (local_kas env kas) pep) =
        (case pep_enforce_access aenv st subject l' OpRead domain pep of
           (Inl e, _) \<Rightarrow> Err (LeValidation (show_policy_error e))
         | (Inr _, _) \<Rightarrow> package_decrypt env pkg kas))"
proof -
  let ?m = "zk_manifest pkg"
  from assms(1) obtain p where sealed: "from_zip_sealed env z = Ok pkg"
    and dec: "package_decrypt env pkg kas = Ok p" and ver: "verify_from_manifest env ?m p k = Ok ()"
    by (auto simp: from_zip_bytes_def and_then_Inr_iff package_decrypt_def sealed_verifies_from_manifest)
  from sealed have "manifest_validate ?m = Ok ()" "nato_label_assertion ?m \<noteq> None"
    by (auto simp: from_zip_sealed_Ok_iff)
  then obtain pkg' where sealed': "from_zip_sealed env z' = Ok pkg'"
    and same: "zk_manifest pkg' = restate v ?m" "zk_encrypted_payload pkg' = zk_encrypted_payload pkg"
    using assms(2,3,5) by (auto simp: from_zip_sealed_Ok_iff manifest_validate_restate find_restate)
  have "local_kas env kas (restate v ?m) = local_kas env kas ?m"
    by (simp add: local_kas_def restate_def)
  then have dec': "package_decrypt env pkg' kas = package_decrypt env pkg kas"
    using same by (simp add: package_decrypt_def decrypt_with_kas_def)
  have "verify_binding_plaintext env pkg' p k = Ok ()"
    using verify_restated [OF ver assms(3,4)] same sealed_verifies_from_manifest [OF sealed'] by simp
  then have "from_zip_bytes env z' k kas = Ok pkg'"
    using sealed' dec dec' by (simp add: from_zip_bytes_def package_decrypt_def)
  moreover have "package_label env pkg' = Ok l'"
    using assms(3) same by (simp add: package_label_def)
  ultimately show ?thesis
    using dec' by (auto simp: decrypt_with_policy_def package_decrypt_def split: sum.splits prod.splits)
qed

section \<open>A sample package\<close>

text \<open>A concrete environment for two labels: everything but the labels' JSON is constant.\<close>

definition ztdf_secret :: conf_label where
  "ztdf_secret = with_category (releasable_to_marking [''USA'']) (conf_label_new (label_policy_new ''NATO'') Secret)"

definition ztdf_open :: conf_label where
  "ztdf_open = conf_label_new (label_policy_new ''NATO'') Unclassified"

definition toy_label_codec :: label_codec where
  "toy_label_codec =
     \<lparr>lx_write = (\<lambda>_. Ok ''<xml>''), lx_read = (\<lambda>_. []), lx_xmllint = (\<lambda>_. Ok ()), lx_datetime = Ok,
      lx_json_write = (\<lambda>v. if v = to_json_value ztdf_secret then Ok ''{0}''
        else if v = to_json_value ztdf_open then Ok ''{1}'' else Err ''unsupported''),
      lx_json_read = (\<lambda>t. if t = ''{0}'' then Ok (to_json_value ztdf_secret) else Ok (to_json_value ztdf_open))\<rparr>"

definition toy_content :: content_crypto where
  "toy_content =
     \<lparr>cc_fill_random = (\<lambda>seed n. Ok (replicate n CHR ''k'')), cc_wrap_key = (\<lambda>seed k cek. Ok cek),
      cc_unwrap_key = (\<lambda>k w. Ok w),
      cc_encrypt = (\<lambda>seed cek p aad. Ok \<lparr>ag_iv = replicate 12 CHR ''i'', ag_ciphertext = p, ag_tag = replicate 16 CHR ''t''\<rparr>),
      cc_decrypt = (\<lambda>cek c aad. Ok (ag_ciphertext c))\<rparr>"

definition toy_ztdf_assertion :: ztdf_assertion where
  "toy_ztdf_assertion =
     \<lparr>za_id = ''nato-label-1'', za_assertion_type = ''handling'', za_scope = ''payload'', za_applies_to_state = ''encrypted'',
      za_statement = \<lparr>zs_format = ''json-structured'', zs_schema = NAMESPACE, zs_value = to_json_value ztdf_secret\<rparr>,
      za_binding = \<lparr>zb_method = ''nmb'', zb_algorithm = NMBS_ALGORITHM, zb_key_id = ''k1'', zb_signature = ''d<xml>|x''\<rparr>,
      za_signed_label_xml = ''<xml>''\<rparr>"

definition toy_manifest :: ztdf_manifest where
  "toy_manifest =
     \<lparr>zf_tdf_spec_version = SPEC_VERSION,
      zf_payload =
        \<lparr>zp_payload_type = ''reference'', zp_url = ''0.payload'', zp_protocol = ''zip'', zp_is_encrypted = True,
         zp_mime_type = ''application/octet-stream''\<rparr>,
      zf_encryption_information =
        \<lparr>zi_encryption_type = ''split'',
         zi_method =
           \<lparr>zm_algorithm = ''AES-256-GCM'', zm_is_streamable = True, zm_iv = replicate 12 CHR ''i'',
            zm_auth_tag = replicate 16 CHR ''t''\<rparr>,
         zi_key_wrap = \<lparr>zw_algorithm = ''RSA-OAEP-SHA256'', zw_key_id = ''k1'', zw_wrapped_key = replicate 32 CHR ''k''\<rparr>,
         zi_policy = ''{1}''\<rparr>,
      zf_assertions = [toy_ztdf_assertion]\<rparr>"

definition toy_sealed :: bytes where
  "toy_sealed = aes_to_bytes \<lparr>ag_iv = replicate 12 CHR ''i'', ag_ciphertext = ''x'', ag_tag = replicate 16 CHR ''t''\<rparr>"

definition toy_entries :: "(string \<times> bytes) list" where
  "toy_entries = [(MANIFEST_ENTRY, ''M0''), (PAYLOAD_ENTRY, toy_sealed)]"

definition toy_archive :: "bytes \<Rightarrow> string \<Rightarrow> string + bytes" where
  "toy_archive z n =
     (if n = MANIFEST_ENTRY then Ok (if z = ''PK0'' then ''M0'' else ''M1'')
      else if n = PAYLOAD_ENTRY then Ok toy_sealed else Err ''not found'')"

definition toy_format :: ztdf_codec where
  "toy_format =
     \<lparr>zc_json_compact = (\<lambda>v. if v = to_json_value ztdf_secret then ''{0}'' else ''{1}''),
      zc_manifest_json = (\<lambda>m. if m = toy_manifest then Ok ''M0'' else Err ''unsupported''),
      zc_manifest_parse = (\<lambda>t. Ok (if t = ''M0'' then toy_manifest else restate (to_json_value ztdf_open) toy_manifest)),
      zc_zip_write = (\<lambda>es. if es = toy_entries then Ok ''PK0'' else Err ''unsupported''),
      zc_zip_open = (\<lambda>z. Ok (toy_archive z))\<rparr>"

definition toy_env :: ztdf_env where
  "toy_env =
     \<lparr>ze_codec = toy_label_codec, ze_crypto = toy_provider, ze_content = toy_content, ze_format = toy_format,
      ze_files = (\<lambda>_. Err ''no files'')\<rparr>"

lemma toy_env_fields [simp]:
  "ze_codec toy_env = toy_label_codec" "ze_crypto toy_env = toy_provider" "ze_content toy_env = toy_content"
  "ze_format toy_env = toy_format"
  by (simp_all add: toy_env_def)

lemma ztdf_samples_valid: "validate_conf_label ztdf_secret = Ok ()" "validate_conf_label ztdf_open = Ok ()"
  by (simp_all add: ztdf_secret_def ztdf_open_def validate_conf_label_Ok_iff conf_label_new_def model_simps
      releasable_to_marking_def category_ok_def allows_classification_def classification_level_all_def)

lemma ztdf_samples_accepted: "label_accepted ztdf_secret" "label_accepted ztdf_open"
proof -
  have ids: "lp_identifier (cf_policy ztdf_secret) = ''NATO''" "lp_identifier (cf_policy ztdf_open) = ''NATO''"
    by (simp_all add: ztdf_secret_def ztdf_open_def conf_label_new_def label_policy_new_def)
  have "conforms_to ztdf_secret spif_nato"
    by (simp add: conforms_to_def spif_nato_def ztdf_secret_def category_conforms_def
        spif_category_for_def releasable_to_marking_def spif_eval conf_label_new_def)
  with ids(1) ztdf_samples_valid(1) show "label_accepted ztdf_secret"
    by (simp add: spif_validate_label_Ok_iff spif_get_defaults)
  have "conforms_to ztdf_open spif_nato"
    by (simp add: conforms_to_def spif_nato_def ztdf_open_def spif_eval conf_label_new_def)
  with ids(2) ztdf_samples_valid(2) show "label_accepted ztdf_open"
    by (simp add: spif_validate_label_Ok_iff spif_get_defaults)
qed

lemma ztdf_samples_image: "json_image ztdf_secret = ztdf_secret" "json_image ztdf_open = ztdf_open"
  by (simp_all add: json_image_def ztdf_secret_def ztdf_open_def conf_label_new_def label_policy_new_def)

lemma ztdf_samples_differ: "to_json_value ztdf_open \<noteq> to_json_value ztdf_secret"
  by (simp add: to_json_value_def ztdf_secret_def ztdf_open_def conf_label_new_def)

lemma toy_times: "times_parse toy_label_codec l"
  by (simp add: times_parse_def toy_label_codec_def)

lemma toy_json_laws: "json_laws toy_label_codec"
  using ztdf_samples_differ by (auto simp: json_laws_def toy_label_codec_def equiv_refl split: if_splits)

lemma toy_serialize:
  "codec_serialize toy_label_codec ztdf_secret Xml = Ok ''<xml>''"
  "codec_serialize toy_label_codec ztdf_open Xml = Ok ''<xml>''"
  "codec_serialize toy_label_codec ztdf_secret JsonStructured = Ok ''{0}''"
  using ztdf_samples_valid by (simp_all add: codec_serialize_def xml_serialize_def json_serialize_def toy_label_codec_def)

lemma toy_content_laws: "content_laws toy_content kas"
  by (simp add: content_laws_def toy_content_def aes_wf_def)

lemma toy_format_laws: "format_laws toy_env"
proof -
  have "v = to_json_value ztdf_secret \<or> v = to_json_value ztdf_open" if "parsed_value toy_env v" for v
    using that by (auto simp: parsed_value_def toy_label_codec_def split: if_splits)
  then show ?thesis
    by (auto simp: format_laws_def toy_format_def toy_label_codec_def toy_archive_def toy_entries_def from_utf8_ascii
        MANIFEST_ENTRY_def PAYLOAD_ENTRY_def split: if_splits)
qed

lemma toy_created:
  "\<exists>pkg. package_create toy_env rnd ztdf_secret ''x'' (kp_signing toy_keys) (kp_verifying toy_keys) (kp_verifying toy_keys) = Ok pkg \<and>
     zk_manifest pkg = toy_manifest \<and> zk_encrypted_payload pkg = toy_sealed"
proof -
  let ?sk = "kp_signing toy_keys" and ?vk = "kp_verifying toy_keys"
  obtain a where a: "assertion_create toy_label_codec toy_provider ztdf_secret ''x'' ?sk = Ok a"
    and sig: "ab_signature a = \<lparr>bs_algorithm = NMBS_ALGORITHM, bs_algorithm_uri = NMBS_ALGORITHM_URI, bs_key_id = ''k1'',
        bs_signature = ''d<xml>|x''\<rparr>" and dig: "ab_payload_digest a = ''x''"
    using ztdf_samples_accepted(1) toy_serialize(1)
    by (simp add: assertion_create_Ok_iff sign_binding_Ok_iff sign_nmb_binding_def nmb_message_def toy_provider_def
        toy_keys_def sha256_base64_def)
  have za: "from_label toy_label_codec toy_provider ztdf_secret ''x'' ?sk = Ok toy_ztdf_assertion"
    using a sig ztdf_samples_valid(1) toy_serialize
    by (simp add: from_label_def toy_ztdf_assertion_def) (simp add: toy_label_codec_def)
  have pol: "default_policy_b64 toy_env = ''{1}''"
    by (simp add: default_policy_b64_def toy_format_def toy_provider_def to_json_value_def)
  have m: "for_mim_payload toy_env seed ztdf_secret ''x''
      \<lparr>ag_iv = replicate 12 CHR ''i'', ag_ciphertext = ''x'', ag_tag = replicate 16 CHR ''t''\<rparr> (replicate 32 CHR ''k'') ?sk ?vk ''{1}'' = Ok toy_manifest" for seed
    using za by (simp add: for_mim_payload_def toy_content_def toy_manifest_def) (simp add: toy_provider_def toy_keys_def)
  have v: "manifest_validate toy_manifest = Ok ()"
    by (simp add: manifest_validate_def toy_manifest_def nato_label_assertion_def toy_ztdf_assertion_def)
  have b: "\<exists>b. assertion_bound toy_label_codec toy_provider ztdf_secret ''x'' ?sk = Ok b"
    using a ztdf_samples_valid(1) toy_serialize by (simp add: assertion_bound_def)
  then obtain b where b: "assertion_bound toy_label_codec toy_provider ztdf_secret ''x'' ?sk = Ok b" ..
  have bv: "bdo_verify toy_label_codec toy_provider f b ''x'' (Some ?vk) = Ok ()" for f
    using created_assertion_bound_verifies [OF toy_laws toy_key_ids b] by (simp add: bdo_verify_def)
  have "generate_content_key toy_content s = Ok (replicate 32 CHR ''k'')" for s
    by (simp add: generate_content_key_def toy_content_def)
  moreover have "cc_encrypt toy_content s k ''x'' aad =
      Ok \<lparr>ag_iv = replicate 12 CHR ''i'', ag_ciphertext = ''x'', ag_tag = replicate 16 CHR ''t''\<rparr>" for s k aad
    by (simp add: toy_content_def)
  ultimately show ?thesis
    using ztdf_samples_valid(1) pol m v b bv by (simp add: package_create_def Let_def toy_sealed_def)
qed

lemma toy_zip:
  "zk_manifest pkg = toy_manifest \<Longrightarrow> zk_encrypted_payload pkg = toy_sealed \<Longrightarrow> to_zip_bytes toy_env pkg = Ok ''PK0''"
  by (simp add: to_zip_bytes_def ztdf_manifest_to_json_def toy_format_def toy_entries_def)

lemma toy_nato_label: "nato_label_assertion toy_manifest = Some toy_ztdf_assertion"
  by (simp add: nato_label_assertion_def toy_manifest_def toy_ztdf_assertion_def)

lemma toy_manifest_label: "manifest_label toy_env toy_manifest = Ok ztdf_secret"
proof -
  have "parse_json_value toy_label_codec (to_json_value ztdf_secret) = Ok ztdf_secret"
    using parse_json_label [OF toy_times] ztdf_samples_image(1) by simp
  then have "codec_deserialize toy_label_codec ''{0}'' JsonStructured = Ok ztdf_secret"
    using ztdf_samples_valid(1) by (simp add: deserialize_json_Ok_iff) (simp add: toy_label_codec_def)
  then show ?thesis using toy_nato_label by (simp add: manifest_label_def toy_format_def toy_ztdf_assertion_def)
qed

lemma toy_decrypted:
  assumes "zk_manifest pkg = toy_manifest" and "zk_encrypted_payload pkg = toy_sealed"
  shows "decrypt_with_kas toy_env pkg (local_kas toy_env (kp_signing toy_keys)) = Ok ''x''"
proof -
  have "local_kas toy_env (kp_signing toy_keys) toy_manifest = Ok (replicate 32 CHR ''k'')"
    by (simp add: local_kas_def toy_content_def toy_provider_def toy_manifest_def)
  then show ?thesis
    using assms by (simp add: decrypt_with_kas_def toy_sealed_def aes_round_trip aes_wf_def) (simp add: toy_content_def)
qed

lemma toy_opens:
  "\<exists>pkg. from_zip_bytes toy_env ''PK0'' (kp_verifying toy_keys) (kp_signing toy_keys) = Ok pkg \<and>
     zk_manifest pkg = toy_manifest \<and> zk_encrypted_payload pkg = toy_sealed"
proof -
  note za = toy_nato_label and lbl = toy_manifest_label
  have "read_zip_entries toy_env ''PK0'' = Ok (toy_manifest, toy_sealed)"
    by (simp add: read_zip_entries_def ztdf_manifest_from_json_def toy_format_def toy_archive_def from_utf8_ascii
        MANIFEST_ENTRY_def PAYLOAD_ENTRY_def)
  moreover have "manifest_validate toy_manifest = Ok ()"
    by (simp add: manifest_validate_def za) (simp add: toy_manifest_def toy_ztdf_assertion_def)
  ultimately obtain pkg where sealed: "from_zip_sealed toy_env ''PK0'' = Ok pkg"
    and same: "zk_manifest pkg = toy_manifest" "zk_encrypted_payload pkg = toy_sealed"
    using lbl za toy_serialize(1) by (simp add: from_zip_sealed_Ok_iff)
  note dec = toy_decrypted [OF same]
  have "verify_from_manifest toy_env toy_manifest ''x'' (kp_verifying toy_keys) = Ok ()"
    using lbl za ztdf_samples_accepted(1)
    by (simp add: verify_from_manifest_def assertion_verify_Ok_iff signed_bytes_def signature_of_assertion_def
        toy_ztdf_assertion_def verify_nmb_binding_Ok_iff nmb_message_def)
      (simp add: toy_provider_def toy_keys_def sha256_base64_def)
  then have "from_zip_bytes toy_env ''PK0'' (kp_verifying toy_keys) (kp_signing toy_keys) = Ok pkg"
    using sealed dec same by (simp add: from_zip_bytes_def sealed_verifies_from_manifest)
  with same show ?thesis by blast
qed

theorem ztdf_round_trip_witness:
  "\<exists>pkg. from_zip_bytes toy_env ''PK0'' (kp_verifying toy_keys) (kp_signing toy_keys) = Ok pkg \<and>
     package_decrypt toy_env pkg (kp_signing toy_keys) = Ok ''x''"
proof -
  let ?rnd = "\<lparr>zr_key = ''a'', zr_iv = ''b'', zr_wrap = ''c''\<rparr>"
  obtain pkg where pkg: "package_create toy_env ?rnd ztdf_secret ''x'' (kp_signing toy_keys) (kp_verifying toy_keys)
      (kp_verifying toy_keys) = Ok pkg" and same: "zk_manifest pkg = toy_manifest" "zk_encrypted_payload pkg = toy_sealed"
    using toy_created by blast
  have "codec_serialize (ze_codec toy_env) (json_image ztdf_secret) Xml = Ok ''<xml>''"
    using toy_serialize(1) ztdf_samples_image(1) by simp
  from ztdf_round_trip [of toy_env toy_keys toy_keys ztdf_secret, OF _ toy_key_ids _ toy_format_laws _ _ this pkg toy_zip [OF same]]
  show ?thesis by (simp add: toy_laws toy_content_laws toy_json_laws toy_times) blast
qed

theorem restated_package_opens_witness:
  "\<exists>pkg. from_zip_bytes toy_env ''PK1'' (kp_verifying toy_keys) (kp_signing toy_keys) = Ok pkg \<and>
     package_label toy_env pkg = Ok ztdf_open"
proof -
  obtain pkg where pkg: "from_zip_bytes toy_env ''PK0'' (kp_verifying toy_keys) (kp_signing toy_keys) = Ok pkg"
    and same: "zk_manifest pkg = toy_manifest" "zk_encrypted_payload pkg = toy_sealed"
    using toy_opens by blast
  let ?v = "to_json_value ztdf_open"
  have "read_zip_entries toy_env ''PK1'' = Ok (restate ?v toy_manifest, toy_sealed)"
    by (simp add: read_zip_entries_def ztdf_manifest_from_json_def toy_format_def toy_archive_def from_utf8_ascii
        MANIFEST_ENTRY_def PAYLOAD_ENTRY_def)
  then have entries: "read_zip_entries toy_env ''PK1'' = Ok (restate ?v (zk_manifest pkg), zk_encrypted_payload pkg)"
    using same by simp
  have "parse_json_value toy_label_codec ?v = Ok ztdf_open"
    using parse_json_label [OF toy_times] ztdf_samples_image(2) by simp
  then have "codec_deserialize toy_label_codec ''{1}'' JsonStructured = Ok ztdf_open"
    using ztdf_samples_valid(2) by (simp add: deserialize_json_Ok_iff) (simp add: toy_label_codec_def)
  then have "manifest_label toy_env (restate ?v (zk_manifest pkg)) = Ok ztdf_open"
    using same ztdf_samples_differ
    by (simp add: manifest_label_def restate_def nato_label_assertion_def toy_manifest_def toy_ztdf_assertion_def toy_format_def)
  from restated_package_opens [OF pkg entries this ztdf_samples_accepted(2)] toy_serialize(2) show ?thesis by auto
qed

end
