(* ===== verification/Guard.thy ===== *)
theory Guard
  imports Spif_Admin Policy_Enforcement
begin

text \<open>
  Crate \<open>mim-dcs\<close>, \<open>guard.rs\<close> and \<open>config.rs\<close>: the cross-domain guard over the policy plane and its
  construction from a deployment configuration, with the accredited profile. The file system, the schema
  check and parser of SPIF documents and the opening of an audit sink are the record \<open>config_env\<close>; the
  forwarding to a collector is a function.
\<close>

section \<open>The guard (\<open>guard.rs\<close>)\<close>

datatype guard_decision = GuardAllow | GuardDeny | GuardDowngrade

record guard_result =
  gr_decision :: guard_decision
  gr_reason :: string
  gr_effective_label :: "conf_label option"

record 's cross_domain_guard =
  cg_source :: security_domain
  cg_target :: security_domain
  cg_pep :: "'s enforcement_point"
  cg_accredited :: bool

text \<open>\<open>let _ = pap.register_domain(..)\<close>: a refused registration leaves the store as it was.\<close>

definition guard_new :: "security_domain \<Rightarrow> security_domain \<Rightarrow> 's cross_domain_guard" where
  "guard_new source target =
     (let p = cross_domain_policy_new (sd_id source @ ''-to-'' @ sd_id target) (sd_id source) (sd_id target);
          pap = ignore_err (pap_add_cross_domain_policy p)
                  (ignore_err (pap_register_domain target)
                    (ignore_err (pap_register_domain source) \<lparr>pap_store = policy_store_new\<rparr>))
      in \<lparr>cg_source = source, cg_target = target, cg_pep = pep_new (pap_store pap), cg_accredited = False\<rparr>)"

definition from_policy_plane :: "'s enforcement_point \<Rightarrow> security_domain \<Rightarrow> security_domain \<Rightarrow> 's cross_domain_guard" where
  "from_policy_plane pep source target =
     \<lparr>cg_source = source, cg_target = target, cg_pep = pep, cg_accredited = False\<rparr>"

definition with_accredited :: "bool \<Rightarrow> 's cross_domain_guard \<Rightarrow> 's cross_domain_guard" where
  "with_accredited b g = g\<lparr>cg_accredited := b\<rparr>"

definition map_decision :: "policy_decision \<Rightarrow> guard_result" where
  "map_decision dn =
     (case pd_effect dn of
        Permit \<Rightarrow> \<lparr>gr_decision = GuardAllow, gr_reason = pd_reason dn, gr_effective_label = pd_effective_label dn\<rparr>
      | Deny \<Rightarrow> \<lparr>gr_decision = GuardDeny, gr_reason = pd_reason dn, gr_effective_label = None\<rparr>
      | Downgrade \<Rightarrow> \<lparr>gr_decision = GuardDowngrade, gr_reason = pd_reason dn, gr_effective_label = pd_effective_label dn\<rparr>)"

definition guard_evaluate_with_subject ::
  "'s audit_env \<Rightarrow> stamp \<Rightarrow> conf_label \<Rightarrow> subject_attributes \<Rightarrow> 's cross_domain_guard \<Rightarrow>
     (label_error + guard_result) \<times> 's cross_domain_guard" where
  "guard_evaluate_with_subject env st l subject g =
     (case pep_evaluate_cross_domain env st subject l (cg_source g) (cg_target g) (cg_pep g) of
        (Inl e, pep) \<Rightarrow> (Err (label_error_of_policy e), g\<lparr>cg_pep := pep\<rparr>)
      | (Inr dn, pep) \<Rightarrow> (Ok (map_decision dn), g\<lparr>cg_pep := pep\<rparr>))"

definition guard_subject :: "conf_label \<Rightarrow> subject_attributes" where
  "guard_subject l = subject_new ''cross-domain-guard'' (cf_classification l)"

definition guard_evaluate ::
  "'s audit_env \<Rightarrow> stamp \<Rightarrow> conf_label \<Rightarrow> 's cross_domain_guard \<Rightarrow> (label_error + guard_result) \<times> 's cross_domain_guard" where
  "guard_evaluate env st l g = guard_evaluate_with_subject env st l (guard_subject l) g"

definition guard_with_audit :: "'s audit_log \<Rightarrow> 't cross_domain_guard \<Rightarrow> 's cross_domain_guard" where
  "guard_with_audit log g =
     \<lparr>cg_source = cg_source g, cg_target = cg_target g, cg_pep = with_audit log (pep_new (ep_store (cg_pep g))),
      cg_accredited = cg_accredited g\<rparr>"

definition guard_from_spif_registry :: "spif_registry \<Rightarrow> label_error + 's cross_domain_guard" where
  "guard_from_spif_registry reg =
     and_then (map_err (\<lambda>e. LeCrossDomain (show_policy_error e)) (with_spif_registry reg)) (\<lambda>store.
     and_then (map_err (\<lambda>e. LeCrossDomain (show_policy_error e)) (guard_domains_from_spif reg ''DOMAIN-HIGH'' ''DOMAIN-LOW''))
       (\<lambda>(source, target). Ok (from_policy_plane (pep_new store) source target)))"

definition guard_preset_coalition :: "'s cross_domain_guard" where
  "guard_preset_coalition =
     from_policy_plane (pep_new preset_coalition)
       (with_releasable_to [''USA'', ''GBR'', ''DEU'', ''FRA''] (security_domain_new ''DOMAIN-NATO'' ''NATO Core'' Secret))
       (with_releasable_to [''USA'', ''GBR''] (security_domain_new ''DOMAIN-PARTNER'' ''Partner Nation'' Secret))"

definition validate_domain_pair :: "domain_id \<Rightarrow> domain_id \<Rightarrow> label_error + unit" where
  "validate_domain_pair source target =
     and_then (validate_domain_id source) (\<lambda>_.
     and_then (validate_domain_id target) (\<lambda>_.
       if source = target then Err (LeCrossDomain ''source and target domains must differ for cross-domain transfer'')
       else Ok ()))"

section \<open>The configuration (\<open>config.rs\<close>)\<close>

datatype audit_sink_type = SinkFile | SinkWorm

record audit_config =
  ac_path :: "string option"
  ac_siem_export_path :: "string option"
  ac_sink_type :: audit_sink_type
  ac_accredited :: bool
  ac_siem_endpoint :: "string option"
  ac_syslog_endpoint :: "string option"
  ac_require_signed :: bool
  ac_fail_closed :: bool

definition audit_config_default :: audit_config where
  "audit_config_default =
     \<lparr>ac_path = None, ac_siem_export_path = None, ac_sink_type = SinkFile, ac_accredited = False,
      ac_siem_endpoint = None, ac_syslog_endpoint = None, ac_require_signed = False, ac_fail_closed = False\<rparr>"

record domain_config =
  dc_id :: string
  dc_name :: string
  dc_max_classification :: string
  dc_releasable_to :: "string list"
  dc_accepted_nationalities :: "string list"
  dc_mission_compartments :: "string list"

record cross_domain_rule_config =
  rc_id :: string
  rc_source :: string
  rc_target :: string
  rc_description :: "string option"

record spif_source_config =
  ss_paths :: "string list"
  ss_validate_xsd :: bool

record dcs_config =
  dcs_domains :: "domain_config list"
  dcs_cross_domain :: "cross_domain_rule_config list"
  dcs_spif :: spif_source_config
  dcs_downgrade :: downgrade_config
  dcs_audit :: audit_config
  dcs_accredited :: bool
  dcs_config_dir :: "string option"

record 's config_env =
  ce_is_file :: "string \<Rightarrow> bool"
  ce_read_file :: "string \<Rightarrow> string + string"
  ce_workspace_root :: string
  ce_spif_xsd :: "string \<Rightarrow> string + unit"
  ce_parse_spif :: "string \<Rightarrow> string + spif_policy"
  ce_open_sink :: "audit_sink_type \<Rightarrow> string \<Rightarrow> audit_error + 's"

definition conformance_high_to_low :: dcs_config where
  "conformance_high_to_low =
     \<lparr>dcs_domains =
        [\<lparr>dc_id = ''DOMAIN-HIGH'', dc_name = ''High Side'', dc_max_classification = ''SECRET'',
          dc_releasable_to = [''USA'', ''GBR'', ''DEU''], dc_accepted_nationalities = [''USA'', ''GBR'', ''DEU''],
          dc_mission_compartments = []\<rparr>,
         \<lparr>dc_id = ''DOMAIN-LOW'', dc_name = ''Low Side'', dc_max_classification = ''RESTRICTED'',
          dc_releasable_to = [''USA'', ''GBR''], dc_accepted_nationalities = [''USA'', ''GBR''],
          dc_mission_compartments = []\<rparr>],
      dcs_cross_domain =
        [\<lparr>rc_id = ''high-to-low'', rc_source = ''DOMAIN-HIGH'', rc_target = ''DOMAIN-LOW'',
          rc_description = Some ''High-side to low-side cross-domain guard''\<rparr>],
      dcs_spif = \<lparr>ss_paths = [], ss_validate_xsd = True\<rparr>, dcs_downgrade = downgrade_default,
      dcs_audit = audit_config_default, dcs_accredited = False, dcs_config_dir = None\<rparr>"

definition is_accredited_profile :: "dcs_config \<Rightarrow> bool" where
  "is_accredited_profile c \<longleftrightarrow> dcs_accredited c \<or> ac_accredited (dcs_audit c)"

definition validate_accredited_profile :: "dcs_config \<Rightarrow> string + unit" where
  "validate_accredited_profile c =
     (if \<not> is_accredited_profile c then Ok ()
      else if ac_path (dcs_audit c) = None then Err ''accredited guard requires audit.path (WORM sink)''
      else if ac_sink_type (dcs_audit c) \<noteq> SinkWorm then Err ''accredited guard requires audit.sinkType = worm''
      else Ok ())"

text \<open>\<open>Path::parent\<close>: whether there is one.\<close>

definition path_has_parent :: "string \<Rightarrow> bool" where
  "path_has_parent p \<longleftrightarrow>
     (let cs = filter (\<lambda>c. c \<noteq> []) (split_on (\<lambda>c. c = CHR ''/'') p) in
      if starts_with p ''/'' then list_ex (\<lambda>c. c \<noteq> ''.'') cs else cs \<noteq> [])"

definition resolve_relative_path :: "'s config_env \<Rightarrow> dcs_config \<Rightarrow> string \<Rightarrow> string" where
  "resolve_relative_path env c path =
     (if starts_with path ''/'' then path
      else case dcs_config_dir c of
        Some dir \<Rightarrow>
          if path_has_parent (path_join dir path) then path_join dir path else path_join (ce_workspace_root env) path
      | None \<Rightarrow> path_join (ce_workspace_root env) path)"

definition resolved_siem_export_path :: "'s config_env \<Rightarrow> dcs_config \<Rightarrow> string option" where
  "resolved_siem_export_path env c = map_option (resolve_relative_path env c) (ac_siem_export_path (dcs_audit c))"

definition build_audit_log :: "'s config_env \<Rightarrow> dcs_config \<Rightarrow> string + 's audit_log option" where
  "build_audit_log env c =
     and_then (validate_accredited_profile c) (\<lambda>_.
       case ac_path (dcs_audit c) of
         None \<Rightarrow> if is_accredited_profile c then Err ''accredited guard requires audit.path'' else Ok None
       | Some path \<Rightarrow>
           and_then (map_err show_audit_error
               (ce_open_sink env (ac_sink_type (dcs_audit c)) (resolve_relative_path env c path)))
             (\<lambda>sink. Ok (Some (audit_log_new sink))))"

text \<open>The three forwarders are functions of the log; \<open>max_attempts\<close> is passed to the network ones.\<close>

definition forward_audit_siem ::
  "('s audit_log \<Rightarrow> string \<Rightarrow> string + unit) \<Rightarrow> ('s audit_log \<Rightarrow> string \<Rightarrow> nat \<Rightarrow> string + unit) \<Rightarrow>
     ('s audit_log \<Rightarrow> string \<Rightarrow> nat \<Rightarrow> string + unit) \<Rightarrow> 's config_env \<Rightarrow> dcs_config \<Rightarrow> 's audit_log \<Rightarrow> string + unit" where
  "forward_audit_siem to_file to_http to_syslog env c log =
     (let fail_closed = (ac_fail_closed (dcs_audit c) \<or> is_accredited_profile c);
          max_attempts = (if is_accredited_profile c then 3 else 1);
          checked = (\<lambda>r. if fail_closed then r else Ok ())
      in and_then (case resolved_siem_export_path env c of Some path \<Rightarrow> checked (to_file log path) | None \<Rightarrow> Ok ()) (\<lambda>_.
         and_then (case ac_siem_endpoint (dcs_audit c) of
             Some endpoint \<Rightarrow> checked (to_http log endpoint max_attempts) | None \<Rightarrow> Ok ()) (\<lambda>_.
         case ac_syslog_endpoint (dcs_audit c) of
             Some endpoint \<Rightarrow> checked (to_syslog log endpoint max_attempts) | None \<Rightarrow> Ok ())))"

definition resolve_spif_path :: "'s config_env \<Rightarrow> dcs_config \<Rightarrow> string \<Rightarrow> string" where
  "resolve_spif_path env c path =
     (if ce_is_file env path then path
      else case dcs_config_dir c of
        Some dir \<Rightarrow> if ce_is_file env (path_join dir path) then path_join dir path else path_join (ce_workspace_root env) path
      | None \<Rightarrow> path_join (ce_workspace_root env) path)"

fun load_spifs :: "'s config_env \<Rightarrow> dcs_config \<Rightarrow> string list \<Rightarrow> spif_registry \<Rightarrow> string + spif_registry" where
  "load_spifs env c [] reg = Ok reg"
| "load_spifs env c (path # paths) reg =
     (let resolved = resolve_spif_path env c path in
      and_then (map_err (\<lambda>e. ''failed to read SPIF '' @ resolved @ '': '' @ e) (ce_read_file env resolved)) (\<lambda>xml.
      and_then (if ss_validate_xsd (dcs_spif c) then ce_spif_xsd env xml else Ok ()) (\<lambda>_.
      and_then (map_err (\<lambda>e. ''SPIF parse error in '' @ path @ '': '' @ e) (spif_load_xml (ce_parse_spif env) xml reg)) (\<lambda>reg'.
        load_spifs env c paths reg'))))"

definition load_spif_registry :: "'s config_env \<Rightarrow> dcs_config \<Rightarrow> string + spif_registry" where
  "load_spif_registry env c = load_spifs env c (ss_paths (dcs_spif c)) spif_registry_new"

definition to_security_domain :: "domain_config \<Rightarrow> string + security_domain" where
  "to_security_domain d =
     and_then (map_err show_label_error (classification_parse (dc_max_classification d))) (\<lambda>max_level.
       let d0 = security_domain_new (dc_id d) (dc_name d) max_level;
           d1 = (if dc_releasable_to d \<noteq> [] then with_releasable_to (dc_releasable_to d) d0 else d0);
           d2 = (if dc_accepted_nationalities d \<noteq> [] then with_accepted_nationalities (dc_accepted_nationalities d) d1 else d1)
       in Ok (if dc_mission_compartments d \<noteq> [] then with_mission_compartments (dc_mission_compartments d) d2 else d2))"

fun insert_configured_domains :: "domain_config list \<Rightarrow> policy_store \<Rightarrow> string + policy_store" where
  "insert_configured_domains [] s = Ok s"
| "insert_configured_domains (d # ds) s =
     and_then (to_security_domain d) (\<lambda>sd.
     and_then (map_err show_policy_error (insert_domain sd s)) (insert_configured_domains ds))"

definition configured_policy :: "cross_domain_rule_config \<Rightarrow> cross_domain_policy" where
  "configured_policy r =
     (let p = cross_domain_policy_new (rc_id r) (rc_source r) (rc_target r) in
      case rc_description r of Some d \<Rightarrow> with_description d p | None \<Rightarrow> p)"

fun insert_configured_rules :: "cross_domain_rule_config list \<Rightarrow> policy_store \<Rightarrow> string + policy_store" where
  "insert_configured_rules [] s = Ok s"
| "insert_configured_rules (r # rs) s =
     and_then (map_err show_policy_error (insert_cross_domain_policy (configured_policy r) s)) (insert_configured_rules rs)"

definition build_policy_store :: "'s config_env \<Rightarrow> dcs_config \<Rightarrow> string + policy_store" where
  "build_policy_store env c =
     and_then (insert_configured_domains (dcs_domains c) (with_downgrade_config (dcs_downgrade c) policy_store_new)) (\<lambda>s.
     and_then (insert_configured_rules (dcs_cross_domain c) s) (\<lambda>s.
       if ss_paths (dcs_spif c) = [] then Ok s
       else and_then (load_spif_registry env c) (\<lambda>reg.
         and_then (map_err show_policy_error (register_spifs (spif_policies reg) s)) (\<lambda>s.
           map_err show_policy_error (apply_spif_to_store reg s)))))"

definition domain_by_id :: "dcs_config \<Rightarrow> string \<Rightarrow> string + domain_config" where
  "domain_by_id c i = ok_or (''unknown domain id '' @ quoted i) (find (\<lambda>d. dc_id d = i) (dcs_domains c))"

definition primary_domain_pair :: "dcs_config \<Rightarrow> string + security_domain \<times> security_domain" where
  "primary_domain_pair c =
     (case dcs_cross_domain c of
        [] \<Rightarrow> Err ''DCS config requires at least one cross_domain rule''
      | rule # _ \<Rightarrow>
          and_then (and_then (domain_by_id c (rc_source rule)) to_security_domain) (\<lambda>source.
          and_then (and_then (domain_by_id c (rc_target rule)) to_security_domain) (\<lambda>target.
            Ok (source, target))))"

definition build_guard :: "'s config_env \<Rightarrow> dcs_config \<Rightarrow> string + 's cross_domain_guard" where
  "build_guard env c =
     and_then (validate_accredited_profile c) (\<lambda>_.
     and_then (build_policy_store env c) (\<lambda>store.
     and_then (primary_domain_pair c) (\<lambda>(source, target).
     and_then (build_audit_log env c) (\<lambda>audit.
       let pep = (case audit of Some log \<Rightarrow> with_audit log (pep_new store) | None \<Rightarrow> pep_new store)
       in Ok (with_accredited (is_accredited_profile c) (from_policy_plane pep source target))))))"

definition guard_from_config :: "'s config_env \<Rightarrow> dcs_config \<Rightarrow> label_error + 's cross_domain_guard" where
  "guard_from_config env c = map_err (\<lambda>e. LeCrossDomain (''DCS guard build: '' @ e)) (build_guard env c)"

section \<open>What the guard lets through\<close>

lemma map_decision_fields:
  "gr_decision (map_decision dn) = GuardDeny \<longleftrightarrow> pd_effect dn = Deny"
  "gr_reason (map_decision dn) = pd_reason dn"
  "pd_effect dn \<noteq> Deny \<Longrightarrow> gr_effective_label (map_decision dn) = pd_effective_label dn"
  by (cases "pd_effect dn"; simp add: map_decision_def)+

lemma guard_evaluate_Ok:
  assumes "guard_evaluate env st l g = (Ok r, g')"
  obtains ctx dn where "cross_domain_context (guard_subject l) l (cg_source g) (cg_target g) None = Ok ctx"
    and "evaluate (ep_store (cg_pep g)) ctx = Ok dn" and "r = map_decision dn"
  using assms
  by (auto simp: guard_evaluate_def guard_evaluate_with_subject_def pep_evaluate_cross_domain_def pep_evaluate_transfer_def
      and_then_Inr_iff split: prod.splits sum.splits)

lemma guard_evaluate_result:
  "fst (guard_evaluate env st l g) =
     map_err label_error_of_policy
       (and_then (and_then (cross_domain_context (guard_subject l) l (cg_source g) (cg_target g) None)
                   (evaluate (ep_store (cg_pep g)))) (\<lambda>dn. Ok (map_decision dn)))"
  by (cases "and_then (cross_domain_context (guard_subject l) l (cg_source g) (cg_target g) None) (evaluate (ep_store (cg_pep g)))")
    (auto simp: guard_evaluate_def guard_evaluate_with_subject_def pep_evaluate_cross_domain_def pep_evaluate_transfer_def)

text \<open>What an approval means for the target that the policy store knows under the guard's target.\<close>

definition fit_for_target :: "'s cross_domain_guard \<Rightarrow> conf_label \<Rightarrow> conf_label \<Rightarrow> bool" where
  "fit_for_target g l e \<longleftrightarrow>
     (\<exists>t. store_domain (ep_store (cg_pep g)) (sd_id (cg_target g)) = Some t \<and>
        cf_classification e = min (cf_classification l) (sd_max_classification t) \<and>
        cf_categories e = cf_categories l \<and> (\<forall>c \<in> set (releasable_countries e). accepts_country t c)) \<and>
     policy_for_pair (ep_store (cg_pep g)) (sd_id (cg_source g)) (sd_id (cg_target g)) \<noteq> None \<and>
     validate_conf_label e = Ok () \<and> restrictive_category_values l = []"

lemma guard_approval_fits:
  assumes "guard_evaluate env st l g = (Ok r, g')" and "gr_decision r \<noteq> GuardDeny"
  shows "\<exists>e. gr_effective_label r = Some e \<and> fit_for_target g l e"
proof (rule guard_evaluate_Ok [OF assms(1)])
  fix ctx dn
  assume ctx: "cross_domain_context (guard_subject l) l (cg_source g) (cg_target g) None = Ok ctx"
    and dn: "evaluate (ep_store (cg_pep g)) ctx = Ok dn" and r: "r = map_decision dn"
  have nd: "pd_effect dn \<noteq> Deny" using assms(2) r by (simp add: map_decision_fields)
  have "\<not> holds_caveat (guard_subject l) c" for c
    by (simp add: holds_caveat_def guard_subject_def subject_new_def any_ignore_case_def)
  then have "restrictive_category_values l = []" if "\<forall>c \<in> set (restrictive_category_values l). holds_caveat (guard_subject l) c"
    using that by (cases "restrictive_category_values l") auto
  with released_label_fits [OF ctx dn nd] show ?thesis
    using r nd by (auto simp: fit_for_target_def map_decision_fields)
qed

section \<open>Guards built from a configuration\<close>

lemma insert_configured_domains_wf:
  "insert_configured_domains ds s = Ok s' \<Longrightarrow> store_wf s \<Longrightarrow> store_wf s'"
  by (induction ds arbitrary: s) (auto simp: and_then_Inr_iff intro: store_wf_insert_domain)

lemma insert_configured_rules_wf:
  "insert_configured_rules rs s = Ok s' \<Longrightarrow> store_wf s \<Longrightarrow> store_wf s'"
  by (induction rs arbitrary: s) (auto simp: and_then_Inr_iff intro: store_wf_insert_policy)

lemma insert_configured_rules_appends:
  "insert_configured_rules rs s = Ok s' \<Longrightarrow>
     ps_cross_domain_policies s' = ps_cross_domain_policies s @ map configured_policy rs"
  by (induction rs arbitrary: s) (auto simp: and_then_Inr_iff insert_cross_domain_policy_Ok_iff)

lemma insert_configured_domains_policies:
  "insert_configured_domains ds s = Ok s' \<Longrightarrow> ps_cross_domain_policies s' = ps_cross_domain_policies s"
  by (induction ds arbitrary: s) (auto simp: and_then_Inr_iff insert_domain_Ok_iff)

lemma register_spifs_policies:
  "register_spifs ps s = Ok s' \<Longrightarrow> ps_cross_domain_policies s' = ps_cross_domain_policies s"
  by (induction ps arbitrary: s) (auto simp: and_then_Inr_iff register_spif_policy_Ok_iff)

lemma sync_all_policies:
  "sync_all ps s = Ok s' \<Longrightarrow> ps_cross_domain_policies s' = ps_cross_domain_policies s"
  by (induction ps arbitrary: s)
    (auto simp: and_then_Inr_iff sync_domain_releasability_def Let_def dest: insert_domains_keeps split: if_splits)

lemma build_policy_store_Ok:
  assumes "build_policy_store env c = Ok s"
  shows "store_wf s" and "ps_cross_domain_policies s = map configured_policy (dcs_cross_domain c)"
proof -
  have wf0: "store_wf (with_downgrade_config (dcs_downgrade c) policy_store_new)"
    using store_wf_new by (simp add: store_wf_def with_downgrade_config_def policy_wf_def store_domain_def)
  have none: "ps_cross_domain_policies (with_downgrade_config (dcs_downgrade c) policy_store_new) = []"
    by (simp add: with_downgrade_config_def policy_store_new_def)
  from assms obtain s1 s2 where s1: "insert_configured_domains (dcs_domains c)
        (with_downgrade_config (dcs_downgrade c) policy_store_new) = Ok s1"
    and s2: "insert_configured_rules (dcs_cross_domain c) s1 = Ok s2"
    and rest: "s = s2 \<or> (\<exists>reg s3. register_spifs (spif_policies reg) s2 = Ok s3 \<and> apply_spif_to_store reg s3 = Ok s)"
    by (auto simp: build_policy_store_def and_then_Inr_iff split: if_splits)
  have wf2: "store_wf s2"
    using insert_configured_rules_wf [OF s2 insert_configured_domains_wf [OF s1 wf0]] .
  have pol2: "ps_cross_domain_policies s2 = map configured_policy (dcs_cross_domain c)"
    using insert_configured_rules_appends [OF s2] insert_configured_domains_policies [OF s1] none by simp
  from rest wf2 show "store_wf s"
    by (auto simp: apply_spif_to_store_def intro: store_wf_sync_all store_wf_register_spifs)
  from rest pol2 show "ps_cross_domain_policies s = map configured_policy (dcs_cross_domain c)"
    by (auto simp: apply_spif_to_store_def dest!: sync_all_policies register_spifs_policies)
qed

lemma to_security_domain_id: "to_security_domain d = Ok sd \<Longrightarrow> sd_id sd = dc_id d"
  by (auto simp: to_security_domain_def and_then_Inr_iff model_simps Let_def)

lemma domain_by_id_id: "domain_by_id c i = Ok d \<Longrightarrow> dc_id d = i"
  by (auto simp: domain_by_id_def dest: find_SomeD)

lemma configured_policy_pair [simp]:
  "xp_source_domain (configured_policy r) = rc_source r" "xp_target_domain (configured_policy r) = rc_target r"
  by (simp_all add: configured_policy_def Let_def cross_domain_policy_new_def with_description_def split: option.split)

text \<open>
  C27: a guard that a configuration yields is usable: its policy store has referential integrity, knows
  the guard's source and target and a policy from the one to the other, and an accredited profile has
  an audit log on a write-once sink. That log is never signed, also when the configuration requires
  signed records: nothing reads this setting.
\<close>

theorem built_guard_sound:
  assumes "build_guard env c = Ok g"
  shows "store_wf (ep_store (cg_pep g)) \<and>
     policy_for_pair (ep_store (cg_pep g)) (sd_id (cg_source g)) (sd_id (cg_target g)) \<noteq> None \<and>
     store_domain (ep_store (cg_pep g)) (sd_id (cg_source g)) \<noteq> None \<and>
     store_domain (ep_store (cg_pep g)) (sd_id (cg_target g)) \<noteq> None \<and>
     cg_accredited g = is_accredited_profile c \<and>
     (is_accredited_profile c \<longrightarrow>
        (\<exists>path sink. ac_path (dcs_audit c) = Some path \<and>
           ce_open_sink env SinkWorm (resolve_relative_path env c path) = Ok sink \<and>
           ep_audit (cg_pep g) = Some (audit_log_new sink))) \<and>
     (\<forall>log. ep_audit (cg_pep g) = Some log \<longrightarrow> al_signing_key log = None)"
proof -
  from assms obtain store source target audit where prof: "validate_accredited_profile c = Ok ()"
    and store: "build_policy_store env c = Ok store" and pair: "primary_domain_pair c = Ok (source, target)"
    and audit: "build_audit_log env c = Ok audit"
    and g: "cg_source g = source" "cg_target g = target" "cg_accredited g = is_accredited_profile c"
      "ep_store (cg_pep g) = store" "ep_audit (cg_pep g) = audit"
    by (auto simp: build_guard_def and_then_Inr_iff Let_def with_accredited_def from_policy_plane_def pep_new_def
        with_audit_def split: prod.splits option.splits)
  note wf = build_policy_store_Ok [OF store]
  from pair obtain rule rules where rules: "dcs_cross_domain c = rule # rules"
    and ids: "sd_id source = rc_source rule" "sd_id target = rc_target rule"
    by (auto simp: primary_domain_pair_def and_then_Inr_iff split: list.splits
        dest!: to_security_domain_id domain_by_id_id)
  have pol: "policy_for_pair store (rc_source rule) (rc_target rule) = Some (configured_policy rule)"
    using wf(2) rules by (simp add: policy_for_pair_def)
  have dom: "store_domain store (rc_source rule) \<noteq> None" "store_domain store (rc_target rule) \<noteq> None"
    using store_wf_policy_domains [OF wf(1) pol] by auto
  have log: "\<exists>path sink. ac_path (dcs_audit c) = Some path \<and>
       ce_open_sink env SinkWorm (resolve_relative_path env c path) = Ok sink \<and> audit = Some (audit_log_new sink)"
    if "is_accredited_profile c"
    using that audit prof
    by (auto simp: build_audit_log_def validate_accredited_profile_def and_then_Inr_iff split: option.splits if_splits)
  have unsigned: "al_signing_key l = None" if "audit = Some l" for l
    using that audit by (auto simp: build_audit_log_def and_then_Inr_iff audit_log_new_def split: option.splits if_splits)
  show ?thesis
    using wf(1) pol dom log unsigned g ids by auto
qed

definition memory_config_env :: "memory_sink config_env" where
  "memory_config_env =
     \<lparr>ce_is_file = (\<lambda>_. False), ce_read_file = (\<lambda>_. Err ''no files''), ce_workspace_root = ''/w'', ce_spif_xsd = (\<lambda>_. Ok ()),
      ce_parse_spif = (\<lambda>_. Err ''unsupported''), ce_open_sink = (\<lambda>_ _. Ok [])\<rparr>"

definition accredited_config :: dcs_config where
  "accredited_config =
     conformance_high_to_low\<lparr>dcs_accredited := True,
       dcs_audit := audit_config_default\<lparr>ac_path := Some ''/audit'', ac_sink_type := SinkWorm, ac_require_signed := True\<rparr>\<rparr>"

lemma accredited_guard_built: "\<exists>g. build_guard memory_config_env accredited_config = Ok g"
proof -
  have levels: "classification_parse ''SECRET'' = Ok Secret" "classification_parse ''RESTRICTED'' = Ok Restricted"
    using classification_parse_as_str [of Secret] classification_parse_as_str [of Restricted] by simp_all
  have pair: "\<exists>s t. primary_domain_pair accredited_config = Ok (s, t)"
    by (simp add: primary_domain_pair_def accredited_config_def conformance_high_to_low_def domain_by_id_def
        to_security_domain_def levels Let_def)
  have "\<exists>s. build_policy_store memory_config_env accredited_config = Ok s"
    by (simp add: build_policy_store_def accredited_config_def conformance_high_to_low_def to_security_domain_def levels
        Let_def insert_domain_def validate_domain_id_def insert_cross_domain_policy_def configured_policy_def
        policy_store_new_def with_downgrade_config_def store_domain_def cross_domain_policy_new_def with_description_def
        model_simps im_get_def)
  moreover have "validate_accredited_profile accredited_config = Ok ()"
    by (simp add: validate_accredited_profile_def accredited_config_def audit_config_default_def)
  moreover have "build_audit_log memory_config_env accredited_config = Ok (Some (audit_log_new []))"
    by (simp add: build_audit_log_def validate_accredited_profile_def accredited_config_def audit_config_default_def
        memory_config_env_def)
  ultimately show ?thesis using pair by (auto simp: build_guard_def Let_def)
qed

theorem built_guard_sound_witness:
  "\<exists>g log. build_guard memory_config_env accredited_config = Ok g \<and> cg_accredited g \<and>
     ac_require_signed (dcs_audit accredited_config) \<and> ep_audit (cg_pep g) = Some log \<and> al_signing_key log = None"
proof -
  obtain g where g: "build_guard memory_config_env accredited_config = Ok g" using accredited_guard_built by blast
  have "is_accredited_profile accredited_config" "ac_require_signed (dcs_audit accredited_config)"
    by (simp_all add: is_accredited_profile_def accredited_config_def)
  with built_guard_sound [OF g] g show ?thesis by blast
qed

end
