(* ===== verification/Domain_Transfer.thy ===== *)
theory Domain_Transfer
  imports Guard Ztdf
begin

text \<open>
  Crate \<open>mim-dcs\<close>, \<open>transfer.rs\<close> and \<open>labeled_exchange.rs\<close>: the cross-domain transfer through the guard,
  the receipt of a sealed package on the target side behind the enforcement point, and the labelled
  exchange. A transfer threads two states: the guard with the log of its enforcement point, and the log
  that the caller passes. Stamps and entropy of one call are arguments.
\<close>

datatype transfer_outcome =
    Released (to_label_xml: string) (to_payload: string) (to_ztdf_manifest: "string option")
      (to_ztdf_package_zip: "bytes option")
  | Denied (to_reason: string)

record cross_domain_transfer =
  ct_source_domain :: domain_id
  ct_target_domain :: domain_id
  ct_label :: conf_label
  ct_payload :: string
  ct_inbound_binding :: binding_data_object
  ct_nmb_signing_key :: signing_key
  ct_nmb_verifying_key :: verifying_key
  ct_kas_signing_key :: signing_key
  ct_kas_verifying_key :: verifying_key

definition record_audit ::
  "'s audit_env \<Rightarrow> audit_record \<Rightarrow> bool \<Rightarrow> 's audit_log \<Rightarrow> (label_error + unit) \<times> 's audit_log" where
  "record_audit aenv r fail_closed log =
     (case log_record (au_crypto aenv) (au_codec aenv) (au_sink aenv) r log of
        (Inr _, log') \<Rightarrow> (Ok (), log')
      | (Inl err, log') \<Rightarrow>
          (if fail_closed then Err (LeCrossDomain (''accredited guard audit unavailable: '' @ show_audit_error err)) else Ok (),
           log'))"

text \<open>The records of a transfer.\<close>

definition transfer_digest :: "ztdf_env \<Rightarrow> cross_domain_transfer \<Rightarrow> string" where
  "transfer_digest env t = sha256_base64 (ze_crypto env) (ct_payload t)"

definition reject_record :: "ztdf_env \<Rightarrow> stamp \<Rightarrow> cross_domain_transfer \<Rightarrow> audit_record" where
  "reject_record env st t =
     with_payload_digest (transfer_digest env t) (with_domains (ct_source_domain t) (ct_target_domain t)
       (audit_record_new st EvBindingReject ''cross-domain-guard'' (ct_label t) ''mandatory-assertion-binding'' ''deny''
          ''embedded-only bindings rejected at cross-domain boundary''))"

definition evaluate_record :: "ztdf_env \<Rightarrow> stamp \<Rightarrow> cross_domain_transfer \<Rightarrow> audit_record" where
  "evaluate_record env st t =
     with_payload_digest (transfer_digest env t) (with_domains (ct_source_domain t) (ct_target_domain t)
       (audit_record_new st EvCrossDomainEvaluate ''cross-domain-guard'' (ct_label t) ''pre-guard-binding-verified'' ''evaluate''
          ''inbound NMBS assertion binding verified''))"

fun guard_decision_name :: "guard_decision \<Rightarrow> string" where
  "guard_decision_name GuardAllow = ''allow''"
| "guard_decision_name GuardDowngrade = ''downgrade''"
| "guard_decision_name GuardDeny = ''deny''"

definition release_record :: "ztdf_env \<Rightarrow> stamp \<Rightarrow> cross_domain_transfer \<Rightarrow> guard_result \<Rightarrow> conf_label \<Rightarrow> audit_record" where
  "release_record env st t result effective =
     with_payload_digest (transfer_digest env t) (with_effective_label effective
       (with_domains (ct_source_domain t) (ct_target_domain t)
         (audit_record_new st EvCrossDomainTransfer ''cross-domain-guard'' (ct_label t) (gr_reason result)
            (guard_decision_name (gr_decision result)) ''cross-domain transfer released'')))"

definition denial_record :: "stamp \<Rightarrow> cross_domain_transfer \<Rightarrow> guard_result \<Rightarrow> audit_record" where
  "denial_record st t result =
     with_domains (ct_source_domain t) (ct_target_domain t)
       (audit_record_new st EvCrossDomainTransfer ''cross-domain-guard'' (ct_label t) (gr_reason result) ''deny''
          ''cross-domain transfer denied by guard'')"

text \<open>What an approved transfer builds before it is recorded: the label text and the package.\<close>

definition build_release ::
  "ztdf_env \<Rightarrow> ztdf_entropy \<Rightarrow> cross_domain_transfer \<Rightarrow> guard_result \<Rightarrow> label_error + conf_label \<times> string \<times> ztdf_package" where
  "build_release env rnd t result =
     and_then (ok_or (LeCrossDomain ''guard approved transfer but no effective label'') (gr_effective_label result)) (\<lambda>effective.
     and_then (codec_serialize (ze_codec env) effective Xml) (\<lambda>label_xml.
     and_then (assertion_bound (ze_codec env) (ze_crypto env) effective (ct_payload t) (ct_nmb_signing_key t)) (\<lambda>outbound.
     and_then (bdo_verify (ze_codec env) (ze_crypto env) (ze_files env) outbound (ct_payload t)
                (Some (ct_nmb_verifying_key t))) (\<lambda>_.
     and_then (package_create env rnd effective (ct_payload t) (ct_nmb_signing_key t) (ct_nmb_verifying_key t)
                (ct_kas_verifying_key t)) (\<lambda>ztdf.
     and_then (verify_release env ztdf (ct_nmb_verifying_key t) (ct_payload t)) (\<lambda>_.
       Ok (effective, label_xml, ztdf)))))))"

definition released_outcome :: "ztdf_env \<Rightarrow> cross_domain_transfer \<Rightarrow> string \<Rightarrow> ztdf_package \<Rightarrow> label_error + transfer_outcome" where
  "released_outcome env t label_xml ztdf =
     and_then (package_manifest_json env ztdf) (\<lambda>manifest.
     and_then (to_zip_bytes env ztdf) (\<lambda>archive.
       Ok (Released label_xml (ct_payload t) (Some manifest) (Some archive))))"

definition conclude ::
  "ztdf_env \<Rightarrow> ztdf_entropy \<Rightarrow> 't audit_env \<Rightarrow> stamp \<Rightarrow> bool \<Rightarrow> cross_domain_transfer \<Rightarrow> guard_result \<Rightarrow> 't audit_log \<Rightarrow>
     (label_error + transfer_outcome) \<times> 't audit_log" where
  "conclude env rnd aenv st fail_closed t result log =
     (if gr_decision result = GuardDeny then
        (case record_audit aenv (denial_record st t result) fail_closed log of
           (Inl e, log') \<Rightarrow> (Err e, log')
         | (Inr _, log') \<Rightarrow> (Ok (Denied (gr_reason result)), log'))
      else
        (case build_release env rnd t result of
           Inl e \<Rightarrow> (Err e, log)
         | Inr (effective, label_xml, ztdf) \<Rightarrow>
             (case record_audit aenv (release_record env st t result effective) fail_closed log of
                (Inl e, log') \<Rightarrow> (Err e, log')
              | (Inr _, log') \<Rightarrow> (released_outcome env t label_xml ztdf, log'))))"

text \<open>\<open>CrossDomainTransfer::execute\<close>: stamps 0 and 2 are those of the caller's log, 1 that of the decision.\<close>

definition execute ::
  "ztdf_env \<Rightarrow> ztdf_entropy \<Rightarrow> 's audit_env \<Rightarrow> 't audit_env \<Rightarrow> (nat \<Rightarrow> stamp) \<Rightarrow> cross_domain_transfer \<Rightarrow>
     's cross_domain_guard \<Rightarrow> 't audit_log \<Rightarrow>
     (label_error + transfer_outcome) \<times> 's cross_domain_guard \<times> 't audit_log" where
  "execute env rnd genv aenv st t g log =
     (case validate_domain_pair (ct_source_domain t) (ct_target_domain t) of
        Inl e \<Rightarrow> (Err e, g, log)
      | Inr _ \<Rightarrow>
          if mb_method (bd_binding (ct_inbound_binding t)) \<noteq> Assertion then
            (case record_audit aenv (reject_record env (st 0) t) (cg_accredited g) log of
               (Inl e, log') \<Rightarrow> (Err e, g, log')
             | (Inr _, log') \<Rightarrow>
                 (Err (LeCrossDomain ''cross-domain transfer requires STANAG 4778 assertion binding''), g, log'))
          else
            (case bdo_verify (ze_codec env) (ze_crypto env) (ze_files env) (ct_inbound_binding t) (ct_payload t)
                    (Some (ct_nmb_verifying_key t)) of
               Inl e \<Rightarrow> (Err e, g, log)
             | Inr _ \<Rightarrow>
                 (case record_audit aenv (evaluate_record env (st 0) t) (cg_accredited g) log of
                    (Inl e, log1) \<Rightarrow> (Err e, g, log1)
                  | (Inr _, log1) \<Rightarrow>
                      (case guard_evaluate genv (st 1) (ct_label t) g of
                         (Inl e, g') \<Rightarrow> (Err e, g', log1)
                       | (Inr result, g') \<Rightarrow>
                           (case conclude env rnd aenv (st 2) (cg_accredited g) t result log1 of
                              (out, log2) \<Rightarrow> (out, g', log2))))))"

definition transfer_guard_result ::
  "'s audit_env \<Rightarrow> stamp \<Rightarrow> cross_domain_transfer \<Rightarrow> 's cross_domain_guard \<Rightarrow> (label_error + guard_result) \<times> 's cross_domain_guard" where
  "transfer_guard_result genv st t g = guard_evaluate genv st (ct_label t) g"

section \<open>Receiving a package on the target side\<close>

definition receive_evaluate_record :: "stamp \<Rightarrow> subject_attributes \<Rightarrow> 's cross_domain_guard \<Rightarrow> conf_label \<Rightarrow> audit_record" where
  "receive_evaluate_record st subject g l =
     with_domains (sd_id (cg_source g)) (sd_id (cg_target g))
       (audit_record_new st EvCrossDomainEvaluate (su_subject_id subject) l ''ztdf-decrypt-pep'' ''evaluate''
          ''target-side ZTDF decrypt PEP evaluation'')"

definition receive_transfer_record ::
  "ztdf_env \<Rightarrow> stamp \<Rightarrow> subject_attributes \<Rightarrow> 's cross_domain_guard \<Rightarrow> conf_label \<Rightarrow> bytes \<Rightarrow> audit_record" where
  "receive_transfer_record env st subject g l plaintext =
     with_payload_digest (sha256_base64 (ze_crypto env) plaintext)
       (with_domains (sd_id (cg_source g)) (sd_id (cg_target g))
         (audit_record_new st EvCrossDomainTransfer (su_subject_id subject) l ''ztdf-decrypt-pep'' ''allow''
            ''target-side ZTDF decrypted through PEP gate''))"

definition receive_ztdf_on_target ::
  "ztdf_env \<Rightarrow> 's audit_env \<Rightarrow> 't audit_env \<Rightarrow> (nat \<Rightarrow> stamp) \<Rightarrow> subject_attributes \<Rightarrow> bytes \<Rightarrow> verifying_key \<Rightarrow> kas_client \<Rightarrow>
     's cross_domain_guard \<Rightarrow> 't audit_log \<Rightarrow> (label_error + string) \<times> 's cross_domain_guard \<times> 't audit_log" where
  "receive_ztdf_on_target env genv aenv st subject archive k kas g log =
     (case and_then (from_zip_sealed env archive) (\<lambda>p. and_then (package_label env p) (\<lambda>l. Ok (p, l))) of
        Inl e \<Rightarrow> (Err e, g, log)
      | Inr (p, l) \<Rightarrow>
          (case record_audit aenv (receive_evaluate_record (st 0) subject g l) (cg_accredited g) log of
             (Inl e, log1) \<Rightarrow> (Err e, g, log1)
           | (Inr _, log1) \<Rightarrow>
               (case decrypt_with_policy env genv (st 1) p subject (cg_target g) kas (cg_pep g) of
                  (Inl e, pep) \<Rightarrow> (Err e, g\<lparr>cg_pep := pep\<rparr>, log1)
                | (Inr plaintext, pep) \<Rightarrow>
                    (case verify_binding_plaintext env p plaintext k of
                       Inl e \<Rightarrow> (Err e, g\<lparr>cg_pep := pep\<rparr>, log1)
                     | Inr _ \<Rightarrow>
                         (case record_audit aenv (receive_transfer_record env (st 2) subject g l plaintext) (cg_accredited g) log1 of
                            (Inl e, log2) \<Rightarrow> (Err e, g\<lparr>cg_pep := pep\<rparr>, log2)
                          | (Inr _, log2) \<Rightarrow>
                              (map_err LeCrossDomain (from_utf8 plaintext), g\<lparr>cg_pep := pep\<rparr>, log2))))))"

definition receive_ztdf_on_target_with_key ::
  "ztdf_env \<Rightarrow> 's audit_env \<Rightarrow> 't audit_env \<Rightarrow> (nat \<Rightarrow> stamp) \<Rightarrow> subject_attributes \<Rightarrow> bytes \<Rightarrow> verifying_key \<Rightarrow> signing_key \<Rightarrow>
     's cross_domain_guard \<Rightarrow> 't audit_log \<Rightarrow> (label_error + string) \<times> 's cross_domain_guard \<times> 't audit_log" where
  "receive_ztdf_on_target_with_key env genv aenv st subject archive k kas_signing g log =
     receive_ztdf_on_target env genv aenv st subject archive k (local_kas env kas_signing) g log"

section \<open>Labelled exchanges (\<open>labeled_exchange.rs\<close>)\<close>

record labeled_mim_exchange =
  lme_label :: conf_label
  lme_label_xml :: string
  lme_mim_json :: string
  lme_binding :: "string option"
  lme_ztdf_manifest :: "string option"

text \<open>The serialised store and the printer of data objects are arguments.\<close>

definition exchange_build ::
  "ztdf_env \<Rightarrow> ztdf_entropy \<Rightarrow> (binding_data_object \<Rightarrow> string + string) \<Rightarrow> mim_error + string \<Rightarrow> conf_label \<Rightarrow> signing_key \<Rightarrow>
     verifying_key \<Rightarrow> verifying_key \<Rightarrow> bool \<Rightarrow> label_error + labeled_mim_exchange" where
  "exchange_build env rnd print_bdo serialized l sk vk kas_public include_ztdf =
     and_then (validate_conf_label l) (\<lambda>_.
     and_then (map_err (\<lambda>e. LeSerialization (show_mim_error e)) serialized) (\<lambda>mim_json.
     and_then (codec_serialize (ze_codec env) l Xml) (\<lambda>label_xml.
     and_then (assertion_bound (ze_codec env) (ze_crypto env) l mim_json sk) (\<lambda>b.
     and_then (bdo_verify (ze_codec env) (ze_crypto env) (ze_files env) b mim_json (Some vk)) (\<lambda>_.
     and_then (map_err LeSerialization (print_bdo b)) (\<lambda>binding.
     and_then
       (if include_ztdf then
          and_then (package_create env rnd l mim_json sk vk kas_public) (\<lambda>p.
            and_then (package_manifest_json env p) (\<lambda>m. Ok (Some m)))
        else Ok None) (\<lambda>ztdf_manifest.
       Ok \<lparr>lme_label = l, lme_label_xml = label_xml, lme_mim_json = mim_json, lme_binding = Some binding,
           lme_ztdf_manifest = ztdf_manifest\<rparr>)))))))"

section \<open>What a release guarantees\<close>

definition logged :: "'s audit_log \<Rightarrow> audit_record list" where
  "logged log = map ae_record (al_envelopes log)"

text \<open>A fail-closed step that goes on has its record in the log.\<close>

lemma record_audit_closed:
  assumes "record_audit aenv r True log = (Ok u, log')"
  shows "logged log' = logged log @ [r]"
proof -
  from assms have "log_record (au_crypto aenv) (au_codec aenv) (au_sink aenv) r log = (Ok (), log')"
    by (auto simp: record_audit_def split: prod.splits sum.splits)
  then show ?thesis
    by (cases rule: log_record_cases) (auto simp: logged_def dest: make_envelope_fields)
qed

lemma record_audit_twice:
  assumes "record_audit aenv a closed log = (Ok (), log1)" and "record_audit aenv b closed log1 = (Ok (), log2)" and closed
  shows "logged log2 = logged log @ [a, b]"
proof -
  from assms(3) have "closed = True" by simp
  with assms(1,2) show ?thesis using record_audit_closed [of aenv] by fastforce
qed

lemma record_audit_open: "fst (record_audit aenv r False log) = Ok ()"
  by (simp add: record_audit_def split: prod.split sum.split)

lemma validate_domain_pair_Ok_iff:
  "validate_domain_pair a b = Ok () \<longleftrightarrow>
     validate_domain_id a = Ok () \<and> validate_domain_id b = Ok () \<and> a \<noteq> b"
  by (auto simp: validate_domain_pair_def and_then_Inr_iff)

lemma execute_Released:
  assumes "execute env rnd genv aenv st t g log = (Ok (Released xml p man z), g', log')"
  obtains log1 result e ztdf m zb where
    "validate_domain_pair (ct_source_domain t) (ct_target_domain t) = Ok ()"
    and "mb_method (bd_binding (ct_inbound_binding t)) = Assertion"
    and "bdo_verify (ze_codec env) (ze_crypto env) (ze_files env) (ct_inbound_binding t) (ct_payload t)
           (Some (ct_nmb_verifying_key t)) = Ok ()"
    and "record_audit aenv (evaluate_record env (st 0) t) (cg_accredited g) log = (Ok (), log1)"
    and "guard_evaluate genv (st 1) (ct_label t) g = (Ok result, g')" and "gr_decision result \<noteq> GuardDeny"
    and "build_release env rnd t result = Ok (e, xml, ztdf)"
    and "record_audit aenv (release_record env (st 2) t result e) (cg_accredited g) log1 = (Ok (), log')"
    and "p = ct_payload t" and "man = Some m" and "z = Some zb" and "to_zip_bytes env ztdf = Ok zb"
  using assms
  by (auto simp: execute_def conclude_def released_outcome_def and_then_Inr_iff
      split: prod.splits sum.splits if_splits)

lemma build_release_Ok:
  assumes "build_release env rnd t result = Ok (e, xml, ztdf)"
  shows "gr_effective_label result = Some e" and "codec_serialize (ze_codec env) e Xml = Ok xml"
    and "label_accepted e"
    and "package_create env rnd e (ct_payload t) (ct_nmb_signing_key t) (ct_nmb_verifying_key t) (ct_kas_verifying_key t) = Ok ztdf"
  using assms by (auto simp: build_release_def and_then_Inr_iff assertion_bound_def assertion_create_Ok_iff)

lemma bdo_verify_assertion:
  "bdo_verify lx cp rf b p (Some k) = Ok () \<Longrightarrow> mb_method (bd_binding b) = Assertion \<Longrightarrow>
     \<exists>a. bd_assertion b = Some a \<and> assertion_verify lx cp a p k = Ok ()"
  by (auto simp: bdo_verify_def verify_with_resolver_Ok_iff)

text \<open>
  C6: nothing leaves through the guard unless all of these hold: the two domains of the request differ,
  the inbound binding is an assertion that verifies for the payload, the guard's policy approves the
  claimed label, and the label that goes out is fit for the target (its minimum with the target's
  maximum, categories unchanged, every country accepted, no restrictive category). The payload goes out
  as it came in, inside a package created for that label; through an accredited guard the log has grown
  by exactly the evaluation and the release, the latter with the released label and the payload digest.
\<close>

theorem released_only_when_approved:
  assumes "execute env rnd genv aenv st t g log = (Ok (Released xml p man z), g', log')"
  shows "ct_source_domain t \<noteq> ct_target_domain t \<and> p = ct_payload t \<and>
     (\<exists>a. bd_assertion (ct_inbound_binding t) = Some a \<and>
        assertion_verify (ze_codec env) (ze_crypto env) a (ct_payload t) (ct_nmb_verifying_key t) = Ok ()) \<and>
     (\<exists>e pkg zb. fit_for_target g (ct_label t) e \<and> label_accepted e \<and>
        codec_serialize (ze_codec env) e Xml = Ok xml \<and>
        package_create env rnd e (ct_payload t) (ct_nmb_signing_key t) (ct_nmb_verifying_key t) (ct_kas_verifying_key t) = Ok pkg \<and>
        z = Some zb \<and> to_zip_bytes env pkg = Ok zb \<and>
        (cg_accredited g \<longrightarrow> (\<exists>r1 r2. logged log' = logged log @ [r1, r2] \<and>
           ar_event_kind r1 = EvCrossDomainEvaluate \<and> ar_original_label r1 = ct_label t \<and>
           ar_event_kind r2 = EvCrossDomainTransfer \<and> ar_decision r2 \<in> {''allow'', ''downgrade''} \<and>
           ar_effective_label r2 = Some e \<and> ar_payload_digest r2 = Some (sha256_base64 (ze_crypto env) (ct_payload t)))))"
proof (rule execute_Released [OF assms])
  fix log1 result e ztdf m zb
  assume pair: "validate_domain_pair (ct_source_domain t) (ct_target_domain t) = Ok ()"
    and meth: "mb_method (bd_binding (ct_inbound_binding t)) = Assertion"
    and ver: "bdo_verify (ze_codec env) (ze_crypto env) (ze_files env) (ct_inbound_binding t) (ct_payload t)
           (Some (ct_nmb_verifying_key t)) = Ok ()"
    and r1: "record_audit aenv (evaluate_record env (st 0) t) (cg_accredited g) log = (Ok (), log1)"
    and guard: "guard_evaluate genv (st 1) (ct_label t) g = (Ok result, g')" "gr_decision result \<noteq> GuardDeny"
    and rel: "build_release env rnd t result = Ok (e, xml, ztdf)"
    and r2: "record_audit aenv (release_record env (st 2) t result e) (cg_accredited g) log1 = (Ok (), log')"
    and out: "p = ct_payload t" "z = Some zb" "to_zip_bytes env ztdf = Ok zb"
  note built = build_release_Ok [OF rel]
  have fit: "fit_for_target g (ct_label t) e"
    using guard_approval_fits [OF guard] built(1) by simp
  have name: "guard_decision_name (gr_decision result) \<in> {''allow'', ''downgrade''}"
    using guard(2) by (cases "gr_decision result") simp_all
  have logs: "logged log' = logged log @ [evaluate_record env (st 0) t, release_record env (st 2) t result e]"
    if "cg_accredited g"
    using record_audit_twice [OF r1 r2 that] .
  have fields: "ar_event_kind (evaluate_record env s t) = EvCrossDomainEvaluate"
    "ar_original_label (evaluate_record env s t) = ct_label t"
    "ar_event_kind (release_record env s t result e) = EvCrossDomainTransfer"
    "ar_decision (release_record env s t result e) = guard_decision_name (gr_decision result)"
    "ar_effective_label (release_record env s t result e) = Some e"
    "ar_payload_digest (release_record env s t result e) = Some (sha256_base64 (ze_crypto env) (ct_payload t))" for s
    by (simp_all add: evaluate_record_def release_record_def transfer_digest_def with_payload_digest_def with_domains_def
        with_effective_label_def audit_record_new_def)
  have inner: "cg_accredited g \<longrightarrow> (\<exists>r1 r2. logged log' = logged log @ [r1, r2] \<and>
           ar_event_kind r1 = EvCrossDomainEvaluate \<and> ar_original_label r1 = ct_label t \<and>
           ar_event_kind r2 = EvCrossDomainTransfer \<and> ar_decision r2 \<in> {''allow'', ''downgrade''} \<and>
           ar_effective_label r2 = Some e \<and> ar_payload_digest r2 = Some (sha256_base64 (ze_crypto env) (ct_payload t)))"
    using logs name
    by (intro impI exI [of _ "evaluate_record env (st 0) t"] exI [of _ "release_record env (st 2) t result e"])
      (simp add: fields)
  show ?thesis
    using pair out bdo_verify_assertion [OF ver meth] fit built(2-4) inner
    unfolding validate_domain_pair_Ok_iff by blast
qed

text \<open>The outcome of a transfer when the log cannot stop it.\<close>

definition open_outcome ::
  "ztdf_env \<Rightarrow> ztdf_entropy \<Rightarrow> cross_domain_transfer \<Rightarrow> guard_result \<Rightarrow> label_error + transfer_outcome" where
  "open_outcome env rnd t r =
     (if gr_decision r = GuardDeny then Ok (Denied (gr_reason r))
      else and_then (build_release env rnd t r) (\<lambda>x. released_outcome env t (fst (snd x)) (snd (snd x))))"

lemma record_audit_goes_on: "\<exists>log'. record_audit aenv r False log = (Ok (), log')"
  using record_audit_open [of aenv r log] by (cases "record_audit aenv r False log") simp

lemma conclude_open: "fst (conclude env rnd aenv s False t r log) = open_outcome env rnd t r"
proof (cases "gr_decision r = GuardDeny")
  case True
  then show ?thesis
    using record_audit_goes_on [of aenv "denial_record s t r" log] by (auto simp: conclude_def open_outcome_def)
next
  case False
  show ?thesis
  proof (cases "build_release env rnd t r")
    case (Inr y)
    obtain e xml ztdf where y: "y = (e, xml, ztdf)" by (cases y)
    show ?thesis
      using record_audit_goes_on [of aenv "release_record env s t r e" log] False Inr y
      by (auto simp: conclude_def open_outcome_def)
  qed (use False in \<open>simp add: conclude_def open_outcome_def\<close>)
qed

lemma execute_open:
  assumes "\<not> cg_accredited g"
  shows "fst (execute env rnd genv aenv st t g log) =
     and_then (validate_domain_pair (ct_source_domain t) (ct_target_domain t)) (\<lambda>_.
       if mb_method (bd_binding (ct_inbound_binding t)) \<noteq> Assertion then
         Err (LeCrossDomain ''cross-domain transfer requires STANAG 4778 assertion binding'')
       else and_then (bdo_verify (ze_codec env) (ze_crypto env) (ze_files env) (ct_inbound_binding t) (ct_payload t)
                        (Some (ct_nmb_verifying_key t))) (\<lambda>_.
            and_then (fst (guard_evaluate genv (st 1) (ct_label t) g)) (open_outcome env rnd t)))"
proof -
  have acc: "cg_accredited g = False" using assms by simp
  obtain l0 where l0: "record_audit aenv (reject_record env (st 0) t) (cg_accredited g) log = (Ok (), l0)"
    using record_audit_goes_on acc by metis
  obtain l1 where l1: "record_audit aenv (evaluate_record env (st 0) t) (cg_accredited g) log = (Ok (), l1)"
    using record_audit_goes_on acc by metis
  have guard: "fst (case guard_evaluate genv (st 1) (ct_label t) g of (Inl e, g') \<Rightarrow> (Err e, g', l1)
        | (Inr r, g') \<Rightarrow> (case conclude env rnd aenv (st 2) (cg_accredited g) t r l1 of (out, l2) \<Rightarrow> (out, g', l2))) =
      and_then (fst (guard_evaluate genv (st 1) (ct_label t) g)) (open_outcome env rnd t)"
    using conclude_open [of env rnd aenv "st 2" t _ l1]
    unfolding acc by (auto split: prod.split sum.split) (metis fst_conv)
  show ?thesis
    using l0 l1 guard
    by (cases "validate_domain_pair (ct_source_domain t) (ct_target_domain t)";
        cases "bdo_verify (ze_codec env) (ze_crypto env) (ze_files env) (ct_inbound_binding t) (ct_payload t)
                        (Some (ct_nmb_verifying_key t))")
      (simp_all add: execute_def)
qed

text \<open>
  C21: the guard decides on the label and between the domains that the request claims. The labels inside
  the inbound binding, the signed one included, play no part once the binding verifies: two transfers
  that differ only in their assertion bindings, both verified, run alike. And unless the guard is
  accredited the domains of the request play no part once they are a pair of distinct identifiers: they
  are only recorded, while the decision is between the guard's own domains.
\<close>

theorem transfer_decides_on_the_claim:
  assumes "mb_method (bd_binding b) = Assertion" and "mb_method (bd_binding b') = Assertion"
    and "bdo_verify (ze_codec env) (ze_crypto env) (ze_files env) b (ct_payload t) (Some (ct_nmb_verifying_key t)) = Ok ()"
    and "bdo_verify (ze_codec env) (ze_crypto env) (ze_files env) b' (ct_payload t) (Some (ct_nmb_verifying_key t)) = Ok ()"
  shows "execute env rnd genv aenv st (t\<lparr>ct_inbound_binding := b\<rparr>) g log =
       execute env rnd genv aenv st (t\<lparr>ct_inbound_binding := b'\<rparr>) g log \<and>
     (\<forall>src tgt. \<not> cg_accredited g \<and> validate_domain_pair (ct_source_domain t) (ct_target_domain t) = Ok () \<and>
        validate_domain_pair src tgt = Ok () \<longrightarrow>
        fst (execute env rnd genv aenv st (t\<lparr>ct_inbound_binding := b, ct_source_domain := src, ct_target_domain := tgt\<rparr>) g log) =
        fst (execute env rnd genv aenv st (t\<lparr>ct_inbound_binding := b\<rparr>) g log))"
proof (intro conjI allI impI)
  have same: "build_release env rnd (t\<lparr>ct_inbound_binding := x\<rparr>) r = build_release env rnd t r"
    "released_outcome env (t\<lparr>ct_inbound_binding := x\<rparr>) xml ztdf = released_outcome env t xml ztdf"
    "release_record env s (t\<lparr>ct_inbound_binding := x\<rparr>) r e = release_record env s t r e"
    "denial_record s (t\<lparr>ct_inbound_binding := x\<rparr>) r = denial_record s t r"
    "evaluate_record env s (t\<lparr>ct_inbound_binding := x\<rparr>) = evaluate_record env s t" for x r xml ztdf s e
    by (simp_all add: build_release_def released_outcome_def release_record_def denial_record_def evaluate_record_def
        transfer_digest_def)
  have "conclude env rnd aenv s fc (t\<lparr>ct_inbound_binding := x\<rparr>) r l = conclude env rnd aenv s fc t r l" for x s fc r l
    by (simp add: conclude_def same split: sum.split prod.split)
  then show "execute env rnd genv aenv st (t\<lparr>ct_inbound_binding := b\<rparr>) g log =
       execute env rnd genv aenv st (t\<lparr>ct_inbound_binding := b'\<rparr>) g log"
    using assms by (simp add: execute_def same cong: sum.case_cong)
  fix src tgt
  assume pairs: "\<not> cg_accredited g \<and> validate_domain_pair (ct_source_domain t) (ct_target_domain t) = Ok () \<and>
        validate_domain_pair src tgt = Ok ()"
  let ?u = "t\<lparr>ct_inbound_binding := b, ct_source_domain := src, ct_target_domain := tgt\<rparr>"
  have "open_outcome env rnd ?u = open_outcome env rnd (t\<lparr>ct_inbound_binding := b\<rparr>)"
    by (rule ext) (simp add: open_outcome_def build_release_def released_outcome_def)
  then show "fst (execute env rnd genv aenv st ?u g log) =
      fst (execute env rnd genv aenv st (t\<lparr>ct_inbound_binding := b\<rparr>) g log)"
    using pairs by (simp add: execute_open)
qed

text \<open>
  C7: what is received on the target side was permitted on the label that the manifest states: the
  subject is cleared for that label and holds its restrictive values, the label is within the maximum of
  the guard's target domain, the text is what the key access server's key decrypts and the signature
  covers its digest; with an accredited guard the log has grown by the evaluation and the receipt.
\<close>

theorem received_only_when_permitted:
  assumes "receive_ztdf_on_target env genv aenv st subject z k kas g log = (Ok text, g', log')"
  shows "\<exists>pkg l. from_zip_sealed env z = Ok pkg \<and> package_label env pkg = Ok l \<and>
     cf_classification l \<le> su_clearance subject \<and> (\<forall>c \<in> set (restrictive_category_values l). holds_caveat subject c) \<and>
     (\<exists>d. store_domain (ep_store (cg_pep g)) (sd_id (cg_target g)) = Some d \<and> cf_classification l \<le> sd_max_classification d \<and>
        (\<forall>c \<in> set (releasable_countries l). accepts_country d c)) \<and>
     decrypt_with_kas env pkg kas = Ok text \<and> verify_binding_plaintext env pkg text k = Ok () \<and>
     (cg_accredited g \<longrightarrow> (\<exists>r1 r2. logged log' = logged log @ [r1, r2] \<and>
        ar_subject_id r1 = su_subject_id subject \<and> ar_decision r1 = ''evaluate'' \<and>
        ar_subject_id r2 = su_subject_id subject \<and> ar_decision r2 = ''allow'' \<and> ar_original_label r2 = l))"
proof -
  from assms obtain pkg l log1 pep where pkg: "from_zip_sealed env z = Ok pkg" "package_label env pkg = Ok l"
    and r1: "record_audit aenv (receive_evaluate_record (st 0) subject g l) (cg_accredited g) log = (Ok (), log1)"
    and dec: "decrypt_with_policy env genv (st 1) pkg subject (cg_target g) kas (cg_pep g) = (Ok text, pep)"
    and ver: "verify_binding_plaintext env pkg text k = Ok ()"
    and r2: "record_audit aenv (receive_transfer_record env (st 2) subject g l text) (cg_accredited g) log1 = (Ok (), log')"
    by (auto simp: receive_ztdf_on_target_def and_then_Inr_iff split: prod.splits sum.splits dest!: from_utf8_Ok)
  from dec pkg(2) obtain dn pep' where enf: "pep_enforce_access genv (st 1) subject l OpRead (cg_target g) (cg_pep g) = (Ok dn, pep')"
    and plain: "decrypt_with_kas env pkg kas = Ok text"
    by (auto simp: decrypt_with_policy_def split: prod.splits sum.splits)
  obtain ctx where c: "access_context subject l OpRead (cg_target g) = Ok ctx"
    and ev: "evaluate (ep_store (cg_pep g)) ctx = Ok dn" and nd: "pd_effect dn \<noteq> Deny"
    using pep_enforce_access_Ok [OF enf] by blast
  have "OpRead \<noteq> OpCrossDomainTransfer" by simp
  note dom = permitted_dominated [OF c ev this nd]
  have logs: "logged log' = logged log @ [receive_evaluate_record (st 0) subject g l, receive_transfer_record env (st 2) subject g l text]"
    if "cg_accredited g"
    using record_audit_twice [OF r1 r2 that] .
  have fields: "ar_subject_id (receive_evaluate_record s subject g l) = su_subject_id subject"
    "ar_decision (receive_evaluate_record s subject g l) = ''evaluate''"
    "ar_subject_id (receive_transfer_record env s subject g l p) = su_subject_id subject"
    "ar_decision (receive_transfer_record env s subject g l p) = ''allow''"
    "ar_original_label (receive_transfer_record env s subject g l p) = l" for s p
    by (simp_all add: receive_evaluate_record_def receive_transfer_record_def with_payload_digest_def with_domains_def
        audit_record_new_def)
  have inner: "cg_accredited g \<longrightarrow> (\<exists>r1 r2. logged log' = logged log @ [r1, r2] \<and>
        ar_subject_id r1 = su_subject_id subject \<and> ar_decision r1 = ''evaluate'' \<and>
        ar_subject_id r2 = su_subject_id subject \<and> ar_decision r2 = ''allow'' \<and> ar_original_label r2 = l)"
    using logs fields by blast
  show ?thesis using pkg dom plain ver inner by blast
qed

section \<open>A sample transfer\<close>

definition toy_guard :: "memory_sink cross_domain_guard" where
  "toy_guard = with_accredited True guard_preset_coalition"

definition toy_aenv :: "memory_sink audit_env" where
  "toy_aenv = \<lparr>au_crypto = toy_provider, au_codec = toy_codec, au_sink = memory_sink_ops\<rparr>"

definition memory_log :: "memory_sink audit_log \<Rightarrow> bool" where
  "memory_log log \<longleftrightarrow> al_signing_key log = None"

lemma toy_record_goes_on:
  "memory_log log \<Longrightarrow> \<exists>log'. record_audit toy_aenv r closed log = (Ok (), log') \<and> memory_log log'"
  by (simp add: record_audit_def log_record_def toy_aenv_def memory_sink_ops_def memory_append_record_def
      default_append_envelope_def make_envelope_def memory_log_def Let_def)

lemma coalition_domains:
  "store_domain preset_coalition i =
     (if i = ''DOMAIN-PARTNER'' then Some (cg_target toy_guard)
      else if i = ''DOMAIN-NATO'' then Some (cg_source toy_guard) else None)"
  "ps_cross_domain_policies preset_coalition = [cross_domain_policy_new ''nato-to-partner'' ''DOMAIN-NATO'' ''DOMAIN-PARTNER'']"
  by (simp_all add: preset_coalition_def ignore_err_def insert_domain_def insert_cross_domain_policy_def
        validate_domain_id_def policy_store_new_def store_domain_def cross_domain_policy_new_def
        with_description_def model_simps im_get_def toy_guard_def with_accredited_def guard_preset_coalition_def from_policy_plane_def)

lemma secret_markings:
  "releasable_countries ztdf_secret = [''USA'']" "restrictive_category_values ztdf_secret = []"
  "cf_classification ztdf_secret = Secret"
  by (simp_all add: ztdf_secret_def releasable_countries_def restrictive_category_values_def)

lemma coalition_guard:
  "sd_id (cg_source toy_guard) = ''DOMAIN-NATO''" "sd_id (cg_target toy_guard) = ''DOMAIN-PARTNER''"
  "ep_store (cg_pep toy_guard) = preset_coalition" "ep_audit (cg_pep toy_guard) = None" "cg_accredited toy_guard"
  "sd_mission_compartments (cg_source toy_guard) = []"
  "sd_mission_compartments (cg_target toy_guard) = []"
  "sd_max_classification (cg_target toy_guard) = Secret"
  "accepts_country (cg_target toy_guard) ''USA''"
  by (simp_all add: toy_guard_def with_accredited_def guard_preset_coalition_def from_policy_plane_def pep_new_def model_simps
      accepts_country_def spif_eval)

lemma toy_guard_allows:
  "\<exists>r. guard_evaluate genv st ztdf_secret toy_guard = (Ok r, toy_guard) \<and> gr_decision r = GuardAllow \<and>
     gr_effective_label r = Some ztdf_secret"
proof -
  have "\<exists>ctx dn. cross_domain_context (guard_subject ztdf_secret) ztdf_secret (cg_source toy_guard) (cg_target toy_guard) None = Ok ctx \<and>
      evaluate preset_coalition ctx = Ok dn \<and> pd_effect dn = Permit \<and> pd_effective_label dn = Some ztdf_secret"
    using ztdf_samples_valid(1)
    by (simp add: cross_domain_context_Ok_iff coalition_guard evaluate_def env_cross_domain_def evaluate_cross_domain_def
        policy_for_pair_def coalition_domains cross_domain_policy_new_def with_description_def
        require_domain_def resource_from_label_def secret_markings check_handling_caveats_def
        check_mission_compartment_def check_releasability_def Let_def)
  then show ?thesis
    by (auto simp: guard_evaluate_def guard_evaluate_with_subject_def pep_evaluate_cross_domain_def pep_evaluate_transfer_def
        coalition_guard record_cross_domain_audit_def append_audit_def map_decision_def)
qed

definition toy_inbound :: binding_data_object where
  "toy_inbound =
     \<lparr>bd_binding = assertion_ztdf, bd_label = ztdf_secret, bd_label_encoding = ''<xml>'', bd_payload_digest = ''x'',
      bd_assertion = Some (toy_assertion\<lparr>ab_label := ztdf_secret\<rparr>)\<rparr>"

lemma toy_inbound_created:
  "assertion_bound toy_label_codec toy_provider ztdf_secret ''x'' (kp_signing toy_keys) = Ok toy_inbound"
proof -
  have "assertion_create toy_label_codec toy_provider ztdf_secret ''x'' (kp_signing toy_keys) =
      Ok (toy_assertion\<lparr>ab_label := ztdf_secret\<rparr>)"
    using ztdf_samples_accepted(1) toy_serialize(1)
    by (simp add: assertion_create_Ok_iff sign_binding_Ok_iff sign_nmb_binding_def nmb_message_def toy_provider_def
        toy_keys_def sha256_base64_def toy_assertion_def)
  then show ?thesis
    using ztdf_samples_valid(1) toy_serialize(1) by (simp add: assertion_bound_def toy_inbound_def) (simp add: toy_assertion_def)
qed

lemma toy_inbound_verifies:
  "bdo_verify toy_label_codec toy_provider rf toy_inbound ''x'' (Some (kp_verifying toy_keys)) = Ok ()"
  using created_assertion_bound_verifies [OF toy_laws toy_key_ids toy_inbound_created] by (simp add: bdo_verify_def)

definition toy_transfer :: cross_domain_transfer where
  "toy_transfer =
     \<lparr>ct_source_domain = ''DOMAIN-NATO'', ct_target_domain = ''DOMAIN-PARTNER'', ct_label = ztdf_secret, ct_payload = ''x'',
      ct_inbound_binding = toy_inbound, ct_nmb_signing_key = kp_signing toy_keys, ct_nmb_verifying_key = kp_verifying toy_keys,
      ct_kas_signing_key = kp_signing toy_keys, ct_kas_verifying_key = kp_verifying toy_keys\<rparr>"

lemma toy_build_release:
  assumes "gr_effective_label r = Some ztdf_secret"
  shows "\<exists>pkg. build_release toy_env rnd toy_transfer r = Ok (ztdf_secret, ''<xml>'', pkg) \<and>
     zk_manifest pkg = toy_manifest \<and> zk_encrypted_payload pkg = toy_sealed"
proof -
  obtain pkg where pkg: "package_create toy_env rnd ztdf_secret ''x'' (kp_signing toy_keys) (kp_verifying toy_keys)
      (kp_verifying toy_keys) = Ok pkg" "zk_manifest pkg = toy_manifest" "zk_encrypted_payload pkg = toy_sealed"
    using toy_created by blast
  then obtain b where b: "zk_binding pkg = b" "assertion_bound toy_label_codec toy_provider ztdf_secret ''x'' (kp_signing toy_keys) = Ok b"
    by (auto simp: package_create_def and_then_Inr_iff Let_def)
  then have inbound: "zk_binding pkg = toy_inbound" using toy_inbound_created by simp
  have "assertion_verify toy_label_codec toy_provider (toy_assertion\<lparr>ab_label := ztdf_secret\<rparr>) ''x'' (kp_verifying toy_keys) = Ok ()"
    using bdo_verify_assertion [OF toy_inbound_verifies] by (auto simp: toy_inbound_def assertion_ztdf_def)
  then have "verify_binding_plaintext toy_env pkg ''x'' (kp_verifying toy_keys) = Ok ()"
    using inbound by (simp add: verify_binding_plaintext_def toy_inbound_def) (simp add: toy_assertion_def)
  moreover have "manifest_validate toy_manifest = Ok ()"
    using package_create_Ok [OF pkg(1)] pkg(2) by metis
  ultimately have "verify_release toy_env pkg (kp_verifying toy_keys) ''x'' = Ok ()"
    using pkg(2) by (simp add: verify_release_def)
  then show ?thesis
    using assms pkg toy_serialize(1) toy_inbound_created toy_inbound_verifies
    by (simp add: build_release_def toy_transfer_def)
qed

lemma toy_execute:
  assumes "memory_log log"
  shows "\<exists>log'. execute toy_env rnd genv toy_aenv st toy_transfer toy_guard log =
     (Ok (Released ''<xml>'' ''x'' (Some ''M0'') (Some ''PK0'')), toy_guard, log')"
proof -
  obtain r where r: "guard_evaluate genv (st 1) ztdf_secret toy_guard = (Ok r, toy_guard)" "gr_decision r = GuardAllow"
    "gr_effective_label r = Some ztdf_secret"
    using toy_guard_allows by blast
  obtain pkg where pkg: "build_release toy_env rnd toy_transfer r = Ok (ztdf_secret, ''<xml>'', pkg)"
    "zk_manifest pkg = toy_manifest" "zk_encrypted_payload pkg = toy_sealed"
    using toy_build_release [OF r(3)] by blast
  obtain log1 where log1: "record_audit toy_aenv (evaluate_record toy_env (st 0) toy_transfer) (cg_accredited toy_guard) log = (Ok (), log1)"
    "memory_log log1"
    using toy_record_goes_on [OF assms] by blast
  obtain log2 where log2: "record_audit toy_aenv (release_record toy_env (st 2) toy_transfer r ztdf_secret) (cg_accredited toy_guard) log1 = (Ok (), log2)"
    using toy_record_goes_on [OF log1(2)] by blast
  have out: "released_outcome toy_env toy_transfer ''<xml>'' pkg = Ok (Released ''<xml>'' ''x'' (Some ''M0'') (Some ''PK0''))"
    using pkg(2) toy_zip [OF pkg(2,3)]
    by (simp add: released_outcome_def package_manifest_json_def ztdf_manifest_to_json_def toy_transfer_def toy_format_def)
  have fields: "ct_label toy_transfer = ztdf_secret" "ct_payload toy_transfer = ''x''" "ct_inbound_binding toy_transfer = toy_inbound"
    "ct_nmb_verifying_key toy_transfer = kp_verifying toy_keys" "mb_method (bd_binding toy_inbound) = Assertion"
    "validate_domain_pair (ct_source_domain toy_transfer) (ct_target_domain toy_transfer) = Ok ()"
    by (simp_all add: toy_transfer_def toy_inbound_def assertion_ztdf_def validate_domain_pair_Ok_iff validate_domain_id_def)
  have "conclude toy_env rnd toy_aenv (st 2) (cg_accredited toy_guard) toy_transfer r log1 =
      (Ok (Released ''<xml>'' ''x'' (Some ''M0'') (Some ''PK0'')), log2)"
    using log2 pkg(1) out r(2) by (simp add: conclude_def)
  then show ?thesis
    using log1(1) r(1) toy_inbound_verifies by (simp add: execute_def fields)
qed

theorem released_only_when_approved_witness:
  "\<exists>g' log'. execute toy_env \<lparr>zr_key = ''a'', zr_iv = ''b'', zr_wrap = ''c''\<rparr> toy_aenv toy_aenv (\<lambda>n. (''id'', ''now'')) toy_transfer
       toy_guard (audit_log_new []) = (Ok (Released ''<xml>'' ''x'' (Some ''M0'') (Some ''PK0'')), g', log') \<and>
     (\<exists>e. fit_for_target toy_guard ztdf_secret e) \<and> length (logged log') = 2"
proof -
  let ?rnd = "\<lparr>zr_key = ''a'', zr_iv = ''b'', zr_wrap = ''c''\<rparr>" and ?st = "\<lambda>n. (''id'', ''now'')"
  have "memory_log (audit_log_new [])" by (simp add: memory_log_def audit_log_new_def)
  from toy_execute [OF this] obtain log' where run: "execute toy_env ?rnd toy_aenv toy_aenv ?st toy_transfer toy_guard (audit_log_new []) =
      (Ok (Released ''<xml>'' ''x'' (Some ''M0'') (Some ''PK0'')), toy_guard, log')" by blast
  have "ct_label toy_transfer = ztdf_secret" by (simp add: toy_transfer_def)
  moreover have "logged (audit_log_new ([] :: memory_sink)) = []" by (simp add: logged_def audit_log_new_def)
  ultimately show ?thesis using released_only_when_approved [OF run] coalition_guard(5) run by fastforce
qed

text \<open>The request claims an open label for a payload that was bound as secret.\<close>

theorem transfer_decides_on_the_claim_witness:
  "cf_classification (bd_label toy_inbound) = Secret \<and>
   (\<forall>rnd st. execute toy_env rnd toy_aenv toy_aenv st
      (toy_transfer\<lparr>ct_label := ztdf_open, ct_inbound_binding := toy_inbound\<rparr>) toy_guard (audit_log_new []) =
    execute toy_env rnd toy_aenv toy_aenv st
      (toy_transfer\<lparr>ct_label := ztdf_open, ct_inbound_binding := toy_inbound\<lparr>bd_label := ztdf_open\<rparr>\<rparr>) toy_guard (audit_log_new []))"
proof (intro conjI allI)
  show "cf_classification (bd_label toy_inbound) = Secret" by (simp add: toy_inbound_def secret_markings)
  fix rnd st
  let ?t = "toy_transfer\<lparr>ct_label := ztdf_open\<rparr>"
  have meth: "mb_method (bd_binding toy_inbound) = Assertion" "mb_method (bd_binding (toy_inbound\<lparr>bd_label := ztdf_open\<rparr>)) = Assertion"
    by (simp_all add: toy_inbound_def assertion_ztdf_def)
  have b': "bdo_verify toy_label_codec toy_provider rf (toy_inbound\<lparr>bd_label := ztdf_open\<rparr>) ''x'' (Some (kp_verifying toy_keys)) = Ok ()" for rf
    using toy_inbound_verifies [of rf] ztdf_samples_valid(2) meth
    by (simp add: bdo_verify_def verify_with_resolver_Ok_iff)
  have "bdo_verify (ze_codec toy_env) (ze_crypto toy_env) (ze_files toy_env) toy_inbound (ct_payload ?t) (Some (ct_nmb_verifying_key ?t)) = Ok ()"
    and "bdo_verify (ze_codec toy_env) (ze_crypto toy_env) (ze_files toy_env) (toy_inbound\<lparr>bd_label := ztdf_open\<rparr>) (ct_payload ?t)
      (Some (ct_nmb_verifying_key ?t)) = Ok ()"
    using toy_inbound_verifies b' by (simp_all add: toy_transfer_def)
  from transfer_decides_on_the_claim [OF meth this]
  show "execute toy_env rnd toy_aenv toy_aenv st (?t\<lparr>ct_inbound_binding := toy_inbound\<rparr>) toy_guard (audit_log_new []) =
    execute toy_env rnd toy_aenv toy_aenv st (?t\<lparr>ct_inbound_binding := toy_inbound\<lparr>bd_label := ztdf_open\<rparr>\<rparr>) toy_guard (audit_log_new [])"
    by blast
qed

text \<open>A cleared subject receives the sample archive.\<close>

definition partner_operator :: subject_attributes where
  "partner_operator = with_nationality ''USA'' (subject_new ''op'' Secret)"

theorem received_only_when_permitted_witness:
  "\<exists>text g' log'. receive_ztdf_on_target toy_env toy_aenv toy_aenv (\<lambda>n. (''id'', ''now'')) partner_operator ''PK0''
       (kp_verifying toy_keys) (local_kas toy_env (kp_signing toy_keys)) toy_guard (audit_log_new []) = (Ok text, g', log') \<and>
     length (logged log') = 2"
proof -
  let ?st = "\<lambda>n. (''id'', ''now'')" and ?kas = "local_kas toy_env (kp_signing toy_keys)"
  obtain pkg where pkg: "from_zip_bytes toy_env ''PK0'' (kp_verifying toy_keys) (kp_signing toy_keys) = Ok pkg"
    "zk_manifest pkg = toy_manifest" "zk_encrypted_payload pkg = toy_sealed"
    using toy_opens by blast
  then obtain p where sealed: "from_zip_sealed toy_env ''PK0'' = Ok pkg" and dec: "decrypt_with_kas toy_env pkg ?kas = Ok p"
    and ver: "verify_binding_plaintext toy_env pkg p (kp_verifying toy_keys) = Ok ()"
    by (auto simp: from_zip_bytes_def and_then_Inr_iff)
  have lbl: "package_label toy_env pkg = Ok ztdf_secret"
    using toy_manifest_label pkg(2) by (simp add: package_label_def)
  have utf: "from_utf8 p = Ok p"
    using dec toy_decrypted [OF pkg(2,3)] from_utf8_ascii [of "''x''"] by auto
  have perm: "\<exists>dn pep. pep_enforce_access toy_aenv st partner_operator ztdf_secret OpRead (cg_target toy_guard) (cg_pep toy_guard) = (Ok dn, pep)" for st
  proof -
    let ?ctx = "\<lparr>pc_subject = partner_operator, pc_resource = resource_from_label ztdf_secret,
                pc_environment = env_local OpRead (sd_id (cg_target toy_guard)), pc_label = ztdf_secret\<rparr>"
    have dom: "store_domain preset_coalition (ev_source_domain (pc_environment ?ctx)) = Some (cg_target toy_guard)"
      by (simp add: coalition_domains coalition_guard env_local_def)
    have "access_allowed (pc_subject ?ctx) (pc_resource ?ctx) (pc_environment ?ctx) (cg_target toy_guard)"
      by (simp add: access_allowed_def resource_from_label_def secret_markings caveats_held_def partner_operator_def
          model_simps mission_ok_def nationality_ok_def releasability_ok_def coalition_guard)
    with evaluate_access_cases [OF dom] obtain dn where
      "evaluate_access preset_coalition ?ctx = Ok dn" and "pd_effect dn = Permit" by auto
    then show ?thesis
      using ztdf_samples_valid(1)
      by (simp add: pep_enforce_access_def pep_evaluate_access_def access_context_Ok_iff evaluate_def env_local_def
          coalition_guard access_context_def resource_from_label_def)
  qed
  then obtain dn pep where perm: "pep_enforce_access toy_aenv (?st 1) partner_operator ztdf_secret OpRead (cg_target toy_guard) (cg_pep toy_guard) = (Ok dn, pep)"
    by blast
  have m: "memory_log (audit_log_new [])" by (simp add: memory_log_def audit_log_new_def)
  obtain log1 where log1: "record_audit toy_aenv (receive_evaluate_record (?st 0) partner_operator toy_guard ztdf_secret) (cg_accredited toy_guard) (audit_log_new []) = (Ok (), log1)"
    "memory_log log1" using toy_record_goes_on [OF m] by blast
  obtain log2 where log2: "record_audit toy_aenv (receive_transfer_record toy_env (?st 2) partner_operator toy_guard ztdf_secret p) (cg_accredited toy_guard) log1 = (Ok (), log2)"
    using toy_record_goes_on [OF log1(2)] by blast
  have run: "receive_ztdf_on_target toy_env toy_aenv toy_aenv ?st partner_operator ''PK0''
       (kp_verifying toy_keys) ?kas toy_guard (audit_log_new []) = (Ok p, toy_guard\<lparr>cg_pep := pep\<rparr>, log2)"
    using sealed lbl log1(1) log2 perm dec ver utf by (simp add: receive_ztdf_on_target_def decrypt_with_policy_def)
  have "logged (audit_log_new ([] :: memory_sink)) = []" by (simp add: logged_def audit_log_new_def)
  then show ?thesis using received_only_when_permitted [OF run] coalition_guard(5) run by fastforce
qed

end
