(* ===== verification/Siem.thy ===== *)
theory Siem
  imports Audit_Log Runtime
begin

text \<open>
  Crate \<open>mim-audit\<close>: the export of the log for a security monitoring system (\<open>chain.rs\<close>) and its
  forwarding to a file, an HTTP collector and a syslog collector (\<open>siem.rs\<close>). The JSON printer, the file
  system and the sockets are arguments; a socket operation depends on the number of the attempt. The
  sleeps of the retry loop are its second result.
\<close>

section \<open>The export (\<open>chain.rs\<close>, \<open>log.rs\<close>)\<close>

fun event_kind_json :: "audit_event_kind \<Rightarrow> json" where
  "event_kind_json EvCrossDomainEvaluate = JString ''crossDomainEvaluate''"
| "event_kind_json EvCrossDomainTransfer = JString ''crossDomainTransfer''"
| "event_kind_json EvTransportAccess = JString ''transportAccess''"
| "event_kind_json EvBindingVerify = JString ''bindingVerify''"
| "event_kind_json EvBindingReject = JString ''bindingReject''"

definition siem_event :: "audit_envelope \<Rightarrow> json" where
  "siem_event e =
     (let r = ae_record e in
      JObject [(''vendor'', JString ''AINextGenC2''), (''product'', JString ''mim-audit''), (''version'', JString ''1.0''),
        (''eventKind'', event_kind_json (ar_event_kind r)), (''subjectId'', JString (ar_subject_id r)),
        (''decision'', JString (ar_decision r)), (''reason'', JString (ar_reason r)),
        (''policyRuleId'', JString (ar_policy_rule_id r)), (''timestamp'', JString (ar_timestamp r)),
        (''recordHash'', JString (ae_record_hash e)), (''previousHash'', JString (ae_previous_hash e)),
        (''signed'', JBool (ae_signature e \<noteq> None))])"

definition export_siem_json :: "(json \<Rightarrow> string + string) \<Rightarrow> audit_envelope list \<Rightarrow> string + string" where
  "export_siem_json pretty envelopes = pretty (JArray (map siem_event envelopes))"

definition export_siem :: "(json \<Rightarrow> string + string) \<Rightarrow> 's audit_log \<Rightarrow> string + string" where
  "export_siem pretty log = export_siem_json pretty (al_envelopes log)"

section \<open>Endpoints\<close>

type_synonym u8 = "8 word"
type_synonym u16 = "16 word"

definition is_digit :: "char \<Rightarrow> bool" where
  "is_digit c \<longleftrightarrow> 48 \<le> (of_char c :: nat) \<and> (of_char c :: nat) \<le> 57"

text \<open>\<open>str::parse::<u16>\<close>: an optional plus sign, decimal digits, no overflow.\<close>

definition parse_u16 :: "string \<Rightarrow> u16 option" where
  "parse_u16 s =
     (let ds = (case s of c # d # ds \<Rightarrow> if c = CHR ''+'' then d # ds else s | _ \<Rightarrow> s);
          n = foldl (\<lambda>n c. 10 * n + (of_char c - 48)) (0 :: nat) ds
      in if ds \<noteq> [] \<and> list_all is_digit ds \<and> n < 2 ^ 16 then Some (of_nat n) else None)"

text \<open>The two schemes of an endpoint are only cut off.\<close>

definition without_scheme :: "string \<Rightarrow> string \<Rightarrow> string \<Rightarrow> string" where
  "without_scheme a b trimmed =
     (case strip_prefix a trimmed of
        Some r \<Rightarrow> r
      | None \<Rightarrow> (case strip_prefix b trimmed of Some r \<Rightarrow> r | None \<Rightarrow> trimmed))"

definition parse_http_endpoint :: "string \<Rightarrow> string + string \<times> u16 \<times> string" where
  "parse_http_endpoint endpoint =
     (let rest = without_scheme ''http://'' ''https://'' (trim endpoint);
          (authority, path) =
            (case split_once (CHR ''/'') rest of Some (auth, r) \<Rightarrow> (auth, ''/'' @ r) | None \<Rightarrow> (rest, ''/''))
      in and_then
           (case split_once (CHR '':'') authority of
              Some (host, port_str) \<Rightarrow>
                and_then (ok_or (''invalid port in endpoint '' @ quoted endpoint) (parse_u16 port_str)) (\<lambda>p. Ok (host, p))
            | None \<Rightarrow> Ok (authority, 80)) (\<lambda>(host, port).
         if host = [] then Err (''invalid HTTP endpoint '' @ quoted endpoint) else Ok (host, port, path)))"

definition parse_syslog_endpoint :: "string \<Rightarrow> string + string \<times> u16" where
  "parse_syslog_endpoint endpoint =
     (let rest = without_scheme ''tcp://'' ''syslog://'' (trim endpoint) in
      and_then
        (case split_once (CHR '':'') rest of
           Some (host, port_str) \<Rightarrow>
             and_then (ok_or (''invalid port in syslog endpoint '' @ quoted endpoint) (parse_u16 port_str)) (\<lambda>p. Ok (host, p))
         | None \<Rightarrow> Ok (rest, 514)) (\<lambda>(host, port).
      if host = [] then Err (''invalid syslog endpoint '' @ quoted endpoint) else Ok (host, port)))"

section \<open>Forwarding (\<open>siem.rs\<close>)\<close>

record siem_net =
  sn_connect :: "nat \<Rightarrow> string \<Rightarrow> string + unit"
  sn_write :: "nat \<Rightarrow> string \<Rightarrow> string \<Rightarrow> string + unit"

record siem_files =
  sf_parent :: "string \<Rightarrow> string option"
  sf_create_dir_all :: "string \<Rightarrow> string + unit"
  sf_create :: "string \<Rightarrow> string + unit"
  sf_write_all :: "string \<Rightarrow> string \<Rightarrow> string + unit"

definition forward_siem_to_file ::
  "(json \<Rightarrow> string + string) \<Rightarrow> siem_files \<Rightarrow> 's audit_log \<Rightarrow> string \<Rightarrow> string + unit" where
  "forward_siem_to_file pretty fs log path =
     and_then (export_siem pretty log) (\<lambda>content.
     and_then (case sf_parent fs path of Some parent \<Rightarrow> sf_create_dir_all fs parent | None \<Rightarrow> Ok ()) (\<lambda>_.
     and_then (sf_create fs path) (\<lambda>_. sf_write_all fs path content)))"

definition saturating_double :: "u64 \<Rightarrow> u64" where
  "saturating_double d = (if 2 * unat d < 2 ^ 64 then 2 * d else - 1)"

text \<open>\<open>n\<close> attempts are left, \<open>k\<close> have been made; an operation gives the result of its \<open>k\<close>-th call.\<close>

fun retry_loop ::
  "nat \<Rightarrow> nat \<Rightarrow> u64 \<Rightarrow> (nat \<Rightarrow> string + unit) \<Rightarrow> string \<Rightarrow> (string + unit) \<times> u64 list" where
  "retry_loop 0 k delay_ms operation last_err = (Err last_err, [])"
| "retry_loop (Suc n) k delay_ms operation last_err =
     (case operation k of
        Inr _ \<Rightarrow> (Ok (), [])
      | Inl err \<Rightarrow>
          if 0 < n then
            (let (r, sleeps) = retry_loop n (Suc k) (saturating_double delay_ms) operation err in (r, delay_ms # sleeps))
          else retry_loop n (Suc k) delay_ms operation err)"

definition forward_with_retry :: "u32 \<Rightarrow> (nat \<Rightarrow> string + unit) \<Rightarrow> (string + unit) \<times> u64 list" where
  "forward_with_retry max_attempts operation =
     (let attempts = max (unat max_attempts) 1;
          (r, sleeps) = retry_loop attempts 0 100 operation ''no attempts made''
      in (map_err (\<lambda>last_err. ''accredited SIEM forward failed after '' @ show_nat attempts @ '' attempts: '' @ last_err) r,
          sleeps))"

definition crlf :: string where
  "crlf = [CHR 0x0D, CHR 0x0A]"

definition send_tcp :: "siem_net \<Rightarrow> nat \<Rightarrow> string \<Rightarrow> string \<Rightarrow> string \<Rightarrow> string + unit" where
  "send_tcp net k addr what payload =
     and_then (map_err (\<lambda>e. ''connect '' @ addr @ '': '' @ e) (sn_connect net k addr)) (\<lambda>_.
       map_err (\<lambda>e. ''write '' @ what @ '': '' @ e) (sn_write net k addr payload))"

definition http_request :: "string \<Rightarrow> string \<Rightarrow> string \<Rightarrow> string" where
  "http_request host path content =
     ''POST '' @ path @ '' HTTP/1.1'' @ crlf @ ''Host: '' @ host @ crlf @ ''Content-Type: application/json'' @ crlf @
     ''Content-Length: '' @ show_nat (length content) @ crlf @ ''Connection: close'' @ crlf @ crlf @ content"

definition forward_siem_http :: "siem_net \<Rightarrow> string \<Rightarrow> string \<Rightarrow> nat \<Rightarrow> string + unit" where
  "forward_siem_http net endpoint content k =
     and_then (parse_http_endpoint endpoint) (\<lambda>(host, port, path).
       send_tcp net k (host @ '':'' @ show_nat (unat port)) ''request'' (http_request host path content))"

definition forward_log_http ::
  "(json \<Rightarrow> string + string) \<Rightarrow> siem_net \<Rightarrow> 's audit_log \<Rightarrow> string \<Rightarrow> string + unit" where
  "forward_log_http pretty net log endpoint =
     and_then (export_siem pretty log) (\<lambda>content. forward_siem_http net endpoint content 0)"

definition forward_log_http_accredited ::
  "(json \<Rightarrow> string + string) \<Rightarrow> siem_net \<Rightarrow> 's audit_log \<Rightarrow> string \<Rightarrow> u32 \<Rightarrow> (string + unit) \<times> u64 list" where
  "forward_log_http_accredited pretty net log endpoint max_attempts =
     (case export_siem pretty log of
        Inl e \<Rightarrow> (Err e, [])
      | Inr content \<Rightarrow> forward_with_retry max_attempts (forward_siem_http net endpoint content))"

definition syslog_priority :: "u8 \<Rightarrow> u8 \<Rightarrow> u16" where
  "syslog_priority facility severity = ucast facility * 8 + ucast severity"

definition forward_syslog_tcp :: "siem_net \<Rightarrow> string \<Rightarrow> u8 \<Rightarrow> u8 \<Rightarrow> string \<Rightarrow> nat \<Rightarrow> string + unit" where
  "forward_syslog_tcp net endpoint facility severity message k =
     and_then (parse_syslog_endpoint endpoint) (\<lambda>(host, port).
       send_tcp net k (host @ '':'' @ show_nat (unat port)) ''syslog''
         (''<'' @ show_nat (unat (syslog_priority facility severity)) @ ''>1 - - - - - - '' @ message @ [CHR 0x0A]))"

definition forward_log_syslog_accredited ::
  "(json \<Rightarrow> string + string) \<Rightarrow> siem_net \<Rightarrow> 's audit_log \<Rightarrow> string \<Rightarrow> u32 \<Rightarrow> (string + unit) \<times> u64 list" where
  "forward_log_syslog_accredited pretty net log endpoint max_attempts =
     (case export_siem pretty log of
        Inl e \<Rightarrow> (Err e, [])
      | Inr content \<Rightarrow> forward_with_retry max_attempts (forward_syslog_tcp net endpoint 20 6 content))"

section \<open>The bounds of the retry loop\<close>

lemma unat_saturating_double: "unat (saturating_double d) = min (2 * unat d) (2 ^ 64 - 1)"
proof (cases "2 * unat d < 2 ^ 64")
  case True
  then have "unat (2 * d) = 2 * unat d" by (simp add: unat_word_ariths)
  with True show ?thesis by (simp add: saturating_double_def)
next
  case False
  then show ?thesis by (simp add: saturating_double_def unat_max_u64)
qed

text \<open>The number of calls that fail before the first success among the next \<open>n\<close>.\<close>

definition failed_calls :: "nat \<Rightarrow> nat \<Rightarrow> (nat \<Rightarrow> string + unit) \<Rightarrow> nat" where
  "failed_calls n k operation = length (takeWhile (\<lambda>i. \<not> is_ok (operation i)) [k..<k + n])"

lemma failed_calls_0 [simp]: "failed_calls 0 k operation = 0"
  by (simp add: failed_calls_def)

lemma failed_calls_Suc:
  "failed_calls (Suc n) k operation = (if is_ok (operation k) then 0 else Suc (failed_calls n (Suc k) operation))"
  by (simp add: failed_calls_def upt_conv_Cons del: upt_Suc)

lemma failed_calls_le: "failed_calls n k operation \<le> n"
  using length_takeWhile_le [of "\<lambda>i. \<not> is_ok (operation i)" "[k..<k + n]"] by (simp add: failed_calls_def)

lemma retry_loop_result:
  "fst (retry_loop n k d operation e) =
     (if n = 0 then Err e
      else if failed_calls n k operation < n then Ok () else Err (projl (operation (k + n - 1))))"
proof (induction n arbitrary: k d e)
  case (Suc n)
  show ?case
  proof (cases "operation k")
    case (Inl err)
    then show ?thesis
      using Suc.IH [of "Suc k" _ err]
      by (cases n) (auto simp: case_prod_beta Let_def failed_calls_Suc)
  next
    case (Inr u)
    then show ?thesis by (simp add: failed_calls_Suc)
  qed
qed simp

lemma min_double_saturated: "min (a * min (2 * b) m) m = min (2 * a * b) m" if "0 < a" for a b m :: nat
proof (cases "2 * b \<le> m")
  case False
  from that have "m * 1 \<le> a * m" "2 * b * 1 \<le> a * (2 * b)"
    by (simp_all add: Suc_le_eq)
  with False have "m \<le> a * m" "m \<le> 2 * a * b"
    by (simp_all add: algebra_simps)
  with False show ?thesis by (simp add: min_absorb2)
qed (simp add: algebra_simps)

lemma upt_Suc_map: "map f [0..<Suc n] = f 0 # map (\<lambda>j. f (Suc j)) [0..<n]"
  by (simp add: upt_conv_Cons map_Suc_upt [symmetric] del: upt_Suc)

lemma retry_loop_sleeps:
  "map unat (snd (retry_loop n k d operation e)) =
     map (\<lambda>j. min (2 ^ j * unat d) (2 ^ 64 - 1)) [0..<min (failed_calls n k operation) (n - 1)]"
proof (induction n arbitrary: k d e)
  case (Suc n)
  have d: "unat d < 2 ^ 64"
    using unsigned_less [of d] by simp
  show ?case
  proof (cases "operation k")
    case (Inl err)
    show ?thesis
    proof (cases n)
      case 0
      with Inl show ?thesis by simp
    next
      case n: (Suc m)
      have "min (failed_calls (Suc n) k operation) (Suc n - 1) =
            Suc (min (failed_calls n (Suc k) operation) (n - 1))"
        using Inl n by (simp add: failed_calls_Suc)
      moreover have "snd (retry_loop (Suc n) k d operation e) =
            d # snd (retry_loop n (Suc k) (saturating_double d) operation err)"
        using Inl n by (simp add: case_prod_beta Let_def)
      ultimately show ?thesis
        using d by (simp only: list.map Suc.IH upt_Suc_map unat_saturating_double)
          (simp add: min_double_saturated mult.assoc [symmetric])
    qed
  next
    case (Inr u)
    then show ?thesis by (simp add: failed_calls_Suc)
  qed
qed simp

text \<open>
  C40: the accredited forwarding calls its operation until it succeeds, at least once and at most
  \<open>max_attempts\<close> times: with \<open>m\<close> the number of leading failures, it succeeds exactly if \<open>m\<close> is smaller
  than that bound, and otherwise reports the error of the last call. It sleeps after each failed call
  but the last; the \<open>j\<close>-th sleep is of \<open>100 * 2 ^ j\<close> milliseconds, cut at the largest 64-bit value.
\<close>

theorem forward_with_retry_exact:
  fixes max_attempts :: u32
  shows
  "let n = max (unat max_attempts) 1;
       m = length (takeWhile (\<lambda>i. \<not> is_ok (operation i)) [0..<n]);
       (r, sleeps) = forward_with_retry max_attempts operation
   in r = (if m < n then Ok ()
           else Err (''accredited SIEM forward failed after '' @ show_nat n @ '' attempts: '' @ projl (operation (n - 1)))) \<and>
      map unat sleeps = map (\<lambda>j. min (100 * 2 ^ j) (2 ^ 64 - 1)) [0..<min m (n - 1)]"
proof -
  let ?n = "max (unat max_attempts) 1"
  have m: "length (takeWhile (\<lambda>i. \<not> is_ok (operation i)) [0..<?n]) = failed_calls ?n 0 operation"
    by (simp add: failed_calls_def)
  have "?n \<noteq> 0" by simp
  then have r: "fst (retry_loop ?n 0 100 operation ''no attempts made'') =
      (if failed_calls ?n 0 operation < ?n then Ok () else Err (projl (operation (?n - 1))))"
    by (simp add: retry_loop_result)
  have s: "map unat (snd (retry_loop ?n 0 100 operation ''no attempts made'')) =
      map (\<lambda>j. min (100 * 2 ^ j) (2 ^ 64 - 1)) [0..<min (failed_calls ?n 0 operation) (?n - 1)]"
    by (simp add: retry_loop_sleeps mult.commute)
  show ?thesis
    unfolding Let_def m forward_with_retry_def case_prod_beta fst_conv snd_conv r s by simp
qed

text \<open>The priority of a syslog message does not wrap at 16 bits.\<close>

lemma unat_syslog_priority: "unat (syslog_priority f s) = 8 * unat f + unat s"
proof -
  have "unat f < 2 ^ 8" "unat s < 2 ^ 8"
    using unsigned_less [of f] unsigned_less [of s] by simp_all
  then show ?thesis
    by (simp add: syslog_priority_def unat_word_ariths unsigned_ucast_eq take_bit_nat_eq_self)
qed

text \<open>An \<open>https\<close> endpoint is not refused: the log goes in the clear, to port 80.\<close>

lemma https_endpoint_is_port_80:
  "parse_http_endpoint ''https://siem.example/api'' = Ok (''siem.example'', 80, ''/api'')"
proof -
  have "trim ''https://siem.example/api'' = ''https://siem.example/api''"
    by (rule trim_id) (simp_all add: ws_lead_def ws_tail_def white_space_seqs_def)
  then show ?thesis
    unfolding parse_http_endpoint_def by (simp only: Let_def) code_simp
qed

end
