(* ===== verification/Serialize.thy ===== *)
theory Serialize
  imports Runtime
begin

text \<open>
  Crate \<open>mim-runtime\<close>, \<open>serialize.rs\<close>: the JSON, JSON-LD and XML forms of instances and stores. The XML
  writer and reader are driven by events, and the lists of events are modelled exactly; the library
  that turns events into text and back, the JSON library with the derived decoders, and the UUID parser
  are the record \<open>serial_env\<close>. An attribute and a text event carry the result of unescaping them.
\<close>

section \<open>The libraries\<close>

datatype sx_event =
    SxDecl
  | SxStart string "(string \<times> (string + string)) list"
  | SxEmpty string "(string \<times> (string + string)) list"
  | SxText "string + string"
  | SxCData string
  | SxEnd string
  | SxOther

record serial_env =
  sx_write :: "sx_event list \<Rightarrow> string + string"
  sx_read :: "string \<Rightarrow> (string + sx_event) list"
  sx_json_write :: "json \<Rightarrow> string + string"
  sx_json_pretty :: "json \<Rightarrow> string + string"
  sx_json_read :: "string \<Rightarrow> string + json"
  sx_metadata_json :: "metadata \<Rightarrow> json"
  sx_instance_of_json :: "json \<Rightarrow> string + mim_instance"
  sx_instance_from_str :: "string \<Rightarrow> string + mim_instance"
  sx_exchange_from_str :: "string \<Rightarrow> string + mim_instance list"
  sx_jsonld_exchange_from_str :: "string \<Rightarrow> string + mim_instance list"
  sx_uuid_parse :: "string \<Rightarrow> string option"
  sx_fresh_uuid :: string

definition MIM_JSONLD_CONTEXT :: string where
  "MIM_JSONLD_CONTEXT = ''https://www.mimworld.org/mim/5.1.0/context.jsonld''"

datatype serialization_format = SfJson | SfXml | SfJsonLd

definition serialization_error :: "string + 'a \<Rightarrow> mim_error + 'a" where
  "serialization_error = map_err MimSerialization"

section \<open>Names\<close>

definition is_ascii_alphabetic :: "char \<Rightarrow> bool" where
  "is_ascii_alphabetic c \<longleftrightarrow>
     (let n = (of_char c :: nat) in (65 \<le> n \<and> n \<le> 90) \<or> (97 \<le> n \<and> n \<le> 122))"

definition is_ascii_alphanumeric :: "char \<Rightarrow> bool" where
  "is_ascii_alphanumeric c \<longleftrightarrow>
     is_ascii_alphabetic c \<or> (let n = (of_char c :: nat) in 48 \<le> n \<and> n \<le> 57)"

text \<open>The characters of a string, each by its first byte: the other bytes of a character are
  continuation bytes.\<close>

definition char_leads :: "string \<Rightarrow> string" where
  "char_leads s = filter (\<lambda>c. \<not> utf8_continues (of_char c)) s"

definition sanitize_first :: "char \<Rightarrow> string" where
  "sanitize_first c =
     (if is_ascii_alphabetic c \<or> c = CHR ''_'' then [c]
      else if is_ascii_alphanumeric c then [CHR ''_'', c]
      else [])"

definition sanitize_rest :: "char \<Rightarrow> char" where
  "sanitize_rest c =
     (if is_ascii_alphanumeric c \<or> c = CHR ''_'' \<or> c = CHR ''-'' \<or> c = CHR ''.'' then c else CHR ''_'')"

definition sanitize_chars :: "string \<Rightarrow> string" where
  "sanitize_chars cs = (case cs of [] \<Rightarrow> [] | c # cs' \<Rightarrow> sanitize_first c @ map sanitize_rest cs')"

definition sanitize_xml_name :: "string \<Rightarrow> mim_error + string" where
  "sanitize_xml_name name =
     (let out = sanitize_chars (char_leads name) in
      if out = [] then Err (MimSerialization (''cannot sanitize XML element name from '' @ quoted name)) else Ok out)"

definition local_name :: "string \<Rightarrow> string" where
  "local_name name = last (split_on (\<lambda>c. c = CHR '':'') name)"

section \<open>Writing XML\<close>

definition write_property :: "serial_env \<Rightarrow> property_value \<Rightarrow> mim_error + sx_event list" where
  "write_property env p =
     and_then (sanitize_xml_name (pv_name p)) (\<lambda>tag.
       case pv_value p of
         Nil_Because r \<Rightarrow>
           Ok [SxEmpty tag [(''xsi:nil'', Ok ''true''), (''nilReason'', Ok (nil_reason_as_str r))]]
       | Value v \<Rightarrow>
           and_then (serialization_error (sx_json_write env v)) (\<lambda>text.
             Ok [SxStart tag [], SxText (Ok text), SxEnd tag])
       | Absent \<Rightarrow> Ok [])"

definition write_instance_fragment :: "serial_env \<Rightarrow> mim_instance \<Rightarrow> mim_error + sx_event list" where
  "write_instance_fragment env i =
     and_then (sanitize_xml_name (mi_class_name i)) (\<lambda>tag.
     and_then (try_map (write_property env) (mi_properties i)) (\<lambda>ps.
       Ok (SxStart tag
             [(''oid'', Ok (oid_as_str (mi_oid i))),
              (''semanticId'', Ok (semantic_id_as_str (mi_class_semantic_id i)))]
           # concat ps @ [SxEnd tag])))"

definition instance_events :: "serial_env \<Rightarrow> mim_instance \<Rightarrow> mim_error + sx_event list" where
  "instance_events env i = and_then (write_instance_fragment env i) (\<lambda>evs. Ok (SxDecl # evs))"

definition exchange_attributes :: "(string \<times> (string + string)) list" where
  "exchange_attributes =
     [(''xmlns:mim'', Ok ''https://www.mimworld.org/mim/exchange''),
      (''xmlns:xsi'', Ok ''http://www.w3.org/2001/XMLSchema-instance'')]"

definition store_events :: "serial_env \<Rightarrow> mim_instance list \<Rightarrow> mim_error + sx_event list" where
  "store_events env is =
     and_then (try_map (write_instance_fragment env) is) (\<lambda>fs.
       Ok (SxDecl # SxStart ''mim:Exchange'' exchange_attributes # concat fs @ [SxEnd ''mim:Exchange'']))"

section \<open>Reading XML\<close>

type_synonym sx_attributes = "(string \<times> (string + string)) list"

type_synonym sx_events = "(string + sx_event) list"

definition is_instance_start :: "sx_attributes \<Rightarrow> bool" where
  "is_instance_start attrs \<longleftrightarrow> list_ex (\<lambda>(k, _). local_name k = ''oid'') attrs"

definition required_attribute :: "sx_attributes \<Rightarrow> string \<Rightarrow> mim_error + string" where
  "required_attribute attrs key =
     (case find (\<lambda>(k, _). local_name k = key) attrs of
        Some (_, v) \<Rightarrow> serialization_error v
      | None \<Rightarrow> Err (MimSerialization (''MIM instance missing required attribute '' @ quoted key)))"

definition is_xsi_nil :: "sx_attributes \<Rightarrow> bool" where
  "is_xsi_nil attrs \<longleftrightarrow> list_ex (\<lambda>(k, v). local_name k = ''nil'' \<and> v = Ok ''true'') attrs"

definition nil_reason_from_attribute :: "sx_attributes \<Rightarrow> nil_reason" where
  "nil_reason_from_attribute attrs =
     (case find_map (\<lambda>(k, v).
         if local_name k = ''nilReason'' then Option.bind (result_ok v) (\<lambda>s. result_ok (nil_reason_from_str s))
         else None) attrs of
        Some r \<Rightarrow> r
      | None \<Rightarrow> Unknown)"

definition parse_instance_attributes ::
  "serial_env \<Rightarrow> string \<Rightarrow> sx_attributes \<Rightarrow> mim_error + mim_instance" where
  "parse_instance_attributes env name attrs =
     and_then (required_attribute attrs ''oid'') (\<lambda>oid.
     and_then (required_attribute attrs ''semanticId'') (\<lambda>semantic_raw.
     and_then (map_err (\<lambda>e. MimSerialization (show_mim_error e)) (semantic_id_parse (sx_uuid_parse env) semantic_raw))
       (\<lambda>semantic_id.
     and_then (object_identifier_new oid) (\<lambda>o'.
       Ok ((mim_instance_new (sx_fresh_uuid env) (local_name name) semantic_id)\<lparr>mi_oid := o'\<rparr>)))))"

definition absent_property :: "string \<Rightarrow> property_value" where
  "absent_property n = \<lparr>pv_name = n, pv_semantic_id = None, pv_value = Absent\<rparr>"

definition parse_property_attributes ::
  "serial_env \<Rightarrow> sx_attributes \<Rightarrow> string \<Rightarrow> string option \<Rightarrow> property_value" where
  "parse_property_attributes env attrs prop_name content =
     (if is_xsi_nil attrs then property_nil prop_name (nil_reason_from_attribute attrs)
      else case content of
        None \<Rightarrow> absent_property prop_name
      | Some t \<Rightarrow>
          if t = [] then absent_property prop_name
          else property_json prop_name (case sx_json_read env t of Inr v \<Rightarrow> v | Inl _ \<Rightarrow> JString t))"

text \<open>The loop of \<open>parse_property_element\<close>: the text up to the end tag, and the events after it.\<close>

fun read_property_text :: "string \<Rightarrow> string \<Rightarrow> sx_events \<Rightarrow> mim_error + string \<times> sx_events" where
  "read_property_text prop_name acc [] =
     Err (MimSerialization (''unexpected end of XML inside <'' @ prop_name @ ''>''))"
| "read_property_text prop_name acc (Inl e # es) = Err (MimSerialization e)"
| "read_property_text prop_name acc (Inr ev # es) =
     (case ev of
        SxText t \<Rightarrow> read_property_text prop_name (acc @ (case t of Inr s \<Rightarrow> s | Inl _ \<Rightarrow> [])) es
      | SxCData s \<Rightarrow> read_property_text prop_name (acc @ s) es
      | SxEnd n \<Rightarrow> if local_name n = prop_name then Ok (acc, es) else read_property_text prop_name acc es
      | _ \<Rightarrow> read_property_text prop_name acc es)"

definition parse_property_element ::
  "serial_env \<Rightarrow> sx_attributes \<Rightarrow> string \<Rightarrow> sx_events \<Rightarrow> mim_error + property_value \<times> sx_events" where
  "parse_property_element env attrs prop_name es =
     (if is_xsi_nil attrs then Ok (property_nil prop_name (nil_reason_from_attribute attrs), es)
      else and_then (read_property_text prop_name [] es) (\<lambda>(t, rest).
        Ok (parse_property_attributes env attrs prop_name (Some (trim t)), rest)))"

lemma read_property_text_rest:
  "read_property_text prop_name acc es = Ok (t, rest) \<Longrightarrow> length rest < length es"
  by (induction prop_name acc es rule: read_property_text.induct)
    (auto split: sx_event.splits if_splits sum.splits intro: less_SucI)

lemma parse_property_element_rest:
  "parse_property_element env attrs prop_name es = Ok (p, rest) \<Longrightarrow> length rest \<le> length es"
  by (auto simp: parse_property_element_def and_then_Inr_iff split: if_splits dest!: read_property_text_rest)

function parse_instance_body ::
  "serial_env \<Rightarrow> string \<Rightarrow> mim_instance \<Rightarrow> sx_events \<Rightarrow> mim_error + mim_instance \<times> sx_events" where
  "parse_instance_body env class_tag i [] =
     Err (MimSerialization (''unexpected end of XML inside <'' @ class_tag @ ''>''))"
| "parse_instance_body env class_tag i (Inl e # es) = Err (MimSerialization e)"
| "parse_instance_body env class_tag i (Inr ev # es) =
     (case ev of
        SxStart n attrs \<Rightarrow>
          (case parse_property_element env attrs (local_name n) es of
             Inl e \<Rightarrow> Err e
           | Inr (p, rest) \<Rightarrow> parse_instance_body env class_tag (with_property p i) rest)
      | SxEmpty n attrs \<Rightarrow>
          parse_instance_body env class_tag
            (with_property (parse_property_attributes env attrs (local_name n) None) i) es
      | SxEnd n \<Rightarrow> if local_name n = class_tag then Ok (i, es) else parse_instance_body env class_tag i es
      | _ \<Rightarrow> parse_instance_body env class_tag i es)"
  by pat_completeness auto

termination
  by (relation "measure (\<lambda>(_, _, _, es). length es)") (auto dest: parse_property_element_rest)

declare parse_instance_body.simps(3) [simp del]

lemma parse_instance_body_rest:
  "parse_instance_body env class_tag i es = Ok (j, rest) \<Longrightarrow> length rest < length es"
proof (induction env class_tag i es rule: parse_instance_body.induct)
  case (3 env class_tag i ev es)
  then show ?case
    by (auto simp: parse_instance_body.simps(3) split: sx_event.splits sum.splits if_splits
        dest: parse_property_element_rest intro: less_SucI)
      (use 3 parse_property_element_rest in \<open>fastforce dest: less_le_trans\<close>)
qed simp_all

definition parse_instance_element ::
  "serial_env \<Rightarrow> string \<Rightarrow> sx_attributes \<Rightarrow> sx_events \<Rightarrow> mim_error + mim_instance \<times> sx_events" where
  "parse_instance_element env name attrs es =
     and_then (parse_instance_attributes env name attrs) (\<lambda>i. parse_instance_body env (local_name name) i es)"

lemma parse_instance_element_rest:
  "parse_instance_element env name attrs es = Ok (i, rest) \<Longrightarrow> length rest < length es"
  by (auto simp: parse_instance_element_def and_then_Inr_iff dest: parse_instance_body_rest)

text \<open>The loop of \<open>parse_xml_instances\<close>, with \<open>in_exchange\<close> and the instances read so far.\<close>

function read_instances ::
  "serial_env \<Rightarrow> bool \<Rightarrow> mim_instance list \<Rightarrow> sx_events \<Rightarrow> mim_error + mim_instance list" where
  "read_instances env in_exchange acc [] = Ok acc"
| "read_instances env in_exchange acc (Inl e # es) = Err (MimSerialization e)"
| "read_instances env in_exchange acc (Inr ev # es) =
     (case ev of
        SxStart n attrs \<Rightarrow>
          if local_name n = ''Exchange'' then read_instances env True acc es
          else if in_exchange \<or> acc \<noteq> [] \<or> is_instance_start attrs then
            (case parse_instance_element env n attrs es of
               Inl e \<Rightarrow> Err e
             | Inr (i, rest) \<Rightarrow> read_instances env in_exchange (acc @ [i]) rest)
          else read_instances env in_exchange acc es
      | SxEmpty n attrs \<Rightarrow>
          if is_instance_start attrs then
            (case parse_instance_attributes env n attrs of
               Inl e \<Rightarrow> Err e
             | Inr i \<Rightarrow> read_instances env in_exchange (acc @ [i]) es)
          else read_instances env in_exchange acc es
      | _ \<Rightarrow> read_instances env in_exchange acc es)"
  by pat_completeness auto

termination
  by (relation "measure (\<lambda>(_, _, _, es). length es)") (auto dest: parse_instance_element_rest)

declare read_instances.simps(3) [simp del]

definition parse_xml_instances :: "serial_env \<Rightarrow> string \<Rightarrow> mim_error + mim_instance list" where
  "parse_xml_instances env content =
     and_then (read_instances env False [] (sx_read env content)) (\<lambda>is.
       if is = [] then Err (MimSerialization ''XML payload contains no MIM instance elements'') else Ok is)"

section \<open>JSON-LD and the serializer\<close>

definition to_jsonld :: "serial_env \<Rightarrow> model_registry \<Rightarrow> mim_instance \<Rightarrow> json" where
  "to_jsonld env reg i =
     JObject [(''@context'', JString MIM_JSONLD_CONTEXT), (''@type'', JString (''mim:'' @ mi_class_name i)),
       (''@id'', JString (oid_as_str (mi_oid i))),
       (''mim:semanticId'', JString (semantic_id_as_str (mi_class_semantic_id i))),
       (''mim:modelVersion'', JString (mr_version reg)),
       (''mim:data'', instance_to_json (sx_metadata_json env) i)]"

definition from_jsonld :: "serial_env \<Rightarrow> string \<Rightarrow> mim_error + mim_instance" where
  "from_jsonld env content =
     and_then (serialization_error (sx_json_read env content)) (\<lambda>v.
       case v of
         JObject obj \<Rightarrow>
           (case map_of obj ''mim:data'' of
              Some inner \<Rightarrow> serialization_error (sx_instance_of_json env inner)
            | None \<Rightarrow> serialization_error (sx_instance_of_json env v))
       | _ \<Rightarrow> serialization_error (sx_instance_of_json env v))"

definition sx_serialize_instance ::
  "serial_env \<Rightarrow> model_registry \<Rightarrow> mim_instance \<Rightarrow> serialization_format \<Rightarrow> mim_error + string" where
  "sx_serialize_instance env reg i f =
     (case f of
        SfJson \<Rightarrow> serialization_error (sx_json_pretty env (instance_to_json (sx_metadata_json env) i))
      | SfJsonLd \<Rightarrow> serialization_error (sx_json_pretty env (to_jsonld env reg i))
      | SfXml \<Rightarrow> and_then (instance_events env i) (\<lambda>evs. serialization_error (sx_write env evs)))"

definition sx_deserialize_instance ::
  "serial_env \<Rightarrow> string \<Rightarrow> serialization_format \<Rightarrow> mim_error + mim_instance" where
  "sx_deserialize_instance env content f =
     (case f of
        SfJson \<Rightarrow> serialization_error (sx_instance_from_str env content)
      | SfJsonLd \<Rightarrow> from_jsonld env content
      | SfXml \<Rightarrow>
          and_then (parse_xml_instances env content) (\<lambda>is.
            case is of [] \<Rightarrow> Err (MimSerialization ''XML payload contains no MIM instance'') | i # _ \<Rightarrow> Ok i))"

definition sx_deserialize_store ::
  "serial_env \<Rightarrow> string \<Rightarrow> serialization_format \<Rightarrow> mim_error + mim_instance list" where
  "sx_deserialize_store env content f =
     (case f of
        SfJson \<Rightarrow> serialization_error (sx_exchange_from_str env content)
      | SfJsonLd \<Rightarrow> serialization_error (sx_jsonld_exchange_from_str env content)
      | SfXml \<Rightarrow> parse_xml_instances env content)"

definition exchange_payload :: "serial_env \<Rightarrow> model_registry \<Rightarrow> mim_instance list \<Rightarrow> json" where
  "exchange_payload env reg is =
     JObject [(''modelVersion'', JString (mr_version reg)),
       (''instances'', JArray (map (instance_to_json (sx_metadata_json env)) is))]"

definition jsonld_exchange_payload :: "serial_env \<Rightarrow> model_registry \<Rightarrow> mim_instance list \<Rightarrow> json" where
  "jsonld_exchange_payload env reg is =
     JObject [(''@context'', JString MIM_JSONLD_CONTEXT), (''model_version'', JString (mr_version reg)),
       (''instances'', JArray (map (instance_to_json (sx_metadata_json env)) is))]"

definition sx_serialize_store ::
  "serial_env \<Rightarrow> model_registry \<Rightarrow> instance_store \<Rightarrow> serialization_format \<Rightarrow> mim_error + string" where
  "sx_serialize_store env reg s f =
     (let is = store_instances s in
      case f of
        SfJson \<Rightarrow> serialization_error (sx_json_pretty env (exchange_payload env reg is))
      | SfJsonLd \<Rightarrow> serialization_error (sx_json_pretty env (jsonld_exchange_payload env reg is))
      | SfXml \<Rightarrow> and_then (store_events env is) (\<lambda>evs. serialization_error (sx_write env evs)))"

section \<open>What the XML form keeps\<close>

text \<open>Written and read back, an instance keeps its identifier, class, semantic identifier and the nil or
  present properties; its metadata, its associations, the semantic identifiers of its properties and
  its absent properties are gone.\<close>

definition property_image :: "property_value \<Rightarrow> property_value option" where
  "property_image p =
     (case pv_value p of
        Absent \<Rightarrow> None
      | v \<Rightarrow> Some \<lparr>pv_name = sanitize_chars (char_leads (pv_name p)), pv_semantic_id = None, pv_value = v\<rparr>)"

definition xml_instance_image :: "mim_instance \<Rightarrow> mim_instance" where
  "xml_instance_image i =
     \<lparr>mi_oid = mi_oid i, mi_class_name = sanitize_chars (char_leads (mi_class_name i)),
      mi_class_semantic_id = mi_class_semantic_id i, mi_metadata = metadata_default,
      mi_properties = List.map_filter property_image (mi_properties i), mi_associations = []\<rparr>"

text \<open>The JSON library reads back what it wrote, which is neither empty nor padded.\<close>

definition json_faithful :: "serial_env \<Rightarrow> json \<Rightarrow> bool" where
  "json_faithful env v \<longleftrightarrow>
     (\<forall>t. sx_json_write env v = Ok t \<longrightarrow> t \<noteq> [] \<and> trim t = t \<and> sx_json_read env t = Ok v)"

definition xml_safe :: "serial_env \<Rightarrow> mim_instance \<Rightarrow> bool" where
  "xml_safe env i \<longleftrightarrow>
     trim (oid_as_str (mi_oid i)) \<noteq> [] \<and>
     semantic_id_parse (sx_uuid_parse env) (semantic_id_as_str (mi_class_semantic_id i)) = Ok (mi_class_semantic_id i) \<and>
     sanitize_chars (char_leads (mi_class_name i)) \<noteq> ''Exchange'' \<and>
     (\<forall>p \<in> set (mi_properties i). \<forall>v. pv_value p = Value v \<longrightarrow> json_faithful env v)"

lemma sanitize_rest_no_colon: "sanitize_rest c \<noteq> CHR '':''"
  by (auto simp: sanitize_rest_def is_ascii_alphanumeric_def is_ascii_alphabetic_def Let_def)

lemma sanitize_first_no_colon: "CHR '':'' \<notin> set (sanitize_first c)"
  by (auto simp: sanitize_first_def is_ascii_alphanumeric_def is_ascii_alphabetic_def Let_def)

lemma sanitize_chars_no_colon: "CHR '':'' \<notin> set (sanitize_chars cs)"
  by (auto simp: sanitize_chars_def sanitize_first_no_colon sanitize_rest_no_colon [symmetric] split: list.split)

lemma local_name_plain: "CHR '':'' \<notin> set n \<Longrightarrow> local_name n = n"
  unfolding local_name_def by (subst split_on_none) auto

lemma local_name_sanitized [simp]: "local_name (sanitize_chars cs) = sanitize_chars cs"
  by (rule local_name_plain [OF sanitize_chars_no_colon])

lemma sanitize_Ok: "sanitize_xml_name n = Ok tag \<Longrightarrow> tag = sanitize_chars (char_leads n)"
  by (auto simp: sanitize_xml_name_def Let_def split: if_splits)

lemma written_attributes:
  "local_name ''oid'' = ''oid''" "local_name ''semanticId'' = ''semanticId''" "local_name ''xsi:nil'' = ''nil''"
  "local_name ''nilReason'' = ''nilReason''" "local_name ''mim:Exchange'' = ''Exchange''"
  by (simp_all add: local_name_def)

lemma nil_attributes:
  "is_xsi_nil [(''xsi:nil'', Ok ''true''), (''nilReason'', Ok (nil_reason_as_str r))]"
  "nil_reason_from_attribute [(''xsi:nil'', Ok ''true''), (''nilReason'', Ok (nil_reason_as_str r))] = r"
  by (simp_all add: is_xsi_nil_def nil_reason_from_attribute_def written_attributes nil_reason_round_trip)

lemma not_nil_empty: "\<not> is_xsi_nil []"
  by (simp add: is_xsi_nil_def)

lemma add_properties:
  "with_property p i = i\<lparr>mi_properties := mi_properties i @ [p]\<rparr>"
  by (simp add: with_property_def)

lemma read_written_property:
  assumes "write_property env p = Ok evs" and "\<And>v. pv_value p = Value v \<Longrightarrow> json_faithful env v"
  shows "parse_instance_body env class_tag i (map Ok evs @ es) =
     parse_instance_body env class_tag
       (i\<lparr>mi_properties := mi_properties i @ List.map_filter property_image [p]\<rparr>) es"
proof -
  from assms(1) obtain tag where tag: "sanitize_xml_name (pv_name p) = Ok tag"
    by (auto simp: write_property_def and_then_Inr_iff)
  note tag_facts = sanitize_Ok [OF tag]
  show ?thesis
  proof (cases "pv_value p")
    case (Value v)
    with assms(1) tag obtain t where t: "sx_json_write env v = Ok t"
      and evs: "evs = [SxStart tag [], SxText (Ok t), SxEnd tag]"
      by (auto simp: write_property_def and_then_Inr_iff serialization_error_def)
    from assms(2) [OF Value] t have "t \<noteq> []" "trim t = t" "sx_json_read env t = Ok v"
      by (auto simp: json_faithful_def)
    then show ?thesis
      using Value tag_facts
      by (simp add: evs parse_instance_body.simps(3) parse_property_element_def not_nil_empty
          parse_property_attributes_def property_json_def property_image_def add_properties map_filter_simps)
  next
    case (Nil_Because r)
    with assms(1) tag show ?thesis
      using tag_facts
      by (auto simp: write_property_def parse_instance_body.simps(3) parse_property_attributes_def nil_attributes
          property_nil_def property_image_def add_properties map_filter_simps)
  next
    case Absent
    with assms(1) tag show ?thesis by (simp add: write_property_def property_image_def map_filter_simps)
  qed
qed

lemma map_filter_Cons: "List.map_filter f (x # xs) = List.map_filter f [x] @ List.map_filter f xs"
  by (simp add: map_filter_simps split: option.split)

lemma read_written_properties:
  assumes "try_map (write_property env) ps = Ok fs"
    and "\<forall>p \<in> set ps. \<forall>v. pv_value p = Value v \<longrightarrow> json_faithful env v"
  shows "parse_instance_body env class_tag i (map Ok (concat fs) @ es) =
     parse_instance_body env class_tag (i\<lparr>mi_properties := mi_properties i @ List.map_filter property_image ps\<rparr>) es"
  using assms
proof (induction ps arbitrary: fs i)
  case (Cons p ps)
  from Cons.prems(1) obtain f fs' where f: "write_property env p = Ok f"
    and fs': "try_map (write_property env) ps = Ok fs'" and fs: "fs = f # fs'"
    by (auto simp: and_then_Inr_iff)
  have "parse_instance_body env class_tag i (map Ok f @ map Ok (concat fs') @ es) =
      parse_instance_body env class_tag (i\<lparr>mi_properties := mi_properties i @ List.map_filter property_image [p]\<rparr>)
        (map Ok (concat fs') @ es)"
    by (rule read_written_property [OF f]) (use Cons.prems(2) in auto)
  with Cons.IH [OF fs'] Cons.prems(2) show ?case
    by (subst map_filter_Cons) (simp add: fs)
qed (simp add: map_filter_simps)

lemma read_written_instance:
  assumes "write_instance_fragment env i = Ok evs" and "xml_safe env i"
  obtains tag attrs rest where "evs = SxStart tag attrs # rest" and "local_name tag \<noteq> ''Exchange''"
    and "is_instance_start attrs"
    and "\<And>es. parse_instance_element env tag attrs (map Ok rest @ es) = Ok (xml_instance_image i, es)"
proof -
  from assms(1) obtain tag fs where tag: "sanitize_xml_name (mi_class_name i) = Ok tag"
    and fs: "try_map (write_property env) (mi_properties i) = Ok fs"
    and evs: "evs = SxStart tag [(''oid'', Ok (oid_as_str (mi_oid i))),
        (''semanticId'', Ok (semantic_id_as_str (mi_class_semantic_id i)))] # concat fs @ [SxEnd tag]"
    by (auto simp: write_instance_fragment_def and_then_Inr_iff)
  note tag_facts = sanitize_Ok [OF tag]
  let ?attrs = "[(''oid'', Ok (oid_as_str (mi_oid i))),
      (''semanticId'', Ok (semantic_id_as_str (mi_class_semantic_id i)))] :: sx_attributes"
  have "parse_instance_attributes env tag ?attrs =
      Ok \<lparr>mi_oid = mi_oid i, mi_class_name = tag, mi_class_semantic_id = mi_class_semantic_id i,
          mi_metadata = metadata_default, mi_properties = [], mi_associations = []\<rparr>"
    using assms(2) tag_facts
    by (cases "mi_oid i")
      (simp add: parse_instance_attributes_def required_attribute_def written_attributes serialization_error_def
        xml_safe_def object_identifier_new_def mim_instance_new_def)
  then have "parse_instance_element env tag ?attrs (map Ok (concat fs @ [SxEnd tag]) @ es) = Ok (xml_instance_image i, es)" for es
    using read_written_properties [OF fs, of tag _ "Ok (SxEnd tag) # es"] assms(2) tag_facts
    by (simp add: parse_instance_element_def xml_safe_def parse_instance_body.simps(3) xml_instance_image_def)
  moreover have "is_instance_start ?attrs" by (simp add: is_instance_start_def written_attributes)
  moreover have "local_name tag \<noteq> ''Exchange''" using assms(2) tag_facts by (simp add: xml_safe_def)
  ultimately show ?thesis using that evs by blast
qed

lemma read_instance_start:
  assumes "local_name n \<noteq> ''Exchange''" and "is_instance_start attrs"
    and "parse_instance_element env n attrs es = Ok (i, rest)"
  shows "read_instances env b acc (Ok (SxStart n attrs) # es) = read_instances env b (acc @ [i]) rest"
  using assms by (simp add: read_instances.simps(3))

lemma read_written_instances:
  assumes "try_map (write_instance_fragment env) is = Ok fs" and "\<forall>i \<in> set is. xml_safe env i"
  shows "read_instances env b acc (map Ok (concat fs) @ es) = read_instances env b (acc @ map xml_instance_image is) es"
  using assms
proof (induction "is" arbitrary: fs acc)
  case (Cons i "is")
  from Cons.prems(1) obtain f fs' where f: "write_instance_fragment env i = Ok f"
    and fs': "try_map (write_instance_fragment env) is = Ok fs'" and fs: "fs = f # fs'"
    by (auto simp: and_then_Inr_iff)
  from Cons.prems(2) have safe: "xml_safe env i" by simp
  obtain tag attrs rest where f_eq: "f = SxStart tag attrs # rest"
    and start: "local_name tag \<noteq> ''Exchange''" "is_instance_start attrs"
    and element: "\<And>es. parse_instance_element env tag attrs (map Ok rest @ es) = Ok (xml_instance_image i, es)"
    using read_written_instance [OF f safe] by metis
  have "read_instances env b acc (map Ok (concat fs) @ es) =
      read_instances env b (acc @ [xml_instance_image i]) (map Ok (concat fs') @ es)"
    using read_instance_start [OF start element, of b acc "map Ok (concat fs') @ es"] by (simp add: fs f_eq)
  with Cons.IH [OF fs'] Cons.prems(2) show ?case by simp
qed simp

lemma read_instances_decl: "read_instances env b acc (Ok SxDecl # es) = read_instances env b acc es"
  by (simp add: read_instances.simps(3))

lemma xml_instance_read_back:
  assumes "instance_events env i = Ok evs" and "xml_safe env i" and "sx_read env content = map Ok evs"
  shows "sx_deserialize_instance env content SfXml = Ok (xml_instance_image i)"
proof -
  from assms(1) obtain f where f: "write_instance_fragment env i = Ok f" and evs: "evs = SxDecl # f"
    by (auto simp: instance_events_def and_then_Inr_iff)
  have "read_instances env False [] (map Ok f) = Ok [xml_instance_image i]"
    using read_written_instances [of env "[i]" "[f]" False "[]" "[]"] f assms(2) by simp
  then show ?thesis
    by (simp add: sx_deserialize_instance_def parse_xml_instances_def assms(3) evs read_instances_decl)
qed

text \<open>
  C31: a store of instances whose texts XML can carry, written as XML, reads back, in store order, as the image of each instance: identifier,
  class, semantic identifier and every nil or present property survive, under element names the reader
  takes apart; only an empty store does not read back.
\<close>

theorem xml_store_round_trip:
  assumes "store_events env (store_instances s) = Ok evs" and "\<forall>i \<in> set (store_instances s). xml_safe env i"
    and "sx_write env evs = Ok content" and "sx_read env content = map Ok evs"
  shows "sx_serialize_store env reg s SfXml = Ok content \<and>
     sx_deserialize_store env content SfXml =
       (if store_instances s = [] then Err (MimSerialization ''XML payload contains no MIM instance elements'')
        else Ok (map xml_instance_image (store_instances s)))"
proof -
  let ?is = "store_instances s"
  from assms(1) obtain fs where fs: "try_map (write_instance_fragment env) ?is = Ok fs"
    and evs: "evs = SxDecl # SxStart ''mim:Exchange'' exchange_attributes # concat fs @ [SxEnd ''mim:Exchange'']"
    by (auto simp: store_events_def and_then_Inr_iff)
  have "read_instances env False [] (map Ok evs) =
      read_instances env True [] (map Ok (concat fs) @ [Ok (SxEnd ''mim:Exchange'')])"
    by (simp add: evs read_instances.simps(3) written_attributes)
  also have "\<dots> = Ok (map xml_instance_image ?is)"
    using read_written_instances [OF fs assms(2), of True "[]"] by (simp add: read_instances.simps(3))
  finally show ?thesis
    using assms by (simp add: sx_serialize_store_def sx_deserialize_store_def parse_xml_instances_def
        serialization_error_def)
qed

section \<open>Nothing read from XML carries metadata\<close>

lemma parse_instance_attributes_metadata:
  "parse_instance_attributes env n attrs = Ok i \<Longrightarrow> mi_metadata i = metadata_default"
  by (auto simp: parse_instance_attributes_def and_then_Inr_iff mim_instance_new_def)

lemma parse_instance_body_metadata:
  "parse_instance_body env class_tag i es = Ok (j, rest) \<Longrightarrow> mi_metadata j = mi_metadata i"
proof (induction env class_tag i es rule: parse_instance_body.induct)
  case (3 env class_tag i ev es)
  then show ?case
    by (auto simp: parse_instance_body.simps(3) add_properties split: sx_event.splits sum.splits if_splits)
qed simp_all

lemma parse_instance_element_metadata:
  "parse_instance_element env n attrs es = Ok (i, rest) \<Longrightarrow> mi_metadata i = metadata_default"
  unfolding parse_instance_element_def and_then_Inr_iff
  by (metis parse_instance_attributes_metadata parse_instance_body_metadata)

definition bare :: "mim_instance list \<Rightarrow> bool" where
  "bare is \<longleftrightarrow> (\<forall>i \<in> set is. mi_metadata i = metadata_default)"

lemma bare_simps [simp]: "bare []" "bare (is @ [i]) \<longleftrightarrow> bare is \<and> mi_metadata i = metadata_default"
  by (auto simp: bare_def)

lemma read_instances_metadata: "read_instances env b acc es = Ok is \<Longrightarrow> bare acc \<Longrightarrow> bare is"
proof (induction es arbitrary: b acc rule: length_induct)
  case (1 es)
  have IH: "bare is" if "length es' < length es" "read_instances env b' acc' es' = Ok is" "bare acc'" for es' b' acc'
    using 1 that by blast
  show ?case
  proof (cases es)
    case (Cons x xs)
    show ?thesis
    proof (cases x)
      case (Inr ev)
      note step = "1.prems"(1) [unfolded Cons Inr read_instances.simps(3)]
      have tail: "bare is" if "read_instances env b' acc' xs = Ok is" "bare acc'" for b' acc'
        using IH [OF _ that] Cons by simp
      show ?thesis
      proof (cases ev)
        case (SxStart n attrs)
        show ?thesis
        proof (cases "local_name n \<noteq> ''Exchange'' \<and> (b \<or> acc \<noteq> [] \<or> is_instance_start attrs)")
          case True
          with step SxStart obtain i rest where i: "parse_instance_element env n attrs xs = Ok (i, rest)"
            and rest: "read_instances env b (acc @ [i]) rest = Ok is"
            by (auto split: sum.splits)
          have "length rest < length es" using parse_instance_element_rest [OF i] Cons by simp
          from IH [OF this rest] show ?thesis
            using parse_instance_element_metadata [OF i] "1.prems"(2) by simp
        next
          case False
          with step SxStart "1.prems"(2) show ?thesis by (auto split: if_splits intro: tail)
        qed
      next
        case (SxEmpty n attrs)
        show ?thesis
        proof (cases "is_instance_start attrs")
          case True
          with step SxEmpty obtain i where i: "parse_instance_attributes env n attrs = Ok i"
            and rest: "read_instances env b (acc @ [i]) xs = Ok is"
            by (auto split: sum.splits)
          from tail [OF rest] show ?thesis
            using parse_instance_attributes_metadata [OF i] "1.prems"(2) by simp
        qed (use step SxEmpty "1.prems"(2) tail in simp)
      qed (use step "1.prems"(2) tail in auto)
    qed (use "1.prems" Cons in simp)
  qed (use "1.prems" in simp)
qed

lemma xml_instance_metadata:
  assumes "sx_deserialize_instance env content SfXml = Ok i"
  shows "mi_metadata i = metadata_default"
proof -
  from assms obtain xs where xs: "parse_xml_instances env content = Ok xs"
    and i: "(case xs of [] \<Rightarrow> Err (MimSerialization ''XML payload contains no MIM instance'') | j # _ \<Rightarrow> Ok j) = Ok i"
    unfolding sx_deserialize_instance_def serialization_format.case and_then_Inr_iff by blast
  from i have "i \<in> set xs" by (cases xs) auto
  moreover have "read_instances env False [] (sx_read env content) = Ok xs"
    using xs by (auto simp: parse_xml_instances_def and_then_Inr_iff split: if_splits)
  from read_instances_metadata [OF this] have "bare xs" by simp
  ultimately show ?thesis by (simp add: bare_def)
qed

section \<open>Names that are not names\<close>

text \<open>The first character is dropped when it cannot start a name, and the next one is then taken by the
  rule for later characters: a digit can become the first character of an element name.\<close>

lemma sanitized_name_starts_with_digit: "sanitize_xml_name ''-1'' = Ok ''1''"
  by (simp add: sanitize_xml_name_def char_leads_def utf8_continues_def sanitize_chars_def sanitize_first_def
      sanitize_rest_def is_ascii_alphanumeric_def is_ascii_alphabetic_def)

section \<open>Samples\<close>

definition sealed_target :: mim_instance where
  "sealed_target =
     (mim_instance_new ''7'' ''Target'' (SemanticId ''c''))
       \<lparr>mi_metadata := metadata_default\<lparr>md_security := security_default\<lparr>sc_classification := Value ''SECRET''\<rparr>\<rparr>,
        mi_properties := [property_string ''nameText'' ''H'', property_nil ''side'' Withheld]\<rparr>"

definition sealed_store :: instance_store where
  "sealed_store = \<lparr>is_instances = [(mi_oid sealed_target, sealed_target)]\<rparr>"

definition toy_json_write :: "json \<Rightarrow> string + string" where
  "toy_json_write v = (case v of JString s \<Rightarrow> Ok ([CHR 0x22] @ s @ [CHR 0x22]) | _ \<Rightarrow> Err ''not a string'')"

definition toy_json_read :: "string \<Rightarrow> string + json" where
  "toy_json_read t = (if t = [] then Err ''EOF'' else Ok (JString (butlast (tl t))))"

text \<open>An environment that can write and read the document of the sample store.\<close>

definition toy_serial_env :: serial_env where
  "toy_serial_env =
     \<lparr>sx_write = (\<lambda>_. Ok ''<doc>''),
      sx_read = (\<lambda>_. [Ok SxDecl, Ok (SxStart ''mim:Exchange'' exchange_attributes),
         Ok (SxStart ''Target'' [(''oid'', Ok ''urn:uuid:7''), (''semanticId'', Ok ''c'')]),
         Ok (SxStart ''nameText'' []), Ok (SxText (Ok [CHR 0x22, CHR ''H'', CHR 0x22])), Ok (SxEnd ''nameText''),
         Ok (SxEmpty ''side'' [(''xsi:nil'', Ok ''true''), (''nilReason'', Ok ''withheld'')]),
         Ok (SxEnd ''Target''), Ok (SxEnd ''mim:Exchange'')]),
      sx_json_write = toy_json_write, sx_json_pretty = (\<lambda>_. Err ''no printer''), sx_json_read = toy_json_read,
      sx_metadata_json = (\<lambda>_. JNull), sx_instance_of_json = (\<lambda>_. Err ''no decoder''),
      sx_instance_from_str = (\<lambda>_. Err ''no decoder''), sx_exchange_from_str = (\<lambda>_. Err ''no decoder''),
      sx_jsonld_exchange_from_str = (\<lambda>_. Err ''no decoder''), sx_uuid_parse = Some, sx_fresh_uuid = ''0''\<rparr>"

lemmas sample_name_simps = char_leads_def utf8_continues_def sanitize_chars_def sanitize_first_def
  sanitize_rest_def is_ascii_alphanumeric_def is_ascii_alphabetic_def

lemma sample_names:
  "sanitize_chars (char_leads ''Target'') = ''Target''" "sanitize_chars (char_leads ''nameText'') = ''nameText''"
  "sanitize_chars (char_leads ''side'') = ''side''"
  by (simp_all add: sample_name_simps)

lemma sample_tags:
  "sanitize_xml_name ''Target'' = Ok ''Target''" "sanitize_xml_name ''nameText'' = Ok ''nameText''"
  "sanitize_xml_name ''side'' = Ok ''side''"
  by (simp_all add: sanitize_xml_name_def sample_names)

lemma sealed_target_fields:
  "mi_class_name sealed_target = ''Target''" "mi_oid sealed_target = ObjectIdentifier ''urn:uuid:7''"
  "mi_class_semantic_id sealed_target = SemanticId ''c''"
  "mi_properties sealed_target = [property_string ''nameText'' ''H'', property_nil ''side'' Withheld]"
  by (simp_all add: sealed_target_def mim_instance_new_def generate_urn_def)

lemma sealed_store_instances: "store_instances sealed_store = [sealed_target]"
  by (simp add: store_instances_def sealed_store_def im_values_def)

lemma sample_store_events:
  "map Ok (SxDecl # SxStart ''mim:Exchange'' exchange_attributes #
     [SxStart ''Target'' [(''oid'', Ok ''urn:uuid:7''), (''semanticId'', Ok ''c'')],
      SxStart ''nameText'' [], SxText (Ok [CHR 0x22, CHR ''H'', CHR 0x22]), SxEnd ''nameText'',
      SxEmpty ''side'' [(''xsi:nil'', Ok ''true''), (''nilReason'', Ok ''withheld'')], SxEnd ''Target''] @
     [SxEnd ''mim:Exchange'']) = sx_read toy_serial_env ''<doc>''"
  by (simp add: toy_serial_env_def)

lemma sealed_store_events:
  "store_events toy_serial_env [sealed_target] = Ok (SxDecl # SxStart ''mim:Exchange'' exchange_attributes #
     [SxStart ''Target'' [(''oid'', Ok ''urn:uuid:7''), (''semanticId'', Ok ''c'')],
      SxStart ''nameText'' [], SxText (Ok [CHR 0x22, CHR ''H'', CHR 0x22]), SxEnd ''nameText'',
      SxEmpty ''side'' [(''xsi:nil'', Ok ''true''), (''nilReason'', Ok ''withheld'')], SxEnd ''Target''] @
     [SxEnd ''mim:Exchange''])"
  by (simp add: store_events_def write_instance_fragment_def sealed_target_fields sample_tags write_property_def
      property_string_def property_nil_def toy_serial_env_def toy_json_write_def serialization_error_def)

lemma sealed_target_safe: "xml_safe toy_serial_env sealed_target"
  by (auto simp: xml_safe_def sealed_target_fields sample_names property_string_def property_nil_def
      json_faithful_def toy_serial_env_def toy_json_write_def toy_json_read_def semantic_id_parse_def trim_id
      ws_lead_def ws_tail_def white_space_seqs_def)

theorem xml_store_round_trip_witness:
  "sx_deserialize_store toy_serial_env ''<doc>'' SfXml = Ok [xml_instance_image sealed_target] \<and>
     md_security (mi_metadata (xml_instance_image sealed_target)) = security_default \<and>
     md_security (mi_metadata sealed_target) \<noteq> security_default"
  using xml_store_round_trip [of toy_serial_env sealed_store _ "''<doc>''", OF _ _ _ sample_store_events [symmetric]]
    sealed_store_events sealed_target_safe
  by (simp add: sealed_store_instances toy_serial_env_def xml_instance_image_def sealed_target_def metadata_default_def
      security_default_def)

end
