(* ===== verification/Subject_Identity.thy ===== *)
theory Subject_Identity
  imports Policy_Store Crypto
begin

text \<open>
  Who asks: the subject directory of \<open>mim-policy\<close> (\<open>ldap_pip.rs\<close>, \<open>live_ldap.rs\<close>), the bearer adapter
  (\<open>saml_pip.rs\<close>), the resolver over them (\<open>subject_resolver.rs\<close>) and the resolution of the subject of a
  request (\<open>identity.rs\<close> of \<open>mim-transport-http\<close>). The LDAP server, the HTTP gateway, base64, JSON, TOML,
  files and the X.509 parser are the record \<open>identity_env\<close>. A header map gives the text of the first
  value of a header, by its lower-case name.
\<close>

section \<open>Configuration and entries (\<open>ldap_pip.rs\<close>)\<close>

record ldap_server_config =
  lc_server :: string
  lc_base_dn :: string
  lc_bind_dn :: "string option"
  lc_search_filter :: "string option"
  lc_fixture_mode :: bool

record cert_subject_mapping =
  cs_cn :: string
  cs_principal :: string

record cert_fingerprint_mapping =
  cfm_cert_sha256 :: string
  cfm_principal :: string

record ldap_pip_config =
  lp_ldap :: ldap_server_config
  lp_entries_file :: "string option"
  lp_cert_mappings :: "cert_subject_mapping list"
  lp_cert_fingerprint_mappings :: "cert_fingerprint_mapping list"
  lp_default_domain_id :: "string option"

record ldap_subject_entry =
  ls_principal :: string
  ls_subject_id :: string
  ls_clearance :: string
  ls_nationality :: "string option"
  ls_handling_caveats :: "string list"
  ls_mission_id :: "string option"

record ldap_directory =
  ld_config :: ldap_pip_config
  ld_entries :: "(string, ldap_subject_entry) index_map"
  ld_cert_to_principal :: "(string, string) index_map"
  ld_fingerprint_to_principal :: "(string, string) index_map"

text \<open>The claims of a bearer token (\<open>saml_pip.rs\<close>).\<close>

record saml_subject_claims =
  sc_subject_id :: string
  sc_clearance :: string
  sc_nationality :: "string option"
  sc_handling_caveats :: "string list"
  sc_mission_id :: "string option"

text \<open>\<open>ie_gateway\<close> answers a status and the body; \<open>ie_search\<close> answers the entries of a search, each with
  the values of its attributes.\<close>

record identity_env =
  ie_read_file :: "string \<Rightarrow> string + string"
  ie_toml_config :: "string \<Rightarrow> string + ldap_pip_config"
  ie_toml_entries :: "string \<Rightarrow> string + ldap_subject_entry list"
  ie_gateway :: "string \<Rightarrow> string \<Rightarrow> string \<Rightarrow> string + nat \<times> (string + ldap_subject_entry)"
  ie_connect :: "string \<Rightarrow> string + unit"
  ie_bind :: "string \<Rightarrow> string \<Rightarrow> string \<Rightarrow> string + string + unit"
  ie_bind_password :: "string option"
  ie_search :: "string \<Rightarrow> string \<Rightarrow> string \<Rightarrow> string + string + (string \<Rightarrow> string list option) list"
  ie_decode_url :: "string \<Rightarrow> string + bytes"
  ie_decode_std :: "string \<Rightarrow> string + bytes"
  ie_claims :: "bytes \<Rightarrow> string + saml_subject_claims"

definition normalize_principal :: "string \<Rightarrow> string" where
  "normalize_principal who = to_ascii_lowercase (trim who)"

definition parse_clearance :: "string \<Rightarrow> policy_error + classification_level" where
  "parse_clearance value = map_err policy_error_of_label (classification_parse value)"

definition directory_from_config :: "ldap_pip_config \<Rightarrow> ldap_subject_entry list \<Rightarrow> ldap_directory" where
  "directory_from_config config entries =
     \<lparr>ld_config = config,
      ld_entries = im_collect (map (\<lambda>e. (normalize_principal (ls_principal e), e)) entries),
      ld_cert_to_principal = im_collect (map (\<lambda>m. (cs_cn m, cs_principal m)) (lp_cert_mappings config)),
      ld_fingerprint_to_principal =
        im_collect (map (\<lambda>m. (to_ascii_lowercase (cfm_cert_sha256 m), cfm_principal m))
          (lp_cert_fingerprint_mappings config))\<rparr>"

definition ldap_relative_path :: "string option \<Rightarrow> string \<Rightarrow> string" where
  "ldap_relative_path base_dir relative =
     (if starts_with relative ''/'' then relative
      else case base_dir of Some dir \<Rightarrow> path_join dir relative | None \<Rightarrow> relative)"

definition load_config :: "identity_env \<Rightarrow> ldap_pip_config \<Rightarrow> string option \<Rightarrow> policy_error + ldap_directory" where
  "load_config env config base_dir =
     (if \<not> lc_fixture_mode (lp_ldap config) then Ok (directory_from_config config [])
      else
        let entries_path =
          (case lp_entries_file config of
             Some relative \<Rightarrow> ldap_relative_path base_dir relative
           | None \<Rightarrow>
               (case base_dir of
                  Some dir \<Rightarrow> path_join dir ''fmn-ldap-entries.toml''
                | None \<Rightarrow> ''config/fmn-ldap-entries.toml''))
        in and_then (map_err (\<lambda>e. PeInvalid (''read LDAP entries '' @ entries_path @ '': '' @ e))
                (ie_read_file env entries_path)) (\<lambda>content.
           and_then (map_err (\<lambda>e. PeInvalid (''parse LDAP entries '' @ entries_path @ '': '' @ e))
                (ie_toml_entries env content)) (\<lambda>entries.
             Ok (directory_from_config config entries))))"

text \<open>\<open>load_path\<close>; the parent directory of the path is an argument.\<close>

definition ldap_load_path ::
  "identity_env \<Rightarrow> string \<Rightarrow> string option \<Rightarrow> policy_error + ldap_directory" where
  "ldap_load_path env path parent =
     and_then (map_err (\<lambda>e. PeInvalid (''read LDAP PIP config '' @ path @ '': '' @ e)) (ie_read_file env path)) (\<lambda>content.
     and_then (map_err (\<lambda>e. PeInvalid (''parse LDAP PIP config '' @ path @ '': '' @ e)) (ie_toml_config env content)) (\<lambda>config.
       load_config env config parent))"

definition analyst_entry :: "string \<Rightarrow> string \<Rightarrow> ldap_subject_entry" where
  "analyst_entry subject_id country =
     \<lparr>ls_principal = ''uid='' @ subject_id @ '',ou='' @ country @ '',ou=operators,dc=nato,dc=int'',
      ls_subject_id = subject_id, ls_clearance = ''SECRET'', ls_nationality = Some country,
      ls_handling_caveats = [], ls_mission_id = None\<rparr>"

definition conformance_directory :: ldap_directory where
  "conformance_directory =
     directory_from_config
       \<lparr>lp_ldap =
          \<lparr>lc_server = ''ldap://fmn-nato-exercise.mil'', lc_base_dn = ''ou=operators,dc=nato,dc=int'',
           lc_bind_dn = None, lc_search_filter = Some ''(uid={principal})'', lc_fixture_mode = True\<rparr>,
        lp_entries_file = None,
        lp_cert_mappings =
          [\<lparr>cs_cn = ''usa-analyst.nato.mil'', cs_principal = ''uid=usa-analyst,ou=USA,ou=operators,dc=nato,dc=int''\<rparr>,
           \<lparr>cs_cn = ''gbr-analyst.nato.mil'', cs_principal = ''uid=gbr-analyst,ou=GBR,ou=operators,dc=nato,dc=int''\<rparr>],
        lp_cert_fingerprint_mappings = [], lp_default_domain_id = Some ''DOMAIN-HIGH''\<rparr>
       [analyst_entry ''usa-analyst'' ''USA'', analyst_entry ''gbr-analyst'' ''GBR'', analyst_entry ''deu-analyst'' ''DEU'']"

definition subject_of ::
  "string \<Rightarrow> classification_level \<Rightarrow> string option \<Rightarrow> string list \<Rightarrow> string option \<Rightarrow> subject_attributes" where
  "subject_of subject_id clearance nationality caveats mission =
     (let s0 = subject_new subject_id clearance;
          s1 = (case nationality of Some n \<Rightarrow> with_nationality n s0 | None \<Rightarrow> s0);
          s2 = fold with_handling_caveat caveats s1
      in case mission of Some m \<Rightarrow> with_mission_id m s2 | None \<Rightarrow> s2)"

definition entry_subject :: "ldap_subject_entry \<Rightarrow> policy_error + subject_attributes" where
  "entry_subject e =
     and_then (parse_clearance (ls_clearance e)) (\<lambda>clearance.
       Ok (subject_of (ls_subject_id e) clearance (ls_nationality e) (ls_handling_caveats e) (ls_mission_id e)))"

section \<open>Live search (\<open>live_ldap.rs\<close>)\<close>

definition principal_uid_for_search :: "string \<Rightarrow> string" where
  "principal_uid_for_search who =
     (let trimmed = trim who in
      case strip_prefix ''uid='' trimmed of
        Some rest \<Rightarrow> hd (split_on (\<lambda>c. c = CHR '','') rest)
      | None \<Rightarrow> trimmed)"

definition build_search_filter :: "ldap_pip_config \<Rightarrow> string \<Rightarrow> string" where
  "build_search_filter config who =
     str_replace ''{principal}'' (principal_uid_for_search who)
       (case lc_search_filter (lp_ldap config) of Some f \<Rightarrow> f | None \<Rightarrow> ''(uid={principal})'')"

definition first_value :: "(string \<Rightarrow> string list option) \<Rightarrow> string \<Rightarrow> string option" where
  "first_value attrs name = Option.bind (attrs name) (\<lambda>vs. case vs of [] \<Rightarrow> None | v # _ \<Rightarrow> Some v)"

definition search_http_gateway ::
  "identity_env \<Rightarrow> string \<Rightarrow> string \<Rightarrow> string \<Rightarrow> policy_error + subject_attributes" where
  "search_http_gateway env endpoint who f =
     and_then (map_err (\<lambda>e. PeInvalid (''LDAP HTTP gateway '' @ endpoint @ '': '' @ e)) (ie_gateway env endpoint who f))
       (\<lambda>(status, body).
         if status \<noteq> 200 then Err (PeNotFound (''LDAP HTTP gateway returned HTTP '' @ show_nat status))
         else and_then (map_err (\<lambda>e. PeInvalid (''LDAP HTTP gateway JSON: '' @ e)) body) entry_subject)"

definition found_entry :: "string \<Rightarrow> (string \<Rightarrow> string list option) \<Rightarrow> policy_error + subject_attributes" where
  "found_entry who attrs =
     and_then (ok_or (PeInvalid ''LDAP entry missing natoClearance'') (first_value attrs ''natoClearance'')) (\<lambda>clearance.
       entry_subject
         \<lparr>ls_principal = who,
          ls_subject_id =
            (case Option.bind (case attrs ''uid'' of Some vs \<Rightarrow> Some vs | None \<Rightarrow> attrs ''cn'')
                (\<lambda>vs. case vs of [] \<Rightarrow> None | v # _ \<Rightarrow> Some v) of
               Some i \<Rightarrow> i
             | None \<Rightarrow> principal_uid_for_search who),
          ls_clearance = clearance, ls_nationality = first_value attrs ''natoNationality'',
          ls_handling_caveats = (case attrs ''natoHandlingCaveats'' of Some cs \<Rightarrow> cs | None \<Rightarrow> []),
          ls_mission_id = first_value attrs ''natoMissionId''\<rparr>)"

definition search_ldap3_blocking ::
  "identity_env \<Rightarrow> ldap_server_config \<Rightarrow> string \<Rightarrow> string \<Rightarrow> policy_error + subject_attributes" where
  "search_ldap3_blocking env c who f =
     and_then (map_err (\<lambda>e. PeInvalid (''LDAP connect '' @ lc_server c @ '': '' @ e)) (ie_connect env (lc_server c))) (\<lambda>_.
     and_then
       (case lc_bind_dn c of
          None \<Rightarrow> Ok ()
        | Some dn \<Rightarrow>
            and_then (map_err (\<lambda>e. PeInvalid (''LDAP bind: '' @ e))
                (ie_bind env (lc_server c) dn (case ie_bind_password env of Some p \<Rightarrow> p | None \<Rightarrow> [])))
              (map_err (\<lambda>e. PeInvalid (''LDAP bind failed: '' @ e)))) (\<lambda>_.
     and_then (map_err (\<lambda>e. PeInvalid (''LDAP search: '' @ e)) (ie_search env (lc_server c) (lc_base_dn c) f)) (\<lambda>answer.
     and_then (map_err (\<lambda>e. PeInvalid (''LDAP search failed: '' @ e)) answer) (\<lambda>entries.
       case entries of
         [] \<Rightarrow> Err (PeNotFound (''LDAP principal '' @ quoted who @ '' not found''))
       | attrs # _ \<Rightarrow> found_entry who attrs))))"

definition search_principal ::
  "identity_env \<Rightarrow> ldap_pip_config \<Rightarrow> string \<Rightarrow> policy_error + subject_attributes" where
  "search_principal env config who =
     (let c = lp_ldap config; f = build_search_filter config who in
      if starts_with (lc_server c) ''http://'' \<or> starts_with (lc_server c) ''https://'' then
        search_http_gateway env (lc_server c) who f
      else search_ldap3_blocking env c who f)"

section \<open>The directory\<close>

definition find_entry :: "ldap_directory \<Rightarrow> string \<Rightarrow> ldap_subject_entry option" where
  "find_entry d who =
     (let normalized = normalize_principal who in
      case im_get (ld_entries d) normalized of
        Some e \<Rightarrow> Some e
      | None \<Rightarrow> find (\<lambda>e. ls_subject_id e = normalized) (im_values (ld_entries d)))"

definition resolve_principal ::
  "identity_env \<Rightarrow> ldap_directory \<Rightarrow> string \<Rightarrow> policy_error + subject_attributes" where
  "resolve_principal env d who =
     (if lc_fixture_mode (lp_ldap (ld_config d)) then
        and_then (ok_or (PeNotFound (''LDAP principal '' @ quoted who @ '' not found in fixture directory''))
            (find_entry d who)) entry_subject
      else search_principal env (ld_config d) who)"

definition resolve_cert_cn ::
  "identity_env \<Rightarrow> ldap_directory \<Rightarrow> string \<Rightarrow> policy_error + subject_attributes" where
  "resolve_cert_cn env d cn =
     resolve_principal env d
       (case im_get (ld_cert_to_principal d) cn of
          Some p \<Rightarrow> p
        | None \<Rightarrow> ''uid='' @ cn @ '',ou=operators,dc=nato,dc=int'')"

definition resolve_cert_fingerprint ::
  "identity_env \<Rightarrow> ldap_directory \<Rightarrow> string \<Rightarrow> policy_error + subject_attributes" where
  "resolve_cert_fingerprint env d fingerprint =
     (let normalized = to_ascii_lowercase (trim fingerprint) in
      and_then (ok_or (PeNotFound (''certificate fingerprint '' @ quoted fingerprint @
            '' not registered in LDAP directory'')) (im_get (ld_fingerprint_to_principal d) normalized))
        (resolve_principal env d))"

definition resolve_cert_cn_or_principal ::
  "identity_env \<Rightarrow> ldap_directory \<Rightarrow> string \<Rightarrow> policy_error + subject_attributes" where
  "resolve_cert_cn_or_principal env d identity =
     (if im_contains (ld_cert_to_principal d) identity then resolve_cert_cn env d identity
      else if im_contains (ld_entries d) (normalize_principal identity) \<or>
        list_ex (\<lambda>e. ls_subject_id e = identity) (im_values (ld_entries d)) then
        resolve_principal env d identity
      else resolve_cert_cn env d identity)"

section \<open>Bearer tokens (\<open>saml_pip.rs\<close>)\<close>

definition claims_subject :: "saml_subject_claims \<Rightarrow> policy_error + subject_attributes" where
  "claims_subject c =
     and_then (map_err (\<lambda>e. PeInvalid (''SAML clearance '' @ quoted (sc_clearance c) @ '': '' @ show_label_error e))
         (classification_parse (sc_clearance c))) (\<lambda>clearance.
       Ok (subject_of (sc_subject_id c) clearance (sc_nationality c) (sc_handling_caveats c) (sc_mission_id c)))"

definition resolve_saml_bearer :: "identity_env \<Rightarrow> string \<Rightarrow> policy_error + subject_attributes" where
  "resolve_saml_bearer env authorization =
     and_then (ok_or (PeInvalid ''expected Bearer authorization scheme'')
         (case strip_prefix ''Bearer '' authorization of
            Some t \<Rightarrow> Some t
          | None \<Rightarrow> strip_prefix ''bearer '' authorization)) (\<lambda>raw.
       let token = trim raw in
       and_then (map_err (\<lambda>e. PeInvalid (''SAML bearer decode: '' @ e))
           (case ie_decode_url env token of Inr b \<Rightarrow> Ok b | Inl _ \<Rightarrow> ie_decode_std env token)) (\<lambda>bytes.
       and_then (map_err (\<lambda>e. PeInvalid (''SAML bearer JSON: '' @ e)) (ie_claims env bytes)) claims_subject))"

section \<open>The resolver (\<open>subject_resolver.rs\<close>)\<close>

record subject_resolver =
  sr_ldap :: ldap_directory
  sr_fallback :: "subject_attributes option"

definition resolver_new :: "ldap_directory \<Rightarrow> subject_resolver" where
  "resolver_new d = \<lparr>sr_ldap = d, sr_fallback = None\<rparr>"

definition with_fallback :: "subject_attributes \<Rightarrow> subject_resolver \<Rightarrow> subject_resolver" where
  "with_fallback su r = r\<lparr>sr_fallback := Some su\<rparr>"

definition is_ascii_hexdigit :: "char \<Rightarrow> bool" where
  "is_ascii_hexdigit c \<longleftrightarrow>
     (let n = (of_char c :: nat) in (48 \<le> n \<and> n \<le> 57) \<or> (65 \<le> n \<and> n \<le> 70) \<or> (97 \<le> n \<and> n \<le> 102))"

text \<open>The body of \<open>resolve\<close>, over two operations of the directory.\<close>

definition resolve_over ::
  "(string \<Rightarrow> policy_error + subject_attributes) \<Rightarrow> (string \<Rightarrow> policy_error + subject_attributes) \<Rightarrow>
     subject_attributes option \<Rightarrow> string \<Rightarrow> policy_error + subject_attributes" where
  "resolve_over by_fingerprint by_identity fallback identity =
     (let by_name =
        (case by_identity identity of
           Inr su \<Rightarrow> Ok su
         | Inl _ \<Rightarrow>
             (case fallback of
                Some su \<Rightarrow>
                  if su_subject_id su = identity then Ok su
                  else Err (PeNotFound (''unresolved identity '' @ quoted identity))
              | None \<Rightarrow> Err (PeNotFound (''unresolved identity '' @ quoted identity))))
      in if length identity = 64 \<and> list_all is_ascii_hexdigit identity then
           (case by_fingerprint identity of Inr su \<Rightarrow> Ok su | Inl _ \<Rightarrow> by_name)
         else by_name)"

definition resolver_resolve ::
  "identity_env \<Rightarrow> subject_resolver \<Rightarrow> string \<Rightarrow> policy_error + subject_attributes" where
  "resolver_resolve env r identity =
     resolve_over (resolve_cert_fingerprint env (sr_ldap r)) (resolve_cert_cn_or_principal env (sr_ldap r))
       (sr_fallback r) identity"

text \<open>\<open>from_env\<close> takes its path from the environment; \<open>conformance\<close> is the built-in directory.\<close>

definition resolver_from_env ::
  "identity_env \<Rightarrow> string option \<Rightarrow> (string \<Rightarrow> string option) \<Rightarrow> policy_error + subject_resolver" where
  "resolver_from_env env var parent_of =
     (let path = (case var of Some p \<Rightarrow> p | None \<Rightarrow> ''config/fmn-ldap-pip.toml'') in
      and_then (ldap_load_path env path (parent_of path)) (\<lambda>d. Ok (resolver_new d)))"

definition resolver_conformance :: subject_resolver where
  "resolver_conformance = resolver_new conformance_directory"

section \<open>The subject of a request (\<open>identity.rs\<close>)\<close>

type_synonym header_map = "string \<Rightarrow> string option"

record tls_client_identity =
  ti_cn :: string
  ti_cert_sha256 :: "string option"
  ti_subject_dn :: "string option"

definition HEADER_MIM_CLIENT_CN :: string where
  "HEADER_MIM_CLIENT_CN = ''x-mim-client-cn''"

definition HEADER_MIM_CLIENT_PRINCIPAL :: string where
  "HEADER_MIM_CLIENT_PRINCIPAL = ''x-mim-client-principal''"

definition HEADER_MIM_CLIENT_CERT_SHA256 :: string where
  "HEADER_MIM_CLIENT_CERT_SHA256 = ''x-mim-client-cert-sha256''"

definition HEADER_AUTHORIZATION :: string where
  "HEADER_AUTHORIZATION = ''authorization''"

text \<open>A certificate parses to its relative names, each a list of attributes: whether it is the common
  name, and its text when it has one.\<close>

definition client_cn_from_cert_der :: "(bytes \<Rightarrow> (bool \<times> string option) list list option) \<Rightarrow> bytes \<Rightarrow> string option" where
  "client_cn_from_cert_der x509 der =
     Option.bind (x509 der) (\<lambda>rdns. find_map (\<lambda>(is_cn, s). if is_cn then s else None) (concat rdns))"

definition is_bearer :: "string \<Rightarrow> bool" where
  "is_bearer a \<longleftrightarrow> starts_with a ''Bearer '' \<or> starts_with a ''bearer ''"

definition resolve_by_headers ::
  "identity_env \<Rightarrow> subject_resolver \<Rightarrow> header_map \<Rightarrow> tls_client_identity option \<Rightarrow> bool \<Rightarrow>
     policy_error + subject_attributes" where
  "resolve_by_headers env r headers tls require_identity =
     (case headers HEADER_MIM_CLIENT_PRINCIPAL of
        Some who \<Rightarrow> resolver_resolve env r who
      | None \<Rightarrow>
     (case headers HEADER_MIM_CLIENT_CERT_SHA256 of
        Some fingerprint \<Rightarrow> resolve_cert_fingerprint env (sr_ldap r) fingerprint
      | None \<Rightarrow>
     (case headers HEADER_MIM_CLIENT_CN of
        Some cn \<Rightarrow> resolver_resolve env r cn
      | None \<Rightarrow>
     (case tls of
        Some t \<Rightarrow>
          (case Option.bind (ti_cert_sha256 t) (\<lambda>f. result_ok (resolve_cert_fingerprint env (sr_ldap r) f)) of
             Some su \<Rightarrow> Ok su
           | None \<Rightarrow> resolver_resolve env r (ti_cn t))
      | None \<Rightarrow>
          if require_identity then Err (PeDenied ''mTLS client identity required for PEP-gated access'')
          else Err (PeNotFound
            ''no client identity in request (mTLS cert fingerprint, CN, or X-MIM-Client-CN header)'')))))"

definition resolve_request_subject ::
  "identity_env \<Rightarrow> subject_resolver \<Rightarrow> header_map \<Rightarrow> tls_client_identity option \<Rightarrow> bool \<Rightarrow>
     policy_error + subject_attributes" where
  "resolve_request_subject env r headers tls require_identity =
     (case headers HEADER_AUTHORIZATION of
        Some a \<Rightarrow>
          if is_bearer a then resolve_saml_bearer env a
          else resolve_by_headers env r headers tls require_identity
      | None \<Rightarrow> resolve_by_headers env r headers tls require_identity)"

section \<open>The directory contract (\<open>subject_directory.rs\<close>)\<close>

text \<open>What the resolver relies on: the operations of a directory answer subjects it knows.\<close>

locale subject_directory =
  fixes by_fingerprint :: "'d \<Rightarrow> string \<Rightarrow> policy_error + subject_attributes"
    and by_identity :: "'d \<Rightarrow> string \<Rightarrow> policy_error + subject_attributes"
    and knows :: "'d \<Rightarrow> subject_attributes \<Rightarrow> bool"
  assumes fingerprint_known: "by_fingerprint d f = Ok su \<Longrightarrow> knows d su"
    and identity_known: "by_identity d i = Ok su \<Longrightarrow> knows d su"
begin

lemma resolve_known:
  "resolve_over (by_fingerprint d) (by_identity d) fallback i = Ok su \<Longrightarrow>
     knows d su \<or> (fallback = Some su \<and> su_subject_id su = i)"
  using fingerprint_known [of d i su] identity_known [of d i su]
  by (auto simp: resolve_over_def Let_def split: if_splits sum.splits option.splits)

end

definition directory_knows :: "identity_env \<Rightarrow> ldap_directory \<Rightarrow> subject_attributes \<Rightarrow> bool" where
  "directory_knows env d su \<longleftrightarrow>
     (if lc_fixture_mode (lp_ldap (ld_config d)) then
        (\<exists>e \<in> set (im_values (ld_entries d)). entry_subject e = Ok su)
      else \<exists>who. search_principal env (ld_config d) who = Ok su)"

lemma find_entry_in: "find_entry d who = Some e \<Longrightarrow> e \<in> set (im_values (ld_entries d))"
  by (auto simp: find_entry_def Let_def im_values_def image_iff split: option.splits
      dest!: im_getD find_SomeD intro: bexI [rotated])

lemma resolve_principal_known: "resolve_principal env d who = Ok su \<Longrightarrow> directory_knows env d su"
  by (auto simp: resolve_principal_def directory_knows_def and_then_Inr_iff dest: find_entry_in split: if_splits)

lemma resolve_cert_cn_known: "resolve_cert_cn env d cn = Ok su \<Longrightarrow> directory_knows env d su"
  by (simp add: resolve_cert_cn_def resolve_principal_known)

lemma resolve_cert_fingerprint_known: "resolve_cert_fingerprint env d f = Ok su \<Longrightarrow> directory_knows env d su"
  by (auto simp: resolve_cert_fingerprint_def and_then_Inr_iff Let_def dest: resolve_principal_known)

lemma resolve_cert_cn_or_principal_known:
  "resolve_cert_cn_or_principal env d i = Ok su \<Longrightarrow> directory_knows env d su"
  by (auto simp: resolve_cert_cn_or_principal_def dest: resolve_cert_cn_known resolve_principal_known split: if_splits)

interpretation ldap: subject_directory "resolve_cert_fingerprint env" "resolve_cert_cn_or_principal env"
    "directory_knows env" for env
  by unfold_locales (rule resolve_cert_fingerprint_known, assumption, rule resolve_cert_cn_or_principal_known, assumption)

lemma resolver_resolve_known:
  "resolver_resolve env r i = Ok su \<Longrightarrow> directory_knows env (sr_ldap r) su \<or> sr_fallback r = Some su"
  unfolding resolver_resolve_def by (drule ldap.resolve_known) auto

lemma resolve_by_headers_known:
  "resolve_by_headers env r headers tls require = Ok su \<Longrightarrow>
     directory_knows env (sr_ldap r) su \<or> sr_fallback r = Some su"
  by (auto simp: resolve_by_headers_def bind_eq_Some_conv split: option.splits if_splits sum.splits
      dest: resolver_resolve_known resolve_cert_fingerprint_known)

lemma resolve_request_subject_cases:
  "resolve_request_subject env r headers tls require = Ok su \<Longrightarrow>
     (\<exists>a. headers HEADER_AUTHORIZATION = Some a \<and> is_bearer a \<and> resolve_saml_bearer env a = Ok su) \<or>
     directory_knows env (sr_ldap r) su \<or> sr_fallback r = Some su"
  by (auto simp: resolve_request_subject_def split: option.splits if_splits dest: resolve_by_headers_known)

lemma im_values_collect: "set (im_values (im_collect kvs)) \<subseteq> snd ` set kvs"
proof (induction kvs rule: rev_induct)
  case (snoc kv kvs)
  then show ?case
    using im_values_insert_subset [of "fst kv" "snd kv" "im_collect kvs"]
    by (cases kv) (auto simp: im_collect_snoc)
qed (simp add: im_collect_def im_values_def)

text \<open>
  C14: with a fixture directory, the subject of a request is what a bearer token claims, the subject of
  an entry of the directory file, or the configured fallback: the resolution of header and certificate
  identities never makes up a subject or changes the clearance an entry states.
\<close>

theorem request_subject_is_registered:
  assumes "lc_fixture_mode (lp_ldap config)"
    and "resolve_request_subject env \<lparr>sr_ldap = directory_from_config config entries, sr_fallback = fallback\<rparr>
      headers tls require_identity = Ok su"
  shows "(\<exists>a. headers HEADER_AUTHORIZATION = Some a \<and> is_bearer a \<and> resolve_saml_bearer env a = Ok su) \<or>
     (\<exists>e \<in> set entries. entry_subject e = Ok su) \<or> fallback = Some su"
proof -
  let ?keyed = "map (\<lambda>e. (normalize_principal (ls_principal e), e)) entries"
  have "set (im_values (ld_entries (directory_from_config config entries))) \<subseteq> set entries"
    using im_values_collect [of ?keyed] by (auto simp: directory_from_config_def image_image)
  moreover have "lc_fixture_mode (lp_ldap (ld_config (directory_from_config config entries)))"
    using assms(1) by (simp add: directory_from_config_def)
  ultimately show ?thesis
    using resolve_request_subject_cases [OF assms(2)] by (auto simp: directory_knows_def)
qed

section \<open>What a bearer token proves\<close>

definition claims_of :: "subject_attributes \<Rightarrow> saml_subject_claims" where
  "claims_of su =
     \<lparr>sc_subject_id = su_subject_id su, sc_clearance = as_stanag_str (su_clearance su),
      sc_nationality = su_nationality su, sc_handling_caveats = su_handling_caveats su,
      sc_mission_id = su_mission_id su\<rparr>"

lemma fold_caveats: "fold with_handling_caveat cs s = s\<lparr>su_handling_caveats := su_handling_caveats s @ cs\<rparr>"
  by (induction cs arbitrary: s) (simp_all add: with_handling_caveat_def)

lemma subject_of_fields:
  "subject_of i c n cs m =
     \<lparr>su_subject_id = i, su_clearance = c, su_nationality = n, su_handling_caveats = cs, su_mission_id = m\<rparr>"
  by (simp add: subject_of_def fold_caveats subject_new_def with_nationality_def with_mission_id_def Let_def
      split: option.split)

lemma claims_subject_of: "claims_subject (claims_of su) = Ok su"
  by (simp add: claims_subject_def claims_of_def subject_of_fields)

lemma bearer_header: "is_bearer (''Bearer '' @ token)"
  by (simp add: is_bearer_def starts_with_def)

lemma bearer_strip: "strip_prefix ''Bearer '' (''Bearer '' @ token) = Some token"
  by (rule strip_prefix_append)

text \<open>
  Nothing binds a bearer token to its bearer. A token that decodes to the claims of a subject, with
  any clearance, nationality and caveats, makes it the subject of the request, whatever the directory,
  the other headers, the client certificate and the identity requirement.
\<close>

theorem any_subject_can_be_claimed:
  assumes "trim token = token" and "ie_decode_url env token = Ok b" and "ie_claims env b = Ok (claims_of su)"
  shows "resolve_request_subject env r (headers(HEADER_AUTHORIZATION \<mapsto> ''Bearer '' @ token)) tls require_identity =
     Ok su"
proof -
  have "resolve_saml_bearer env (''Bearer '' @ token) = Ok su"
    using assms bearer_strip [of token] by (simp add: resolve_saml_bearer_def Let_def claims_subject_of)
  then show ?thesis
    using bearer_header [of token] by (simp add: resolve_request_subject_def)
qed

section \<open>Gaps of the lookup\<close>

text \<open>The subject identifier is compared with the lower-cased identity, so one with an upper-case letter
  is found by no lookup although the directory lists it.\<close>

lemma subject_id_lookup_lower:
  assumes "im_get (ld_entries d) (normalize_principal i) = None" and "find_entry d i = Some e"
  shows "to_ascii_lowercase (ls_subject_id e) = ls_subject_id e"
  using assms by (auto simp: find_entry_def normalize_principal_def to_ascii_lowercase_def Let_def dest!: find_SomeD
      split: option.splits)

text \<open>The text of the identity goes into the search filter unescaped: the identity \<open>*\<close> matches every
  entry that has a \<open>uid\<close>.\<close>

lemma search_filter_injection:
  "lc_search_filter (lp_ldap config) = None \<Longrightarrow> build_search_filter config ''*'' = ''(uid=*)''"
  by (simp add: build_search_filter_def principal_uid_for_search_def trim_id ws_lead_def ws_tail_def
      white_space_seqs_def strip_prefix_def starts_with_def)

section \<open>Samples\<close>

definition toy_claims :: "bytes \<Rightarrow> string + saml_subject_claims" where
  "toy_claims b = (if b = [] then Err ''EOF'' else Ok (claims_of (subject_new b Secret)))"

definition toy_identity_env :: identity_env where
  "toy_identity_env =
     \<lparr>ie_read_file = (\<lambda>_. Err ''no file''), ie_toml_config = (\<lambda>_. Err ''no parser''),
      ie_toml_entries = (\<lambda>_. Err ''no parser''), ie_gateway = (\<lambda>_ _ _. Err ''no gateway''),
      ie_connect = (\<lambda>_. Err ''no server''), ie_bind = (\<lambda>_ _ _. Err ''no server''), ie_bind_password = None,
      ie_search = (\<lambda>_ _ _. Err ''no server''), ie_decode_url = Inr, ie_decode_std = Inr, ie_claims = toy_claims\<rparr>"

definition principal_headers :: "string \<Rightarrow> header_map" where
  "principal_headers who = (\<lambda>n. if n = HEADER_MIM_CLIENT_PRINCIPAL then Some who else None)"

definition gbr_entry :: ldap_subject_entry where
  "gbr_entry =
     \<lparr>ls_principal = ''gbr'', ls_subject_id = ''gbr'', ls_clearance = ''SECRET'', ls_nationality = Some ''GBR'',
      ls_handling_caveats = [], ls_mission_id = None\<rparr>"

definition fixture_config :: ldap_pip_config where
  "fixture_config = ld_config conformance_directory"

definition gbr_subject :: subject_attributes where
  "gbr_subject = subject_of ''gbr'' Secret (Some ''GBR'') [] None"

lemma fixture_config_fixture: "lc_fixture_mode (lp_ldap fixture_config)"
  by (simp add: fixture_config_def conformance_directory_def directory_from_config_def)

lemma gbr_normal: "normalize_principal ''gbr'' = ''gbr''"
  by (simp add: normalize_principal_def trim_id ws_lead_def ws_tail_def white_space_seqs_def
      to_ascii_lowercase_def ascii_lower_def)

lemma gbr_entry_subject: "entry_subject gbr_entry = Ok gbr_subject"
  using classification_parse_as_str [of Secret]
  by (simp add: entry_subject_def gbr_entry_def gbr_subject_def parse_clearance_def)

lemma gbr_resolves:
  "resolve_request_subject toy_identity_env
     \<lparr>sr_ldap = directory_from_config fixture_config [gbr_entry], sr_fallback = None\<rparr>
     (principal_headers ''gbr'') None True = Ok gbr_subject"
proof -
  let ?d = "directory_from_config fixture_config [gbr_entry]"
  have entries: "ld_entries ?d = [(''gbr'', gbr_entry)]"
    by (simp add: directory_from_config_def im_collect_def gbr_normal) (simp add: gbr_entry_def gbr_normal)
  have "ld_config ?d = fixture_config" by (simp add: directory_from_config_def)
  then have "resolve_principal toy_identity_env ?d ''gbr'' = Ok gbr_subject"
    using entries fixture_config_fixture gbr_entry_subject
    by (simp add: resolve_principal_def find_entry_def gbr_normal im_get_def Let_def)
  moreover have "\<not> im_contains (ld_cert_to_principal ?d) ''gbr''"
    by (simp add: directory_from_config_def fixture_config_def conformance_directory_def im_collect_def
        im_contains_def im_get_def)
  ultimately have "resolve_cert_cn_or_principal toy_identity_env ?d ''gbr'' = Ok gbr_subject"
    using entries by (simp add: resolve_cert_cn_or_principal_def gbr_normal im_contains_def im_get_def)
  then show ?thesis
    by (simp add: resolve_request_subject_def resolve_by_headers_def principal_headers_def resolver_resolve_def
        resolve_over_def HEADER_MIM_CLIENT_PRINCIPAL_def HEADER_AUTHORIZATION_def)
qed

theorem request_subject_is_registered_witness:
  "\<exists>e \<in> set [gbr_entry]. entry_subject e = Ok gbr_subject"
  using request_subject_is_registered [OF fixture_config_fixture gbr_resolves]
  by (simp add: principal_headers_def HEADER_MIM_CLIENT_PRINCIPAL_def HEADER_AUTHORIZATION_def)

theorem any_subject_can_be_claimed_witness:
  "resolve_request_subject toy_identity_env resolver_conformance
     ((principal_headers ''gbr'')(HEADER_AUTHORIZATION \<mapsto> ''Bearer '' @ ''eve'')) None True =
   Ok (subject_new ''eve'' Secret)"
  by (rule any_subject_can_be_claimed [where b = "''eve''"])
    (simp_all add: trim_id ws_lead_def ws_tail_def white_space_seqs_def toy_identity_env_def toy_claims_def)

end
