(* ===== verification/Runtime_Pki.thy ===== *)
theory Runtime_Pki
  imports Binding
begin

text \<open>
  Crate \<open>mim-crypto\<close>: loading keys and trust anchors (\<open>pki.rs\<close>), the fixture keys (\<open>keys.rs\<close>) and the choice
  between laboratory and production material (\<open>runtime_pki.rs\<close>). The environment, the file system and the
  decoders of a single PEM block are arguments; the fixture keys are files of the repository and
  arguments too.
\<close>

section \<open>The outside world\<close>

text \<open>\<open>pk_pkcs8\<close> and \<open>pk_spki\<close> decode a PEM text and encode the key again as DER.\<close>

record pki_io =
  pk_var :: "string \<Rightarrow> string option"
  pk_read :: "string \<Rightarrow> string + bytes"
  pk_pkcs8 :: "string \<Rightarrow> string + bytes"
  pk_spki :: "string \<Rightarrow> string + bytes"

record fixture_keys =
  fx_nmb_der :: bytes
  fx_kas_der :: bytes

datatype pki_mode = PkiLab | PkiProduction

section \<open>Private keys (\<open>pki.rs\<close>)\<close>

definition decode_pkcs8_pem :: "pki_io \<Rightarrow> bytes \<Rightarrow> crypto_error + bytes" where
  "decode_pkcs8_pem io pem =
     and_then (map_err (\<lambda>e. CeInvalidKey (''PKCS#8 PEM is not UTF-8: '' @ e)) (from_utf8 pem)) (\<lambda>pem_str.
       map_err CeInvalidKey (pk_pkcs8 io pem_str))"

definition load_pkcs8_der :: "pki_io \<Rightarrow> string \<Rightarrow> crypto_error + bytes" where
  "load_pkcs8_der io path =
     and_then (map_err (\<lambda>e. CeInvalidKey (''read PKCS#8: '' @ e)) (pk_read io path)) (decode_pkcs8_pem io)"

definition key_ring_of_ders ::
  "crypto_provider \<Rightarrow> bytes \<Rightarrow> bytes \<Rightarrow> string \<Rightarrow> string \<Rightarrow> crypto_error + nmb_key_ring" where
  "key_ring_of_ders cp nmb_der kas_der nmb_key_id kas_key_id =
     and_then (key_pair_from_pkcs8 cp nmb_key_id nmb_der) (\<lambda>nmb.
     and_then (key_pair_from_pkcs8 cp kas_key_id kas_der) (\<lambda>kas. Ok \<lparr>kr_nmb = nmb, kr_kas = kas\<rparr>))"

definition from_pkcs8_files ::
  "pki_io \<Rightarrow> crypto_provider \<Rightarrow> string \<Rightarrow> string \<Rightarrow> string \<Rightarrow> string \<Rightarrow> crypto_error + nmb_key_ring" where
  "from_pkcs8_files io cp nmb_path kas_path nmb_key_id kas_key_id =
     and_then (load_pkcs8_der io nmb_path) (\<lambda>nmb_der.
     and_then (load_pkcs8_der io kas_path) (\<lambda>kas_der. key_ring_of_ders cp nmb_der kas_der nmb_key_id kas_key_id))"

definition from_pkcs8_pem ::
  "pki_io \<Rightarrow> crypto_provider \<Rightarrow> bytes \<Rightarrow> bytes \<Rightarrow> string \<Rightarrow> string \<Rightarrow> crypto_error + nmb_key_ring" where
  "from_pkcs8_pem io cp nmb_pem kas_pem nmb_key_id kas_key_id =
     and_then (decode_pkcs8_pem io nmb_pem) (\<lambda>nmb_der.
     and_then (decode_pkcs8_pem io kas_pem) (\<lambda>kas_der. key_ring_of_ders cp nmb_der kas_der nmb_key_id kas_key_id))"

section \<open>Trust anchors (\<open>pki.rs\<close>)\<close>

text \<open>\<open>str::split\<close> with a text that is not empty.\<close>

function split_str :: "string \<Rightarrow> string \<Rightarrow> string \<Rightarrow> string list" where
  "split_str p acc [] = [rev acc]"
| "split_str p acc (c # cs) =
     (if p \<noteq> [] \<and> starts_with (c # cs) p then rev acc # split_str p [] (drop (length p) (c # cs))
      else split_str p (c # acc) cs)"
  by pat_completeness auto

termination
  by (relation "measure (\<lambda>(_, _, s). length s)") (auto simp: neq_Nil_conv)

definition BEGIN_PUBLIC_KEY :: string where
  "BEGIN_PUBLIC_KEY = ''-----BEGIN PUBLIC KEY-----''"

definition END_PUBLIC_KEY :: string where
  "END_PUBLIC_KEY = ''-----END PUBLIC KEY-----''"

definition load_spki_ders_from_pem :: "pki_io \<Rightarrow> bytes \<Rightarrow> crypto_error + bytes list" where
  "load_spki_ders_from_pem io pem =
     and_then (map_err (\<lambda>e. CeInvalidKey (''SPKI PEM is not UTF-8: '' @ e)) (from_utf8 pem)) (\<lambda>pem_str.
       try_map (\<lambda>block.
           map_err CeInvalidKey
             (pk_spki io (BEGIN_PUBLIC_KEY @ hd (split_str END_PUBLIC_KEY [] block) @ END_PUBLIC_KEY)))
         (tl (split_str BEGIN_PUBLIC_KEY [] pem_str)))"

definition from_spki_pem_files :: "pki_io \<Rightarrow> crypto_provider \<Rightarrow> string list \<Rightarrow> crypto_error + nmb_trust_store" where
  "from_spki_pem_files io cp paths =
     and_then
       (try_map (\<lambda>path.
           and_then (map_err (\<lambda>e. CeInvalidKey (''read SPKI PEM: '' @ e)) (pk_read io path))
             (load_spki_ders_from_pem io)) paths)
       (\<lambda>ders. from_spki_ders_with_prefix cp (concat ders) ''nmb-trust'')"

definition from_spki_pem :: "pki_io \<Rightarrow> crypto_provider \<Rightarrow> bytes \<Rightarrow> string \<Rightarrow> crypto_error + nmb_trust_store" where
  "from_spki_pem io cp pem prefix =
     and_then (load_spki_ders_from_pem io pem) (\<lambda>ders. from_spki_ders_with_prefix cp ders prefix)"

definition trust_store_from_spki_der :: "crypto_provider \<Rightarrow> string \<Rightarrow> bytes \<Rightarrow> crypto_error + nmb_trust_store" where
  "trust_store_from_spki_der cp key_id der =
     and_then (verifying_key_from_spki cp key_id der) (\<lambda>k. Ok \<lparr>ts_keys = [k]\<rparr>)"

section \<open>Laboratory and production (\<open>keys.rs\<close>, \<open>runtime_pki.rs\<close>)\<close>

definition conformance_keypair :: "crypto_provider \<Rightarrow> fixture_keys \<Rightarrow> crypto_error + key_pair" where
  "conformance_keypair cp fx = key_pair_from_pkcs8 cp ''nmb-conformance-key-1'' (fx_nmb_der fx)"

definition conformance_kas_keypair :: "crypto_provider \<Rightarrow> fixture_keys \<Rightarrow> crypto_error + key_pair" where
  "conformance_kas_keypair cp fx = key_pair_from_pkcs8 cp ''kas-conformance-key-1'' (fx_kas_der fx)"

definition conformance_key_ring :: "crypto_provider \<Rightarrow> fixture_keys \<Rightarrow> crypto_error + nmb_key_ring" where
  "conformance_key_ring cp fx =
     and_then (conformance_keypair cp fx) (\<lambda>nmb.
     and_then (conformance_kas_keypair cp fx) (\<lambda>kas. Ok \<lparr>kr_nmb = nmb, kr_kas = kas\<rparr>))"

definition missing_env :: "string \<Rightarrow> crypto_error" where
  "missing_env name =
     CeInvalidKey (''missing environment variable '' @ name @
       ''; configure production PEM paths or use PkiMode::Lab'')"

definition load_production_key_ring :: "pki_io \<Rightarrow> crypto_provider \<Rightarrow> crypto_error + nmb_key_ring" where
  "load_production_key_ring io cp =
     and_then (ok_or (missing_env ''MIM_NMB_SIGNING_KEY'') (pk_var io ''MIM_NMB_SIGNING_KEY'')) (\<lambda>nmb_path.
     and_then (ok_or (missing_env ''MIM_KAS_SIGNING_KEY'') (pk_var io ''MIM_KAS_SIGNING_KEY'')) (\<lambda>kas_path.
       from_pkcs8_files io cp nmb_path kas_path ''nmb-signing'' ''kas-signing''))"

definition load_production_trust_store :: "pki_io \<Rightarrow> crypto_provider \<Rightarrow> crypto_error + nmb_trust_store" where
  "load_production_trust_store io cp =
     and_then (ok_or (missing_env ''MIM_NMB_TRUST'') (pk_var io ''MIM_NMB_TRUST'')) (\<lambda>trust_paths.
       let paths = filter (\<lambda>s. s \<noteq> []) (map trim (split_on (\<lambda>c. c = CHR '','') trust_paths)) in
       if paths = [] then Err (CeInvalidKey ''MIM_NMB_TRUST must list at least one SPKI PEM path'')
       else from_spki_pem_files io cp paths)"

definition load_key_ring_for ::
  "pki_io \<Rightarrow> crypto_provider \<Rightarrow> fixture_keys \<Rightarrow> pki_mode \<Rightarrow> crypto_error + nmb_key_ring" where
  "load_key_ring_for io cp fx mode =
     (case mode of PkiLab \<Rightarrow> conformance_key_ring cp fx | PkiProduction \<Rightarrow> load_production_key_ring io cp)"

definition load_trust_store_for ::
  "pki_io \<Rightarrow> crypto_provider \<Rightarrow> fixture_keys \<Rightarrow> pki_mode \<Rightarrow> crypto_error + nmb_trust_store" where
  "load_trust_store_for io cp fx mode =
     (case mode of
        PkiLab \<Rightarrow>
          and_then (conformance_keypair cp fx) (\<lambda>kp. Ok (add_verifying_key (kp_verifying kp) trust_store_new))
      | PkiProduction \<Rightarrow> load_production_trust_store io cp)"

section \<open>Which keys verify which bindings\<close>

lemma key_pair_ids:
  assumes "key_pair_from_pkcs8 cp i der = Ok kp"
  shows "sk_key_id (kp_signing kp) = i" and "vk_key_id (kp_verifying kp) = i"
  using assms
  by (auto simp: key_pair_from_pkcs8_def signing_key_from_pkcs8_def verifying_key_from_spki_def and_then_Inr_iff)

lemma trust_key_ids:
  assumes "from_spki_ders_with_prefix cp ders prefix = Ok t" and "k \<in> set (ts_keys t)"
  shows "\<exists>n. vk_key_id k = prefix @ ''-'' @ show_nat n"
proof -
  let ?key = "\<lambda>(idx, der). verifying_key_from_spki cp (prefix @ ''-'' @ show_nat idx) der"
  from assms(1) have "try_map ?key (enumerate 0 ders) = Ok (ts_keys t)"
    by (auto simp: from_spki_ders_with_prefix_def and_then_Inr_iff split: if_splits)
  then have keys: "list_all2 (\<lambda>p y. ?key p = Ok y) (enumerate 0 ders) (ts_keys t)"
    by (simp only: try_map_Inr_iff)
  from assms(2) obtain i where i: "i < length (ts_keys t)" "k = ts_keys t ! i" by (auto simp: in_set_conv_nth)
  from list_all2_nthD2 [OF keys i(1)] i(2) obtain p where "?key p = Ok k" by blast
  then show ?thesis
    by (cases p) (auto simp: verifying_key_from_spki_def and_then_Inr_iff)
qed

lemma production_ring_ids:
  assumes "load_production_key_ring io cp = Ok ring"
  shows "sk_key_id (kp_signing (kr_nmb ring)) = ''nmb-signing''"
    and "vk_key_id (kp_verifying (kr_nmb ring)) = ''nmb-signing''"
  using assms
  by (auto simp: load_production_key_ring_def from_pkcs8_files_def key_ring_of_ders_def and_then_Inr_iff
      dest: key_pair_ids)

lemma production_trust_ids:
  assumes "load_production_trust_store io cp = Ok t" and "k \<in> set (ts_keys t)"
  shows "\<exists>n. vk_key_id k = ''nmb-trust-'' @ show_nat n"
  using assms trust_key_ids
  by (fastforce simp: load_production_trust_store_def from_spki_pem_files_def and_then_Inr_iff Let_def split: if_splits)

lemma assertion_create_key: "assertion_create lx cp l payload k = Ok a \<Longrightarrow> bs_key_id (ab_signature a) = sk_key_id k"
  by (auto simp: assertion_create_def sign_binding_def and_then_Inr_iff Let_def)

lemma assertion_verify_key: "assertion_verify lx cp a payload k = Ok () \<Longrightarrow> bs_key_id (ab_signature a) = vk_key_id k"
  by (auto simp: assertion_verify_def and_then_Inr_iff split: if_splits)

text \<open>
  C19: a binding that a node in production mode signs is verified by no key of a trust store that any node loads in
  production mode, also where the store holds the public key of the signer: the signing key is always called
  nmb-signing, the keys of such a store nmb-trust-0, nmb-trust-1 and so on, and a verifier looks up and compares the
  identifier of the key. The signature itself is good: the verifying key of the signer's own ring, which bears its
  name, accepts the binding.
\<close>

theorem production_bindings_do_not_verify:
  assumes "load_key_ring_for io cp fx PkiProduction = Ok ring"
    and "assertion_create lx cp l payload (kp_signing (kr_nmb ring)) = Ok a"
    and "load_trust_store_for io' cp fx PkiProduction = Ok t"
  shows "\<not> is_ok (verify_key_for t (bs_key_id (ab_signature a))) \<and>
     (\<forall>k \<in> set (ts_keys t). \<not> is_ok (assertion_verify lx cp a payload' k)) \<and>
     (crypto_laws cp (kr_nmb ring) \<longrightarrow> assertion_verify lx cp a payload (kp_verifying (kr_nmb ring)) = Ok ())"
proof -
  have ids: "sk_key_id (kp_signing (kr_nmb ring)) = ''nmb-signing''" "vk_key_id (kp_verifying (kr_nmb ring)) = ''nmb-signing''"
    using production_ring_ids [of io cp ring] assms(1) by (simp_all add: load_key_ring_for_def)
  have id: "bs_key_id (ab_signature a) = ''nmb-signing''"
    using ids(1) assertion_create_key [OF assms(2)] by simp
  have other: "vk_key_id k \<noteq> ''nmb-signing''" if "k \<in> set (ts_keys t)" for k
    using production_trust_ids [OF _ that, of io' cp] assms(3) by (auto simp: load_trust_store_for_def)
  have "\<not> is_ok (verify_key_for t (bs_key_id (ab_signature a)))"
    using other verify_key_for_Ok [of t] id by (auto simp: is_ok_iff)
  moreover have "\<not> is_ok (assertion_verify lx cp a payload' k)" if "k \<in> set (ts_keys t)" for k
    using other [OF that] id assertion_verify_key [of lx cp a payload' k] by (auto simp: is_ok_iff)
  moreover have "assertion_verify lx cp a payload (kp_verifying (kr_nmb ring)) = Ok ()" if "crypto_laws cp (kr_nmb ring)"
    using verify_created_assertion [OF that _ assms(2)] ids by simp
  ultimately show ?thesis by blast
qed

text \<open>With the laboratory keys the same binding verifies.\<close>

lemma laboratory_bindings_verify:
  assumes "load_key_ring_for io cp fx PkiLab = Ok ring" and "crypto_laws cp (kr_nmb ring)"
    and "assertion_create lx cp l payload (kp_signing (kr_nmb ring)) = Ok a"
  shows "\<exists>t k. load_trust_store_for io' cp fx PkiLab = Ok t \<and> verify_key_for t (bs_key_id (ab_signature a)) = Ok k \<and>
     assertion_verify lx cp a payload k = Ok ()"
proof -
  from assms(1) have pair: "conformance_keypair cp fx = Ok (kr_nmb ring)"
    by (auto simp: load_key_ring_for_def conformance_key_ring_def and_then_Inr_iff)
  then have ids: "vk_key_id (kp_verifying (kr_nmb ring)) = sk_key_id (kp_signing (kr_nmb ring))"
    by (simp add: conformance_keypair_def key_pair_ids)
  have "verify_key_for (add_verifying_key (kp_verifying (kr_nmb ring)) trust_store_new) (bs_key_id (ab_signature a)) =
      Ok (kp_verifying (kr_nmb ring))"
    using ids assertion_create_key [OF assms(3)]
    by (simp add: verify_key_for_def add_verifying_key_def trust_store_new_def)
  with pair verify_created_assertion [OF assms(2) ids assms(3)] show ?thesis
    by (simp add: load_trust_store_for_def)
qed

definition toy_pem :: string where
  "toy_pem = BEGIN_PUBLIC_KEY @ ''d'' @ END_PUBLIC_KEY"

definition toy_pki_io :: pki_io where
  "toy_pki_io =
     \<lparr>pk_var = (\<lambda>_. Some ''key.pem''), pk_read = (\<lambda>_. Ok toy_pem),
      pk_pkcs8 = (\<lambda>_. Ok ''d''), pk_spki = (\<lambda>_. Ok ''d'')\<rparr>"

definition toy_fixture :: fixture_keys where
  "toy_fixture = \<lparr>fx_nmb_der = ''d'', fx_kas_der = ''e''\<rparr>"

definition production_ring :: nmb_key_ring where
  "production_ring =
     \<lparr>kr_nmb = \<lparr>kp_signing = \<lparr>sk_key_id = ''nmb-signing'', sk_der = ''d''\<rparr>,
        kp_verifying = \<lparr>vk_key_id = ''nmb-signing'', vk_der = ''d''\<rparr>\<rparr>,
      kr_kas = \<lparr>kp_signing = \<lparr>sk_key_id = ''kas-signing'', sk_der = ''d''\<rparr>,
        kp_verifying = \<lparr>vk_key_id = ''kas-signing'', vk_der = ''d''\<rparr>\<rparr>\<rparr>"

definition production_trust :: nmb_trust_store where
  "production_trust = \<lparr>ts_keys = [\<lparr>vk_key_id = ''nmb-trust-0'', vk_der = ''d''\<rparr>]\<rparr>"

lemma pem_text: "from_utf8 toy_pem = Ok toy_pem"
  by (rule from_utf8_ascii) (simp add: toy_pem_def BEGIN_PUBLIC_KEY_def END_PUBLIC_KEY_def)

lemma toy_production_ring: "load_key_ring_for toy_pki_io toy_provider fx PkiProduction = Ok production_ring"
  by (simp add: load_key_ring_for_def load_production_key_ring_def from_pkcs8_files_def load_pkcs8_der_def
      decode_pkcs8_pem_def key_ring_of_ders_def key_pair_from_pkcs8_def signing_key_from_pkcs8_def
      verifying_key_from_spki_def toy_pki_io_def toy_provider_def production_ring_def pem_text)

lemma toy_pem_blocks: "length (tl (split_str BEGIN_PUBLIC_KEY [] toy_pem)) = 1"
  by code_simp

lemma toy_production_trust: "load_trust_store_for toy_pki_io toy_provider fx PkiProduction = Ok production_trust"
proof -
  obtain b where "tl (split_str BEGIN_PUBLIC_KEY [] toy_pem) = [b]"
    using toy_pem_blocks by (cases "tl (split_str BEGIN_PUBLIC_KEY [] toy_pem)") auto
  then have ders: "load_spki_ders_from_pem toy_pki_io toy_pem = Ok [''d'']"
    by (simp add: load_spki_ders_from_pem_def pem_text) (simp add: toy_pki_io_def)
  have paths: "filter (\<lambda>s. s \<noteq> []) (map trim (split_on (\<lambda>c. c = CHR '','') ''key.pem'')) = [''key.pem'']"
    by code_simp
  have read: "pk_read toy_pki_io path = Ok toy_pem" and var: "pk_var toy_pki_io name = Some ''key.pem''" for path name
    by (simp_all add: toy_pki_io_def)
  have index_0: "show_nat 0 = ''0''" by code_simp
  have files: "from_spki_pem_files toy_pki_io toy_provider [''key.pem''] =
      from_spki_ders_with_prefix toy_provider [''d''] ''nmb-trust''"
    by (simp add: from_spki_pem_files_def read ders)
  also have "\<dots> = Ok production_trust"
    by (simp add: from_spki_ders_with_prefix_def verifying_key_from_spki_def toy_provider_def production_trust_def
        index_0)
  finally show ?thesis
    unfolding load_trust_store_for_def load_production_trust_store_def var ok_or.simps and_then.simps Let_def paths
    by simp
qed

theorem production_bindings_do_not_verify_witness:
  "\<exists>a. assertion_create (one_label_codec nato_usa) toy_provider nato_usa ''x'' (kp_signing (kr_nmb production_ring)) = Ok a \<and>
     \<not> is_ok (verify_key_for production_trust (bs_key_id (ab_signature a))) \<and>
     assertion_verify (one_label_codec nato_usa) toy_provider a ''x'' (kp_verifying (kr_nmb production_ring)) = Ok ()"
proof -
  have laws: "crypto_laws toy_provider (kr_nmb production_ring)"
    by (simp add: crypto_laws_def toy_provider_def production_ring_def)
  let ?k = "kp_signing (kr_nmb production_ring)"
  obtain sig where "sign_nmb_binding toy_provider ?k ''<xml>'' (sha256_base64 toy_provider ''x'') = Ok sig"
    by (simp add: sign_nmb_binding_def toy_provider_def)
  then have "\<exists>a. assertion_create (one_label_codec nato_usa) toy_provider nato_usa ''x'' ?k = Ok a"
    using one_label_xml(3) [OF sample_labels_valid(1)] sample_labels_accepted(1)
    by (auto simp: assertion_create_Ok_iff sign_binding_Ok_iff)
  then obtain a where a: "assertion_create (one_label_codec nato_usa) toy_provider nato_usa ''x'' ?k = Ok a" by blast
  from production_bindings_do_not_verify [OF toy_production_ring [of toy_fixture] a toy_production_trust [of toy_fixture]] a laws
  show ?thesis by blast
qed

end
