(* ===== verification/Wire.thy ===== *)
theory Wire
  imports Serialize Binding Broker
begin

text \<open>
  Crate \<open>mim-transport\<close>, the wire profile: REST routes and query parameters (\<open>rest.rs\<close>), payload formats and
  their negotiation (\<open>wire.rs\<close>), the enveloped PutObject (\<open>envelope.rs\<close>) and the federation
  configuration (\<open>federation.rs\<close>). The parser and comparison of \<open>f32\<close> weights, TOML, files and the JSON
  of requests are arguments.
\<close>

section \<open>Routes (\<open>rest.rs\<close>)\<close>

definition OBJECTS :: string where
  "OBJECTS = ''/mip4-ies/v1/objects''"

definition SYNC :: string where
  "SYNC = ''/mip4-ies/v1/sync''"

datatype http_method = HmGet | HmPut | HmDelete

fun show_http_method :: "http_method \<Rightarrow> string" where
  "show_http_method HmGet = ''Get''"
| "show_http_method HmPut = ''Put''"
| "show_http_method HmDelete = ''Delete''"

record rest_route =
  rr_method :: http_method
  rr_path :: string
  rr_operation :: ies_operation

definition rest_normalize_path :: "string \<Rightarrow> string" where
  "rest_normalize_path path =
     (let trimmed = trim path in
      if trimmed = [] then []
      else trim_end_matches (CHR ''/'') (hd (split_on (\<lambda>c. c = CHR ''?'') trimmed)))"

definition parse_route :: "http_method \<Rightarrow> string \<Rightarrow> transport_error + rest_route" where
  "parse_route method path =
     (let n = rest_normalize_path path;
          route = (\<lambda>op. Ok \<lparr>rr_method = method, rr_path = n, rr_operation = op\<rparr>)
      in if method = HmPut \<and> n = OBJECTS then route IesPutObject
         else if method = HmGet \<and> n = OBJECTS then route IesGetByFilter
         else if method = HmGet \<and> starts_with n (OBJECTS @ ''/'') then route IesGetByOid
         else if method = HmDelete \<and> starts_with n (OBJECTS @ ''/'') then route IesDeleteObject
         else if method = HmGet \<and> n = SYNC then route IesSync
         else Err (TeUnsupported (''no MIP4-IES route for '' @ show_http_method method @ '' '' @ path)))"

definition oid_from_path :: "string \<Rightarrow> transport_error + string" where
  "oid_from_path path =
     ok_or (TeInvalidRequest (''expected path '' @ OBJECTS @ ''/{oid}, got '' @ path))
       (case strip_prefix (OBJECTS @ ''/'') (rest_normalize_path path) of
          Some oid \<Rightarrow> if oid = [] then None else Some oid
        | None \<Rightarrow> None)"

definition path_unreserved :: "char \<Rightarrow> bool" where
  "path_unreserved c \<longleftrightarrow>
     is_ascii_alphanumeric c \<or> c = CHR ''-'' \<or> c = CHR ''_'' \<or> c = CHR ''.'' \<or> c = CHR ''~''"

definition hex_digit :: "nat \<Rightarrow> char" where
  "hex_digit n = ''0123456789ABCDEF'' ! n"

definition encode_byte :: "char \<Rightarrow> string" where
  "encode_byte c =
     (if path_unreserved c then [c]
      else [CHR ''%'', hex_digit (of_char c div 16), hex_digit (of_char c mod 16)])"

definition encode_oid_for_path :: "string \<Rightarrow> string" where
  "encode_oid_for_path oid = concat (map encode_byte oid)"

definition object_path :: "string \<Rightarrow> string" where
  "object_path oid = OBJECTS @ ''/'' @ encode_oid_for_path oid"

definition class_query ::
  "string option \<Rightarrow> string option \<Rightarrow> string option \<Rightarrow> nat option \<Rightarrow> nat option \<Rightarrow>
     transport_error + get_by_filter_request" where
  "class_query class_name property_name property_value limit offset =
     and_then (ok_or (TeInvalidRequest ''filter or className query parameter is required'')
         (case class_name of Some c \<Rightarrow> if c = [] then None else Some c | None \<Rightarrow> None)) (\<lambda>c.
       Ok \<lparr>gf_filter = None, gf_class_name = c, gf_property_name = property_name,
           gf_property_value = property_value, gf_limit = limit, gf_offset = offset\<rparr>)"

definition filter_from_query ::
  "string option \<Rightarrow> string option \<Rightarrow> string option \<Rightarrow> string option \<Rightarrow> nat option \<Rightarrow> nat option \<Rightarrow>
     transport_error + get_by_filter_request" where
  "filter_from_query filter_text class_name property_name property_value limit offset =
     (case filter_text of
        Some expression \<Rightarrow>
          if expression \<noteq> [] then
            and_then (parse_filter expression) (\<lambda>_.
              Ok \<lparr>gf_filter = Some expression, gf_class_name = [], gf_property_name = None,
                  gf_property_value = None, gf_limit = limit, gf_offset = offset\<rparr>)
          else class_query class_name property_name property_value limit offset
      | None \<Rightarrow> class_query class_name property_name property_value limit offset)"

definition parse_get_by_oid :: "string \<Rightarrow> transport_error + object_identifier" where
  "parse_get_by_oid path =
     and_then (oid_from_path path) (\<lambda>oid. map_err transport_error_of_mim (object_identifier_new oid))"

definition parse_delete :: "string \<Rightarrow> transport_error + object_identifier" where
  "parse_delete path =
     and_then (oid_from_path path) (\<lambda>oid. map_err transport_error_of_mim (object_identifier_new oid))"

section \<open>Payload formats (\<open>wire.rs\<close>)\<close>

definition MIM_VERSION :: string where
  "MIM_VERSION = ''5.1.0''"

definition MEDIA_MIM_JSON :: string where
  "MEDIA_MIM_JSON = ''application/mim+json''"

definition MEDIA_MIM_XML :: string where
  "MEDIA_MIM_XML = ''application/mim+xml''"

definition MEDIA_MIM_JSONLD :: string where
  "MEDIA_MIM_JSONLD = ''application/ld+json''"

definition MEDIA_JSON :: string where
  "MEDIA_JSON = ''application/json''"

datatype wire_payload_format = WpJson | WpXml | WpJsonLd

fun content_type :: "wire_payload_format \<Rightarrow> string" where
  "content_type WpJson = MEDIA_MIM_JSON"
| "content_type WpXml = MEDIA_MIM_XML"
| "content_type WpJsonLd = MEDIA_MIM_JSONLD"

fun wire_serialization_format :: "wire_payload_format \<Rightarrow> serialization_format" where
  "wire_serialization_format WpJson = SfJson"
| "wire_serialization_format WpXml = SfXml"
| "wire_serialization_format WpJsonLd = SfJsonLd"

definition detect_payload_format :: "string \<Rightarrow> wire_payload_format" where
  "detect_payload_format payload =
     (let trimmed = trim_start payload in
      if starts_with trimmed ''<'' then WpXml
      else if starts_with trimmed ''{'' \<and> contains_str trimmed ''@context'' then WpJsonLd
      else WpJson)"

definition format_of_mime :: "string \<Rightarrow> wire_payload_format option" where
  "format_of_mime mime =
     (if mime \<in> {MEDIA_MIM_XML, ''application/xml'', ''text/xml''} then Some WpXml
      else if mime = MEDIA_MIM_JSONLD then Some WpJsonLd
      else if mime \<in> {MEDIA_MIM_JSON, MEDIA_JSON} then Some WpJson
      else None)"

definition format_from_content_type :: "string \<Rightarrow> wire_payload_format option" where
  "format_from_content_type ct =
     format_of_mime (to_ascii_lowercase (trim (hd (split_on (\<lambda>c. c = CHR '';'') ct))))"

text \<open>The weights of an Accept header are \<open>f32\<close> values.\<close>

record 'q weights =
  wt_parse :: "string \<Rightarrow> 'q option"
  wt_greater :: "'q \<Rightarrow> 'q \<Rightarrow> bool"
  wt_one :: 'q

definition weight_param :: "'q weights \<Rightarrow> string \<Rightarrow> 'q option" where
  "weight_param w param =
     (case split_on (\<lambda>c. c = CHR ''='') (trim param) of
        k # v # _ \<Rightarrow> if k = ''q'' then wt_parse w v else None
      | _ \<Rightarrow> None)"

definition accept_candidate ::
  "'q weights \<Rightarrow> wire_payload_format \<Rightarrow> string \<Rightarrow> (wire_payload_format \<times> 'q) option" where
  "accept_candidate w dflt part =
     (let segment = split_on (\<lambda>c. c = CHR '';'') (trim part);
          mime = to_ascii_lowercase (trim (hd segment));
          q = (case find_map (weight_param w) (tl segment) of Some q \<Rightarrow> q | None \<Rightarrow> wt_one w)
      in map_option (\<lambda>f. (f, q)) (if mime = ''*/*'' then Some dflt else format_of_mime mime))"

definition better ::
  "'q weights \<Rightarrow> (wire_payload_format \<times> 'q) option \<Rightarrow> (wire_payload_format \<times> 'q) option \<Rightarrow>
     (wire_payload_format \<times> 'q) option" where
  "better w candidate best =
     (case candidate of
        None \<Rightarrow> best
      | Some (f, q) \<Rightarrow>
          (case best of
             None \<Rightarrow> Some (f, q)
           | Some (_, best_q) \<Rightarrow> if wt_greater w q best_q then Some (f, q) else best))"

definition negotiate_format ::
  "'q weights \<Rightarrow> string option \<Rightarrow> wire_payload_format \<Rightarrow> wire_payload_format" where
  "negotiate_format w accept dflt =
     (case accept of
        None \<Rightarrow> dflt
      | Some header \<Rightarrow>
          (case fold (\<lambda>part. better w (accept_candidate w dflt part)) (split_on (\<lambda>c. c = CHR '','') header) None of
             Some (f, _) \<Rightarrow> f
           | None \<Rightarrow> dflt))"

definition validate_mim_version :: "string option \<Rightarrow> string + unit" where
  "validate_mim_version header =
     (case header of
        None \<Rightarrow> Ok ()
      | Some v \<Rightarrow>
          if v = MIM_VERSION then Ok ()
          else Err (''unsupported MIM-Version '' @ quoted v @ '', expected '' @ MIM_VERSION))"

definition WIRE_SEMANTIC_ID :: string where
  "WIRE_SEMANTIC_ID = ''00000000-0000-4000-8000-000000000001''"

definition wire_registry :: "serial_env \<Rightarrow> mim_error + model_registry" where
  "wire_registry env =
     and_then (semantic_id_parse (sx_uuid_parse env) WIRE_SEMANTIC_ID) (\<lambda>i.
     and_then (mim_uri_parse ''https://www.mimworld.org/mim/5.1.0/Wire'') (\<lambda>u.
       from_manifest
         \<lparr>mm_version = MIM_VERSION, mm_release_date = ''2020-09-28'', mm_description = ''wire'',
          mm_expected_object_types = 0, mm_expected_action_types = 0, mm_expected_code_lists = 0,
          mm_taxonomy =
            [\<lparr>tn_name = ''Wire'', tn_semantic_id = i, tn_parent = None, tn_object_kind = None,
              tn_action_kind = None, tn_definition = ''wire'', tn_package_path = ''Wire''\<rparr>],
          mm_elements =
            [\<lparr>me_name = ''Wire'', me_kind = MkClass, me_semantic_id = i, me_uri = u, me_package_path = ''Wire'',
              me_definition = ''wire'', me_parent_class = None, me_representation_term = None,
              me_representation_metadata = None, me_multiplicity_lower = None, me_multiplicity_upper = None,
              me_is_mandatory = False, me_is_nillable = True\<rparr>],
          mm_code_lists = []\<rparr>))"

section \<open>The enveloped PutObject (\<open>envelope.rs\<close>)\<close>

definition wrap_put_object_with_format ::
  "serial_env \<Rightarrow> label_codec \<Rightarrow> crypto_provider \<Rightarrow> conf_label \<Rightarrow> mim_instance \<Rightarrow> signing_key \<Rightarrow>
     wire_payload_format \<Rightarrow> label_error + rest_envelope" where
  "wrap_put_object_with_format env lx cp l i k f =
     and_then (map_err (\<lambda>e. LeSerialization (show_mim_error e)) (wire_registry env)) (\<lambda>reg.
     and_then (map_err (\<lambda>e. LeSerialization (show_mim_error e))
         (sx_serialize_instance env reg i (wire_serialization_format f))) (\<lambda>payload.
       rest_wrap lx cp l payload k))"

definition wrap_put_object ::
  "serial_env \<Rightarrow> label_codec \<Rightarrow> crypto_provider \<Rightarrow> conf_label \<Rightarrow> mim_instance \<Rightarrow> signing_key \<Rightarrow>
     label_error + rest_envelope" where
  "wrap_put_object env lx cp l i k = wrap_put_object_with_format env lx cp l i k WpJson"

definition unwrap_put_object_with_format ::
  "serial_env \<Rightarrow> label_codec \<Rightarrow> crypto_provider \<Rightarrow> rest_envelope \<Rightarrow> verifying_key \<Rightarrow>
     wire_payload_format option \<Rightarrow> transport_error + mim_instance" where
  "unwrap_put_object_with_format env lx cp e k fmt =
     and_then (map_err (\<lambda>err. TeForbidden (show_label_error err)) (rest_verify lx cp e k)) (\<lambda>_.
       let f = (case fmt of Some f \<Rightarrow> f | None \<Rightarrow> detect_payload_format (re_payload e)) in
       and_then (map_err transport_error_of_mim (wire_registry env)) (\<lambda>_.
         map_err transport_error_of_mim
           (sx_deserialize_instance env (re_payload e) (wire_serialization_format f))))"

definition unwrap_put_object ::
  "serial_env \<Rightarrow> label_codec \<Rightarrow> crypto_provider \<Rightarrow> rest_envelope \<Rightarrow> verifying_key \<Rightarrow>
     transport_error + mim_instance" where
  "unwrap_put_object env lx cp e k = unwrap_put_object_with_format env lx cp e k None"

section \<open>Federation configuration (\<open>federation.rs\<close>)\<close>

record federation_mtls =
  fm_require_client_auth :: bool
  fm_client_ca :: "string option"

record federation_config =
  fc_node_id :: string
  fc_domain_id :: string
  fc_ldap_config :: string
  fc_pki_env :: "string option"
  fc_mtls :: "federation_mtls option"
  fc_usa_publisher :: "string option"
  fc_gbr_publisher :: "string option"
  fc_gbr_notify :: "string option"
  fc_pep_filtered_sync :: bool
  fc_journal_persistence :: string

text \<open>The \<open>Default\<close> of the replication policy: its two fields.\<close>

definition replication_policy_default :: "bool \<times> string" where
  "replication_policy_default = (True, ''exchange.json'')"

definition under_base :: "string option \<Rightarrow> string \<Rightarrow> string" where
  "under_base base_dir path =
     (if starts_with path ''/'' then path
      else case base_dir of Some dir \<Rightarrow> path_join dir path | None \<Rightarrow> path)"

definition resolve_paths :: "string option \<Rightarrow> federation_config \<Rightarrow> federation_config" where
  "resolve_paths base_dir c =
     c\<lparr>fc_ldap_config := under_base base_dir (fc_ldap_config c),
       fc_pki_env := map_option (under_base base_dir) (fc_pki_env c),
       fc_mtls := map_option (\<lambda>m. m\<lparr>fm_client_ca := map_option (under_base base_dir) (fm_client_ca m)\<rparr>) (fc_mtls c),
       fc_journal_persistence := under_base base_dir (fc_journal_persistence c)\<rparr>"

definition federation_load_path ::
  "(string \<Rightarrow> string + string) \<Rightarrow> (string \<Rightarrow> string + federation_config) \<Rightarrow> string \<Rightarrow> string option \<Rightarrow>
     transport_error + federation_config" where
  "federation_load_path read toml path parent =
     and_then (map_err (\<lambda>e. TeValidation (''read federation config '' @ path @ '': '' @ e)) (read path)) (\<lambda>content.
     and_then (map_err (\<lambda>e. TeValidation (''parse federation config '' @ path @ '': '' @ e)) (toml content)) (\<lambda>c.
       Ok (resolve_paths parent c)))"

definition require_mtls :: "federation_config \<Rightarrow> bool" where
  "require_mtls c = (case fc_mtls c of Some m \<Rightarrow> fm_require_client_auth m | None \<Rightarrow> False)"

definition client_ca_path :: "federation_config \<Rightarrow> string option" where
  "client_ca_path c = Option.bind (fc_mtls c) fm_client_ca"

definition peer_sync_url :: "federation_config \<Rightarrow> string \<Rightarrow> string option" where
  "peer_sync_url c role =
     (if role = ''usa_publisher'' \<or> role = ''usa'' then fc_usa_publisher c
      else if role = ''gbr_publisher'' \<or> role = ''gbr'' then fc_gbr_publisher c
      else None)"

definition peer_notify_url :: "federation_config \<Rightarrow> string \<Rightarrow> string option" where
  "peer_notify_url c role = (if role = ''gbr_notify'' \<or> role = ''gbr'' then fc_gbr_notify c else None)"

text \<open>\<open>std::env::set_var\<close> panics on an empty name and on a name or value it cannot store; the environment
  is a map and a panic is \<open>None\<close>.\<close>

definition set_var :: "string \<Rightarrow> string \<Rightarrow> (string \<rightharpoonup> string) \<Rightarrow> (string \<rightharpoonup> string) option" where
  "set_var k v vars =
     (if k = [] \<or> CHR ''='' \<in> set k \<or> CHR 0x00 \<in> set k \<or> CHR 0x00 \<in> set v then None else Some (vars(k \<mapsto> v)))"

definition pki_env_line :: "string \<Rightarrow> (string \<rightharpoonup> string) \<Rightarrow> (string \<rightharpoonup> string) option" where
  "pki_env_line raw vars =
     (let line = trim raw in
      if line = [] \<or> starts_with line ''#'' then Some vars
      else case split_once (CHR ''='') line of
        Some (k, v) \<Rightarrow> set_var (trim k) (trim v) vars
      | None \<Rightarrow> Some vars)"

fun pki_env_lines :: "string list \<Rightarrow> (string \<rightharpoonup> string) \<Rightarrow> (string \<rightharpoonup> string) option" where
  "pki_env_lines [] vars = Some vars"
| "pki_env_lines (l # ls) vars = Option.bind (pki_env_line l vars) (pki_env_lines ls)"

definition apply_pki_env ::
  "(string \<Rightarrow> string + string) \<Rightarrow> federation_config \<Rightarrow> (string \<rightharpoonup> string) \<Rightarrow>
     (transport_error + (string \<rightharpoonup> string)) option" where
  "apply_pki_env read c vars =
     (case fc_pki_env c of
        None \<Rightarrow> Some (Ok vars)
      | Some path \<Rightarrow>
          (case read path of
             Inl e \<Rightarrow> Some (Err (TeValidation (''read PKI env '' @ path @ '': '' @ e)))
           | Inr content \<Rightarrow> map_option Inr (pki_env_lines (read_lines content) vars)))"

section \<open>Paths name one object\<close>

lemma hex_digit_alphanumeric: "n < 16 \<Longrightarrow> is_ascii_alphanumeric (hex_digit n)"
proof -
  assume "n < 16"
  then have "hex_digit n \<in> set ''0123456789ABCDEF''" unfolding hex_digit_def by (intro nth_mem) simp
  then show ?thesis by (auto simp: is_ascii_alphanumeric_def is_ascii_alphabetic_def)
qed

lemma encode_byte_chars: "d \<in> set (encode_byte c) \<Longrightarrow> path_unreserved d \<or> d = CHR ''%''"
proof -
  have "(of_char c :: nat) div 16 < 16" "(of_char c :: nat) mod 16 < 16"
    using of_char_less_256 [of c] by (simp_all add: div_less_iff_less_mult)
  then show "d \<in> set (encode_byte c) \<Longrightarrow> path_unreserved d \<or> d = CHR ''%''"
    by (auto simp: encode_byte_def path_unreserved_def hex_digit_alphanumeric split: if_splits)
qed

lemma encode_chars: "d \<in> set (encode_oid_for_path oid) \<Longrightarrow> path_unreserved d \<or> d = CHR ''%''"
  unfolding encode_oid_for_path_def using encode_byte_chars by auto

lemma encode_plain_chars:
  "CHR ''/'' \<notin> set (encode_oid_for_path oid)" "CHR ''?'' \<notin> set (encode_oid_for_path oid)"
  using encode_chars [of "CHR ''/''" oid] encode_chars [of "CHR ''?''" oid]
  by (auto simp: path_unreserved_def is_ascii_alphanumeric_def is_ascii_alphabetic_def)

lemma encode_byte_length: "1 \<le> length (encode_byte c)" "length (encode_byte c) \<le> 3"
  by (simp_all add: encode_byte_def)

lemma encode_length: "length oid \<le> length (encode_oid_for_path oid)" "length (encode_oid_for_path oid) \<le> 3 * length oid"
proof (induction oid)
  case (Cons c oid)
  { case 1 with Cons(1) encode_byte_length(1) [of c] show ?case by (simp add: encode_oid_for_path_def) }
  { case 2 with Cons(2) encode_byte_length(2) [of c] show ?case by (simp add: encode_oid_for_path_def) }
qed (simp_all add: encode_oid_for_path_def)

lemma encode_Nil_iff: "encode_oid_for_path oid = [] \<longleftrightarrow> oid = []"
  using encode_length [of oid] by auto

lemma unreserved_not_space: "path_unreserved c \<or> c = CHR ''%'' \<Longrightarrow> \<not> ws_tail c"
  by (auto simp: ws_tail_def white_space_seqs_def path_unreserved_def is_ascii_alphanumeric_def is_ascii_alphabetic_def)

lemma normalize_object_path:
  assumes "oid \<noteq> []"
  shows "rest_normalize_path (object_path oid) = object_path oid"
proof -
  let ?e = "encode_oid_for_path oid"
  have e: "?e \<noteq> []" using assms by (simp add: encode_Nil_iff)
  have last: "last (object_path oid) = last ?e" using e by (simp add: object_path_def)
  have "path_unreserved (last ?e) \<or> last ?e = CHR ''%''" using encode_chars [OF last_in_set [OF e]] .
  then have "\<not> ws_tail (last (object_path oid))" using last unreserved_not_space by simp
  then have trim: "trim (object_path oid) = object_path oid"
    by (intro trim_id) (simp add: object_path_def OBJECTS_def)
  have "CHR ''?'' \<notin> set (object_path oid)"
    using encode_plain_chars(2) by (simp add: object_path_def OBJECTS_def)
  then have split: "split_on (\<lambda>c. c = CHR ''?'') (object_path oid) = [object_path oid]"
    by (intro split_on_none) auto
  have "last (object_path oid) \<noteq> CHR ''/''"
    using last last_in_set [OF e] encode_plain_chars(1) [of oid] by metis
  then have "trim_end_matches (CHR ''/'') (object_path oid) = object_path oid"
    by (cases "object_path oid" rule: rev_cases) (auto simp: trim_end_matches_def)
  then show ?thesis
    using trim split by (simp add: rest_normalize_path_def Let_def)
qed

lemma routes_differ [simp]:
  "object_path oid \<noteq> OBJECTS" "object_path oid \<noteq> SYNC" "starts_with (object_path oid) (OBJECTS @ ''/'')"
  by (simp_all add: object_path_def OBJECTS_def SYNC_def starts_with_def)

lemma object_route:
  assumes "oid \<noteq> []"
  shows "parse_route m (object_path oid) =
     (case m of
        HmGet \<Rightarrow> Ok \<lparr>rr_method = HmGet, rr_path = object_path oid, rr_operation = IesGetByOid\<rparr>
      | HmDelete \<Rightarrow> Ok \<lparr>rr_method = HmDelete, rr_path = object_path oid, rr_operation = IesDeleteObject\<rparr>
      | HmPut \<Rightarrow> Err (TeUnsupported (''no MIP4-IES route for Put '' @ object_path oid)))"
  using normalize_object_path [OF assms] by (simp add: parse_route_def Let_def split: http_method.split)

lemma oid_from_object_path: "oid \<noteq> [] \<Longrightarrow> oid_from_path (object_path oid) = Ok (encode_oid_for_path oid)"
  using strip_prefix_append [of "OBJECTS @ ''/''" "encode_oid_for_path oid"]
  by (simp add: oid_from_path_def normalize_object_path) (simp add: object_path_def encode_Nil_iff)

text \<open>
  The path built for an object is one segment of at most three characters per byte, all of them
  unreserved or percent signs, below the collection path; it routes to exactly the two operations on an
  object, and the segment taken from it is the one built.
\<close>

theorem object_path_is_safe:
  assumes "oid \<noteq> []"
  shows "set (encode_oid_for_path oid) \<subseteq> {c. path_unreserved c \<or> c = CHR ''%''} \<and>
     length (encode_oid_for_path oid) \<in> {length oid .. 3 * length oid} \<and>
     parse_route HmGet (object_path oid) =
       Ok \<lparr>rr_method = HmGet, rr_path = object_path oid, rr_operation = IesGetByOid\<rparr> \<and>
     parse_route HmDelete (object_path oid) =
       Ok \<lparr>rr_method = HmDelete, rr_path = object_path oid, rr_operation = IesDeleteObject\<rparr> \<and>
     \<not> is_ok (parse_route HmPut (object_path oid)) \<and>
     oid_from_path (object_path oid) = Ok (encode_oid_for_path oid)"
  using encode_chars [of _ oid] encode_length [of oid] assms
  by (auto simp: object_route oid_from_object_path)

theorem object_path_is_safe_witness:
  "oid_from_path (object_path ''urn:uuid:7'') = Ok ''urn%3Auuid%3A7'' \<and>
     length ''urn%3Auuid%3A7'' \<in> {length ''urn:uuid:7'' .. 3 * length ''urn:uuid:7''}"
  using object_path_is_safe [of "''urn:uuid:7''"]
  by (simp add: encode_oid_for_path_def encode_byte_def path_unreserved_def is_ascii_alphanumeric_def
      is_ascii_alphabetic_def hex_digit_def)

text \<open>A name that is empty before the equals sign stops the process.\<close>

lemma pki_env_empty_name_panics: "pki_env_line ''=x'' vars = None"
  by (simp add: pki_env_line_def trim_id ws_lead_def ws_tail_def white_space_seqs_def starts_with_def
      split_once_def set_var_def)

text \<open>The reader of a path does not undo the percent encoding of the builder.\<close>

lemma path_reader_keeps_encoding:
  "parse_get_by_oid (object_path ''urn:x'') = Ok (ObjectIdentifier ''urn%3Ax'')"
proof -
  have "oid_from_path (object_path ''urn:x'') = Ok ''urn%3Ax''"
    using oid_from_object_path [of "''urn:x''"]
    by (simp add: encode_oid_for_path_def encode_byte_def path_unreserved_def is_ascii_alphanumeric_def
        is_ascii_alphabetic_def hex_digit_def)
  then show ?thesis
    by (simp add: parse_get_by_oid_def object_identifier_new_def trim_id ws_lead_def ws_tail_def white_space_seqs_def)
qed

end
