(* ===== verification/Http_Routes.thy ===== *)
theory Http_Routes
  imports Wire Subject_Identity Replication Runtime_Pki
begin

text \<open>
  Crate \<open>mim-transport-http\<close>: the route handlers (\<open>routes.rs\<close>), the federation client
  (\<open>federation_client.rs\<close>) and what the TLS server puts into the headers of a request (\<open>server.rs\<close>).
  A handler is a function of the application state and the request; the lock it holds makes it atomic,
  except for the replication notification, which takes the lock three times and is split there. Routing,
  extraction of path segments and queries, and sockets belong to the web framework.
\<close>

section \<open>State and environment\<close>

record 's app_state =
  as_broker :: "'s secured_broker"
  as_trust_store :: nmb_trust_store
  as_resolver :: subject_resolver
  as_require_identity :: bool
  as_fallback :: "subject_attributes option"
  as_webhook_targets :: "string list"
  as_federation_pull_url :: "string option"
  as_federation_client_cn :: "string option"
  as_federation_pki_mode :: pki_mode

record ('s, 'q) http_env =
  he_identity :: identity_env
  he_serial :: serial_env
  he_label :: label_codec
  he_crypto :: crypto_provider
  he_audit :: "'s audit_env"
  he_stamps :: "nat \<Rightarrow> stamp"
  he_render :: "json \<Rightarrow> string"
  he_weights :: "'q weights"
  he_envelope :: "string \<Rightarrow> string + rest_envelope"

datatype http_body =
    HbText string
  | HbPut put_object_response
  | HbInstance mim_instance
  | HbFilter get_by_filter_response
  | HbDelete delete_object_response
  | HbSync sync_response
  | HbReport replication_apply_report

record http_response =
  hr_status :: nat
  hr_content_type :: string
  hr_body :: http_body

section \<open>Path segments\<close>

definition hex_nibble :: "char \<Rightarrow> nat option" where
  "hex_nibble c =
     (let b = (of_char c :: nat) in
      if 48 \<le> b \<and> b \<le> 57 then Some (b - 48)
      else if 97 \<le> b \<and> b \<le> 102 then Some (b - 97 + 10)
      else if 65 \<le> b \<and> b \<le> 70 then Some (b - 65 + 10)
      else None)"

fun percent_bytes :: "string \<Rightarrow> string" where
  "percent_bytes (c # h # l # cs) =
     (if c = CHR ''%'' then
        (case (hex_nibble h, hex_nibble l) of
           (Some a, Some b) \<Rightarrow> char_of (16 * a + b) # percent_bytes cs
         | _ \<Rightarrow> c # percent_bytes (h # l # cs))
      else c # percent_bytes (h # l # cs))"
| "percent_bytes cs = cs"

definition percent_decode_path_segment :: "string \<Rightarrow> string" where
  "percent_decode_path_segment segment =
     (case from_utf8 (percent_bytes segment) of Inr s \<Rightarrow> s | Inl _ \<Rightarrow> segment)"

section \<open>Responses\<close>

fun error_status :: "transport_error \<Rightarrow> nat" where
  "error_status (TeNotFound _) = 404"
| "error_status (TeInactive _) = 410"
| "error_status (TeForbidden _) = 403"
| "error_status (TeInvalidRequest _) = 400"
| "error_status (TeValidation _) = 400"
| "error_status (TeUnsupported _) = 405"
| "error_status (TeSerialization _) = 422"

definition map_error :: "transport_error \<Rightarrow> http_response" where
  "map_error e =
     \<lparr>hr_status = error_status e, hr_content_type = ''text/plain; charset=utf-8'',
      hr_body = HbText (show_transport_error e)\<rparr>"

definition negotiated_format :: "('s, 'q) http_env \<Rightarrow> header_map \<Rightarrow> wire_payload_format" where
  "negotiated_format env headers = negotiate_format (he_weights env) (headers ''accept'') WpJson"

definition negotiated_response :: "wire_payload_format \<Rightarrow> nat \<Rightarrow> http_body \<Rightarrow> http_response" where
  "negotiated_response f status body =
     \<lparr>hr_status = status, hr_content_type = (if f = WpXml then MEDIA_MIM_JSON else content_type f), hr_body = body\<rparr>"

definition mim_payload_response :: "wire_payload_format \<Rightarrow> string \<Rightarrow> http_response" where
  "mim_payload_response f body = \<lparr>hr_status = 200, hr_content_type = content_type f, hr_body = HbText body\<rparr>"

definition http_serialize_instance ::
  "serial_env \<Rightarrow> mim_instance \<Rightarrow> wire_payload_format \<Rightarrow> transport_error + string" where
  "http_serialize_instance env i f =
     and_then (map_err transport_error_of_mim (wire_registry env)) (\<lambda>reg.
       map_err transport_error_of_mim (sx_serialize_instance env reg i (wire_serialization_format f)))"

definition http_serialize_instances ::
  "serial_env \<Rightarrow> mim_instance list \<Rightarrow> wire_payload_format \<Rightarrow> transport_error + string" where
  "http_serialize_instances env is f =
     and_then (map_err transport_error_of_mim (wire_registry env)) (\<lambda>reg.
       map_err transport_error_of_mim
         (sx_serialize_store env reg (fold (\<lambda>i s. snd (store_insert i s)) is instance_store_default)
           (wire_serialization_format f)))"

section \<open>The subject of a request\<close>

fun policy_error_to_transport :: "policy_error \<Rightarrow> transport_error" where
  "policy_error_to_transport (PeDenied m) = TeForbidden m"
| "policy_error_to_transport (PeNotFound m) = TeForbidden m"
| "policy_error_to_transport (PeInvalid m) = TeValidation m"
| "policy_error_to_transport (PeValidation m) = TeValidation m"
| "policy_error_to_transport (PeSerialization m) = TeSerialization m"

definition request_tls_identity :: "header_map \<Rightarrow> tls_client_identity option" where
  "request_tls_identity headers =
     map_option (\<lambda>cn. \<lparr>ti_cn = cn, ti_cert_sha256 = headers HEADER_MIM_CLIENT_CERT_SHA256,
         ti_subject_dn = headers ''x-mim-tls-client-dn''\<rparr>) (headers ''x-mim-tls-client-cn'')"

definition resolve_subject_for_request ::
  "('s, 'q) http_env \<Rightarrow> 's app_state \<Rightarrow> header_map \<Rightarrow> tls_client_identity option \<Rightarrow>
     transport_error + subject_attributes" where
  "resolve_subject_for_request env st headers tls =
     (case resolve_request_subject (he_identity env) (as_resolver st) headers tls (as_require_identity st) of
        Inr su \<Rightarrow> Ok su
      | Inl e \<Rightarrow>
          (case as_fallback st of
             Some su \<Rightarrow> if \<not> as_require_identity st then Ok su else Err (policy_error_to_transport e)
           | None \<Rightarrow> Err (policy_error_to_transport e)))"

section \<open>The handlers (\<open>routes.rs\<close>)\<close>

definition payload_format_of :: "header_map \<Rightarrow> rest_envelope \<Rightarrow> wire_payload_format" where
  "payload_format_of headers e =
     (case Option.bind (headers ''content-type'') format_from_content_type of
        Some f \<Rightarrow> f
      | None \<Rightarrow>
          (case Option.bind (headers ''x-mim-payload-format'') format_from_content_type of
             Some f \<Rightarrow> f
           | None \<Rightarrow> detect_payload_format (re_payload e)))"

definition put_request ::
  "('s, 'q) http_env \<Rightarrow> 's app_state \<Rightarrow> header_map \<Rightarrow> tls_client_identity option \<Rightarrow> rest_envelope \<Rightarrow>
     transport_error + subject_attributes \<times> mim_instance" where
  "put_request env st headers tls e =
     and_then (ok_or (TeForbidden ''REST envelope missing NMBS assertion'')
         (map_option (\<lambda>a. bs_key_id (ab_signature a)) (re_assertion e))) (\<lambda>key_id.
     and_then (map_err (\<lambda>err. TeValidation (show_crypto_error err)) (verify_key_for (as_trust_store st) key_id)) (\<lambda>k.
       if headers ''x-nato-confidentiality-label'' \<noteq> Some (re_originator_label e) then
         Err (TeForbidden ''REST envelope label header mismatch'')
       else
         and_then (unwrap_put_object_with_format (he_serial env) (he_label env) (he_crypto env) e k
             (Some (payload_format_of headers e))) (\<lambda>i.
         and_then (resolve_subject_for_request env st headers tls) (\<lambda>su. Ok (su, i)))))"

definition handle_put ::
  "('s, 'q) http_env \<Rightarrow> 's app_state \<Rightarrow> header_map \<Rightarrow> tls_client_identity option \<Rightarrow> rest_envelope \<Rightarrow>
     ((transport_error + put_object_response) \<times> 's app_state) option" where
  "handle_put env st headers tls e =
     (case put_request env st headers tls e of
        Inl err \<Rightarrow> Some (Err err, st)
      | Inr (su, i) \<Rightarrow>
          map_option (\<lambda>(res, b). (res, st\<lparr>as_broker := b\<rparr>))
            (put_object_as (he_audit env) (he_stamps env 0) su i (as_broker st)))"

text \<open>A successful put also posts the new sequence number to every webhook, best effort.\<close>

definition http_put_object ::
  "('s, 'q) http_env \<Rightarrow> 's app_state \<Rightarrow> header_map \<Rightarrow> string \<Rightarrow>
     (http_response \<times> 's app_state \<times> (string \<times> u64) list) option" where
  "http_put_object env st headers body =
     (case validate_mim_version (headers ''mim-version'') of
        Inl e \<Rightarrow> Some (map_error (TeInvalidRequest e), st, [])
      | Inr _ \<Rightarrow>
          (case he_envelope env body of
             Inl e \<Rightarrow> Some (map_error (TeSerialization e), st, [])
           | Inr envelope \<Rightarrow>
               map_option (\<lambda>(res, st1). case res of
                   Inr r \<Rightarrow>
                     (negotiated_response WpJson 201 (HbPut r), st1,
                      map (\<lambda>url. (url, br_sequence (sb_inner (as_broker st1)))) (as_webhook_targets st1))
                 | Inl e \<Rightarrow> (map_error e, st1, []))
                 (handle_put env st headers (request_tls_identity headers) envelope)))"

definition segment_path :: "string \<Rightarrow> string" where
  "segment_path segment = OBJECTS @ ''/'' @ percent_decode_path_segment segment"

definition http_get_by_oid ::
  "('s, 'q) http_env \<Rightarrow> 's app_state \<Rightarrow> header_map \<Rightarrow> string \<Rightarrow> http_response \<times> 's app_state" where
  "http_get_by_oid env st headers segment =
     (case validate_mim_version (headers ''mim-version'') of
        Inl e \<Rightarrow> (map_error (TeInvalidRequest e), st)
      | Inr _ \<Rightarrow>
          (case parse_get_by_oid (segment_path segment) of
             Inl e \<Rightarrow> (map_error e, st)
           | Inr oid \<Rightarrow>
               (case resolve_subject_for_request env st headers (request_tls_identity headers) of
                  Inl e \<Rightarrow> (map_error e, st)
                | Inr su \<Rightarrow>
                    (let f = negotiated_format env headers;
                         (res, b) = get_by_oid_as (he_audit env) (he_stamps env 0) su oid (as_broker st)
                     in (case res of
                           Inl e \<Rightarrow> map_error e
                         | Inr i \<Rightarrow>
                             if f = WpJson then negotiated_response f 200 (HbInstance i)
                             else (case http_serialize_instance (he_serial env) i f of
                                 Inl e \<Rightarrow> map_error e
                               | Inr body \<Rightarrow> mim_payload_response f body),
                         st\<lparr>as_broker := b\<rparr>)))))"

record filter_query =
  fq_filter :: "string option"
  fq_class_name :: "string option"
  fq_property_name :: "string option"
  fq_property_value :: "string option"
  fq_limit :: "nat option"
  fq_offset :: "nat option"

definition http_get_by_filter ::
  "('s, 'q) http_env \<Rightarrow> 's app_state \<Rightarrow> header_map \<Rightarrow> filter_query \<Rightarrow> http_response \<times> 's app_state" where
  "http_get_by_filter env st headers q =
     (case filter_from_query (fq_filter q) (fq_class_name q) (fq_property_name q) (fq_property_value q)
         (fq_limit q) (fq_offset q) of
        Inl e \<Rightarrow> (map_error e, st)
      | Inr req \<Rightarrow>
          (case resolve_subject_for_request env st headers (request_tls_identity headers) of
             Inl e \<Rightarrow> (map_error e, st)
           | Inr su \<Rightarrow>
               (let f = negotiated_format env headers;
                    (res, b) = get_by_filter_as (he_audit env) (he_stamps env) su (he_render env) req (as_broker st)
                in (case res of
                      Inl e \<Rightarrow> map_error e
                    | Inr r \<Rightarrow>
                        if f = WpJson then negotiated_response f 200 (HbFilter r)
                        else (case http_serialize_instances (he_serial env) (gr_instances r) f of
                            Inl e \<Rightarrow> map_error e
                          | Inr body \<Rightarrow> mim_payload_response f body),
                    st\<lparr>as_broker := b\<rparr>))))"

definition http_delete_object ::
  "('s, 'q) http_env \<Rightarrow> 's app_state \<Rightarrow> header_map \<Rightarrow> string \<Rightarrow> http_response \<times> 's app_state" where
  "http_delete_object env st headers segment =
     (case parse_delete (segment_path segment) of
        Inl e \<Rightarrow> (map_error e, st)
      | Inr oid \<Rightarrow>
          (case resolve_subject_for_request env st headers (request_tls_identity headers) of
             Inl e \<Rightarrow> (map_error e, st)
           | Inr su \<Rightarrow>
               (let (res, b) = delete_object_as (he_audit env) (he_stamps env 0) su oid (as_broker st)
                in (case res of
                      Inl e \<Rightarrow> map_error e
                    | Inr r \<Rightarrow> negotiated_response WpJson 200 (HbDelete r),
                    st\<lparr>as_broker := b\<rparr>))))"

definition http_sync_changes ::
  "('s, 'q) http_env \<Rightarrow> 's app_state \<Rightarrow> header_map \<Rightarrow> u64 option \<Rightarrow> http_response \<times> 's app_state" where
  "http_sync_changes env st headers since =
     (case resolve_subject_for_request env st headers (request_tls_identity headers) of
        Inl e \<Rightarrow> (map_error e, st)
      | Inr su \<Rightarrow>
          (let (r, b) = sync_since_as (he_audit env) (he_stamps env) su (case since of Some n \<Rightarrow> n | None \<Rightarrow> 0)
               (as_broker st)
           in (negotiated_response WpJson 200 (HbSync r), st\<lparr>as_broker := b\<rparr>)))"

section \<open>The enveloped put of the broker (\<open>secured.rs\<close>)\<close>

definition put_object_enveloped_as ::
  "('s, 'q) http_env \<Rightarrow> subject_attributes \<Rightarrow> rest_envelope \<Rightarrow> verifying_key \<Rightarrow> 's secured_broker \<Rightarrow>
     ((transport_error + put_object_response) \<times> 's secured_broker) option" where
  "put_object_enveloped_as env su e k s =
     (case unwrap_put_object (he_serial env) (he_label env) (he_crypto env) e k of
        Inl err \<Rightarrow> Some (Err err, s)
      | Inr i \<Rightarrow> put_object_as (he_audit env) (he_stamps env 0) su i s)"

definition put_object_enveloped ::
  "('s, 'q) http_env \<Rightarrow> rest_envelope \<Rightarrow> verifying_key \<Rightarrow> 's secured_broker \<Rightarrow>
     ((transport_error + put_object_response) \<times> 's secured_broker) option" where
  "put_object_enveloped env e k s =
     (case unwrap_put_object (he_serial env) (he_label env) (he_crypto env) e k of
        Inl err \<Rightarrow> Some (Err err, s)
      | Inr i \<Rightarrow> secured_put_object (he_audit env) (he_stamps env 0) i s)"

section \<open>The federation client (\<open>federation_client.rs\<close>)\<close>

text \<open>The HTTP library: \<open>fx_header\<close> checks a header value, the two requests answer a status and the
  decoded body.\<close>

record federation_net =
  fx_build :: "pki_mode \<Rightarrow> string + unit"
  fx_header :: "string \<Rightarrow> string + unit"
  fx_get_sync :: "string \<Rightarrow> header_map \<Rightarrow> string + nat \<times> (string + sync_response)"
  fx_get_object :: "string \<Rightarrow> header_map \<Rightarrow> string + nat \<times> (string + mim_instance)"
  fx_status_text :: "nat \<Rightarrow> string"

record http_client =
  hc_mode :: pki_mode
  hc_sync_url :: string
  hc_objects_base_url :: string
  hc_headers :: header_map

definition derive_objects_base_url :: "string \<Rightarrow> transport_error + string" where
  "derive_objects_base_url sync_url =
     and_then (ok_or (TeInvalidRequest (''federation sync URL must end with /sync: '' @ sync_url))
         (strip_suffix ''/sync'' (trim_end_matches (CHR ''/'') sync_url))) (\<lambda>api_base.
       Ok (api_base @ ''/objects''))"

definition client_new_with_mode :: "federation_net \<Rightarrow> string \<Rightarrow> pki_mode \<Rightarrow> transport_error + http_client" where
  "client_new_with_mode net sync_url mode =
     and_then (derive_objects_base_url sync_url) (\<lambda>base.
     and_then (map_err (\<lambda>e. TeValidation (''HTTP client: '' @ e)) (fx_build net mode)) (\<lambda>_.
       Ok \<lparr>hc_mode = mode, hc_sync_url = sync_url, hc_objects_base_url = base, hc_headers = (\<lambda>_. None)\<rparr>))"

definition federation_client_cn :: "federation_net \<Rightarrow> string \<Rightarrow> http_client \<Rightarrow> transport_error + http_client" where
  "federation_client_cn net cn c =
     and_then (map_err (\<lambda>e. TeInvalidRequest (''client CN header: '' @ e)) (fx_header net cn)) (\<lambda>_.
       Ok (c\<lparr>hc_headers := (hc_headers c)(HEADER_MIM_CLIENT_CN \<mapsto> cn)\<rparr>))"

definition with_client_principal :: "federation_net \<Rightarrow> string \<Rightarrow> http_client \<Rightarrow> transport_error + http_client" where
  "with_client_principal net p c =
     and_then (map_err (\<lambda>e. TeInvalidRequest (''client principal header: '' @ e)) (fx_header net p)) (\<lambda>_.
       Ok (c\<lparr>hc_headers := (hc_headers c)(HEADER_MIM_CLIENT_PRINCIPAL \<mapsto> p)\<rparr>))"

definition client_from_federation_config ::
  "federation_net \<Rightarrow> federation_config \<Rightarrow> string \<Rightarrow> string \<Rightarrow> pki_mode \<Rightarrow> transport_error + http_client" where
  "client_from_federation_config net config peer_role cn mode =
     and_then (ok_or (TeInvalidRequest (''federation config has no peer sync URL for '' @ quoted peer_role))
         (peer_sync_url config peer_role)) (\<lambda>url.
     and_then (client_new_with_mode net url mode) (federation_client_cn net cn))"

definition is_success :: "nat \<Rightarrow> bool" where
  "is_success status \<longleftrightarrow> 200 \<le> status \<and> status < 300"

definition map_http_status :: "nat \<Rightarrow> string \<Rightarrow> transport_error" where
  "map_http_status status url =
     (if status = 404 then TeNotFound url
      else if status = 410 then TeInactive url
      else if status = 403 then TeForbidden (''PEP denied GET '' @ url)
      else TeValidation (''GET '' @ url @ '' returned HTTP '' @ show_nat status))"

definition fetch_sync_async :: "federation_net \<Rightarrow> http_client \<Rightarrow> u64 \<Rightarrow> transport_error + sync_response" where
  "fetch_sync_async net c since =
     (let url = (if since = 0 then hc_sync_url c else hc_sync_url c @ ''?since='' @ show_nat (unat since)) in
      and_then (map_err (\<lambda>e. TeValidation (''sync GET failed: '' @ e)) (fx_get_sync net url (hc_headers c)))
        (\<lambda>(status, body).
          if \<not> is_success status then
            Err (TeValidation (''sync GET '' @ url @ '' returned '' @ fx_status_text net status))
          else map_err TeSerialization body))"

definition fetch_instance_async ::
  "federation_net \<Rightarrow> http_client \<Rightarrow> object_identifier \<Rightarrow> transport_error + mim_instance" where
  "fetch_instance_async net c oid =
     (let url = hc_objects_base_url c @ ''/'' @ encode_oid_for_path (oid_as_str oid) in
      and_then (map_err (\<lambda>e. TeValidation (''object GET failed: '' @ e)) (fx_get_object net url (hc_headers c)))
        (\<lambda>(status, body).
          if \<not> is_success status then Err (map_http_status status url) else map_err TeSerialization body))"

definition http_publisher :: "federation_net \<Rightarrow> http_client \<Rightarrow> federation_publisher" where
  "http_publisher net c =
     \<lparr>fetch_sync = fetch_sync_async net c, fetch_instance = fetch_instance_async net c\<rparr>"

text \<open>\<open>replicate_into\<close> is the pull of the replication agent over this publisher.\<close>

definition replicate_into ::
  "federation_net \<Rightarrow> http_client \<Rightarrow> u64 \<Rightarrow> exchange_broker \<Rightarrow>
     ((transport_error + replication_apply_report) \<times> exchange_broker) option" where
  "replicate_into net c since consumer = pull_and_apply_remote (http_publisher net c) since consumer"

section \<open>The replication notification\<close>

text \<open>The handler in the steps between which it gives up the lock: the client, the position, the copy of
  the broker, the pull into the copy, and the copy written back.\<close>

definition notify_client :: "federation_net \<Rightarrow> 's app_state \<Rightarrow> transport_error + http_client" where
  "notify_client net st =
     and_then (ok_or (TeInvalidRequest ''node is not configured as federation consumer (no pull URL)'')
         (as_federation_pull_url st)) (\<lambda>url.
     and_then (client_new_with_mode net url (as_federation_pki_mode st))
       (federation_client_cn net
         (case as_federation_client_cn st of Some cn \<Rightarrow> cn | None \<Rightarrow> ''gbr-analyst.nato.mil'')))"

definition notify_since :: "'s app_state \<Rightarrow> u64" where
  "notify_since st = br_applied_sequence (sb_inner (as_broker st))"

definition notify_staging :: "'s app_state \<Rightarrow> exchange_broker" where
  "notify_staging st = sb_inner (as_broker st)"

definition notify_commit ::
  "(transport_error + replication_apply_report) \<times> exchange_broker \<Rightarrow> 's app_state \<Rightarrow>
     http_response \<times> 's app_state" where
  "notify_commit pulled st =
     (case fst pulled of
        Inl e \<Rightarrow> (map_error e, st)
      | Inr report \<Rightarrow>
          (negotiated_response WpJson 200 (HbReport report),
           st\<lparr>as_broker := (as_broker st)\<lparr>sb_inner := snd pulled\<rparr>\<rparr>))"

text \<open>The handler when nothing else runs in between.\<close>

definition http_replication_notify ::
  "federation_net \<Rightarrow> 's app_state \<Rightarrow> (http_response \<times> 's app_state) option" where
  "http_replication_notify net st =
     (case notify_client net st of
        Inl e \<Rightarrow> Some (map_error e, st)
      | Inr c \<Rightarrow>
          map_option (\<lambda>pulled. notify_commit pulled st) (replicate_into net c (notify_since st) (notify_staging st)))"

section \<open>The server (\<open>server.rs\<close>)\<close>

definition hex_lower :: "nat \<Rightarrow> char" where
  "hex_lower n = ''0123456789abcdef'' ! n"

definition sha256_hex :: "crypto_provider \<Rightarrow> bytes \<Rightarrow> string" where
  "sha256_hex cp d =
     concat (map (\<lambda>b. [hex_lower (of_char b div 16), hex_lower (of_char b mod 16)]) (cp_hash_sha256 cp d))"

text \<open>The certificates of the peer, the X.509 parser and the rendering of a subject are arguments.\<close>

definition extract_peer_identity ::
  "crypto_provider \<Rightarrow> (bytes \<Rightarrow> (bool \<times> string option) list list option) \<Rightarrow> (bytes \<Rightarrow> string option) \<Rightarrow>
     bytes list option \<Rightarrow> tls_client_identity option" where
  "extract_peer_identity cp x509 subject_dn certs =
     (case certs of
        Some (der # _) \<Rightarrow>
          Some \<lparr>ti_cn = (case client_cn_from_cert_der x509 der of Some cn \<Rightarrow> cn | None \<Rightarrow> ''cert-'' @ sha256_hex cp der),
                ti_cert_sha256 = Some (sha256_hex cp der), ti_subject_dn = subject_dn der\<rparr>
      | _ \<Rightarrow> None)"

definition header_insert :: "(string \<Rightarrow> bool) \<Rightarrow> string \<Rightarrow> string \<Rightarrow> header_map \<Rightarrow> header_map" where
  "header_insert value_ok name v headers = (if value_ok v then headers(name \<mapsto> v) else headers)"

definition server_headers ::
  "(string \<Rightarrow> bool) \<Rightarrow> tls_client_identity option \<Rightarrow> header_map \<Rightarrow> header_map" where
  "server_headers value_ok peer headers =
     (case peer of
        None \<Rightarrow> headers
      | Some t \<Rightarrow>
          (let h1 = header_insert value_ok ''x-mim-tls-client-cn'' (ti_cn t) headers;
               h2 = (case ti_cert_sha256 t of
                       Some f \<Rightarrow> header_insert value_ok HEADER_MIM_CLIENT_CERT_SHA256 f h1
                     | None \<Rightarrow> h1)
           in case ti_subject_dn t of
                Some dn \<Rightarrow> header_insert value_ok ''x-mim-tls-client-dn'' dn h2
              | None \<Rightarrow> h2))"

section \<open>An object has one address\<close>

lemma percent_bytes_plain: "c \<noteq> CHR ''%'' \<Longrightarrow> percent_bytes (c # s) = c # percent_bytes s"
  by (cases s rule: percent_bytes.cases; cases "tl s") auto

lemma hex_nibble_digit: "n < 16 \<Longrightarrow> hex_nibble (hex_digit n) = Some n"
proof -
  have "list_all (\<lambda>k. hex_nibble (hex_digit k) = Some k) [0..<16]" by code_simp
  then show "n < 16 \<Longrightarrow> hex_nibble (hex_digit n) = Some n" by (simp add: list_all_iff)
qed

lemma percent_bytes_encode_byte: "percent_bytes (encode_byte c @ s) = c # percent_bytes s"
proof (cases "path_unreserved c")
  case True
  then have "c \<noteq> CHR ''%''"
    by (auto simp: path_unreserved_def is_ascii_alphanumeric_def is_ascii_alphabetic_def)
  with True show ?thesis by (simp add: encode_byte_def percent_bytes_plain)
next
  case False
  have "(of_char c :: nat) div 16 < 16" "(of_char c :: nat) mod 16 < 16"
    using of_char_less_256 [of c] by (simp_all add: div_less_iff_less_mult)
  then have "hex_nibble (hex_digit (of_char c div 16)) = Some (of_char c div 16)"
    and "hex_nibble (hex_digit (of_char c mod 16)) = Some (of_char c mod 16)"
    by (simp_all add: hex_nibble_digit)
  moreover have "char_of (16 * (of_char c div 16) + of_char c mod 16 :: nat) = c"
    by (simp only: mult_div_mod_eq char_of_char)
  ultimately show ?thesis using False by (simp add: encode_byte_def)
qed

lemma percent_bytes_encode: "percent_bytes (encode_oid_for_path oid) = oid"
  by (induction oid) (simp_all add: encode_oid_for_path_def percent_bytes_encode_byte)

lemma percent_decode_encode: "from_utf8 oid = Ok oid \<Longrightarrow> percent_decode_path_segment (encode_oid_for_path oid) = oid"
  by (simp add: percent_decode_path_segment_def percent_bytes_encode)

lemma percent_bytes_id: "CHR ''%'' \<notin> set s \<Longrightarrow> percent_bytes s = s"
  by (induction s) (auto simp: percent_bytes_plain)

text \<open>Object identifiers that survive the path: the handler decodes the segment, which the framework has
  already decoded, and then takes the path apart again.\<close>

definition addressable :: "string \<Rightarrow> bool" where
  "addressable oid \<longleftrightarrow>
     trim oid \<noteq> [] \<and> from_utf8 oid = Ok oid \<and> \<not> ws_tail (last oid) \<and> last oid \<noteq> CHR ''/'' \<and>
     CHR ''?'' \<notin> set oid \<and> CHR ''%'' \<notin> set oid"

lemma addressable_path:
  assumes "addressable oid" and "percent_decode_path_segment segment = oid"
  shows "oid_from_path (segment_path segment) = Ok oid"
proof -
  let ?path = "OBJECTS @ ''/'' @ oid"
  have oid: "oid \<noteq> []" using assms(1) by (auto simp: addressable_def)
  then have last: "last ?path = last oid" by simp
  then have "trim ?path = ?path" using assms(1) oid
    by (intro trim_id) (simp add: OBJECTS_def addressable_def)
  moreover have "split_on (\<lambda>c. c = CHR ''?'') ?path = [?path]"
    using assms(1) by (intro split_on_none) (auto simp: OBJECTS_def addressable_def)
  moreover have "trim_end_matches (CHR ''/'') ?path = ?path"
    using assms(1) last oid by (cases oid rule: rev_cases) (auto simp: trim_end_matches_def addressable_def)
  ultimately have "rest_normalize_path ?path = ?path" by (simp add: rest_normalize_path_def Let_def)
  then show ?thesis
    using assms(2) oid strip_prefix_append [of "OBJECTS @ ''/''" oid]
    by (simp add: oid_from_path_def segment_path_def)
qed

lemma addressable_object:
  assumes "addressable oid" and "percent_decode_path_segment segment = oid"
  shows "parse_get_by_oid (segment_path segment) = Ok (ObjectIdentifier oid)"
    and "parse_delete (segment_path segment) = Ok (ObjectIdentifier oid)"
  using assms(1) addressable_path [OF assms]
  by (simp_all add: parse_get_by_oid_def parse_delete_def object_identifier_new_def addressable_def)

lemma addressable_decodes:
  "addressable oid \<Longrightarrow> percent_decode_path_segment (encode_oid_for_path oid) = oid"
  "addressable oid \<Longrightarrow> percent_decode_path_segment oid = oid"
  by (simp add: addressable_def percent_decode_encode)
    (simp add: addressable_def percent_decode_path_segment_def percent_bytes_id)

text \<open>
  The percent encoding of an identifier decodes to the identifier, and an identifier without
  percent sign, question mark, trailing slash or trailing white space is the object that the read and
  the delete handler address, whether or not the framework has decoded the segment before.
\<close>

theorem object_address_round_trip:
  assumes "from_utf8 oid = Ok oid"
  shows "percent_decode_path_segment (encode_oid_for_path oid) = oid \<and>
     (addressable oid \<longrightarrow> (\<forall>segment \<in> {encode_oid_for_path oid, oid}.
        parse_get_by_oid (segment_path segment) = Ok (ObjectIdentifier oid) \<and>
        parse_delete (segment_path segment) = Ok (ObjectIdentifier oid)))"
  using percent_decode_encode [OF assms] addressable_object [of oid] addressable_decodes [of oid] by blast

theorem object_address_round_trip_witness:
  "percent_decode_path_segment (encode_oid_for_path ''urn:7'') = ''urn:7'' \<and>
     parse_delete (segment_path ''urn:7'') = Ok (ObjectIdentifier ''urn:7'')"
proof -
  have "from_utf8 ''urn:7'' = Ok ''urn:7''" by (rule from_utf8_ascii) simp
  moreover from this have "addressable ''urn:7''"
    by (simp add: addressable_def trim_id ws_lead_def ws_tail_def white_space_seqs_def)
  ultimately show ?thesis using object_address_round_trip [of "''urn:7''"] by simp
qed

text \<open>Other identifiers address another object: the rest after a question mark is cut off, a percent
  sequence of the identifier itself is decoded.\<close>

lemma deletes_another_object:
  "parse_delete (segment_path ''a?b'') = Ok (ObjectIdentifier ''a'')"
  "percent_decode_path_segment ''a%41'' = ''aA''"
proof -
  have "percent_decode_path_segment ''a?b'' = ''a?b''"
    using from_utf8_ascii [of "''a?b''"] by (simp add: percent_decode_path_segment_def)
  moreover have "trim (OBJECTS @ ''/a?b'') = OBJECTS @ ''/a?b''"
    by (rule trim_id) (simp add: OBJECTS_def ws_lead_def ws_tail_def white_space_seqs_def)
  moreover have "split_on (\<lambda>c. c = CHR ''?'') (OBJECTS @ ''/a?b'') = [OBJECTS @ ''/a'', ''b'']"
    by (simp add: OBJECTS_def)
  ultimately have "rest_normalize_path (segment_path ''a?b'') = OBJECTS @ ''/a''"
    by (simp add: rest_normalize_path_def segment_path_def) (simp add: OBJECTS_def trim_end_matches_def)
  then show "parse_delete (segment_path ''a?b'') = Ok (ObjectIdentifier ''a'')"
    using strip_prefix_append [of "OBJECTS @ ''/''" "''a''"]
    by (simp add: parse_delete_def oid_from_path_def object_identifier_new_def trim_id ws_lead_def ws_tail_def
        white_space_seqs_def)
  show "percent_decode_path_segment ''a%41'' = ''aA''"
    using from_utf8_ascii [of "''aA''"] by (simp add: percent_decode_path_segment_def hex_nibble_def char_of_def bit_0)
qed

end
