(* ===== verification/Http_Service.thy ===== *)
theory Http_Service
  imports Http_Routes
begin

text \<open>
  What the HTTP service of \<open>mim-transport-http\<close> guarantees, and what it does not: who may write and under
  whose signature, requests without an identity, the subject behind a client certificate, payloads in
  XML, a notification that overtakes a put, and the replication pull over HTTP against the pull from
  the broker itself.
\<close>

section \<open>Accepted puts\<close>

lemma put_request_Ok_iff:
  "put_request env st headers tls e = Ok (su, i) \<longleftrightarrow>
     (\<exists>a k reg. re_assertion e = Some a \<and> verify_key_for (as_trust_store st) (bs_key_id (ab_signature a)) = Ok k \<and>
        headers ''x-nato-confidentiality-label'' = Some (re_originator_label e) \<and>
        rest_verify (he_label env) (he_crypto env) e k = Ok () \<and> wire_registry (he_serial env) = Ok reg \<and>
        sx_deserialize_instance (he_serial env) (re_payload e)
          (wire_serialization_format (payload_format_of headers e)) = Ok i \<and>
        resolve_subject_for_request env st headers tls = Ok su)"
  by (auto simp: put_request_def and_then_Inr_iff unwrap_put_object_with_format_def Let_def)

lemma handle_put_Ok_iff:
  "(\<exists>st'. handle_put env st headers tls e = Some (Ok r, st') \<and> sb_inner (as_broker st') = b) \<longleftrightarrow>
     (\<exists>su i. put_request env st headers tls e = Ok (su, i) \<and> may_access (as_broker st) su OpWrite i \<and>
        put_object i (sb_inner (as_broker st)) = Some (Ok (r, b)))"
proof (cases "put_request env st headers tls e")
  case (Inr q)
  obtain su i where q: "q = (su, i)" by (cases q)
  have "(\<exists>st'. handle_put env st headers tls e = Some (Ok r, st') \<and> sb_inner (as_broker st') = b) \<longleftrightarrow>
      (\<exists>s'. put_object_as (he_audit env) (he_stamps env 0) su i (as_broker st) = Some (Ok r, s') \<and> sb_inner s' = b)"
    by (auto simp: handle_put_def Inr q)
  then show ?thesis
    using put_object_as_Ok_iff [of "he_audit env" "he_stamps env 0" su i "as_broker st" r b] by (simp add: Inr q)
qed (simp add: handle_put_def)

text \<open>
  C4: a put is accepted only under an assertion that a key of the trust store verifies over the payload
  as sent, with the label header equal to the one in the envelope, for a resolved subject that may write
  the decoded instance; its effect is the put of the broker, and a refused put changes nothing but the
  audit log.
\<close>

theorem http_put_is_signed_and_permitted:
  assumes "handle_put env st headers tls e = Some (res, st')"
  shows "(\<forall>r. res = Ok r \<longrightarrow>
       (\<exists>a k su i. re_assertion e = Some a \<and> k \<in> set (ts_keys (as_trust_store st)) \<and>
          vk_key_id k = bs_key_id (ab_signature a) \<and>
          assertion_verify (he_label env) (he_crypto env) a (re_payload e) k = Ok () \<and>
          headers ''x-nato-confidentiality-label'' = Some (re_originator_label e) \<and>
          resolve_subject_for_request env st headers tls = Ok su \<and>
          may_access (as_broker st) su OpWrite i \<and> mi_oid i = por_oid r \<and>
          sb_inner (as_broker st') = put_state i (sb_inner (as_broker st)))) \<and>
     (\<not> is_ok res \<longrightarrow> same_view (as_broker st) (as_broker st'))"
proof (intro conjI impI allI)
  fix r assume r: "res = Ok r"
  then obtain su i where q: "put_request env st headers tls e = Ok (su, i)"
    and may: "may_access (as_broker st) su OpWrite i"
    and put: "put_object i (sb_inner (as_broker st)) = Some (Ok (r, sb_inner (as_broker st')))"
    using assms handle_put_Ok_iff [of env st headers tls e r "sb_inner (as_broker st')"] by auto
  from q obtain a k where a: "re_assertion e = Some a"
    and k: "verify_key_for (as_trust_store st) (bs_key_id (ab_signature a)) = Ok k"
    and h: "headers ''x-nato-confidentiality-label'' = Some (re_originator_label e)"
    and v: "rest_verify (he_label env) (he_crypto env) e k = Ok ()"
    and su: "resolve_subject_for_request env st headers tls = Ok su"
    unfolding put_request_Ok_iff by blast
  have "assertion_verify (he_label env) (he_crypto env) a (re_payload e) k = Ok ()"
    using v a by (simp add: rest_verify_def split: if_splits)
  moreover have "mi_oid i = por_oid r \<and> sb_inner (as_broker st') = put_state i (sb_inner (as_broker st))"
    using put by (simp add: put_object_Ok_iff)
  ultimately show "\<exists>a k su i. re_assertion e = Some a \<and> k \<in> set (ts_keys (as_trust_store st)) \<and>
      vk_key_id k = bs_key_id (ab_signature a) \<and>
      assertion_verify (he_label env) (he_crypto env) a (re_payload e) k = Ok () \<and>
      headers ''x-nato-confidentiality-label'' = Some (re_originator_label e) \<and>
      resolve_subject_for_request env st headers tls = Ok su \<and>
      may_access (as_broker st) su OpWrite i \<and> mi_oid i = por_oid r \<and>
      sb_inner (as_broker st') = put_state i (sb_inner (as_broker st))"
    using a verify_key_for_Ok [OF k] h su may by blast
next
  assume err: "\<not> is_ok res"
  show "same_view (as_broker st) (as_broker st')"
  proof (cases "put_request env st headers tls e")
    case (Inl err')
    with assms show ?thesis by (simp add: handle_put_def)
  next
    case (Inr q)
    obtain su i where q: "q = (su, i)" by (cases q)
    from assms Inr q obtain b where
      put: "put_object_as (he_audit env) (he_stamps env 0) su i (as_broker st) = Some (res, b)"
      and b: "as_broker st' = b"
      by (auto simp: handle_put_def)
    from err obtain e' where "res = Err e'" by (cases res) auto
    with put have "put_object_as (he_audit env) (he_stamps env 0) su i (as_broker st) = Some (Err e', b)" by simp
    from put_object_as_Err_keeps [OF this] b show ?thesis by simp
  qed
qed

section \<open>Requests without an identity\<close>

definition identity_headers :: "string set" where
  "identity_headers =
     {HEADER_AUTHORIZATION, HEADER_MIM_CLIENT_PRINCIPAL, HEADER_MIM_CLIENT_CERT_SHA256, HEADER_MIM_CLIENT_CN,
      ''x-mim-tls-client-cn''}"

lemma anonymous_subject:
  assumes "as_require_identity st" and "\<forall>h \<in> identity_headers. headers h = None"
  shows "resolve_subject_for_request env st headers (request_tls_identity headers) =
     Err (TeForbidden ''mTLS client identity required for PEP-gated access'')"
  using assms
  by (simp add: resolve_subject_for_request_def resolve_request_subject_def resolve_by_headers_def
      request_tls_identity_def identity_headers_def split: option.split)

lemma map_error_status: "400 \<le> hr_status (map_error e)" "hr_status (map_error e) \<le> 422"
  by (cases e; simp add: map_error_def)+

text \<open>
  C15: where an identity is required, a request that carries none is answered with an error by every
  handler of objects and of the journal, and neither the stored objects, the journal nor the audit log
  change. (The handler of replication notifications asks for no identity.)
\<close>

theorem anonymous_requests_refused:
  assumes "as_require_identity st" and "\<forall>h \<in> identity_headers. headers h = None"
  shows "(\<exists>e'. handle_put env st headers (request_tls_identity headers) e = Some (Err e', st)) \<and>
     (\<forall>(resp, st') \<in> {http_get_by_oid env st headers segment, http_get_by_filter env st headers q,
         http_delete_object env st headers segment, http_sync_changes env st headers since}.
        400 \<le> hr_status resp \<and> st' = st)"
proof
  note none = anonymous_subject [OF assms, of env]
  have "\<not> is_ok (put_request env st headers (request_tls_identity headers) e)"
    using none by (auto simp: is_ok_iff put_request_Ok_iff)
  then show "\<exists>e'. handle_put env st headers (request_tls_identity headers) e = Some (Err e', st)"
    by (cases "put_request env st headers (request_tls_identity headers) e") (simp_all add: handle_put_def)
  show "\<forall>(resp, st') \<in> {http_get_by_oid env st headers segment, http_get_by_filter env st headers q,
         http_delete_object env st headers segment, http_sync_changes env st headers since}.
        400 \<le> hr_status resp \<and> st' = st"
    using map_error_status(1)
    by (auto simp: http_get_by_oid_def http_get_by_filter_def http_delete_object_def http_sync_changes_def none
        split: sum.splits)
qed

section \<open>Payloads in XML\<close>

text \<open>
  C20: an accepted put whose payload is XML stores an object that reads as NATO UNCLASSIFIED, whatever
  label the envelope and the header carry and the assertion signs: the XML form has no metadata, and an
  instance without metadata is taken as unclassified.
\<close>

theorem xml_put_is_unclassified:
  assumes "handle_put env st headers tls e = Some (Ok r, st')" and "payload_format_of headers e = WpXml"
  shows "\<exists>i. broker_get (sb_inner (as_broker st')) (por_oid r) = Some i \<and>
     instance_label i = Ok (conf_label_new nato_policy Unclassified)"
proof -
  from assms(1) obtain su i where q: "put_request env st headers tls e = Ok (su, i)"
    and put: "put_object i (sb_inner (as_broker st)) = Some (Ok (r, sb_inner (as_broker st')))"
    using handle_put_Ok_iff [of env st headers tls e r "sb_inner (as_broker st')"] by auto
  from q assms(2) have "mi_metadata i = metadata_default"
    by (auto simp: put_request_Ok_iff dest: xml_instance_metadata)
  then have "instance_label i = Ok (conf_label_new nato_policy Unclassified)"
    by (simp add: instance_label_def label_from_security_def metadata_default_def security_default_def)
  moreover have "broker_get (sb_inner (as_broker st')) (por_oid r) = Some i"
    using put by (simp add: put_object_Ok_iff)
  ultimately show ?thesis by blast
qed

section \<open>The identity behind a certificate\<close>

lemma server_headers_other:
  assumes "h \<notin> {''x-mim-tls-client-cn'', HEADER_MIM_CLIENT_CERT_SHA256, ''x-mim-tls-client-dn''}"
  shows "server_headers value_ok peer headers h = headers h"
  using assms
  by (auto simp: server_headers_def header_insert_def Let_def split: option.split)

lemma header_names_differ [simp]:
  "HEADER_AUTHORIZATION \<notin> {''x-mim-tls-client-cn'', HEADER_MIM_CLIENT_CERT_SHA256, ''x-mim-tls-client-dn''}"
  "HEADER_MIM_CLIENT_PRINCIPAL \<notin> {''x-mim-tls-client-cn'', HEADER_MIM_CLIENT_CERT_SHA256, ''x-mim-tls-client-dn''}"
  by (simp_all add: HEADER_AUTHORIZATION_def HEADER_MIM_CLIENT_PRINCIPAL_def HEADER_MIM_CLIENT_CERT_SHA256_def)

text \<open>The certificate of the connection decides nothing once the client names a principal: the header that
  the client sends is looked up first and the server does not remove it.\<close>

theorem client_header_overrides_certificate:
  assumes "headers HEADER_AUTHORIZATION = None" and "headers HEADER_MIM_CLIENT_PRINCIPAL = Some who"
    and "resolver_resolve (he_identity env) (as_resolver st) who = Ok su"
  shows "resolve_subject_for_request env st (server_headers value_ok peer headers)
     (request_tls_identity (server_headers value_ok peer headers)) = Ok su"
  using assms
  by (simp add: resolve_subject_for_request_def resolve_request_subject_def resolve_by_headers_def
      server_headers_other del: insert_iff)

lemma server_fingerprint:
  assumes "ti_cert_sha256 t = Some f" and "value_ok f"
  shows "server_headers value_ok (Some t) headers HEADER_MIM_CLIENT_CERT_SHA256 = Some f"
  using assms by (simp add: server_headers_def header_insert_def Let_def HEADER_MIM_CLIENT_CERT_SHA256_def
      split: option.split)

text \<open>The server puts the fingerprint of every client certificate into the request, and a fingerprint
  header is final: the mapping of common names is never consulted for a client with a certificate.\<close>

theorem certificate_needs_registered_fingerprint:
  assumes "ti_cert_sha256 t = Some f" and "value_ok f"
    and "headers HEADER_AUTHORIZATION = None" and "headers HEADER_MIM_CLIENT_PRINCIPAL = None"
    and "im_get (ld_fingerprint_to_principal (sr_ldap (as_resolver st))) (to_ascii_lowercase (trim f)) = None"
    and "as_require_identity st"
  shows "\<exists>m. resolve_subject_for_request env st (server_headers value_ok (Some t) headers)
     (request_tls_identity (server_headers value_ok (Some t) headers)) = Err (TeForbidden m)"
  using assms server_fingerprint [of t f value_ok headers, OF assms(1,2)]
  by (auto simp: resolve_subject_for_request_def resolve_request_subject_def resolve_by_headers_def
      server_headers_other resolve_cert_fingerprint_def Let_def simp del: insert_iff split: option.split)

section \<open>A notification that overtakes a put\<close>

text \<open>
  The copy that a notification writes back is taken before its pull. A put that is accepted in
  between is acknowledged, its object can be read, and it is gone from the store and from the journal
  when the notification commits.
\<close>

theorem acknowledged_put_can_be_lost:
  assumes "replicate_into net c (notify_since st) (notify_staging st) = Some (Ok report, copy)"
    and "handle_put env st headers tls e = Some (Ok r, st1)"
    and "\<not> broker_contains copy (por_oid r)"
  shows "is_ok (get_by_oid (por_oid r) (sb_inner (as_broker st1))) \<and>
     hr_status (fst (notify_commit (Ok report, copy) st1)) = 200 \<and>
     get_by_oid (por_oid r) (sb_inner (as_broker (snd (notify_commit (Ok report, copy) st1)))) \<noteq>
       get_by_oid (por_oid r) (sb_inner (as_broker st1)) \<and>
     br_journal (sb_inner (as_broker (snd (notify_commit (Ok report, copy) st1)))) = br_journal copy"
proof -
  from assms(2) obtain i where put: "sb_inner (as_broker st1) = put_state i (sb_inner (as_broker st))"
    and oid: "mi_oid i = por_oid r"
    using handle_put_Ok_iff [of env st headers tls e r "sb_inner (as_broker st1)"] by (auto simp: put_object_Ok_iff)
  have "get_by_oid (por_oid r) (sb_inner (as_broker st1)) = Ok i"
    using put oid by (simp add: get_by_oid_put_state)
  moreover have "get_by_oid (por_oid r) copy \<noteq> Ok i"
    using assms(3) by (auto simp: get_by_oid_Ok_iff broker_get_def broker_contains_def im_contains_def)
  ultimately show ?thesis
    by (simp add: notify_commit_def negotiated_response_def)
qed

section \<open>Replication over HTTP\<close>

text \<open>A network over which the requests of a client reach the handlers of a state: the framework hands the
  handler the decoded segment.\<close>

definition reply_sync :: "http_response \<Rightarrow> nat \<times> (string + sync_response)" where
  "reply_sync r = (hr_status r, case hr_body r of HbSync s \<Rightarrow> Ok s | _ \<Rightarrow> Err ''unexpected body'')"

definition reply_instance :: "http_response \<Rightarrow> nat \<times> (string + mim_instance)" where
  "reply_instance r = (hr_status r, case hr_body r of HbInstance i \<Rightarrow> Ok i | _ \<Rightarrow> Err ''unexpected body'')"

text \<open>An identifier that a URL can end with: an address whose last segment is empty matches no route, and the segments
  of one and of two dots are removed from an address before it is requested.\<close>

definition segment_oid :: "string \<Rightarrow> bool" where
  "segment_oid oid \<longleftrightarrow> oid \<notin> {[], ''.'', ''..''} \<and> from_utf8 oid = Ok oid"

definition serves ::
  "('s, 'q) http_env \<Rightarrow> 's app_state \<Rightarrow> federation_net \<Rightarrow> http_client \<Rightarrow> u64 \<Rightarrow> bool" where
  "serves env st net c since \<longleftrightarrow>
     fx_get_sync net (if since = 0 then hc_sync_url c else hc_sync_url c @ ''?since='' @ show_nat (unat since))
         (hc_headers c) =
       Ok (reply_sync (fst (http_sync_changes env st (hc_headers c) (if since = 0 then None else Some since)))) \<and>
     (\<forall>oid. segment_oid oid \<longrightarrow>
       fx_get_object net (hc_objects_base_url c @ ''/'' @ encode_oid_for_path oid) (hc_headers c) =
       Ok (reply_instance (fst (http_get_by_oid env st (hc_headers c) oid))))"

definition asks_for_json :: "('s, 'q) http_env \<Rightarrow> header_map \<Rightarrow> bool" where
  "asks_for_json env headers \<longleftrightarrow>
     negotiated_format env headers = WpJson \<and> validate_mim_version (headers ''mim-version'') = Ok ()"

lemma http_sync_reply:
  assumes "resolve_subject_for_request env st headers (request_tls_identity headers) = Ok su"
  shows "reply_sync (fst (http_sync_changes env st headers (if since = 0 then None else Some since))) =
     (200, Ok (fst (sync_since_as (he_audit env) (he_stamps env) su since (as_broker st))))"
  using assms
  by (simp add: http_sync_changes_def reply_sync_def negotiated_response_def case_prod_beta)

lemma http_get_reply:
  assumes "resolve_subject_for_request env st headers (request_tls_identity headers) = Ok su"
    and "asks_for_json env headers" and "addressable oid"
    and "fst (get_by_oid_as (he_audit env) (he_stamps env 0) su (ObjectIdentifier oid) (as_broker st)) = Ok i"
  shows "reply_instance (fst (http_get_by_oid env st headers oid)) = (200, Ok i)"
  using assms addressable_object(1) [OF assms(3) addressable_decodes(2) [OF assms(3)]]
  by (simp add: http_get_by_oid_def reply_instance_def negotiated_response_def asks_for_json_def case_prod_beta Let_def)

lemma replay_cong:
  "\<forall>e \<in> set es. \<forall>c. step e c = step' e c \<Longrightarrow> replay step es a k c = replay step' es a k c"
proof (induction es arbitrary: a k c)
  case (Cons e es)
  then show ?case by (cases "step' e c") (auto split: sum.split)
qed simp

text \<open>
  C11: for a client that asks for JSON, replicating over HTTP is the pull from the publisher's broker with the view
  of the subject that the client's headers resolve to: the handlers, the paths, the statuses and the replies in between add
  nothing and lose nothing, as long as every identifier in the journal survives the path: it can be the last segment
  of an address (so it is not one or two dots), and it has no percent sign, question mark, trailing slash or trailing
  white space.
\<close>

theorem http_pull_is_subject_pull:
  assumes "serves env st net c since" and "asks_for_json env (hc_headers c)"
    and "resolve_subject_for_request env st (hc_headers c) (request_tls_identity (hc_headers c)) = Ok su"
    and "\<forall>e \<in> set (br_journal (sb_inner (as_broker st))).
      addressable (oid_as_str (je_oid e)) \<and> segment_oid (oid_as_str (je_oid e))"
  shows "replicate_into net c since consumer =
     pull_and_apply_remote (subject_publisher (he_audit env) (he_stamps env) (as_broker st) su) since consumer"
proof -
  let ?sync = "fst (sync_since_as (he_audit env) (he_stamps env) su since (as_broker st))"
  let ?read = "\<lambda>oid. fst (get_by_oid_as (he_audit env) (he_stamps env 0) su oid (as_broker st))"
  have sync: "fetch_sync_async net c since = Ok ?sync"
    using assms(1) http_sync_reply [OF assms(3), of since]
    by (simp add: fetch_sync_async_def serves_def is_success_def Let_def)
  have step: "remote_step (fetch_instance_async net c) e x = remote_step ?read e x" if "e \<in> set (sy_entries ?sync)" for e x
  proof (cases "je_operation e = IesPutObject")
    case True
    with that obtain i where i: "?read (je_oid e) = Ok i"
      by (auto simp: sync_since_as_eq get_by_oid_as_Ok_iff readable_by_def)
    obtain s where s: "je_oid e = ObjectIdentifier s" by (cases "je_oid e")
    have "addressable s" "segment_oid s" using assms(4) that s by (auto simp: sync_since_as_eq)
    with http_get_reply [OF assms(3,2), of s i] i s
    have "fetch_instance_async net c (je_oid e) = Ok i"
      using assms(1) by (simp add: fetch_instance_async_def serves_def is_success_def Let_def)
    with i show ?thesis by (simp add: remote_step_def)
  qed (simp add: remote_step_def)
  have "replay (remote_step (fetch_instance_async net c)) (sy_entries ?sync) 0 0 consumer =
      replay (remote_step ?read) (sy_entries ?sync) 0 0 consumer"
    by (rule replay_cong) (use step in blast)
  then show ?thesis
    by (simp add: replicate_into_def pull_and_apply_remote_def http_publisher_def subject_publisher_def sync)
qed

text \<open>Without that a pull gets stuck: an object with an identifier of two dots can be put, but the address of its
  entry is that of another resource. The answer 404 ends the pull at that entry, and again at every later pull, so no
  later change reaches the consumer.\<close>

lemma dot_identifier_stops_the_pull:
  assumes "fetch_sync_async net c since = Ok sync" and "sy_entries sync = e # es"
    and "je_operation e = IesPutObject" and "je_oid e = ObjectIdentifier ''..''"
    and "br_applied_sequence consumer < je_sequence e"
    and "fx_get_object net (hc_objects_base_url c @ ''/..'') (hc_headers c) = Ok (404, body)"
  shows "\<exists>err. replicate_into net c since consumer = Some (Err err, consumer)"
proof -
  have "encode_oid_for_path ''..'' = ''..''"
    by (simp add: encode_oid_for_path_def encode_byte_def path_unreserved_def)
  then obtain err where "fetch_instance_async net c (je_oid e) = Err err"
    using assms(4,6) by (auto simp: fetch_instance_async_def is_success_def Let_def)
  moreover have "\<not> je_sequence e \<le> br_applied_sequence consumer" using assms(5) by simp
  ultimately show ?thesis
    using assms(1,2,3)
    by (simp add: replicate_into_def pull_and_apply_remote_def http_publisher_def replay_report_def remote_step_def
        apply_remote_entry_def)
qed

lemma two_dots_are_addressable: "addressable ''..''" "\<not> segment_oid ''..''"
proof -
  have "from_utf8 ''..'' = Ok ''..''" by (rule from_utf8_ascii) simp
  then show "addressable ''..''"
    by (simp add: addressable_def trim_id ws_lead_def ws_tail_def white_space_seqs_def)
qed (simp add: segment_oid_def)

section \<open>A sample service\<close>

definition null_sink :: "unit audit_sink_ops" where
  "null_sink = \<lparr>snk_append_record = (\<lambda>_ s. (Ok (), s)), snk_append_envelope = (\<lambda>_ s. (Ok (), s)), snk_len = (\<lambda>_. 0)\<rparr>"

definition toy_http_env :: "serial_env \<Rightarrow> (unit, nat) http_env" where
  "toy_http_env sx =
     \<lparr>he_identity = toy_identity_env, he_serial = sx, he_label = one_label_codec nato_usa,
      he_crypto = toy_provider, he_audit = \<lparr>au_crypto = toy_provider, au_codec = toy_codec, au_sink = null_sink\<rparr>,
      he_stamps = (\<lambda>_. ([], [])), he_render = (\<lambda>_. []),
      he_weights = \<lparr>wt_parse = (\<lambda>_. None), wt_greater = (\<lambda>a b. b < a), wt_one = 1\<rparr>,
      he_envelope = (\<lambda>_. Err ''no parser'')\<rparr>"

definition toy_app_state :: "bool \<Rightarrow> unit secured_broker \<Rightarrow> unit app_state" where
  "toy_app_state require_identity broker =
     \<lparr>as_broker = broker, as_trust_store = add_verifying_key (kp_verifying toy_keys) trust_store_new,
      as_resolver = resolver_conformance, as_require_identity = require_identity, as_fallback = Some analyst,
      as_webhook_targets = [], as_federation_pull_url = Some ''http://p/sync'', as_federation_client_cn = None,
      as_federation_pki_mode = PkiLab\<rparr>"

definition toy_envelope :: rest_envelope where
  "toy_envelope =
     \<lparr>re_metadata_binding = \<lparr>mb_method = Assertion, mb_profile = RestEnvelope, mb_label_location = LABEL_HEADER,
        mb_data_digest = Some ''x''\<rparr>,
      re_originator_label = ''<xml>'', re_payload_digest = ''x'', re_payload = ''x'', re_assertion = Some toy_assertion\<rparr>"

definition label_headers :: header_map where
  "label_headers = (\<lambda>n. if n = ''x-nato-confidentiality-label'' then Some ''<xml>'' else None)"

definition json_put_env :: serial_env where
  "json_put_env = toy_serial_env\<lparr>sx_instance_from_str := (\<lambda>_. Ok (marked_instance ''RESTRICTED''))\<rparr>"

lemma anonymous_fallback:
  assumes "\<forall>h \<in> identity_headers. headers h = None"
  shows "resolve_subject_for_request env (toy_app_state False b) headers (request_tls_identity headers) = Ok analyst"
  using assms
  by (simp add: resolve_subject_for_request_def resolve_request_subject_def resolve_by_headers_def
      request_tls_identity_def identity_headers_def toy_app_state_def)

lemma label_headers_anonymous: "\<forall>h \<in> identity_headers. label_headers h = None"
  by (simp add: identity_headers_def label_headers_def HEADER_AUTHORIZATION_def HEADER_MIM_CLIENT_PRINCIPAL_def
      HEADER_MIM_CLIENT_CERT_SHA256_def HEADER_MIM_CLIENT_CN_def)

lemma wire_registry_answers:
  assumes "sx_uuid_parse env = Some"
  shows "\<exists>reg. wire_registry env = Ok reg"
proof -
  have wf: "qn_wf \<lparr>qn_version = ''5.1.0'', qn_path = ''Wire''\<rparr>"
    by (simp add: qn_wf_def normalize_path_def ws_tail_def white_space_seqs_def)
  have uri: "''https://www.mimworld.org/mim/5.1.0/Wire'' = mim_uri_as_str (as_uri \<lparr>qn_version = ''5.1.0'', qn_path = ''Wire''\<rparr>)"
    by (simp add: as_uri_def MIM_BASE_URL_def)
  have "mim_uri_parse ''https://www.mimworld.org/mim/5.1.0/Wire'' = Ok (as_uri \<lparr>qn_version = ''5.1.0'', qn_path = ''Wire''\<rparr>)"
    unfolding uri using qualified_name_uri_round_trip [OF wf] by simp
  then show ?thesis
    using assms
    by (simp add: wire_registry_def semantic_id_parse_def from_manifest_def validate_integrity_def
        check_taxonomy_parent_def check_element_parent_def add_element_def add_taxonomy_node_def empty_registry_def
        im_values_def Let_def)
qed

lemma toy_envelope_verifies:
  "rest_verify (one_label_codec nato_usa) toy_provider toy_envelope (kp_verifying toy_keys) = Ok ()"
  using toy_assertion_verifies
  by (simp add: rest_verify_def toy_envelope_def sha256_base64_def toy_provider_def)

lemma toy_trust: "verify_key_for (as_trust_store (toy_app_state b s)) ''k1'' = Ok (kp_verifying toy_keys)"
  by (simp add: toy_app_state_def verify_key_for_def add_verifying_key_def trust_store_new_def toy_keys_def)

lemma toy_put_request:
  assumes "sx_uuid_parse sx = Some" and "\<forall>h \<in> identity_headers. headers h = None"
    and "headers ''x-nato-confidentiality-label'' = Some ''<xml>''"
    and "sx_deserialize_instance sx ''x'' (wire_serialization_format (payload_format_of headers toy_envelope)) = Ok i"
  shows "put_request (toy_http_env sx) (toy_app_state False b) headers (request_tls_identity headers) toy_envelope =
     Ok (analyst, i)"
proof -
  obtain reg where "wire_registry sx = Ok reg" using wire_registry_answers [OF assms(1)] by blast
  then show ?thesis
    using assms(3,4) anonymous_fallback [OF assms(2), of "toy_http_env sx" b] toy_envelope_verifies toy_trust [of False b]
    by (simp add: put_request_Ok_iff)
      (simp add: toy_envelope_def toy_assertion_def toy_http_env_def)
qed

lemma toy_put_accepted:
  assumes "put_request (toy_http_env sx) (toy_app_state False b) headers tls toy_envelope = Ok (analyst, i)"
    and "may_access b analyst OpWrite i" and "accepts_instance (br_registry (sb_inner b)) i"
  shows "\<exists>st' r. handle_put (toy_http_env sx) (toy_app_state False b) headers tls toy_envelope = Some (Ok r, st') \<and>
     por_oid r = mi_oid i"
proof -
  let ?b = "sb_inner b"
  have "put_object i ?b =
      Some (Ok (\<lparr>por_oid = mi_oid i, por_created = (\<not> broker_contains ?b (mi_oid i))\<rparr>, put_state i ?b))"
    using assms(3) by (simp add: put_object_Ok_iff)
  then show ?thesis
    using assms(1,2) handle_put_Ok_iff [of "toy_http_env sx" "toy_app_state False b" headers tls toy_envelope]
    by (simp add: toy_app_state_def) (metis put_object_response.select_convs(1))
qed

lemma marked_registry: "br_registry (sb_inner (marked_view level)) = line_registry"
  by (simp add: broker_new_def)

lemma restricted_may_write: "may_access (marked_view level) analyst OpWrite (marked_instance ''RESTRICTED'')"
  using may_access_marked [of OpWrite Restricted level] by simp

lemma label_headers_payload: "payload_format_of label_headers toy_envelope = WpJson"
  by (simp add: payload_format_of_def label_headers_def toy_envelope_def detect_payload_format_def trim_start_id
      ws_lead_def white_space_seqs_def starts_with_def)

lemma json_put:
  "put_request (toy_http_env json_put_env) (toy_app_state False b) label_headers (request_tls_identity label_headers)
     toy_envelope = Ok (analyst, marked_instance ''RESTRICTED'')"
  by (rule toy_put_request)
    (simp_all add: json_put_env_def toy_serial_env_def label_headers_anonymous label_headers_payload
      sx_deserialize_instance_def serialization_error_def, simp add: label_headers_def)

theorem http_put_is_signed_and_permitted_witness:
  "\<exists>st' r i. handle_put (toy_http_env json_put_env) (toy_app_state False (marked_view ''SECRET'')) label_headers
       (request_tls_identity label_headers) toy_envelope = Some (Ok r, st') \<and>
     sb_inner (as_broker st') = put_state i (sb_inner (marked_view ''SECRET''))"
proof -
  obtain st' r where put: "handle_put (toy_http_env json_put_env) (toy_app_state False (marked_view ''SECRET'')) label_headers
       (request_tls_identity label_headers) toy_envelope = Some (Ok r, st')"
    using toy_put_accepted [OF json_put restricted_may_write] marked_accepted [of "''RESTRICTED''"] marked_registry
    by metis
  from http_put_is_signed_and_permitted [OF put] put show ?thesis by (auto simp: toy_app_state_def)
qed

theorem anonymous_requests_refused_witness:
  "400 \<le> hr_status (fst (http_sync_changes (toy_http_env json_put_env)
     (toy_app_state True (marked_view ''SECRET'')) label_headers None))"
proof -
  have "as_require_identity (toy_app_state True (marked_view ''SECRET''))" by (simp add: toy_app_state_def)
  from anonymous_requests_refused [OF this label_headers_anonymous, of "toy_http_env json_put_env"]
  show ?thesis by (auto simp: case_prod_beta)
qed

subsection \<open>An XML payload under a SECRET label\<close>

definition line_xml_env :: serial_env where
  "line_xml_env = toy_serial_env\<lparr>sx_read :=
     (\<lambda>_. [Ok (SxStart ''Line'' [(''oid'', Ok ''urn:uuid:5f0c''), (''semanticId'', Ok ''class'')]), Ok (SxEnd ''Line'')])\<rparr>"

definition xml_label_headers :: header_map where
  "xml_label_headers = label_headers(''content-type'' \<mapsto> ''text/xml'')"

lemma xml_headers_payload: "payload_format_of xml_label_headers e = WpXml"
  by (simp add: payload_format_of_def xml_label_headers_def format_from_content_type_def trim_id ws_lead_def ws_tail_def
      white_space_seqs_def to_ascii_lowercase_def ascii_lower_def format_of_mime_def)

lemma line_xml_read: "sx_deserialize_instance line_xml_env ''x'' SfXml = Ok sample_instance"
proof -
  have line: "local_name ''Line'' = ''Line''" by (rule local_name_plain) simp
  have "parse_instance_attributes line_xml_env ''Line'' [(''oid'', Ok ''urn:uuid:5f0c''), (''semanticId'', Ok ''class'')] =
      Ok sample_instance"
    by (simp add: parse_instance_attributes_def required_attribute_def written_attributes serialization_error_def
        semantic_id_parse_def object_identifier_new_def mim_instance_new_def sample_instance_def generate_urn_def
        line line_xml_env_def toy_serial_env_def trim_id ws_lead_def ws_tail_def white_space_seqs_def)
  then have "parse_instance_element line_xml_env ''Line'' [(''oid'', Ok ''urn:uuid:5f0c''), (''semanticId'', Ok ''class'')]
      [Ok (SxEnd ''Line'')] = Ok (sample_instance, [])"
    by (simp add: parse_instance_element_def parse_instance_body.simps(3) line)
  from read_instance_start [OF _ _ this] have "read_instances line_xml_env False [] (sx_read line_xml_env ''x'') =
      Ok [sample_instance]"
    by (simp add: line line_xml_env_def is_instance_start_def written_attributes)
  then show ?thesis by (simp add: sx_deserialize_instance_def parse_xml_instances_def)
qed

lemma sample_label: "instance_label sample_instance = instance_label (marked_instance ''UNCLASSIFIED'')"
proof -
  have "with_identifier ''NATO'' nato_policy = nato_policy" by (simp add: model_simps)
  then have "instance_label (marked_instance ''UNCLASSIFIED'') = Ok (conf_label_new nato_policy Unclassified)"
    using instance_label_marked [of Unclassified] by (simp add: marked_label_def)
  moreover have "mi_metadata sample_instance = metadata_default"
    by (simp add: sample_instance_def mim_instance_new_def)
  ultimately show ?thesis
    by (simp add: instance_label_def label_from_security_def metadata_default_def security_default_def)
qed

lemma sample_may_write: "may_access (marked_view level) analyst OpWrite sample_instance"
  using may_access_marked [of OpWrite Unclassified level] by (simp add: may_access_def sample_label level_le_iff)

lemma xml_headers_anonymous: "\<forall>h \<in> identity_headers. xml_label_headers h = None"
  by (simp add: identity_headers_def xml_label_headers_def label_headers_def HEADER_AUTHORIZATION_def
      HEADER_MIM_CLIENT_PRINCIPAL_def HEADER_MIM_CLIENT_CERT_SHA256_def HEADER_MIM_CLIENT_CN_def)

lemma xml_put:
  "put_request (toy_http_env line_xml_env) (toy_app_state False b) xml_label_headers
     (request_tls_identity xml_label_headers) toy_envelope = Ok (analyst, sample_instance)"
  by (rule toy_put_request)
    (simp_all add: xml_headers_anonymous xml_headers_payload line_xml_read,
     simp_all add: xml_label_headers_def label_headers_def line_xml_env_def toy_serial_env_def)

theorem xml_put_is_unclassified_witness:
  "\<exists>st' r i. handle_put (toy_http_env line_xml_env) (toy_app_state False (marked_view ''SECRET'')) xml_label_headers
       (request_tls_identity xml_label_headers) toy_envelope = Some (Ok r, st') \<and>
     broker_get (sb_inner (as_broker st')) (por_oid r) = Some i \<and>
     instance_label i = Ok (conf_label_new nato_policy Unclassified) \<and>
     cf_classification (ab_label toy_assertion) = Secret"
proof -
  obtain st' r where put: "handle_put (toy_http_env line_xml_env) (toy_app_state False (marked_view ''SECRET''))
       xml_label_headers (request_tls_identity xml_label_headers) toy_envelope = Some (Ok r, st')"
    using toy_put_accepted [OF xml_put sample_may_write] sample_accepted marked_registry by metis
  moreover have "cf_classification (ab_label toy_assertion) = Secret"
    by (simp add: toy_assertion_def nato_usa_def conf_label_new_def)
  ultimately show ?thesis using xml_put_is_unclassified [OF put xml_headers_payload] by blast
qed

subsection \<open>A notification with nothing to pull\<close>

definition quiet_publisher :: federation_net where
  "quiet_publisher =
     \<lparr>fx_build = (\<lambda>_. Ok ()), fx_header = (\<lambda>_. Ok ()),
      fx_get_sync = (\<lambda>_ _. Ok (200, Ok \<lparr>sy_latest_sequence = 0, sy_entries = []\<rparr>)),
      fx_get_object = (\<lambda>_ _. Err ''no object''), fx_status_text = (\<lambda>_. [])\<rparr>"

definition plain_client :: http_client where
  "plain_client =
     \<lparr>hc_mode = PkiLab, hc_sync_url = ''http://p/sync'', hc_objects_base_url = ''http://p/objects'',
      hc_headers = (\<lambda>_. None)\<rparr>"

definition empty_view :: "unit secured_broker" where
  "empty_view = (marked_view ''SECRET'')\<lparr>sb_inner := broker_new line_registry\<rparr>"

lemma quiet_pull:
  "replicate_into quiet_publisher plain_client since b =
     Some (Ok \<lparr>ra_applied = 0, ra_skipped = 0, ra_latest_sequence = 0\<rparr>, b)"
  by (simp add: replicate_into_def pull_and_apply_remote_def http_publisher_def fetch_sync_async_def
      quiet_publisher_def is_success_def replay_report_def)

lemma empty_view_may_write: "may_access empty_view analyst OpWrite sample_instance"
  using sample_may_write [of "''SECRET''"] by (simp add: may_access_def empty_view_def cong: sum.case_cong)

theorem acknowledged_put_can_be_lost_witness:
  "\<exists>st1 r. handle_put (toy_http_env line_xml_env) (toy_app_state False empty_view) xml_label_headers
       (request_tls_identity xml_label_headers) toy_envelope = Some (Ok r, st1) \<and>
     (\<exists>report copy. replicate_into quiet_publisher plain_client (notify_since (toy_app_state False empty_view))
         (notify_staging (toy_app_state False empty_view)) = Some (Ok report, copy) \<and>
       is_ok (get_by_oid (por_oid r) (sb_inner (as_broker st1))) \<and>
       br_journal (sb_inner (as_broker (snd (notify_commit (Ok report, copy) st1)))) = [])"
proof -
  let ?st = "toy_app_state False empty_view"
  have reg: "br_registry (sb_inner empty_view) = line_registry" by (simp add: empty_view_def broker_new_def)
  obtain st1 r where put: "handle_put (toy_http_env line_xml_env) ?st xml_label_headers
       (request_tls_identity xml_label_headers) toy_envelope = Some (Ok r, st1)"
    using toy_put_accepted [OF xml_put empty_view_may_write] sample_accepted reg by metis
  have pull: "replicate_into quiet_publisher plain_client (notify_since ?st) (notify_staging ?st) =
      Some (Ok \<lparr>ra_applied = 0, ra_skipped = 0, ra_latest_sequence = 0\<rparr>, notify_staging ?st)"
    by (rule quiet_pull)
  have "\<not> broker_contains (notify_staging ?st) (por_oid r)"
    and "br_journal (notify_staging ?st) = []"
    by (simp_all add: notify_staging_def toy_app_state_def empty_view_def broker_new_def broker_contains_def im_contains_def)
  with acknowledged_put_can_be_lost [OF pull put] put pull show ?thesis by auto
qed

subsection \<open>A client of the sample service\<close>

definition looped_net :: "unit app_state \<Rightarrow> federation_net" where
  "looped_net st =
     \<lparr>fx_build = (\<lambda>_. Ok ()), fx_header = (\<lambda>_. Ok ()),
      fx_get_sync = (\<lambda>_ h. Ok (reply_sync (fst (http_sync_changes (toy_http_env json_put_env) st h None)))),
      fx_get_object = (\<lambda>url h. Ok (reply_instance (fst (http_get_by_oid (toy_http_env json_put_env) st h
         (percent_bytes (drop (length ''http://p/objects/'') url)))))),
      fx_status_text = (\<lambda>_. [])\<rparr>"

lemma looped_net_serves: "serves (toy_http_env json_put_env) st (looped_net st) plain_client 0"
proof -
  have "percent_bytes (drop (length ''http://p/objects/'') (''http://p/objects'' @ ''/'' @ encode_oid_for_path oid)) = oid"
    for oid
    by (simp add: percent_bytes_encode)
  then show ?thesis by (simp add: serves_def looped_net_def plain_client_def)
qed

lemma sample_addressable: "addressable ''urn:uuid:5f0c''" "segment_oid ''urn:uuid:5f0c''"
proof -
  have "from_utf8 ''urn:uuid:5f0c'' = Ok ''urn:uuid:5f0c''" by (rule from_utf8_ascii) simp
  then show "addressable ''urn:uuid:5f0c''" "segment_oid ''urn:uuid:5f0c''"
    by (simp_all add: addressable_def segment_oid_def trim_id ws_lead_def ws_tail_def white_space_seqs_def)
qed

theorem http_pull_is_subject_pull_witness:
  "replicate_into (looped_net (toy_app_state False (marked_view ''RESTRICTED''))) plain_client 0 (broker_new line_registry) =
     pull_and_apply_remote (subject_publisher (he_audit (toy_http_env json_put_env)) (he_stamps (toy_http_env json_put_env))
       (marked_view ''RESTRICTED'') analyst) 0 (broker_new line_registry)"
proof -
  let ?env = "toy_http_env json_put_env" and ?st = "toy_app_state False (marked_view ''RESTRICTED'')"
  have json: "asks_for_json ?env (hc_headers plain_client)"
    by (simp add: asks_for_json_def plain_client_def negotiated_format_def negotiate_format_def validate_mim_version_def)
  have su: "resolve_subject_for_request ?env ?st (hc_headers plain_client)
      (request_tls_identity (hc_headers plain_client)) = Ok analyst"
    by (rule anonymous_fallback) (simp add: plain_client_def)
  have broker: "as_broker ?st = marked_view ''RESTRICTED''" by (simp add: toy_app_state_def)
  have "\<forall>e \<in> set (br_journal (sb_inner (as_broker ?st))).
      addressable (oid_as_str (je_oid e)) \<and> segment_oid (oid_as_str (je_oid e))"
    using sample_addressable
    by (simp add: broker broker_new_def sample_instance_def mim_instance_new_def generate_urn_def)
  from http_pull_is_subject_pull [OF looped_net_serves json su this] show ?thesis by (simp add: broker)
qed

end
