(* ===== verification/Http_Server.thy ===== *)
theory Http_Server
  imports Http_Service
begin

text \<open>
  Crate \<open>mim-transport-http\<close>: the configurations and the set-up of the server (\<open>server.rs\<close>), the route table
  (\<open>routes.rs\<close>), and the running service: requests and replication notifications in any order, a
  notification in the steps between which it gives up the lock on the broker. Sockets, the TLS library
  and the PEM reader are arguments.
\<close>

section \<open>Configurations\<close>

record http_exchange_config =
  xc_trust_store :: nmb_trust_store
  xc_resolver :: subject_resolver
  xc_require_identity :: bool
  xc_fallback :: "subject_attributes option"

text \<open>What \<open>from_env\<close> answers for the federation and for the resolver is an argument.\<close>

definition exchange_config_conformance :: "crypto_provider \<Rightarrow> fixture_keys \<Rightarrow> crypto_error + http_exchange_config" where
  "exchange_config_conformance cp fx =
     and_then (conformance_keypair cp fx) (\<lambda>kp.
       Ok \<lparr>xc_trust_store = add_verifying_key (kp_verifying kp) trust_store_new, xc_resolver = resolver_conformance,
           xc_require_identity = False, xc_fallback = Some (subject_new ''analyst'' Secret)\<rparr>)"

definition resolver_or_conformance :: "policy_error + subject_resolver \<Rightarrow> subject_resolver" where
  "resolver_or_conformance resolver_env = (case resolver_env of Inr r \<Rightarrow> r | Inl _ \<Rightarrow> resolver_conformance)"

definition coalition_exercise ::
  "pki_io \<Rightarrow> crypto_provider \<Rightarrow> fixture_keys \<Rightarrow> policy_error + subject_resolver \<Rightarrow> pki_mode \<Rightarrow>
     crypto_error + http_exchange_config" where
  "coalition_exercise io cp fx resolver_env mode =
     and_then (load_trust_store_for io cp fx mode) (\<lambda>t.
       Ok \<lparr>xc_trust_store = t, xc_resolver = resolver_or_conformance resolver_env,
           xc_require_identity = True, xc_fallback = None\<rparr>)"

definition config_for_mode ::
  "pki_io \<Rightarrow> crypto_provider \<Rightarrow> fixture_keys \<Rightarrow> transport_error + federation_config \<Rightarrow>
     policy_error + subject_resolver \<Rightarrow> pki_mode \<Rightarrow> crypto_error + http_exchange_config" where
  "config_for_mode io cp fx federation resolver_env mode =
     and_then (load_trust_store_for io cp fx mode) (\<lambda>t.
       Ok \<lparr>xc_trust_store = t, xc_resolver = resolver_or_conformance resolver_env,
           xc_require_identity =
             (case federation of
                Inr f \<Rightarrow> require_mtls f
              | Inl _ \<Rightarrow>
                  (case pk_var io ''MIM_REQUIRE_CLIENT_IDENTITY'' of Some v \<Rightarrow> v = ''1'' \<or> eq_ignore_ascii_case v ''true'' | None \<Rightarrow> False)),
           xc_fallback = None\<rparr>)"

section \<open>The server\<close>

record 't http_exchange_server =
  hs_addr :: string
  hs_tls :: 't
  hs_client_ca :: "bytes list option"
  hs_config :: http_exchange_config
  hs_webhook_targets :: "string list"
  hs_pull_url :: "string option"
  hs_client_cn :: "string option"
  hs_pki_mode :: pki_mode

text \<open>The default configuration is the conformance one; without its key pair \<open>new\<close> panics.\<close>

definition server_new ::
  "crypto_provider \<Rightarrow> fixture_keys \<Rightarrow> string \<Rightarrow> 't \<Rightarrow> 't http_exchange_server option" where
  "server_new cp fx addr tls =
     map_option (\<lambda>c. \<lparr>hs_addr = addr, hs_tls = tls, hs_client_ca = None, hs_config = c, hs_webhook_targets = [],
         hs_pull_url = None, hs_client_cn = None, hs_pki_mode = PkiLab\<rparr>)
       (result_ok (exchange_config_conformance cp fx))"

definition with_client_ca ::
  "(bytes \<Rightarrow> string + bytes list) \<Rightarrow> bytes \<Rightarrow> 't http_exchange_server \<Rightarrow> string + 't http_exchange_server" where
  "with_client_ca pem_certs ca_pem s =
     and_then (pem_certs ca_pem) (\<lambda>certs.
       if certs = [] then Err ''no client CA certificates in PEM'' else Ok (s\<lparr>hs_client_ca := Some certs\<rparr>))"

definition notify_peer :: "federation_config \<Rightarrow> 't http_exchange_server \<Rightarrow> 't http_exchange_server" where
  "notify_peer federation s =
     (case peer_notify_url federation ''gbr'' of Some url \<Rightarrow> s\<lparr>hs_webhook_targets := [url]\<rparr> | None \<Rightarrow> s)"

text \<open>With the process environment before and after; \<open>None\<close> is the panic of \<open>set_var\<close>.\<close>

definition with_federation ::
  "(string \<Rightarrow> string + string) \<Rightarrow> (string \<Rightarrow> string + bytes) \<Rightarrow> (bytes \<Rightarrow> string + bytes list) \<Rightarrow>
     federation_config \<Rightarrow> pki_mode \<Rightarrow> (string \<rightharpoonup> string) \<Rightarrow> 't http_exchange_server \<Rightarrow>
     ((string + 't http_exchange_server) \<times> (string \<rightharpoonup> string)) option" where
  "with_federation read read_bytes pem_certs federation mode vars s =
     (let s1 = s\<lparr>hs_pki_mode := mode\<rparr> in
      if mode = PkiProduction then
        map_option (\<lambda>applied. case applied of
            Inl e \<Rightarrow> (Err (show_transport_error e), vars)
          | Inr vars1 \<Rightarrow>
              (and_then
                 (case client_ca_path federation of
                    Some ca_path \<Rightarrow>
                      and_then (map_err (\<lambda>e. ''read client CA '' @ ca_path @ '': '' @ e) (read_bytes ca_path))
                        (\<lambda>pem. with_client_ca pem_certs pem s1)
                  | None \<Rightarrow> Ok s1)
                 (\<lambda>s2. Ok (notify_peer federation s2)), vars1))
          (apply_pki_env read federation vars)
      else Some (Ok (notify_peer federation s1), vars))"

definition with_federation_lab :: "federation_config \<Rightarrow> 't http_exchange_server \<Rightarrow> 't http_exchange_server" where
  "with_federation_lab federation s = notify_peer federation (s\<lparr>hs_pki_mode := PkiLab\<rparr>)"

definition with_federation_pull :: "string \<Rightarrow> string \<Rightarrow> 't http_exchange_server \<Rightarrow> 't http_exchange_server" where
  "with_federation_pull publisher_sync_url client_cn s =
     s\<lparr>hs_pull_url := Some publisher_sync_url, hs_client_cn := Some client_cn\<rparr>"

definition with_webhook_targets :: "string list \<Rightarrow> 't http_exchange_server \<Rightarrow> 't http_exchange_server" where
  "with_webhook_targets targets s = s\<lparr>hs_webhook_targets := targets\<rparr>"

definition with_config :: "http_exchange_config \<Rightarrow> 't http_exchange_server \<Rightarrow> 't http_exchange_server" where
  "with_config c s = s\<lparr>hs_config := c\<rparr>"

text \<open>The TLS acceptor is built from the identity of the server and the client authorities, if any.\<close>

definition build_runtime ::
  "('t \<Rightarrow> bytes list option \<Rightarrow> string + 'c) \<Rightarrow> 't http_exchange_server \<Rightarrow> 's secured_broker \<Rightarrow>
     string + 'c \<times> 's app_state" where
  "build_runtime tls_config s broker =
     and_then (tls_config (hs_tls s) (hs_client_ca s)) (\<lambda>acceptor.
       Ok (acceptor,
         \<lparr>as_broker = broker, as_trust_store = xc_trust_store (hs_config s), as_resolver = xc_resolver (hs_config s),
          as_require_identity = xc_require_identity (hs_config s), as_fallback = xc_fallback (hs_config s),
          as_webhook_targets = hs_webhook_targets s, as_federation_pull_url = hs_pull_url s,
          as_federation_client_cn = hs_client_cn s, as_federation_pki_mode = hs_pki_mode s\<rparr>))"

section \<open>The route table\<close>

text \<open>A request after the framework has matched its route and extracted its parameters.\<close>

datatype http_call =
    HcPut string
  | HcGet string
  | HcFilter filter_query
  | HcDelete string
  | HcSync "u64 option"
  | HcHealth

definition exchange_router ::
  "('s, 'q) http_env \<Rightarrow> 's app_state \<Rightarrow> header_map \<Rightarrow> http_call \<Rightarrow> (http_response \<times> 's app_state) option" where
  "exchange_router env st headers call =
     (case call of
        HcPut body \<Rightarrow> map_option (\<lambda>(resp, st1, posts). (resp, st1)) (http_put_object env st headers body)
      | HcGet segment \<Rightarrow> Some (http_get_by_oid env st headers segment)
      | HcFilter q \<Rightarrow> Some (http_get_by_filter env st headers q)
      | HcDelete segment \<Rightarrow> Some (http_delete_object env st headers segment)
      | HcSync since \<Rightarrow> Some (http_sync_changes env st headers since)
      | HcHealth \<Rightarrow>
          Some (\<lparr>hr_status = 200, hr_content_type = ''text/plain; charset=utf-8'', hr_body = HbText ''ok''\<rparr>, st))"

section \<open>The running service\<close>

text \<open>The state of the service is the application state and the results of the pulls that notifications have
  started and not yet committed. A pull starts from the copy of the broker at that moment and from a
  position that an earlier lock read; it may answer anything the network makes of it. Every request has
  an environment of its own: its clock, its identifiers and what the outside world answers. A step is
  labelled with what happened: the request with its answer, the pull with its network, or the commit.\<close>

type_synonym pull_result = "(transport_error + replication_apply_report) \<times> exchange_broker"

type_synonym 's service = "'s app_state \<times> pull_result list"

datatype ('s, 'q) service_event =
    SeRequest "('s, 'q) http_env" "string \<Rightarrow> bool" "tls_client_identity option" header_map http_call http_response
  | SePull federation_net u64
  | SeCommit http_response

inductive service_step :: "'s service \<Rightarrow> ('s, 'q) service_event \<Rightarrow> 's service \<Rightarrow> bool" where
  step_request:
    "exchange_router env st (server_headers value_ok peer headers) call = Some (resp, st') \<Longrightarrow>
       service_step (st, pulls) (SeRequest env value_ok peer headers call resp) (st', pulls)"
| step_pull:
    "notify_client net st = Ok c \<Longrightarrow> replicate_into net c since (notify_staging st) = Some pulled \<Longrightarrow>
       service_step (st, pulls) (SePull net since) (st, pulled # pulls)"
| step_commit:
    "notify_commit pulled st = (resp, st') \<Longrightarrow>
       service_step (st, before @ pulled # after) (SeCommit resp) (st', before @ after)"

inductive_cases service_step_cases: "service_step (st, pulls) ev s'"

text \<open>A run of the service, with the list of its events.\<close>

inductive service_run :: "'s app_state \<Rightarrow> ('s, 'q) service_event list \<Rightarrow> 's service \<Rightarrow> bool" for st0 where
  run_start: "service_run st0 [] (st0, [])"
| run_step: "service_run st0 events s \<Longrightarrow> service_step s ev s' \<Longrightarrow> service_run st0 (events @ [ev]) s'"

text \<open>What a request cannot change: everything but the broker's store, journal and audit log.\<close>

definition same_setup :: "'s app_state \<Rightarrow> 's app_state \<Rightarrow> bool" where
  "same_setup st st' \<longleftrightarrow>
     as_trust_store st' = as_trust_store st \<and> as_resolver st' = as_resolver st \<and>
     as_require_identity st' = as_require_identity st \<and> as_fallback st' = as_fallback st \<and>
     as_webhook_targets st' = as_webhook_targets st \<and>
     as_federation_pull_url st' = as_federation_pull_url st \<and>
     as_federation_client_cn st' = as_federation_client_cn st \<and>
     as_federation_pki_mode st' = as_federation_pki_mode st \<and>
     sb_subject (as_broker st') = sb_subject (as_broker st) \<and> sb_domain (as_broker st') = sb_domain (as_broker st) \<and>
     ep_store (sb_pep (as_broker st')) = ep_store (sb_pep (as_broker st))"

lemma same_setup_refl [simp]: "same_setup st st"
  by (simp add: same_setup_def)

lemma same_setup_trans: "same_setup st st1 \<Longrightarrow> same_setup st1 st2 \<Longrightarrow> same_setup st st2"
  by (simp add: same_setup_def)

lemma same_setup_view: "same_view (as_broker st) b \<Longrightarrow> same_setup st (st\<lparr>as_broker := b\<rparr>)"
  by (simp add: same_setup_def same_view_def)

lemma same_setup_may_access: "same_setup st st' \<Longrightarrow> may_access (as_broker st') = may_access (as_broker st)"
  by (intro ext) (simp add: same_setup_def may_access_def cong: sum.case_cong)

lemma same_setup_subject:
  "same_setup st st' \<Longrightarrow> resolve_subject_for_request env st' h tls = resolve_subject_for_request env st h tls"
  by (simp add: same_setup_def resolve_subject_for_request_def cong: sum.case_cong option.case_cong)

lemma same_setup_put_request: "same_setup st st' \<Longrightarrow> put_request env st' h tls e = put_request env st h tls e"
  using same_setup_subject [of st st' env h tls] by (simp add: same_setup_def put_request_def cong: if_cong)

text \<open>Where a stored object may come from: a request of the run that put it, signed and permitted, or a pull of
  the run whose publisher listed it and answered it.\<close>

definition accepted_put ::
  "('s, 'q) http_env \<Rightarrow> 's app_state \<Rightarrow> header_map \<Rightarrow> http_call \<Rightarrow> http_response \<Rightarrow> mim_instance \<Rightarrow> bool" where
  "accepted_put env st headers call resp i \<longleftrightarrow>
     (\<exists>body e su r. call = HcPut body \<and> he_envelope env body = Ok e \<and>
        put_request env st headers (request_tls_identity headers) e = Ok (su, i) \<and> may_access (as_broker st) su OpWrite i \<and>
        hr_status resp = 201 \<and> hr_body resp = HbPut r \<and> por_oid r = mi_oid i)"

definition answered_pull :: "federation_net \<Rightarrow> 's app_state \<Rightarrow> u64 \<Rightarrow> mim_instance \<Rightarrow> bool" where
  "answered_pull net st since i \<longleftrightarrow>
     (\<exists>c sync entry. notify_client net st = Ok c \<and> fetch_sync_async net c since = Ok sync \<and>
        entry \<in> set (sy_entries sync) \<and> je_operation entry = IesPutObject \<and>
        fetch_instance_async net c (je_oid entry) = Ok i)"

fun brought_by :: "'s app_state \<Rightarrow> mim_instance \<Rightarrow> ('s, 'q) service_event \<Rightarrow> bool" where
  "brought_by st i (SeRequest env value_ok peer headers call resp) \<longleftrightarrow>
     accepted_put env st (server_headers value_ok peer headers) call resp i"
| "brought_by st i (SePull net since) \<longleftrightarrow> answered_pull net st since i"
| "brought_by st i (SeCommit resp) \<longleftrightarrow> False"

definition good_broker :: "('s, 'q) service_event list \<Rightarrow> 's app_state \<Rightarrow> exchange_broker \<Rightarrow> bool" where
  "good_broker events st0 b \<longleftrightarrow>
     broker_wf b \<and> br_registry b = br_registry (sb_inner (as_broker st0)) \<and>
     (\<forall>i \<in> set (im_values (br_store b)).
        i \<in> set (im_values (br_store (sb_inner (as_broker st0)))) \<or> (\<exists>ev \<in> set events. brought_by st0 i ev))"

definition service_inv :: "('s, 'q) service_event list \<Rightarrow> 's app_state \<Rightarrow> 's service \<Rightarrow> bool" where
  "service_inv events st0 s \<longleftrightarrow>
     same_setup st0 (fst s) \<and> good_broker events st0 (sb_inner (as_broker (fst s))) \<and>
     (\<forall>pulled \<in> set (snd s). good_broker events st0 (snd pulled))"

lemma good_broker_mono: "good_broker events st0 b \<Longrightarrow> set events \<subseteq> set events' \<Longrightarrow> good_broker events' st0 b"
  by (auto simp: good_broker_def)

subsection \<open>Each step keeps the invariant\<close>

lemma good_broker_put:
  assumes "good_broker events st0 b" and "put_object i b = Some (Ok (r, b'))"
    and "\<exists>ev \<in> set events. brought_by st0 i ev"
  shows "good_broker events st0 b'"
  using assms broker_wf_put_object [of b i r b'] im_values_insert_subset [of "mi_oid i" i "br_store b"]
  by (auto simp: good_broker_def put_object_Ok_iff)

lemma good_broker_delete:
  assumes "good_broker events st0 b" and "delete_object oid b = Ok (r, b')"
  shows "good_broker events st0 b'"
  using assms broker_wf_delete_object [of b oid r b'] by (auto simp: good_broker_def delete_object_Ok_iff)

lemma good_broker_applied: "good_broker events st0 (b\<lparr>br_applied_sequence := n\<rparr>) \<longleftrightarrow> good_broker events st0 b"
  by (simp add: good_broker_def broker_wf_applied)

lemma good_broker_remote_step:
  assumes "\<And>i. je_operation e = IesPutObject \<Longrightarrow> fetch_instance_async net c (je_oid e) = Ok i \<Longrightarrow>
      \<exists>ev \<in> set events. brought_by st0 i ev" and "good_broker events st0 b"
    and "remote_step (fetch_instance_async net c) e b = Some (Ok b')"
  shows "good_broker events st0 b'"
proof (cases "je_operation e = IesPutObject")
  case True
  with assms(3) obtain i where i: "fetch_instance_async net c (je_oid e) = Ok i"
    and step: "apply_put_entry e i b = Some (Ok b')"
    by (auto simp: remote_step_def apply_remote_entry_def split: sum.splits)
  have "\<exists>ev \<in> set events. brought_by st0 i ev" using assms(1) True i by blast
  moreover from step obtain r b1 where "put_object i b = Some (Ok (r, b1))"
    and "b' = b1\<lparr>br_applied_sequence := je_sequence e\<rparr>"
    by (auto simp: apply_put_entry_def and_then_Inr_iff)
  ultimately show ?thesis
    using good_broker_put [OF assms(2)] by (simp add: good_broker_applied)
next
  case False
  with assms(3) have "b' = (if broker_contains b (je_oid e) then delete_state (je_oid e) b else b)\<lparr>br_applied_sequence := je_sequence e\<rparr>"
    by (auto simp: remote_step_def apply_remote_entry_def apply_delete_entry_eq split: ies_operation.splits)
  then show ?thesis
    using assms(2) broker_wf_delete [of b "je_oid e"] by (simp add: good_broker_applied) (simp add: good_broker_def)
qed

lemma replay_keeps:
  assumes "\<And>e b b'. e \<in> set es \<Longrightarrow> P b \<Longrightarrow> step e b = Some (Ok b') \<Longrightarrow> P b'"
  shows "P b \<Longrightarrow> replay step es a k b = Some (res, b') \<Longrightarrow> P b'"
  using assms
proof (induction es arbitrary: a k b)
  case (Cons e es)
  have tail: "P b'" if "P b2" and "replay step es a2 k2 b2 = Some (res, b')" for a2 k2 b2
    by (rule Cons.IH [OF that], rule Cons.prems(3)) simp_all
  show ?case
  proof (cases "je_sequence e \<le> br_applied_sequence b")
    case True
    with Cons.prems(1,2) tail show ?thesis by simp
  next
    case False
    with Cons.prems obtain r where r: "step e b = Some r" by (auto simp: bind_eq_Some_conv)
    have "P b2" if "r = Ok b2" for b2 by (rule Cons.prems(3) [OF _ Cons.prems(1)]) (use r that in simp_all)
    with False Cons.prems(1,2) r tail show ?thesis by (cases r) auto
  qed
qed simp

lemma good_broker_replicate:
  assumes client: "notify_client net st0 = Ok c" and pull: "SePull net since \<in> set events"
    and good: "good_broker events st0 b" and replicate: "replicate_into net c since b = Some pulled"
  shows "good_broker events st0 (snd pulled)"
proof (cases "fetch_sync_async net c since")
  case (Inl e)
  with good replicate show ?thesis by (auto simp: replicate_into_def pull_and_apply_remote_def http_publisher_def)
next
  case (Inr sync)
  with replicate obtain res b' where
    run: "replay (remote_step (fetch_instance_async net c)) (sy_entries sync) 0 0 b = Some (res, b')" and b': "snd pulled = b'"
    by (auto simp: replicate_into_def pull_and_apply_remote_def http_publisher_def replay_report_def)
  have "good_broker events st0 b2"
    if "e \<in> set (sy_entries sync)" "good_broker events st0 b1" "remote_step (fetch_instance_async net c) e b1 = Some (Ok b2)"
    for e b1 b2
  proof (rule good_broker_remote_step [OF _ that(2,3)])
    fix i
    assume "je_operation e = IesPutObject" and "fetch_instance_async net c (je_oid e) = Ok i"
    then have "brought_by st0 i (SePull net since :: ('a, 'b) service_event)"
      using client Inr that(1) by (auto simp: answered_pull_def)
    with pull show "\<exists>ev \<in> set events. brought_by st0 i ev" by (metis brought_by.simps(2))
  qed
  from replay_keeps [of "sy_entries sync" "good_broker events st0", OF this good run] show ?thesis using b' by simp
qed

text \<open>What a request can do: nothing but an audit record, a put that was signed and permitted, or a delete.\<close>

definition request_effect ::
  "('s, 'q) http_env \<Rightarrow> 's app_state \<Rightarrow> header_map \<Rightarrow> http_call \<Rightarrow> http_response \<Rightarrow> 's app_state \<Rightarrow> bool" where
  "request_effect env st headers call resp st' \<longleftrightarrow>
     same_setup st st' \<and>
     (sb_inner (as_broker st') = sb_inner (as_broker st) \<or>
      (\<exists>i r. accepted_put env st headers call resp i \<and>
         put_object i (sb_inner (as_broker st)) = Some (Ok (r, sb_inner (as_broker st')))) \<or>
      (\<exists>oid r. delete_object oid (sb_inner (as_broker st)) = Ok (r, sb_inner (as_broker st'))))"

lemma request_effect_view:
  "same_view (as_broker st) b \<Longrightarrow> request_effect env st headers call resp (st\<lparr>as_broker := b\<rparr>)"
  using same_setup_view [of st b] by (simp add: request_effect_def same_view_def)

lemma request_effect_refl [simp]: "request_effect env st headers call resp st"
  by (simp add: request_effect_def)

lemma get_by_filter_as_view: "same_view s (snd (get_by_filter_as env stamps su render req s))"
  by (auto simp: get_by_filter_as_def case_prod_beta Let_def permitted_instances_view split: sum.split)

lemma put_object_as_setup:
  assumes "put_object_as env stamp su i s = Some (res, s')"
  shows "same_view s (s'\<lparr>sb_inner := sb_inner s\<rparr>)"
proof (cases rule: authorize_cases [of env stamp su OpWrite i s])
  case (permitted dn s1)
  then have "same_view s (s1\<lparr>sb_inner := sb_inner s\<rparr>)" by (simp add: same_view_def)
  moreover from permitted assms obtain out where
    "put_object i (sb_inner s1) = Some out" and
    "(res, s') = (case out of Inl e \<Rightarrow> (Err e, s1) | Inr (r, b) \<Rightarrow> (Ok r, s1\<lparr>sb_inner := b\<rparr>))"
    by (auto simp: put_object_as_def)
  ultimately show ?thesis by (auto simp: same_view_def split: sum.splits)
qed (use assms in \<open>simp add: put_object_as_def same_view_def\<close>)

lemma delete_object_as_setup:
  assumes "delete_object_as env stamp su oid s = (res, s')"
  shows "same_view s (s'\<lparr>sb_inner := sb_inner s\<rparr>)"
proof (cases "get_by_oid oid (sb_inner s)")
  case (Inr i)
  with assms show ?thesis
    by (cases rule: authorize_cases [of env stamp su OpDelete i s])
      (auto simp: delete_object_as_def same_view_def split: sum.splits)
qed (use assms in \<open>simp add: delete_object_as_def\<close>)

lemma same_setup_inner:
  "same_view (as_broker st) (b\<lparr>sb_inner := sb_inner (as_broker st)\<rparr>) \<Longrightarrow> same_setup st (st\<lparr>as_broker := b\<rparr>)"
  by (simp add: same_setup_def same_view_def)

lemma handle_put_setup:
  assumes "handle_put env st headers tls e = Some (res, st')"
  shows "same_setup st st'" and "res = Err err \<Longrightarrow> sb_inner (as_broker st') = sb_inner (as_broker st)"
proof -
  have "same_setup st st' \<and> (res = Err err \<longrightarrow> sb_inner (as_broker st') = sb_inner (as_broker st))"
  proof (cases "put_request env st headers tls e")
    case (Inl x)
    with assms show ?thesis by (simp add: handle_put_def)
  next
    case (Inr q)
    obtain su i where q: "q = (su, i)" by (cases q)
    from assms Inr q obtain b where
      put: "put_object_as (he_audit env) (he_stamps env 0) su i (as_broker st) = Some (res, b)"
      and st': "st' = st\<lparr>as_broker := b\<rparr>"
      by (auto simp: handle_put_def)
    have "same_setup st st'" using put_object_as_setup [OF put] same_setup_inner st' by blast
    moreover have "sb_inner b = sb_inner (as_broker st)" if "res = Err err"
      using put_object_as_Err_keeps put that by (metis same_view_def)
    ultimately show ?thesis using st' by simp
  qed
  then show "same_setup st st'" and "res = Err err \<Longrightarrow> sb_inner (as_broker st') = sb_inner (as_broker st)" by simp_all
qed

lemma http_put_effect:
  assumes "http_put_object env st headers body = Some (resp, st', posts)"
  shows "request_effect env st headers (HcPut body) resp st'"
proof (cases "validate_mim_version (headers ''mim-version'')")
  case (Inl err)
  with assms show ?thesis by (auto simp: http_put_object_def)
next
  case version: (Inr u)
  show ?thesis
  proof (cases "he_envelope env body")
    case (Inl err)
    with assms version show ?thesis by (auto simp: http_put_object_def)
  next
    case (Inr e)
    let ?tls = "request_tls_identity headers"
    from assms version Inr obtain res where put: "handle_put env st headers ?tls e = Some (res, st')"
      and resp: "\<And>r. res = Ok r \<Longrightarrow> resp = negotiated_response WpJson 201 (HbPut r)"
      by (auto simp: http_put_object_def split: sum.splits) (metis sum.exhaust)
    show ?thesis
    proof (cases res)
      case err: (Inl err)
      with handle_put_setup [OF put] show ?thesis by (simp add: request_effect_def)
    next
      case ok: (Inr r)
      with put have "\<exists>st''. handle_put env st headers ?tls e = Some (Ok r, st'') \<and> sb_inner (as_broker st'') = sb_inner (as_broker st')"
        by auto
      then obtain su i where q: "put_request env st headers ?tls e = Ok (su, i)" "may_access (as_broker st) su OpWrite i"
        and stored: "put_object i (sb_inner (as_broker st)) = Some (Ok (r, sb_inner (as_broker st')))"
        unfolding handle_put_Ok_iff by blast
      have "por_oid r = mi_oid i" using stored by (auto simp: put_object_Ok_iff)
      with q Inr resp [OF ok] have "accepted_put env st headers (HcPut body) resp i"
        by (auto simp: accepted_put_def negotiated_response_def)
      with stored handle_put_setup(1) [OF put] show ?thesis unfolding request_effect_def by blast
    qed
  qed
qed

lemma http_delete_effect: "request_effect env st headers call resp (snd (http_delete_object env st h segment))"
proof -
  have "request_effect env st headers call resp (st\<lparr>as_broker := b\<rparr>)"
    if d: "delete_object_as (he_audit env) (he_stamps env 0) su oid (as_broker st) = (res, b)" for su oid res b
  proof (cases res)
    case (Inl err)
    with d show ?thesis using delete_object_as_Err_keeps request_effect_view by blast
  next
    case (Inr r)
    with d have "\<exists>s'. delete_object_as (he_audit env) (he_stamps env 0) su oid (as_broker st) = (Ok r, s') \<and> sb_inner s' = sb_inner b"
      by auto
    then have "delete_object oid (sb_inner (as_broker st)) = Ok (r, sb_inner b)"
      unfolding delete_object_as_Ok_iff by blast
    moreover have "same_setup st (st\<lparr>as_broker := b\<rparr>)"
      using delete_object_as_setup [OF d] same_setup_inner by blast
    ultimately show ?thesis unfolding request_effect_def by auto
  qed
  then show ?thesis
    by (auto simp: http_delete_object_def split: sum.splits prod.splits)
qed

lemma exchange_router_effect:
  assumes "exchange_router env st headers call = Some (resp, st')"
  shows "request_effect env st headers call resp st'"
proof (cases call)
  case (HcPut body)
  with assms show ?thesis using http_put_effect by (auto simp: exchange_router_def)
next
  case (HcGet segment)
  then have "st' = snd (http_get_by_oid env st headers segment)" using assms by (simp add: exchange_router_def)
  then show ?thesis
    by (auto simp: http_get_by_oid_def case_prod_beta Let_def intro: request_effect_view get_by_oid_as_view
        split: sum.split)
next
  case (HcFilter q)
  then have "st' = snd (http_get_by_filter env st headers q)" using assms by (simp add: exchange_router_def)
  then show ?thesis
    by (auto simp: http_get_by_filter_def case_prod_beta Let_def intro: request_effect_view get_by_filter_as_view
        split: sum.split)
next
  case (HcDelete segment)
  with assms show ?thesis using http_delete_effect [of env st headers call resp headers segment] by (simp add: exchange_router_def)
next
  case (HcSync since)
  then have "st' = snd (http_sync_changes env st headers since)" using assms by (simp add: exchange_router_def)
  then show ?thesis
    by (auto simp: http_sync_changes_def case_prod_beta Let_def intro: request_effect_view sync_since_as_view
        split: sum.split)
qed (use assms in \<open>simp add: exchange_router_def\<close>)

lemma same_setup_client: "same_setup st st' \<Longrightarrow> notify_client net st' = notify_client net st"
  by (simp add: same_setup_def notify_client_def)

lemma same_setup_commit: "notify_commit pulled st = (resp, st') \<Longrightarrow> same_setup st st'"
  by (auto simp: notify_commit_def same_setup_def split: sum.splits)

lemma same_setup_accepted_put:
  "same_setup st0 st \<Longrightarrow> accepted_put env st headers call resp i \<longleftrightarrow> accepted_put env st0 headers call resp i"
  by (simp add: accepted_put_def same_setup_put_request same_setup_may_access)

lemma good_broker_effect:
  assumes effect: "request_effect env st (server_headers value_ok peer headers) call resp st'"
    and same: "same_setup st0 st" and good: "good_broker events st0 (sb_inner (as_broker st))"
  shows "good_broker (events @ [SeRequest env value_ok peer headers call resp]) st0 (sb_inner (as_broker st'))"
    (is "good_broker (events @ [?ev]) st0 _")
proof -
  have good: "good_broker (events @ [?ev]) st0 (sb_inner (as_broker st))" by (rule good_broker_mono [OF good]) auto
  have "\<exists>ev \<in> set (events @ [?ev]). brought_by st0 i ev"
    if "accepted_put env st (server_headers value_ok peer headers) call resp i" for i
    using that by (simp add: same_setup_accepted_put [OF same])
  with effect good show ?thesis
    unfolding request_effect_def by (auto intro: good_broker_put [OF good] good_broker_delete)
qed

lemma service_step_inv:
  assumes "service_inv events st0 (st, pulls)" and "service_step (st, pulls) ev s'"
  shows "service_inv (events @ [ev]) st0 s'"
proof -
  have same: "same_setup st0 st" and broker: "good_broker events st0 (sb_inner (as_broker st))"
    and pulls: "\<forall>pulled \<in> set pulls. good_broker events st0 (snd pulled)"
    using assms(1) by (simp_all add: service_inv_def)
  have keep: "good_broker (events @ [ev]) st0 b" if "good_broker events st0 b" for b
    by (rule good_broker_mono [OF that]) auto
  from assms(2) show ?thesis
  proof (elim service_step_cases)
    fix env value_ok peer headers call resp st'
    assume ev: "ev = SeRequest env value_ok peer headers call resp" and s': "s' = (st', pulls)"
      and "exchange_router env st (server_headers value_ok peer headers) call = Some (resp, st')"
    then have effect: "request_effect env st (server_headers value_ok peer headers) call resp st'"
      using exchange_router_effect by blast
    then have "same_setup st0 st'" using same same_setup_trans unfolding request_effect_def by blast
    with good_broker_effect [OF effect same broker] show ?thesis
      using pulls keep by (simp add: service_inv_def ev s')
  next
    fix net c since pulled
    assume ev: "ev = SePull net since" and s': "s' = (st, pulled # pulls)" and "notify_client net st = Ok c"
      and "replicate_into net c since (notify_staging st) = Some pulled"
    then have "good_broker (events @ [ev]) st0 (snd pulled)"
      using good_broker_replicate [of net st0 c since "events @ [ev]" "notify_staging st" pulled] keep [OF broker]
        same_setup_client [OF same] by (simp add: notify_staging_def)
    then show ?thesis using same broker pulls keep by (simp add: service_inv_def s')
  next
    fix pulled resp st' before after
    assume p: "pulls = before @ pulled # after" "s' = (st', before @ after)" "notify_commit pulled st = (resp, st')"
    then have "good_broker (events @ [ev]) st0 (sb_inner (as_broker st'))"
      using broker pulls keep by (auto simp: notify_commit_def split: sum.splits)
    moreover have "same_setup st0 st'"
      using same same_setup_commit [OF p(3)] same_setup_trans by blast
    ultimately show ?thesis using p pulls keep by (simp add: service_inv_def)
  qed
qed

lemma service_run_inv:
  assumes "service_run st0 events s" and "broker_wf (sb_inner (as_broker st0))"
  shows "service_inv events st0 s"
  using assms
proof (induction rule: service_run.induct)
  case run_start
  then show ?case by (simp add: service_inv_def good_broker_def)
next
  case (run_step events s ev s')
  then show ?case using service_step_inv by (cases s) blast
qed

text \<open>
  Requests, notifications and their commits in any order, also interleaved, keep the broker sound:
  its journal explains what is stored, inactive and readable, everything stored is accepted by the
  model, and neither the keys, the resolver and the identity requirement nor the domain and the policy
  change.
\<close>

theorem service_keeps_broker:
  assumes "service_run st0 events (st, pulls)" and "broker_wf (sb_inner (as_broker st0))"
  shows "same_setup st0 st \<and> br_registry (sb_inner (as_broker st)) = br_registry (sb_inner (as_broker st0)) \<and>
     (\<forall>oid. (is_ok (get_by_oid oid (sb_inner (as_broker st))) \<longleftrightarrow>
          last_op (br_journal (sb_inner (as_broker st))) oid = Some IesPutObject) \<and>
        (broker_contains (sb_inner (as_broker st)) oid \<longleftrightarrow> last_op (br_journal (sb_inner (as_broker st))) oid \<noteq> None)) \<and>
     (\<forall>i \<in> set (im_values (br_store (sb_inner (as_broker st)))). accepts_instance (br_registry (sb_inner (as_broker st))) i)"
proof -
  from service_run_inv [OF assms] have same: "same_setup st0 st"
    and good: "good_broker events st0 (sb_inner (as_broker st))" by (simp_all add: service_inv_def)
  then have wf: "broker_wf (sb_inner (as_broker st))" by (simp add: good_broker_def)
  from same good wf broker_wf_readable [OF wf] show ?thesis
    by (auto simp: good_broker_def broker_wf_def)
qed

text \<open>
  C5: whatever a service started with an empty store holds after a run was brought by an event of that run. Either
  one of its requests put the object: the request carried an envelope whose assertion a key of the trust store
  verifies, its payload decodes to the object, its headers resolve to a subject that may write the object in the
  domain, and it was answered with status 201 and the identifier of the object. Or one of its pulls did: the client
  of the federation URL was told of a put in the change feed of the publisher and got the object for that entry.
\<close>

theorem stored_objects_are_signed_or_pulled:
  assumes "service_run st0 events (st, pulls)" and "sb_inner (as_broker st0) = broker_new reg"
    and "i \<in> set (im_values (br_store (sb_inner (as_broker st))))"
  shows "(\<exists>env value_ok peer headers body resp r h e su k.
        SeRequest env value_ok peer headers (HcPut body) resp \<in> set events \<and> h = server_headers value_ok peer headers \<and>
        he_envelope env body = Ok e \<and> put_request env st0 h (request_tls_identity h) e = Ok (su, i) \<and>
        k \<in> set (ts_keys (as_trust_store st0)) \<and> rest_verify (he_label env) (he_crypto env) e k = Ok () \<and>
        resolve_subject_for_request env st0 h (request_tls_identity h) = Ok su \<and> may_access (as_broker st0) su OpWrite i \<and>
        hr_status resp = 201 \<and> hr_body resp = HbPut r \<and> por_oid r = mi_oid i) \<or>
     (\<exists>net since c sync entry.
        SePull net since \<in> set events \<and> notify_client net st0 = Ok c \<and> fetch_sync_async net c since = Ok sync \<and>
        entry \<in> set (sy_entries sync) \<and> je_operation entry = IesPutObject \<and>
        fetch_instance_async net c (je_oid entry) = Ok i)"
proof -
  have "broker_wf (sb_inner (as_broker st0))" using assms(2) broker_wf_new by simp
  from service_run_inv [OF assms(1) this]
  obtain ev where ev: "ev \<in> set events" "brought_by st0 i ev"
    using assms(2,3) by (auto simp: service_inv_def good_broker_def broker_new_def im_values_def)
  show ?thesis
  proof (cases ev)
    case (SeRequest env value_ok peer headers call resp)
    let ?h = "server_headers value_ok peer headers"
    from ev(2) obtain body e su r where put: "call = HcPut body" "he_envelope env body = Ok e"
        "put_request env st0 ?h (request_tls_identity ?h) e = Ok (su, i)" "may_access (as_broker st0) su OpWrite i"
      and resp: "hr_status resp = 201" "hr_body resp = HbPut r" "por_oid r = mi_oid i"
      unfolding SeRequest brought_by.simps accepted_put_def by blast
    from put(3) obtain k where "k \<in> set (ts_keys (as_trust_store st0))"
        "rest_verify (he_label env) (he_crypto env) e k = Ok ()"
        "resolve_subject_for_request env st0 ?h (request_tls_identity ?h) = Ok su"
      unfolding put_request_Ok_iff using verify_key_for_Ok by blast
    with put resp ev(1) show ?thesis unfolding SeRequest by blast
  next
    case (SePull net since)
    with ev show ?thesis by (auto simp: answered_pull_def)
  qed (use ev in simp)
qed

section \<open>A sample run\<close>

definition body_env :: "(unit, nat) http_env" where
  "body_env = (toy_http_env json_put_env)\<lparr>he_envelope := (\<lambda>_. Ok toy_envelope)\<rparr>"

lemma body_env_put_request:
  "put_request body_env st headers tls e = put_request (toy_http_env json_put_env) st headers tls e"
  by (simp add: put_request_def body_env_def resolve_subject_for_request_def toy_http_env_def cong: if_cong)

lemma empty_restricted_may_write: "may_access empty_view analyst OpWrite (marked_instance ''RESTRICTED'')"
  using restricted_may_write [of "''SECRET''"] by (simp add: may_access_def empty_view_def cong: sum.case_cong)

lemma sample_request:
  "\<exists>resp st'. exchange_router body_env (toy_app_state False empty_view) (server_headers value_ok None label_headers)
       (HcPut body) = Some (resp, st') \<and>
     sb_inner (as_broker st') = put_state (marked_instance ''RESTRICTED'') (broker_new line_registry)"
proof -
  let ?st = "toy_app_state False empty_view" and ?tls = "request_tls_identity label_headers"
  have b: "as_broker ?st = empty_view" "sb_inner empty_view = broker_new line_registry"
    by (simp_all add: toy_app_state_def empty_view_def)
  have "\<exists>r. put_object (marked_instance ''RESTRICTED'') (broker_new line_registry) =
      Some (Ok (r, put_state (marked_instance ''RESTRICTED'') (broker_new line_registry)))"
    using marked_accepted by (simp add: put_object_Ok_iff broker_new_def)
  then obtain r st' where put: "handle_put body_env ?st label_headers ?tls toy_envelope = Some (Ok r, st')"
    and inner: "sb_inner (as_broker st') = put_state (marked_instance ''RESTRICTED'') (broker_new line_registry)"
    using handle_put_Ok_iff [of body_env ?st label_headers ?tls toy_envelope] json_put empty_restricted_may_write
    by (metis b body_env_put_request)
  have "server_headers value_ok None label_headers = label_headers" by (simp add: server_headers_def)
  moreover have "validate_mim_version (label_headers ''mim-version'') = Ok ()"
    by (simp add: validate_mim_version_def label_headers_def)
  moreover have "he_envelope body_env body = Ok toy_envelope" by (simp add: body_env_def)
  ultimately show ?thesis
    using put inner by (simp add: exchange_router_def http_put_object_def)
qed

definition sample_event :: "http_response \<Rightarrow> (unit, nat) service_event" where
  "sample_event resp = SeRequest body_env (\<lambda>_. True) None label_headers (HcPut ''x'') resp"

lemma sample_run:
  obtains st resp where "service_run (toy_app_state False empty_view) [sample_event resp] (st, [])"
    and "sb_inner (as_broker st) = put_state (marked_instance ''RESTRICTED'') (broker_new line_registry)"
proof -
  obtain resp st' where
    "exchange_router body_env (toy_app_state False empty_view) (server_headers (\<lambda>_. True) None label_headers)
       (HcPut ''x'') = Some (resp, st')"
    and inner: "sb_inner (as_broker st') = put_state (marked_instance ''RESTRICTED'') (broker_new line_registry)"
    using sample_request by blast
  then have "service_step (toy_app_state False empty_view, []) (sample_event resp) (st', [])"
    unfolding sample_event_def by (intro step_request)
  from run_step [OF run_start this] inner that show thesis by simp
qed

theorem service_keeps_broker_witness:
  "\<exists>st resp. service_run (toy_app_state False empty_view) [sample_event resp] (st, []) \<and>
     is_ok (get_by_oid (ObjectIdentifier ''urn:uuid:5f0c'') (sb_inner (as_broker st)))"
proof -
  obtain st resp where run: "service_run (toy_app_state False empty_view) [sample_event resp] (st, [])"
    and st: "sb_inner (as_broker st) = put_state (marked_instance ''RESTRICTED'') (broker_new line_registry)"
    by (rule sample_run)
  have "broker_wf (sb_inner (as_broker (toy_app_state False empty_view)))"
    by (simp add: toy_app_state_def empty_view_def broker_wf_new)
  from service_keeps_broker [OF run this]
  have "is_ok (get_by_oid oid (sb_inner (as_broker st))) \<longleftrightarrow>
      last_op (br_journal (sb_inner (as_broker st))) oid = Some IesPutObject" for oid by blast
  moreover have "last_op (br_journal (sb_inner (as_broker st))) (ObjectIdentifier ''urn:uuid:5f0c'') = Some IesPutObject"
    by (simp add: st broker_new_def last_op_def sample_instance_def mim_instance_new_def generate_urn_def)
  ultimately show ?thesis using run by blast
qed

theorem stored_objects_are_signed_or_pulled_witness:
  "\<exists>st resp r su k. service_run (toy_app_state False empty_view) [sample_event resp] (st, []) \<and>
     marked_instance ''RESTRICTED'' \<in> set (im_values (br_store (sb_inner (as_broker st)))) \<and>
     put_request body_env (toy_app_state False empty_view) label_headers (request_tls_identity label_headers) toy_envelope =
       Ok (su, marked_instance ''RESTRICTED'') \<and>
     k \<in> set (ts_keys (as_trust_store (toy_app_state False empty_view))) \<and>
     rest_verify (he_label body_env) (he_crypto body_env) toy_envelope k = Ok () \<and>
     may_access empty_view su OpWrite (marked_instance ''RESTRICTED'') \<and>
     hr_body resp = HbPut r \<and> por_oid r = ObjectIdentifier ''urn:uuid:5f0c''"
proof -
  obtain st resp where run: "service_run (toy_app_state False empty_view) [sample_event resp] (st, [])"
    and st: "sb_inner (as_broker st) = put_state (marked_instance ''RESTRICTED'') (broker_new line_registry)"
    by (rule sample_run)
  have new: "sb_inner (as_broker (toy_app_state False empty_view)) = broker_new line_registry"
    by (simp add: toy_app_state_def empty_view_def)
  have stored: "marked_instance ''RESTRICTED'' \<in> set (im_values (br_store (sb_inner (as_broker st))))"
    by (simp add: st broker_new_def im_values_def)
  have "server_headers (\<lambda>_. True) None label_headers = label_headers" by (simp add: server_headers_def)
  moreover have "he_envelope body_env x = Ok toy_envelope" for x by (simp add: body_env_def)
  moreover have "as_broker (toy_app_state False empty_view) = empty_view" by (simp add: toy_app_state_def)
  moreover have "mi_oid (marked_instance ''RESTRICTED'') = ObjectIdentifier ''urn:uuid:5f0c''"
    by (simp add: sample_instance_def mim_instance_new_def generate_urn_def)
  ultimately show ?thesis
    using stored_objects_are_signed_or_pulled [OF run new stored] run stored
    by (simp add: sample_event_def) blast
qed

section \<open>A server in production mode\<close>

text \<open>A node that is set up in production mode refuses every put of a peer in production mode: the assertion
  names the key of the peer as no key of the trust store is named.\<close>

theorem production_puts_refused:
  assumes "config_for_mode io cp fx federation resolver_env PkiProduction = Ok cfg"
    and "as_trust_store st = xc_trust_store cfg"
    and "load_key_ring_for io' cp fx PkiProduction = Ok ring"
    and "wrap_put_object_with_format sx lx cp l i (kp_signing (kr_nmb ring)) f = Ok e"
  shows "\<exists>err. handle_put env st headers tls e = Some (Err err, st)"
proof -
  from assms(4) obtain payload where wrap: "rest_wrap lx cp l payload (kp_signing (kr_nmb ring)) = Ok e"
    by (auto simp: wrap_put_object_with_format_def and_then_Inr_iff)
  then obtain a where a: "re_assertion e = Some a"
    and create: "assertion_create lx cp l payload (kp_signing (kr_nmb ring)) = Ok a"
    by (auto simp: rest_wrap_def and_then_Inr_iff)
  from assms(1,2) have trust: "load_trust_store_for io cp fx PkiProduction = Ok (as_trust_store st)"
    by (auto simp: config_for_mode_def and_then_Inr_iff)
  have id: "bs_key_id (ab_signature a) = ''nmb-signing''"
    using production_ring_ids [of io' cp ring] assertion_create_key [OF create] assms(3)
    by (simp add: load_key_ring_for_def)
  have "\<not> is_ok (put_request env st headers tls e)"
  proof
    assume "is_ok (put_request env st headers tls e)"
    then obtain k where "verify_key_for (as_trust_store st) ''nmb-signing'' = Ok k"
      using a id by (auto simp: is_ok_iff put_request_Ok_iff)
    from verify_key_for_Ok [OF this] trust production_trust_ids [of io cp "as_trust_store st" k]
    show False by (auto simp: load_trust_store_for_def)
  qed
  then show ?thesis by (cases "put_request env st headers tls e") (simp_all add: handle_put_def)
qed

text \<open>A node that the federation configuration tells to require client certificates asks for none when it
  runs in laboratory mode, or when the configuration names no authority: the server then has no client
  authority, so every request reaches the routes without a certificate.\<close>

lemma required_certificates_not_asked:
  fixes s :: "'t http_exchange_server"
  assumes "with_federation read read_bytes pem_certs federation mode vars s = Some (Ok s', vars')"
    and "hs_client_ca s = None" and "mode = PkiLab \<or> client_ca_path federation = None"
  shows "hs_client_ca s' = None"
proof -
  have peer: "hs_client_ca (notify_peer federation x) = hs_client_ca x" for x :: "'t http_exchange_server"
    by (simp add: notify_peer_def split: option.split)
  show ?thesis
  proof (cases mode)
    case PkiProduction
    with assms(3) have ca: "client_ca_path federation = None" by simp
    from assms(1) PkiProduction obtain applied where "apply_pki_env read federation vars = Some applied"
      by (auto simp: with_federation_def Let_def)
    with assms(1,2) PkiProduction ca show ?thesis
      by (cases applied) (auto simp: with_federation_def Let_def peer)
  qed (use assms peer in \<open>auto simp: with_federation_def\<close>)
qed

end
