(* ===== verification/Ordered_Map.thy ===== *)
theory Ordered_Map
  imports Rust_Strings "HOL-Library.Char_ord" "HOL-Library.List_Lexorder"
begin

text \<open>
  The ordered map and set of the importer (\<open>BTreeMap\<close>, \<open>BTreeSet\<close>): entries in increasing order of their
  keys. A Rust string is ordered by its bytes, which is the lexicographic order on \<open>string\<close>.
  The contract of the map is a locale, interpreted on sorted association lists.
\<close>

type_synonym ('k, 'v) ordered_map = "('k \<times> 'v) list"

fun om_insert :: "'k::linorder \<Rightarrow> 'v \<Rightarrow> ('k, 'v) ordered_map \<Rightarrow> ('k, 'v) ordered_map" where
  "om_insert k v [] = [(k, v)]"
| "om_insert k v ((k', v') # m) =
     (if k < k' then (k, v) # (k', v') # m
      else if k = k' then (k, v) # m
      else (k', v') # om_insert k v m)"

definition om_get :: "('k, 'v) ordered_map \<Rightarrow> 'k \<Rightarrow> 'v option" where
  "om_get m k = map_of m k"

definition om_keys :: "('k, 'v) ordered_map \<Rightarrow> 'k list" where
  "om_keys m = map fst m"

definition om_values :: "('k, 'v) ordered_map \<Rightarrow> 'v list" where
  "om_values m = map snd m"

definition om_contains :: "('k, 'v) ordered_map \<Rightarrow> 'k \<Rightarrow> bool" where
  "om_contains m k \<longleftrightarrow> k \<in> set (om_keys m)"

definition om_wf :: "('k::linorder, 'v) ordered_map \<Rightarrow> bool" where
  "om_wf m \<longleftrightarrow> sorted_wrt (<) (om_keys m)"

text \<open>\<open>get_mut\<close> and a change of the value; \<open>entry(k).or_insert_with(d)\<close> and a change of the value.\<close>

definition om_modify :: "'k \<Rightarrow> ('v \<Rightarrow> 'v) \<Rightarrow> ('k, 'v) ordered_map \<Rightarrow> ('k, 'v) ordered_map" where
  "om_modify k f m = map (\<lambda>(k', v). if k' = k then (k', f v) else (k', v)) m"

definition om_entry :: "'k::linorder \<Rightarrow> 'v \<Rightarrow> ('v \<Rightarrow> 'v) \<Rightarrow> ('k, 'v) ordered_map \<Rightarrow> ('k, 'v) ordered_map" where
  "om_entry k d f m = (if om_contains m k then om_modify k f m else om_insert k (f d) m)"

section \<open>Contract\<close>

locale sorted_map =
  fixes ins :: "'k::linorder \<Rightarrow> 'v \<Rightarrow> 'm \<Rightarrow> 'm"
    and look :: "'m \<Rightarrow> 'k \<Rightarrow> 'v option"
    and keys :: "'m \<Rightarrow> 'k list"
    and modify :: "'k \<Rightarrow> ('v \<Rightarrow> 'v) \<Rightarrow> 'm \<Rightarrow> 'm"
    and wf :: "'m \<Rightarrow> bool"
  assumes keys_sorted: "wf m \<Longrightarrow> sorted_wrt (<) (keys m)"
    and look_dom: "look m k \<noteq> None \<longleftrightarrow> k \<in> set (keys m)"
    and wf_ins: "wf m \<Longrightarrow> wf (ins k v m)"
    and set_keys_ins: "set (keys (ins k v m)) = insert k (set (keys m))"
    and look_ins: "look (ins k v m) k' = (if k' = k then Some v else look m k')"
    and keys_modify: "keys (modify k f m) = keys m"
    and wf_modify: "wf m \<Longrightarrow> wf (modify k f m)"
    and look_modify: "look (modify k f m) k' = (if k' = k then map_option f (look m k') else look m k')"
begin

lemma keys_distinct: "wf m \<Longrightarrow> distinct (keys m)"
  using keys_sorted by (simp add: strict_sorted_iff)

text \<open>The order of the entries is decided by the set of the keys.\<close>

lemma keys_unique: "wf m \<Longrightarrow> wf n \<Longrightarrow> set (keys m) = set (keys n) \<Longrightarrow> keys m = keys n"
  by (intro strict_sorted_equal keys_sorted)

lemma entry_look:
  "look (if k \<in> set (keys m) then modify k f m else ins k (f d) m) k' =
    (if k' = k then Some (f (case look m k of Some v \<Rightarrow> v | None \<Rightarrow> d)) else look m k')"
  using look_dom [of m k] by (auto simp: look_modify look_ins split: option.splits)

lemma entry_keys:
  "set (keys (if k \<in> set (keys m) then modify k f m else ins k (f d) m)) = insert k (set (keys m))"
  by (auto simp: keys_modify set_keys_ins)

lemma entry_wf: "wf m \<Longrightarrow> wf (if k \<in> set (keys m) then modify k f m else ins k (f d) m)"
  by (simp add: wf_modify wf_ins)

end

lemma om_keys_insert: "set (om_keys (om_insert k v m)) = insert k (set (om_keys m))"
  by (induction k v m rule: om_insert.induct) (auto simp: om_keys_def)

lemma om_insert_wf: "om_wf m \<Longrightarrow> om_wf (om_insert k v m)"
proof (induction k v m rule: om_insert.induct)
  case (2 k v k' v' m)
  then show ?case
    using om_keys_insert [of k v m] by (auto simp: om_wf_def om_keys_def)
qed (simp add: om_wf_def om_keys_def)

lemma om_get_insert: "om_get (om_insert k v m) k' = (if k' = k then Some v else om_get m k')"
  by (induction k v m rule: om_insert.induct) (auto simp: om_get_def)

lemma om_keys_modify: "om_keys (om_modify k f m) = om_keys m"
  by (simp add: om_keys_def om_modify_def split: prod.splits)

lemma om_get_modify:
  "om_get (om_modify k f m) k' = (if k' = k then map_option f (om_get m k') else om_get m k')"
  by (induction m) (auto simp: om_get_def om_modify_def)

interpretation om: sorted_map om_insert om_get om_keys om_modify om_wf
proof unfold_locales
  show "om_get m k \<noteq> None \<longleftrightarrow> k \<in> set (om_keys m)" for m :: "('a, 'b) ordered_map" and k
    by (simp add: om_get_def om_keys_def map_of_eq_None_iff)
qed (simp_all add: om_insert_wf om_keys_insert om_get_insert om_keys_modify om_get_modify, simp_all add: om_wf_def om_keys_modify)

lemma om_get_contains: "om_contains m k \<longleftrightarrow> om_get m k \<noteq> None"
  by (simp add: om_contains_def om_get_def om_keys_def map_of_eq_None_iff)

lemma om_contains_insert [simp]: "om_contains (om_insert k v m) k' \<longleftrightarrow> k' = k \<or> om_contains m k'"
  by (simp add: om_contains_def om.set_keys_ins)

lemma om_contains_modify [simp]: "om_contains (om_modify k f m) k' \<longleftrightarrow> om_contains m k'"
  by (simp add: om_contains_def om_keys_modify)

lemma om_contains_entry [simp]: "om_contains (om_entry k d f m) k' \<longleftrightarrow> k' = k \<or> om_contains m k'"
  by (auto simp: om_entry_def)

lemma om_get_entry:
  "om_get (om_entry k d f m) k' =
    (if k' = k then Some (f (case om_get m k of Some v \<Rightarrow> v | None \<Rightarrow> d)) else om_get m k')"
  unfolding om_entry_def om_contains_def by (rule om.entry_look)

lemma om_wf_entry: "om_wf m \<Longrightarrow> om_wf (om_entry k d f m)"
  unfolding om_entry_def om_contains_def by (rule om.entry_wf)

lemma om_get_in: "om_wf m \<Longrightarrow> (k, v) \<in> set m \<longleftrightarrow> om_get m k = Some v"
  using om.keys_distinct [of m] by (simp add: om_get_def om_keys_def)

section \<open>Sets\<close>

text \<open>\<open>BTreeSet\<close>: a sorted list without duplicates.\<close>

type_synonym 'a ordered_set = "'a list"

definition os_insert :: "'a::linorder \<Rightarrow> 'a ordered_set \<Rightarrow> 'a ordered_set" where
  "os_insert x s = insort_insert x s"

definition os_remove :: "'a \<Rightarrow> 'a ordered_set \<Rightarrow> 'a ordered_set" where
  "os_remove x s = remove1 x s"

definition os_collect :: "'a::linorder list \<Rightarrow> 'a ordered_set" where
  "os_collect xs = fold os_insert xs []"

definition os_wf :: "'a::linorder ordered_set \<Rightarrow> bool" where
  "os_wf s \<longleftrightarrow> sorted s \<and> distinct s"

lemma set_os_insert [simp]: "set (os_insert x s) = insert x (set s)"
  by (simp add: os_insert_def set_insort_insert)

lemma os_insert_wf: "os_wf s \<Longrightarrow> os_wf (os_insert x s)"
  by (simp add: os_wf_def os_insert_def sorted_insort_insert distinct_insort_insert)

lemma os_remove_wf: "os_wf s \<Longrightarrow> os_wf (os_remove x s)"
  by (simp add: os_wf_def os_remove_def sorted_remove1)

lemma set_os_remove: "os_wf s \<Longrightarrow> set (os_remove x s) = set s - {x}"
  by (simp add: os_wf_def os_remove_def)

lemma length_os_insert: "length (os_insert x s) = (if x \<in> set s then length s else Suc (length s))"
  by (simp add: os_insert_def insort_insert_key_def)

lemma set_fold_os_insert: "set (fold os_insert xs s) = set xs \<union> set s"
  by (induction xs arbitrary: s) auto

lemma set_os_collect [simp]: "set (os_collect xs) = set xs"
  by (simp add: os_collect_def set_fold_os_insert)

end
