(* ===== verification/Owl_Model.thy ===== *)
theory Owl_Model
  imports Ordered_Map Xml_Events Mim_Core
begin

text \<open>
  Crate \<open>mim-import\<close>, \<open>owl.rs\<close>: the ontology read from OWL/RDF-XML. The reader is a state machine over
  XML events that fills three ordered maps; the class hierarchy is walked down and up with work
  lists, and missing domains of properties are inherited in rounds.
\<close>

section \<open>Data\<close>

record owl_class =
  oc_name :: string
  oc_label :: "string option"
  oc_parents :: "string list"
  oc_is_enumeration :: bool

datatype owl_property_kind = OpObject | OpData

record owl_property =
  op_name :: string
  op_label :: "string option"
  op_property_type :: owl_property_kind
  op_domain :: "string option"
  op_range :: "string option"
  op_parents :: "string list"
  op_inverse_of :: "string option"

record owl_model =
  ow_classes :: "(string, owl_class) ordered_map"
  ow_properties :: "(string, owl_property) ordered_map"
  ow_enumerations :: "(string, string list) ordered_map"

text \<open>A value with \<open>..default()\<close> and its name.\<close>

definition owl_class_named :: "string \<Rightarrow> owl_class" where
  "owl_class_named n = \<lparr>oc_name = n, oc_label = None, oc_parents = [], oc_is_enumeration = False\<rparr>"

definition owl_property_named :: "string \<Rightarrow> owl_property_kind \<Rightarrow> owl_property" where
  "owl_property_named n k =
     \<lparr>op_name = n, op_label = None, op_property_type = k, op_domain = None, op_range = None, op_parents = [],
      op_inverse_of = None\<rparr>"

definition owl_model_default :: owl_model where
  "owl_model_default = \<lparr>ow_classes = [], ow_properties = [], ow_enumerations = []\<rparr>"

section \<open>References\<close>

definition normalize_owl_ref :: "string \<Rightarrow> string" where
  "normalize_owl_ref value =
     (let trimmed = trim value in
      case rsplit_once (CHR ''#'') trimmed of
        Some (_, local) \<Rightarrow> local
      | None \<Rightarrow>
          (case rsplit_once (CHR ''/'') trimmed of
             Some (_, local) \<Rightarrow> local
           | None \<Rightarrow> trim_start_matches (CHR ''#'') trimmed))"

definition class_ref :: "px_attributes \<Rightarrow> string option" where
  "class_ref attrs =
     map_option normalize_owl_ref
       (case attr_value attrs ''about'' of Some v \<Rightarrow> Some v | None \<Rightarrow> attr_value attrs ''ID'')"

definition resource_ref :: "px_attributes \<Rightarrow> string option" where
  "resource_ref attrs = map_option normalize_owl_ref (attr_value attrs ''resource'')"

section \<open>The reader\<close>

record owl_reader =
  os_current_class :: "string option"
  os_current_property :: "string option"
  os_pending_domain :: "string option"
  os_pending_range :: "string option"
  os_in_label :: bool
  os_in_one_of :: bool
  os_one_of_owner :: "string option"
  os_one_of_values :: "string list"

definition owl_reader_new :: owl_reader where
  "owl_reader_new =
     \<lparr>os_current_class = None, os_current_property = None, os_pending_domain = None, os_pending_range = None,
      os_in_label = False, os_in_one_of = False, os_one_of_owner = None, os_one_of_values = []\<rparr>"

definition add_parent :: "string \<Rightarrow> string \<Rightarrow> owl_model \<Rightarrow> owl_model" where
  "add_parent child parent m =
     m\<lparr>ow_classes :=
         om_entry child (owl_class_named child)
           (\<lambda>c. if parent \<in> set (oc_parents c) then c else c\<lparr>oc_parents := oc_parents c @ [parent]\<rparr>)
           (ow_classes m)\<rparr>"

text \<open>A class, in a start tag (which leaves the current property) or an empty one (which does not).\<close>

definition see_class :: "bool \<Rightarrow> px_attributes \<Rightarrow> owl_model \<times> owl_reader \<Rightarrow> owl_model \<times> owl_reader" where
  "see_class start attrs = (\<lambda>(m, s).
     case class_ref attrs of
       None \<Rightarrow> (m, s)
     | Some n \<Rightarrow>
         if os_in_one_of s then (m, s\<lparr>os_one_of_values := os_one_of_values s @ [n]\<rparr>)
         else
           (m\<lparr>ow_classes := om_entry n (owl_class_named n) (\<lambda>c. c) (ow_classes m)\<rparr>,
            if start then s\<lparr>os_current_class := Some n, os_current_property := None\<rparr>
            else s\<lparr>os_current_class := Some n\<rparr>))"

definition see_property :: "string \<Rightarrow> px_attributes \<Rightarrow> owl_model \<times> owl_reader \<Rightarrow> owl_model \<times> owl_reader" where
  "see_property tag attrs = (\<lambda>(m, s).
     case class_ref attrs of
       None \<Rightarrow> (m, s)
     | Some n \<Rightarrow>
         let kind = (if tag = ''ObjectProperty'' then OpObject else OpData);
             p = (owl_property_named n kind)\<lparr>op_domain := os_pending_domain s, op_range := os_pending_range s\<rparr>
         in (m\<lparr>ow_properties := om_insert n p (ow_properties m)\<rparr>,
             s\<lparr>os_current_property := Some n, os_current_class := None, os_pending_domain := None,
               os_pending_range := None\<rparr>))"

definition see_sub_property :: "px_attributes \<Rightarrow> owl_model \<times> owl_reader \<Rightarrow> owl_model \<times> owl_reader" where
  "see_sub_property attrs = (\<lambda>(m, s).
     case (os_current_property s, resource_ref attrs) of
       (Some child, Some parent) \<Rightarrow>
         (m\<lparr>ow_properties :=
              om_entry child (owl_property_named child OpObject)
                (\<lambda>p. if parent \<in> set (op_parents p) then p else p\<lparr>op_parents := op_parents p @ [parent]\<rparr>)
                (ow_properties m)\<rparr>, s)
     | _ \<Rightarrow> (m, s))"

definition see_inverse :: "px_attributes \<Rightarrow> owl_model \<times> owl_reader \<Rightarrow> owl_model \<times> owl_reader" where
  "see_inverse attrs = (\<lambda>(m, s).
     case (os_current_property s, resource_ref attrs) of
       (Some child, Some partner) \<Rightarrow>
         (m\<lparr>ow_properties :=
              om_entry child (owl_property_named child OpObject) (\<lambda>p. p\<lparr>op_inverse_of := Some partner\<rparr>)
                (ow_properties m)\<rparr>, s)
     | _ \<Rightarrow> (m, s))"

definition see_domain :: "px_attributes \<Rightarrow> owl_model \<times> owl_reader \<Rightarrow> owl_model \<times> owl_reader" where
  "see_domain attrs = (\<lambda>(m, s).
     case resource_ref attrs of
       None \<Rightarrow> (m, s)
     | Some d \<Rightarrow>
         (case os_current_property s of
            Some prop \<Rightarrow>
              (m\<lparr>ow_properties := om_modify prop (\<lambda>p. p\<lparr>op_domain := Some d\<rparr>) (ow_properties m)\<rparr>, s)
          | None \<Rightarrow> (m, s\<lparr>os_pending_domain := Some d\<rparr>)))"

definition see_range :: "px_attributes \<Rightarrow> owl_model \<times> owl_reader \<Rightarrow> owl_model \<times> owl_reader" where
  "see_range attrs = (\<lambda>(m, s).
     case resource_ref attrs of
       None \<Rightarrow> (m, s)
     | Some r \<Rightarrow>
         (case os_current_property s of
            Some prop \<Rightarrow>
              (m\<lparr>ow_properties := om_modify prop (\<lambda>p. p\<lparr>op_range := Some r\<rparr>) (ow_properties m)\<rparr>, s)
          | None \<Rightarrow> (m, s\<lparr>os_pending_range := Some r\<rparr>)))"

definition see_sub_class :: "px_attributes \<Rightarrow> owl_model \<times> owl_reader \<Rightarrow> owl_model \<times> owl_reader" where
  "see_sub_class attrs = (\<lambda>(m, s).
     case (os_current_class s, resource_ref attrs) of
       (Some child, Some parent) \<Rightarrow> (add_parent child parent m, s)
     | _ \<Rightarrow> (m, s))"

definition handle_start :: "string \<Rightarrow> px_attributes \<Rightarrow> owl_model \<times> owl_reader \<Rightarrow> owl_model \<times> owl_reader" where
  "handle_start name attrs ms =
     (if name = ''Class'' \<or> name = ''Thing'' then see_class True attrs ms
      else if name = ''ObjectProperty'' \<or> name = ''DatatypeProperty'' then see_property name attrs ms
      else if name = ''subPropertyOf'' then see_sub_property attrs ms
      else if name = ''inverseOf'' then see_inverse attrs ms
      else if name = ''domain'' then see_domain attrs ms
      else if name = ''range'' then see_range attrs ms
      else if name = ''subClassOf'' then see_sub_class attrs ms
      else if name = ''oneOf'' then
        (let (m, s) = ms in
         (m, s\<lparr>os_in_one_of := True, os_one_of_values := [], os_one_of_owner := os_current_class s\<rparr>))
      else if name = ''label'' then (let (m, s) = ms in (m, s\<lparr>os_in_label := True\<rparr>))
      else ms)"

definition handle_empty :: "string \<Rightarrow> px_attributes \<Rightarrow> owl_model \<times> owl_reader \<Rightarrow> owl_model \<times> owl_reader" where
  "handle_empty name attrs ms =
     (if name = ''Class'' \<or> name = ''Thing'' then see_class False attrs ms
      else if name = ''ObjectProperty'' \<or> name = ''DatatypeProperty'' then see_property name attrs ms
      else if name = ''subClassOf'' then see_sub_class attrs ms
      else if name = ''subPropertyOf'' then see_sub_property attrs ms
      else if name = ''domain'' then see_domain attrs ms
      else if name = ''range'' then see_range attrs ms
      else if name = ''inverseOf'' then see_inverse attrs ms
      else ms)"

definition close_one_of :: "owl_model \<times> owl_reader \<Rightarrow> owl_model \<times> owl_reader" where
  "close_one_of = (\<lambda>(m, s).
     (case os_one_of_owner s of
        Some owner \<Rightarrow>
          if os_one_of_values s \<noteq> [] then
            m\<lparr>ow_enumerations := om_insert owner (os_one_of_values s) (ow_enumerations m),
              ow_classes := om_modify owner (\<lambda>c. c\<lparr>oc_is_enumeration := True\<rparr>) (ow_classes m)\<rparr>
          else m
      | None \<Rightarrow> m,
      s\<lparr>os_one_of_owner := None, os_in_one_of := False, os_one_of_values := []\<rparr>))"

text \<open>At the end of a property a pending domain or range is taken when the property has none.\<close>

definition close_property :: "owl_model \<times> owl_reader \<Rightarrow> owl_model \<times> owl_reader" where
  "close_property = (\<lambda>(m, s).
     case Option.bind (os_current_property s) (om_get (ow_properties m)) of
       None \<Rightarrow> (m, s\<lparr>os_current_property := None\<rparr>)
     | Some p \<Rightarrow>
         let d = (if op_domain p = None then os_pending_domain s else op_domain p);
             r = (if op_range p = None then os_pending_range s else op_range p)
         in (m\<lparr>ow_properties :=
                 om_modify (the (os_current_property s)) (\<lambda>p. p\<lparr>op_domain := d, op_range := r\<rparr>) (ow_properties m)\<rparr>,
             s\<lparr>os_pending_domain := (if op_domain p = None then None else os_pending_domain s),
               os_pending_range := (if op_range p = None then None else os_pending_range s),
               os_current_property := None\<rparr>))"

definition handle_end :: "string \<Rightarrow> owl_model \<times> owl_reader \<Rightarrow> owl_model \<times> owl_reader" where
  "handle_end name ms =
     (let (m, s) = ms in
      if name = ''oneOf'' \<and> os_in_one_of s then close_one_of ms
      else if name = ''label'' then (m, s\<lparr>os_in_label := False\<rparr>)
      else if name = ''Class'' then (m, s\<lparr>os_current_class := None\<rparr>)
      else if name = ''ObjectProperty'' \<or> name = ''DatatypeProperty'' then close_property ms
      else ms)"

definition handle_text :: "string \<Rightarrow> owl_model \<times> owl_reader \<Rightarrow> owl_model \<times> owl_reader" where
  "handle_text t = (\<lambda>(m, s).
     if \<not> os_in_label s \<or> t = [] then (m, s)
     else
       (case os_current_class s of
          Some c \<Rightarrow>
            (m\<lparr>ow_classes := om_entry c (owl_class_named ''unknown'') (\<lambda>k. k\<lparr>oc_label := Some t\<rparr>) (ow_classes m)\<rparr>, s)
        | None \<Rightarrow>
            (case os_current_property s of
               Some p \<Rightarrow>
                 (m\<lparr>ow_properties :=
                      om_entry p (owl_property_named ''unknown'' OpObject) (\<lambda>q. q\<lparr>op_label := Some t\<rparr>)
                        (ow_properties m)\<rparr>, s)
             | None \<Rightarrow> (m, s))))"

fun owl_step :: "px_event \<Rightarrow> owl_model \<times> owl_reader \<Rightarrow> owl_model \<times> owl_reader" where
  "owl_step (PxStart q attrs) ms = handle_start (qname_local q) attrs ms"
| "owl_step (PxEmpty q attrs) ms = handle_empty (qname_local q) attrs ms"
| "owl_step (PxEnd q) ms = handle_end (qname_local q) ms"
| "owl_step (PxText t) ms = handle_text t ms"
| "owl_step PxOther ms = ms"

fun owl_read :: "(string + px_event) list \<Rightarrow> owl_model \<times> owl_reader \<Rightarrow> mim_error + owl_model" where
  "owl_read [] ms = Ok (fst ms)"
| "owl_read (Inl e # es) ms = Err (MimParse e)"
| "owl_read (Inr ev # es) ms = owl_read es (owl_step ev ms)"

definition owl_parse_xml :: "(string \<Rightarrow> (string + px_event) list) \<Rightarrow> string \<Rightarrow> mim_error + owl_model" where
  "owl_parse_xml events text = owl_read (events text) (owl_model_default, owl_reader_new)"

section \<open>The class hierarchy\<close>

text \<open>\<open>descendants_of\<close>: the queue is a stack; each class taken from it is compared with the parents of every
  class, in the order of the map.\<close>

fun scan_children ::
  "string \<Rightarrow> (string, owl_class) ordered_map \<Rightarrow> string ordered_set \<times> string list \<Rightarrow> string ordered_set \<times> string list" where
  "scan_children current [] rq = rq"
| "scan_children current ((name, c) # cs) (result, queue) =
     (if current \<in> set (oc_parents c) \<and> name \<notin> set result
      then scan_children current cs (os_insert name result, queue @ [name])
      else scan_children current cs (result, queue))"

lemma scan_children_measure:
  "finite N \<Longrightarrow> fst ` set cs \<subseteq> N \<Longrightarrow> scan_children current cs (result, queue) = (r, q) \<Longrightarrow>
    card (N - set r) + length q = card (N - set result) + length queue"
proof (induction current cs "(result, queue)" arbitrary: result queue rule: scan_children.induct)
  case (2 current name c cs result queue)
  show ?case
  proof (cases "current \<in> set (oc_parents c) \<and> name \<notin> set result")
    case True
    then have "card (N - set result) = Suc (card (N - set (os_insert name result)))"
      using 2(3,4) by (subst card.remove [of "N - set result" name]) (auto simp: Diff_insert [symmetric])
    then show ?thesis using 2(1) [OF True] 2(3-5) True by simp
  qed (use 2 in \<open>auto split: if_splits\<close>)
qed simp

function descend ::
  "(string, owl_class) ordered_map \<Rightarrow> string ordered_set \<Rightarrow> string list \<Rightarrow> string ordered_set" where
  "descend cs result queue =
     (if queue = [] then result
      else (let (r, q) = scan_children (last queue) cs (result, butlast queue) in descend cs r q))"
  by pat_completeness auto

termination
proof (relation "measure (\<lambda>(cs, result, queue). card (fst ` set cs - set result) + length queue)", goal_cases)
  case (2 cs result queue x r q)
  then have eq: "scan_children (last queue) cs (result, butlast queue) = (r, q)" by simp
  have "card (fst ` set cs - set r) + length q = card (fst ` set cs - set result) + length (butlast queue)"
    by (rule scan_children_measure [OF _ _ eq]) auto
  moreover have "queue \<noteq> []" using 2 by simp
  ultimately show ?case by (cases queue) simp_all
qed simp

declare descend.simps [simp del]

definition owl_descendants_of :: "owl_model \<Rightarrow> string \<Rightarrow> string ordered_set" where
  "owl_descendants_of m root = descend (ow_classes m) [] [root]"

text \<open>\<open>ancestors_of\<close>: a class is put on the stack once.\<close>

fun scan_parents ::
  "string list \<Rightarrow> string ordered_set \<times> string list \<times> string list \<Rightarrow> string ordered_set \<times> string list \<times> string list" where
  "scan_parents [] eaq = eaq"
| "scan_parents (p # ps) (enqueued, ancestors, queue) =
     (if p \<in> set enqueued then scan_parents ps (enqueued, ancestors, queue)
      else scan_parents ps (os_insert p enqueued, ancestors @ [p], queue @ [p]))"

lemma scan_parents_measure:
  "finite N \<Longrightarrow> set ps \<subseteq> N \<Longrightarrow> scan_parents ps (enqueued, ancestors, queue) = (e, a, q) \<Longrightarrow>
    card (N - set e) + length q = card (N - set enqueued) + length queue"
proof (induction ps "(enqueued, ancestors, queue)" arbitrary: enqueued ancestors queue rule: scan_parents.induct)
  case (2 p ps enqueued ancestors queue)
  show ?case
  proof (cases "p \<in> set enqueued")
    case False
    then have "card (N - set enqueued) = Suc (card (N - set (os_insert p enqueued)))"
      using 2(3,4) by (subst card.remove [of "N - set enqueued" p]) (auto simp: Diff_insert [symmetric])
    then show ?thesis using 2(2) [OF False] 2(3-5) False by simp
  qed (use 2 in simp)
qed simp

definition all_parents :: "(string, owl_class) ordered_map \<Rightarrow> string set" where
  "all_parents cs = (\<Union>(n, c) \<in> set cs. set (oc_parents c))"

lemma finite_all_parents: "finite (all_parents cs)"
  by (auto simp: all_parents_def)

lemma parents_in_all: "om_get cs n = Some c \<Longrightarrow> set (oc_parents c) \<subseteq> all_parents cs"
  by (force simp: all_parents_def om_get_def dest: map_of_SomeD)

function ascend ::
  "(string, owl_class) ordered_map \<Rightarrow> string ordered_set \<Rightarrow> string list \<Rightarrow> string list \<Rightarrow> string list" where
  "ascend cs enqueued ancestors queue =
     (if queue = [] then ancestors
      else
        (case om_get cs (last queue) of
           None \<Rightarrow> ascend cs enqueued ancestors (butlast queue)
         | Some c \<Rightarrow>
             (let (e, a, q) = scan_parents (oc_parents c) (enqueued, ancestors, butlast queue)
              in ascend cs e a q)))"
  by pat_completeness auto

termination
proof (relation "measure (\<lambda>(cs, enqueued, ancestors, queue). card (all_parents cs - set enqueued) + length queue)",
    goal_cases)
  case (3 cs enqueued ancestors queue c x e y a q)
  then have eq: "scan_parents (oc_parents c) (enqueued, ancestors, butlast queue) = (e, a, q)" by simp
  have "card (all_parents cs - set e) + length q = card (all_parents cs - set enqueued) + length (butlast queue)"
    by (rule scan_parents_measure [OF finite_all_parents parents_in_all eq]) (use 3 in simp)
  moreover have "queue \<noteq> []" using 3 by simp
  ultimately show ?case by (cases queue) simp_all
qed simp_all

declare ascend.simps [simp del]

definition owl_ancestors_of :: "owl_model \<Rightarrow> string \<Rightarrow> string list" where
  "owl_ancestors_of m c = ascend (ow_classes m) [c] [] [c]"

section \<open>The walks follow exactly the transitive hierarchy\<close>

definition is_a :: "owl_model \<Rightarrow> (string \<times> string) set" where
  "is_a m = {(n, p). \<exists>c. (n, c) \<in> set (ow_classes m) \<and> p \<in> set (oc_parents c)}"

lemma scan_children_sets:
  "scan_children current cs (result, queue) = (r, q) \<Longrightarrow>
    set r = set result \<union> {n. \<exists>c. (n, c) \<in> set cs \<and> current \<in> set (oc_parents c)} \<and>
    set q = set queue \<union> (set r - set result)"
  by (induction current cs "(result, queue)" arbitrary: result queue rule: scan_children.induct)
    (auto split: if_splits)

lemma scan_children_wf:
  "scan_children current cs (result, queue) = (r, q) \<Longrightarrow> os_wf result \<Longrightarrow> os_wf r"
  by (induction current cs "(result, queue)" arbitrary: result queue rule: scan_children.induct)
    (auto split: if_splits intro: os_insert_wf)

lemma descend_exact:
  assumes "\<forall>x \<in> insert root (set result) - set queue. \<forall>n. (n, x) \<in> is_a m \<longrightarrow> n \<in> set result"
    and "set queue \<subseteq> insert root (set result)" and "\<forall>n \<in> set result. (n, root) \<in> (is_a m)\<^sup>+"
  shows "set (descend (ow_classes m) result queue) = {n. (n, root) \<in> (is_a m)\<^sup>+}"
  using assms
proof (induction "ow_classes m" result queue rule: descend.induct)
  case (1 result queue)
  show ?case
  proof (cases "queue = []")
    case True
    have "n \<in> set result" if "(n, root) \<in> (is_a m)\<^sup>+" for n
      using that True 1(2) by (induction rule: converse_trancl_induct) auto
    with True 1(4) show ?thesis by (auto simp: descend.simps)
  next
    case False
    obtain r q where rq: "scan_children (last queue) (ow_classes m) (result, butlast queue) = (r, q)"
      by (cases "scan_children (last queue) (ow_classes m) (result, butlast queue)")
    have r: "set r = set result \<union> {n. (n, last queue) \<in> is_a m}"
      and q: "set q = set (butlast queue) \<union> (set r - set result)"
      using scan_children_sets [OF rq] by (auto simp: is_a_def)
    have queue: "set queue = insert (last queue) (set (butlast queue))"
      using False by (metis append_butlast_last_id insert_is_Un list.simps(15) list.set(1) set_append sup_commute)
    have last: "last queue = root \<or> (last queue, root) \<in> (is_a m)\<^sup>+"
      using 1(3,4) queue by auto
    have "set (descend (ow_classes m) r q) = {n. (n, root) \<in> (is_a m)\<^sup>+}"
    proof (rule 1(1) [OF False refl])
      show "(r, q) = scan_children (last queue) (ow_classes m) (result, butlast queue)" using rq by simp
      show "\<forall>x \<in> insert root (set r) - set q. \<forall>n. (n, x) \<in> is_a m \<longrightarrow> n \<in> set r"
      proof (intro ballI allI impI)
        fix x n assume x: "x \<in> insert root (set r) - set q" and n: "(n, x) \<in> is_a m"
        show "n \<in> set r"
        proof (cases "x = last queue")
          case True
          with n show ?thesis by (simp add: r)
        next
          case False
          with x have "x \<in> insert root (set result) - set queue" by (auto simp: q queue)
          with 1(2) n show ?thesis by (simp add: r)
        qed
      qed
      show "set q \<subseteq> insert root (set r)" using 1(3) unfolding q queue r by auto
      show "\<forall>n \<in> set r. (n, root) \<in> (is_a m)\<^sup>+"
        using 1(4) last by (auto simp: r intro: trancl_into_trancl2)
    qed
    with False rq show ?thesis by (simp add: descend.simps [of _ result queue])
  qed
qed

lemma descend_wf: "os_wf result \<Longrightarrow> os_wf (descend cs result queue)"
proof (induction cs result queue rule: descend.induct)
  case (1 cs result queue)
  obtain r q where "scan_children (last queue) cs (result, butlast queue) = (r, q)"
    by (cases "scan_children (last queue) cs (result, butlast queue)")
  with 1 show ?case
    by (simp add: descend.simps [of cs result queue] scan_children_wf)
qed

lemma owl_descendants_exact: "set (owl_descendants_of m root) = {n. (n, root) \<in> (is_a m)\<^sup>+}"
  unfolding owl_descendants_of_def by (rule descend_exact) auto

lemma scan_parents_sets:
  "scan_parents ps (enqueued, ancestors, queue) = (e, a, q) \<Longrightarrow>
    set e = set enqueued \<union> set ps \<and> set a = set ancestors \<union> (set e - set enqueued) \<and>
    set q = set queue \<union> (set e - set enqueued) \<and>
    (distinct ancestors \<longrightarrow> set ancestors \<subseteq> set enqueued \<longrightarrow> distinct a)"
proof (induction ps "(enqueued, ancestors, queue)" arbitrary: enqueued ancestors queue rule: scan_parents.induct)
  case (2 p ps enqueued ancestors queue)
  then show ?case by (cases "p \<in> set enqueued") auto
qed simp

lemma is_a_get:
  assumes "om_wf (ow_classes m)"
  shows "(n, p) \<in> is_a m \<longleftrightarrow> (\<exists>c. om_get (ow_classes m) n = Some c \<and> p \<in> set (oc_parents c))"
  by (auto simp: is_a_def om_get_in [OF assms])

lemma ascend_exact:
  assumes wf: "om_wf (ow_classes m)"
  shows "\<forall>x \<in> set enqueued - set queue. \<forall>p. (x, p) \<in> is_a m \<longrightarrow> p \<in> set enqueued \<Longrightarrow>
    set queue \<subseteq> set enqueued \<Longrightarrow> c \<in> set enqueued \<Longrightarrow>
    \<forall>x \<in> set enqueued. (c, x) \<in> (is_a m)\<^sup>* \<Longrightarrow>
    set ancestors = set enqueued - {c} \<Longrightarrow> distinct ancestors \<Longrightarrow>
    set (ascend (ow_classes m) enqueued ancestors queue) = {a. (c, a) \<in> (is_a m)\<^sup>+} - {c} \<and>
    distinct (ascend (ow_classes m) enqueued ancestors queue)"
proof (induction "ow_classes m" enqueued ancestors queue rule: ascend.induct)
  case (1 enqueued ancestors queue)
  note closed = 1(3) and sub = 1(4) and start = 1(5) and below = 1(6) and anc = 1(7,8)
  show ?case
  proof (cases "queue = []")
    case True
    have "a \<in> set enqueued" if "(c, a) \<in> (is_a m)\<^sup>*" for a
      using that start closed True by (induction rule: rtrancl_induct) auto
    then have "set enqueued = {a. (c, a) \<in> (is_a m)\<^sup>*}" using below by auto
    then show ?thesis using True anc by (auto simp: ascend.simps rtrancl_eq_or_trancl)
  next
    case False
    have queue: "set queue = insert (last queue) (set (butlast queue))"
      using False by (metis append_butlast_last_id insert_is_Un list.simps(15) list.set(1) set_append sup_commute)
    show ?thesis
    proof (cases "om_get (ow_classes m) (last queue)")
      case None
      then have none: "(last queue, p) \<notin> is_a m" for p by (simp add: is_a_get [OF wf])
      have "\<forall>x \<in> set enqueued - set (butlast queue). \<forall>p. (x, p) \<in> is_a m \<longrightarrow> p \<in> set enqueued"
      proof (intro ballI allI impI)
        fix x p assume x: "x \<in> set enqueued - set (butlast queue)" and p: "(x, p) \<in> is_a m"
        with none have "x \<in> set enqueued - set queue" by (auto simp: queue)
        with closed p show "p \<in> set enqueued" by blast
      qed
      moreover have "set (butlast queue) \<subseteq> set enqueued" using sub queue by blast
      ultimately show ?thesis
        using 1(1) [OF False None] start below anc False None by (simp add: ascend.simps [of _ enqueued])
    next
      case (Some k)
      obtain e a q where eaq: "scan_parents (oc_parents k) (enqueued, ancestors, butlast queue) = (e, a, q)"
        by (cases "scan_parents (oc_parents k) (enqueued, ancestors, butlast queue)")
      have step: "(last queue, p) \<in> is_a m \<longleftrightarrow> p \<in> set (oc_parents k)" for p
        using Some by (simp add: is_a_get [OF wf])
      note sets = scan_parents_sets [OF eaq]
      have "set (ascend (ow_classes m) e a q) = {a. (c, a) \<in> (is_a m)\<^sup>+} - {c} \<and>
          distinct (ascend (ow_classes m) e a q)"
      proof (rule 1(2) [OF False Some eaq [symmetric]])
        show "(e, a, q) = (e, a, q)" "(a, q) = (a, q)" by (rule refl)+
        show "\<forall>x \<in> set e - set q. \<forall>p. (x, p) \<in> is_a m \<longrightarrow> p \<in> set e"
        proof (intro ballI allI impI)
          fix x p assume x: "x \<in> set e - set q" and p: "(x, p) \<in> is_a m"
          show "p \<in> set e"
          proof (cases "x = last queue")
            case True
            with p step sets show ?thesis by blast
          next
            case False
            with x sets queue have "x \<in> set enqueued - set queue" by blast
            with closed p sets show ?thesis by blast
          qed
        qed
        show "set q \<subseteq> set e" using sub sets queue by blast
        show "c \<in> set e" using start sets by blast
        have "(c, last queue) \<in> (is_a m)\<^sup>*" using below sub queue by blast
        then show "\<forall>x \<in> set e. (c, x) \<in> (is_a m)\<^sup>*"
          using below sets step by (metis UnE rtrancl.rtrancl_into_rtrancl)
        show "set a = set e - {c}" using anc sets start by blast
        show "distinct a" using anc sets by blast
      qed
      with False Some eaq show ?thesis by (simp add: ascend.simps [of _ enqueued])
    qed
  qed
qed

lemma owl_ancestors_exact:
  assumes "om_wf (ow_classes m)"
  shows "set (owl_ancestors_of m c) = {a. (c, a) \<in> (is_a m)\<^sup>+} - {c}" "distinct (owl_ancestors_of m c)"
  using ascend_exact [OF assms, of "[c]" "[c]" c "[]"] by (auto simp: owl_ancestors_of_def)

end
