(* ===== verification/Owl_Domains.thy ===== *)
theory Owl_Domains
  imports Owl_Model
begin

text \<open>
  Crate \<open>mim-import\<close>, \<open>owl.rs\<close>, continued: the rounds in which properties inherit missing domains and ranges
  from their inverses and from the properties they specialise, with their termination; and the
  invariant of the reader.
\<close>

section \<open>Inheriting domains and ranges\<close>

definition properties_with_domain_count :: "owl_model \<Rightarrow> nat" where
  "properties_with_domain_count m = length (filter (\<lambda>p. op_domain p \<noteq> None) (om_values (ow_properties m)))"

definition fill_missing :: "string option \<Rightarrow> string option \<Rightarrow> owl_property \<Rightarrow> owl_property" where
  "fill_missing d r p =
     p\<lparr>op_domain := (if op_domain p = None then d else op_domain p),
       op_range := (if op_range p = None then r else op_range p)\<rparr>"

definition inverse_updates ::
  "(string, owl_property) ordered_map \<Rightarrow> (string \<times> string option \<times> string option) list" where
  "inverse_updates ps =
     concat (map (\<lambda>(_, p). case op_inverse_of p of
                    Some partner \<Rightarrow> [(partner, op_range p, op_domain p)]
                  | None \<Rightarrow> []) ps)"

definition resolve_inverse_domains :: "owl_model \<Rightarrow> owl_model" where
  "resolve_inverse_domains m =
     m\<lparr>ow_properties :=
         fold (\<lambda>(partner, d, r). om_entry partner (owl_property_named ''unknown'' OpObject) (fill_missing d r))
           (inverse_updates (ow_properties m)) (ow_properties m)\<rparr>"

definition subproperty_updates ::
  "(string, owl_property) ordered_map \<Rightarrow> (string \<times> string option \<times> string option \<times> owl_property_kind) list" where
  "subproperty_updates ps =
     concat (map (\<lambda>(n, p).
       concat (map (\<lambda>parent. case om_get ps parent of
                      Some q \<Rightarrow> [(n, op_domain q, op_range q, op_property_type q)]
                    | None \<Rightarrow> []) (op_parents p))) ps)"

definition inherit_from :: "string option \<Rightarrow> string option \<Rightarrow> owl_property_kind \<Rightarrow> owl_property \<Rightarrow> owl_property" where
  "inherit_from d r kind p =
     (let q = fill_missing d r p in
      if op_property_type q = OpObject \<and> kind = OpData then q\<lparr>op_property_type := kind\<rparr> else q)"

definition resolve_subproperty_domains :: "owl_model \<Rightarrow> owl_model" where
  "resolve_subproperty_domains m =
     m\<lparr>ow_properties :=
         fold (\<lambda>(n, d, r, kind). om_entry n (owl_property_named ''unknown'' OpObject) (inherit_from d r kind))
           (subproperty_updates (ow_properties m)) (ow_properties m)\<rparr>"

definition resolve_round :: "owl_model \<Rightarrow> owl_model" where
  "resolve_round m = resolve_subproperty_domains (resolve_inverse_domains m)"

section \<open>Termination of the rounds\<close>

text \<open>
  A round can add a property only as the partner of an inverse. The number of properties, with the partners
  that are still missing, is the same after a round, and bounds the number of properties with a domain.
\<close>

type_synonym property_map = "(string, owl_property) ordered_map"

definition partners :: "property_map \<Rightarrow> string set" where
  "partners ps = {t. \<exists>(n, p) \<in> set ps. op_inverse_of p = Some t}"

definition with_domain :: "property_map \<Rightarrow> nat" where
  "with_domain ps = length (filter (\<lambda>(n, p). op_domain p \<noteq> None) ps)"

definition slots :: "string set \<Rightarrow> property_map \<Rightarrow> nat" where
  "slots T ps = length ps + card (T - set (om_keys ps))"

lemma properties_with_domain_count_eq: "properties_with_domain_count m = with_domain (ow_properties m)"
proof -
  have "length (filter (\<lambda>p. op_domain p \<noteq> None) (map snd ps)) = with_domain ps" for ps
    by (induction ps) (auto simp: with_domain_def)
  then show ?thesis by (simp add: properties_with_domain_count_def om_values_def)
qed

lemma partners_simps [simp]:
  "partners [] = {}"
  "partners ((n, p) # ps) = set_option (op_inverse_of p) \<union> partners ps"
  by (auto simp: partners_def)

lemma finite_partners: "finite (partners ps)"
  by (induction ps) auto

lemma om_insert_new:
  "k \<notin> set (om_keys m) \<Longrightarrow>
    set (om_insert k v m) = insert (k, v) (set m) \<and> length (om_insert k v m) = Suc (length m) \<and>
    length (filter P (om_insert k v m)) = length (filter P m) + (if P (k, v) then 1 else 0)"
  by (induction k v m rule: om_insert.induct) (auto simp: om_keys_def)

text \<open>The changes that a round makes to a property.\<close>

definition only_fills :: "(owl_property \<Rightarrow> owl_property) \<Rightarrow> bool" where
  "only_fills f \<longleftrightarrow>
     (\<forall>p. op_name (f p) = op_name p \<and> op_label (f p) = op_label p \<and> op_parents (f p) = op_parents p \<and>
       op_inverse_of (f p) = op_inverse_of p \<and>
       (\<forall>d. op_domain p = Some d \<longrightarrow> op_domain (f p) = Some d) \<and>
       (\<forall>r. op_range p = Some r \<longrightarrow> op_range (f p) = Some r) \<and>
       (op_property_type p = OpData \<longrightarrow> op_property_type (f p) = OpData))"

lemma only_fills_fill_missing: "only_fills (fill_missing d r)"
  by (simp add: only_fills_def fill_missing_def)

lemma only_fills_inherit_from: "only_fills (inherit_from d r kind)"
  by (simp add: only_fills_def inherit_from_def fill_missing_def Let_def)

lemma entry_round:
  assumes f: "only_fills f" and k: "k \<in> set (om_keys ps) \<union> T" and T: "finite T"
  shows "partners (om_entry k (owl_property_named n kd) f ps) = partners ps \<and>
    slots T (om_entry k (owl_property_named n kd) f ps) = slots T ps \<and>
    with_domain ps \<le> with_domain (om_entry k (owl_property_named n kd) f ps)"
proof (cases "om_contains ps k")
  case True
  have "with_domain ps \<le> with_domain (om_modify k f ps)"
    unfolding with_domain_def om_modify_def
  proof (induction ps)
    case (Cons kp ps)
    with f show ?case by (cases kp; cases "op_domain (snd kp)") (auto simp: only_fills_def)
  qed simp
  moreover have "partners (om_modify k f ps) = partners ps"
    using f by (induction ps) (auto simp: om_modify_def only_fills_def if_distrib [of "\<lambda>x. partners (x # _)"] split: if_splits)
  moreover have "slots T (om_modify k f ps) = slots T ps"
    by (simp add: slots_def om_keys_modify) (simp add: om_modify_def)
  ultimately show ?thesis using True by (simp add: om_entry_def)
next
  case False
  then have new: "k \<notin> set (om_keys ps)" by (simp add: om_contains_def)
  let ?v = "f (owl_property_named n kd)"
  have inv: "op_inverse_of ?v = None" using f by (simp add: only_fills_def owl_property_named_def)
  have "k \<in> T" using k new by simp
  then have "card (T - set (om_keys ps)) = Suc (card (T - insert k (set (om_keys ps))))"
    using T new by (subst card.remove [of "T - set (om_keys ps)" k]) (auto simp: Diff_insert [symmetric])
  then have "slots T (om_insert k ?v ps) = slots T ps"
    using om_insert_new [OF new, of ?v] by (simp add: slots_def om_keys_insert)
  moreover have "partners (om_insert k ?v ps) = partners ps"
    using om_insert_new [OF new, of ?v] inv unfolding partners_def by fastforce
  moreover have "with_domain ps \<le> with_domain (om_insert k ?v ps)"
    using om_insert_new [OF new, of ?v "\<lambda>(n, p). op_domain p \<noteq> None"] by (simp add: with_domain_def)
  ultimately show ?thesis using False by (simp add: om_entry_def)
qed

text \<open>A whole pass of such changes.\<close>

lemma entries_round:
  assumes T: "finite T" and "\<forall>(k, f) \<in> set us. only_fills f \<and> k \<in> set (om_keys ps) \<union> T"
  shows "partners (fold (\<lambda>(k, f). om_entry k (owl_property_named n kd) f) us ps) = partners ps \<and>
    slots T (fold (\<lambda>(k, f). om_entry k (owl_property_named n kd) f) us ps) = slots T ps \<and>
    with_domain ps \<le> with_domain (fold (\<lambda>(k, f). om_entry k (owl_property_named n kd) f) us ps)"
  using assms(2)
proof (induction us arbitrary: ps)
  case (Cons u us)
  obtain k f where u: "u = (k, f)" by (cases u)
  let ?ps = "om_entry k (owl_property_named n kd) f ps"
  have "set (om_keys ps) \<subseteq> set (om_keys ?ps)"
    using om_contains_entry [of k "owl_property_named n kd" f ps] by (auto simp: om_contains_def)
  with Cons.prems have "\<forall>(k, f) \<in> set us. only_fills f \<and> k \<in> set (om_keys ?ps) \<union> T" by auto
  from Cons.IH [OF this] show ?case
    using entry_round [of f k ps T n kd] Cons.prems T by (simp add: u)
qed simp

text \<open>Both passes are of this form.\<close>

definition inverse_changes :: "property_map \<Rightarrow> (string \<times> (owl_property \<Rightarrow> owl_property)) list" where
  "inverse_changes ps = map (\<lambda>(partner, d, r). (partner, fill_missing d r)) (inverse_updates ps)"

definition subproperty_changes :: "property_map \<Rightarrow> (string \<times> (owl_property \<Rightarrow> owl_property)) list" where
  "subproperty_changes ps = map (\<lambda>(n, d, r, kind). (n, inherit_from d r kind)) (subproperty_updates ps)"

definition apply_changes :: "(string \<times> (owl_property \<Rightarrow> owl_property)) list \<Rightarrow> property_map \<Rightarrow> property_map" where
  "apply_changes = fold (\<lambda>(k, f). om_entry k (owl_property_named ''unknown'' OpObject) f)"

lemma resolve_inverse_domains_eq:
  "resolve_inverse_domains m =
    m\<lparr>ow_properties := apply_changes (inverse_changes (ow_properties m)) (ow_properties m)\<rparr>"
proof -
  have "fold (\<lambda>(partner, d, r). om_entry partner (owl_property_named ''unknown'' OpObject) (fill_missing d r)) us ps =
      apply_changes (map (\<lambda>(partner, d, r). (partner, fill_missing d r)) us) ps" for us ps
    by (induction us arbitrary: ps) (auto simp: apply_changes_def)
  then show ?thesis by (simp add: resolve_inverse_domains_def inverse_changes_def)
qed

lemma resolve_subproperty_domains_eq:
  "resolve_subproperty_domains m =
    m\<lparr>ow_properties := apply_changes (subproperty_changes (ow_properties m)) (ow_properties m)\<rparr>"
proof -
  have "fold (\<lambda>(n, d, r, kind). om_entry n (owl_property_named ''unknown'' OpObject) (inherit_from d r kind)) us ps =
      apply_changes (map (\<lambda>(n, d, r, kind). (n, inherit_from d r kind)) us) ps" for us ps
    by (induction us arbitrary: ps) (auto simp: apply_changes_def)
  then show ?thesis by (simp add: resolve_subproperty_domains_def subproperty_changes_def)
qed

lemma inverse_changes_ok:
  "(k, f) \<in> set (inverse_changes ps) \<Longrightarrow> only_fills f \<and> k \<in> partners ps"
  by (force simp: inverse_changes_def inverse_updates_def partners_def only_fills_fill_missing split: option.splits)

lemma subproperty_changes_ok:
  "(k, f) \<in> set (subproperty_changes ps) \<Longrightarrow> only_fills f \<and> k \<in> set (om_keys ps)"
  by (force simp: subproperty_changes_def subproperty_updates_def om_keys_def only_fills_inherit_from split: option.splits)

lemma round_measure:
  "partners (ow_properties (resolve_round m)) = partners (ow_properties m) \<and>
    slots (partners (ow_properties m)) (ow_properties (resolve_round m)) =
      slots (partners (ow_properties m)) (ow_properties m) \<and>
    with_domain (ow_properties m) \<le> with_domain (ow_properties (resolve_round m))"
proof -
  let ?T = "partners (ow_properties m)"
  let ?ps1 = "apply_changes (inverse_changes (ow_properties m)) (ow_properties m)"
  have ok1: "\<forall>(k, f) \<in> set (inverse_changes (ow_properties m)). only_fills f \<and> k \<in> set (om_keys (ow_properties m)) \<union> ?T"
    using inverse_changes_ok [of _ _ "ow_properties m"] by blast
  have ok2: "\<forall>(k, f) \<in> set (subproperty_changes ?ps1). only_fills f \<and> k \<in> set (om_keys ?ps1) \<union> ?T"
    using subproperty_changes_ok [of _ _ ?ps1] by blast
  show ?thesis
    using entries_round [OF finite_partners ok1, of "''unknown''" OpObject]
      entries_round [OF finite_partners ok2, of "''unknown''" OpObject]
    unfolding resolve_round_def resolve_subproperty_domains_eq resolve_inverse_domains_eq
    by (simp add: apply_changes_def)
qed

lemma with_domain_le_slots: "with_domain ps \<le> slots T ps"
  unfolding with_domain_def slots_def by (meson le_add1 length_filter_le order_trans)

function resolve_property_domains :: "owl_model \<Rightarrow> owl_model" where
  "resolve_property_domains m =
     (let m' = resolve_round m in
      if properties_with_domain_count m' = properties_with_domain_count m then m'
      else resolve_property_domains m')"
  by pat_completeness auto

termination
proof (relation "measure (\<lambda>m. slots (partners (ow_properties m)) (ow_properties m) - with_domain (ow_properties m))",
    goal_cases)
  case (2 m m')
  then have "with_domain (ow_properties m) < with_domain (ow_properties m')"
    using round_measure [of m] by (simp add: properties_with_domain_count_eq)
  moreover have "with_domain (ow_properties m') \<le> slots (partners (ow_properties m')) (ow_properties m')"
    by (rule with_domain_le_slots)
  ultimately show ?case using 2(1) round_measure [of m] by (simp add: Let_def)
qed simp

declare resolve_property_domains.simps [simp del]

section \<open>What the resolution guarantees\<close>

text \<open>A property that was declared keeps everything that was declared of it.\<close>

definition extends :: "owl_property \<Rightarrow> owl_property \<Rightarrow> bool" where
  "extends p q \<longleftrightarrow>
     op_name q = op_name p \<and> op_label q = op_label p \<and> op_parents q = op_parents p \<and>
     op_inverse_of q = op_inverse_of p \<and>
     (\<forall>d. op_domain p = Some d \<longrightarrow> op_domain q = Some d) \<and>
     (\<forall>r. op_range p = Some r \<longrightarrow> op_range q = Some r) \<and>
     (op_property_type p = OpData \<longrightarrow> op_property_type q = OpData)"

definition map_extends :: "property_map \<Rightarrow> property_map \<Rightarrow> bool" where
  "map_extends ps qs \<longleftrightarrow> (\<forall>k p. om_get ps k = Some p \<longrightarrow> (\<exists>q. om_get qs k = Some q \<and> extends p q))"

lemma map_extends_refl: "map_extends ps ps"
  by (auto simp: map_extends_def extends_def)

lemma extends_trans: "extends p q \<Longrightarrow> extends q r \<Longrightarrow> extends p r"
  by (simp add: extends_def)

lemma map_extends_trans: "map_extends ps qs \<Longrightarrow> map_extends qs rs \<Longrightarrow> map_extends ps rs"
  unfolding map_extends_def by (blast intro: extends_trans)

lemma entry_extends: "only_fills f \<Longrightarrow> map_extends ps (om_entry k d f ps)"
  by (auto simp: map_extends_def om_get_entry extends_def only_fills_def)

lemma changes_extend: "\<forall>(k, f) \<in> set us. only_fills f \<Longrightarrow> map_extends ps (apply_changes us ps)"
proof (induction us arbitrary: ps)
  case (Cons u us)
  then show ?case
    by (cases u) (auto simp: apply_changes_def intro: map_extends_trans [OF entry_extends])
qed (simp add: apply_changes_def map_extends_refl)

lemma round_extends: "map_extends (ow_properties m) (ow_properties (resolve_round m))"
proof -
  let ?ps = "ow_properties m" and ?ps1 = "apply_changes (inverse_changes (ow_properties m)) (ow_properties m)"
  have "map_extends ?ps ?ps1" using inverse_changes_ok by (intro changes_extend) blast
  moreover have "map_extends ?ps1 (apply_changes (subproperty_changes ?ps1) ?ps1)"
    using subproperty_changes_ok by (intro changes_extend) blast
  ultimately show ?thesis
    by (auto simp: resolve_round_def resolve_subproperty_domains_eq resolve_inverse_domains_eq
        intro: map_extends_trans)
qed

lemma resolve_extends: "map_extends (ow_properties m) (ow_properties (resolve_property_domains m))"
proof (induction m rule: resolve_property_domains.induct)
  case (1 m)
  then show ?case
    using round_extends [of m]
    by (subst resolve_property_domains.simps) (auto simp: Let_def intro: map_extends_trans)
qed

text \<open>No reference is invented: every domain and range was declared somewhere.\<close>

definition refs_in :: "string set \<Rightarrow> owl_property \<Rightarrow> bool" where
  "refs_in S p \<longleftrightarrow> set_option (op_domain p) \<union> set_option (op_range p) \<subseteq> S"

definition all_refs_in :: "string set \<Rightarrow> property_map \<Rightarrow> bool" where
  "all_refs_in S ps \<longleftrightarrow> (\<forall>(k, p) \<in> set ps. refs_in S p)"

lemma set_om_insert_subset: "set (om_insert k v m) \<subseteq> insert (k, v) (set m)"
  by (induction k v m rule: om_insert.induct) auto

lemma changes_refs:
  assumes "\<forall>(k, f) \<in> set us. \<forall>p. refs_in S p \<longrightarrow> refs_in S (f p)"
  shows "all_refs_in S ps \<Longrightarrow> all_refs_in S (apply_changes us ps)"
  using assms
proof (induction us arbitrary: ps)
  case (Cons u us)
  obtain k f where u: "u = (k, f)" by (cases u)
  let ?d = "owl_property_named ''unknown'' OpObject"
  have "refs_in S (f ?d)" using Cons.prems(2) u by (simp add: refs_in_def owl_property_named_def)
  then have "all_refs_in S (om_entry k ?d f ps)"
    using Cons.prems u set_om_insert_subset [of k "f ?d" ps]
    by (auto simp: all_refs_in_def om_entry_def om_modify_def split: if_splits)
  with Cons u show ?case by (simp add: apply_changes_def)
qed (simp add: apply_changes_def)

lemma om_get_set: "om_get ps k = Some p \<Longrightarrow> (k, p) \<in> set ps"
  by (simp add: om_get_def map_of_SomeD)

lemma refs_fill_missing:
  "refs_in S p \<Longrightarrow> set_option d \<subseteq> S \<Longrightarrow> set_option r \<subseteq> S \<Longrightarrow> refs_in S (fill_missing d r p)"
  by (simp add: refs_in_def fill_missing_def)

lemma refs_of: "refs_in S p \<Longrightarrow> set_option (op_domain p) \<subseteq> S" "refs_in S p \<Longrightarrow> set_option (op_range p) \<subseteq> S"
  by (simp_all add: refs_in_def)

lemma refs_inherit_from:
  "refs_in S p \<Longrightarrow> set_option d \<subseteq> S \<Longrightarrow> set_option r \<subseteq> S \<Longrightarrow> refs_in S (inherit_from d r kind p)"
  by (simp add: refs_in_def inherit_from_def fill_missing_def Let_def)

lemma round_refs: "all_refs_in S (ow_properties m) \<Longrightarrow> all_refs_in S (ow_properties (resolve_round m))"
proof -
  assume S: "all_refs_in S (ow_properties m)"
  have inv: "\<forall>(k, f) \<in> set (inverse_changes ps). \<forall>p. refs_in S p \<longrightarrow> refs_in S (f p)" if "all_refs_in S ps" for ps
    using that
    by (auto simp: inverse_changes_def inverse_updates_def all_refs_in_def intro!: refs_fill_missing refs_of
        split: option.splits)
  have sub: "\<forall>(k, f) \<in> set (subproperty_changes ps). \<forall>p. refs_in S p \<longrightarrow> refs_in S (f p)"
    if "all_refs_in S ps" for ps
    using that
    by (auto simp: subproperty_changes_def subproperty_updates_def all_refs_in_def intro!: refs_inherit_from refs_of
        dest!: om_get_set [OF sym] split: option.splits)
  let ?ps1 = "apply_changes (inverse_changes (ow_properties m)) (ow_properties m)"
  have "all_refs_in S ?ps1" by (rule changes_refs [OF inv [OF S] S])
  from changes_refs [OF sub [OF this] this] show ?thesis
    by (simp add: resolve_round_def resolve_subproperty_domains_eq resolve_inverse_domains_eq)
qed

lemma resolve_refs:
  "all_refs_in S (ow_properties m) \<Longrightarrow> all_refs_in S (ow_properties (resolve_property_domains m))"
proof (induction m rule: resolve_property_domains.induct)
  case (1 m)
  then show ?case
    using round_refs [of S m] by (subst resolve_property_domains.simps) (auto simp: Let_def)
qed

text \<open>The properties afterwards: those declared and the partners of inverses, in order.\<close>

lemma changes_contains:
  "om_contains (apply_changes us ps) k \<longleftrightarrow> om_contains ps k \<or> k \<in> fst ` set us"
  by (induction us arbitrary: ps) (auto simp: apply_changes_def)

lemma changes_wf: "om_wf ps \<Longrightarrow> om_wf (apply_changes us ps)"
  by (induction us arbitrary: ps) (auto simp: apply_changes_def intro: om_wf_entry)

lemma inverse_changes_keys: "fst ` set (inverse_changes ps) = partners ps"
  by (force simp: inverse_changes_def inverse_updates_def partners_def image_iff split: option.splits)

lemma round_contains:
  "om_contains (ow_properties (resolve_round m)) k \<longleftrightarrow>
    om_contains (ow_properties m) k \<or> k \<in> partners (ow_properties m)"
proof -
  let ?ps1 = "apply_changes (inverse_changes (ow_properties m)) (ow_properties m)"
  have "fst ` set (subproperty_changes ?ps1) \<subseteq> set (om_keys ?ps1)"
    using subproperty_changes_ok [of _ _ ?ps1] by fastforce
  then show ?thesis
    by (auto simp: resolve_round_def resolve_subproperty_domains_eq resolve_inverse_domains_eq changes_contains
        inverse_changes_keys om_contains_def [of ?ps1, symmetric])
qed

lemma resolve_property_domains_frame:
  "ow_classes (resolve_property_domains m) = ow_classes m \<and>
    ow_enumerations (resolve_property_domains m) = ow_enumerations m \<and>
    (\<forall>k. om_contains (ow_properties (resolve_property_domains m)) k \<longleftrightarrow>
      om_contains (ow_properties m) k \<or> k \<in> partners (ow_properties m))"
proof -
  have frame: "ow_classes (resolve_round n) = ow_classes n" "ow_enumerations (resolve_round n) = ow_enumerations n" for n
    by (simp_all add: resolve_round_def resolve_subproperty_domains_def resolve_inverse_domains_def)
  show ?thesis
  proof (induction m rule: resolve_property_domains.induct)
    case (1 m)
    show ?case
    proof (cases "properties_with_domain_count (resolve_round m) = properties_with_domain_count m")
      case True
      then show ?thesis
        by (simp add: resolve_property_domains.simps [of m] Let_def frame round_contains)
    next
      case False
      then show ?thesis
        using 1 [OF refl False] round_measure [of m]
        by (auto simp: resolve_property_domains.simps [of m] Let_def frame round_contains)
    qed
  qed
qed

text \<open>
  The resolution of domains returns; it touches neither classes nor enumerations; every declared property keeps
  its name, label, parents, inverse and what was declared of its domain, range and kind; the properties are those
  declared and the partners of inverses; and every domain and range is one that some property declares.
\<close>

theorem resolve_property_domains_sound:
  "let ps = ow_properties m; qs = ow_properties (resolve_property_domains m) in
    ow_classes (resolve_property_domains m) = ow_classes m \<and>
    ow_enumerations (resolve_property_domains m) = ow_enumerations m \<and>
    map_extends ps qs \<and>
    (\<forall>k. om_contains qs k \<longleftrightarrow> om_contains ps k \<or> k \<in> partners ps) \<and>
    all_refs_in (\<Union>(k, p) \<in> set ps. set_option (op_domain p) \<union> set_option (op_range p)) qs"
proof -
  note resolve_property_domains_frame [of m]
  moreover have "all_refs_in (\<Union>(k, p) \<in> set ps. set_option (op_domain p) \<union> set_option (op_range p)) ps" for ps
    by (auto simp: all_refs_in_def refs_in_def)
  ultimately show ?thesis
    using resolve_extends [of m] by (simp add: Let_def resolve_refs)
qed

text \<open>
  The rounds stop when a round gives no property a new domain, although it may have given one a new range that the
  next round would pass on: here \<open>e\<close> is the inverse of \<open>c\<close>, which inherits its range from \<open>b\<close>, the inverse of \<open>a\<close>.
\<close>

definition late_model :: owl_model where
  "late_model = owl_model_default\<lparr>ow_properties :=
     [(''a'', (owl_property_named ''a'' OpObject)\<lparr>op_domain := Some ''D'', op_inverse_of := Some ''b''\<rparr>),
      (''b'', owl_property_named ''b'' OpObject),
      (''c'', (owl_property_named ''c'' OpObject)\<lparr>op_parents := [''b''], op_inverse_of := Some ''e''\<rparr>),
      (''e'', owl_property_named ''e'' OpObject)]\<rparr>"

lemma resolution_stops_early:
  "map_option op_domain (om_get (ow_properties (resolve_property_domains late_model)) ''e'') = Some None"
  "map_option op_domain (om_get (ow_properties (resolve_round (resolve_property_domains late_model))) ''e'') =
    Some (Some ''D'')"
  by code_simp+

end
