(* ===== verification/Owl_Reader.thy ===== *)
theory Owl_Reader
  imports Owl_Domains
begin

text \<open>
  Crate \<open>mim-import\<close>, the reader of \<open>owl.rs\<close>: the invariant of its state machine, hence what every ontology it
  answers satisfies, and how it treats references to properties.
\<close>

section \<open>Invariant\<close>

definition owl_classes_wf :: "owl_model \<Rightarrow> bool" where
  "owl_classes_wf m \<longleftrightarrow>
     (\<forall>n c. om_get (ow_classes m) n = Some c \<longrightarrow>
        oc_name c = n \<and> distinct (oc_parents c) \<and> (oc_is_enumeration c \<longleftrightarrow> om_contains (ow_enumerations m) n))"

definition owl_properties_wf :: "owl_model \<Rightarrow> bool" where
  "owl_properties_wf m \<longleftrightarrow>
     (\<forall>n p. om_get (ow_properties m) n = Some p \<longrightarrow> op_name p = n \<and> distinct (op_parents p))"

definition owl_enumerations_wf :: "owl_model \<Rightarrow> bool" where
  "owl_enumerations_wf m \<longleftrightarrow>
     (\<forall>n vs. om_get (ow_enumerations m) n = Some vs \<longrightarrow> vs \<noteq> [] \<and> om_contains (ow_classes m) n)"

definition owl_model_wf :: "owl_model \<Rightarrow> bool" where
  "owl_model_wf m \<longleftrightarrow>
     om_wf (ow_classes m) \<and> om_wf (ow_properties m) \<and> om_wf (ow_enumerations m) \<and>
     owl_classes_wf m \<and> owl_properties_wf m \<and> owl_enumerations_wf m"

definition owl_reader_wf :: "owl_model \<Rightarrow> owl_reader \<Rightarrow> bool" where
  "owl_reader_wf m s \<longleftrightarrow>
     (\<forall>n. os_current_class s = Some n \<longrightarrow> om_contains (ow_classes m) n) \<and>
     (\<forall>n. os_one_of_owner s = Some n \<longrightarrow> om_contains (ow_classes m) n) \<and>
     (\<forall>n. os_current_property s = Some n \<longrightarrow> om_contains (ow_properties m) n)"

definition owl_wf :: "owl_model \<times> owl_reader \<Rightarrow> bool" where
  "owl_wf ms \<longleftrightarrow> owl_model_wf (fst ms) \<and> owl_reader_wf (fst ms) (snd ms)"

lemmas owl_wf_defs = owl_wf_def owl_model_wf_def owl_reader_wf_def owl_classes_wf_def owl_properties_wf_def
  owl_enumerations_wf_def

text \<open>The changes a handler makes to the entry of a class or of a property.\<close>

lemma change_class:
  assumes wf: "owl_wf (m, s)" and d: "d = owl_class_named n \<or> om_contains (ow_classes m) n"
    and f: "\<And>c. oc_name (f c) = oc_name c" "\<And>c. distinct (oc_parents c) \<Longrightarrow> distinct (oc_parents (f c))"
      "\<And>c. oc_is_enumeration (f c) = oc_is_enumeration c"
    and fresh: "\<not> om_contains (ow_enumerations m) n \<or> om_contains (ow_classes m) n"
  shows "owl_wf (m\<lparr>ow_classes := om_entry n d f (ow_classes m)\<rparr>, s)"
proof -
  have "\<And>k c. om_get (om_entry n d f (ow_classes m)) k = Some c \<Longrightarrow>
      oc_name c = k \<and> distinct (oc_parents c) \<and> (oc_is_enumeration c \<longleftrightarrow> om_contains (ow_enumerations m) k)"
    using wf d fresh f
    by (auto simp: owl_wf_defs om_get_entry om_get_contains owl_class_named_def split: if_splits option.splits)
  with wf show ?thesis by (auto simp: owl_wf_defs om_wf_entry)
qed

lemma enumeration_fresh: "owl_wf (m, s) \<Longrightarrow> \<not> om_contains (ow_enumerations m) n \<or> om_contains (ow_classes m) n"
  by (cases "om_get (ow_enumerations m) n") (auto simp: owl_wf_defs om_get_contains [of "ow_enumerations m"])

lemma change_property:
  assumes wf: "owl_wf (m, s)" and d: "d = owl_property_named n k \<or> om_contains (ow_properties m) n"
    and f: "\<And>p. op_name (f p) = op_name p" "\<And>p. distinct (op_parents p) \<Longrightarrow> distinct (op_parents (f p))"
  shows "owl_wf (m\<lparr>ow_properties := om_entry n d f (ow_properties m)\<rparr>, s)"
proof -
  have "\<And>q p. om_get (om_entry n d f (ow_properties m)) q = Some p \<Longrightarrow> op_name p = q \<and> distinct (op_parents p)"
    using wf d f
    by (auto simp: owl_wf_defs om_get_entry om_get_contains owl_property_named_def split: if_splits option.splits)
  with wf show ?thesis by (auto simp: owl_wf_defs om_wf_entry)
qed

lemma change_known_property:
  assumes wf: "owl_wf (m, s)"
    and f: "\<And>p. op_name (f p) = op_name p" "\<And>p. distinct (op_parents p) \<Longrightarrow> distinct (op_parents (f p))"
  shows "owl_wf (m\<lparr>ow_properties := om_modify n f (ow_properties m)\<rparr>, s)"
  using wf f by (auto simp: owl_wf_defs om_get_modify om.wf_modify split: if_splits)

section \<open>Every step keeps it\<close>

lemma see_class_wf: "owl_wf ms \<Longrightarrow> owl_wf (see_class start attrs ms)"
proof (cases ms, cases "class_ref attrs")
  fix m s n assume ms: "owl_wf ms" "ms = (m, s)" "class_ref attrs = Some n"
  then have "owl_wf (m\<lparr>ow_classes := om_entry n (owl_class_named n) (\<lambda>c. c) (ow_classes m)\<rparr>, s)"
    by (intro change_class enumeration_fresh) auto
  with ms show ?thesis
    by (auto simp: see_class_def owl_wf_def owl_reader_wf_def)
qed (auto simp: see_class_def)

lemma see_property_wf: "owl_wf ms \<Longrightarrow> owl_wf (see_property tag attrs ms)"
  by (cases ms; cases "class_ref attrs")
    (auto simp: see_property_def Let_def owl_wf_defs om_get_insert om_insert_wf owl_property_named_def split: if_splits)

lemma see_sub_property_wf: "owl_wf ms \<Longrightarrow> owl_wf (see_sub_property attrs ms)"
  by (cases ms; cases "os_current_property (snd ms)"; cases "resource_ref attrs")
    (auto simp: see_sub_property_def intro!: change_property)

lemma see_inverse_wf: "owl_wf ms \<Longrightarrow> owl_wf (see_inverse attrs ms)"
  by (cases ms; cases "os_current_property (snd ms)"; cases "resource_ref attrs")
    (auto simp: see_inverse_def intro!: change_property)

lemma see_domain_wf: "owl_wf ms \<Longrightarrow> owl_wf (see_domain attrs ms)"
  by (cases ms; cases "os_current_property (snd ms)"; cases "resource_ref attrs")
    (auto simp: see_domain_def intro!: change_known_property, auto simp: owl_wf_def owl_reader_wf_def)

lemma see_range_wf: "owl_wf ms \<Longrightarrow> owl_wf (see_range attrs ms)"
  by (cases ms; cases "os_current_property (snd ms)"; cases "resource_ref attrs")
    (auto simp: see_range_def intro!: change_known_property, auto simp: owl_wf_def owl_reader_wf_def)

lemma see_sub_class_wf: "owl_wf ms \<Longrightarrow> owl_wf (see_sub_class attrs ms)"
  by (cases ms; cases "os_current_class (snd ms)"; cases "resource_ref attrs")
    (auto simp: see_sub_class_def add_parent_def intro!: change_class dest: enumeration_fresh split: if_splits)

lemma close_one_of_wf: "owl_wf ms \<Longrightarrow> owl_wf (close_one_of ms)"
  by (cases ms; cases "os_one_of_owner (snd ms)")
    (auto simp: close_one_of_def owl_wf_defs om_get_insert om_insert_wf om_get_modify om.wf_modify split: if_splits)

lemma close_property_wf: "owl_wf ms \<Longrightarrow> owl_wf (close_property ms)"
proof -
  assume wf: "owl_wf ms"
  obtain m s where ms: "ms = (m, s)" by (cases ms)
  have "owl_wf (m\<lparr>ow_properties := om_modify n (\<lambda>p. p\<lparr>op_domain := d, op_range := r\<rparr>) (ow_properties m)\<rparr>, s)" for n d r
    using wf ms by (intro change_known_property) auto
  with wf ms show ?thesis
    by (auto simp: close_property_def Let_def owl_wf_def owl_reader_wf_def split: option.splits)
qed

lemma handle_text_wf: "owl_wf ms \<Longrightarrow> owl_wf (handle_text t ms)"
proof -
  assume wf: "owl_wf ms"
  obtain m s where ms: "ms = (m, s)" by (cases ms)
  have "owl_wf (m\<lparr>ow_classes := om_entry n (owl_class_named ''unknown'') (\<lambda>k. k\<lparr>oc_label := Some t\<rparr>) (ow_classes m)\<rparr>, s)"
    if "os_current_class s = Some n" for n
    using wf ms that by (intro change_class) (auto simp: owl_wf_defs)
  moreover have "owl_wf (m\<lparr>ow_properties := om_entry n (owl_property_named ''unknown'' OpObject)
      (\<lambda>k. k\<lparr>op_label := Some t\<rparr>) (ow_properties m)\<rparr>, s)" if "os_current_property s = Some n" for n
    using wf ms that by (intro change_property) (auto simp: owl_wf_defs)
  ultimately show ?thesis using wf ms by (simp add: handle_text_def split: option.splits)
qed

text \<open>Steps that only move the reader.\<close>

lemma reader_frame:
  assumes "owl_wf (m, s)"
  shows "owl_wf (m, s\<lparr>os_in_label := b\<rparr>)" "owl_wf (m, s\<lparr>os_current_class := None\<rparr>)"
    "owl_wf (m, s\<lparr>os_in_one_of := True, os_one_of_values := [], os_one_of_owner := os_current_class s\<rparr>)"
  using assms by (simp_all add: owl_wf_def owl_reader_wf_def)

lemma handle_end_wf: "owl_wf ms \<Longrightarrow> owl_wf (handle_end name ms)"
  by (cases ms) (simp add: handle_end_def Let_def close_one_of_wf close_property_wf reader_frame)

lemma handle_start_wf: "owl_wf ms \<Longrightarrow> owl_wf (handle_start name attrs ms)"
  by (cases ms) (simp add: handle_start_def Let_def see_class_wf see_property_wf see_sub_property_wf see_inverse_wf
    see_domain_wf see_range_wf see_sub_class_wf reader_frame)

lemma handle_empty_wf: "owl_wf ms \<Longrightarrow> owl_wf (handle_empty name attrs ms)"
  by (simp add: handle_empty_def see_class_wf see_property_wf see_sub_property_wf see_inverse_wf see_domain_wf
    see_range_wf see_sub_class_wf)

lemma owl_step_wf: "owl_wf ms \<Longrightarrow> owl_wf (owl_step ev ms)"
  by (cases ev) (simp_all add: handle_start_wf handle_empty_wf handle_end_wf handle_text_wf)

lemma owl_read_wf: "owl_read evs ms = Ok m \<Longrightarrow> owl_wf ms \<Longrightarrow> owl_model_wf m"
proof (induction evs ms rule: owl_read.induct)
  case (1 ms)
  then show ?case by (simp add: owl_wf_def)
next
  case (3 ev es ms)
  then show ?case by (simp add: owl_step_wf)
qed simp

lemma owl_parse_wf: "owl_parse_xml events text = Ok m \<Longrightarrow> owl_model_wf m"
proof -
  have "owl_wf (owl_model_default, owl_reader_new)"
    by (simp add: owl_wf_defs owl_model_default_def owl_reader_new_def om_wf_def om_keys_def om_get_def)
  then show "owl_parse_xml events text = Ok m \<Longrightarrow> owl_model_wf m"
    unfolding owl_parse_xml_def using owl_read_wf by blast
qed

section \<open>What a parsed ontology satisfies\<close>

text \<open>
  C36: in a parsed ontology the maps are ordered and entries carry their own name, enumerations are marked on their
  classes, and the two walks of the class hierarchy answer, without duplicates and whatever cycles it has, exactly
  the classes that are transitively below the root, and exactly the classes transitively above a class.
\<close>

theorem owl_hierarchy_exact:
  assumes "owl_parse_xml events text = Ok m"
  shows "owl_model_wf m \<and>
    set (owl_descendants_of m root) = {n. (n, root) \<in> (is_a m)\<^sup>+} \<and> os_wf (owl_descendants_of m root) \<and>
    set (owl_ancestors_of m c) = {a. (c, a) \<in> (is_a m)\<^sup>+} - {c} \<and> distinct (owl_ancestors_of m c)"
proof -
  have wf: "owl_model_wf m" by (rule owl_parse_wf [OF assms])
  then have "om_wf (ow_classes m)" by (simp add: owl_model_wf_def)
  moreover have "os_wf (owl_descendants_of m root)"
    unfolding owl_descendants_of_def by (rule descend_wf) (simp add: os_wf_def)
  ultimately show ?thesis using wf by (simp add: owl_descendants_exact owl_ancestors_exact)
qed

text \<open>Two classes above each other: an ontology with a cycle.\<close>

definition cyclic_document :: "string \<Rightarrow> (string + px_event) list" where
  "cyclic_document _ = map Ok
     [PxStart ''owl:Class'' [(''rdf:ID'', ''ACTION'')],
      PxEmpty ''rdfs:subClassOf'' [(''rdf:resource'', ''#EVENT'')], PxEnd ''owl:Class'',
      PxStart ''owl:Class'' [(''rdf:about'', ''http://example.org/ont#EVENT'')],
      PxEmpty ''rdfs:subClassOf'' [(''rdf:resource'', ''#ACTION'')],
      PxStart ''rdfs:label'' [], PxText ''Event'', PxEnd ''rdfs:label'', PxEnd ''owl:Class'']"

definition cyclic_model :: owl_model where
  "cyclic_model =
     \<lparr>ow_classes =
        [(''ACTION'', \<lparr>oc_name = ''ACTION'', oc_label = None, oc_parents = [''EVENT''], oc_is_enumeration = False\<rparr>),
         (''EVENT'', \<lparr>oc_name = ''EVENT'', oc_label = Some ''Event'', oc_parents = [''ACTION''], oc_is_enumeration = False\<rparr>)],
      ow_properties = [], ow_enumerations = []\<rparr>"

lemma cyclic_parse: "owl_parse_xml cyclic_document [] = Ok cyclic_model"
  by code_simp

lemma owl_hierarchy_exact_witness:
  "(''ACTION'', ''ACTION'') \<in> (is_a cyclic_model)\<^sup>+ \<and> (''EVENT'', ''ACTION'') \<in> (is_a cyclic_model)\<^sup>+"
proof -
  have "set (owl_descendants_of cyclic_model ''ACTION'') = {n. (n, ''ACTION'') \<in> (is_a cyclic_model)\<^sup>+}"
    using owl_hierarchy_exact [OF cyclic_parse] by blast
  moreover have "owl_descendants_of cyclic_model ''ACTION'' = [''ACTION'', ''EVENT'']" by code_simp
  ultimately show ?thesis by auto
qed

text \<open>A later reference to a property, as an empty element, replaces its declaration.\<close>

lemma property_reference_erases:
  assumes "class_ref attrs = Some n" "os_pending_domain s = None" "os_pending_range s = None"
  shows "om_get (ow_properties (fst (owl_step (PxEmpty ''owl:ObjectProperty'' attrs) (m, s)))) n =
    Some (owl_property_named n OpObject)"
proof -
  have "qname_local ''owl:ObjectProperty'' = ''ObjectProperty''"
    using qname_local_prefixed [of "''owl''" "''ObjectProperty''"] by simp
  with assms show ?thesis
    by (simp add: handle_empty_def see_property_def om_get_insert owl_property_named_def)
qed

text \<open>A domain seen outside a property is kept for the next property, whichever that is.\<close>

lemma pending_domain_moves_on:
  assumes "os_current_property s = None" "resource_ref attrs = Some d" "class_ref attrs' = Some n"
  shows "map_option op_domain (om_get (ow_properties (fst (see_property tag attrs' (see_domain attrs (m, s))))) n) =
    Some (Some d)"
  using assms by (simp add: see_domain_def see_property_def om_get_insert Let_def)

end
