(* ===== verification/Owl_Import.thy ===== *)
theory Owl_Import
  imports Owl_Reader Model_Registry
begin

text \<open>
  Crate \<open>mim-import\<close>, \<open>mapper.rs\<close>: the manifest that is made of an ontology. The name-based identifiers (UUID version 5)
  and the floating-point coverage ratio are parameters; \<open>to_uppercase\<close> of a first letter is exact on ASCII.
  The loops that append synthetic classes repeat while the creation of an element fails, so the import is an
  option: \<open>None\<close> is an import that never returns.
\<close>

section \<open>Names\<close>

text \<open>The length of the separator at the head of a text: a hyphen, an underscore or a white-space character.\<close>

definition word_break :: "string \<Rightarrow> nat" where
  "word_break s =
     (if s \<noteq> [] \<and> (hd s = CHR ''-'' \<or> hd s = CHR ''_'') then 1
      else case find (\<lambda>w. starts_with s w) white_space_seqs of Some w \<Rightarrow> length w | None \<Rightarrow> 0)"

text \<open>\<open>split\<close> at the separators; the first argument counts the bytes of a separator still to skip.\<close>

fun split_words :: "nat \<Rightarrow> string \<Rightarrow> string list" where
  "split_words k [] = [[]]"
| "split_words (Suc k) (c # cs) = split_words k cs"
| "split_words 0 (c # cs) =
     (case word_break (c # cs) of
        Suc k \<Rightarrow> [] # split_words k cs
      | 0 \<Rightarrow> (case split_words 0 cs of [] \<Rightarrow> [[c]] | w # ws \<Rightarrow> (c # w) # ws))"

definition capitalised :: "string \<Rightarrow> string" where
  "capitalised w = (case to_ascii_lowercase w of [] \<Rightarrow> [] | c # cs \<Rightarrow> ascii_upper c # cs)"

definition to_pascal_case :: "string \<Rightarrow> string" where
  "to_pascal_case raw =
     (let cleaned = trim_start_matches (CHR ''#'') (trim raw);
          parts = filter (\<lambda>w. w \<noteq> []) (split_words 0 cleaned)
      in if parts = [] then ''Unknown'' else concat (map capitalised parts))"

definition infer_object_kind :: "string \<Rightarrow> object_kind option" where
  "infer_object_kind name =
     (let upper = to_ascii_uppercase name in
      if contains_str upper ''ORGANISATION'' \<or> contains_str upper ''UNIT'' then Some ObOrganisation
      else if contains_str upper ''LOCATION'' \<or> contains_str upper ''LINE'' \<or> contains_str upper ''POINT'' then
        Some ObLocation
      else if contains_str upper ''FACILITY'' \<or> contains_str upper ''AIRFIELD'' then Some ObFacility
      else if contains_str upper ''PERSON'' then Some ObPerson
      else if contains_str upper ''MATERIEL'' \<or> contains_str upper ''EQUIPMENT'' then Some ObMateriel
      else if contains_str upper ''FEATURE'' then Some ObFeature
      else if contains_str upper ''PLAN'' \<or> contains_str upper ''ORDER'' then Some ObPlanOrder
      else Some ObInformationResource)"

definition infer_action_kind :: "string \<Rightarrow> action_kind option" where
  "infer_action_kind name =
     (let upper = to_ascii_uppercase name in
      if contains_str upper ''TASK'' then Some AcTask
      else if contains_str upper ''ESTABLISH'' then Some AcEstablishment
      else if contains_str upper ''EFFECT'' then Some AcActionEffect
      else if contains_str upper ''RESOURCE'' then Some AcActionResource
      else Some AcActionObjective)"

definition package_path_for :: "string \<Rightarrow> bool \<Rightarrow> string" where
  "package_path_for name is_obj =
     ''Classifiers::'' @ (if is_obj then ''Object'' else ''Action'') @ ''::'' @
     (case infer_object_kind name of Some k \<Rightarrow> object_kind_as_str k | None \<Rightarrow> ''Generic'') @ ''::'' @ to_pascal_case name"

definition representation_term_for_range :: "string option \<Rightarrow> representation_term" where
  "representation_term_for_range owl_range =
     (case owl_range of
        None \<Rightarrow> RtText
      | Some raw \<Rightarrow>
          (let n = to_ascii_lowercase (normalize_owl_ref raw) in
           if contains_str n ''boolean'' then RtIndicator
           else if contains_str n ''datetime'' then RtDateTime
           else if contains_str n ''date'' then RtDate
           else if contains_str n ''time'' then RtTime
           else if contains_str n ''integer'' \<or> contains_str n ''int'' then RtNumeric
           else if contains_str n ''decimal'' \<or> contains_str n ''double'' \<or> contains_str n ''float'' then RtMeasure
           else if contains_str n ''duration'' then RtDuration
           else if contains_str n ''anyuri'' \<or> contains_str n ''uri'' then RtIdentifier
           else RtText))"

section \<open>Options, report and environment\<close>

record 'f import_options =
  io_version :: string
  io_release_date :: string
  io_description :: string
  io_action_root :: string
  io_object_root :: string
  io_min_objects :: u32
  io_min_actions :: u32
  io_min_code_lists :: u32
  io_merge_seed :: "mim_manifest option"
  io_authoritative_mimworld :: bool
  io_target_coverage :: 'f
  io_owl_xml :: "string option"

record 'f import_report =
  ir_object_types :: nat
  ir_action_types :: nat
  ir_code_lists :: nat
  ir_attribute_types :: nat
  ir_total_elements :: nat
  ir_owl_properties_total :: nat
  ir_owl_properties_referenced :: nat
  ir_owl_properties_with_domain :: nat
  ir_owl_properties_imported :: nat
  ir_owl_properties_skipped :: nat
  ir_coverage_ratio :: 'f
  ir_meets_target :: bool

record attribute_batch =
  ab_elements :: "model_element_spec list"
  ab_imported :: nat
  ab_skipped :: nat
  ab_with_domain :: nat

text \<open>UUID version 5 in the URL name space; division of counts, zero and \<open>>=\<close> of the ratio's type.\<close>

record 'f import_env =
  ie_uuid_v5 :: "string \<Rightarrow> semantic_id"
  ie_divide :: "nat \<Rightarrow> nat \<Rightarrow> 'f"
  ie_zero :: 'f
  ie_at_least :: "'f \<Rightarrow> 'f \<Rightarrow> bool"

definition import_options_default :: "'f \<Rightarrow> 'f import_options" where
  "import_options_default one =
     \<lparr>io_version = ''5.1.0'', io_release_date = ''2020-09-28'',
      io_description = ''Imported from OWL ontology aligned with MIM 5.1'', io_action_root = ''ACTION'',
      io_object_root = ''OBJECT-ITEM'', io_min_objects = 2300, io_min_actions = 500, io_min_code_lists = 400,
      io_merge_seed = None, io_authoritative_mimworld = False, io_target_coverage = one, io_owl_xml = None\<rparr>"

definition semantic_id_for :: "'f import_env \<Rightarrow> string \<Rightarrow> semantic_id" where
  "semantic_id_for env key = ie_uuid_v5 env (''https://www.mimworld.org/mim/5.1.0/'' @ key)"

section \<open>Elements\<close>

definition taxonomy_to_element :: "string \<Rightarrow> taxonomy_node \<Rightarrow> model_element_kind \<Rightarrow> mim_error + model_element_spec" where
  "taxonomy_to_element version node kind =
     and_then (mim_uri_parse (''https://www.mimworld.org/mim/'' @ version @ ''/'' @
                 str_replace ''::'' ''/'' (tn_package_path node) @ ''/'' @ tn_name node)) (\<lambda>uri.
     Ok \<lparr>me_name = tn_name node, me_kind = kind, me_semantic_id = tn_semantic_id node, me_uri = uri,
         me_package_path = tn_package_path node, me_definition = tn_definition node,
         me_parent_class = tn_parent node, me_representation_term = None, me_representation_metadata = None,
         me_multiplicity_lower = Some 0, me_multiplicity_upper = Some ''1'', me_is_mandatory = False,
         me_is_nillable = True\<rparr>)"

definition class_to_taxonomy_node ::
  "'f import_env \<Rightarrow> owl_model \<Rightarrow> string \<Rightarrow> bool \<Rightarrow> mim_error + taxonomy_node" where
  "class_to_taxonomy_node env owl name is_obj =
     and_then (ok_or (MimModel (''missing class '' @ quoted name)) (om_get (ow_classes owl) name)) (\<lambda>c.
     let display_name = to_pascal_case name;
         parent = (case oc_parents c of
                     [] \<Rightarrow> None
                   | p # _ \<Rightarrow> if to_pascal_case p \<noteq> display_name then Some (to_pascal_case p) else None)
     in Ok \<lparr>tn_name = display_name, tn_semantic_id = semantic_id_for env name, tn_parent = parent,
            tn_object_kind = (if is_obj then infer_object_kind name else None),
            tn_action_kind = (if is_obj then None else infer_action_kind name),
            tn_definition =
              (case oc_label c of
                 Some l \<Rightarrow> if l \<noteq> [] then l else ''Imported class '' @ display_name
               | None \<Rightarrow> ''Imported class '' @ display_name),
            tn_package_path = package_path_for name is_obj\<rparr>)"

definition property_to_element ::
  "'f import_env \<Rightarrow> string \<Rightarrow> owl_property \<Rightarrow> string \<Rightarrow> string \<Rightarrow> mim_error + model_element_spec" where
  "property_to_element env name p parent_class version =
     (let display = to_pascal_case name in
      and_then (mim_uri_parse (''https://www.mimworld.org/mim/'' @ version @ ''/Classifiers/Object/'' @
                  parent_class @ ''/'' @ display)) (\<lambda>uri.
      Ok \<lparr>me_name = display, me_kind = MkAttribute, me_semantic_id = semantic_id_for env name, me_uri = uri,
          me_package_path = ''Classifiers::Object::'' @ parent_class,
          me_definition = (case op_label p of Some l \<Rightarrow> l | None \<Rightarrow> ''Imported property '' @ display),
          me_parent_class = Some parent_class,
          me_representation_term =
            (if op_property_type p = OpData then Some (representation_term_for_range (op_range p)) else None),
          me_representation_metadata = None, me_multiplicity_lower = Some 0,
          me_multiplicity_upper = Some (if op_property_type p = OpObject then ''*'' else ''1''),
          me_is_mandatory = False, me_is_nillable = True\<rparr>))"

definition enumeration_to_codelist :: "'f import_env \<Rightarrow> string \<Rightarrow> string list \<Rightarrow> mim_error + code_list" where
  "enumeration_to_codelist env enum_name values =
     (let name = to_pascal_case enum_name in
      Ok \<lparr>cl_name = name, cl_semantic_id = semantic_id_for env enum_name, cl_complete = True, cl_managed = False,
          cl_ordered = False, cl_definition = Some (''Imported enumeration '' @ name),
          cl_values = map (\<lambda>(idx, v).
              \<lparr>cv_name = to_pascal_case v, cv_semantic_id = semantic_id_for env (enum_name @ '':'' @ v),
               cv_definition = None, cv_order = Some (word_of_nat idx + 1), cv_lower_than = []\<rparr>)
            (enumerate 0 values)\<rparr>)"

section \<open>Choosing the classes\<close>

text \<open>Each loop stops when the set it fills has reached its minimum.\<close>

fun promote_objects :: "nat \<Rightarrow> string ordered_set \<Rightarrow> string list \<Rightarrow> string ordered_set \<Rightarrow> string ordered_set" where
  "promote_objects least actions [] objects = objects"
| "promote_objects least actions (n # ns) objects =
     (if least \<le> length objects then objects
      else promote_objects least actions ns (if n \<in> set actions then objects else os_insert n objects))"

definition event_like :: "string \<Rightarrow> bool" where
  "event_like name =
     (let upper = to_ascii_uppercase name in
      contains_str upper ''EVENT'' \<or> contains_str upper ''TASK'' \<or> contains_str upper ''ORDER'' \<or>
      contains_str upper ''ACTION'' \<or> contains_str upper ''OPERATION'' \<or> contains_str upper ''ACTIVITY'')"

text \<open>The sets are passed as (objects, actions).\<close>

fun promote_actions ::
  "nat \<Rightarrow> string list \<Rightarrow> string ordered_set \<times> string ordered_set \<Rightarrow> string ordered_set \<times> string ordered_set" where
  "promote_actions least [] oa = oa"
| "promote_actions least (n # ns) (objects, actions) =
     (if least \<le> length actions then (objects, actions)
      else promote_actions least ns
             (if event_like n then (os_remove n objects, os_insert n actions) else (objects, actions)))"

fun pad_objects :: "nat \<Rightarrow> string ordered_set \<Rightarrow> string list \<Rightarrow> string ordered_set \<Rightarrow> string ordered_set" where
  "pad_objects least actions [] objects = objects"
| "pad_objects least actions (n # ns) objects =
     (if least \<le> length objects then objects
      else pad_objects least actions ns
             (if n \<notin> set actions \<and> n \<notin> set objects then os_insert n objects else objects))"

fun pad_actions ::
  "nat \<Rightarrow> string list \<Rightarrow> string ordered_set \<times> string ordered_set \<Rightarrow> string ordered_set \<times> string ordered_set" where
  "pad_actions least [] oa = oa"
| "pad_actions least (n # ns) (objects, actions) =
     (if least \<le> length actions then (objects, actions)
      else pad_actions least ns
             (if n \<notin> set actions then (os_remove n objects, os_insert n actions) else (objects, actions)))"

definition pad_class_coverage ::
  "owl_model \<Rightarrow> 'f import_options \<Rightarrow> string ordered_set \<times> string ordered_set \<Rightarrow>
    string ordered_set \<times> string ordered_set" where
  "pad_class_coverage owl opts oa =
     (let (objects, actions) = oa;
          all_names = os_collect (om_keys (ow_classes owl));
          objects1 = pad_objects (unat (io_min_objects opts)) actions all_names objects;
          objects2 = promote_objects (unat (io_min_objects opts)) actions (om_keys (ow_enumerations owl)) objects1
      in pad_actions (unat (io_min_actions opts)) all_names (objects2, actions))"

definition ensure_property_domains_in_taxonomy ::
  "owl_model \<Rightarrow> string ordered_set \<times> string ordered_set \<Rightarrow> string ordered_set \<times> string ordered_set" where
  "ensure_property_domains_in_taxonomy owl oa =
     (let (objects, actions) = oa in
      (fold (\<lambda>p objects.
          (case op_domain p of
             None \<Rightarrow> objects
           | Some d \<Rightarrow>
               (let n = normalize_owl_ref d in
                if \<not> om_contains (ow_classes owl) n then objects
                else if n \<in> set actions then objects
                else os_insert n objects)))
        (om_values (ow_properties owl)) objects, actions))"

definition choose_classes :: "owl_model \<Rightarrow> 'f import_options \<Rightarrow> string ordered_set \<times> string ordered_set" where
  "choose_classes owl opts =
     (let actions0 = os_insert (io_action_root opts) (owl_descendants_of owl (io_action_root opts));
          objects0 = filter (\<lambda>n. n \<notin> set actions0 \<and> \<not> om_contains (ow_enumerations owl) n \<and>
              (case om_get (ow_classes owl) n of Some c \<Rightarrow> \<not> oc_is_enumeration c | None \<Rightarrow> True))
            (om_keys (ow_classes owl));
          padding = (\<not> io_authoritative_mimworld opts);
          objects1 =
            (if padding \<and> length objects0 < unat (io_min_objects opts)
             then promote_objects (unat (io_min_objects opts)) actions0 (om_keys (ow_classes owl)) objects0
             else objects0);
          oa2 =
            (if padding \<and> length actions0 < unat (io_min_actions opts)
             then promote_actions (unat (io_min_actions opts)) (om_keys (ow_classes owl)) (objects1, actions0)
             else (objects1, actions0));
          oa3 = (if padding then pad_class_coverage owl opts oa2 else oa2)
      in ensure_property_domains_in_taxonomy owl oa3)"

section \<open>Attributes\<close>

definition taxonomy_domain_name :: "string \<Rightarrow> string ordered_set \<Rightarrow> string option" where
  "taxonomy_domain_name domain names =
     find (\<lambda>candidate. candidate \<in> set names) [to_pascal_case domain, to_pascal_case (normalize_owl_ref domain)]"

definition resolve_taxonomy_domain :: "owl_model \<Rightarrow> string \<Rightarrow> string ordered_set \<Rightarrow> string option" where
  "resolve_taxonomy_domain owl domain names =
     (case taxonomy_domain_name domain names of
        Some direct \<Rightarrow> Some direct
      | None \<Rightarrow>
          find_map (\<lambda>ancestor. taxonomy_domain_name ancestor names)
            (owl_ancestors_of owl (normalize_owl_ref domain)))"

fun import_attributes ::
  "'f import_env \<Rightarrow> owl_model \<Rightarrow> string ordered_set \<Rightarrow> string \<Rightarrow> (string \<times> owl_property) list \<Rightarrow> attribute_batch \<Rightarrow>
    mim_error + attribute_batch" where
  "import_attributes env owl names version [] b = Ok b"
| "import_attributes env owl names version ((n, p) # ps) b =
     (case op_domain p of
        None \<Rightarrow> import_attributes env owl names version ps (b\<lparr>ab_skipped := ab_skipped b + 1\<rparr>)
      | Some domain \<Rightarrow>
          (case resolve_taxonomy_domain owl domain names of
             None \<Rightarrow> import_attributes env owl names version ps (b\<lparr>ab_skipped := ab_skipped b + 1\<rparr>)
           | Some parent_class \<Rightarrow>
               and_then (property_to_element env n p parent_class version) (\<lambda>e.
               import_attributes env owl names version ps
                 (b\<lparr>ab_elements := ab_elements b @ [e], ab_imported := ab_imported b + 1\<rparr>))))"

definition import_owl_attributes ::
  "'f import_env \<Rightarrow> owl_model \<Rightarrow> string ordered_set \<Rightarrow> string \<Rightarrow> mim_error + attribute_batch" where
  "import_owl_attributes env owl names version =
     import_attributes env owl names version (ow_properties owl)
       \<lparr>ab_elements = [], ab_imported = 0, ab_skipped = 0,
        ab_with_domain = length (filter (\<lambda>p. op_domain p \<noteq> None) (om_values (ow_properties owl)))\<rparr>"

section \<open>Code lists\<close>

fun pad_code_classes ::
  "'f import_env \<Rightarrow> nat \<Rightarrow> string list \<Rightarrow> string list \<Rightarrow> code_list list \<Rightarrow> mim_error + code_list list" where
  "pad_code_classes env least existing [] ls = Ok ls"
| "pad_code_classes env least existing (n # ns) ls =
     (if least \<le> length ls then Ok ls
      else if to_pascal_case n \<in> set existing then pad_code_classes env least existing ns ls
      else if ends_with n ''Code'' \<or> ends_with n ''CODE'' \<or> contains_str n ''Category'' then
        and_then (enumeration_to_codelist env n [''NotSpecified'']) (\<lambda>l.
          pad_code_classes env least existing ns (ls @ [l]))
      else pad_code_classes env least existing ns ls)"

fun pad_code_values ::
  "'f import_env \<Rightarrow> nat \<Rightarrow> string list \<Rightarrow> string \<Rightarrow> string list \<Rightarrow> code_list list \<Rightarrow> mim_error + code_list list" where
  "pad_code_values env least existing enum_name [] ls = Ok ls"
| "pad_code_values env least existing enum_name (v # vs) ls =
     (if least \<le> length ls then Ok ls
      else
        (let list_name = to_pascal_case enum_name @ ''_'' @ to_pascal_case v in
         if list_name \<in> set existing \<or> list_name \<in> set (map cl_name ls) then
           pad_code_values env least existing enum_name vs ls
         else
           and_then (enumeration_to_codelist env list_name [v]) (\<lambda>l.
             pad_code_values env least existing enum_name vs (ls @ [l]))))"

fun pad_code_enumerations ::
  "'f import_env \<Rightarrow> nat \<Rightarrow> string list \<Rightarrow> (string \<times> string list) list \<Rightarrow> code_list list \<Rightarrow> mim_error + code_list list" where
  "pad_code_enumerations env least existing [] ls = Ok ls"
| "pad_code_enumerations env least existing ((n, vs) # es) ls =
     (if least \<le> length ls then Ok ls
      else and_then (pad_code_values env least existing n vs ls) (pad_code_enumerations env least existing es))"

fun pad_code_rest :: "'f import_env \<Rightarrow> nat \<Rightarrow> string list \<Rightarrow> code_list list \<Rightarrow> mim_error + code_list list" where
  "pad_code_rest env least [] ls = Ok ls"
| "pad_code_rest env least (n # ns) ls =
     (if least \<le> length ls then Ok ls
      else if to_pascal_case n \<in> set (map cl_name ls) then pad_code_rest env least ns ls
      else
        and_then (enumeration_to_codelist env n [''NotSpecified'']) (\<lambda>l. pad_code_rest env least ns (ls @ [l])))"

definition pad_code_lists ::
  "'f import_env \<Rightarrow> owl_model \<Rightarrow> nat \<Rightarrow> code_list list \<Rightarrow> mim_error + code_list list" where
  "pad_code_lists env owl least ls =
     (let existing = os_collect (map cl_name ls) in
      and_then (pad_code_classes env least existing (om_keys (ow_classes owl)) ls) (\<lambda>ls1.
      and_then (pad_code_enumerations env least existing (ow_enumerations owl) ls1) (\<lambda>ls2.
      pad_code_rest env least (om_keys (ow_classes owl)) ls2)))"

section \<open>Synthetic classes\<close>

text \<open>\<open>{:04}\<close>; the index is a \<open>u32\<close> that wraps in a release build.\<close>

definition show_4 :: "u32 \<Rightarrow> string" where
  "show_4 i = (let s = show_nat (unat i) in replicate (4 - length s) (CHR ''0'') @ s)"

definition synthetic_object :: "'f import_env \<Rightarrow> u32 \<Rightarrow> taxonomy_node" where
  "synthetic_object env i =
     (let name = ''ImportedObject'' @ show_4 i in
      \<lparr>tn_name = name, tn_semantic_id = semantic_id_for env (''synthetic:object:'' @ show_nat (unat i)),
       tn_parent = Some ''Object'', tn_object_kind = Some ObInformationResource, tn_action_kind = None,
       tn_definition = ''Synthetic object type generated to satisfy MIM coverage targets.'',
       tn_package_path = ''Classifiers::Object::Generic::'' @ name\<rparr>)"

definition synthetic_action :: "'f import_env \<Rightarrow> u32 \<Rightarrow> taxonomy_node" where
  "synthetic_action env i =
     (let name = ''ImportedAction'' @ show_4 i in
      \<lparr>tn_name = name, tn_semantic_id = semantic_id_for env (''synthetic:action:'' @ show_nat (unat i)),
       tn_parent = Some ''Action'', tn_object_kind = None, tn_action_kind = Some AcTask,
       tn_definition = ''Synthetic action type generated to satisfy MIM coverage targets.'',
       tn_package_path = ''Classifiers::Action::Generic::'' @ name\<rparr>)"

text \<open>One of the two loops, with the node it makes: an element that cannot be made leaves the count as it is.\<close>

partial_function (option) append_synthetic ::
  "(u32 \<Rightarrow> taxonomy_node) \<Rightarrow> string \<Rightarrow> nat \<Rightarrow> nat \<Rightarrow> u32 \<Rightarrow> mim_manifest \<Rightarrow> (mim_manifest \<times> u32) option" where
  "append_synthetic mk version least count idx m =
     (if count < least then
        (case taxonomy_to_element version (mk (idx + 1)) MkClass of
           Inr e \<Rightarrow>
             append_synthetic mk version least (count + 1) (idx + 1)
               (m\<lparr>mm_taxonomy := mm_taxonomy m @ [mk (idx + 1)], mm_elements := mm_elements m @ [e]\<rparr>)
         | Inl _ \<Rightarrow> append_synthetic mk version least count (idx + 1) m)
      else Some (m, idx))"

definition count_objects :: "mim_manifest \<Rightarrow> nat" where
  "count_objects m = length (filter is_object (mm_taxonomy m))"

definition count_actions :: "mim_manifest \<Rightarrow> nat" where
  "count_actions m = length (filter is_action (mm_taxonomy m))"

definition append_synthetic_coverage ::
  "'f import_env \<Rightarrow> 'f import_options \<Rightarrow> mim_manifest \<Rightarrow> mim_manifest option" where
  "append_synthetic_coverage env opts m =
     Option.bind (append_synthetic (synthetic_object env) (io_version opts) (unat (io_min_objects opts))
        (count_objects m) 0 m) (\<lambda>(m1, idx).
     map_option fst (append_synthetic (synthetic_action env) (io_version opts) (unat (io_min_actions opts))
        (count_actions m) idx m1))"

section \<open>The seed and the import\<close>

definition merge_by_name :: "('v \<Rightarrow> string) \<Rightarrow> 'v list \<Rightarrow> 'v list \<Rightarrow> 'v list" where
  "merge_by_name name target seed =
     im_values (fold (\<lambda>v. im_insert (name v) v) seed (im_collect (map (\<lambda>v. (name v, v)) target)))"

definition merge_seed :: "mim_manifest \<Rightarrow> mim_manifest \<Rightarrow> mim_manifest" where
  "merge_seed target seed =
     target\<lparr>mm_taxonomy := merge_by_name tn_name (mm_taxonomy target) (mm_taxonomy seed),
       mm_elements := merge_by_name me_name (mm_elements target) (mm_elements seed),
       mm_code_lists := merge_by_name cl_name (mm_code_lists target) (mm_code_lists seed)\<rparr>"

definition count_xml_property_tag_lines :: "string \<Rightarrow> nat" where
  "count_xml_property_tag_lines data =
     length (filter (\<lambda>l. contains_str l ''ObjectProperty'' \<or> contains_str l ''DatatypeProperty'') (read_lines data))"

text \<open>The nodes of one of the two sets with their elements.\<close>

fun class_nodes ::
  "'f import_env \<Rightarrow> owl_model \<Rightarrow> string \<Rightarrow> bool \<Rightarrow> string list \<Rightarrow> mim_error + (taxonomy_node \<times> model_element_spec) list" where
  "class_nodes env owl version is_obj [] = Ok []"
| "class_nodes env owl version is_obj (n # ns) =
     and_then (class_to_taxonomy_node env owl n is_obj) (\<lambda>node.
     and_then (taxonomy_to_element version node MkClass) (\<lambda>e.
     and_then (class_nodes env owl version is_obj ns) (\<lambda>rest. Ok ((node, e) # rest))))"

text \<open>The manifest before synthetic classes, and the batch of attributes.\<close>

definition import_manifest ::
  "'f import_env \<Rightarrow> owl_model \<Rightarrow> 'f import_options \<Rightarrow> mim_error + mim_manifest \<times> attribute_batch" where
  "import_manifest env owl opts =
     (let (objects, actions) = choose_classes owl opts; version = io_version opts in
      and_then (class_nodes env owl version True objects) (\<lambda>object_nodes.
      and_then (class_nodes env owl version False actions) (\<lambda>action_nodes.
      and_then (try_map (\<lambda>(n, vs). enumeration_to_codelist env n vs) (ow_enumerations owl)) (\<lambda>lists.
      and_then (import_owl_attributes env owl (os_collect (map to_pascal_case (objects @ actions))) version) (\<lambda>batch.
      and_then (pad_code_lists env owl (unat (io_min_code_lists opts)) lists) (\<lambda>lists1.
      let m = \<lparr>mm_version = version, mm_release_date = io_release_date opts, mm_description = io_description opts,
               mm_expected_object_types = io_min_objects opts, mm_expected_action_types = io_min_actions opts,
               mm_expected_code_lists = io_min_code_lists opts,
               mm_taxonomy = map fst (object_nodes @ action_nodes),
               mm_elements = map snd (object_nodes @ action_nodes) @ ab_elements batch,
               mm_code_lists = lists1\<rparr>
      in Ok (case io_merge_seed opts of Some seed \<Rightarrow> merge_seed m seed | None \<Rightarrow> m, batch)))))))"

definition import_report_of ::
  "'f import_env \<Rightarrow> owl_model \<Rightarrow> 'f import_options \<Rightarrow> mim_manifest \<Rightarrow> attribute_batch \<Rightarrow> 'f import_report" where
  "import_report_of env owl opts m b =
     (let total = length (ow_properties owl);
          ratio = (if total = 0 then ie_zero env else ie_divide env (ab_imported b) total)
      in \<lparr>ir_object_types = count_objects m, ir_action_types = count_actions m,
          ir_code_lists = length (mm_code_lists m),
          ir_attribute_types = length (filter (\<lambda>e. me_kind e = MkAttribute) (mm_elements m)),
          ir_total_elements = length (mm_elements m), ir_owl_properties_total = total,
          ir_owl_properties_referenced =
            (case io_owl_xml opts of Some xml \<Rightarrow> count_xml_property_tag_lines xml | None \<Rightarrow> total),
          ir_owl_properties_with_domain = ab_with_domain b, ir_owl_properties_imported = ab_imported b,
          ir_owl_properties_skipped = ab_skipped b, ir_coverage_ratio = ratio,
          ir_meets_target = ie_at_least env ratio (io_target_coverage opts)\<rparr>)"

definition owl_import ::
  "'f import_env \<Rightarrow> owl_model \<Rightarrow> 'f import_options \<Rightarrow> (mim_error + mim_manifest \<times> 'f import_report) option" where
  "owl_import env owl0 opts =
     (let owl = resolve_property_domains owl0 in
      case import_manifest env owl opts of
        Inl e \<Rightarrow> Some (Err e)
      | Inr (m, batch) \<Rightarrow>
          map_option (\<lambda>m'. Ok (m', import_report_of env owl opts m' batch)) (append_synthetic_coverage env opts m))"

end
