(* ===== verification/Import_Guarantees.thy ===== *)
theory Import_Guarantees
  imports Owl_Import
begin

text \<open>
  What an import of \<open>mapper.rs\<close> guarantees: when it succeeds and when it fails, that it returns, that it reaches the
  minima it was given, and how its manifest fares when the registry reads it.
\<close>

section \<open>When an element has a URI\<close>

lemma strip_leading_keeps:
  assumes "\<forall>w \<in> set ws. c \<notin> set w"
  shows "\<exists>r'. strip_leading n ws (r @ c # p) = r' @ c # p"
proof (induction n arbitrary: r)
  case (Suc n)
  show ?case
  proof (cases "find (\<lambda>w. starts_with (r @ c # p) w) ws")
    case (Some w)
    then have w: "w \<in> set ws" "starts_with (r @ c # p) w" by (auto dest: find_SomeD)
    have "length w \<le> length r"
    proof (rule ccontr)
      assume "\<not> length w \<le> length r"
      then have "c \<in> set (take (length w) (r @ c # p))" by (cases "length w - length r") auto
      with w assms show False by (auto simp: starts_with_def)
    qed
    then have "drop (length w) (r @ c # p) = drop (length w) r @ c # p" by simp
    with Suc [of "drop (length w) r"] Some show ?thesis by simp
  qed auto
qed auto

lemma trim_keeps:
  assumes "p \<noteq> []" "\<not> ws_lead (hd p)" "\<forall>w \<in> set white_space_seqs. c \<notin> set w"
  shows "\<exists>r'. trim (p @ c # r) = p @ c # r'"
proof -
  have "trim_start (p @ c # r) = p @ c # r" using assms(1,2) by (intro trim_start_id) auto
  moreover obtain r' where "strip_leading (length (p @ c # r)) (map rev white_space_seqs) (rev r @ c # rev p) = r' @ c # rev p"
    using strip_leading_keeps [of "map rev white_space_seqs" c "length (p @ c # r)" "rev r" "rev p"] assms(3) by auto
  ultimately have "trim (p @ c # r) = p @ c # rev r'" by (simp add: trim_def trim_end_def)
  then show ?thesis by blast
qed

lemma splitn2_first_slash:
  assumes "s = v @ CHR ''/'' # c # r" "c \<noteq> CHR ''/''"
  shows "\<exists>a b. splitn2 s = (a, Some b) \<and> b \<noteq> [] \<and> (a = [] \<longleftrightarrow> hd s = CHR ''/'')"
  using assms by (induction v arbitrary: s) (auto split: prod.splits)

definition version_ok :: "string \<Rightarrow> bool" where
  "version_ok v \<longleftrightarrow> v \<noteq> [] \<and> hd v \<noteq> CHR ''/''"

lemma letter_C: "\<not> ws_lead (CHR ''h'')" "\<forall>w \<in> set white_space_seqs. CHR ''C'' \<notin> set w"
  by (simp_all add: ws_lead_def white_space_seqs_def)

lemma class_uri_parse:
  "(\<exists>u. mim_uri_parse (''https://www.mimworld.org/mim/'' @ v @ ''/C'' @ r) = Ok u) \<longleftrightarrow> version_ok v"
proof -
  let ?base = "''https://www.mimworld.org/mim/''"
  have url: "?base @ v @ ''/C'' @ r = (?base @ v @ ''/'') @ CHR ''C'' # r" for r by simp
  have lead: "?base @ v @ ''/'' \<noteq> []" "\<not> ws_lead (hd (?base @ v @ ''/''))" using letter_C by auto
  obtain r1 where r1: "trim (?base @ v @ ''/C'' @ r) = ?base @ v @ ''/C'' @ r1"
    using trim_keeps [OF lead letter_C(2), of r] by auto
  obtain r2 where r2: "trim (?base @ v @ ''/C'' @ r1) = ?base @ v @ ''/C'' @ r2"
    using trim_keeps [OF lead letter_C(2), of r1] by auto
  have base: "?base = MIM_BASE_URL @ ''/''" by (simp add: MIM_BASE_URL_def)
  have start: "starts_with (?base @ v @ ''/C'' @ r1) MIM_BASE_URL" unfolding base append_assoc by (rule starts_with_append)
  have strip: "strip_prefix (MIM_BASE_URL @ ''/'') (?base @ v @ ''/C'' @ r2) = Some (v @ ''/C'' @ r2)"
    unfolding base by (rule strip_prefix_append)
  obtain a b where ab: "splitn2 (v @ ''/C'' @ r2) = (a, Some b)" "b \<noteq> []" "a = [] \<longleftrightarrow> hd (v @ ''/C'' @ r2) = CHR ''/''"
    using splitn2_first_slash [of "v @ ''/C'' @ r2" v "CHR ''C''" r2] by auto
  have "a = [] \<longleftrightarrow> \<not> version_ok v" using ab(3) by (cases v) (auto simp: version_ok_def)
  then show ?thesis
    unfolding mim_uri_parse_def r1 Let_def using start
    by (simp add: qualified_name_parse_def r2 Let_def strip ab(1,2) del: append.simps append_Cons)
qed

lemma class_uri_parse': "p = CHR ''C'' # q \<Longrightarrow>
  (\<exists>u. mim_uri_parse (''https://www.mimworld.org/mim/'' @ v @ ''/'' @ p @ r) = Ok u) \<longleftrightarrow> version_ok v"
  using class_uri_parse [of v "q @ r"] by simp

lemma property_to_element_Ok: "(\<exists>e. property_to_element env n p parent v = Ok e) \<longleftrightarrow> version_ok v"
  using class_uri_parse' [of "''Classifiers/Object/''" "''lassifiers/Object/''" v "parent @ ''/'' @ to_pascal_case n"]
  by (simp add: property_to_element_def Let_def and_then_Inr_iff)

text \<open>Every package path of the importer begins with \<open>Classifiers\<close>.\<close>

lemma taxonomy_to_element_Ok:
  assumes "tn_package_path node = ''Classifiers::'' @ q"
  shows "(\<exists>e. taxonomy_to_element v node kind = Ok e) \<longleftrightarrow> version_ok v"
proof -
  have "str_replace ''::'' ''/'' (CHR ''C'' # x) = CHR ''C'' # str_replace ''::'' ''/'' x" for x
    by (simp add: starts_with_def)
  from this [of "''lassifiers::'' @ q"] assms
  obtain r where "str_replace ''::'' ''/'' (tn_package_path node) = CHR ''C'' # r"
    by (simp del: str_replace.simps)
  from class_uri_parse' [OF this, of v "''/'' @ tn_name node"] show ?thesis
    by (simp add: taxonomy_to_element_def and_then_Inr_iff)
qed

section \<open>The chosen classes\<close>

definition choice_ok :: "owl_model \<Rightarrow> string \<Rightarrow> string ordered_set \<times> string ordered_set \<Rightarrow> bool" where
  "choice_ok owl root oa \<longleftrightarrow>
     os_wf (fst oa) \<and> os_wf (snd oa) \<and> set (fst oa) \<subseteq> set (om_keys (ow_classes owl)) \<and>
     set (snd oa) \<subseteq> insert root (set (om_keys (ow_classes owl))) \<and> root \<in> set (snd oa) \<and>
     set (fst oa) \<inter> set (snd oa) = {}"

lemma choice_ok_object:
  "choice_ok owl root (objects, actions) \<Longrightarrow> n \<in> set (om_keys (ow_classes owl)) \<Longrightarrow> n \<notin> set actions \<Longrightarrow>
    choice_ok owl root (os_insert n objects, actions)"
  by (auto simp: choice_ok_def os_insert_wf)

lemma choice_ok_action:
  "choice_ok owl root (objects, actions) \<Longrightarrow> n \<in> set (om_keys (ow_classes owl)) \<Longrightarrow>
    choice_ok owl root (os_remove n objects, os_insert n actions)"
  by (auto simp: choice_ok_def os_insert_wf os_remove_wf set_os_remove)

lemma promote_objects_ok:
  "choice_ok owl root (objects, actions) \<Longrightarrow> set ns \<subseteq> set (om_keys (ow_classes owl)) \<Longrightarrow>
    choice_ok owl root (promote_objects least actions ns objects, actions)"
  by (induction least actions ns objects rule: promote_objects.induct) (auto simp: choice_ok_object)

lemma pad_objects_ok:
  "choice_ok owl root (objects, actions) \<Longrightarrow> set ns \<subseteq> set (om_keys (ow_classes owl)) \<Longrightarrow>
    choice_ok owl root (pad_objects least actions ns objects, actions)"
  by (induction least actions ns objects rule: pad_objects.induct) (auto simp: choice_ok_object)

lemma promote_actions_ok:
  "choice_ok owl root oa \<Longrightarrow> set ns \<subseteq> set (om_keys (ow_classes owl)) \<Longrightarrow>
    choice_ok owl root (promote_actions least ns oa)"
  by (induction least ns oa rule: promote_actions.induct) (auto simp: choice_ok_action)

lemma pad_actions_ok:
  "choice_ok owl root oa \<Longrightarrow> set ns \<subseteq> set (om_keys (ow_classes owl)) \<Longrightarrow>
    choice_ok owl root (pad_actions least ns oa)"
  by (induction least ns oa rule: pad_actions.induct) (auto simp: choice_ok_action)

lemma pad_class_coverage_ok:
  assumes "choice_ok owl root oa" "set (om_keys (ow_enumerations owl)) \<subseteq> set (om_keys (ow_classes owl))"
  shows "choice_ok owl root (pad_class_coverage owl opts oa)"
  using assms
  by (cases oa) (simp add: pad_class_coverage_def Let_def pad_actions_ok promote_objects_ok pad_objects_ok)

lemma ensure_domains_ok:
  assumes "choice_ok owl root oa"
  shows "choice_ok owl root (ensure_property_domains_in_taxonomy owl oa)"
proof -
  obtain objects actions where oa: "oa = (objects, actions)" by (cases oa)
  let ?f = "\<lambda>p objects. (case op_domain p of None \<Rightarrow> objects
    | Some d \<Rightarrow> (let n = normalize_owl_ref d in
        if \<not> om_contains (ow_classes owl) n then objects
        else if n \<in> set actions then objects else os_insert n objects))"
  have "choice_ok owl root (fold ?f ps objects, actions)" if "choice_ok owl root (objects, actions)" for ps objects
    using that
  proof (induction ps arbitrary: objects)
    case (Cons p ps)
    have "choice_ok owl root (?f p objects, actions)"
      using Cons.prems by (auto simp: Let_def om_contains_def choice_ok_object split: option.splits)
    with Cons.IH show ?case by simp
  qed simp
  with assms oa show ?thesis by (simp add: ensure_property_domains_in_taxonomy_def)
qed

lemma is_a_keys: "(n, p) \<in> is_a m \<Longrightarrow> n \<in> set (om_keys (ow_classes m))"
  by (force simp: is_a_def om_keys_def)

lemma descendants_keys: "set (owl_descendants_of m root) \<subseteq> set (om_keys (ow_classes m))"
  by (auto simp: owl_descendants_exact dest!: tranclD is_a_keys)

lemma choose_classes_ok:
  assumes "om_wf (ow_classes owl)" "owl_enumerations_wf owl"
  shows "choice_ok owl (io_action_root opts) (choose_classes owl opts)"
proof -
  let ?root = "io_action_root opts"
  define actions0 where "actions0 = os_insert ?root (owl_descendants_of owl ?root)"
  define objects0 where "objects0 = filter (\<lambda>n. n \<notin> set actions0 \<and> \<not> om_contains (ow_enumerations owl) n \<and>
      (case om_get (ow_classes owl) n of Some c \<Rightarrow> \<not> oc_is_enumeration c | None \<Rightarrow> True)) (om_keys (ow_classes owl))"
  have enums: "set (om_keys (ow_enumerations owl)) \<subseteq> set (om_keys (ow_classes owl))"
    using assms by (auto simp: owl_enumerations_wf_def om_contains_def om.look_dom [symmetric])
  have "sorted_wrt (<) (om_keys (ow_classes owl))" using assms by (simp add: om_wf_def)
  then have "os_wf objects0" by (simp add: objects0_def os_wf_def strict_sorted_iff sorted_wrt_filter)
  moreover have "os_wf actions0"
    unfolding actions0_def owl_descendants_of_def by (intro os_insert_wf descend_wf) (simp add: os_wf_def)
  ultimately have start: "choice_ok owl ?root (objects0, actions0)"
    using descendants_keys [of owl ?root] by (auto simp: choice_ok_def objects0_def actions0_def)
  show ?thesis
    unfolding choose_classes_def Let_def actions0_def [symmetric] objects0_def [symmetric]
    by (intro ensure_domains_ok)
      (simp add: start promote_objects_ok promote_actions_ok pad_class_coverage_ok enums)
qed

section \<open>Nodes, attributes and code lists\<close>

lemma infer_kinds_Some: "infer_object_kind n \<noteq> None" "infer_action_kind n \<noteq> None"
  by (simp_all add: infer_object_kind_def infer_action_kind_def Let_def)

lemma package_path_prefix: "\<exists>q. package_path_for n b = ''Classifiers::'' @ q"
  by (auto simp: package_path_for_def)

lemma class_to_taxonomy_node_Ok:
  "(\<exists>node. class_to_taxonomy_node env owl n b = Ok node) \<longleftrightarrow> om_contains (ow_classes owl) n"
  by (auto simp: class_to_taxonomy_node_def Let_def and_then_Inr_iff om_get_contains)

lemma class_to_taxonomy_node_D:
  assumes "class_to_taxonomy_node env owl n b = Ok node"
  shows "tn_name node = to_pascal_case n" "is_object node = b" "is_action node = (\<not> b)"
    "tn_package_path node = package_path_for n b"
  using assms infer_kinds_Some [of n]
  by (cases b; auto simp: class_to_taxonomy_node_def Let_def and_then_Inr_iff is_object_def is_action_def)+

lemma class_node_element_Ok:
  assumes "class_to_taxonomy_node env owl n b = Ok node"
  shows "(\<exists>e. taxonomy_to_element v node kind = Ok e) \<longleftrightarrow> version_ok v"
proof -
  obtain q where "tn_package_path node = ''Classifiers::'' @ q"
    using class_to_taxonomy_node_D(4) [OF assms] package_path_prefix [of n b] by auto
  then show ?thesis by (rule taxonomy_to_element_Ok)
qed

lemma class_nodes_Ok:
  "(\<exists>xs. class_nodes env owl v b ns = Ok xs) \<longleftrightarrow>
    (\<forall>n \<in> set ns. om_contains (ow_classes owl) n) \<and> (ns = [] \<or> version_ok v)"
proof (induction ns)
  case (Cons n ns)
  show ?case
  proof (cases "class_to_taxonomy_node env owl n b")
    case (Inl e)
    then show ?thesis using class_to_taxonomy_node_Ok [of env owl n b] by auto
  next
    case (Inr node)
    have "om_contains (ow_classes owl) n" using class_to_taxonomy_node_Ok [of env owl n b] Inr by auto
    then show ?thesis
      using Cons.IH Inr class_node_element_Ok [OF Inr, of v MkClass] by (auto simp: and_then_Inr_iff)
  qed
qed simp

lemma class_nodes_D:
  "class_nodes env owl v b ns = Ok xs \<Longrightarrow>
    map (tn_name \<circ> fst) xs = map to_pascal_case ns \<and> (\<forall>x \<in> set xs. is_object (fst x) = b \<and> is_action (fst x) = (\<not> b))"
proof (induction ns arbitrary: xs)
  case (Cons n ns)
  then obtain node e rest where node: "class_to_taxonomy_node env owl n b = Ok node" and
      rest: "class_nodes env owl v b ns = Ok rest" and xs: "xs = (node, e) # rest"
    by (auto simp: and_then_Inr_iff)
  from Cons.IH [OF rest] show ?case
    by (simp add: xs class_to_taxonomy_node_D [OF node])
qed simp

lemma import_attributes_Ok:
  assumes "version_ok v"
  shows "\<exists>b'. import_attributes env owl names v ps b = Ok b' \<and>
    ab_imported b' + ab_skipped b' = ab_imported b + ab_skipped b + length ps \<and>
    length (ab_elements b') + ab_imported b = length (ab_elements b) + ab_imported b'"
proof (induction ps arbitrary: b)
  case (Cons np ps)
  obtain n p where np: "np = (n, p)" by (cases np)
  show ?case
  proof (cases "Option.bind (op_domain p) (\<lambda>d. resolve_taxonomy_domain owl d names)")
    case None
    then have "import_attributes env owl names v (np # ps) b =
        import_attributes env owl names v ps (b\<lparr>ab_skipped := ab_skipped b + 1\<rparr>)"
      by (auto simp: np split: option.splits)
    with Cons.IH [of "b\<lparr>ab_skipped := ab_skipped b + 1\<rparr>"] show ?thesis by auto
  next
    case (Some parent)
    obtain e where "property_to_element env n p parent v = Ok e"
      using property_to_element_Ok [of env n p parent v] assms by auto
    with Some have "import_attributes env owl names v (np # ps) b = import_attributes env owl names v ps
        (b\<lparr>ab_elements := ab_elements b @ [e], ab_imported := ab_imported b + 1\<rparr>)"
      by (auto simp: np bind_eq_Some_conv)
    with Cons.IH [of "b\<lparr>ab_elements := ab_elements b @ [e], ab_imported := ab_imported b + 1\<rparr>"]
    show ?thesis by auto
  qed
qed simp

lemma import_owl_attributes_D:
  assumes "version_ok v" "import_owl_attributes env owl names v = Ok b"
  shows "ab_imported b + ab_skipped b = length (ow_properties owl)" "length (ab_elements b) = ab_imported b"
proof -
  let ?b0 = "\<lparr>ab_elements = [], ab_imported = 0, ab_skipped = 0,
    ab_with_domain = length (filter (\<lambda>p. op_domain p \<noteq> None) (om_values (ow_properties owl)))\<rparr>"
  obtain b' where b': "import_attributes env owl names v (ow_properties owl) ?b0 = Ok b'"
      "ab_imported b' + ab_skipped b' = length (ow_properties owl)" "length (ab_elements b') = ab_imported b'"
    using import_attributes_Ok [OF assms(1), of env owl names "ow_properties owl" ?b0] by auto
  then have "b = b'" using assms(2) by (simp add: import_owl_attributes_def)
  with b' show "ab_imported b + ab_skipped b = length (ow_properties owl)" "length (ab_elements b) = ab_imported b"
    by simp_all
qed

lemma enumeration_to_codelist_Ok: "\<exists>l. enumeration_to_codelist env n vs = Ok l"
  by (simp add: enumeration_to_codelist_def Let_def)

lemma pad_code_classes_Ok: "\<exists>ls'. pad_code_classes env least existing ns ls = Ok ls'"
  by (induction env least existing ns ls rule: pad_code_classes.induct)
    (auto simp: enumeration_to_codelist_def Let_def)

lemma pad_code_values_Ok: "\<exists>ls'. pad_code_values env least existing n vs ls = Ok ls'"
  by (induction env least existing n vs ls rule: pad_code_values.induct)
    (auto simp: enumeration_to_codelist_def Let_def)

lemma pad_code_enumerations_Ok: "\<exists>ls'. pad_code_enumerations env least existing es ls = Ok ls'"
proof (induction es arbitrary: ls)
  case (Cons e es)
  obtain n vs where e: "e = (n, vs)" by (cases e)
  obtain ls1 where "pad_code_values env least existing n vs ls = Ok ls1" using pad_code_values_Ok by blast
  with Cons.IH [of ls1] e show ?case by auto
qed simp

lemma pad_code_rest_Ok: "\<exists>ls'. pad_code_rest env least ns ls = Ok ls'"
  by (induction env least ns ls rule: pad_code_rest.induct) (auto simp: enumeration_to_codelist_def Let_def)

lemma pad_code_lists_Ok: "\<exists>ls'. pad_code_lists env owl least ls = Ok ls'"
proof -
  let ?existing = "os_collect (map cl_name ls)"
  obtain ls1 where "pad_code_classes env least ?existing (om_keys (ow_classes owl)) ls = Ok ls1"
    using pad_code_classes_Ok by blast
  moreover obtain ls2 where "pad_code_enumerations env least ?existing (ow_enumerations owl) ls1 = Ok ls2"
    using pad_code_enumerations_Ok by blast
  ultimately show ?thesis using pad_code_rest_Ok by (simp add: pad_code_lists_def Let_def)
qed

lemma enumerations_Ok: "\<exists>ls. try_map (\<lambda>(n, vs). enumeration_to_codelist env n vs) es = Ok ls"
  by (induction es) (auto simp: enumeration_to_codelist_def Let_def)

section \<open>Synthetic classes\<close>

definition synthetic_nodes :: "(u32 \<Rightarrow> taxonomy_node) \<Rightarrow> u32 \<Rightarrow> nat \<Rightarrow> taxonomy_node list" where
  "synthetic_nodes mk idx n = map (\<lambda>k. mk (idx + word_of_nat (Suc k))) [0..<n]"

lemma synthetic_nodes_Suc: "synthetic_nodes mk idx (Suc n) = mk (idx + 1) # synthetic_nodes mk (idx + 1) n"
  unfolding synthetic_nodes_def by (subst upt_conv_Cons) (simp_all add: map_Suc_upt [symmetric] algebra_simps del: upt_Suc)

lemma append_synthetic_returns:
  assumes mk: "\<And>i. \<exists>e. taxonomy_to_element v (mk i) MkClass = Ok e"
  shows "\<exists>es idx'. append_synthetic mk v least count idx m =
    Some (m\<lparr>mm_taxonomy := mm_taxonomy m @ synthetic_nodes mk idx (least - count),
            mm_elements := mm_elements m @ es\<rparr>, idx')"
proof (induction "least - count" arbitrary: count idx m)
  case 0
  have "append_synthetic mk v least count idx m = Some (m, idx)"
    using 0 by (subst append_synthetic.simps) simp
  moreover have "m = m\<lparr>mm_taxonomy := mm_taxonomy m @ [], mm_elements := mm_elements m @ []\<rparr>" by simp
  moreover have "synthetic_nodes mk idx (least - count) = []" using 0 by (simp add: synthetic_nodes_def)
  ultimately show ?case by metis
next
  case (Suc n)
  then have less: "count < least" and n: "n = least - (count + 1)" by auto
  obtain e where e: "taxonomy_to_element v (mk (idx + 1)) MkClass = Ok e" using mk by blast
  let ?m = "m\<lparr>mm_taxonomy := mm_taxonomy m @ [mk (idx + 1)], mm_elements := mm_elements m @ [e]\<rparr>"
  have step: "append_synthetic mk v least count idx m = append_synthetic mk v least (count + 1) (idx + 1) ?m"
    using less e by (subst append_synthetic.simps) simp
  obtain es idx' where "append_synthetic mk v least (count + 1) (idx + 1) ?m =
      Some (?m\<lparr>mm_taxonomy := mm_taxonomy ?m @ synthetic_nodes mk (idx + 1) (least - (count + 1)),
              mm_elements := mm_elements ?m @ es\<rparr>, idx')"
    using Suc.hyps(1) [OF n] by blast
  then have "append_synthetic mk v least count idx m =
      Some (m\<lparr>mm_taxonomy := mm_taxonomy m @ synthetic_nodes mk idx (least - count),
              mm_elements := mm_elements m @ (e # es)\<rparr>, idx')"
    using Suc.hyps(2) n by (simp add: step synthetic_nodes_Suc flip: Suc.hyps(2))
  then show ?case by blast
qed

lemma synthetic_kinds:
  "is_object (synthetic_object env i)" "\<not> is_action (synthetic_object env i)"
  "\<not> is_object (synthetic_action env i)" "is_action (synthetic_action env i)"
  by (simp_all add: synthetic_object_def synthetic_action_def is_object_def is_action_def Let_def)

lemma synthetic_elements_Ok:
  assumes "version_ok v"
  shows "\<exists>e. taxonomy_to_element v (synthetic_object env i) MkClass = Ok e"
    "\<exists>e. taxonomy_to_element v (synthetic_action env i) MkClass = Ok e"
  using assms taxonomy_to_element_Ok [of "synthetic_object env i" "''Object::Generic::ImportedObject'' @ show_4 i" v MkClass]
    taxonomy_to_element_Ok [of "synthetic_action env i" "''Action::Generic::ImportedAction'' @ show_4 i" v MkClass]
  by (simp_all add: synthetic_object_def synthetic_action_def Let_def)

lemma filter_synthetic:
  "\<forall>i. P (mk i) = b \<Longrightarrow> filter P (synthetic_nodes mk idx n) = (if b then synthetic_nodes mk idx n else [])"
  by (auto simp: synthetic_nodes_def filter_map comp_def)

lemma length_synthetic [simp]: "length (synthetic_nodes mk idx n) = n"
  by (simp add: synthetic_nodes_def)

text \<open>What the two loops add.\<close>

lemma append_synthetic_coverage_returns:
  assumes "version_ok (io_version opts)"
  shows "\<exists>es idx. append_synthetic_coverage env opts m =
    Some (m\<lparr>mm_taxonomy := mm_taxonomy m @
              synthetic_nodes (synthetic_object env) 0 (unat (io_min_objects opts) - count_objects m) @
              synthetic_nodes (synthetic_action env) idx (unat (io_min_actions opts) - count_actions m),
            mm_elements := mm_elements m @ es\<rparr>)"
proof -
  obtain es1 idx where one: "append_synthetic (synthetic_object env) (io_version opts) (unat (io_min_objects opts))
      (count_objects m) 0 m =
      Some (m\<lparr>mm_taxonomy := mm_taxonomy m @ synthetic_nodes (synthetic_object env) 0
                (unat (io_min_objects opts) - count_objects m),
              mm_elements := mm_elements m @ es1\<rparr>, idx)" (is "_ = Some (?m1, idx)")
    using append_synthetic_returns [of "io_version opts" "synthetic_object env"] synthetic_elements_Ok(1) [OF assms] by blast
  obtain es2 idx2 where "append_synthetic (synthetic_action env) (io_version opts) (unat (io_min_actions opts))
      (count_actions m) idx ?m1 =
      Some (?m1\<lparr>mm_taxonomy := mm_taxonomy ?m1 @ synthetic_nodes (synthetic_action env) idx
                (unat (io_min_actions opts) - count_actions m),
              mm_elements := mm_elements ?m1 @ es2\<rparr>, idx2)"
    using append_synthetic_returns [of "io_version opts" "synthetic_action env"] synthetic_elements_Ok(2) [OF assms] by blast
  with one show ?thesis by (auto simp: append_synthetic_coverage_def)
qed

lemma append_synthetic_coverage_counts:
  assumes "version_ok (io_version opts)" "append_synthetic_coverage env opts m = Some m'"
  shows "count_objects m' = max (count_objects m) (unat (io_min_objects opts))"
    "count_actions m' = max (count_actions m) (unat (io_min_actions opts))"
  using append_synthetic_coverage_returns [OF assms(1), of env m] assms(2)
  by (auto simp: count_objects_def count_actions_def filter_synthetic [where b = True]
      filter_synthetic [where b = False] synthetic_kinds)

section \<open>Seeds\<close>

lemma fold_im_insert_contains:
  "im_contains (fold (\<lambda>v. im_insert (name v) v) vs m) k \<longleftrightarrow> im_contains m k \<or> k \<in> name ` set vs"
  by (induction vs arbitrary: m) (auto simp: im_contains_def)

lemma im_collect_eq: "im_collect (map (\<lambda>v. (name v, v)) vs) = fold (\<lambda>v. im_insert (name v) v) vs []"
proof -
  have "fold (\<lambda>(k, v). im_insert k v) (map (\<lambda>v. (name v, v)) vs) m = fold (\<lambda>v. im_insert (name v) v) vs m" for m
    by (induction vs arbitrary: m) auto
  then show ?thesis by (simp add: im_collect_def)
qed

lemma merge_by_name_not_Nil: "target \<noteq> [] \<Longrightarrow> merge_by_name name target seed \<noteq> []"
proof -
  assume "target \<noteq> []"
  then obtain v where "v \<in> set target" by (cases target) auto
  then have "im_contains (fold (\<lambda>v. im_insert (name v) v) seed (im_collect (map (\<lambda>v. (name v, v)) target))) (name v)"
    unfolding im_collect_eq fold_im_insert_contains by auto
  then show ?thesis by (auto simp: merge_by_name_def im_values_def im_contains_def)
qed

section \<open>The import\<close>

lemma import_manifest_Ok_iff:
  assumes "om_wf (ow_classes owl)" "owl_enumerations_wf owl"
  shows "(\<exists>r. import_manifest env owl opts = Ok r) \<longleftrightarrow>
    om_contains (ow_classes owl) (io_action_root opts) \<and> version_ok (io_version opts)"
proof -
  obtain objects actions where oa: "choose_classes owl opts = (objects, actions)"
    by (cases "choose_classes owl opts")
  then have ok: "choice_ok owl (io_action_root opts) (objects, actions)"
    using choose_classes_ok [OF assms, of opts] by simp
  have actions: "actions \<noteq> []"
      "(\<forall>n \<in> set actions. om_contains (ow_classes owl) n) \<longleftrightarrow> om_contains (ow_classes owl) (io_action_root opts)"
    using ok by (auto simp: choice_ok_def om_contains_def)
  have objects: "\<forall>n \<in> set objects. om_contains (ow_classes owl) n"
    using ok by (auto simp: choice_ok_def om_contains_def)
  obtain lists where lists: "try_map (\<lambda>(n, vs). enumeration_to_codelist env n vs) (ow_enumerations owl) = Ok lists"
    using enumerations_Ok by blast
  obtain lists1 where lists1: "pad_code_lists env owl (unat (io_min_code_lists opts)) lists = Ok lists1"
    using pad_code_lists_Ok by blast
  show ?thesis
  proof (cases "om_contains (ow_classes owl) (io_action_root opts) \<and> version_ok (io_version opts)")
    case True
    obtain xs ys where "class_nodes env owl (io_version opts) True objects = Ok xs"
        "class_nodes env owl (io_version opts) False actions = Ok ys"
      using True actions objects by (metis class_nodes_Ok)
    moreover obtain b where "import_owl_attributes env owl (os_collect (map to_pascal_case (objects @ actions)))
        (io_version opts) = Ok b"
      using import_attributes_Ok True unfolding import_owl_attributes_def by blast
    ultimately show ?thesis
      using True lists lists1 by (simp add: import_manifest_def oa Let_def)
  next
    case False
    then have "\<not> (\<exists>ys. class_nodes env owl (io_version opts) False actions = Ok ys)"
      using actions by (simp add: class_nodes_Ok)
    then show ?thesis using False by (auto simp: import_manifest_def oa Let_def and_then_Inr_iff)
  qed
qed

text \<open>The parts an accepted import is made of.\<close>

lemma import_manifest_D:
  assumes "import_manifest env owl opts = Ok (m, b)" "choose_classes owl opts = (objects, actions)"
  obtains xs ys lists m0 where
    "class_nodes env owl (io_version opts) True objects = Ok xs"
    "class_nodes env owl (io_version opts) False actions = Ok ys"
    "import_owl_attributes env owl (os_collect (map to_pascal_case (objects @ actions))) (io_version opts) = Ok b"
    "m0 = \<lparr>mm_version = io_version opts, mm_release_date = io_release_date opts, mm_description = io_description opts,
           mm_expected_object_types = io_min_objects opts, mm_expected_action_types = io_min_actions opts,
           mm_expected_code_lists = io_min_code_lists opts, mm_taxonomy = map fst (xs @ ys),
           mm_elements = map snd (xs @ ys) @ ab_elements b, mm_code_lists = lists\<rparr>"
    "m = (case io_merge_seed opts of Some seed \<Rightarrow> merge_seed m0 seed | None \<Rightarrow> m0)"
proof -
  from assms obtain xs ys lists where
      "class_nodes env owl (io_version opts) True objects = Ok xs"
      "class_nodes env owl (io_version opts) False actions = Ok ys"
      "import_owl_attributes env owl (os_collect (map to_pascal_case (objects @ actions))) (io_version opts) = Ok b"
      "m = (let m0 = \<lparr>mm_version = io_version opts, mm_release_date = io_release_date opts,
           mm_description = io_description opts,
           mm_expected_object_types = io_min_objects opts, mm_expected_action_types = io_min_actions opts,
           mm_expected_code_lists = io_min_code_lists opts, mm_taxonomy = map fst (xs @ ys),
           mm_elements = map snd (xs @ ys) @ ab_elements b, mm_code_lists = lists\<rparr>
         in case io_merge_seed opts of Some seed \<Rightarrow> merge_seed m0 seed | None \<Rightarrow> m0)"
    by (auto simp: import_manifest_def Let_def and_then_Inr_iff)
  with that show thesis by (simp add: Let_def)
qed

lemma resolved_wf:
  assumes "owl_model_wf owl"
  shows "om_wf (ow_classes (resolve_property_domains owl))" "owl_enumerations_wf (resolve_property_domains owl)"
    "ow_classes (resolve_property_domains owl) = ow_classes owl"
  using assms resolve_property_domains_frame [of owl] by (simp_all add: owl_model_wf_def owl_enumerations_wf_def)

text \<open>An accepted import, with the classes it chose and what it appended to the manifest before padding.\<close>

lemma import_accepted:
  assumes wf: "owl_model_wf owl" and root: "om_contains (ow_classes owl) (io_action_root opts)"
    and version: "version_ok (io_version opts)"
  obtains objects actions xs ys m1 m0 b idx es m where
    "choice_ok (resolve_property_domains owl) (io_action_root opts) (objects, actions)"
    "class_nodes env (resolve_property_domains owl) (io_version opts) True objects = Ok xs"
    "class_nodes env (resolve_property_domains owl) (io_version opts) False actions = Ok ys"
    "ab_imported b + ab_skipped b = length (ow_properties (resolve_property_domains owl))"
    "mm_taxonomy m1 = map fst (xs @ ys)" "mm_elements m1 = map snd (xs @ ys) @ ab_elements b"
    "mm_version m1 = io_version opts" "mm_expected_object_types m1 = io_min_objects opts"
    "mm_expected_action_types m1 = io_min_actions opts"
    "m0 = (case io_merge_seed opts of Some seed \<Rightarrow> merge_seed m1 seed | None \<Rightarrow> m1)"
    "m = m0\<lparr>mm_taxonomy := mm_taxonomy m0 @
              synthetic_nodes (synthetic_object env) 0 (unat (io_min_objects opts) - count_objects m0) @
              synthetic_nodes (synthetic_action env) idx (unat (io_min_actions opts) - count_actions m0),
            mm_elements := mm_elements m0 @ es\<rparr>"
    "append_synthetic_coverage env opts m0 = Some m"
    "owl_import env owl opts = Some (Ok (m, import_report_of env (resolve_property_domains owl) opts m b))"
proof -
  let ?owl = "resolve_property_domains owl"
  note wf' = resolved_wf [OF wf]
  obtain m0 b where mb: "import_manifest env ?owl opts = Ok (m0, b)"
    using import_manifest_Ok_iff [OF wf'(1,2), of env opts] root version wf'(3) by auto
  obtain objects actions where oa: "choose_classes ?owl opts = (objects, actions)" by (cases "choose_classes ?owl opts")
  have choice: "choice_ok ?owl (io_action_root opts) (objects, actions)"
    using choose_classes_ok [OF wf'(1,2), of opts] oa by simp
  obtain xs ys lists m1 where xs: "class_nodes env ?owl (io_version opts) True objects = Ok xs"
    and ys: "class_nodes env ?owl (io_version opts) False actions = Ok ys"
    and batch: "import_owl_attributes env ?owl (os_collect (map to_pascal_case (objects @ actions))) (io_version opts) = Ok b"
    and m1: "m1 = \<lparr>mm_version = io_version opts, mm_release_date = io_release_date opts,
         mm_description = io_description opts,
         mm_expected_object_types = io_min_objects opts, mm_expected_action_types = io_min_actions opts,
         mm_expected_code_lists = io_min_code_lists opts, mm_taxonomy = map fst (xs @ ys),
         mm_elements = map snd (xs @ ys) @ ab_elements b, mm_code_lists = lists\<rparr>"
    and m0: "m0 = (case io_merge_seed opts of Some seed \<Rightarrow> merge_seed m1 seed | None \<Rightarrow> m1)"
    by (rule import_manifest_D [OF mb oa])
  obtain es idx where m: "append_synthetic_coverage env opts m0 = Some (m0\<lparr>mm_taxonomy := mm_taxonomy m0 @
              synthetic_nodes (synthetic_object env) 0 (unat (io_min_objects opts) - count_objects m0) @
              synthetic_nodes (synthetic_action env) idx (unat (io_min_actions opts) - count_actions m0),
            mm_elements := mm_elements m0 @ es\<rparr>)"
    using append_synthetic_coverage_returns [OF version, of env m0] by blast
  show thesis
    by (rule that [OF choice xs ys import_owl_attributes_D(1) [OF version batch] _ _ _ _ _ m0 refl m])
      (simp_all add: m1 owl_import_def mb m)
qed

text \<open>An import that answers an error, and the two cases together.\<close>

lemma import_rejected:
  assumes wf: "owl_model_wf owl"
    and no: "\<not> (om_contains (ow_classes owl) (io_action_root opts) \<and> version_ok (io_version opts))"
  shows "\<exists>e. owl_import env owl opts = Some (Err e)"
proof -
  obtain e where "import_manifest env (resolve_property_domains owl) opts = Err e"
    using import_manifest_Ok_iff [OF resolved_wf(1,2) [OF wf], of env opts] resolved_wf(3) [OF wf] no
    by (cases "import_manifest env (resolve_property_domains owl) opts") auto
  then show ?thesis by (auto simp: owl_import_def Let_def)
qed

lemma owl_import_returns: "owl_model_wf owl \<Longrightarrow> \<exists>r. owl_import env owl opts = Some r"
  using import_accepted [of owl opts env] import_rejected [of owl opts env] by metis

text \<open>What an accepted import answers.\<close>

lemma import_outcome:
  assumes wf: "owl_model_wf owl"
    and True: "om_contains (ow_classes owl) (io_action_root opts) \<and> version_ok (io_version opts)"
  shows "\<exists>m rep. owl_import env owl opts = Some (Ok (m, rep)) \<and> validate_structure m = Ok () \<and>
      mm_expected_object_types m = io_min_objects opts \<and> unat (io_min_objects opts) \<le> count_objects m \<and>
      mm_expected_action_types m = io_min_actions opts \<and> unat (io_min_actions opts) \<le> count_actions m \<and>
      (\<exists>base idx. mm_taxonomy m = base @
         synthetic_nodes (synthetic_object env) 0 (unat (io_min_objects opts) - length (filter is_object base)) @
         synthetic_nodes (synthetic_action env) idx (unat (io_min_actions opts) - length (filter is_action base))) \<and>
      ir_object_types rep = count_objects m \<and> ir_action_types rep = count_actions m \<and>
      ir_owl_properties_imported rep + ir_owl_properties_skipped rep = ir_owl_properties_total rep"
proof -
  obtain objects actions xs ys m1 m0 b idx es m where
      choice: "choice_ok (resolve_property_domains owl) (io_action_root opts) (objects, actions)"
    and ys: "class_nodes env (resolve_property_domains owl) (io_version opts) False actions = Ok ys"
    and batch: "ab_imported b + ab_skipped b = length (ow_properties (resolve_property_domains owl))"
    and m1: "mm_taxonomy m1 = map fst (xs @ ys)" "mm_elements m1 = map snd (xs @ ys) @ ab_elements b"
      "mm_version m1 = io_version opts" "mm_expected_object_types m1 = io_min_objects opts"
      "mm_expected_action_types m1 = io_min_actions opts"
    and m0: "m0 = (case io_merge_seed opts of Some seed \<Rightarrow> merge_seed m1 seed | None \<Rightarrow> m1)"
    and m: "m = m0\<lparr>mm_taxonomy := mm_taxonomy m0 @
              synthetic_nodes (synthetic_object env) 0 (unat (io_min_objects opts) - count_objects m0) @
              synthetic_nodes (synthetic_action env) idx (unat (io_min_actions opts) - count_actions m0),
            mm_elements := mm_elements m0 @ es\<rparr>"
    and append: "append_synthetic_coverage env opts m0 = Some m"
    and result: "owl_import env owl opts = Some (Ok (m, import_report_of env (resolve_property_domains owl) opts m b))"
    using True by (elim conjE) (rule import_accepted [OF wf])
  have "actions \<noteq> []" using choice by (auto simp: choice_ok_def)
  then have "ys \<noteq> []" using class_nodes_D [OF ys] by auto
  then have parts: "mm_taxonomy m0 \<noteq> []" "mm_elements m0 \<noteq> []" "mm_version m0 = io_version opts"
      "mm_expected_object_types m0 = io_min_objects opts" "mm_expected_action_types m0 = io_min_actions opts"
    by (simp_all add: m0 m1 merge_seed_def merge_by_name_not_Nil split: option.split)
  then have "validate_structure m = Ok ()" "mm_expected_object_types m = io_min_objects opts"
      "mm_expected_action_types m = io_min_actions opts"
    using True by (auto simp: validate_structure_def version_ok_def m)
  moreover have "\<exists>base idx. mm_taxonomy m = base @
         synthetic_nodes (synthetic_object env) 0 (unat (io_min_objects opts) - length (filter is_object base)) @
         synthetic_nodes (synthetic_action env) idx (unat (io_min_actions opts) - length (filter is_action base))"
    by (intro exI [of _ "mm_taxonomy m0"] exI [of _ idx]) (simp add: m count_objects_def count_actions_def)
  ultimately show ?thesis
    using True result batch append_synthetic_coverage_counts [OF conjunct2 [OF True] append]
    by (simp add: import_report_of_def Let_def)
qed

text \<open>
  C35: the import of a well-formed ontology returns. It succeeds exactly when the root of the actions is one of the
  classes and the version can stand in a URI; in all other cases it answers an error. The manifest of a success passes
  the structural check, every property of the ontology is counted as imported or as skipped, and there are at least
  as many object and action types as it declares as expected: what the ontology and the seed lack is filled up with
  synthetic nodes at the end of the taxonomy, one for each that is missing. That is so for all options, also for an
  authoritative import, for which the comment on the option and the documentation promise no synthetic class. Nothing
  is said of the code lists, whose declared number need not be reached.
\<close>

theorem import_succeeds_exactly:
  assumes wf: "owl_model_wf owl"
  shows "if om_contains (ow_classes owl) (io_action_root opts) \<and> version_ok (io_version opts)
    then \<exists>m rep. owl_import env owl opts = Some (Ok (m, rep)) \<and> validate_structure m = Ok () \<and>
      mm_expected_object_types m = io_min_objects opts \<and> unat (io_min_objects opts) \<le> count_objects m \<and>
      mm_expected_action_types m = io_min_actions opts \<and> unat (io_min_actions opts) \<le> count_actions m \<and>
      (\<exists>base idx. mm_taxonomy m = base @
         synthetic_nodes (synthetic_object env) 0 (unat (io_min_objects opts) - length (filter is_object base)) @
         synthetic_nodes (synthetic_action env) idx (unat (io_min_actions opts) - length (filter is_action base))) \<and>
      ir_object_types rep = count_objects m \<and> ir_action_types rep = count_actions m \<and>
      ir_owl_properties_imported rep + ir_owl_properties_skipped rep = ir_owl_properties_total rep
    else \<exists>e. owl_import env owl opts = Some (Err e)"
  using import_outcome [OF wf, of opts env] import_rejected [OF wf, of opts env] by simp

definition toy_import_env :: "unit import_env" where
  "toy_import_env =
     \<lparr>ie_uuid_v5 = SemanticId, ie_divide = \<lambda>_ _. (), ie_zero = (), ie_at_least = \<lambda>_ _. True\<rparr>"

lemma import_succeeds_exactly_witness:
  "(\<exists>m rep. owl_import toy_import_env cyclic_model (import_options_default ()) = Some (Ok (m, rep)) \<and>
     2300 \<le> count_objects m \<and> 500 \<le> count_actions m) \<and>
   (\<exists>e. owl_import toy_import_env owl_model_default (import_options_default ()) = Some (Err e))"
proof -
  have "owl_model_wf owl_model_default" by (rule owl_parse_wf [where events = "\<lambda>_. []"]) (simp add: owl_parse_xml_def)
  note none = import_succeeds_exactly [OF this, of "import_options_default ()" toy_import_env]
  note some = import_succeeds_exactly [OF owl_parse_wf [OF cyclic_parse], of "import_options_default ()" toy_import_env]
  have "om_contains (ow_classes cyclic_model) ''ACTION''" "\<not> om_contains (ow_classes owl_model_default) ''ACTION''"
      "version_ok ''5.1.0''" by (code_simp)+
  then obtain m rep e where
      "owl_import toy_import_env cyclic_model (import_options_default ()) = Some (Ok (m, rep))"
      "unat (2300 :: u32) \<le> count_objects m" "unat (500 :: u32) \<le> count_actions m"
      "owl_import toy_import_env owl_model_default (import_options_default ()) = Some (Err e)"
    using none some by (auto simp: import_options_default_def)
  then show ?thesis by auto
qed

text \<open>The two classes of the sample, imported with the flag for an authoritative import, become 2300 object types.\<close>

lemma authoritative_import_is_padded:
  "length (ow_classes cyclic_model) = 2 \<and>
   (\<exists>m rep. owl_import toy_import_env cyclic_model ((import_options_default ())\<lparr>io_authoritative_mimworld := True\<rparr>) =
       Some (Ok (m, rep)) \<and> 2300 \<le> count_objects m \<and> 500 \<le> count_actions m)"
proof -
  let ?opts = "(import_options_default ())\<lparr>io_authoritative_mimworld := True\<rparr>"
  have fields: "io_action_root ?opts = ''ACTION''" "io_version ?opts = ''5.1.0''" "io_min_objects ?opts = 2300"
      "io_min_actions ?opts = 500"
    by (simp_all add: import_options_default_def)
  have length_cyclic: "length (ow_classes cyclic_model) = 2" by (simp add: cyclic_model_def)
  have "om_contains (ow_classes cyclic_model) ''ACTION''" "version_ok ''5.1.0''" by code_simp+
  with import_outcome [OF owl_parse_wf [OF cyclic_parse], of ?opts toy_import_env] fields
  show ?thesis by (simp add: length_cyclic) fastforce
qed

text \<open>The padding of the code lists stops when the classes and values of the ontology are used up.\<close>

lemma code_lists_stay_below_minimum:
  "\<exists>m rep. owl_import toy_import_env cyclic_model (import_options_default ()) = Some (Ok (m, rep)) \<and>
     mm_expected_code_lists m = 400 \<and> length (mm_code_lists m) < 10"
proof -
  let ?opts = "import_options_default ()"
  have short: "case import_manifest toy_import_env (resolve_property_domains cyclic_model) ?opts of
      Inr (m, b) \<Rightarrow> mm_expected_code_lists m = 400 \<and> length (mm_code_lists m) < 10 | Inl _ \<Rightarrow> False"
    by code_simp
  then obtain m0 b where m0: "import_manifest toy_import_env (resolve_property_domains cyclic_model) ?opts = Ok (m0, b)"
      "mm_expected_code_lists m0 = 400" "length (mm_code_lists m0) < 10"
    by (auto split: sum.splits)
  have "version_ok ''5.1.0''" by code_simp
  then have "version_ok (io_version ?opts)" by (simp add: import_options_default_def)
  from append_synthetic_coverage_returns [OF this, of toy_import_env m0] obtain m where
      "append_synthetic_coverage toy_import_env ?opts m0 = Some m"
      "mm_expected_code_lists m = mm_expected_code_lists m0" "mm_code_lists m = mm_code_lists m0"
    by auto
  with m0 show ?thesis by (simp add: owl_import_def)
qed

section \<open>The manifest and the registry\<close>

lemma im_get_fold_insert:
  "im_get (fold (\<lambda>v. im_insert (name v) v) vs m) k =
    (case find (\<lambda>v. name v = k) (rev vs) of Some v \<Rightarrow> Some v | None \<Rightarrow> im_get m k)"
  by (induction vs rule: rev_induct) (auto split: option.splits)

lemma from_manifest_taxonomy:
  "mr_taxonomy_by_name (fold add_code_list ls (fold add_element es (fold add_taxonomy_node ns (empty_registry v)))) =
    fold (\<lambda>n. im_insert (tn_name n) n) ns []"
proof -
  have "mr_taxonomy_by_name (fold add_code_list ls r) = mr_taxonomy_by_name r" for r
    by (induction ls arbitrary: r) (simp_all add: add_code_list_def)
  moreover have "mr_taxonomy_by_name (fold add_element es r) = mr_taxonomy_by_name r" for r
    by (induction es arbitrary: r) (simp_all add: add_element_def)
  moreover have "mr_taxonomy_by_name (fold add_taxonomy_node ns r) =
      fold (\<lambda>n. im_insert (tn_name n) n) ns (mr_taxonomy_by_name r)" for r
    by (induction ns arbitrary: r) (simp_all add: add_taxonomy_node_def)
  ultimately show ?thesis by (simp add: empty_registry_def)
qed

text \<open>A manifest whose last node of some name has an unknown parent is refused.\<close>

lemma unknown_parent_refused:
  assumes "find (\<lambda>n. tn_name n = k) (rev (mm_taxonomy m)) = Some node" "tn_parent node = Some p"
    "p \<notin> tn_name ` set (mm_taxonomy m)"
  shows "\<exists>e. from_manifest m = Err e"
proof -
  define r where "r = fold add_code_list (mm_code_lists m)
    (fold add_element (mm_elements m) (fold add_taxonomy_node (mm_taxonomy m) (empty_registry (mm_version m))))"
  have tax: "mr_taxonomy_by_name r = fold (\<lambda>n. im_insert (tn_name n) n) (mm_taxonomy m) []"
    unfolding r_def by (rule from_manifest_taxonomy)
  have "im_get (mr_taxonomy_by_name r) k = Some node"
    unfolding tax im_get_fold_insert using assms(1) by simp
  then have "node \<in> set (im_values (mr_taxonomy_by_name r))" by (rule im_get_in_values)
  moreover have "\<not> im_contains (mr_taxonomy_by_name r) p"
    unfolding tax fold_im_insert_contains using assms(3) by (simp add: im_contains_def)
  ultimately have "validate_integrity r \<noteq> Ok ()"
    using assms(2) by (force simp: validate_integrity_def and_then_Inr_iff try_each_Inr_iff check_taxonomy_parent_def)
  then obtain e where "validate_integrity r = Err e" by (cases "validate_integrity r") auto
  then show ?thesis by (auto simp: from_manifest_def Let_def r_def)
qed

lemma synthetic_names:
  "tn_name (synthetic_object env i) = ''ImportedObject'' @ show_4 i" "tn_parent (synthetic_object env i) = Some ''Object''"
  "tn_name (synthetic_action env i) = ''ImportedAction'' @ show_4 i" "tn_parent (synthetic_action env i) = Some ''Action''"
  by (simp_all add: synthetic_object_def synthetic_action_def Let_def)

lemma class_count_bound:
  assumes "choice_ok owl root (objects, actions)"
  shows "length objects \<le> length (ow_classes owl)"
proof -
  have "length objects = card (set objects)" using assms by (simp add: choice_ok_def os_wf_def distinct_card)
  also have "\<dots> \<le> card (set (om_keys (ow_classes owl)))" using assms by (intro card_mono) (auto simp: choice_ok_def)
  also have "\<dots> \<le> length (om_keys (ow_classes owl))" by (rule card_length)
  finally show ?thesis by (simp add: om_keys_def)
qed

text \<open>A synthetic object type at the end of a taxonomy without a node called Object.\<close>

lemma padded_taxonomy_refused:
  assumes tax: "mm_taxonomy m = pre @ synthetic_nodes (synthetic_object env) i (Suc n) @ synthetic_nodes (synthetic_action env) j k"
    and pre: "''Object'' \<notin> tn_name ` set pre"
  shows "\<exists>e. from_manifest m = Err e"
proof -
  let ?objs = "synthetic_nodes (synthetic_object env) i (Suc n)" and ?acts = "synthetic_nodes (synthetic_action env) j k"
  let ?k = "''ImportedObject'' @ show_4 (i + 1)"
  have "find (\<lambda>n. tn_name n = ?k) (rev ?acts) = None"
    by (auto simp: find_None_iff synthetic_nodes_def synthetic_names)
  moreover have "find (\<lambda>n. tn_name n = ?k) (rev ?objs) \<noteq> None"
    by (auto simp: find_None_iff synthetic_nodes_Suc synthetic_names)
  then obtain node where node: "find (\<lambda>n. tn_name n = ?k) (rev ?objs) = Some node" by auto
  ultimately have "find (\<lambda>n. tn_name n = ?k) (rev (mm_taxonomy m)) = Some node"
    by (simp add: tax find_append)
  moreover have "tn_parent node = Some ''Object''"
    using find_SomeD [OF node] by (auto simp: synthetic_nodes_def synthetic_names simp del: upt_Suc)
  moreover have "tn_name (synthetic_object env i) \<noteq> ''Object''" "tn_name (synthetic_action env i) \<noteq> ''Object''" for i
    by (simp_all add: synthetic_names)
  then have "''Object'' \<notin> tn_name ` set (mm_taxonomy m)"
    using pre unfolding tax synthetic_nodes_def by fastforce
  ultimately show ?thesis by (rule unknown_parent_refused)
qed

text \<open>
  C37: without a seed, an ontology that has the root of the actions, fewer classes than the minimum of object types and
  no class whose name becomes Object is imported without an error when the version can stand in a URI, and the
  manifest is one that the registry refuses: the synthetic classes name a parent Object that the import does not make.
  (With a class OBJECT the synthetic classes have their parent.)
\<close>

theorem unseeded_import_is_refused:
  assumes wf: "owl_model_wf owl" and root: "om_contains (ow_classes owl) (io_action_root opts)"
    and version: "version_ok (io_version opts)" and seed: "io_merge_seed opts = None"
    and few: "length (ow_classes owl) < unat (io_min_objects opts)"
    and no_object: "\<forall>n \<in> set (om_keys (ow_classes owl)). to_pascal_case n \<noteq> ''Object''"
  shows "\<exists>m rep e. owl_import env owl opts = Some (Ok (m, rep)) \<and> from_manifest m = Err e"
proof -
  obtain objects actions xs ys m1 m0 b idx es m where
      choice: "choice_ok (resolve_property_domains owl) (io_action_root opts) (objects, actions)"
    and xs: "class_nodes env (resolve_property_domains owl) (io_version opts) True objects = Ok xs"
    and ys: "class_nodes env (resolve_property_domains owl) (io_version opts) False actions = Ok ys"
    and m1: "mm_taxonomy m1 = map fst (xs @ ys)"
    and m0: "m0 = (case io_merge_seed opts of Some seed \<Rightarrow> merge_seed m1 seed | None \<Rightarrow> m1)"
    and m: "m = m0\<lparr>mm_taxonomy := mm_taxonomy m0 @
              synthetic_nodes (synthetic_object env) 0 (unat (io_min_objects opts) - count_objects m0) @
              synthetic_nodes (synthetic_action env) idx (unat (io_min_actions opts) - count_actions m0),
            mm_elements := mm_elements m0 @ es\<rparr>"
    and result: "owl_import env owl opts = Some (Ok (m, import_report_of env (resolve_property_domains owl) opts m b))"
    by (rule import_accepted [OF wf root version])
  note classes = resolved_wf(3) [OF wf]
  let ?objs = "synthetic_nodes (synthetic_object env) 0 (unat (io_min_objects opts) - count_objects m0)"
  let ?acts = "synthetic_nodes (synthetic_action env) idx (unat (io_min_actions opts) - count_actions m0)"
  have tax: "mm_taxonomy m = map fst xs @ map fst ys @ ?objs @ ?acts" by (simp add: m m0 seed m1)
  have "filter is_object (map fst ys) = []" using class_nodes_D [OF ys] by (auto simp: filter_empty_conv)
  then have "count_objects m0 = length (filter is_object (map fst xs))"
    by (simp add: count_objects_def m0 seed m1)
  also have "\<dots> \<le> length xs" by (metis length_filter_le length_map)
  also have "length xs = length objects" using class_nodes_D [OF xs] by (metis length_map)
  finally have "count_objects m0 < unat (io_min_objects opts)"
    using class_count_bound [OF choice] few classes by simp
  then obtain n where n: "unat (io_min_objects opts) - count_objects m0 = Suc n" by (cases "unat (io_min_objects opts) - count_objects m0") auto
  have "set (objects @ actions) \<subseteq> set (om_keys (ow_classes owl))"
    using choice root classes by (auto simp: choice_ok_def om_contains_def)
  then have "''Object'' \<notin> set (map to_pascal_case (objects @ actions))" using no_object by auto
  also have "map to_pascal_case (objects @ actions) = map tn_name (map fst (xs @ ys))"
    using class_nodes_D [OF xs] class_nodes_D [OF ys] by simp
  finally have "''Object'' \<notin> tn_name ` set (map fst (xs @ ys))" by (auto simp: image_iff)
  moreover have "mm_taxonomy m = map fst (xs @ ys) @ synthetic_nodes (synthetic_object env) 0 (Suc n) @ ?acts"
    using tax n by simp
  ultimately have "\<exists>e. from_manifest m = Err e" by (intro padded_taxonomy_refused)
  with result show ?thesis by blast
qed

lemma unseeded_import_is_refused_witness:
  "\<exists>m rep e. owl_import toy_import_env cyclic_model (import_options_default ()) = Some (Ok (m, rep)) \<and> from_manifest m = Err e"
proof (rule unseeded_import_is_refused)
  show "owl_model_wf cyclic_model" by (rule owl_parse_wf [OF cyclic_parse])
  show "om_contains (ow_classes cyclic_model) (io_action_root (import_options_default ()))" by code_simp
  show "version_ok (io_version (import_options_default ()))" by code_simp
  show "io_merge_seed (import_options_default ()) = None" by (simp add: import_options_default_def)
  show "length (ow_classes cyclic_model) < unat (io_min_objects (import_options_default ()))"
    by (simp add: import_options_default_def cyclic_model_def)
  show "\<forall>n \<in> set (om_keys (ow_classes cyclic_model)). to_pascal_case n \<noteq> ''Object''" by code_simp
qed

text \<open>
  A list is looked for under a name with an underscore, while the lists made have names without: the check for
  duplicates in the second padding loop finds none, and the loop makes lists of the same name.
\<close>

lemma padded_code_lists_repeat:
  "map_option (map cl_name) (result_ok (pad_code_values toy_import_env 5 [] ''unit'' [''Close-Range'', ''close range''] [])) =
    Some [''UnitCloserange'', ''UnitCloserange'']"
  by code_simp

text \<open>A camel-case name loses its inner capitals; only separators start a word.\<close>

lemma pascal_case_examples:
  "to_pascal_case ''ACTION-EVENT'' = ''ActionEvent''" "to_pascal_case ''UnitRangeCode'' = ''Unitrangecode''"
  by code_simp+

text \<open>The kind of a range is decided by the first of the texts that its name contains.\<close>

lemma representation_term_examples:
  "representation_term_for_range (Some ''http://www.w3.org/2001/XMLSchema#dateTime'') = RtDateTime"
  "representation_term_for_range (Some ''xsd#dateTimeDuration'') = RtDateTime"
  "representation_term_for_range (Some ''ont#POINT'') = RtNumeric"
  by code_simp+

end
