(* ===== verification/Import_Cli.thy ===== *)
theory Import_Cli
  imports Import_Guarantees
begin

text \<open>
  Crate \<open>mim-import\<close>: where the ontology comes from (\<open>fetch.rs\<close>) and the command line that turns it into a manifest
  file (\<open>main.rs\<close>). HTTPS, the file system, the XML library and the JSON of manifests are parameters.
\<close>

section \<open>Sources (\<open>fetch.rs\<close>)\<close>

text \<open>HTTPS and the file system answer a text or the message of their error.\<close>

record import_net =
  in_https :: "string \<Rightarrow> string + string"
  in_exists :: "string \<Rightarrow> bool"
  in_read :: "string \<Rightarrow> string + string"
  in_create_dirs :: "string \<Rightarrow> string + unit"
  in_write :: "string \<Rightarrow> string \<Rightarrow> string + unit"
  in_parent :: "string \<Rightarrow> string option"
  in_bundled :: string

definition MIMWORLD_JC3IEDM_OWL_URL :: string where
  "MIMWORLD_JC3IEDM_OWL_URL = ''https://www.mimworld.org/attachments/download/JC3IEDM.owl''"

definition MIMWORLD_MIM_OWL_URL :: string where
  "MIMWORLD_MIM_OWL_URL = ''https://www.mimworld.org/attachments/download/MIM.owl''"

definition DISO_JC3IEDM_OWL_URL :: string where
  "DISO_JC3IEDM_OWL_URL = ''https://raw.githubusercontent.com/city-artificial-intelligence/diso/main/information-exchange/JC3IEDM/JC3IEDM.owl''"

definition fetch_https :: "import_net \<Rightarrow> string \<Rightarrow> mim_error + string" where
  "fetch_https net url = map_err MimIo (in_https net url)"

definition fetch_mimworld_owl :: "import_net \<Rightarrow> string \<Rightarrow> mim_error + string" where
  "fetch_mimworld_owl net url =
     (if starts_with url ''https://'' then fetch_https net url
      else if in_exists net url then map_err MimIo (in_read net url)
      else Err (MimNotFound (''mimworld source not found: '' @ url)))"

definition fetch_jc3iedm_owl :: "import_net \<Rightarrow> mim_error + string" where
  "fetch_jc3iedm_owl net =
     (case find_map (\<lambda>url. result_ok (fetch_https net url)) [MIMWORLD_JC3IEDM_OWL_URL, DISO_JC3IEDM_OWL_URL] of
        Some text \<Rightarrow> Ok text
      | None \<Rightarrow>
          if in_exists net (in_bundled net) then map_err MimIo (in_read net (in_bundled net))
          else Err (MimNotFound ''JC3IEDM OWL not available (mimworld, DISO mirror, or bundled copy)''))"

definition download_to_path :: "import_net \<Rightarrow> string \<Rightarrow> string \<Rightarrow> mim_error + unit" where
  "download_to_path net url output =
     and_then (fetch_mimworld_owl net url) (\<lambda>text.
     and_then (case in_parent net output of
                 Some parent \<Rightarrow> map_err MimIo (in_create_dirs net parent)
               | None \<Rightarrow> Ok ()) (\<lambda>_.
     map_err MimIo (in_write net output text)))"

definition load_owl_source :: "import_net \<Rightarrow> string \<Rightarrow> mim_error + string" where
  "load_owl_source net source =
     (if source = ''mimworld'' \<or> source = ''mimworld:jc3iedm'' then fetch_jc3iedm_owl net
      else if source = ''mimworld:mim'' then fetch_mimworld_owl net MIMWORLD_MIM_OWL_URL
      else if source = ''bundled:jc3iedm'' then map_err MimIo (in_read net (in_bundled net))
      else map_err MimIo (in_read net source))"

section \<open>The command line (\<open>main.rs\<close>)\<close>

record import_args =
  ia_owl_path :: "string option"
  ia_source :: "string option"
  ia_output_path :: string
  ia_merge_seed_path :: "string option"

definition import_args_default :: import_args where
  "import_args_default =
     \<lparr>ia_owl_path = None, ia_source = None, ia_output_path = ''models/mim-full-5.1.json'',
      ia_merge_seed_path = Some ''models/mim-core-5.1.json''\<rparr>"

text \<open>\<open>--owl\<close> and \<open>--source\<close> without a value are read as absent.\<close>

fun parse_import_args :: "string list \<Rightarrow> import_args \<Rightarrow> string + import_args" where
  "parse_import_args [] a = Ok a"
| "parse_import_args (arg # rest) a =
     (if arg = ''--owl'' then
        (case rest of [] \<Rightarrow> Ok (a\<lparr>ia_owl_path := None\<rparr>) | v # vs \<Rightarrow> parse_import_args vs (a\<lparr>ia_owl_path := Some v\<rparr>))
      else if arg = ''--source'' then
        (case rest of [] \<Rightarrow> Ok (a\<lparr>ia_source := None\<rparr>) | v # vs \<Rightarrow> parse_import_args vs (a\<lparr>ia_source := Some v\<rparr>))
      else if arg = ''--output'' then
        (case rest of [] \<Rightarrow> Err ''missing --output value''
         | v # vs \<Rightarrow> parse_import_args vs (a\<lparr>ia_output_path := v\<rparr>))
      else if arg = ''--merge'' then
        (case rest of [] \<Rightarrow> Err ''missing --merge value''
         | v # vs \<Rightarrow> parse_import_args vs (a\<lparr>ia_merge_seed_path := Some v\<rparr>))
      else if arg = ''--no-merge'' then parse_import_args rest (a\<lparr>ia_merge_seed_path := None\<rparr>)
      else Err (''unknown argument: '' @ arg))"

definition read_ontology :: "import_net \<Rightarrow> import_args \<Rightarrow> string + string" where
  "read_ontology net a =
     (case (ia_source a, ia_owl_path a) of
        (Some src, None) \<Rightarrow> map_err show_mim_error (load_owl_source net src)
      | (None, Some path) \<Rightarrow> map_err show_mim_error (load_owl_source net path)
      | (Some src, Some path) \<Rightarrow>
          if src = ''mimworld'' then in_read net path
          else Err (''specify --source mimworld or --owl <path> (mimworld JC3IEDM: '' @ MIMWORLD_JC3IEDM_OWL_URL @ '')'')
      | (None, None) \<Rightarrow>
          Err (''specify --source mimworld or --owl <path> (mimworld JC3IEDM: '' @ MIMWORLD_JC3IEDM_OWL_URL @ '')''))"

definition cli_options ::
  "import_net \<Rightarrow> (string \<Rightarrow> mim_error + mim_manifest) \<Rightarrow> import_args \<Rightarrow> string \<Rightarrow> 'f \<Rightarrow> string + 'f import_options" where
  "cli_options net decode a owl_data one =
     (let o0 = (import_options_default one)\<lparr>io_owl_xml := Some owl_data\<rparr>;
          o1 = (if ia_source a = Some ''mimworld'' \<or> ia_source a = Some ''mimworld:jc3iedm''
                then o0\<lparr>io_authoritative_mimworld := True,
                       io_description := ''Imported from mimworld.org JC3IEDM OWL (authoritative MIP source)''\<rparr>
                else o0)
      in case ia_merge_seed_path a of
           None \<Rightarrow> Ok o1
         | Some path \<Rightarrow>
             and_then (in_read net path) (\<lambda>text.
             and_then (map_err show_mim_error (manifest_from_json decode text)) (\<lambda>seed.
             Ok (o1\<lparr>io_merge_seed := Some seed\<rparr>))))"

text \<open>\<open>run\<close>: the manifest that is written and the report that is printed; the printer of manifests may fail.\<close>

definition import_run ::
  "'f import_env \<Rightarrow> 'f \<Rightarrow> import_net \<Rightarrow> (string \<Rightarrow> (string + px_event) list) \<Rightarrow> (string \<Rightarrow> mim_error + mim_manifest) \<Rightarrow>
    (mim_manifest \<Rightarrow> string + string) \<Rightarrow> string list \<Rightarrow> (string + mim_manifest \<times> 'f import_report) option" where
  "import_run env one net events decode encode args =
     (case and_then (parse_import_args args import_args_default) (\<lambda>a.
           and_then (read_ontology net a) (\<lambda>owl_data.
           and_then (map_err show_mim_error (owl_parse_xml events owl_data)) (\<lambda>owl.
           and_then (cli_options net decode a owl_data one) (\<lambda>opts. Ok (a, owl, opts))))) of
        Inl e \<Rightarrow> Some (Err e)
      | Inr (a, owl, opts) \<Rightarrow>
          map_option (\<lambda>r.
            and_then (map_err show_mim_error r) (\<lambda>(m, report).
            and_then (encode m) (\<lambda>json.
            and_then (case in_parent net (ia_output_path a) of
                        Some parent \<Rightarrow> in_create_dirs net parent
                      | None \<Rightarrow> Ok ()) (\<lambda>_.
            and_then (in_write net (ia_output_path a) json) (\<lambda>_. Ok (m, report))))))
          (owl_import env owl opts))"

section \<open>The command returns\<close>

text \<open>Whatever the arguments, the texts and the services answer, the command ends.\<close>

lemma import_run_returns: "\<exists>r. import_run env one net events decode encode args = Some r"
proof -
  let ?r = "and_then (parse_import_args args import_args_default) (\<lambda>a.
    and_then (read_ontology net a) (\<lambda>owl_data.
    and_then (map_err show_mim_error (owl_parse_xml events owl_data)) (\<lambda>owl.
    and_then (cli_options net decode a owl_data one) (\<lambda>opts. Ok (a, owl, opts)))))"
  show ?thesis
  proof (cases ?r)
    case (Inl e)
    then show ?thesis by (simp add: import_run_def)
  next
    case (Inr x)
    obtain a owl opts where x: "x = (a, owl, opts)" by (cases x)
    with Inr obtain owl_data where "owl_parse_xml events owl_data = Ok owl"
      by (auto simp: and_then_Inr_iff)
    then have "owl_model_wf owl" by (rule owl_parse_wf)
    then obtain r where "owl_import env owl opts = Some r" using owl_import_returns by blast
    then show ?thesis using Inr x by (simp add: import_run_def)
  qed
qed

text \<open>Without a network the bundled ontology is read.\<close>

lemma fetch_offline:
  assumes "\<forall>url. \<exists>e. in_https net url = Err e" "in_exists net (in_bundled net)"
  shows "fetch_jc3iedm_owl net = map_err MimIo (in_read net (in_bundled net))"
proof -
  have "result_ok (fetch_https net url) = None" for url
    using assms(1) [rule_format, of url] by (auto simp: fetch_https_def)
  with assms(2) show ?thesis by (simp add: fetch_jc3iedm_owl_def)
qed

text \<open>Arguments without a merge path leave the import without a seed.\<close>

lemma no_merge_has_no_seed:
  assumes "ia_merge_seed_path a = None" "cli_options net decode a text one = Ok opts"
  shows "io_merge_seed opts = None"
  using assms by (auto simp: cli_options_def Let_def import_options_default_def)

end
