(* ===== verification/F64.thy ===== *)
theory F64
  imports Rust_Prelude "HOL-Library.Log_Nat"
begin

text \<open>
  The \<open>f64\<close> of the code, as far as it is used: quotients, sums and comparisons of non-negative numbers. A value is the
  rational number it stands for, and each operation rounds its exact result to 53 significant bits, to the nearest
  value and to the even one of two that are equally near. The values that occur lie between \<open>2 ^ -64\<close> and \<open>2 ^ 64\<close>,
  so the limits of the exponent are not modelled, and no operand is infinite or NaN.
\<close>

type_synonym f64 = rat

section \<open>Rounding\<close>

definition round_even :: "rat \<Rightarrow> int" where
  "round_even y =
     (let d = y - of_int \<lfloor>y\<rfloor> in if d < 1 / 2 \<or> (d = 1 / 2 \<and> even \<lfloor>y\<rfloor>) then \<lfloor>y\<rfloor> else \<lfloor>y\<rfloor> + 1)"

text \<open>The exponent of a positive number: the place of its leading bit.\<close>

definition f64_exponent :: "rat \<Rightarrow> int" where
  "f64_exponent x =
     (case quotient_of x of (a, b) \<Rightarrow>
       (let k = bitlen a - bitlen b in if 2 powi k \<le> x then k else k - 1))"

definition f64_round_pos :: "rat \<Rightarrow> f64" where
  "f64_round_pos x = (let u = 2 powi (f64_exponent x - 52) in of_int (round_even (x / u)) * u)"

definition f64_round :: "rat \<Rightarrow> f64" where
  "f64_round x = (if x = 0 then 0 else if x < 0 then - f64_round_pos (- x) else f64_round_pos x)"

definition f64_add :: "f64 \<Rightarrow> f64 \<Rightarrow> f64" where
  "f64_add x y = f64_round (x + y)"

definition f64_div :: "f64 \<Rightarrow> f64 \<Rightarrow> f64" where
  "f64_div x y = f64_round (x / y)"

definition f64_mul :: "f64 \<Rightarrow> f64 \<Rightarrow> f64" where
  "f64_mul x y = f64_round (x * y)"

text \<open>\<open>as f64\<close> of an unsigned number, and \<open>sum\<close>.\<close>

definition f64_of_nat :: "nat \<Rightarrow> f64" where
  "f64_of_nat n = f64_round (of_nat n)"

definition f64_sum :: "f64 list \<Rightarrow> f64" where
  "f64_sum xs = foldl f64_add 0 xs"

section \<open>What rounding promises\<close>

text \<open>Rounding is monotone and keeps the numbers that have a 53-bit significand.\<close>

locale f64_rounding =
  fixes rnd :: "rat \<Rightarrow> rat"
  assumes mono: "x \<le> y \<Longrightarrow> rnd x \<le> rnd y"
    and exact: "\<bar>m\<bar> < 2 ^ 53 \<Longrightarrow> rnd (of_int m * 2 powi k) = of_int m * 2 powi k"
begin

lemma exact_int: "\<bar>m\<bar> < 2 ^ 53 \<Longrightarrow> rnd (of_int m) = of_int m"
  using exact [of m 0] by simp

lemma exact_nat: "n < 2 ^ 53 \<Longrightarrow> rnd (of_nat n) = of_nat n"
proof -
  assume "n < 2 ^ 53"
  then have "int n < int (2 ^ 53)" by (simp only: of_nat_less_iff)
  then show ?thesis using exact_int [of "int n"] by simp
qed

lemma exact_power: "rnd (2 powi k) = 2 powi k"
  using exact [of 1 k] by simp

lemma zero: "rnd 0 = 0" and one: "rnd 1 = 1"
  using exact_int [of 0] exact_int [of 1] by simp_all

lemma nonneg: "0 \<le> x \<Longrightarrow> 0 \<le> rnd x"
  using mono [of 0 x] zero by simp

lemma at_least_power: "2 powi k \<le> x \<Longrightarrow> 2 powi k \<le> rnd x"
  using mono [of "2 powi k" x] exact_power by simp

text \<open>A count compares with a bound below \<open>2 ^ 53\<close> as the exact number does.\<close>

lemma nat_le_iff:
  assumes "e < 2 ^ 53"
  shows "of_nat e \<le> rnd (of_nat n) \<longleftrightarrow> e \<le> n"
proof (cases "e \<le> n")
  case True
  then show ?thesis using mono [of "of_nat e" "of_nat n"] exact_nat [OF assms] by simp
next
  case False
  then have "rnd (of_nat n) = of_nat n" using assms by (intro exact_nat) simp
  with False show ?thesis by simp
qed

text \<open>The quotient of two counts reaches 1 exactly when the first reaches the second.\<close>

lemma quotient_ge_1_iff:
  assumes "0 < e" "e < 2 ^ 52"
  shows "1 \<le> rnd (rnd (of_nat n) / of_nat e) \<longleftrightarrow> e \<le> n"
proof (cases "e \<le> n")
  case True
  then have "of_nat e \<le> rnd (of_nat n)" using nat_le_iff [of e n] assms by simp
  then have "1 \<le> rnd (of_nat n) / of_nat e" using assms by (simp add: field_simps)
  then show ?thesis using mono [of 1] one True by fastforce
next
  case False
  let ?q = "of_nat n / of_nat e :: rat" and ?b = "of_int (2 ^ 53 - 1) * 2 powi - 53 :: rat"
  have n: "rnd (of_nat n) = of_nat n" using False assms by (intro exact_nat) simp
  have e: "(of_nat e :: rat) \<le> 2 ^ 52" using assms(2) by (metis less_imp_le of_nat_le_iff of_nat_numeral of_nat_power)
  have "(of_nat n :: rat) \<le> of_nat e - 1" using False by (simp add: le_diff_eq flip: of_nat_Suc)
  then have "?q \<le> 1 - 1 / of_nat e" using assms by (simp add: field_simps)
  also have "\<dots> \<le> 1 - 1 / 2 ^ 52" using e assms by (simp add: frac_le)
  also have "\<dots> \<le> ?b" by (simp add: power_int_def power_one_over)
  finally have "rnd ?q \<le> rnd ?b" by (rule mono)
  also have "\<dots> = ?b" by (intro exact) simp
  also have "\<dots> < 1" by (simp add: power_int_def power_one_over)
  finally show ?thesis using False n by simp
qed

end

section \<open>The rounding of the hardware keeps the promise\<close>

lemma round_even_of_int [simp]: "round_even (of_int m) = m"
  by (simp add: round_even_def)

lemma round_even_bounds: "\<lfloor>y\<rfloor> \<le> round_even y \<and> round_even y \<le> \<lfloor>y\<rfloor> + 1"
  by (simp add: round_even_def Let_def)

lemma round_even_mono:
  assumes "y \<le> z"
  shows "round_even y \<le> round_even z"
proof (cases "\<lfloor>y\<rfloor> = \<lfloor>z\<rfloor>")
  case True
  then show ?thesis using assms by (auto simp: round_even_def Let_def)
next
  case False
  then have "\<lfloor>y\<rfloor> + 1 \<le> \<lfloor>z\<rfloor>" using floor_mono [OF assms] by simp
  then show ?thesis using round_even_bounds [of y] round_even_bounds [of z] by simp
qed

lemma powi_less_imp: "(2 :: rat) powi j < 2 powi k \<Longrightarrow> j < k"
  using power_int_increasing [of k j "2 :: rat"] by (auto simp: not_less [symmetric])

lemma bitlen_powi:
  assumes "0 < a"
  shows "2 powi (bitlen a - 1) \<le> (of_int a :: rat)" "(of_int a :: rat) < 2 powi bitlen a"
proof -
  have len: "1 \<le> bitlen a" using assms bitlen_nonneg [of a] bitlen_eq_zero_iff [of a] by linarith
  have "(2 :: int) ^ nat (bitlen a - 1) \<le> a" "a < 2 ^ nat (bitlen a)" using bitlen_bounds [OF assms] by auto
  then have "(2 :: rat) ^ nat (bitlen a - 1) \<le> of_int a" "(of_int a :: rat) < 2 ^ nat (bitlen a)"
    by (metis of_int_le_iff of_int_numeral of_int_power, metis of_int_less_iff of_int_numeral of_int_power)
  then show "2 powi (bitlen a - 1) \<le> (of_int a :: rat)" "(of_int a :: rat) < 2 powi bitlen a"
    using len by (simp_all add: power_int_def)
qed

lemma f64_exponent_bounds:
  assumes "0 < x"
  shows "2 powi f64_exponent x \<le> x" "x < 2 powi (f64_exponent x + 1)"
proof -
  obtain a b where q: "quotient_of x = (a, b)" by (cases "quotient_of x")
  have b: "0 < b" using quotient_of_denom_pos [OF q] .
  have x: "x = of_int a / of_int b" using quotient_of_div [OF q] .
  have a: "0 < a" using assms b by (simp add: x zero_less_divide_iff)
  let ?k = "bitlen a - bitlen b"
  have "x < 2 powi bitlen a / 2 powi (bitlen b - 1)"
    unfolding x using bitlen_powi [OF a] bitlen_powi [OF b] a b by (intro frac_less) auto
  also have "\<dots> = 2 powi (?k + 1)" by (simp add: power_int_diff [symmetric] algebra_simps)
  finally have upper: "x < 2 powi (?k + 1)" .
  have "2 powi (?k - 1) = (2 :: rat) powi (bitlen a - 1) / 2 powi bitlen b"
    by (simp add: power_int_diff [symmetric] algebra_simps)
  also have "\<dots> \<le> x"
    unfolding x using bitlen_powi [OF a] bitlen_powi [OF b] b a by (intro frac_le) auto
  finally have lower: "2 powi (?k - 1) \<le> x" .
  show "2 powi f64_exponent x \<le> x" "x < 2 powi (f64_exponent x + 1)"
    using upper lower by (simp_all add: f64_exponent_def q Let_def)
qed

lemma f64_exponent_mono:
  assumes "0 < x" "x \<le> y"
  shows "f64_exponent x \<le> f64_exponent y"
proof -
  have "(2 :: rat) powi f64_exponent x < 2 powi (f64_exponent y + 1)"
    using f64_exponent_bounds(1) [OF assms(1)] f64_exponent_bounds(2) [of y] assms by linarith
  then show ?thesis using powi_less_imp by fastforce
qed

text \<open>A rounded number lies between the powers of two around it.\<close>

lemma f64_round_pos_between:
  assumes "0 < x"
  shows "2 powi f64_exponent x \<le> f64_round_pos x" "f64_round_pos x \<le> 2 powi (f64_exponent x + 1)"
proof -
  let ?e = "f64_exponent x"
  let ?u = "(2 :: rat) powi (?e - 52)"
  have u: "0 < ?u" by simp
  have low: "(2 :: rat) powi ?e = of_int (2 ^ 52) * ?u" and high: "(2 :: rat) powi (?e + 1) = of_int (2 ^ 53) * ?u"
    by (simp_all add: power_int_diff power_int_add)
  have "of_int (2 ^ 52) \<le> x / ?u" "x / ?u \<le> of_int (2 ^ 53)"
    using f64_exponent_bounds [OF assms] u low high by (simp_all add: pos_le_divide_eq pos_divide_le_eq)
  then have "2 ^ 52 \<le> round_even (x / ?u)" "round_even (x / ?u) \<le> 2 ^ 53"
    using round_even_mono round_even_of_int by metis+
  then have "of_int (2 ^ 52) \<le> (of_int (round_even (x / ?u)) :: rat)" "(of_int (round_even (x / ?u)) :: rat) \<le> of_int (2 ^ 53)"
    by (simp_all only: of_int_le_iff)
  then show "2 powi ?e \<le> f64_round_pos x" "f64_round_pos x \<le> 2 powi (?e + 1)"
    unfolding f64_round_pos_def Let_def low high using u by (simp_all add: mult_right_mono)
qed

lemma f64_round_pos_mono:
  assumes "0 < x" "x \<le> y"
  shows "f64_round_pos x \<le> f64_round_pos y"
proof (cases "f64_exponent x = f64_exponent y")
  case True
  have "x / 2 powi (f64_exponent y - 52) \<le> y / 2 powi (f64_exponent y - 52)"
    using assms by (intro divide_right_mono) auto
  then show ?thesis using True by (simp add: f64_round_pos_def Let_def round_even_mono)
next
  case False
  then have "f64_exponent x + 1 \<le> f64_exponent y" using f64_exponent_mono [OF assms] by simp
  then have "(2 :: rat) powi (f64_exponent x + 1) \<le> 2 powi f64_exponent y" by (intro power_int_increasing) auto
  then show ?thesis
    using f64_round_pos_between(2) [OF assms(1)] f64_round_pos_between(1) [of y] assms by linarith
qed

lemma f64_round_pos_exact:
  assumes "0 < m" "m < 2 ^ 53"
  shows "f64_round_pos (of_int m * 2 powi k) = of_int m * 2 powi k"
proof -
  let ?x = "of_int m * 2 powi k :: rat"
  let ?e = "f64_exponent ?x"
  have pos: "0 < ?x" using assms by simp
  have "(of_int m :: rat) < of_int (2 ^ 53)" using assms by (simp only: of_int_less_iff)
  then have "?x < 2 ^ 53 * 2 powi k" by simp
  also have "\<dots> = 2 powi (k + 53)" by (simp add: power_int_add)
  finally have "?x < 2 powi (k + 53)" .
  then have "(2 :: rat) powi ?e < 2 powi (k + 53)" using f64_exponent_bounds(1) [OF pos] by linarith
  then have "?e < k + 53" by (rule powi_less_imp)
  define d where "d = nat (k - (?e - 52))"
  define u :: rat where "u = 2 powi (?e - 52)"
  have "k = ?e - 52 + int d" using \<open>?e < k + 53\<close> by (simp add: d_def)
  then have k: "(2 :: rat) powi k = 2 ^ d * u"
    unfolding u_def by (metis mult.commute power_int_add power_int_of_nat zero_neq_numeral)
  have u: "0 < u" by (simp add: u_def)
  have "?x / u = of_int (m * 2 ^ d)" unfolding k using u by simp
  then have "round_even (?x / u) = m * 2 ^ d" by (simp only: round_even_of_int)
  then have "f64_round_pos ?x = of_int (m * 2 ^ d) * u" by (simp only: f64_round_pos_def Let_def u_def)
  also have "\<dots> = ?x" unfolding k by simp
  finally show ?thesis .
qed

lemma f64_round_mono:
  assumes "x \<le> y"
  shows "f64_round x \<le> f64_round y"
proof -
  have nonneg: "0 \<le> f64_round_pos z" if "0 < z" for z
    using f64_round_pos_between(1) [OF that] zero_less_power_int [of "2 :: rat" "f64_exponent z"] by linarith
  show ?thesis
    using assms f64_round_pos_mono [of x y] f64_round_pos_mono [of "- y" "- x"] nonneg [of "- x"] nonneg [of y]
    by (auto simp: f64_round_def)
qed

interpretation f64: f64_rounding f64_round
proof unfold_locales
  show "f64_round x \<le> f64_round y" if "x \<le> y" for x y using that by (rule f64_round_mono)
next
  fix m k :: int
  assume m: "\<bar>m\<bar> < 2 ^ 53"
  show "f64_round (of_int m * 2 powi k) = of_int m * 2 powi k"
  proof (cases m "0 :: int" rule: linorder_cases)
    case less
    then have "of_int m * (2 :: rat) powi k < 0" by (simp add: mult_neg_pos)
    then show ?thesis using less m f64_round_pos_exact [of "- m" k] by (simp add: f64_round_def)
  next
    case greater
    then have "0 < of_int m * (2 :: rat) powi k" by simp
    then show ?thesis using greater m f64_round_pos_exact [of m k] by (simp add: f64_round_def not_less [THEN iffD2, OF less_imp_le [OF \<open>0 < of_int m * (2 :: rat) powi k\<close>]])
  qed (simp add: f64_round_def)
qed

text \<open>The rounding at work: a third of one is below a third, and a tenth of three is not three times a tenth.\<close>

lemma f64_examples:
  "f64_div 1 3 < 1 / 3" "f64_add (f64_div 1 10) (f64_div 2 10) \<noteq> f64_div 3 10" "f64_div 1 2 = 1 / 2"
  by code_simp+

end
