(* ===== verification/Compliance.thy ===== *)
theory Compliance
  imports F64 Serialize Import_Guarantees
begin

text \<open>
  Crate \<open>mim-compliance\<close> (\<open>requirements.rs\<close>, \<open>report.rs\<close>, \<open>checker.rs\<close>) and the coverage ratios of
  \<open>mim-model/src/manifest.rs\<close>: the report that grades a manifest, its registry and a validation report in eight
  dimensions. Scores are \<open>f64\<close>; the decimal form \<open>{:.1}\<close> of a score is a parameter, as are the printers of the
  serializer.
\<close>

section \<open>Requirements\<close>

record expected_counts =
  ec_object_types :: u32
  ec_action_types :: u32
  ec_code_lists :: u32

definition expected_mim_5_1 :: expected_counts where
  "expected_mim_5_1 = \<lparr>ec_object_types = 2300, ec_action_types = 500, ec_code_lists = 400\<rparr>"

record compliance_requirements =
  cq_target_version :: string
  cq_expected_counts :: expected_counts
  cq_min_object_coverage :: f64
  cq_min_action_coverage :: f64
  cq_min_code_list_coverage :: f64
  cq_require_semantic_ids :: bool
  cq_require_nil_reason_support :: bool
  cq_require_metadata_support :: bool
  cq_require_representation_terms :: bool
  cq_require_zero_panic :: bool

definition compliance_requirements_default :: compliance_requirements where
  "compliance_requirements_default =
     \<lparr>cq_target_version = ''5.1.0'', cq_expected_counts = expected_mim_5_1,
      cq_min_object_coverage = 1, cq_min_action_coverage = 1, cq_min_code_list_coverage = 1,
      cq_require_semantic_ids = True, cq_require_nil_reason_support = True, cq_require_metadata_support = True,
      cq_require_representation_terms = True, cq_require_zero_panic = True\<rparr>"

section \<open>Reports\<close>

datatype compliance_dimension =
    DimModelCoverage | DimSemanticIds | DimNilReason | DimMetadata | DimRepresentationTerms
  | DimValidation | DimSerialization | DimZeroPanic

fun show_compliance_dimension :: "compliance_dimension \<Rightarrow> string" where
  "show_compliance_dimension DimModelCoverage = ''ModelCoverage''"
| "show_compliance_dimension DimSemanticIds = ''SemanticIds''"
| "show_compliance_dimension DimNilReason = ''NilReason''"
| "show_compliance_dimension DimMetadata = ''Metadata''"
| "show_compliance_dimension DimRepresentationTerms = ''RepresentationTerms''"
| "show_compliance_dimension DimValidation = ''Validation''"
| "show_compliance_dimension DimSerialization = ''Serialization''"
| "show_compliance_dimension DimZeroPanic = ''ZeroPanic''"

datatype compliance_status = StCompliant | StPartial | StNonCompliant

record dimension_result =
  dr_dimension :: compliance_dimension
  dr_status :: compliance_status
  dr_score :: f64
  dr_message :: string

record compliance_report =
  cp_target_version :: string
  cp_loaded_version :: string
  cp_overall_score :: f64
  cp_is_fully_compliant :: bool
  cp_dimensions :: "dimension_result list"
  cp_recommendations :: "string list"

definition report_dimension :: "compliance_report \<Rightarrow> compliance_dimension \<Rightarrow> dimension_result option" where
  "report_dimension r d = find (\<lambda>x. dr_dimension x = d) (cp_dimensions r)"

section \<open>Coverage (\<open>manifest.rs\<close>)\<close>

definition ratio_to :: "nat \<Rightarrow> u32 \<Rightarrow> f64" where
  "ratio_to count expected =
     (if expected = 0 then 1 else f64_div (f64_of_nat count) (f64_of_nat (unat expected)))"

definition coverage_ratio :: "mim_manifest \<Rightarrow> f64 \<times> f64 \<times> f64" where
  "coverage_ratio m =
     (ratio_to (length (filter is_object (mm_taxonomy m))) (mm_expected_object_types m),
      ratio_to (length (filter is_action (mm_taxonomy m))) (mm_expected_action_types m),
      ratio_to (length (mm_code_lists m)) (mm_expected_code_lists m))"

section \<open>The dimensions\<close>

text \<open>The decimal form \<open>{:.1}\<close> is the first argument where a message holds a percentage.\<close>

definition percent_text :: "(f64 \<Rightarrow> string) \<Rightarrow> f64 \<Rightarrow> string" where
  "percent_text fmt x = fmt (f64_mul x 100) @ ''%''"

definition meets_coverage :: "compliance_requirements \<Rightarrow> f64 \<times> f64 \<times> f64 \<Rightarrow> bool" where
  "meets_coverage q oac =
     (case oac of (object_ratio, action_ratio, code_list_ratio) \<Rightarrow>
        cq_min_object_coverage q \<le> object_ratio \<and> cq_min_action_coverage q \<le> action_ratio \<and>
        cq_min_code_list_coverage q \<le> code_list_ratio)"

definition dimension_coverage ::
  "(f64 \<Rightarrow> string) \<Rightarrow> compliance_requirements \<Rightarrow> f64 \<times> f64 \<times> f64 \<Rightarrow> dimension_result" where
  "dimension_coverage fmt q oac =
     (case oac of (object_ratio, action_ratio, code_list_ratio) \<Rightarrow>
        let score = f64_div (f64_add (f64_add object_ratio action_ratio) code_list_ratio) 3
        in \<lparr>dr_dimension = DimModelCoverage,
            dr_status = (if meets_coverage q oac then StCompliant else if 0 < score then StPartial else StNonCompliant),
            dr_score = score,
            dr_message = ''object '' @ percent_text fmt object_ratio @ '', action '' @ percent_text fmt action_ratio @
              '', code lists '' @ percent_text fmt code_list_ratio @ '' of MIM '' @ cq_target_version q @ '' targets''\<rparr>)"

definition dimension_semantic_ids :: "compliance_requirements \<Rightarrow> model_registry \<Rightarrow> dimension_result" where
  "dimension_semantic_ids q reg =
     (let total = element_count reg;
          score = (if total = 0 then 0 else 1 :: f64);
          compliant = (\<not> cq_require_semantic_ids q \<or> 1 \<le> score)
      in \<lparr>dr_dimension = DimSemanticIds, dr_status = (if compliant then StCompliant else StNonCompliant),
          dr_score = score,
          dr_message = show_nat total @ ''/'' @ show_nat total @
            '' manifest elements parsed with required semantic IDs''\<rparr>)"

definition dimension_nil_reason :: "compliance_requirements \<Rightarrow> dimension_result" where
  "dimension_nil_reason q =
     (let supported = length nil_reason_all;
          score = (if cq_require_nil_reason_support q \<and> 6 \<le> supported then 1
                   else if 0 < supported then f64_div (f64_of_nat supported) 6 else 0)
      in \<lparr>dr_dimension = DimNilReason, dr_status = (if 1 \<le> score then StCompliant else StPartial),
          dr_score = score, dr_message = show_nat supported @ '' nil reason variants implemented''\<rparr>)"

definition status_from_score :: "f64 \<Rightarrow> compliance_status" where
  "status_from_score score = (if 1 \<le> score then StCompliant else if 0 < score then StPartial else StNonCompliant)"

definition metadata_subtypes :: "string list" where
  "metadata_subtypes =
     [''Reporter'', ''Observer'', ''OperationalAppraisal'', ''ValidityPeriod'', ''SecurityClassification'']"

definition dimension_metadata :: "model_registry \<Rightarrow> dimension_result" where
  "dimension_metadata reg =
     (let has_root = (taxonomy_node_of reg ''Metadata'' \<noteq> None);
          loaded = length (filter (\<lambda>n. taxonomy_node_of reg n \<noteq> None) metadata_subtypes);
          attribute_count = length (filter (\<lambda>n. element_by_name reg n \<noteq> None) metadata_subtypes);
          score = (if has_root \<and> loaded = length metadata_subtypes \<and> 3 \<le> attribute_count then 1
                   else if has_root \<and> 0 < loaded then
                     f64_div (f64_of_nat loaded) (f64_of_nat (length metadata_subtypes))
                   else if has_root then 1 / 2 else 0)
      in \<lparr>dr_dimension = DimMetadata, dr_status = status_from_score score, dr_score = score,
          dr_message =
            (if 1 \<le> score then ''metadata taxonomy complete ('' @ show_nat loaded @ ''/'' @
               show_nat (length metadata_subtypes) @ '' subtypes, '' @ show_nat attribute_count @ '' elements)''
             else if has_root then ''metadata partial ('' @ show_nat loaded @ ''/'' @
               show_nat (length metadata_subtypes) @ '' subtypes loaded)''
             else ''metadata taxonomy root not loaded'')\<rparr>)"

definition dimension_representation_terms :: "model_registry \<Rightarrow> dimension_result" where
  "dimension_representation_terms reg =
     (let annotated_attributes = element_count reg - 1;
          framework_support = length representation_term_all;
          framework_score = (if 20 \<le> framework_support then 1 else f64_div (f64_of_nat framework_support) 20);
          annotation_score = (if 0 < annotated_attributes then 1 else 1 / 2);
          score = f64_div (f64_add framework_score annotation_score) 2
      in \<lparr>dr_dimension = DimRepresentationTerms, dr_status = status_from_score score, dr_score = score,
          dr_message = show_nat framework_support @ '' UN/CEFACT representation terms in framework''\<rparr>)"

definition dimension_validation :: "validation_report \<Rightarrow> dimension_result" where
  "dimension_validation v =
     \<lparr>dr_dimension = DimValidation, dr_status = (if is_valid v then StCompliant else StNonCompliant),
      dr_score = (if is_valid v then 1 else 0), dr_message = show_nat (error_count v) @ '' validation errors''\<rparr>"

definition smoke_sample :: "model_registry \<Rightarrow> model_element_spec option" where
  "smoke_sample reg =
     (case element_by_name reg ''Object'' of
        Some e \<Rightarrow> Some e
      | None \<Rightarrow> (case element_by_name reg ''Unit'' of
          Some e \<Rightarrow> Some e
        | None \<Rightarrow> element_by_name reg ''Task''))"

definition serialization_smoke_test :: "serial_env \<Rightarrow> model_registry \<Rightarrow> mim_error + unit" where
  "serialization_smoke_test env reg =
     and_then (ok_or (MimCompliance ''no sample class for smoke test'') (smoke_sample reg)) (\<lambda>sample.
     let i = mim_instance_new (sx_fresh_uuid env) (me_name sample) (me_semantic_id sample) in
     and_then (sx_serialize_instance env reg i SfJson) (\<lambda>j.
     and_then (sx_serialize_instance env reg i SfXml) (\<lambda>x.
     if j = [] \<or> x = [] \<or> \<not> contains_str x ''<?xml''
     then Err (MimCompliance ''serialization smoke test produced empty output'')
     else Ok ())))"

definition dimension_serialization :: "serial_env \<Rightarrow> model_registry \<Rightarrow> dimension_result" where
  "dimension_serialization env reg =
     (let smoke = serialization_smoke_test env reg;
          score = (case smoke of Inr _ \<Rightarrow> 1 | Inl _ \<Rightarrow> 0)
      in \<lparr>dr_dimension = DimSerialization, dr_status = status_from_score score, dr_score = score,
          dr_message = (case smoke of Inl e \<Rightarrow> show_mim_error e | Inr _ \<Rightarrow> ''JSON and XML round-trip smoke test passed'')\<rparr>)"

definition dimension_zero_panic :: "compliance_requirements \<Rightarrow> dimension_result" where
  "dimension_zero_panic q =
     (let score = (if cq_require_zero_panic q then 1 else 0 :: f64)
      in \<lparr>dr_dimension = DimZeroPanic, dr_status = status_from_score score, dr_score = score,
          dr_message = ''workspace crates deny unwrap/expect/panic via clippy lints; release profile panic=abort''\<rparr>)"

section \<open>The report\<close>

definition import_recommendation ::
  "(f64 \<Rightarrow> string) \<Rightarrow> compliance_requirements \<Rightarrow> string \<Rightarrow> string \<Rightarrow> f64 \<Rightarrow> f64 \<Rightarrow> u32 \<Rightarrow> string list" where
  "import_recommendation fmt q what unit_name least ratio expected =
     (if ratio < least
      then [''Import MIM '' @ cq_target_version q @ '' '' @ what @ '' (currently '' @ percent_text fmt ratio @
            '' of '' @ show_nat (unat expected) @ '' '' @ unit_name @ '')'']
      else [])"

definition compliance_recommendations ::
  "(f64 \<Rightarrow> string) \<Rightarrow> compliance_requirements \<Rightarrow> f64 \<times> f64 \<times> f64 \<Rightarrow> dimension_result list \<Rightarrow> string list" where
  "compliance_recommendations fmt q oac ds =
     (case oac of (object_ratio, action_ratio, code_list_ratio) \<Rightarrow>
        let counts = cq_expected_counts q;
            items =
              import_recommendation fmt q ''object taxonomy'' ''types'' (cq_min_object_coverage q) object_ratio
                (ec_object_types counts) @
              import_recommendation fmt q ''action taxonomy'' ''types'' (cq_min_action_coverage q) action_ratio
                (ec_action_types counts) @
              import_recommendation fmt q ''code lists'' ''lists'' (cq_min_code_list_coverage q) code_list_ratio
                (ec_code_lists counts) @
              map (\<lambda>d. ''Improve '' @ show_compliance_dimension (dr_dimension d) @ '': '' @ dr_message d)
                (filter (\<lambda>d. dr_status d \<noteq> StCompliant) ds)
        in if items = [] then [''Stack meets all configured compliance requirements.''] else items)"

definition compliance_dimensions ::
  "(f64 \<Rightarrow> string) \<Rightarrow> serial_env \<Rightarrow> compliance_requirements \<Rightarrow> mim_manifest \<Rightarrow> model_registry \<Rightarrow>
    validation_report \<Rightarrow> dimension_result list" where
  "compliance_dimensions fmt env q m reg v =
     [dimension_coverage fmt q (coverage_ratio m), dimension_semantic_ids q reg, dimension_nil_reason q,
      dimension_metadata reg, dimension_representation_terms reg, dimension_validation v,
      dimension_serialization env reg, dimension_zero_panic q]"

definition compliance_evaluate ::
  "(f64 \<Rightarrow> string) \<Rightarrow> serial_env \<Rightarrow> compliance_requirements \<Rightarrow> mim_manifest \<Rightarrow> model_registry \<Rightarrow>
    validation_report \<Rightarrow> compliance_report" where
  "compliance_evaluate fmt env q m reg v =
     (let oac = coverage_ratio m;
          ds = compliance_dimensions fmt env q m reg v
      in \<lparr>cp_target_version = cq_target_version q, cp_loaded_version = mr_version reg,
          cp_overall_score = f64_div (f64_sum (map dr_score ds)) (f64_of_nat (length ds)),
          cp_is_fully_compliant = (list_all (\<lambda>d. dr_status d = StCompliant) ds \<and> meets_coverage q oac),
          cp_dimensions = ds,
          cp_recommendations = compliance_recommendations fmt q oac ds\<rparr>)"

definition evaluate_runtime_smoke :: "model_registry \<Rightarrow> validation_report option" where
  "evaluate_runtime_smoke reg = validate_store reg instance_store_default"

section \<open>The dimensions decided\<close>

lemma ratio_reaches_one: "1 \<le> ratio_to n e \<longleftrightarrow> unat e \<le> n"
proof (cases "e = 0")
  case False
  have e: "0 < unat e" "unat e < 2 ^ 32" using False unsigned_less [of e, where 'a = nat] by (simp_all add: unat_gt_0)
  then have "f64_of_nat (unat e) = of_nat (unat e)" unfolding f64_of_nat_def by (intro f64.exact_nat) simp
  then show ?thesis
    using False e f64.quotient_ge_1_iff [of "unat e" n] by (simp add: ratio_to_def f64_div_def f64_of_nat_def)
qed (simp add: ratio_to_def)

lemma dimension_scores:
  "dr_status (dimension_semantic_ids q reg) = StCompliant \<longleftrightarrow> \<not> cq_require_semantic_ids q \<or> element_count reg \<noteq> 0"
  "dr_status (dimension_validation v) = StCompliant \<longleftrightarrow> is_valid v"
  "dr_status (dimension_serialization env reg) = StCompliant \<longleftrightarrow> serialization_smoke_test env reg = Ok ()"
  "dr_status (dimension_zero_panic q) = StCompliant \<longleftrightarrow> cq_require_zero_panic q"
  by (auto simp: dimension_semantic_ids_def dimension_validation_def dimension_serialization_def
      dimension_zero_panic_def status_from_score_def Let_def split: sum.split)

lemma nil_reason_always: "dr_status (dimension_nil_reason q) = StCompliant"
proof -
  have "length nil_reason_all = 6" by (simp add: nil_reason_all_def)
  moreover have "f64_div (f64_of_nat 6) 6 = 1" by code_simp
  ultimately show ?thesis by (simp add: dimension_nil_reason_def)
qed

text \<open>
  The number of elements among the metadata types does not matter: when all five subtypes are loaded the second branch
  of the code gives \<open>5 / 5\<close>, whatever the test for three elements says.
\<close>

lemma metadata_decided:
  "dr_status (dimension_metadata reg) = StCompliant \<longleftrightarrow>
    taxonomy_node_of reg ''Metadata'' \<noteq> None \<and> (\<forall>n \<in> set metadata_subtypes. taxonomy_node_of reg n \<noteq> None)"
proof (cases "length (filter (\<lambda>n. taxonomy_node_of reg n \<noteq> None) metadata_subtypes) < 5")
  case True
  define loaded where "loaded = length (filter (\<lambda>n. taxonomy_node_of reg n \<noteq> None) metadata_subtypes)"
  have l: "loaded < 5" "length metadata_subtypes = 5" using True by (simp_all add: loaded_def metadata_subtypes_def)
  have "f64_of_nat 5 = 5" by code_simp
  moreover have "f64_of_nat loaded = of_nat loaded" using l by (simp add: f64_of_nat_def f64.exact_nat)
  moreover have "\<not> 1 \<le> f64_round (f64_round (of_nat loaded) / of_nat 5)"
    using f64.quotient_ge_1_iff [of 5 loaded] l by simp
  ultimately have "\<not> 1 \<le> f64_div (f64_of_nat loaded) (f64_of_nat (length metadata_subtypes))"
    using l by (simp add: f64_div_def f64_of_nat_def)
  then have "dr_status (dimension_metadata reg) \<noteq> StCompliant"
    unfolding dimension_metadata_def Let_def loaded_def [symmetric] using l by (auto simp: status_from_score_def)
  moreover have "\<not> (\<forall>n \<in> set metadata_subtypes. taxonomy_node_of reg n \<noteq> None)"
  proof
    assume "\<forall>n \<in> set metadata_subtypes. taxonomy_node_of reg n \<noteq> None"
    then show False using l by (simp add: loaded_def)
  qed
  ultimately show ?thesis by blast
next
  case False
  have len: "length metadata_subtypes = 5" by (simp add: metadata_subtypes_def)
  have five: "length (filter (\<lambda>n. taxonomy_node_of reg n \<noteq> None) metadata_subtypes) = 5"
    using False length_filter_le [of "\<lambda>n. taxonomy_node_of reg n \<noteq> None" metadata_subtypes] len by simp
  then have all: "(\<forall>n \<in> set metadata_subtypes. taxonomy_node_of reg n \<noteq> None) = True"
    using length_filter_less [of _ metadata_subtypes "\<lambda>n. taxonomy_node_of reg n \<noteq> None"] len by fastforce
  have one: "f64_div (f64_of_nat 5) (f64_of_nat 5) = 1" by code_simp
  define attrs where "attrs = length (filter (\<lambda>n. element_by_name reg n \<noteq> None) metadata_subtypes)"
  show ?thesis
    unfolding dimension_metadata_def Let_def five all len one attrs_def [symmetric] by (simp add: status_from_score_def)
qed

lemma representation_terms_decided:
  "dr_status (dimension_representation_terms reg) = StCompliant \<longleftrightarrow> 1 < element_count reg"
proof -
  have "f64_div (f64_add 1 1) 2 = 1" "f64_div (f64_add 1 (1 / 2)) 2 = 3 / 4" by code_simp+
  then show ?thesis
    by (auto simp: dimension_representation_terms_def representation_term_all_def status_from_score_def Let_def)
qed

lemma coverage_decided: "dr_status (dimension_coverage fmt q oac) = StCompliant \<longleftrightarrow> meets_coverage q oac"
  by (simp add: dimension_coverage_def Let_def split: prod.split)

text \<open>A registry without elements has no sample class.\<close>

lemma smoke_needs_elements: "serialization_smoke_test env reg = Ok () \<Longrightarrow> element_count reg \<noteq> 0"
  by (auto simp: serialization_smoke_test_def and_then_Inr_iff smoke_sample_def element_by_name_def element_count_def
      im_get_def split: option.splits)

section \<open>What full compliance means\<close>

text \<open>
  C38: a report is fully compliant exactly when the three coverage ratios reach their minima, the registry has more than
  one element, the metadata root and its five subtypes are in the taxonomy, the validation found no error, an instance
  of a sample class can be written as JSON and as XML, and the requirements ask for the absence of panics.
\<close>

theorem full_compliance_exact:
  "cp_is_fully_compliant (compliance_evaluate fmt env q m reg v) \<longleftrightarrow>
    meets_coverage q (coverage_ratio m) \<and> 1 < element_count reg \<and>
    taxonomy_node_of reg ''Metadata'' \<noteq> None \<and> list_all (\<lambda>n. taxonomy_node_of reg n \<noteq> None) metadata_subtypes \<and>
    is_valid v \<and> serialization_smoke_test env reg = Ok () \<and> cq_require_zero_panic q"
  by (auto simp: compliance_evaluate_def compliance_dimensions_def Let_def coverage_decided dimension_scores
      nil_reason_always metadata_decided representation_terms_decided list_all_iff)

lemma default_coverage:
  "meets_coverage compliance_requirements_default (coverage_ratio m) \<longleftrightarrow>
    unat (mm_expected_object_types m) \<le> length (filter is_object (mm_taxonomy m)) \<and>
    unat (mm_expected_action_types m) \<le> length (filter is_action (mm_taxonomy m)) \<and>
    unat (mm_expected_code_lists m) \<le> length (mm_code_lists m)"
  by (simp add: meets_coverage_def compliance_requirements_default_def coverage_ratio_def ratio_reaches_one)

lemma recommendations_exact:
  "cp_recommendations (compliance_evaluate fmt env q m reg v) = [''Stack meets all configured compliance requirements.''] \<longleftrightarrow>
    cp_is_fully_compliant (compliance_evaluate fmt env q m reg v)"
proof -
  let ?ds = "compliance_dimensions fmt env q m reg v"
  have "list_all (\<lambda>d. dr_status d = StCompliant) ?ds \<longleftrightarrow> filter (\<lambda>d. dr_status d \<noteq> StCompliant) ?ds = []"
    by (simp add: list_all_iff filter_empty_conv)
  then show ?thesis
    by (auto simp: compliance_evaluate_def compliance_recommendations_def meets_coverage_def Let_def
        import_recommendation_def not_less append_eq_Cons_conv split: prod.split)
qed

text \<open>Two of the requirements are never read, and a third can only be relaxed at the price of full compliance.\<close>

lemma ignored_requirements:
  fixes q b c
  defines "q' \<equiv> q\<lparr>cq_require_metadata_support := b, cq_require_representation_terms := c\<rparr>"
  shows "compliance_evaluate fmt env q' m reg v = compliance_evaluate fmt env q m reg v"
proof -
  have same: "cq_target_version q' = cq_target_version q" "cq_expected_counts q' = cq_expected_counts q"
      "cq_min_object_coverage q' = cq_min_object_coverage q" "cq_min_action_coverage q' = cq_min_action_coverage q"
      "cq_min_code_list_coverage q' = cq_min_code_list_coverage q"
      "cq_require_semantic_ids q' = cq_require_semantic_ids q"
      "cq_require_nil_reason_support q' = cq_require_nil_reason_support q"
      "cq_require_zero_panic q' = cq_require_zero_panic q"
    by (simp_all add: q'_def)
  moreover have "meets_coverage q' = meets_coverage q" "dimension_semantic_ids q' = dimension_semantic_ids q"
      "dimension_nil_reason q' = dimension_nil_reason q" "dimension_zero_panic q' = dimension_zero_panic q"
      "import_recommendation fmt q' = import_recommendation fmt q"
    by (simp_all only: fun_eq_iff same meets_coverage_def dimension_semantic_ids_def dimension_nil_reason_def
        dimension_zero_panic_def import_recommendation_def simp_thms)
  ultimately show ?thesis
    by (simp only: compliance_evaluate_def compliance_dimensions_def compliance_recommendations_def dimension_coverage_def)
qed

lemma panic_requirement_cannot_be_dropped:
  "\<not> cq_require_zero_panic q \<Longrightarrow> \<not> cp_is_fully_compliant (compliance_evaluate fmt env q m reg v)"
  by (auto simp: compliance_evaluate_def compliance_dimensions_def Let_def dimension_scores)

text \<open>The smoke validation looks at the empty store and cannot find an error.\<close>

lemma runtime_smoke_is_valid: "evaluate_runtime_smoke reg = Some []"
  by (simp add: evaluate_runtime_smoke_def validate_store_def store_instances_def instance_store_default_def im_values_def)

section \<open>Coverage after an import\<close>

text \<open>
  The synthetic classes of the import fill the coverage of object and action types: whatever classes an ontology has,
  an accepted import reaches the ratio 1 in both.
\<close>

lemma import_fills_coverage:
  assumes wf: "owl_model_wf owl" and m: "owl_import env owl opts = Some (Ok (m, rep))"
  shows "case coverage_ratio m of (object_ratio, action_ratio, _) \<Rightarrow> 1 \<le> object_ratio \<and> 1 \<le> action_ratio"
proof -
  have "om_contains (ow_classes owl) (io_action_root opts) \<and> version_ok (io_version opts)"
    using import_rejected [OF wf, of opts env] m by fastforce
  from import_outcome [OF wf this, of env] m show ?thesis
    by (simp add: coverage_ratio_def ratio_reaches_one count_objects_def count_actions_def)
qed

section \<open>A score is not a verdict\<close>

definition crowded_manifest :: mim_manifest where
  "crowded_manifest =
     \<lparr>mm_version = ''5.1.0'', mm_release_date = [], mm_description = [], mm_expected_object_types = 1,
      mm_expected_action_types = 0, mm_expected_code_lists = 0,
      mm_taxonomy = replicate 12 ((sample_node ''Object'' None)\<lparr>tn_object_kind := Some ObFeature\<rparr>),
      mm_elements = [], mm_code_lists = []\<rparr>"

text \<open>
  The ratios are not cut off at 1, so twelve object types where one is expected lift the overall score of a stack whose
  registry is empty above 1, the score of a compliant stack.
\<close>

lemma score_is_not_capped:
  "1 < cp_overall_score (compliance_evaluate fmt env compliance_requirements_default crowded_manifest
      (empty_registry ''5.1.0'') [])"
  "\<not> cp_is_fully_compliant (compliance_evaluate fmt env compliance_requirements_default crowded_manifest
      (empty_registry ''5.1.0'') [])"
proof -
  let ?reg = "empty_registry ''5.1.0''"
  have reg: "element_count ?reg = 0" "taxonomy_node_of ?reg n = None" "element_by_name ?reg n = None" for n
    by (simp_all add: empty_registry_def element_count_def taxonomy_node_of_def element_by_name_def im_get_def)
  have ratios: "coverage_ratio crowded_manifest = (12, 1, 1)" by code_simp
  have smoke: "serialization_smoke_test env ?reg \<noteq> Ok ()" using smoke_needs_elements reg(1) by blast
  have scores: "dr_score (dimension_coverage fmt compliance_requirements_default (12, 1, 1)) = f64_div (f64_add (f64_add 12 1) 1) 3"
      "dr_score (dimension_semantic_ids compliance_requirements_default ?reg) = 0"
      "dr_score (dimension_nil_reason compliance_requirements_default) = 1"
      "dr_score (dimension_metadata ?reg) = 0"
      "dr_score (dimension_representation_terms ?reg) = f64_div (f64_add 1 (1 / 2)) 2"
      "dr_score (dimension_validation []) = 1"
      "dr_score (dimension_serialization env ?reg) = 0"
      "dr_score (dimension_zero_panic compliance_requirements_default) = 1"
    using smoke
    by (simp_all add: dimension_coverage_def dimension_semantic_ids_def dimension_nil_reason_def dimension_metadata_def
        dimension_representation_terms_def dimension_validation_def dimension_serialization_def dimension_zero_panic_def
        Let_def reg compliance_requirements_default_def nil_reason_all_def representation_term_all_def is_valid_def
        split: sum.split)
  let ?ds = "compliance_dimensions fmt env compliance_requirements_default crowded_manifest ?reg []"
  have len: "length ?ds = 8" by (simp add: compliance_dimensions_def)
  have dims: "map dr_score ?ds =
      [f64_div (f64_add (f64_add 12 1) 1) 3, 0, 1, 0, f64_div (f64_add 1 (1 / 2)) 2, 1, 0, 1]"
    by (simp add: compliance_dimensions_def ratios scores)
  have "1 < f64_div (f64_sum [f64_div (f64_add (f64_add 12 1) 1) 3, 0, 1, 0, f64_div (f64_add 1 (1 / 2)) 2, 1, 0, 1])
      (f64_of_nat 8)" by code_simp
  then show "1 < cp_overall_score (compliance_evaluate fmt env compliance_requirements_default crowded_manifest ?reg [])"
    by (simp add: compliance_evaluate_def Let_def len dims)
  show "\<not> cp_is_fully_compliant (compliance_evaluate fmt env compliance_requirements_default crowded_manifest ?reg [])"
    by (simp add: full_compliance_exact reg)
qed

end
