(* ===== verification/Labeling_Compliance.thy ===== *)
theory Labeling_Compliance
  imports F64 Domain_Transfer Siem Runtime_Pki
begin

text \<open>
  Crate \<open>mim-labeling-compliance\<close> (\<open>requirements.rs\<close>, \<open>report.rs\<close>, \<open>checker.rs\<close>): the acceptance check of the labelling
  stack, which runs codec, bindings, packages, guard, policy plane, SPIF registry and audit log on fixed labels. A
  \<open>None\<close> is a panic of an \<open>expect\<close>. The libraries, the fixture keys, the entropy and the stamps of the run are the record
  \<open>labeling_env\<close>; the file behind the second audit log is its content.
\<close>

section \<open>Requirements and reports\<close>

record labeling_requirements =
  lq_stanag4774 :: bool
  lq_stanag4778 :: bool
  lq_ztdf :: bool
  lq_dcs :: bool
  lq_policy_plane :: bool
  lq_assertion_binding :: bool
  lq_nato_policy :: bool
  lq_capco_policy :: bool
  lq_uk_policy :: bool
  lq_spif :: bool
  lq_audit :: bool
  lq_fips_crypto :: bool

definition labeling_requirements_default :: labeling_requirements where
  "labeling_requirements_default =
     \<lparr>lq_stanag4774 = True, lq_stanag4778 = True, lq_ztdf = True, lq_dcs = True, lq_policy_plane = True,
      lq_assertion_binding = True, lq_nato_policy = True, lq_capco_policy = True, lq_uk_policy = True, lq_spif = True,
      lq_audit = True, lq_fips_crypto = True\<rparr>"

datatype labeling_dimension =
    LdStanag4774 | LdStanag4778 | LdZtdf | LdDcsCrossDomain | LdPolicyPlane | LdNatoPolicy | LdAssertionBinding
  | LdCapcoPolicy | LdUkPolicy | LdSpifIngestion | LdAuditTrail | LdFipsCrypto

fun show_labeling_dimension :: "labeling_dimension \<Rightarrow> string" where
  "show_labeling_dimension LdStanag4774 = ''Stanag4774''"
| "show_labeling_dimension LdStanag4778 = ''Stanag4778''"
| "show_labeling_dimension LdZtdf = ''Ztdf''"
| "show_labeling_dimension LdDcsCrossDomain = ''DcsCrossDomain''"
| "show_labeling_dimension LdPolicyPlane = ''PolicyPlane''"
| "show_labeling_dimension LdNatoPolicy = ''NatoPolicy''"
| "show_labeling_dimension LdAssertionBinding = ''AssertionBinding''"
| "show_labeling_dimension LdCapcoPolicy = ''CapcoPolicy''"
| "show_labeling_dimension LdUkPolicy = ''UkPolicy''"
| "show_labeling_dimension LdSpifIngestion = ''SpifIngestion''"
| "show_labeling_dimension LdAuditTrail = ''AuditTrail''"
| "show_labeling_dimension LdFipsCrypto = ''FipsCrypto''"

datatype labeling_status = LsCompliant | LsPartial | LsNonCompliant

record labeling_result =
  lr_dimension :: labeling_dimension
  lr_status :: labeling_status
  lr_score :: f64
  lr_message :: string

record labeling_report =
  lb_overall_score :: f64
  lb_is_fully_compliant :: bool
  lb_dimensions :: "labeling_result list"
  lb_recommendations :: "string list"

definition labeling_report_dimension :: "labeling_report \<Rightarrow> labeling_dimension \<Rightarrow> labeling_result option" where
  "labeling_report_dimension r d = find (\<lambda>x. lr_dimension x = d) (lb_dimensions r)"

definition labeling_status_from_score :: "f64 \<Rightarrow> bool \<Rightarrow> labeling_status" where
  "labeling_status_from_score score required =
     (if \<not> required then LsCompliant
      else if 1 \<le> score then LsCompliant else if 0 < score then LsPartial else LsNonCompliant)"

text \<open>The construction that all dimensions share.\<close>

definition labeling_result_of :: "labeling_dimension \<Rightarrow> bool \<Rightarrow> f64 \<Rightarrow> string \<Rightarrow> labeling_result" where
  "labeling_result_of d required score message =
     \<lparr>lr_dimension = d, lr_status = labeling_status_from_score score required, lr_score = score, lr_message = message\<rparr>"

section \<open>The environment of a run\<close>

record 's labeling_env =
  lv_ztdf :: ztdf_env
  lv_audit_codec :: audit_codec
  lv_siem_pretty :: "json \<Rightarrow> string + string"
  lv_provider_name :: string
  lv_fixtures :: fixture_keys
  lv_config :: "'s config_env"
  lv_guard_audit :: "'s audit_env"
  lv_entropy :: "nat \<Rightarrow> ztdf_entropy"
  lv_stamp :: "nat \<Rightarrow> stamp"
  lv_temp_file :: "string + string option"

abbreviation lv_codec :: "'s labeling_env \<Rightarrow> label_codec" where
  "lv_codec env \<equiv> ze_codec (lv_ztdf env)"

abbreviation lv_crypto :: "'s labeling_env \<Rightarrow> crypto_provider" where
  "lv_crypto env \<equiv> ze_crypto (lv_ztdf env)"

definition checker_label :: conf_label where
  "checker_label = with_category (releasable_to_marking [''USA'', ''GBR'']) (conf_label_new nato_policy Secret)"

definition mim_payload :: string where
  "mim_payload = [CHR 0x7B, CHR 0x22] @ ''instances'' @ [CHR 0x22] @ '':[]}''"

definition ztdf_payload :: string where
  "ztdf_payload =
     [CHR 0x7B, CHR 0x22] @ ''modelVersion'' @ [CHR 0x22] @ '':'' @ [CHR 0x22] @ ''5.1.0'' @ [CHR 0x22, CHR 0x7D]"

definition assertion_payload :: string where
  "assertion_payload = [CHR 0x7B, CHR 0x22] @ ''test'' @ [CHR 0x22] @ '':true}''"

section \<open>The dimensions\<close>

definition check_stanag4774 :: "'s labeling_env \<Rightarrow> labeling_requirements \<Rightarrow> labeling_result" where
  "check_stanag4774 env q =
     (let xml_ok = is_ok (codec_round_trip (lv_codec env) checker_label Xml);
          json_ok = is_ok (codec_round_trip (lv_codec env) checker_label JsonStructured)
      in labeling_result_of LdStanag4774 (lq_stanag4774 q)
           (if xml_ok \<and> json_ok then 1 else if xml_ok \<or> json_ok then 1 / 2 else 0)
           (if xml_ok \<and> json_ok then ''STANAG 4774 XML and JSON-structured round-trip passed''
            else ''STANAG 4774 codec round-trip failed''))"

text \<open>The seven profiles, with the keys of the ring.\<close>

definition stanag4778_profiles :: "'s labeling_env \<Rightarrow> key_pair \<Rightarrow> bool list" where
  "stanag4778_profiles env keys =
     (let lx = lv_codec env; cp = lv_crypto env; l = checker_label; p = mim_payload;
          sk = kp_signing keys; vk = kp_verifying keys in
      [is_ok (embedded lx cp l p), is_ok (xml_embedded lx cp l p), is_ok (encapsulated lx cp l p),
       is_ok (detached lx cp l p ''label.xml''),
       is_ok (and_then (assertion_bound lx cp l p sk) (\<lambda>b. bdo_verify lx cp (ze_files (lv_ztdf env)) b p (Some vk))),
       is_ok (and_then (rest_wrap lx cp l p sk) (\<lambda>e. rest_verify lx cp e vk)),
       is_ok (and_then (smtp_create lx cp l p sk) (\<lambda>b. smtp_verify lx cp b p vk))])"

definition passed_ratio :: "bool list \<Rightarrow> f64" where
  "passed_ratio checks = f64_div (f64_of_nat (length (filter id checks))) (f64_of_nat (length checks))"

definition check_stanag4778 :: "'s labeling_env \<Rightarrow> nmb_key_ring \<Rightarrow> labeling_requirements \<Rightarrow> labeling_result" where
  "check_stanag4778 env ring q =
     (let score = passed_ratio (stanag4778_profiles env (kr_nmb ring))
      in labeling_result_of LdStanag4778 (lq_stanag4778 q) score
           (if 1 \<le> score then ''All STANAG 4778 binding profiles operational with integrity verification''
            else ''STANAG 4778 binding profile coverage incomplete''))"

definition ztdf_operational :: "'s labeling_env \<Rightarrow> nmb_key_ring \<Rightarrow> bool" where
  "ztdf_operational env ring =
     is_ok (and_then
       (package_create (lv_ztdf env) (lv_entropy env 0) checker_label ztdf_payload (kp_signing (kr_nmb ring))
          (kp_verifying (kr_nmb ring)) (kp_verifying (kr_kas ring)))
       (\<lambda>pkg. package_verify (lv_ztdf env) pkg (kp_verifying (kr_nmb ring)) (kp_signing (kr_kas ring))))"

definition check_ztdf :: "'s labeling_env \<Rightarrow> nmb_key_ring \<Rightarrow> labeling_requirements \<Rightarrow> labeling_result" where
  "check_ztdf env ring q =
     (let ok = ztdf_operational env ring
      in labeling_result_of LdZtdf (lq_ztdf q) (if ok then 1 else 0)
           (if ok then ''ZTDF AES-256-GCM package with NMBS assertion verified'' else ''ZTDF packaging failed''))"

definition memory_audit_env :: "'s labeling_env \<Rightarrow> memory_sink audit_env" where
  "memory_audit_env env =
     \<lparr>au_crypto = lv_crypto env, au_codec = lv_audit_codec env, au_sink = memory_sink_ops\<rparr>"

text \<open>\<open>CrossDomainGuard::preset_high_to_low\<close>: a configuration that cannot be built is a panic.\<close>

definition guard_preset_high_to_low :: "'s config_env \<Rightarrow> 's cross_domain_guard option" where
  "guard_preset_high_to_low env = result_ok (build_guard env conformance_high_to_low)"

definition dcs_transfer ::
  "'s cross_domain_guard \<Rightarrow> binding_data_object \<Rightarrow> nmb_key_ring \<Rightarrow> cross_domain_transfer" where
  "dcs_transfer g inbound ring =
     \<lparr>ct_source_domain = sd_id (cg_source g), ct_target_domain = sd_id (cg_target g), ct_label = checker_label,
      ct_payload = mim_payload, ct_inbound_binding = inbound,
      ct_nmb_signing_key = kp_signing (kr_nmb ring), ct_nmb_verifying_key = kp_verifying (kr_nmb ring),
      ct_kas_signing_key = kp_signing (kr_kas ring), ct_kas_verifying_key = kp_verifying (kr_kas ring)\<rparr>"

definition german_label :: conf_label where
  "german_label = with_category (releasable_to_marking [''DEU'']) (conf_label_new nato_policy Secret)"

fun is_released :: "label_error + transfer_outcome \<Rightarrow> bool" where
  "is_released (Inr (Released _ _ _ _)) = True"
| "is_released _ = False"

text \<open>The three observations on the guard: the release, the denial and the log.\<close>

definition dcs_observations ::
  "'s labeling_env \<Rightarrow> nmb_key_ring \<Rightarrow> 's cross_domain_guard \<Rightarrow> binding_data_object \<Rightarrow> bool \<times> bool \<times> bool" where
  "dcs_observations env ring g inbound =
     (case execute (lv_ztdf env) (lv_entropy env 1) (lv_guard_audit env) (memory_audit_env env) (lv_stamp env)
             (dcs_transfer g inbound ring) g
             (with_signing_key (lv_crypto env) (kp_signing (kr_nmb ring)) (audit_log_new [])) of
        (out, g1, trail) \<Rightarrow>
          (is_released out,
           (case guard_evaluate (lv_guard_audit env) (lv_stamp env 3) german_label g1 of
              (Inr r, _) \<Rightarrow> gr_decision r = GuardDeny | (Inl _, _) \<Rightarrow> False),
           2 \<le> log_len trail \<and> is_ok (log_verify_chain (lv_crypto env) (lv_audit_codec env) trail)))"

definition check_dcs :: "'s labeling_env \<Rightarrow> nmb_key_ring \<Rightarrow> labeling_requirements \<Rightarrow> labeling_result option" where
  "check_dcs env ring q =
     Option.bind (guard_preset_high_to_low (lv_config env)) (\<lambda>g.
     Option.bind (result_ok (assertion_bound (lv_codec env) (lv_crypto env) checker_label mim_payload
         (kp_signing (kr_nmb ring)))) (\<lambda>inbound.
     case dcs_observations env ring g inbound of (allow_ok, deny_ok, audit_ok) \<Rightarrow>
       let score = (if allow_ok \<and> deny_ok \<and> audit_ok then 1 else if allow_ok \<and> deny_ok then 3 / 4
                    else if allow_ok \<or> deny_ok then 1 / 2 else 0)
       in Some (labeling_result_of LdDcsCrossDomain (lq_dcs q) score
            (if 1 \<le> score then ''DCS guard with mandatory NMBS binding and audit verified''
             else if allow_ok \<and> deny_ok then ''DCS transfer succeeded but audit trail incomplete''
             else ''DCS cross-domain evaluation incomplete''))))"

section \<open>The policy plane\<close>

definition checker_source :: security_domain where
  "checker_source =
     with_releasable_to [''USA'', ''GBR'', ''DEU''] (security_domain_new ''DOMAIN-HIGH'' ''High Side'' Secret)"

definition checker_target :: security_domain where
  "checker_target = with_releasable_to [''USA'', ''GBR''] (security_domain_new ''DOMAIN-LOW'' ''Low Side'' Restricted)"

definition caveat_label :: conf_label where
  "caveat_label =
     with_category (handling_caveat_marking ''LOCSEN'')
       (with_category (releasable_to_marking [''USA'']) (conf_label_new nato_policy Restricted))"

definition effect_of :: "(policy_error + policy_decision) \<times> 's enforcement_point \<Rightarrow> policy_effect option" where
  "effect_of r = map_option pd_effect (result_ok (fst r))"

definition policy_plane_checks :: "'s labeling_env \<Rightarrow> bool list" where
  "policy_plane_checks env =
     (let store = preset_high_to_low;
          pep = pep_new store;
          cross = (\<lambda>subject l. effect_of (pep_evaluate_cross_domain (lv_guard_audit env) (lv_stamp env 4) subject l
                     checker_source checker_target pep));
          guard = subject_new ''guard'' Secret;
          operator = subject_new ''operator'' Secret in
      [is_ok (access_context operator checker_label OpRead checker_source),
       (case cross guard checker_label of Some e \<Rightarrow> e \<noteq> Deny | None \<Rightarrow> False),
       is_ok (fst (pep_enforce_access (lv_guard_audit env) (lv_stamp env 5) operator checker_label OpRead checker_source pep)),
       ps_cross_domain_policies store \<noteq> [],
       cross guard caveat_label = Some Deny,
       cross (with_handling_caveat ''LOCSEN'' guard) caveat_label = Some Permit])"

definition check_policy_plane :: "'s labeling_env \<Rightarrow> labeling_requirements \<Rightarrow> labeling_result" where
  "check_policy_plane env q =
     (let score = passed_ratio (policy_plane_checks env)
      in labeling_result_of LdPolicyPlane (lq_policy_plane q) score
           (if 1 \<le> score then ''PIP, PAP/PRP, PDP, and PEP policy plane operational''
            else ''Policy plane components incomplete''))"

section \<open>Security policies\<close>

definition policy_result :: "labeling_dimension \<Rightarrow> bool \<Rightarrow> bool \<Rightarrow> string \<Rightarrow> string \<Rightarrow> labeling_result" where
  "policy_result d required ok yes no = labeling_result_of d required (if ok then 1 else 0) (if ok then yes else no)"

definition check_nato_policy :: "labeling_requirements \<Rightarrow> labeling_result" where
  "check_nato_policy q =
     policy_result LdNatoPolicy (lq_nato_policy q)
       (allows_classification nato_policy Secret \<and> is_ok (spif_validate_label spif_defaults checker_label))
       ''NATO SPIF policy profile loaded and validates labels'' ''NATO policy validation failed''"

definition check_capco_policy :: "labeling_requirements \<Rightarrow> labeling_result" where
  "check_capco_policy q =
     policy_result LdCapcoPolicy (lq_capco_policy q)
       (is_ok (spif_validate_label spif_defaults (conf_label_new (label_policy_new ''US'') Secret)))
       ''US CAPCO SPIF policy validates labels'' ''CAPCO policy validation failed''"

definition check_uk_policy :: "labeling_requirements \<Rightarrow> labeling_result" where
  "check_uk_policy q =
     policy_result LdUkPolicy (lq_uk_policy q)
       (is_ok (spif_validate_label spif_defaults
          (with_category (handling_caveat_marking ''LOCSEN'') (conf_label_new (label_policy_new ''DEMO-UK'') Secret))))
       ''UK DEMO SPIF policy validates labels'' ''UK policy validation failed''"

definition check_spif :: "labeling_requirements \<Rightarrow> labeling_result" where
  "check_spif q =
     policy_result LdSpifIngestion (lq_spif q)
       (list_all (\<lambda>i. spif_get spif_defaults i \<noteq> None) [''NATO'', ''US'', ''DEMO-UK'', ''ACME''])
       ''XML-SPIF policy ingestion operational'' ''SPIF ingestion failed''"

section \<open>Assertions, audit and the provider\<close>

definition check_assertion_binding :: "'s labeling_env \<Rightarrow> nmb_key_ring \<Rightarrow> labeling_requirements \<Rightarrow> labeling_result" where
  "check_assertion_binding env ring q =
     policy_result LdAssertionBinding (lq_assertion_binding q)
       (is_ok (and_then
          (assertion_create (lv_codec env) (lv_crypto env) checker_label assertion_payload (kp_signing (kr_nmb ring)))
          (\<lambda>a. assertion_verify (lv_codec env) (lv_crypto env) a assertion_payload (kp_verifying (kr_nmb ring)))))
       ''STANAG 4778 NMBS RSA-PSS-SHA256 assertion binding verified'' ''Assertion binding verification failed''"

definition checker_record :: "'s labeling_env \<Rightarrow> audit_record" where
  "checker_record env =
     audit_record_new (lv_stamp env 6) EvCrossDomainEvaluate ''checker'' checker_label ''audit-test'' ''evaluate''
       ''audit trail smoke test''"

definition memory_audit_ok :: "'s labeling_env \<Rightarrow> nmb_key_ring \<Rightarrow> bool" where
  "memory_audit_ok env ring =
     (case log_record (lv_crypto env) (lv_audit_codec env) memory_sink_ops (checker_record env)
             (with_signing_key (lv_crypto env) (kp_signing (kr_nmb ring)) (audit_log_new [])) of
        (out, trail) \<Rightarrow>
          is_ok out \<and> log_len trail = 1 \<and> length (al_envelopes trail) = 1 \<and>
          is_ok (log_verify_chain (lv_crypto env) (lv_audit_codec env) trail) \<and> is_ok (export_siem (lv_siem_pretty env) trail))"

definition file_audit_ok :: "'s labeling_env \<Rightarrow> nmb_key_ring \<Rightarrow> bool option" where
  "file_audit_ok env ring =
     Option.bind (result_ok (lv_temp_file env)) (\<lambda>file.
     case log_record (lv_crypto env) (lv_audit_codec env) (file_sink_ops (lv_audit_codec env)) (checker_record env)
            (with_signing_key (lv_crypto env) (kp_signing (kr_nmb ring)) (audit_log_new (file_sink_open file))) of
       (out, trail) \<Rightarrow>
         if is_ok out \<and> log_len trail = 1 then
           map_option (\<lambda>reloaded. is_ok (log_verify_chain (lv_crypto env) (lv_audit_codec env) reloaded))
             (result_ok (load_from_file (lv_audit_codec env) (Some (fsk_file (al_sink trail)))))
         else Some False)"

definition check_audit_trail :: "'s labeling_env \<Rightarrow> nmb_key_ring \<Rightarrow> labeling_requirements \<Rightarrow> labeling_result option" where
  "check_audit_trail env ring q =
     map_option (\<lambda>file_ok.
         policy_result LdAuditTrail (lq_audit q) (memory_audit_ok env ring \<and> file_ok)
           ''Immutable audit trail records guard decisions'' ''Audit trail not operational'')
       (file_audit_ok env ring)"

definition fips_grade :: "string \<Rightarrow> f64 \<times> string" where
  "fips_grade name =
     (if contains_str name ''FIPS 140-3 validated'' then (1, ''FIPS 140-3 validated AWS-LC module active'')
      else if contains_str name ''FIPS'' then (1, ''FIPS-capable AWS-LC module active'')
      else if contains_str name ''ring'' then
        (1 / 2, ''non-FIPS ring backend '' @ [CHR 0xE2, CHR 0x80, CHR 0x94] @
           '' rebuild with default `mim-crypto` features for FIPS 140-3'')
      else (0, ''unknown crypto provider''))"

definition check_fips_crypto :: "'s labeling_env \<Rightarrow> labeling_requirements \<Rightarrow> labeling_result" where
  "check_fips_crypto env q =
     (case fips_grade (lv_provider_name env) of (score, detail) \<Rightarrow>
        labeling_result_of LdFipsCrypto (lq_fips_crypto q) score
          (''Crypto provider: '' @ lv_provider_name env @ ''. '' @ detail))"

section \<open>The report\<close>

definition labeling_recommendations :: "labeling_result list \<Rightarrow> string list" where
  "labeling_recommendations ds =
     (let items = map (\<lambda>d. ''Improve '' @ show_labeling_dimension (lr_dimension d) @ '': '' @ lr_message d)
                    (filter (\<lambda>d. lr_status d \<noteq> LsCompliant) ds)
      in if items = []
         then [''Labeling stack meets all STANAG 4774/4778, ZTDF, DCS, SPIF, and audit requirements.'']
         else items)"

definition labeling_dimensions ::
  "'s labeling_env \<Rightarrow> nmb_key_ring \<Rightarrow> labeling_requirements \<Rightarrow> labeling_result list option" where
  "labeling_dimensions env ring q =
     Option.bind (check_dcs env ring q) (\<lambda>dcs.
     Option.bind (check_audit_trail env ring q) (\<lambda>audit.
       Some [check_stanag4774 env q, check_stanag4778 env ring q, check_ztdf env ring q, dcs, check_policy_plane env q,
             check_nato_policy q, check_capco_policy q, check_uk_policy q, check_spif q,
             check_assertion_binding env ring q, audit, check_fips_crypto env q]))"

definition labeling_evaluate :: "'s labeling_env \<Rightarrow> labeling_requirements \<Rightarrow> labeling_report option" where
  "labeling_evaluate env q =
     Option.bind (result_ok (conformance_key_ring (lv_crypto env) (lv_fixtures env))) (\<lambda>ring.
     map_option (\<lambda>ds.
         \<lparr>lb_overall_score = f64_div (f64_sum (map lr_score ds)) (f64_of_nat (length ds)),
          lb_is_fully_compliant = list_all (\<lambda>d. lr_status d = LsCompliant) ds,
          lb_dimensions = ds, lb_recommendations = labeling_recommendations ds\<rparr>)
       (labeling_dimensions env ring q))"

end
