(* ===== verification/Labeling_Acceptance.thy ===== *)
theory Labeling_Acceptance
  imports Labeling_Compliance
begin

text \<open>
  The acceptance check of the labelling stack as a theorem: what of it holds of the code alone, and what the libraries
  and keys have to provide for the rest, so that a run returns a report that is fully compliant exactly when the name of
  the cryptographic provider says FIPS.
\<close>

section \<open>The labels of the check\<close>

lemma checker_domains: "checker_source = high_side" "checker_target = low_side"
  by (simp_all add: checker_source_def checker_target_def high_side_def low_side_def)

lemma domain_facts:
  "sd_id high_side = ''DOMAIN-HIGH''" "sd_id low_side = ''DOMAIN-LOW''"
  "sd_max_classification high_side = Secret" "sd_max_classification low_side = Restricted"
  "sd_mission_compartments high_side = []" "sd_mission_compartments low_side = []"
  "accepts_country high_side ''USA''" "accepts_country high_side ''GBR''"
  "accepts_country low_side ''USA''" "accepts_country low_side ''GBR''" "\<not> accepts_country low_side ''DEU''"
  by (simp_all add: high_side_def low_side_def model_simps accepts_country_def spif_eval)

definition restricted_label :: conf_label where
  "restricted_label = with_category (releasable_to_marking [''USA'', ''GBR'']) (conf_label_new nato_policy Restricted)"

lemma checker_labels_valid:
  "validate_conf_label checker_label = Ok ()" "validate_conf_label caveat_label = Ok ()"
  "validate_conf_label german_label = Ok ()" "validate_conf_label restricted_label = Ok ()"
  by (simp_all add: checker_label_def caveat_label_def german_label_def restricted_label_def validate_conf_label_Ok_iff
      model_simps category_ok_def releasable_to_marking_def handling_caveat_marking_def)

lemma checker_markings:
  "releasable_countries checker_label = [''USA'', ''GBR'']" "restrictive_category_values checker_label = []"
  "cf_classification checker_label = Secret"
  "releasable_countries caveat_label = [''USA'']" "restrictive_category_values caveat_label = [''LOCSEN'']"
  "cf_classification caveat_label = Restricted"
  "releasable_countries german_label = [''DEU'']" "restrictive_category_values german_label = []"
  "cf_classification german_label = Secret"
  by (simp_all add: checker_label_def caveat_label_def german_label_def releasable_countries_def
      restrictive_category_values_def is_releasable_to_def releasable_to_marking_def handling_caveat_marking_def
      conf_label_new_def tagged_values_def spif_eval)

lemma checker_downgrade:
  "downgraded_label_for_target checker_label low_side downgrade_default = Ok restricted_label"
  unfolding downgraded_label_Ok_iff
  by (simp add: validate_conf_label_Ok_iff category_ok_def model_simps checker_label_def conf_label_new_def
      downgrade_categories_def downgrade_default_def retain_accepted_def keep_category_def domain_facts)
    (simp add: low_side_def model_simps min_def level_le_iff releasable_to_marking_def restricted_label_def conf_label_new_def)

section \<open>The policy plane\<close>

lemma cross_domain_decisions:
  "effect_of (pep_evaluate_cross_domain aenv st (subject_new ''guard'' Secret) checker_label high_side low_side
     (pep_new preset_high_to_low)) = Some Downgrade"
  "effect_of (pep_evaluate_cross_domain aenv st (subject_new ''guard'' Secret) caveat_label high_side low_side
     (pep_new preset_high_to_low)) = Some Deny"
  "effect_of (pep_evaluate_cross_domain aenv st (with_handling_caveat ''LOCSEN'' (subject_new ''guard'' Secret)) caveat_label
     high_side low_side (pep_new preset_high_to_low)) = Some Permit"
  using checker_labels_valid checker_downgrade
  by (simp_all add: effect_of_def pep_evaluate_cross_domain_def pep_evaluate_transfer_def pep_new_def cross_domain_context_def
      domain_facts evaluate_def env_cross_domain_def evaluate_cross_domain_def policy_for_pair_def preset_domains
      cross_domain_policy_new_def with_description_def require_domain_def resource_from_label_def checker_markings
      check_handling_caveats_def check_mission_compartment_def check_releasability_def level_less_iff level_le_iff
      subject_new_def with_handling_caveat_def holds_caveat_def spif_eval Let_def)

lemma operator_reads:
  "\<exists>dn pep. pep_enforce_access aenv st (subject_new ''operator'' Secret) checker_label OpRead high_side
     (pep_new preset_high_to_low) = (Ok dn, pep)"
proof -
  let ?ctx = "\<lparr>pc_subject = subject_new ''operator'' Secret, pc_resource = resource_from_label checker_label,
                pc_environment = env_local OpRead (sd_id high_side), pc_label = checker_label\<rparr>"
  have dom: "store_domain preset_high_to_low (ev_source_domain (pc_environment ?ctx)) = Some high_side"
    by (simp add: preset_domains domain_facts env_local_def)
  have "access_allowed (pc_subject ?ctx) (pc_resource ?ctx) (pc_environment ?ctx) high_side"
    by (simp add: access_allowed_def resource_from_label_def checker_markings caveats_held_def subject_new_def
        mission_ok_def nationality_ok_def releasability_ok_def domain_facts)
  with evaluate_access_cases [OF dom] obtain dn where "evaluate_access preset_high_to_low ?ctx = Ok dn" "pd_effect dn = Permit"
    by auto
  then show ?thesis
    using checker_labels_valid(1)
    by (simp add: pep_enforce_access_def pep_evaluate_access_def access_context_def evaluate_def env_local_def pep_new_def)
qed

lemma policy_plane_all: "policy_plane_checks env = replicate 6 True"
proof -
  obtain dn pep where "pep_enforce_access (lv_guard_audit env) (lv_stamp env 5) (subject_new ''operator'' Secret)
      checker_label OpRead high_side (pep_new preset_high_to_low) = (Ok dn, pep)"
    using operator_reads by blast
  moreover have "is_ok (access_context (subject_new ''operator'' Secret) checker_label OpRead high_side)"
    using checker_labels_valid(1) by (simp add: access_context_def)
  ultimately show ?thesis
    unfolding policy_plane_checks_def Let_def checker_domains cross_domain_decisions
    by (simp add: preset_domains numeral_eq_Suc)
qed

lemma passed_all: "n < 2 ^ 52 \<Longrightarrow> 0 < n \<Longrightarrow> length (filter id checks) \<le> n \<Longrightarrow> length checks = n \<Longrightarrow>
    1 \<le> passed_ratio checks \<longleftrightarrow> list_all id checks"
proof -
  assume n: "n < 2 ^ 52" "0 < n" "length checks = n"
  then have "f64_of_nat n = of_nat n" unfolding f64_of_nat_def by (intro f64.exact_nat) simp
  then have "1 \<le> passed_ratio checks \<longleftrightarrow> n \<le> length (filter id checks)"
    using n f64.quotient_ge_1_iff [of n "length (filter id checks)"] by (simp add: passed_ratio_def f64_div_def f64_of_nat_def)
  also have "\<dots> \<longleftrightarrow> filter id checks = checks"
    using n length_filter_le [of id checks] length_filter_less [of _ checks id]
    by (metis filter_True leD le_antisym)
  finally show ?thesis by (simp add: filter_id_conv list_all_iff)
qed

section \<open>What the code alone achieves\<close>

lemma capco_and_uk_accepted:
  "label_accepted (conf_label_new (label_policy_new ''US'') Secret)"
  "label_accepted (with_category (handling_caveat_marking ''LOCSEN'') (conf_label_new (label_policy_new ''DEMO-UK'') Secret))"
  "label_accepted checker_label" "label_accepted restricted_label"
proof -
  let ?us = "conf_label_new (label_policy_new ''US'') Secret"
  let ?uk = "with_category (handling_caveat_marking ''LOCSEN'') (conf_label_new (label_policy_new ''DEMO-UK'') Secret)"
  note eval = conforms_to_def category_conforms_def spif_category_for_def rule_holds_def rule_values_def spif_eval
    handling_caveat_marking_def releasable_to_marking_def conf_label_new_def
  have "validate_conf_label ?us = Ok ()" "validate_conf_label ?uk = Ok ()"
    by (simp_all add: validate_conf_label_Ok_iff model_simps category_ok_def handling_caveat_marking_def
        classification_level_all_def)
  moreover have "conforms_to ?us spif_capco_us" by (simp add: eval spif_capco_us_def)
  moreover have "conforms_to ?uk spif_uk_demo" by (simp add: eval spif_uk_demo_def)
  moreover have "lp_identifier (cf_policy ?us) = ''US''" "lp_identifier (cf_policy ?uk) = ''DEMO-UK''"
    by (simp_all add: model_simps)
  ultimately show "label_accepted ?us" "label_accepted ?uk"
    by (simp_all add: spif_validate_label_Ok_iff spif_get_defaults)
  have "conforms_to checker_label spif_nato" "conforms_to restricted_label spif_nato"
    by (simp_all add: eval spif_nato_def checker_label_def restricted_label_def)
  moreover have "lp_identifier (cf_policy checker_label) = ''NATO''" "lp_identifier (cf_policy restricted_label) = ''NATO''"
    by (simp_all add: checker_label_def restricted_label_def model_simps)
  ultimately show "label_accepted checker_label" "label_accepted restricted_label"
    using checker_labels_valid by (simp_all add: spif_validate_label_Ok_iff spif_get_defaults)
qed

lemma status_compliant: "lr_status (labeling_result_of d required score m) = LsCompliant \<longleftrightarrow> \<not> required \<or> 1 \<le> score"
  by (simp add: labeling_result_of_def labeling_status_from_score_def)

lemma policy_result_compliant: "lr_status (policy_result d required ok yes no) = LsCompliant \<longleftrightarrow> \<not> required \<or> ok"
  by (simp add: policy_result_def status_compliant)

lemma code_alone_compliant:
  "lr_status (check_policy_plane env q) = LsCompliant" "lr_status (check_nato_policy q) = LsCompliant"
  "lr_status (check_capco_policy q) = LsCompliant" "lr_status (check_uk_policy q) = LsCompliant"
  "lr_status (check_spif q) = LsCompliant"
proof -
  have "1 \<le> passed_ratio (policy_plane_checks env)"
    unfolding policy_plane_all by (subst passed_all [of 6]) (simp_all add: list_all_iff)
  then show "lr_status (check_policy_plane env q) = LsCompliant"
    by (simp add: check_policy_plane_def Let_def status_compliant)
next
  show "lr_status (check_capco_policy q) = LsCompliant" "lr_status (check_uk_policy q) = LsCompliant"
    unfolding check_capco_policy_def check_uk_policy_def policy_result_compliant capco_and_uk_accepted by simp_all
qed (simp_all add: check_nato_policy_def check_spif_def policy_result_compliant capco_and_uk_accepted(3) spif_get_defaults
    allows_classification_def model_simps)

section \<open>The guard of the check\<close>

definition configured_high :: security_domain where
  "configured_high = with_accepted_nationalities [''USA'', ''GBR'', ''DEU''] high_side"

definition configured_low :: security_domain where
  "configured_low = with_accepted_nationalities [''USA'', ''GBR''] low_side"

definition configured_store :: policy_store where
  "configured_store =
     \<lparr>ps_domains = [(''DOMAIN-HIGH'', configured_high), (''DOMAIN-LOW'', configured_low)],
      ps_cross_domain_policies =
        [with_description ''High-side to low-side cross-domain guard''
           (cross_domain_policy_new ''high-to-low'' ''DOMAIN-HIGH'' ''DOMAIN-LOW'')],
      ps_spif_policies = [], ps_downgrade = downgrade_default\<rparr>"

definition configured_guard :: "'s cross_domain_guard" where
  "configured_guard =
     \<lparr>cg_source = configured_high, cg_target = configured_low, cg_pep = pep_new configured_store, cg_accredited = False\<rparr>"

lemma configured_facts:
  "sd_id configured_high = ''DOMAIN-HIGH''" "sd_id configured_low = ''DOMAIN-LOW''"
  "sd_max_classification configured_low = Restricted"
  "sd_mission_compartments configured_high = []" "sd_mission_compartments configured_low = []"
  "accepts_country configured_low ''USA''" "accepts_country configured_low ''GBR''" "\<not> accepts_country configured_low ''DEU''"
  by (simp_all add: configured_high_def configured_low_def high_side_def low_side_def model_simps accepts_country_def spif_eval)

lemma preset_guard_built: "guard_preset_high_to_low cenv = Some configured_guard"
proof -
  have levels: "classification_parse ''SECRET'' = Ok Secret" "classification_parse ''RESTRICTED'' = Ok Restricted"
    using classification_parse_as_str [of Secret] classification_parse_as_str [of Restricted] by simp_all
  have "primary_domain_pair conformance_high_to_low = Ok (configured_high, configured_low)"
    by (simp add: primary_domain_pair_def conformance_high_to_low_def domain_by_id_def to_security_domain_def levels
        Let_def configured_high_def configured_low_def high_side_def low_side_def model_simps)
  moreover have "build_policy_store cenv conformance_high_to_low = Ok configured_store"
    by (simp add: build_policy_store_def conformance_high_to_low_def to_security_domain_def levels configured_store_def
        Let_def insert_domain_def validate_domain_id_def insert_cross_domain_policy_def configured_policy_def
        policy_store_new_def with_downgrade_config_def store_domain_def cross_domain_policy_new_def with_description_def
        configured_high_def configured_low_def high_side_def low_side_def model_simps im_get_def)
  moreover have "build_audit_log cenv conformance_high_to_low = Ok None" "\<not> is_accredited_profile conformance_high_to_low"
    "validate_accredited_profile conformance_high_to_low = Ok ()"
    by (simp_all add: build_audit_log_def validate_accredited_profile_def conformance_high_to_low_def audit_config_default_def
        is_accredited_profile_def)
  ultimately show ?thesis
    by (simp add: guard_preset_high_to_low_def build_guard_def configured_guard_def with_accredited_def from_policy_plane_def)
qed

lemma guard_decisions:
  "\<exists>r. guard_evaluate genv st checker_label configured_guard = (Ok r, configured_guard) \<and> gr_decision r = GuardDowngrade \<and>
     gr_effective_label r = Some restricted_label"
  "\<exists>r. guard_evaluate genv st german_label configured_guard = (Ok r, configured_guard) \<and> gr_decision r = GuardDeny"
proof -
  have down: "downgraded_label_for_target checker_label configured_low downgrade_default = Ok restricted_label"
    unfolding downgraded_label_Ok_iff
    by (simp add: validate_conf_label_Ok_iff category_ok_def model_simps checker_label_def conf_label_new_def
        downgrade_categories_def downgrade_default_def retain_accepted_def keep_category_def configured_facts)
      (simp add: configured_low_def low_side_def model_simps min_def level_le_iff releasable_to_marking_def
        restricted_label_def conf_label_new_def)
  note eval = guard_evaluate_def guard_evaluate_with_subject_def pep_evaluate_cross_domain_def pep_evaluate_transfer_def
    pep_new_def cross_domain_context_def configured_facts evaluate_def env_cross_domain_def evaluate_cross_domain_def
    policy_for_pair_def configured_store_def store_domain_def im_get_def cross_domain_policy_new_def with_description_def
    require_domain_def resource_from_label_def checker_markings check_handling_caveats_def check_mission_compartment_def
    check_releasability_def level_less_iff level_le_iff guard_subject_def subject_new_def Let_def configured_guard_def
    record_cross_domain_audit_def append_audit_def map_decision_def
  show "\<exists>r. guard_evaluate genv st checker_label configured_guard = (Ok r, configured_guard) \<and>
      gr_decision r = GuardDowngrade \<and> gr_effective_label r = Some restricted_label"
    using checker_labels_valid down by (simp add: eval)
  show "\<exists>r. guard_evaluate genv st german_label configured_guard = (Ok r, configured_guard) \<and> gr_decision r = GuardDeny"
    using checker_labels_valid by (simp add: eval)
qed

section \<open>What the libraries provide\<close>

text \<open>A label whose two texts can be written, and whose XML passes the schema.\<close>

definition label_writable :: "label_codec \<Rightarrow> conf_label \<Rightarrow> bool" where
  "label_writable lx l \<longleftrightarrow>
     plain_label lx l \<and> (\<exists>t. lx_write lx (label_events l) = Ok t \<and> schema_accepts lx t) \<and>
     (\<exists>t. lx_json_write lx (to_json_value l) = Ok t)"

text \<open>The keys sign, digests are not empty, content is encrypted, and what is printed can be read.\<close>

definition keys_work :: "crypto_provider \<Rightarrow> key_pair \<Rightarrow> bool" where
  "keys_work cp kp \<longleftrightarrow>
     crypto_laws cp kp \<and> (\<forall>m. is_ok (cp_sign_rsa_pss_sha256 cp (kp_signing kp) m)) \<and> (\<forall>x. sha256_base64 cp x \<noteq> [])"

definition content_works :: "content_crypto \<Rightarrow> key_pair \<Rightarrow> bool" where
  "content_works cc kas \<longleftrightarrow>
     content_laws cc kas \<and> (\<forall>seed n. is_ok (cc_fill_random cc seed n)) \<and>
     (\<forall>seed cek. is_ok (cc_wrap_key cc seed (kp_verifying kas) cek)) \<and>
     (\<forall>seed cek p aad. is_ok (cc_encrypt cc seed cek p aad))"

text \<open>The envelope of the check's record is a line that reads back.\<close>

definition audit_texts_work :: "'s labeling_env \<Rightarrow> signing_key \<Rightarrow> bool" where
  "audit_texts_work env k \<longleftrightarrow>
     (\<forall>e. make_envelope (lv_crypto env) (lv_audit_codec env) (Some k) (checker_record env) ''GENESIS'' = Ok e \<longrightarrow>
        (\<exists>line. ac_envelope_json (lv_audit_codec env) e = Ok line \<and> line_text line \<and> trim line \<noteq> [] \<and>
           ac_envelope_parse (lv_audit_codec env) line = Ok e))"

definition labeling_libraries :: "'s labeling_env \<Rightarrow> nmb_key_ring \<Rightarrow> bool" where
  "labeling_libraries env ring \<longleftrightarrow>
     conformance_key_ring (lv_crypto env) (lv_fixtures env) = Ok ring \<and> keys_work (lv_crypto env) (kr_nmb ring) \<and>
     content_works (ze_content (lv_ztdf env)) (kr_kas ring) \<and>
     xml_laws (lv_codec env) \<and> json_laws (lv_codec env) \<and>
     label_writable (lv_codec env) checker_label \<and> label_writable (lv_codec env) restricted_label \<and>
     (\<forall>m. is_ok (zc_manifest_json (ze_format (lv_ztdf env)) m)) \<and>
     (\<forall>m p. is_ok (zc_zip_write (ze_format (lv_ztdf env)) [(MANIFEST_ENTRY, m), (PAYLOAD_ENTRY, p)])) \<and>
     audit_texts_work env (kp_signing (kr_nmb ring)) \<and> (\<forall>v. is_ok (lv_siem_pretty env v)) \<and> lv_temp_file env = Ok None"

lemma writable_texts:
  assumes "label_writable lx l" "validate_conf_label l = Ok ()"
  obtains xml js where "codec_serialize lx l Xml = Ok xml" "schema_accepts lx xml" "codec_serialize lx l JsonStructured = Ok js"
  using assms by (auto simp: label_writable_def codec_serialize_def xml_serialize_def json_serialize_def)

lemma writable_times: "label_writable lx l \<Longrightarrow> times_parse lx l"
  by (simp add: label_writable_def plain_label_def)

lemma round_trips:
  assumes "label_writable lx l" "validate_conf_label l = Ok ()" "xml_laws lx" "json_laws lx" "cf_alternative_labels l = []"
  shows "is_ok (codec_round_trip lx l Xml)" "is_ok (codec_round_trip lx l JsonStructured)"
proof -
  obtain xml js where texts: "codec_serialize lx l Xml = Ok xml" "schema_accepts lx xml" "codec_serialize lx l JsonStructured = Ok js"
    using writable_texts [OF assms(1,2)] .
  have "validate_conf_label (xml_image l) = Ok ()"
    using assms(2,5) unfolding validate_xml_image by (auto simp: validate_conf_label_Ok_iff)
  moreover have "plain_label lx l" using assms(1) by (simp add: label_writable_def)
  ultimately show "is_ok (codec_round_trip lx l Xml)"
    using xml_round_trip [OF assms(3) _ texts(1,2)] texts(1) by (simp add: codec_round_trip_def)
  show "is_ok (codec_round_trip lx l JsonStructured)"
    using json_label_round_trip [OF assms(4) writable_times [OF assms(1)] texts(3)] texts(3) by (simp add: codec_round_trip_def)
qed

section \<open>Bindings\<close>

lemma assertion_created:
  assumes "label_writable lx l" "label_accepted l" "keys_work cp kp"
  obtains a where "assertion_create lx cp l p (kp_signing kp) = Ok a" "ab_payload_digest a \<noteq> []"
proof -
  obtain xml where xml: "codec_serialize lx l Xml = Ok xml"
    using writable_texts [OF assms(1) label_accepted_valid [OF assms(2)]] by blast
  obtain sig where "cp_sign_rsa_pss_sha256 cp (kp_signing kp) (nmb_message xml (sha256_base64 cp p)) = Ok sig"
    using assms(3) by (auto simp: keys_work_def is_ok_iff)
  then obtain s where "sign_binding cp l xml (sha256_base64 cp p) (kp_signing kp) = Ok s"
    by (auto simp: sign_binding_Ok_iff sign_nmb_binding_def)
  with xml assms(2) have "assertion_create lx cp l p (kp_signing kp) =
      Ok \<lparr>ab_label = l, ab_payload_digest = sha256_base64 cp p, ab_signature = s, ab_signed_label_xml = Some xml\<rparr>"
    by (simp add: assertion_create_Ok_iff)
  moreover have "sha256_base64 cp p \<noteq> []" using assms(3) by (simp add: keys_work_def)
  ultimately show thesis using that by simp
qed

lemma assertion_bound_created:
  assumes "label_writable lx l" "label_accepted l" "keys_work cp kp" "vk_key_id (kp_verifying kp) = sk_key_id (kp_signing kp)"
  obtains b a where "assertion_bound lx cp l p (kp_signing kp) = Ok b" "bd_assertion b = Some a" "ab_payload_digest a \<noteq> []"
    "mb_method (bd_binding b) = Assertion" "assertion_create lx cp l p (kp_signing kp) = Ok a"
    "bdo_verify lx cp rf b p (Some (kp_verifying kp)) = Ok ()"
proof -
  obtain a where a: "assertion_create lx cp l p (kp_signing kp) = Ok a" "ab_payload_digest a \<noteq> []"
    using assertion_created [OF assms(1-3)] .
  obtain xml where "codec_serialize lx l Xml = Ok xml"
    using writable_texts [OF assms(1) label_accepted_valid [OF assms(2)]] by blast
  then have b: "assertion_bound lx cp l p (kp_signing kp) =
      Ok \<lparr>bd_binding = assertion_ztdf, bd_label = l, bd_label_encoding = xml, bd_payload_digest = ab_payload_digest a,
          bd_assertion = Some a\<rparr>" (is "_ = Ok ?b")
    using a label_accepted_valid [OF assms(2)] by (simp add: assertion_bound_def)
  have "crypto_laws cp kp" using assms(3) by (simp add: keys_work_def)
  then have "bdo_verify lx cp rf ?b p (Some (kp_verifying kp)) = Ok ()"
    using created_assertion_bound_verifies [OF _ assms(4) b] by (simp add: bdo_verify_def)
  with a b show thesis by (intro that [of ?b a]) (simp_all add: assertion_ztdf_def)
qed

lemma ring_key_ids:
  assumes "conformance_key_ring cp fx = Ok ring"
  shows "vk_key_id (kp_verifying (kr_nmb ring)) = sk_key_id (kp_signing (kr_nmb ring))"
    "and_then (cp_public_key_from_private cp (sk_der (kp_signing (kr_nmb ring))))
       (verifying_key_from_spki cp (sk_key_id (kp_signing (kr_nmb ring)))) = Ok (kp_verifying (kr_nmb ring))"
  using assms
  by (auto simp: conformance_key_ring_def conformance_keypair_def key_pair_from_pkcs8_def signing_key_from_pkcs8_def
      verifying_key_from_spki_def and_then_Inr_iff)

lemma library_facts:
  assumes "labeling_libraries env ring"
  shows "keys_work (lv_crypto env) (kr_nmb ring)" "label_writable (lv_codec env) checker_label"
    "label_writable (lv_codec env) restricted_label"
    "vk_key_id (kp_verifying (kr_nmb ring)) = sk_key_id (kp_signing (kr_nmb ring))"
    "crypto_laws (lv_crypto env) (kr_nmb ring)" "content_works (ze_content (lv_ztdf env)) (kr_kas ring)"
    "xml_laws (lv_codec env)" "json_laws (lv_codec env)"
  using assms ring_key_ids(1) by (auto simp: labeling_libraries_def keys_work_def)

lemma assertion_verifies:
  assumes lib: "labeling_libraries env ring" and "label_writable (lv_codec env) l" "label_accepted l"
  obtains a where "assertion_create (lv_codec env) (lv_crypto env) l p (kp_signing (kr_nmb ring)) = Ok a"
    "assertion_verify (lv_codec env) (lv_crypto env) a p (kp_verifying (kr_nmb ring)) = Ok ()" "ab_payload_digest a \<noteq> []"
  using assertion_created [OF assms(2,3) library_facts(1) [OF lib], of p]
    verify_created_assertion [OF library_facts(5,4) [OF lib]] by metis

lemma stanag4774_compliant:
  assumes lib: "labeling_libraries env ring"
  shows "lr_status (check_stanag4774 env q) = LsCompliant"
proof -
  have "cf_alternative_labels checker_label = []" by (simp add: checker_label_def conf_label_new_def)
  from round_trips [OF library_facts(2) [OF lib] checker_labels_valid(1) library_facts(7,8) [OF lib] this]
  show ?thesis by (simp add: check_stanag4774_def status_compliant)
qed

lemma payload_texts: "from_utf8 mim_payload = Ok mim_payload"
  by (rule from_utf8_ascii) (simp add: mim_payload_def)

lemma stanag4778_compliant:
  assumes lib: "labeling_libraries env ring"
  shows "lr_status (check_stanag4778 env ring q) = LsCompliant"
proof -
  let ?lx = "lv_codec env" and ?cp = "lv_crypto env" and ?kp = "kr_nmb ring"
  obtain xml js where texts: "codec_serialize ?lx checker_label Xml = Ok xml" "codec_serialize ?lx checker_label JsonStructured = Ok js"
    using writable_texts [OF library_facts(2) [OF lib] checker_labels_valid(1)] by blast
  obtain a where a: "assertion_create ?lx ?cp checker_label mim_payload (kp_signing ?kp) = Ok a"
      "assertion_verify ?lx ?cp a mim_payload (kp_verifying ?kp) = Ok ()"
    using assertion_verifies [OF lib library_facts(2) [OF lib] capco_and_uk_accepted(3)] by blast
  obtain b where b: "assertion_bound ?lx ?cp checker_label mim_payload (kp_signing ?kp) = Ok b"
      "bdo_verify ?lx ?cp (ze_files (lv_ztdf env)) b mim_payload (Some (kp_verifying ?kp)) = Ok ()"
    using assertion_bound_created [OF library_facts(2) [OF lib] capco_and_uk_accepted(3) library_facts(1,4) [OF lib]] by blast
  have digest: "ab_payload_digest a = sha256_base64 ?cp mim_payload" using a(1) by (auto simp: assertion_create_Ok_iff)
  have "stanag4778_profiles env ?kp = replicate 7 True"
    using texts a b digest checker_labels_valid(1) capco_and_uk_accepted(3) payload_texts
    by (simp add: stanag4778_profiles_def Let_def embedded_def xml_embedded_def encapsulated_def detached_def bdo_defs
        optional_assertion_def rest_wrap_def rest_verify_def smtp_create_def smtp_verify_def numeral_eq_Suc)
  then have "1 \<le> passed_ratio (stanag4778_profiles env ?kp)"
    using passed_all [of 7 "replicate 7 True"] by (simp add: list_all_iff)
  then show ?thesis by (simp add: check_stanag4778_def Let_def status_compliant)
qed

lemma assertion_binding_compliant:
  assumes lib: "labeling_libraries env ring"
  shows "lr_status (check_assertion_binding env ring q) = LsCompliant"
proof -
  obtain a where "assertion_create (lv_codec env) (lv_crypto env) checker_label assertion_payload (kp_signing (kr_nmb ring)) = Ok a"
      "assertion_verify (lv_codec env) (lv_crypto env) a assertion_payload (kp_verifying (kr_nmb ring)) = Ok ()"
    using assertion_verifies [OF lib library_facts(2) [OF lib] capco_and_uk_accepted(3)] by blast
  then show ?thesis by (simp add: check_assertion_binding_def policy_result_compliant)
qed

section \<open>Packages\<close>

lemma label_stated:
  assumes lib: "labeling_libraries env ring" and w: "label_writable (lv_codec env) l" and acc: "label_accepted l"
  obtains za where "from_label (lv_codec env) (lv_crypto env) l p (kp_signing (kr_nmb ring)) = Ok za"
    "za_id za = ''nato-label-1''" "zs_schema (za_statement za) = NAMESPACE" "zb_method (za_binding za) = ''nmb''"
proof -
  note valid = label_accepted_valid [OF acc]
  obtain xml js where texts: "codec_serialize (lv_codec env) l Xml = Ok xml" "codec_serialize (lv_codec env) l JsonStructured = Ok js"
    using writable_texts [OF w valid] by blast
  then have "lx_json_write (lv_codec env) (to_json_value l) = Ok js"
    using valid by (cases "lx_json_write (lv_codec env) (to_json_value l)") (auto simp: codec_serialize_def json_serialize_def)
  then obtain v where "lx_json_read (lv_codec env) js = Ok v"
    using library_facts(8) [OF lib] by (auto simp: json_laws_def)
  moreover obtain a where "assertion_create (lv_codec env) (lv_crypto env) l p (kp_signing (kr_nmb ring)) = Ok a"
    using assertion_created [OF w acc library_facts(1) [OF lib]] by blast
  ultimately show thesis using texts valid that by (simp add: from_label_def)
qed

lemma package_created:
  assumes lib: "labeling_libraries env ring" and w: "label_writable (lv_codec env) l" and acc: "label_accepted l"
  obtains pkg where
    "package_create (lv_ztdf env) rnd l p (kp_signing (kr_nmb ring)) (kp_verifying (kr_nmb ring)) (kp_verifying (kr_kas ring)) =
       Ok pkg"
    "manifest_validate (zk_manifest pkg) = Ok ()"
    "verify_binding_plaintext (lv_ztdf env) pkg p (kp_verifying (kr_nmb ring)) = Ok ()"
    "package_decrypt (lv_ztdf env) pkg (kp_signing (kr_kas ring)) = Ok p"
proof -
  let ?env = "lv_ztdf env"
  note content = library_facts(6) [OF lib]
  obtain cek where "cc_fill_random (ze_content ?env) (zr_key rnd) 32 = Ok cek"
    using content unfolding content_works_def is_ok_iff by blast
  then have cek: "generate_content_key (ze_content ?env) (zr_key rnd) = Ok cek" by (simp add: generate_content_key_def)
  obtain enc where enc: "cc_encrypt (ze_content ?env) (zr_iv rnd) cek p PAYLOAD_AAD = Ok enc"
    using content unfolding content_works_def is_ok_iff by blast
  obtain wrapped where wrapped: "cc_wrap_key (ze_content ?env) (zr_wrap rnd) (kp_verifying (kr_kas ring)) cek = Ok wrapped"
    using content unfolding content_works_def is_ok_iff by blast
  obtain za where za: "from_label (lv_codec env) (lv_crypto env) l p (kp_signing (kr_nmb ring)) = Ok za"
      "za_id za = ''nato-label-1''" "zs_schema (za_statement za) = NAMESPACE" "zb_method (za_binding za) = ''nmb''"
    using label_stated [OF assms] .
  have "\<exists>m. for_mim_payload ?env (zr_wrap rnd) l p enc cek (kp_signing (kr_nmb ring)) (kp_verifying (kr_kas ring))
      (default_policy_b64 ?env) = Ok m \<and> manifest_validate m = Ok ()"
    using wrapped za by (simp add: for_mim_payload_def manifest_validate_def nato_label_assertion_def)
  then obtain m where m: "for_mim_payload ?env (zr_wrap rnd) l p enc cek (kp_signing (kr_nmb ring)) (kp_verifying (kr_kas ring))
      (default_policy_b64 ?env) = Ok m" "manifest_validate m = Ok ()" by blast
  obtain b a where b: "assertion_bound (lv_codec env) (lv_crypto env) l p (kp_signing (kr_nmb ring)) = Ok b"
      "bd_assertion b = Some a" "ab_payload_digest a \<noteq> []"
      "assertion_create (lv_codec env) (lv_crypto env) l p (kp_signing (kr_nmb ring)) = Ok a"
      "bdo_verify (lv_codec env) (lv_crypto env) (ze_files ?env) b p (Some (kp_verifying (kr_nmb ring))) = Ok ()"
    using assertion_bound_created [OF w acc library_facts(1,4) [OF lib]] by blast
  have created: "package_create ?env rnd l p (kp_signing (kr_nmb ring)) (kp_verifying (kr_nmb ring))
      (kp_verifying (kr_kas ring)) =
      Ok \<lparr>zk_manifest = m, zk_encrypted_payload = aes_to_bytes enc, zk_content_key = cek, zk_binding = b\<rparr>"
    (is "_ = Ok ?pkg")
    using label_accepted_valid [OF acc] cek enc m b by (simp add: package_create_def)
  have "assertion_verify (lv_codec env) (lv_crypto env) a p (kp_verifying (kr_nmb ring)) = Ok ()"
    using verify_created_assertion [OF library_facts(5,4) [OF lib] b(4)] .
  then have "verify_binding_plaintext ?env ?pkg p (kp_verifying (kr_nmb ring)) = Ok ()"
    using b(2,3) by (simp add: verify_binding_plaintext_def)
  moreover have "content_laws (ze_content ?env) (kr_kas ring)" using content by (simp add: content_works_def)
  then have "package_decrypt ?env ?pkg (kp_signing (kr_kas ring)) = Ok p"
    using created_decrypts [OF created library_facts(5) [OF lib], of ?pkg] by simp
  ultimately show thesis using created m(2) by (intro that) simp_all
qed

lemma ztdf_compliant:
  assumes lib: "labeling_libraries env ring"
  shows "lr_status (check_ztdf env ring q) = LsCompliant"
proof -
  obtain pkg where
    "package_create (lv_ztdf env) (lv_entropy env 0) checker_label ztdf_payload (kp_signing (kr_nmb ring))
       (kp_verifying (kr_nmb ring)) (kp_verifying (kr_kas ring)) = Ok pkg"
    "manifest_validate (zk_manifest pkg) = Ok ()"
    "verify_binding_plaintext (lv_ztdf env) pkg ztdf_payload (kp_verifying (kr_nmb ring)) = Ok ()"
    "package_decrypt (lv_ztdf env) pkg (kp_signing (kr_kas ring)) = Ok ztdf_payload"
    using package_created [OF lib library_facts(2) [OF lib] capco_and_uk_accepted(3)] .
  then have "ztdf_operational env ring"
    by (simp add: ztdf_operational_def package_verify_def package_decrypt_def)
  then show ?thesis by (simp add: check_ztdf_def status_compliant)
qed

section \<open>The audit log\<close>

lemma signed_log:
  assumes lib: "labeling_libraries env ring"
  shows "with_signing_key (lv_crypto env) (kp_signing (kr_nmb ring)) (audit_log_new s) =
      (audit_log_new s)\<lparr>al_signing_key := Some (kp_signing (kr_nmb ring)), al_verifying_key := Some (kp_verifying (kr_nmb ring))\<rparr>"
    "log_wf (lv_crypto env) ac (with_signing_key (lv_crypto env) (kp_signing (kr_nmb ring)) (audit_log_new s))"
proof -
  have key: "and_then (cp_public_key_from_private (lv_crypto env) (sk_der (kp_signing (kr_nmb ring))))
      (verifying_key_from_spki (lv_crypto env) (sk_key_id (kp_signing (kr_nmb ring)))) = Ok (kp_verifying (kr_nmb ring))"
    using lib ring_key_ids(2) by (auto simp: labeling_libraries_def)
  show "with_signing_key (lv_crypto env) (kp_signing (kr_nmb ring)) (audit_log_new s) =
      (audit_log_new s)\<lparr>al_signing_key := Some (kp_signing (kr_nmb ring)), al_verifying_key := Some (kp_verifying (kr_nmb ring))\<rparr>"
    by (simp add: with_signing_key_def Let_def key)
  show "log_wf (lv_crypto env) ac (with_signing_key (lv_crypto env) (kp_signing (kr_nmb ring)) (audit_log_new s))"
  proof (rule log_wf_with_signing_key)
    fix vk
    assume "and_then (cp_public_key_from_private (lv_crypto env) (sk_der (kp_signing (kr_nmb ring))))
      (verifying_key_from_spki (lv_crypto env) (sk_key_id (kp_signing (kr_nmb ring)))) = Ok vk"
    with key have "vk = kp_verifying (kr_nmb ring)" by simp
    then have "\<lparr>kp_signing = kp_signing (kr_nmb ring), kp_verifying = vk\<rparr> = kr_nmb ring" by simp
    with library_facts(5) [OF lib] show "crypto_laws (lv_crypto env) \<lparr>kp_signing = kp_signing (kr_nmb ring), kp_verifying = vk\<rparr>"
      by simp
  qed
qed

text \<open>A signed record goes in when the sink takes it.\<close>

lemma signed_record:
  assumes lib: "labeling_libraries env ring" and key: "al_signing_key l = Some (kp_signing (kr_nmb ring))"
    and rec: "\<And>s. \<exists>s'. snk_append_record ops r s = (Ok (), s')"
    and envel: "\<And>e s. make_envelope (lv_crypto env) ac (al_signing_key l) r (al_previous_hash l) = Ok e \<Longrightarrow>
      \<exists>s'. snk_append_envelope ops e s = (Ok (), s')"
  obtains l' where "log_record (lv_crypto env) ac ops r l = (Ok (), l')" "log_len l' = Suc (log_len l)"
    "al_signing_key l' = al_signing_key l"
proof -
  let ?k = "kp_signing (kr_nmb ring)"
  obtain sig where "cp_sign_rsa_pss_sha256 (lv_crypto env) ?k
      (nmb_message ''audit-record'' (hash_record (lv_crypto env) ac r (al_previous_hash l))) = Ok sig"
    using library_facts(1) [OF lib] by (auto simp: keys_work_def is_ok_iff)
  then obtain e where e: "make_envelope (lv_crypto env) ac (al_signing_key l) r (al_previous_hash l) = Ok e"
    using key by (simp add: make_envelope_def sign_envelope_def sign_nmb_binding_def seal_def Let_def)
  moreover obtain s1 where s1: "snk_append_record ops r (al_sink l) = (Ok (), s1)" using rec by blast
  moreover obtain s2 where "snk_append_envelope ops e s1 = (Ok (), s2)" using envel [OF e] by blast
  ultimately have "log_record (lv_crypto env) ac ops r l = (Ok (), l\<lparr>al_sink := s2, al_previous_hash := ae_record_hash e,
      al_envelopes := al_envelopes l @ [e]\<rparr>)" by (simp add: log_record_def)
  then show thesis by (rule that) (simp_all add: log_len_def)
qed

lemma verify_unsigned:
  "verify_envelopes cp ac vk h es = Ok () \<Longrightarrow> verify_envelopes cp ac None h es = Ok ()"
  by (induction es arbitrary: h) (auto simp: and_then_Inr_iff verify_step_def)

lemma memory_sink_takes:
  "\<exists>s'. snk_append_record memory_sink_ops r s = (Ok (), s')" "\<exists>s'. snk_append_envelope memory_sink_ops e s = (Ok (), s')"
  by (simp_all add: memory_sink_ops_def memory_append_record_def default_append_envelope_def)

lemma memory_audit_works:
  assumes lib: "labeling_libraries env ring"
  shows "memory_audit_ok env ring"
proof -
  let ?l = "with_signing_key (lv_crypto env) (kp_signing (kr_nmb ring)) (audit_log_new ([] :: memory_sink))"
  have key: "al_signing_key ?l = Some (kp_signing (kr_nmb ring))" by (simp add: signed_log(1) [OF lib])
  obtain l' where l': "log_record (lv_crypto env) (lv_audit_codec env) memory_sink_ops (checker_record env) ?l = (Ok (), l')"
      "log_len l' = Suc (log_len ?l)"
    using signed_record [OF lib key memory_sink_takes] .
  then have "log_verify_chain (lv_crypto env) (lv_audit_codec env) l' = Ok ()"
    using log_wf_record [OF signed_log(2) [OF lib] l'(1)] by (simp add: log_wf_def)
  moreover have "log_len ?l = 0" unfolding signed_log(1) [OF lib] by (simp add: log_len_def audit_log_new_def)
  moreover have "is_ok (export_siem (lv_siem_pretty env) l')"
    using lib by (simp add: labeling_libraries_def export_siem_def export_siem_json_def)
  ultimately show ?thesis using l' by (simp add: memory_audit_ok_def log_len_def)
qed

lemma file_audit_works:
  assumes lib: "labeling_libraries env ring"
  shows "file_audit_ok env ring = Some True"
proof -
  let ?cp = "lv_crypto env" and ?ac = "lv_audit_codec env"
  let ?l = "with_signing_key ?cp (kp_signing (kr_nmb ring)) (audit_log_new (file_sink_open None))"
  have texts: "audit_texts_work env (kp_signing (kr_nmb ring))" using lib by (simp add: labeling_libraries_def)
  have key: "al_signing_key ?l = Some (kp_signing (kr_nmb ring))" "al_previous_hash ?l = ''GENESIS''"
    unfolding signed_log(1) [OF lib] by (simp_all add: audit_log_new_def)
  have append: "\<exists>s'. snk_append_record (file_sink_ops ?ac) r s = (Ok (), s')" for r s
    by (simp add: file_sink_ops_def default_append_record_def)
  have envel: "\<exists>s'. snk_append_envelope (file_sink_ops ?ac) e s = (Ok (), s')"
    if made: "make_envelope ?cp ?ac (al_signing_key ?l) (checker_record env) (al_previous_hash ?l) = Ok e" for e s
  proof -
    obtain line where "ac_envelope_json ?ac e = Ok line" using texts made unfolding key by (auto simp: audit_texts_work_def)
    then show ?thesis by (simp add: file_sink_ops_def file_append_envelope_def)
  qed
  obtain l' where l': "log_record ?cp ?ac (file_sink_ops ?ac) (checker_record env) ?l = (Ok (), l')"
      "log_len l' = Suc (log_len ?l)"
    using signed_record [OF lib key(1) append envel] by blast
  have empty: "al_envelopes ?l = []" "fsk_file (al_sink ?l) = []"
    unfolding signed_log(1) [OF lib] by (simp_all add: audit_log_new_def file_sink_open_def)
  from l'(1) obtain e line where e: "al_envelopes l' = [e]" "ac_envelope_json ?ac e = Ok line"
      "fsk_file (al_sink l') = line @ [CHR 0x0A]"
      "make_envelope ?cp ?ac (Some (kp_signing (kr_nmb ring))) (checker_record env) ''GENESIS'' = Ok e"
    using empty key by (auto simp: log_record_def file_sink_ops_def default_append_record_def file_append_envelope_def
        split: sum.splits)
  moreover from e(2,4) texts have "line_text line" "trim line \<noteq> []" "ac_envelope_parse ?ac line = Ok e"
    by (auto simp: audit_texts_work_def)
  moreover from this have "read_lines (line @ [CHR 0x0A]) = [line]" using read_lines_concat [of "[line]"] by simp
  ultimately have "load_from_file ?ac (Some (fsk_file (al_sink l'))) =
      Ok \<lparr>al_sink = file_sink_open (Some (fsk_file (al_sink l'))), al_previous_hash = last_hash (al_envelopes l'),
          al_envelopes = al_envelopes l', al_signing_key = None, al_verifying_key = None\<rparr>" (is "_ = Ok ?back")
    by (simp add: load_from_file_def file_sink_open_def parse_envelopes_def)
  moreover have "log_verify_chain ?cp ?ac l' = Ok ()"
    using log_wf_record [OF signed_log(2) [OF lib] l'(1)] by (simp add: log_wf_def)
  then have "log_verify_chain ?cp ?ac ?back = Ok ()"
    by (auto simp: log_verify_chain_def dest: verify_unsigned)
  moreover have "lv_temp_file env = Ok None" using lib by (simp add: labeling_libraries_def)
  ultimately show ?thesis using l' empty by (simp add: file_audit_ok_def log_len_def)
qed

lemma audit_trail_compliant:
  assumes lib: "labeling_libraries env ring"
  shows "\<exists>d. check_audit_trail env ring q = Some d \<and> lr_status d = LsCompliant"
  using memory_audit_works [OF lib] file_audit_works [OF lib] by (simp add: check_audit_trail_def policy_result_compliant)

section \<open>The transfer\<close>

lemma transfer_released:
  fixes env :: "'s labeling_env" and genv :: "'s audit_env"
  assumes lib: "labeling_libraries env ring"
    and inbound: "assertion_bound (lv_codec env) (lv_crypto env) checker_label mim_payload (kp_signing (kr_nmb ring)) = Ok inbound"
  shows "\<exists>xml man zip l. execute (lv_ztdf env) rnd genv (memory_audit_env env) st (dcs_transfer (configured_guard :: 's cross_domain_guard) inbound ring)
      configured_guard (with_signing_key (lv_crypto env) (kp_signing (kr_nmb ring)) (audit_log_new [])) =
      (Ok (Released xml mim_payload man zip), configured_guard, l) \<and> log_len l = 2 \<and>
      log_verify_chain (lv_crypto env) (lv_audit_codec env) l = Ok ()"
proof -
  let ?env = "lv_ztdf env" and ?t = "dcs_transfer (configured_guard :: 's cross_domain_guard) inbound ring" and ?nmb = "kr_nmb ring"
  let ?l0 = "with_signing_key (lv_crypto env) (kp_signing ?nmb) (audit_log_new ([] :: memory_sink))"
  let ?rec = "\<lambda>r l. record_audit (memory_audit_env env) r (cg_accredited (configured_guard :: 's cross_domain_guard)) l"
  note w = library_facts(3) [OF lib] and acc = capco_and_uk_accepted(4)
  have bound: "mb_method (bd_binding inbound) = Assertion"
      "bdo_verify (lv_codec env) (lv_crypto env) (ze_files ?env) inbound mim_payload (Some (kp_verifying ?nmb)) = Ok ()"
    using assertion_bound_created [OF library_facts(2) [OF lib] capco_and_uk_accepted(3) library_facts(1,4) [OF lib],
        of mim_payload "ze_files ?env"] inbound by auto
  obtain r where r: "guard_evaluate genv (st 1) checker_label configured_guard = (Ok r, configured_guard)"
      "gr_decision r = GuardDowngrade" "gr_effective_label r = Some restricted_label"
    using guard_decisions(1) by blast
  obtain b where b: "assertion_bound (lv_codec env) (lv_crypto env) restricted_label mim_payload (kp_signing ?nmb) = Ok b"
      "bdo_verify (lv_codec env) (lv_crypto env) (ze_files ?env) b mim_payload (Some (kp_verifying ?nmb)) = Ok ()"
    using assertion_bound_created [OF w acc library_facts(1,4) [OF lib]] by blast
  obtain pkg where pkg: "package_create ?env rnd restricted_label mim_payload (kp_signing ?nmb) (kp_verifying ?nmb)
        (kp_verifying (kr_kas ring)) = Ok pkg" "manifest_validate (zk_manifest pkg) = Ok ()"
      "verify_binding_plaintext ?env pkg mim_payload (kp_verifying ?nmb) = Ok ()"
    using package_created [OF lib w acc] by blast
  obtain xml where "codec_serialize (lv_codec env) restricted_label Xml = Ok xml"
    using writable_texts [OF w label_accepted_valid [OF acc]] by blast
  with b pkg r(3) have build: "build_release ?env rnd ?t r = Ok (restricted_label, xml, pkg)"
    by (simp add: build_release_def dcs_transfer_def verify_release_def)
  have "is_ok (package_manifest_json ?env pkg)" "is_ok (to_zip_bytes ?env pkg)"
  proof -
    obtain man where man: "zc_manifest_json (ze_format ?env) (zk_manifest pkg) = Ok man"
      using lib unfolding labeling_libraries_def is_ok_iff by blast
    then show "is_ok (package_manifest_json ?env pkg)" by (simp add: package_manifest_json_def ztdf_manifest_to_json_def)
    obtain archive where "zc_zip_write (ze_format ?env) [(MANIFEST_ENTRY, man), (PAYLOAD_ENTRY, zk_encrypted_payload pkg)] = Ok archive"
      using lib unfolding labeling_libraries_def is_ok_iff by blast
    with man show "is_ok (to_zip_bytes ?env pkg)" by (simp add: to_zip_bytes_def ztdf_manifest_to_json_def)
  qed
  then obtain man zip where out: "released_outcome ?env ?t xml pkg = Ok (Released xml mim_payload (Some man) (Some zip))"
    by (auto simp: released_outcome_def is_ok_iff dcs_transfer_def)
  have recorded: "\<exists>l'. ?rec x l = (Ok (), l') \<and> log_len l' = Suc (log_len l) \<and> al_signing_key l' = al_signing_key l \<and>
      (log_wf (lv_crypto env) (lv_audit_codec env) l \<longrightarrow> log_wf (lv_crypto env) (lv_audit_codec env) l')"
    if key: "al_signing_key l = Some (kp_signing ?nmb)" for x l
  proof -
    obtain l' where l': "log_record (lv_crypto env) (lv_audit_codec env) memory_sink_ops x l = (Ok (), l')"
        "log_len l' = Suc (log_len l)" "al_signing_key l' = al_signing_key l"
      using signed_record [OF lib key memory_sink_takes] .
    with log_wf_record [OF _ l'(1)] show ?thesis by (simp add: record_audit_def memory_audit_env_def)
  qed
  have key0: "al_signing_key ?l0 = Some (kp_signing ?nmb)" unfolding signed_log(1) [OF lib] by simp
  obtain l1 where l1: "?rec (evaluate_record ?env (st 0) ?t) ?l0 = (Ok (), l1)" "log_len l1 = Suc (log_len ?l0)"
      "al_signing_key l1 = al_signing_key ?l0" "log_wf (lv_crypto env) (lv_audit_codec env) l1"
    using recorded [OF key0] signed_log(2) [OF lib] by metis
  obtain l2 where l2: "?rec (release_record ?env (st 2) ?t r restricted_label) l1 = (Ok (), l2)"
      "log_len l2 = Suc (log_len l1)" "log_wf (lv_crypto env) (lv_audit_codec env) l2"
    using recorded [of l1] l1(3,4) key0 by metis
  have "log_len ?l0 = 0" unfolding signed_log(1) [OF lib] by (simp add: log_len_def audit_log_new_def)
  with l1 l2 have "log_len l2 = 2" "log_verify_chain (lv_crypto env) (lv_audit_codec env) l2 = Ok ()"
    by (simp_all add: log_wf_def)
  moreover have "validate_domain_pair (ct_source_domain ?t) (ct_target_domain ?t) = Ok ()"
    by (simp add: validate_domain_pair_Ok_iff dcs_transfer_def configured_guard_def configured_facts validate_domain_id_def)
  moreover have "conclude ?env rnd (memory_audit_env env) (st 2) (cg_accredited (configured_guard :: 's cross_domain_guard)) ?t r l1 =
      (Ok (Released xml mim_payload (Some man) (Some zip)), l2)"
    using l2(1) build out r(2) by (simp add: conclude_def)
  moreover have "ct_inbound_binding ?t = inbound" "ct_payload ?t = mim_payload" "ct_label ?t = checker_label"
      "ct_nmb_verifying_key ?t = kp_verifying ?nmb" by (simp_all add: dcs_transfer_def)
  ultimately show ?thesis using bound l1(1) r(1) by (simp add: execute_def)
qed

lemma dcs_compliant:
  fixes env :: "'s labeling_env"
  assumes lib: "labeling_libraries env ring"
  shows "\<exists>d. check_dcs env ring q = Some d \<and> lr_status d = LsCompliant"
proof -
  obtain inbound where inbound: "assertion_bound (lv_codec env) (lv_crypto env) checker_label mim_payload
      (kp_signing (kr_nmb ring)) = Ok inbound"
    using assertion_bound_created [OF library_facts(2) [OF lib] capco_and_uk_accepted(3) library_facts(1,4) [OF lib]] by blast
  obtain xml man zip l where run: "execute (lv_ztdf env) (lv_entropy env 1) (lv_guard_audit env) (memory_audit_env env)
      (lv_stamp env) (dcs_transfer (configured_guard :: 's cross_domain_guard) inbound ring) configured_guard
      (with_signing_key (lv_crypto env) (kp_signing (kr_nmb ring)) (audit_log_new [])) =
      (Ok (Released xml mim_payload man zip), configured_guard, l)" "log_len l = 2"
      "log_verify_chain (lv_crypto env) (lv_audit_codec env) l = Ok ()"
    using transfer_released [OF lib inbound] by blast
  obtain r where "guard_evaluate (lv_guard_audit env) (lv_stamp env 3) german_label configured_guard = (Ok r, configured_guard)"
      "gr_decision r = GuardDeny"
    using guard_decisions(2) by blast
  with run have "dcs_observations env ring configured_guard inbound = (True, True, True)"
    by (simp add: dcs_observations_def)
  with inbound show ?thesis by (simp add: check_dcs_def preset_guard_built status_compliant)
qed

section \<open>Acceptance\<close>

lemma contains_prefix: "contains_str s (p @ q) \<Longrightarrow> contains_str s p"
proof (induction s)
  case (Cons c s)
  then show ?case by (auto simp: starts_with_iff)
qed simp

lemma fips_compliant: "lr_status (check_fips_crypto env q) = LsCompliant \<longleftrightarrow>
    \<not> lq_fips_crypto q \<or> contains_str (lv_provider_name env) ''FIPS''"
  using contains_prefix [of "lv_provider_name env" "''FIPS''" "'' 140-3 validated''"]
  by (auto simp: check_fips_crypto_def fips_grade_def status_compliant)

text \<open>
  C39: given libraries that print what can be read back, sign and encrypt, the acceptance check of the labelling stack
  runs to its end without a panic, and every dimension is compliant except that of the cryptographic provider, which is
  compliant exactly when it is not required or the name of the provider contains FIPS. So the report is fully compliant
  exactly then.
\<close>

theorem labeling_stack_accepted:
  assumes lib: "labeling_libraries env ring"
  shows "\<exists>r. labeling_evaluate env q = Some r \<and>
    (lb_is_fully_compliant r \<longleftrightarrow> \<not> lq_fips_crypto q \<or> contains_str (lv_provider_name env) ''FIPS'') \<and>
    (\<forall>d \<in> set (lb_dimensions r). lr_status d = LsCompliant \<or> d = check_fips_crypto env q)"
proof -
  obtain dcs where dcs: "check_dcs env ring q = Some dcs" "lr_status dcs = LsCompliant" using dcs_compliant [OF lib] by blast
  obtain audit where audit: "check_audit_trail env ring q = Some audit" "lr_status audit = LsCompliant"
    using audit_trail_compliant [OF lib] by blast
  have "conformance_key_ring (lv_crypto env) (lv_fixtures env) = Ok ring" using lib by (simp add: labeling_libraries_def)
  with dcs audit show ?thesis
    by (auto simp: labeling_evaluate_def labeling_dimensions_def code_alone_compliant stanag4774_compliant [OF lib]
        stanag4778_compliant [OF lib] ztdf_compliant [OF lib] assertion_binding_compliant [OF lib] fips_compliant)
qed

section \<open>A run\<close>

text \<open>Libraries for the two labels of the check, with a constant digest and the sample content cryptography.\<close>

definition accept_codec :: label_codec where
  "accept_codec =
     \<lparr>lx_write = (\<lambda>es. if es = label_events checker_label then Ok ''0''
        else if es = label_events restricted_label then Ok ''1'' else Err ''unsupported''),
      lx_read = (\<lambda>t. map Ok (label_events (if t = ''0'' then checker_label else restricted_label))),
      lx_xmllint = (\<lambda>_. Ok ()), lx_datetime = Ok,
      lx_json_write = (\<lambda>v. if v = to_json_value checker_label then Ok ''0''
        else if v = to_json_value restricted_label then Ok ''1'' else Err ''unsupported''),
      lx_json_read = (\<lambda>t. Ok (to_json_value (if t = ''0'' then checker_label else restricted_label)))\<rparr>"

definition accept_env :: "string \<Rightarrow> memory_sink labeling_env" where
  "accept_env name =
     \<lparr>lv_ztdf = \<lparr>ze_codec = accept_codec, ze_crypto = toy_provider\<lparr>cp_hash_sha256 := \<lambda>_. ''h''\<rparr>, ze_content = toy_content,
        ze_format = toy_format\<lparr>zc_manifest_json := \<lambda>_. Ok ''m'', zc_zip_write := \<lambda>_. Ok ''z''\<rparr>, ze_files = (\<lambda>_. Err ''no files'')\<rparr>,
      lv_audit_codec =
        \<lparr>ac_record_json = (\<lambda>_. None), ac_envelope_json = (\<lambda>_. Ok ''e''),
         ac_envelope_parse = (\<lambda>_. Ok
           \<lparr>ae_record = audit_record_new (''id'', ''now'') EvCrossDomainEvaluate ''checker'' checker_label ''audit-test''
              ''evaluate'' ''audit trail smoke test'',
            ae_previous_hash = ''GENESIS'', ae_record_hash = ''h'',
            ae_signature = Some \<lparr>as_algorithm = NMBS_ALGORITHM, as_key_id = ''nmb-conformance-key-1'',
              as_signature = ''daudit-record|h''\<rparr>\<rparr>)\<rparr>,
      lv_siem_pretty = (\<lambda>_. Ok ''s''), lv_provider_name = name, lv_fixtures = \<lparr>fx_nmb_der = ''d'', fx_kas_der = ''d''\<rparr>,
      lv_config = memory_config_env, lv_guard_audit = toy_aenv,
      lv_entropy = (\<lambda>_. \<lparr>zr_key = ''a'', zr_iv = ''b'', zr_wrap = ''c''\<rparr>), lv_stamp = (\<lambda>_. (''id'', ''now'')),
      lv_temp_file = Ok None\<rparr>"

definition accept_ring :: nmb_key_ring where
  "accept_ring =
     \<lparr>kr_nmb = \<lparr>kp_signing = \<lparr>sk_key_id = ''nmb-conformance-key-1'', sk_der = ''d''\<rparr>,
        kp_verifying = \<lparr>vk_key_id = ''nmb-conformance-key-1'', vk_der = ''d''\<rparr>\<rparr>,
      kr_kas = \<lparr>kp_signing = \<lparr>sk_key_id = ''kas-conformance-key-1'', sk_der = ''d''\<rparr>,
        kp_verifying = \<lparr>vk_key_id = ''kas-conformance-key-1'', vk_der = ''d''\<rparr>\<rparr>\<rparr>"

lemma accept_labels_plain: "plain_label accept_codec checker_label" "plain_label accept_codec restricted_label"
  by (simp_all add: plain_label_def checker_label_def restricted_label_def conf_label_new_def model_simps
      releasable_to_marking_def label_events_def write_confidentiality_information_def write_policy_def
      write_text_element_def write_optional_def write_category_def root_attributes_def plain_text_def plain_attribute_def
      xml_blank_def NAMESPACE_def nato_policy_oid_def times_parse_def accept_codec_def)

lemma accept_codec_works:
  "xml_laws accept_codec" "json_laws accept_codec" "label_writable accept_codec checker_label"
  "label_writable accept_codec restricted_label"
proof -
  show "xml_laws accept_codec" by (auto simp: xml_laws_def accept_codec_def split: if_splits)
  show "json_laws accept_codec" by (auto simp: json_laws_def accept_codec_def equiv_refl split: if_splits)
  have "schema_accepts accept_codec t" for t by (simp add: schema_accepts_def validate_stanag4774_xsd_def accept_codec_def)
  with accept_labels_plain show "label_writable accept_codec checker_label" "label_writable accept_codec restricted_label"
    by (auto simp: label_writable_def accept_codec_def)
qed

lemma accept_libraries: "labeling_libraries (accept_env name) accept_ring"
proof -
  let ?env = "accept_env name" and ?cp = "toy_provider\<lparr>cp_hash_sha256 := \<lambda>_. ''h''\<rparr>"
  have env: "lv_codec ?env = accept_codec" "lv_crypto ?env = ?cp" "ze_content (lv_ztdf ?env) = toy_content"
    by (simp_all add: accept_env_def)
  have ring: "conformance_key_ring ?cp (lv_fixtures ?env) = Ok accept_ring"
    by (simp add: accept_env_def conformance_key_ring_def conformance_keypair_def conformance_kas_keypair_def
        key_pair_from_pkcs8_def signing_key_from_pkcs8_def verifying_key_from_spki_def toy_provider_def accept_ring_def)
  have keys: "keys_work ?cp (kr_nmb accept_ring)"
    by (auto simp: keys_work_def crypto_laws_def toy_provider_def accept_ring_def sha256_base64_def)
  have content: "content_works toy_content (kr_kas accept_ring)"
    using toy_content_laws by (simp add: content_works_def) (simp add: toy_content_def)
  have "trim ''e'' \<noteq> []" by code_simp
  then have audit: "audit_texts_work ?env (kp_signing (kr_nmb accept_ring))"
    by (simp add: audit_texts_work_def make_envelope_def sign_envelope_def seal_def sign_nmb_binding_def nmb_message_def
        hash_record_def sha256_base64_def checker_record_def line_text_def accept_env_def accept_ring_def toy_provider_def Let_def)
  show ?thesis
    using ring keys content audit accept_codec_works
    by (simp add: labeling_libraries_def env) (simp add: accept_env_def)
qed

lemma labeling_stack_accepted_witness:
  "(\<exists>r. labeling_evaluate (accept_env ''aws-lc-rs (FIPS)'') labeling_requirements_default = Some r \<and> lb_is_fully_compliant r) \<and>
   (\<exists>r. labeling_evaluate (accept_env ''ring'') labeling_requirements_default = Some r \<and> \<not> lb_is_fully_compliant r)"
proof -
  have names: "contains_str ''aws-lc-rs (FIPS)'' ''FIPS''" "\<not> contains_str ''ring'' ''FIPS''" by code_simp+
  have "lv_provider_name (accept_env n) = n" "lq_fips_crypto labeling_requirements_default" for n
    by (simp_all add: accept_env_def labeling_requirements_default_def)
  then show ?thesis
    using names labeling_stack_accepted [OF accept_libraries, of "''aws-lc-rs (FIPS)''" labeling_requirements_default]
      labeling_stack_accepted [OF accept_libraries, of "''ring''" labeling_requirements_default] by fastforce
qed

end
