(* ===== verification/Spec2Isabelle.thy ===== *)
theory Spec2Isabelle
  imports Mim_Core Model_Registry Labeling Spif Spif_Xml Policy_Store Spif_Admin Policy_Decision Policy_Enforcement Crypto
    Audit_Log Audit_Worm Runtime Transport_Filter Broker Secured_Broker Replication Persistence Stanag4774 Binding Ztdf Guard Domain_Transfer
    Siem Serialize Subject_Identity Runtime_Pki Wire Http_Routes Http_Service Http_Server Import_Cli Compliance Labeling_Compliance
    Labeling_Acceptance
begin

text \<open>
  Verification of the AINextGenC2 stack: a Rust workspace for the exchange of MIP Information Model (MIM)
  objects between coalition partners, with confidentiality labels, a policy plane and cryptographic
  bindings. All paths below are under \<open>src/crates/\<close>.

  \<^bold>\<open>The program.\<close>
  A manifest of the MIM (\<open>mim-model\<close>, written by \<open>mim-import\<close>) becomes a registry of classes and elements.
  Instances of these classes (\<open>mim-runtime\<close>) are validated against the registry and exchanged through
  a broker (\<open>mim-transport\<close>), which journals every put and delete; a consumer replicates a publisher by
  reading the journal, directly or over HTTP (\<open>mim-transport-http\<close>). Every operation of the secured broker
  asks the enforcement point of the policy plane (\<open>mim-policy\<close>), which assembles a context from the
  subject directory and the policy store, lets the decision point decide on labels (\<open>mim-labeling\<close>) and
  writes an audit record (\<open>mim-audit\<close>). Labels are encoded by STANAG 4774, bound to data by STANAG 4778 and
  packaged with encrypted content as ZTDF (\<open>mim-stanag4774\<close>, \<open>mim-stanag4778\<close>, \<open>mim-ztdf\<close>, over
  \<open>mim-crypto\<close>). A guard (\<open>mim-dcs\<close>) decides transfers between security domains and seals what it releases.

  \<^bold>\<open>The theories.\<close> Data are records and datatypes with the fields and constructors of the code; a
  function that may fail answers a sum whose left part is the error with the code's message; a function
  that changes state takes the state and answers it with its result.

  \<^item> \<open>Rust_Prelude\<close>, \<open>Rust_Strings\<close>: \<open>Result\<close> and \<open>?\<close>, iteration with early exit, and the string
    operations of the standard library on UTF-8 byte strings (\<open>trim\<close>, \<open>split_once\<close>, \<open>replace\<close>, ...), with the
    lemmas all components share. \<open>Index_Map\<close>: the insertion-ordered map behind every registry and store; its
    contract is the locale \<open>insertion_map\<close>, interpreted on the association list that implements it.
  \<^item> \<open>Mim_Core\<close> (\<open>mim-core/src\<close>), \<open>Mim_Model\<close> (\<open>mim-model/src/{taxonomy,codelist,manifest,metadata}.rs\<close>),
    \<open>Model_Registry\<close> (\<open>mim-model/src/registry.rs\<close>): identifiers, nil reasons, the manifest and the registry.
    The ancestor walk is a loop that need not end, hence a \<open>partial_function (option)\<close>; it returns for
    every class exactly when the parent relation is acyclic, and then returns the transitive parents.
  \<^item> \<open>Labeling\<close> (\<open>mim-labeling/src\<close>): the levels as a linear order, policies, labels and domains.
  \<^item> \<open>Spif\<close>, \<open>Spif_Xml\<close> (\<open>mim-spif/src\<close>), \<open>Spif_Admin\<close> (\<open>mim-policy/src/spif_admin.rs\<close>): security policy files, their
    reader as a state machine over XML events, registry and validator, and the administration from them.
  \<^item> \<open>Policy_Store\<close> (\<open>mim-policy/src/{error,context,downgrade,store,pap}.rs\<close>), \<open>Policy_Decision\<close>
    (\<open>pip.rs\<close>, \<open>pdp.rs\<close>), \<open>Policy_Enforcement\<close> (\<open>pep.rs\<close>), \<open>Subject_Identity\<close> (\<open>ldap_pip.rs\<close>, \<open>live_ldap.rs\<close>,
    \<open>saml_pip.rs\<close>, \<open>subject_resolver.rs\<close>): the policy plane. Integrity of the store is an invariant of every
    run of administrative operations; the decision is characterised on every branch; a downgrade is a
    meet; enforcement is the decision plus one audit record. The locale \<open>subject_directory\<close> states what a
    resolver promises of the subjects it answers and is interpreted on the fixture directory.
  \<^item> \<open>Crypto\<close>, \<open>Runtime_Pki\<close> (\<open>mim-crypto/src/{error,keys,provider,hash,pki,runtime_pki}.rs\<close>): keys, key rings and
    trust stores, the binding signature, and the loading of key material in both modes.
  \<^item> \<open>Audit_Log\<close>, \<open>Audit_Worm\<close>, \<open>Siem\<close> (\<open>mim-audit/src\<close>): the chain of envelopes, the log over its sinks (locale
    \<open>audit_sink\<close>, interpreted on the memory, file and write-once sinks), and the export with its retry loop.
  \<^item> \<open>Runtime\<close>, \<open>Serialize\<close> (\<open>mim-runtime/src\<close>): instances, store, validation, and the JSON, JSON-LD and XML
    forms with their round trip.
  \<^item> \<open>Transport_Filter\<close>, \<open>Broker\<close>, \<open>Secured_Broker\<close>, \<open>Replication\<close>, \<open>Persistence\<close>, \<open>Wire\<close> (\<open>mim-transport/src\<close>): filters, the
    broker as a state machine (\<open>reachable\<close>) whose journal explains its state, the secured broker, the four
    pulls, snapshots, and the wire profile. The locale \<open>journal_publisher\<close> states what a consumer needs of a
    publisher; it is interpreted on the local publisher, on a subject's local publisher and on the subject's
    publisher over the secured broker.
  \<^item> \<open>Stanag4774\<close> (\<open>mim-stanag4774/src\<close>), \<open>Binding\<close> (\<open>mim-stanag4778/src\<close>), \<open>Ztdf\<close> (\<open>mim-ztdf/src\<close>): label encodings,
    bindings and packages, with round trips, and what a signature does and does not cover.
  \<^item> \<open>Guard\<close>, \<open>Domain_Transfer\<close> (\<open>mim-dcs/src\<close>): the guard, its configuration, the transfer, the receipt and the
    labelled exchange.
  \<^item> \<open>Http_Routes\<close>, \<open>Http_Service\<close>, \<open>Http_Server\<close> (\<open>mim-transport-http/src\<close>): the handlers, what they guarantee, and
    the service as a step relation (\<open>service_step\<close>, \<open>service_run\<close>) in which requests and notifications interleave; a run
    carries the list of its events, and what the service stores is traced to them.
  \<^item> \<open>Xml_Events\<close>, \<open>Ordered_Map\<close>: what the XML readers share, and the ordered map and set of the importer (locale
    \<open>sorted_map\<close>, interpreted on sorted association lists).
  \<^item> \<open>Owl_Model\<close>, \<open>Owl_Reader\<close>, \<open>Owl_Domains\<close> (\<open>mim-import/src/owl.rs\<close>), \<open>Owl_Import\<close>, \<open>Import_Guarantees\<close>
    (\<open>mapper.rs\<close>), \<open>Import_Cli\<close> (\<open>fetch.rs\<close>, \<open>main.rs\<close>): the ontology, its reader as a state machine, the work lists
    over the class hierarchy, the resolution of property domains in rounds, the manifest made of an ontology, and the
    command around it.
  \<^item> \<open>F64\<close>: the rounding of \<open>f64\<close>, with what the code relies on as the locale \<open>f64_rounding\<close>. \<open>Compliance\<close>
    (\<open>mim-compliance/src\<close>): the eight graded dimensions of a stack. \<open>Labeling_Compliance\<close>, \<open>Labeling_Acceptance\<close>
    (\<open>mim-labeling-compliance/src\<close>): the twelve checks of the labelling stack on fixed labels, a panic of an
    \<open>expect\<close> being \<open>None\<close>, and the proof that with libraries that keep their contracts the report is fully compliant
    exactly when the provider names FIPS or need not.

  \<^bold>\<open>Properties.\<close> The numbered properties stand in the theory of the component they are about, after the
  lemmas they rest on; each with a hypothesis is followed by a witness that applies it to concrete data.
  Some state what the code does against its intent: the label of a verified binding can be replaced, the
  label stated in a package is not signed, a transfer is decided on the claimed label, an XML put drops its
  label, a label comes back from XML under a policy that allows every level, the trust stores of production nodes
  verify no binding of a production node, an import pads the taxonomy also where the documentation promises it does
  not, and without a seed and a class Object the padded manifest is one that the registry refuses.

  \<^bold>\<open>Bounds and termination.\<close> Sequence numbers and delays are 64-bit words with saturating addition, and the
  invariants read them as \<open>min (length journal) (2 ^ 64 - 1)\<close>. Loops over lists are structural recursions; \<open>str_replace\<close>, the splitting of
  texts, the filter parser, the XML readers and the work lists of the importer are \<open>function\<close>s with a measure. The
  ancestor walk and the loops of the importer that append synthetic classes can fail to return, which is the value
  \<open>None\<close>; the walk returns exactly on acyclic registries, and the import of a parsed ontology always returns. The
  counter of synthetic classes is a 32-bit word that wraps, as in a release build. No fuel is used.

  \<^bold>\<open>Parameters.\<close> Code outside the repository is an argument, with what the program relies on as a
  hypothesis and a concrete instance in the witness: the cryptographic primitives (\<open>crypto_provider\<close>: what one
  key of a pair signs the other verifies; AES-GCM decrypts what it encrypted), the JSON, TOML, zip, PEM and
  date libraries (a printer and a reader that recovers what was printed), the XML library (texts to
  events), xmllint, LDAP and HTTP calls, the file system, clocks, random identifiers and nonces, the
  iteration order of hash sets, the f32 weights of content negotiation, name-based UUIDs and the coverage ratio of the
  importer, and the decimal form of a floating-point number.
  A section under a lock is one step. The audit log held by a guard or a broker and the log of its caller are
  different states and are passed separately.

  \<^bold>\<open>Not modelled.\<close>
  \<^item> The provider back ends (\<open>mim-crypto/src/{ring,fips}_backend.rs\<close>) and \<open>mim-transport-http/src/tls.rs\<close>: calls of
    ring, AWS-LC and rustls; the provider is a parameter.
  \<^item> \<open>mim-runtime/src/xsd.rs\<close>: prints a schema text that nothing reads.
  \<^item> \<open>mim-transport/src/replication_notify.rs\<close>: threads that post a number and drop the answer; the list of
    addresses and the number are outputs of the put handler.
  \<^item> The accept loop, the TLS acceptor and axum itself; the route table and the handlers are modelled.
  \<^item> \<open>mim-adatp-conformance\<close>, \<open>mim-mip4-conformance\<close>: checklists that call the modelled operations on fixed inputs
    and print a report.
  \<^item> \<open>ainextgenc2\<close>: command line and demonstrations that assemble the modelled parts with fixed data.
  \<^item> The derive-generated serde code.
\<close>

end
